(* ===== verification/Py_Prelude.thy ===== *)
theory Py_Prelude
  imports Main "HOL-Library.Char_ord" "HOL-Library.List_Lexorder"
begin

text \<open>
  Shared vocabulary of the development: the Python values that cross the contracts of
  \<open>github_automation\<close> (as \<open>json.loads\<close> or keyword arguments deliver them), Python's
  equality and truth value on them, dictionaries as ordered association lists, the regular
  expressions of the source as predicates, exceptions as the left side of a sum, SQL tables as
  lists of rows, and two locales: one for an UPDATE that keeps a table's primary key, one for a
  machine whose steps keep an invariant and a family of facts that never become false again.

  Strings are lists of code points below 256. Integers are unbounded. Values with a fractional
  part are not in \<open>pyval\<close>: no contract modelled here accepts one.
\<close>

named_theorems py_simps \<open>unfolding rules of the Python vocabulary\<close>
named_theorems py_splits \<open>case splits used by the guard chains\<close>

section \<open>Instants and Python values\<close>

text \<open>
  A \<open>datetime\<close> is an instant in microseconds since the epoch; only a timezone-aware one
  names a point of the UTC time line (\<open>astimezone(timezone.utc)\<close> keeps the instant).
\<close>

type_synonym instant = int

datatype pydatetime = Aware instant | Naive instant

datatype pyval =
    PNone
  | PBool bool
  | PInt int
  | PStr string
  | PTime pydatetime
  | PList "pyval list"
  | PDict "(string \<times> pyval) list"

type_synonym pydict = "(string \<times> pyval) list"

abbreviation seconds :: "int \<Rightarrow> int" where
  "seconds n \<equiv> n * 1000000"

abbreviation minutes :: "int \<Rightarrow> int" where
  "minutes n \<equiv> n * 60000000"

text \<open>\<open>bool\<close> is a subclass of \<open>int\<close>: \<open>True == 1\<close> and \<open>isinstance(True, int)\<close>.\<close>

fun py_num :: "pyval \<Rightarrow> int option" where
  "py_num (PInt i) = Some i"
| "py_num (PBool b) = Some (if b then 1 else 0)"
| "py_num _ = None"

fun py_eq :: "pyval \<Rightarrow> pyval \<Rightarrow> bool"
and py_eq_list :: "pyval list \<Rightarrow> pyval list \<Rightarrow> bool"
and py_eq_dict :: "(string \<times> pyval) list \<Rightarrow> (string \<times> pyval) list \<Rightarrow> bool" where
  "py_eq PNone w = (w = PNone)"
| "py_eq (PBool b) w = (py_num w = Some (if b then 1 else 0))"
| "py_eq (PInt i) w = (py_num w = Some i)"
| "py_eq (PStr s) w = (w = PStr s)"
| "py_eq (PTime t) w = (w = PTime t)"
| "py_eq (PList xs) w = (case w of PList ys \<Rightarrow> py_eq_list xs ys | _ \<Rightarrow> False)"
| "py_eq (PDict d) w =
     (case w of PDict e \<Rightarrow> length d = length e \<and> py_eq_dict d e | _ \<Rightarrow> False)"
| "py_eq_list [] ys = (ys = [])"
| "py_eq_list (x # xs) ys =
     (case ys of [] \<Rightarrow> False | y # ys' \<Rightarrow> py_eq x y \<and> py_eq_list xs ys')"
| "py_eq_dict [] e = True"
| "py_eq_dict ((k, v) # d) e =
     (case map_of e k of None \<Rightarrow> False | Some w \<Rightarrow> py_eq v w \<and> py_eq_dict d e)"

fun py_truthy :: "pyval \<Rightarrow> bool" where
  "py_truthy PNone = False"
| "py_truthy (PBool b) = b"
| "py_truthy (PInt i) = (i \<noteq> 0)"
| "py_truthy (PStr s) = (s \<noteq> [])"
| "py_truthy (PTime t) = True"
| "py_truthy (PList xs) = (xs \<noteq> [])"
| "py_truthy (PDict d) = (d \<noteq> [])"

fun is_str :: "pyval \<Rightarrow> bool" where
  "is_str (PStr s) = True"
| "is_str _ = False"

fun is_dict :: "pyval \<Rightarrow> bool" where
  "is_dict (PDict d) = True"
| "is_dict _ = False"

text \<open>\<open>isinstance(v, int) and not isinstance(v, bool) and v > 0\<close>.\<close>

fun positive_int :: "pyval \<Rightarrow> bool" where
  "positive_int (PInt i) = (0 < i)"
| "positive_int _ = False"

text \<open>Membership in a set display hashes the value first: a list or dictionary raises \<open>TypeError\<close>.\<close>

fun hashable :: "pyval \<Rightarrow> bool" where
  "hashable (PList xs) = False"
| "hashable (PDict d) = False"
| "hashable _ = True"

definition one_of :: "pyval \<Rightarrow> string list \<Rightarrow> bool" where
  "one_of v ss = list_ex (\<lambda>s. v = PStr s) ss"

text \<open>\<open>isinstance(v, str) and pattern.fullmatch(v)\<close>.\<close>

fun str_matches :: "(string \<Rightarrow> bool) \<Rightarrow> pyval \<Rightarrow> bool" where
  "str_matches p (PStr s) = p s"
| "str_matches p _ = False"

fun text_of :: "pyval \<Rightarrow> string" where
  "text_of (PStr s) = s"
| "text_of _ = []"

section \<open>Dictionaries\<close>

definition pget :: "pydict \<Rightarrow> string \<Rightarrow> pyval" where
  "pget d k = (case map_of d k of None \<Rightarrow> PNone | Some v \<Rightarrow> v)"

text \<open>\<open>d.get(k, v)\<close>.\<close>

definition pget_or :: "pydict \<Rightarrow> string \<Rightarrow> pyval \<Rightarrow> pyval" where
  "pget_or d k v = (case map_of d k of None \<Rightarrow> v | Some w \<Rightarrow> w)"

fun pset :: "string \<Rightarrow> pyval \<Rightarrow> pydict \<Rightarrow> pydict" where
  "pset k v [] = [(k, v)]"
| "pset k v ((k', v') # d) = (if k = k' then (k, v) # d else (k', v') # pset k v d)"

text \<open>\<open>d | e\<close> and \<open>d.update(e)\<close>: the right operand wins.\<close>

definition pmerge :: "pydict \<Rightarrow> pydict \<Rightarrow> pydict" where
  "pmerge d e = foldl (\<lambda>acc (k, v). pset k v acc) d e"

definition pkeys :: "pydict \<Rightarrow> string list" where
  "pkeys d = map fst d"

text \<open>\<open>set(d) == {...}\<close> and \<open>set(d) - allowed\<close> being empty.\<close>

definition keys_within :: "pydict \<Rightarrow> string list \<Rightarrow> bool" where
  "keys_within d ks = list_all (\<lambda>k. List.member ks k) (pkeys d)"

definition keys_cover :: "pydict \<Rightarrow> string list \<Rightarrow> bool" where
  "keys_cover d ks = list_all (\<lambda>k. List.member (pkeys d) k) ks"

definition keys_exact :: "pydict \<Rightarrow> string list \<Rightarrow> bool" where
  "keys_exact d ks = (keys_within d ks \<and> keys_cover d ks)"

lemma keys_within_iff [py_simps]: "keys_within d ks \<longleftrightarrow> fst ` set d \<subseteq> set ks"
  by (auto simp: keys_within_def pkeys_def list_all_iff)

lemma keys_cover_iff [py_simps]: "keys_cover d ks \<longleftrightarrow> set ks \<subseteq> fst ` set d"
  by (auto simp: keys_cover_def pkeys_def list_all_iff)

lemma keys_exact_iff: "keys_exact d ks \<longleftrightarrow> fst ` set d = set ks"
  by (auto simp: keys_exact_def keys_within_iff keys_cover_iff)

lemma map_of_pset [simp]: "map_of (pset k v d) = (map_of d)(k \<mapsto> v)"
  by (induction d) auto

lemma pget_pset [simp]: "pget (pset k v d) j = (if j = k then v else pget d j)"
  by (simp add: pget_def)

lemma pset_keys [simp]: "fst ` set (pset k v d) = insert k (fst ` set d)"
  by (simp flip: dom_map_of_conv_image_fst)

lemma map_of_pmerge: "map_of (pmerge d e) k =
    (case map_of (rev e) k of None \<Rightarrow> map_of d k | Some v \<Rightarrow> Some v)"
  unfolding pmerge_def
  by (induction e arbitrary: d rule: rev_induct) (auto split: option.splits)

lemma pmerge_keys: "fst ` set (pmerge d e) = fst ` set d \<union> fst ` set e"
  unfolding pmerge_def
  by (induction e rule: rev_induct) (simp_all add: case_prod_beta Un_commute)

lemma pget_pmerge_absent: "k \<notin> fst ` set e \<Longrightarrow> pget (pmerge d e) k = pget d k"
  by (simp add: pget_def map_of_pmerge map_of_eq_None_iff [THEN iffD2] split: option.split)

lemma pget_in_keys: "pget d k \<noteq> PNone \<Longrightarrow> k \<in> fst ` set d"
  by (auto simp: pget_def split: option.splits dest: map_of_SomeD intro: rev_image_eqI)

lemma pset_same: "map_of d k = Some v \<Longrightarrow> pset k v d = d"
  by (induction d) (auto split: if_splits)

lemma pget_member: "distinct (pkeys d) \<Longrightarrow> (k, v) \<in> set d \<Longrightarrow> pget d k = v"
  by (simp add: pget_def pkeys_def map_of_is_SomeI)

section \<open>Equality\<close>

lemma py_eq_PStr [simp]: "py_eq v (PStr s) \<longleftrightarrow> v = PStr s"
  by (cases v) (auto split: pyval.splits)

lemma py_eq_PNone [simp]: "py_eq v PNone \<longleftrightarrow> v = PNone"
  by (cases v) (auto split: pyval.splits)

lemma py_eq_PInt [simp]: "py_eq v (PInt i) \<longleftrightarrow> py_num v = Some i"
  by (cases v) (auto split: pyval.splits)

lemma py_eq_PBool [simp]: "py_eq v (PBool b) \<longleftrightarrow> py_num v = Some (if b then 1 else 0)"
  by (cases v) (auto split: pyval.splits)

lemma py_eq_PTime [simp]: "py_eq v (PTime t) \<longleftrightarrow> v = PTime t"
  by (cases v) (auto split: pyval.splits)

lemma py_num_Some_iff:
  "py_num v = Some i \<longleftrightarrow> v = PInt i \<or> (v = PBool True \<and> i = 1) \<or> (v = PBool False \<and> i = 0)"
  by (cases v) auto

lemma positive_int_iff: "positive_int v \<longleftrightarrow> (\<exists>i. v = PInt i \<and> 0 < i)"
  by (cases v) auto

lemma str_matches_iff: "str_matches p v \<longleftrightarrow> (\<exists>s. v = PStr s \<and> p s)"
  by (cases v) auto

lemma py_eq_int_value: "py_eq v (PInt i) \<Longrightarrow> positive_int v \<Longrightarrow> v = PInt i"
  by (cases v) auto

section \<open>Exceptions\<close>

text \<open>A call that may raise returns \<open>Inl\<close> the exception or \<open>Inr\<close> the value.\<close>

definition bindE :: "'e + 'a \<Rightarrow> ('a \<Rightarrow> 'e + 'b) \<Rightarrow> 'e + 'b" where
  "bindE m f = (case m of Inl e \<Rightarrow> Inl e | Inr a \<Rightarrow> f a)"

definition requireE :: "bool \<Rightarrow> 'e \<Rightarrow> 'e + unit" where
  "requireE c e = (if c then Inr () else Inl e)"

text \<open>\<open>except ... as exc: raise err from exc\<close>.\<close>

definition recastE :: "'e + 'a \<Rightarrow> 'f \<Rightarrow> 'f + 'a" where
  "recastE m err = (case m of Inl _ \<Rightarrow> Inl err | Inr a \<Rightarrow> Inr a)"

lemma recastE_eq_Inr [simp]: "recastE m err = Inr a \<longleftrightarrow> m = Inr a"
  by (cases m) (auto simp: recastE_def)

lemma recastE_Inr [simp]: "recastE (Inr a) err = Inr a"
  by (simp add: recastE_def)

text \<open>A \<open>for\<close> loop whose body only raises: the first exception stops it.\<close>

fun forE :: "'a list \<Rightarrow> ('a \<Rightarrow> 'e + unit) \<Rightarrow> 'e + unit" where
  "forE [] f = Inr ()"
| "forE (x # xs) f = bindE (f x) (\<lambda>_. forE xs f)"

lemma bindE_Inl [simp]: "bindE (Inl e) f = Inl e"
  by (simp add: bindE_def)

lemma bindE_Inr [simp]: "bindE (Inr a) f = f a"
  by (simp add: bindE_def)

lemma bindE_eq_Inr: "bindE m f = Inr b \<longleftrightarrow> (\<exists>a. m = Inr a \<and> f a = Inr b)"
  by (cases m) auto

lemma bindE_eq_Inl: "bindE m f = Inl e \<longleftrightarrow> m = Inl e \<or> (\<exists>a. m = Inr a \<and> f a = Inl e)"
  by (cases m) auto

lemma bindE_total:
  "\<exists>a. m = Inr a \<Longrightarrow> (\<And>a. \<exists>b. f a = Inr b) \<Longrightarrow> \<exists>b. bindE m f = Inr b"
  by auto

lemma requireE_eq_Inr [simp]: "requireE c e = Inr u \<longleftrightarrow> c"
  by (simp add: requireE_def)

lemma requireE_eq_Inl [simp]: "requireE c e = Inl x \<longleftrightarrow> \<not> c \<and> x = e"
  by (auto simp: requireE_def)

lemma requireE_True [simp]: "requireE True e = Inr ()"
  by (simp add: requireE_def)

lemma requireE_False [simp]: "requireE False e = Inl e"
  by (simp add: requireE_def)

lemma forE_eq_Inr: "forE xs f = Inr u \<longleftrightarrow> (\<forall>x \<in> set xs. f x = Inr ())"
  by (induction xs) (auto simp: bindE_eq_Inr)

lemma forE_eq_Inl: "forE xs f = Inl e \<Longrightarrow> \<exists>x \<in> set xs. f x = Inl e"
  by (induction xs) (auto simp: bindE_eq_Inl)

lemmas errE_iffs = bindE_eq_Inr bindE_eq_Inl forE_eq_Inr

section \<open>Text\<close>

definition code :: "char \<Rightarrow> nat" where
  "code c = of_char c"

definition is_digit :: "char \<Rightarrow> bool" where
  "is_digit c = (48 \<le> code c \<and> code c \<le> 57)"

definition is_hex :: "char \<Rightarrow> bool" where
  "is_hex c = (is_digit c \<or> (97 \<le> code c \<and> code c \<le> 102))"

definition is_alnum :: "char \<Rightarrow> bool" where
  "is_alnum c = (is_digit c \<or> (65 \<le> code c \<and> code c \<le> 90) \<or> (97 \<le> code c \<and> code c \<le> 122))"

text \<open>The whitespace \<open>str.strip\<close> removes and the letters \<open>str.lower\<close> maps, below code point 256.\<close>

definition is_space :: "char \<Rightarrow> bool" where
  "is_space c = ((9 \<le> code c \<and> code c \<le> 13) \<or> (28 \<le> code c \<and> code c \<le> 32) \<or> code c = 133 \<or> code c = 160)"

definition strip :: "string \<Rightarrow> string" where
  "strip s = rev (dropWhile is_space (rev (dropWhile is_space s)))"

definition lower_char :: "char \<Rightarrow> char" where
  "lower_char c =
     (if (65 \<le> code c \<and> code c \<le> 90) \<or> (192 \<le> code c \<and> code c \<le> 222 \<and> code c \<noteq> 215)
      then char_of (code c + 32) else c)"

definition lower :: "string \<Rightarrow> string" where
  "lower s = map lower_char s"

text \<open>\<open>[0-9a-f]{n}\<close>; commit SHAs have 40 digits, SHA-256 digests 64.\<close>

definition hex_of_length :: "nat \<Rightarrow> string \<Rightarrow> bool" where
  "hex_of_length n s = (length s = n \<and> list_all is_hex s)"

abbreviation sha40 :: "string \<Rightarrow> bool" where
  "sha40 \<equiv> hex_of_length 40"

abbreviation sha256hex :: "string \<Rightarrow> bool" where
  "sha256hex \<equiv> hex_of_length 64"

text \<open>\<open>[1-9][0-9]*\<close>.\<close>

definition canonical_positive :: "string \<Rightarrow> bool" where
  "canonical_positive s =
     (case s of [] \<Rightarrow> False | c # cs \<Rightarrow> is_digit c \<and> c \<noteq> CHR ''0'' \<and> list_all is_digit cs)"

text \<open>\<open>[A-Za-z0-9][A-Za-z0-9-]{0,38}\<close>, a GitHub account.\<close>

definition account_name :: "string \<Rightarrow> bool" where
  "account_name s =
     (case s of [] \<Rightarrow> False
      | c # cs \<Rightarrow> is_alnum c \<and> length cs \<le> 38 \<and> list_all (\<lambda>c. is_alnum c \<or> c = CHR ''-'') cs)"

definition is_name_char :: "char \<Rightarrow> bool" where
  "is_name_char c = (is_alnum c \<or> c = CHR ''.'' \<or> c = CHR ''_'' \<or> c = CHR ''-'')"

definition before_slash :: "string \<Rightarrow> string" where
  "before_slash s = takeWhile (\<lambda>c. c \<noteq> CHR ''/'') s"

definition after_slash :: "string \<Rightarrow> string" where
  "after_slash s = drop (Suc (length (before_slash s))) s"

text \<open>
  \<open>^[A-Za-z0-9](?:[A-Za-z0-9-]{0,38})/[A-Za-z0-9._-]{1,100}$\<close>: neither class has a slash, so the
  match splits the text at its first one.
\<close>

definition exact_repository_name :: "string \<Rightarrow> bool" where
  "exact_repository_name s =
     (List.member s (CHR ''/'') \<and> account_name (before_slash s)
      \<and> 1 \<le> length (after_slash s) \<and> length (after_slash s) \<le> 100
      \<and> list_all is_name_char (after_slash s))"

text \<open>\<open>[A-Za-z0-9_.-]+/[A-Za-z0-9_.-]+\<close>, the looser form of the approval modules.\<close>

definition loose_repository_name :: "string \<Rightarrow> bool" where
  "loose_repository_name s =
     (List.member s (CHR ''/'') \<and> before_slash s \<noteq> [] \<and> after_slash s \<noteq> []
      \<and> list_all is_name_char (before_slash s) \<and> list_all is_name_char (after_slash s))"

lemma hex_char_not_colon: "is_hex c \<Longrightarrow> c \<noteq> CHR '':''"
  by (auto simp: is_hex_def is_digit_def code_def)

lemma hex_no_colon: "hex_of_length n s \<Longrightarrow> CHR '':'' \<notin> set s"
  by (auto simp: hex_of_length_def list_all_iff dest: hex_char_not_colon)

lemma hex_nonempty: "hex_of_length n s \<Longrightarrow> 0 < n \<Longrightarrow> s \<noteq> []"
  by (auto simp: hex_of_length_def)

lemma hex_of_length_replicate [simp]: "hex_of_length n (replicate m c) \<longleftrightarrow> n = m \<and> (n = 0 \<or> is_hex c)"
  by (auto simp: hex_of_length_def list_all_iff set_replicate_conv_if)

section \<open>Decimal text of integers\<close>

fun nat_str :: "nat \<Rightarrow> string" where
  "nat_str n = (if n < 10 then [char_of (48 + n)] else nat_str (n div 10) @ [char_of (48 + n mod 10)])"

declare nat_str.simps [simp del]

definition int_str :: "int \<Rightarrow> string" where
  "int_str i = (if i < 0 then CHR ''-'' # nat_str (nat (- i)) else nat_str (nat i))"

fun digits_value :: "string \<Rightarrow> nat" where
  "digits_value s = foldl (\<lambda>acc c. 10 * acc + (code c - 48)) 0 s"

lemma code_digit: "n < 10 \<Longrightarrow> code (char_of (48 + n)) = 48 + n"
  by (simp add: code_def)

lemma nat_str_digits: "list_all is_digit (nat_str n)"
proof (induction n rule: nat_str.induct)
  case (1 n)
  show ?case
  proof (cases "n < 10")
    case True
    then show ?thesis by (subst nat_str.simps) (simp add: is_digit_def code_digit)
  next
    case False
    have "is_digit (char_of (48 + n mod 10))"
      by (simp add: is_digit_def code_digit less_Suc_eq_le [symmetric])
    with 1 False show ?thesis
      by (subst nat_str.simps) simp
  qed
qed

lemma nat_str_value: "digits_value (nat_str n) = n"
proof (induction n rule: nat_str.induct)
  case (1 n)
  show ?case
  proof (cases "n < 10")
    case True
    then show ?thesis by (subst nat_str.simps) (simp add: code_digit)
  next
    case False
    then have "digits_value (nat_str n) = 10 * digits_value (nat_str (n div 10)) + n mod 10"
      by (subst nat_str.simps) (simp add: code_digit)
    with 1 False show ?thesis by simp
  qed
qed

lemma nat_str_inj: "nat_str m = nat_str n \<Longrightarrow> m = n"
  by (metis nat_str_value)

lemma digit_char_neq: "is_digit c \<Longrightarrow> c \<noteq> CHR ''-'' \<and> c \<noteq> CHR '':''"
  by (auto simp: is_digit_def code_def)

lemma int_str_no_colon: "CHR '':'' \<notin> set (int_str i)"
  using nat_str_digits [of "nat i"] nat_str_digits [of "nat (- i)"] digit_char_neq
  by (auto simp: int_str_def list_all_iff)

lemma nat_str_not_minus: "nat_str n \<noteq> CHR ''-'' # xs"
proof
  assume "nat_str n = CHR ''-'' # xs"
  with nat_str_digits [of n] have "is_digit CHR ''-''" by simp
  then show False using digit_char_neq by blast
qed

lemma int_str_inj:
  assumes "int_str i = int_str j"
  shows "i = j"
proof (cases "i < 0 \<longleftrightarrow> j < 0")
  case True
  with assms have "nat \<bar>i\<bar> = nat \<bar>j\<bar>"
    by (cases "i < 0") (auto simp: int_str_def dest: nat_str_inj)
  with True show ?thesis by arith
next
  case False
  then show ?thesis
    using assms nat_str_not_minus [of "nat j" "nat_str (nat (- i))"]
      nat_str_not_minus [of "nat i" "nat_str (nat (- j))"]
    by (cases "i < 0") (simp_all add: int_str_def)
qed

text \<open>
  Keys are built by joining fields with colons. Reading from the right, a field without a colon
  and what precedes it are determined by the joined text.
\<close>

lemma join_right_inj:
  assumes "a @ CHR '':'' # x = b @ CHR '':'' # y"
    and "CHR '':'' \<notin> set x" and "CHR '':'' \<notin> set y"
  shows "a = b \<and> x = y"
proof -
  have tw: "takeWhile (\<lambda>c. c \<noteq> CHR '':'') (rev z @ CHR '':'' # w) = rev z"
    if "CHR '':'' \<notin> set z" for z w :: string
    using that by (subst takeWhile_append2) auto
  from arg_cong [OF assms(1), of rev]
  have "rev x @ CHR '':'' # rev a = rev y @ CHR '':'' # rev b" by simp
  with tw [OF assms(2), of "rev a"] tw [OF assms(3), of "rev b"]
  have "rev x = rev y" by metis
  with assms(1) show ?thesis by simp
qed

section \<open>Tables\<close>

text \<open>
  A table is the list of its rows. \<open>SELECT ... WHERE key=?\<close> finds the row of a key,
  \<open>UPDATE ... WHERE\<close> rewrites the matching rows in place, an INSERT appends.
\<close>

definition select_key :: "('r \<Rightarrow> 'k) \<Rightarrow> 'k \<Rightarrow> 'r list \<Rightarrow> 'r option" where
  "select_key key k rows = find (\<lambda>r. key r = k) rows"

definition update_key :: "('r \<Rightarrow> 'k) \<Rightarrow> ('r \<Rightarrow> 'r) \<Rightarrow> 'k \<Rightarrow> 'r list \<Rightarrow> 'r list" where
  "update_key key f k rows = map (\<lambda>r. if key r = k then f r else r) rows"

lemma select_key_Nil [simp]: "select_key key k [] = None"
  by (simp add: select_key_def)

lemma select_key_Cons:
  "select_key key k (r # rows) = (if key r = k then Some r else select_key key k rows)"
  by (simp add: select_key_def)

lemma select_key_append:
  "select_key key k (rows @ rows') =
     (case select_key key k rows of None \<Rightarrow> select_key key k rows' | Some r \<Rightarrow> Some r)"
  by (induction rows) (simp_all add: select_key_Cons)

lemma select_key_SomeD: "select_key key k rows = Some r \<Longrightarrow> r \<in> set rows \<and> key r = k"
  by (induction rows) (auto simp: select_key_Cons split: if_splits)

lemma select_key_None: "select_key key k rows = None \<longleftrightarrow> k \<notin> key ` set rows"
  by (induction rows) (auto simp: select_key_Cons)

lemma select_key_unique:
  "distinct (map key rows) \<Longrightarrow> r \<in> set rows \<Longrightarrow> select_key key (key r) rows = Some r"
  by (induction rows) (auto simp: select_key_Cons)

lemma select_key_mem:
  "distinct (map key rows) \<Longrightarrow> select_key key k rows = Some r \<longleftrightarrow> r \<in> set rows \<and> key r = k"
  using select_key_SomeD select_key_unique by metis

text \<open>
  An UPDATE that leaves the key columns alone: the contract every statement below satisfies.
\<close>

locale row_update =
  fixes key :: "'r \<Rightarrow> 'k" and f :: "'r \<Rightarrow> 'r"
  assumes keeps_key: "key (f r) = key r"
begin

lemma update_keys: "map key (update_key key f k rows) = map key rows"
  by (simp add: update_key_def keeps_key)

lemma update_image: "key ` set (update_key key f k rows) = key ` set rows"
  using arg_cong [OF update_keys, of set] by simp

lemma select_update:
  "select_key key j (update_key key f k rows) =
     (if j = k then map_option f (select_key key k rows) else select_key key j rows)"
  by (induction rows) (auto simp: update_key_def select_key_Cons keeps_key)

lemma in_update:
  "r \<in> set (update_key key f k rows) \<Longrightarrow>
     (r \<in> set rows \<and> key r \<noteq> k) \<or> (\<exists>r0 \<in> set rows. key r0 = k \<and> r = f r0)"
  by (auto simp: update_key_def split: if_splits)

lemma update_absent: "k \<notin> key ` set rows \<Longrightarrow> update_key key f k rows = rows"
  by (induction rows) (auto simp: update_key_def)

end

section \<open>Machines\<close>

text \<open>
  A store is driven by a sequence of calls. Whatever each call keeps, every run keeps; a fact
  that no call makes false stays true for ever.
\<close>

locale call_machine =
  fixes step :: "'op \<Rightarrow> 's \<Rightarrow> 's" and inv :: "'s \<Rightarrow> bool" and init :: 's
  assumes inv_init: "inv init"
    and inv_step: "inv s \<Longrightarrow> inv (step c s)"
begin

lemma inv_run: "inv s \<Longrightarrow> inv (fold step cs s)"
  by (induction cs arbitrary: s) (simp_all add: inv_step)

lemma inv_reachable: "inv (fold step cs init)"
  by (rule inv_run [OF inv_init])

end

locale stable_machine = call_machine +
  fixes fact :: "'f \<Rightarrow> 's \<Rightarrow> bool"
  assumes fact_step: "inv s \<Longrightarrow> fact x s \<Longrightarrow> fact x (step c s)"
begin

lemma fact_run: "inv s \<Longrightarrow> fact x s \<Longrightarrow> fact x (fold step cs s)"
  by (induction cs arbitrary: s) (simp_all add: inv_step fact_step)

lemma fact_later: "fact x (fold step cs init) \<Longrightarrow> fact x (fold step (cs @ ds) init)"
  using fact_run [OF inv_reachable] by simp

end

end
