(* ===== verification/Worker_Errors.thy ===== *)
theory Worker_Errors
  imports Py_Prelude
begin

text \<open>
  The exceptions of the worker and its collaborators: a class name with the names of its bases other
  than \<open>Exception\<close>, which is all the handlers look at and all the durable reasons keep. \<open>Halt\<close> is a
  process that stops there, which no handler and no \<open>finally\<close> sees; \<open>Waiting\<close> is a wait whose fuel
  ran out.
\<close>

datatype wk_exc = Exc string "string list" | Halt | Waiting

definition isa :: "wk_exc \<Rightarrow> string \<Rightarrow> bool" where
  "isa e c = (case e of Exc n bases \<Rightarrow> n = c \<or> List.member bases c | _ \<Rightarrow> False)"

definition caught :: "wk_exc \<Rightarrow> bool" where
  "caught e = (case e of Exc n bases \<Rightarrow> True | _ \<Rightarrow> False)"

definition type_name :: "wk_exc \<Rightarrow> string" where
  "type_name e = (case e of Exc n bases \<Rightarrow> n | _ \<Rightarrow> [])"

abbreviation GateCheckError :: wk_exc where
  "GateCheckError \<equiv> Exc ''GateCheckError'' [''RuntimeError'']"

abbreviation WorkerError :: wk_exc where
  "WorkerError \<equiv> Exc ''WorkerError'' [''RuntimeError'']"

abbreviation WorkerAuthorityError :: wk_exc where
  "WorkerAuthorityError \<equiv> Exc ''WorkerAuthorityError'' [''RuntimeError'']"

abbreviation PyTypeError :: wk_exc where
  "PyTypeError \<equiv> Exc ''TypeError'' []"

abbreviation PyKeyError :: wk_exc where
  "PyKeyError \<equiv> Exc ''KeyError'' [''LookupError'']"

abbreviation PyAttributeError :: wk_exc where
  "PyAttributeError \<equiv> Exc ''AttributeError'' []"

abbreviation PyValueError :: wk_exc where
  "PyValueError \<equiv> Exc ''ValueError'' []"

end
