(* ===== verification/Py_Effects.thy ===== *)
theory Py_Effects
  imports Py_Prelude
begin

text \<open>
  Code that calls out, catches and re-raises: a computation takes the state to an exception or a
  value and the state it leaves, also when it raises. \<open>wp\<close> is the weakest precondition with one
  postcondition for values and one for exceptions; its equations compute it along the program, and
  \<open>keeps\<close> is the special case of an invariant, with one rule per combinator.
\<close>

section \<open>Combinators\<close>

type_synonym ('s, 'e, 'a) io = "'s \<Rightarrow> ('e + 'a) \<times> 's"

definition ret :: "'a \<Rightarrow> ('s, 'e, 'a) io" where
  "ret x = (\<lambda>s. (Inr x, s))"

definition throw :: "'e \<Rightarrow> ('s, 'e, 'a) io" where
  "throw e = (\<lambda>s. (Inl e, s))"

definition pure_io :: "'e + 'a \<Rightarrow> ('s, 'e, 'a) io" where
  "pure_io r = (\<lambda>s. (r, s))"

definition bindI :: "('s, 'e, 'a) io \<Rightarrow> ('a \<Rightarrow> ('s, 'e, 'b) io) \<Rightarrow> ('s, 'e, 'b) io" where
  "bindI m f = (\<lambda>s. case m s of (Inl e, s1) \<Rightarrow> (Inl e, s1) | (Inr x, s1) \<Rightarrow> f x s1)"

text \<open>\<open>try: m except: h\<close>; a handler re-raises what it does not catch.\<close>

definition tryI :: "('s, 'e, 'a) io \<Rightarrow> ('e \<Rightarrow> ('s, 'e, 'a) io) \<Rightarrow> ('s, 'e, 'a) io" where
  "tryI m h = (\<lambda>s. case m s of (Inl e, s1) \<Rightarrow> h e s1 | (Inr x, s1) \<Rightarrow> (Inr x, s1))"

text \<open>\<open>try: m except: h else: f\<close>: an exception of \<open>f\<close> does not reach \<open>h\<close>.\<close>

definition tryElseI ::
    "('s, 'e, 'a) io \<Rightarrow> ('e \<Rightarrow> ('s, 'e, 'b) io) \<Rightarrow> ('a \<Rightarrow> ('s, 'e, 'b) io) \<Rightarrow> ('s, 'e, 'b) io" where
  "tryElseI m h f = (\<lambda>s. case m s of (Inl e, s1) \<Rightarrow> h e s1 | (Inr x, s1) \<Rightarrow> f x s1)"

definition requireI :: "bool \<Rightarrow> 'e \<Rightarrow> ('s, 'e, unit) io" where
  "requireI c e = (if c then ret () else throw e)"

definition readI :: "('s \<Rightarrow> 'e + 'a) \<Rightarrow> ('s, 'e, 'a) io" where
  "readI f = (\<lambda>s. (f s, s))"

definition modifyI :: "('s \<Rightarrow> 's) \<Rightarrow> ('s, 'e, unit) io" where
  "modifyI f = (\<lambda>s. (Inr (), f s))"

lemmas io_defs = ret_def throw_def pure_io_def bindI_def tryI_def tryElseI_def requireI_def readI_def modifyI_def

lemma bindI_ret: "bindI (ret x) f = f x"
  by (rule ext) (simp add: bindI_def ret_def)

section \<open>Weakest preconditions\<close>

definition wp :: "('s, 'e, 'a) io \<Rightarrow> ('a \<Rightarrow> 's \<Rightarrow> bool) \<Rightarrow> ('e \<Rightarrow> 's \<Rightarrow> bool) \<Rightarrow> 's \<Rightarrow> bool" where
  "wp m Q R s = (case m s of (Inr x, s1) \<Rightarrow> Q x s1 | (Inl e, s1) \<Rightarrow> R e s1)"

lemma wp_ret [simp]: "wp (ret x) Q R = Q x"
  by (rule ext) (simp add: wp_def ret_def)

lemma wp_throw [simp]: "wp (throw e) Q R = R e"
  by (rule ext) (simp add: wp_def throw_def)

lemma wp_pure [simp]: "wp (pure_io r) Q R = (case r of Inr x \<Rightarrow> Q x | Inl e \<Rightarrow> R e)"
  by (rule ext) (simp add: wp_def pure_io_def split: sum.splits)

lemma wp_bind [simp]: "wp (bindI m f) Q R = wp m (\<lambda>x. wp (f x) Q R) R"
  by (rule ext) (simp add: wp_def bindI_def split: prod.splits sum.splits)

lemma wp_try [simp]: "wp (tryI m h) Q R = wp m Q (\<lambda>e. wp (h e) Q R)"
  by (rule ext) (simp add: wp_def tryI_def split: prod.splits sum.splits)

lemma wp_tryElse [simp]: "wp (tryElseI m h f) Q R = wp m (\<lambda>x. wp (f x) Q R) (\<lambda>e. wp (h e) Q R)"
  by (rule ext) (simp add: wp_def tryElseI_def split: prod.splits sum.splits)

lemma wp_require [simp]: "wp (requireI c e) Q R = (if c then Q () else R e)"
  by (simp add: requireI_def)

lemma wp_read [simp]: "wp (readI f) Q R = (\<lambda>s. case f s of Inr x \<Rightarrow> Q x s | Inl e \<Rightarrow> R e s)"
  by (rule ext) (simp add: wp_def readI_def)

lemma wp_modify [simp]: "wp (modifyI f) Q R = (\<lambda>s. Q () (f s))"
  by (rule ext) (simp add: wp_def modifyI_def)

lemma wp_if [simp]: "wp (if c then m else n) Q R = (if c then wp m Q R else wp n Q R)"
  by simp

lemma wp_mono:
  assumes "wp m Q R s" and "\<And>x t. Q x t \<Longrightarrow> Q' x t" and "\<And>e t. R e t \<Longrightarrow> R' e t"
  shows "wp m Q' R' s"
  using assms by (auto simp: wp_def split: prod.splits sum.splits)

lemma wp_conj:
  "wp m (\<lambda>x t. Q x t \<and> Q' x t) (\<lambda>e t. R e t \<and> R' e t) s \<longleftrightarrow> wp m Q R s \<and> wp m Q' R' s"
  by (auto simp: wp_def split: prod.splits sum.splits)

lemma wp_resultD:
  "wp m Q R s \<Longrightarrow> m s = (Inr x, s') \<Longrightarrow> Q x s'"
  "wp m Q R s \<Longrightarrow> m s = (Inl e, s') \<Longrightarrow> R e s'"
  by (simp_all add: wp_def)

lemma wpI:
  assumes "\<And>x s'. m s = (Inr x, s') \<Longrightarrow> Q x s'" and "\<And>e s'. m s = (Inl e, s') \<Longrightarrow> R e s'"
  shows "wp m Q R s"
  using assms by (auto simp: wp_def split: prod.splits sum.splits)

section \<open>Invariants\<close>

definition keeps :: "('s \<Rightarrow> bool) \<Rightarrow> ('s, 'e, 'a) io \<Rightarrow> bool" where
  "keeps I m = (\<forall>s. I s \<longrightarrow> I (snd (m s)))"

named_theorems keeps_rules "one rule per combinator"

lemma keepsD: "keeps I m \<Longrightarrow> I s \<Longrightarrow> I (snd (m s))"
  by (simp add: keeps_def)

lemma keepsI: "(\<And>s. I s \<Longrightarrow> I (snd (m s))) \<Longrightarrow> keeps I m"
  by (simp add: keeps_def)

lemma keeps_ret [keeps_rules]: "keeps I (ret x)"
  and keeps_throw [keeps_rules]: "keeps I (throw e)"
  and keeps_pure [keeps_rules]: "keeps I (pure_io r)"
  and keeps_read [keeps_rules]: "keeps I (readI f)"
  and keeps_require [keeps_rules]: "keeps I (requireI c e)"
  by (simp_all add: keeps_def io_defs)

lemma keeps_bind [keeps_rules]: "keeps I m \<Longrightarrow> (\<And>x. keeps I (f x)) \<Longrightarrow> keeps I (bindI m f)"
  unfolding keeps_def bindI_def by (auto split: prod.splits sum.splits)

lemma keeps_try [keeps_rules]: "keeps I m \<Longrightarrow> (\<And>e. keeps I (h e)) \<Longrightarrow> keeps I (tryI m h)"
  unfolding keeps_def tryI_def by (auto split: prod.splits sum.splits)

lemma keeps_tryElse [keeps_rules]:
  "keeps I m \<Longrightarrow> (\<And>e. keeps I (h e)) \<Longrightarrow> (\<And>x. keeps I (f x)) \<Longrightarrow> keeps I (tryElseI m h f)"
  unfolding keeps_def tryElseI_def by (auto split: prod.splits sum.splits)

lemma keeps_if [keeps_rules]: "(c \<Longrightarrow> keeps I m) \<Longrightarrow> (\<not> c \<Longrightarrow> keeps I n) \<Longrightarrow> keeps I (if c then m else n)"
  by simp

lemma keeps_option [keeps_rules]:
  "keeps I m \<Longrightarrow> (\<And>x. keeps I (f x)) \<Longrightarrow> keeps I (case v of None \<Rightarrow> m | Some x \<Rightarrow> f x)"
  by (cases v) simp_all

lemma keeps_sum [keeps_rules]:
  "(\<And>e. keeps I (h e)) \<Longrightarrow> (\<And>x. keeps I (f x)) \<Longrightarrow> keeps I (case v of Inl e \<Rightarrow> h e | Inr x \<Rightarrow> f x)"
  by (cases v) simp_all

lemma keeps_prod [keeps_rules]: "(\<And>x y. keeps I (f x y)) \<Longrightarrow> keeps I (case v of (x, y) \<Rightarrow> f x y)"
  by (cases v) simp

lemma keeps_pyval [keeps_rules]:
  assumes "\<And>d. keeps I (f d)" and "keeps I m"
  shows "keeps I (case v of PDict d \<Rightarrow> f d | _ \<Rightarrow> m)"
  using assms by (cases v) simp_all

lemma keeps_let [keeps_rules]: "(\<And>x. keeps I (f x)) \<Longrightarrow> keeps I (let x = v in f x)"
  by simp

lemma wp_keeps: "keeps I m \<Longrightarrow> I s \<Longrightarrow> wp m (\<lambda>_. I) (\<lambda>_. I) s"
  by (auto simp: wp_def split: prod.splits sum.splits dest: keepsD)

text \<open>A computation that only works on a part of the state, through a lens.\<close>

definition zoomI ::
    "('s \<Rightarrow> 't) \<Rightarrow> ('t \<Rightarrow> 's \<Rightarrow> 's) \<Rightarrow> ('e \<Rightarrow> 'f) \<Rightarrow> ('t \<Rightarrow> ('e + 'a) \<times> 't) \<Rightarrow> ('s, 'f, 'a) io" where
  "zoomI get put err m = (\<lambda>s. case m (get s) of (r, t) \<Rightarrow> (map_sum err id r, put t s))"

lemma wp_zoom:
  "wp (zoomI get put err m) Q R s \<longleftrightarrow>
     (case m (get s) of (Inr x, t) \<Rightarrow> Q x (put t s) | (Inl e, t) \<Rightarrow> R (err e) (put t s))"
  by (simp add: wp_def zoomI_def split: prod.splits sum.splits)

lemma keeps_zoom:
  assumes "\<And>s r t. I s \<Longrightarrow> m (get s) = (r, t) \<Longrightarrow> I (put t s)"
  shows "keeps I (zoomI get put err m)"
  using assms by (auto simp: keeps_def zoomI_def split: prod.splits)

end
