(* ===== verification/Py_Time.thy ===== *)
theory Py_Time
  imports Py_Prelude
begin

text \<open>
  The calendar behind \<open>datetime.isoformat\<close>: the proleptic Gregorian ordinal of a date and its
  inverse, as the standard library computes them, and the canonical stamp
  \<open>YYYY-MM-DDTHH:MM:SSZ\<close> the modules write into packages and TEXT columns. The stamp of an
  instant drops the microseconds. Two results carry the components: a stamp reads back as its
  instant, and the textual order of stamps (what SQLite compares) is the order of time.
\<close>

section \<open>Ordinals\<close>

definition is_leap :: "int \<Rightarrow> bool" where
  "is_leap y = (y mod 4 = 0 \<and> (y mod 100 \<noteq> 0 \<or> y mod 400 = 0))"

definition days_before_year :: "int \<Rightarrow> int" where
  "days_before_year y = (y - 1) * 365 + (y - 1) div 4 - (y - 1) div 100 + (y - 1) div 400"

definition month_lengths :: "int \<Rightarrow> int list" where
  "month_lengths y =
     [31, if is_leap y then 29 else 28, 31, 30, 31, 30, 31, 31, 30, 31, 30, 31]"

text \<open>\<open>_ymd2ord\<close>; January 1 of year 1 is day 1.\<close>

definition ordinal :: "int \<Rightarrow> int \<Rightarrow> int \<Rightarrow> int" where
  "ordinal y m d = days_before_year y + sum_list (take (nat (m - 1)) (month_lengths y)) + d"

text \<open>\<open>_ord2ymd\<close>: the year by 400, 100, 4 and 1-year cycles, then the month.\<close>

definition year_of :: "int \<Rightarrow> int" where
  "year_of n =
     (let k = n - 1; a = k div 146097; r = k mod 146097;
          b = r div 36524; s = r mod 36524; c = s div 1461; u = s mod 1461; d = u div 365;
          y = 400 * a + 100 * b + 4 * c + d + 1
      in if d = 4 \<or> b = 4 then y - 1 else y)"

fun split_month :: "int list \<Rightarrow> int \<Rightarrow> int \<Rightarrow> int \<times> int" where
  "split_month [] m r = (m, r)"
| "split_month (l # ls) m r = (if r \<le> l then (m, r) else split_month ls (m + 1) (r - l))"

definition date_of :: "int \<Rightarrow> int \<times> int \<times> int" where
  "date_of n =
     (let y = year_of n; (m, d) = split_month (month_lengths y) 1 (n - days_before_year y) in (y, m, d))"

lemma div_pred:
  fixes y N :: int
  assumes "0 < N"
  shows "y div N = (y - 1) div N + (if y mod N = 0 then 1 else 0)"
proof -
  have y: "y = N * (y div N) + y mod N" by simp
  show ?thesis
  proof (cases "y mod N = 0")
    case True
    have "(y - 1) div N = y div N - 1"
      using y True assms by (intro int_div_pos_eq [where r = "N - 1"]) (auto simp: algebra_simps)
    with True show ?thesis by simp
  next
    case False
    then have "1 \<le> y mod N" using pos_mod_sign [OF assms, of y] by linarith
    then have "(y - 1) div N = y div N"
      using y assms pos_mod_bound [OF assms, of y]
      by (intro int_div_pos_eq [where r = "y mod N - 1"]) auto
    with False show ?thesis by simp
  qed
qed

lemma days_before_next_year:
  "days_before_year (y + 1) = days_before_year y + (if is_leap y then 366 else 365)"
proof -
  have step: "y * 365 + p' - q' + r' =
      (y - 1) * 365 + p - q + r + (if f \<and> (\<not> c \<or> h) then 366 else 365)"
    if "p' = p + (if f then 1 else 0)" "q' = q + (if c then 1 else 0)" "r' = r + (if h then 1 else 0)"
      and "h \<longrightarrow> c" and "c \<longrightarrow> f"
    for p q r p' q' r' :: int and f c h
    using that by (cases f; cases c; cases h) simp_all
  have "y mod 400 = 0 \<longrightarrow> y mod 100 = 0" "y mod 100 = 0 \<longrightarrow> y mod 4 = 0"
    using dvd_trans [of 100 400 y] dvd_trans [of 4 100 y] by (simp_all add: mod_eq_0_iff_dvd)
  from step [OF div_pred div_pred div_pred this] show ?thesis
    unfolding days_before_year_def is_leap_def add_diff_cancel_right' by (simp only: zero_less_numeral)
qed

lemma days_before_year_mono: "y \<le> z \<Longrightarrow> days_before_year y \<le> days_before_year z"
proof (induction z rule: int_ge_induct)
  case (step z)
  then show ?case using days_before_next_year [of z] by (simp split: if_splits)
qed simp

lemma year_length: "sum_list (month_lengths y) = days_before_year (y + 1) - days_before_year y"
  by (simp add: month_lengths_def days_before_next_year)

text \<open>The year found is the one whose days contain the ordinal.\<close>

lemma cycle_years:
  fixes a b c d :: int
  assumes "0 \<le> b" "b \<le> 3" "0 \<le> c" "c \<le> 24" "0 \<le> d" "d \<le> 3"
  shows "days_before_year (400 * a + 100 * b + 4 * c + d + 1)
       = 146097 * a + 36524 * b + 1461 * c + 365 * d"
proof -
  have "(400 * a + 100 * b + 4 * c + d) div 4 = 100 * a + 25 * b + c"
    using assms by (intro int_div_pos_eq [where r = d]) auto
  moreover have "(400 * a + 100 * b + 4 * c + d) div 100 = 4 * a + b"
    using assms by (intro int_div_pos_eq [where r = "4 * c + d"]) auto
  moreover have "(400 * a + 100 * b + 4 * c + d) div 400 = a"
    using assms by (intro int_div_pos_eq [where r = "100 * b + 4 * c + d"]) auto
  ultimately show ?thesis by (simp add: days_before_year_def)
qed

lemma cycle_leap:
  fixes a b c d :: int
  assumes "0 \<le> b" "b \<le> 3" "0 \<le> c" "c \<le> 24" "0 \<le> d" "d \<le> 3"
  shows "is_leap (400 * a + 100 * b + 4 * c + d + 1) \<longleftrightarrow> d = 3 \<and> (c \<noteq> 24 \<or> b = 3)"
proof -
  let ?y = "400 * a + 100 * b + 4 * c + d + 1"
  have "?y = (d + 1) + (100 * a + 25 * b + c) * 4" "?y = (4 * c + d + 1) + (4 * a + b) * 100"
    "?y = (100 * b + 4 * c + d + 1) + a * 400"
    by simp_all
  then have r: "?y mod 4 = (d + 1) mod 4" "?y mod 100 = (4 * c + d + 1) mod 100"
    "?y mod 400 = (100 * b + 4 * c + d + 1) mod 400"
    by (metis mod_mult_self1)+
  have m4: "(d + 1) mod 4 = 0 \<longleftrightarrow> d = 3"
    using assms(5,6) by presburger
  have m100: "(4 * c + d + 1) mod 100 = 0 \<longleftrightarrow> c = 24 \<and> d = 3"
  proof (cases "c = 24 \<and> d = 3")
    case False
    with assms(3-6) have "4 * c + d + 1 < 100" by linarith
    with assms(3,5) False show ?thesis by (subst mod_pos_pos_trivial) auto
  qed simp
  have m400: "(100 * b + 4 * c + d + 1) mod 400 = 0 \<longleftrightarrow> b = 3 \<and> c = 24 \<and> d = 3"
  proof (cases "b = 3 \<and> c = 24 \<and> d = 3")
    case False
    with assms have "100 * b + 4 * c + d + 1 < 400" by linarith
    with assms(1,3,5) False show ?thesis by (subst mod_pos_pos_trivial) auto
  qed simp
  show ?thesis unfolding is_leap_def r m4 m100 m400 by blast
qed

lemma year_of_days:
  "days_before_year (year_of n) < n \<and> n \<le> days_before_year (year_of n + 1)"
proof -
  define k where "k = n - 1"
  define a r where "a = k div 146097" and "r = k mod 146097"
  define b s where "b = r div 36524" and "s = r mod 36524"
  define c u where "c = s div 1461" and "u = s mod 1461"
  define d v where "d = u div 365" and "v = u mod 365"
  have k: "k = 146097 * a + 36524 * b + 1461 * c + 365 * d + v"
    by (simp add: a_def r_def b_def s_def c_def u_def d_def v_def)
  have r: "0 \<le> r" "r < 146097" by (simp_all add: r_def)
  have s: "0 \<le> s" "s < 36524" by (simp_all add: s_def)
  have u: "0 \<le> u" "u < 1461" by (simp_all add: u_def)
  have v: "0 \<le> v" "v < 365" by (simp_all add: v_def)
  have quotient: "0 \<le> x div N \<and> x div N \<le> j" if "0 \<le> x" "x < N * (j + 1)" "0 < N" for x N j :: int
  proof -
    have "N * (j + 1) \<le> x" if "j < x div N"
      using mult_left_mono [of "j + 1" "x div N" N] that \<open>0 < N\<close>
        mult_div_mod_eq [of N x] pos_mod_sign [of N x] by linarith
    with that show ?thesis by (fastforce simp: pos_imp_zdiv_nonneg_iff)
  qed
  have rb: "r = 36524 * b + s" and sc: "s = 1461 * c + u" and ud: "u = 365 * d + v"
    by (simp_all add: b_def s_def c_def u_def d_def v_def)
  have "0 \<le> b \<and> b \<le> 4" "0 \<le> c \<and> c \<le> 24" "0 \<le> d \<and> d \<le> 4"
    unfolding b_def c_def d_def using r s u by (auto intro!: quotient)
  then have b: "0 \<le> b" "b \<le> 4" "b = 4 \<Longrightarrow> s = 0" "r = 36524 * b + s"
    and c: "0 \<le> c" "c \<le> 24" "s = 1461 * c + u" "c = 24 \<Longrightarrow> u < 1460"
    and d: "0 \<le> d" "d \<le> 4" "d = 4 \<Longrightarrow> v = 0" "u = 365 * d + v"
    using rb sc ud r s u v by simp_all
  have y: "year_of n = (if d = 4 \<or> b = 4 then 400 * a + 100 * b + 4 * c + d
                        else 400 * a + 100 * b + 4 * c + d + 1)"
    by (simp add: year_of_def Let_def k_def a_def r_def b_def s_def c_def u_def d_def)
  have n: "n = k + 1" by (simp add: k_def)
  consider (b4) "b = 4" | (d4) "b \<le> 3" "d = 4" | (plain) "b \<le> 3" "d \<le> 3"
    using b(2) d(2) by linarith
  then show ?thesis
  proof cases
    case b4
    with b(3) have "1461 * c + (365 * d + v) = 0" by (simp add: c(3) d(4))
    with c(1) d(1) v(1) have z: "c = 0" "d = 0" "v = 0" by linarith+
    have "year_of n = 400 * a + 400" "n = 146097 * a + 146097" by (simp_all add: y b4 z, simp add: n k b4 z)
    then show ?thesis
      using cycle_years [of 3 24 3 a] cycle_leap [of 3 24 3 a]
        days_before_next_year [of "400 * a + 400"]
      by (simp add: add.commute)
  next
    case d4
    with c(4) d(3,4) have "c \<le> 23" "v = 0" using c(2) by fastforce+
    define z where "z = 400 * a + 100 * b + 4 * c + 4"
    have z: "400 * a + 100 * b + 4 * c + 3 + 1 = z" by (simp add: z_def)
    have "year_of n = z" "n = 146097 * a + 36524 * b + 1461 * c + 1461"
      using d4 \<open>v = 0\<close> by (simp_all add: y z_def, simp add: n k)
    then show ?thesis
      using cycle_years [of b c 3 a, unfolded z] cycle_leap [of b c 3 a, unfolded z] b(1) c(1) d4
        days_before_next_year [of z] \<open>c \<le> 23\<close>
      by simp
  next
    case plain
    define z where "z = 400 * a + 100 * b + 4 * c + d + 1"
    have "year_of n = z" using plain by (simp add: y z_def)
    moreover have "n = days_before_year z + v + 1"
      using cycle_years [of b c d a] b(1) c(1,2) d(1) plain by (simp add: n k z_def)
    ultimately show ?thesis
      using v days_before_next_year [of z] by simp
  qed
qed

lemma split_month_bounds:
  assumes "split_month ls m r = (m', d)" and "1 \<le> r" and "r \<le> sum_list ls"
  shows "m \<le> m' \<and> m' < m + int (length ls) \<and> 1 \<le> d \<and> d \<le> ls ! nat (m' - m)
    \<and> r = sum_list (take (nat (m' - m)) ls) + d"
  using assms
proof (induction ls m r arbitrary: m' d rule: split_month.induct)
  case (2 l ls m r)
  show ?case
  proof (cases "r \<le> l")
    case False
    with 2 have ih: "m + 1 \<le> m' \<and> m' < m + 1 + int (length ls) \<and> 1 \<le> d \<and> d \<le> ls ! nat (m' - (m + 1))
      \<and> r - l = sum_list (take (nat (m' - (m + 1))) ls) + d"
      by (intro 2(1)) auto
    have "nat (m' - m) = Suc (nat (m' - (m + 1)))" using ih by linarith
    with ih show ?thesis by simp
  qed (use 2 in auto)
qed simp

definition valid_date :: "int \<times> int \<times> int \<Rightarrow> bool" where
  "valid_date = (\<lambda>(y, m, d). 1 \<le> m \<and> m \<le> 12 \<and> 1 \<le> d \<and> d \<le> month_lengths y ! nat (m - 1))"

lemma date_of_spec:
  assumes "date_of n = (y, m, d)"
  shows "ordinal y m d = n" and "valid_date (y, m, d)" and "y = year_of n"
proof -
  have y: "y = year_of n" and sm: "split_month (month_lengths y) 1 (n - days_before_year y) = (m, d)"
    using assms by (auto simp: date_of_def Let_def split: prod.splits)
  have "1 \<le> n - days_before_year y" "n - days_before_year y \<le> sum_list (month_lengths y)"
    using year_of_days [of n] by (simp_all add: y year_length)
  from split_month_bounds [OF sm this]
  have b: "1 \<le> m \<and> m < 1 + int (length (month_lengths y)) \<and> 1 \<le> d \<and> d \<le> month_lengths y ! nat (m - 1)
    \<and> n - days_before_year y = sum_list (take (nat (m - 1)) (month_lengths y)) + d" .
  then show "ordinal y m d = n" "y = year_of n"
    by (simp_all add: ordinal_def y)
  have "length (month_lengths y) = 12" by (simp add: month_lengths_def)
  with b show "valid_date (y, m, d)" by (simp add: valid_date_def)
qed

text \<open>Dates in order have their ordinals in order.\<close>

lemma month_prefix_mono:
  assumes "1 \<le> m" and "m < m'" and "m' \<le> 12"
  shows "sum_list (take (nat (m - 1)) (month_lengths y)) + month_lengths y ! nat (m - 1)
    \<le> sum_list (take (nat (m' - 1)) (month_lengths y))"
proof -
  have take_le: "sum_list (take i xs) \<le> sum_list (take j xs)"
    if "i \<le> j" "\<forall>x \<in> set xs. 0 \<le> x" for i j and xs :: "int list"
  proof -
    have "0 \<le> sum_list (take (j - i) (drop i xs))"
      using that(2) by (intro sum_list_nonneg) (auto dest!: in_set_takeD in_set_dropD)
    then show ?thesis using take_add [of i "j - i" xs] that(1) by simp
  qed
  have "nat (m - 1) < length (month_lengths y)"
    using assms by (simp add: month_lengths_def)
  then have "sum_list (take (nat (m - 1)) (month_lengths y)) + month_lengths y ! nat (m - 1)
      = sum_list (take (Suc (nat (m - 1))) (month_lengths y))"
    by (simp only: take_Suc_conv_app_nth sum_list_append) simp
  also have "\<dots> \<le> sum_list (take (nat (m' - 1)) (month_lengths y))"
    using assms by (intro take_le) (auto simp: month_lengths_def)
  finally show ?thesis .
qed

lemma ordinal_bounds:
  assumes "valid_date (y, m, d)"
  shows "days_before_year y < ordinal y m d" and "ordinal y m d \<le> days_before_year (y + 1)"
proof -
  have m: "1 \<le> m" "m \<le> 12" "1 \<le> d" "d \<le> month_lengths y ! nat (m - 1)"
    using assms by (auto simp: valid_date_def)
  have nonneg: "0 \<le> sum_list (take k (month_lengths y))" for k
    by (rule sum_list_nonneg) (auto simp: month_lengths_def dest!: in_set_takeD split: if_splits)
  from m(3) nonneg [of "nat (m - 1)"] show "days_before_year y < ordinal y m d"
    by (simp add: ordinal_def)
  have "sum_list (take (nat (m - 1)) (month_lengths y)) + month_lengths y ! nat (m - 1)
      \<le> sum_list (month_lengths y)"
  proof (cases "m = 12")
    case True
    then show ?thesis by (simp add: month_lengths_def)
  next
    case False
    then have "sum_list (take (nat (m - 1)) (month_lengths y)) + month_lengths y ! nat (m - 1)
        \<le> sum_list (take 11 (month_lengths y))"
      using month_prefix_mono [of m 12 y] m by simp
    also have "\<dots> \<le> sum_list (month_lengths y)" by (simp add: month_lengths_def)
    finally show ?thesis .
  qed
  with m(4) show "ordinal y m d \<le> days_before_year (y + 1)"
    by (simp add: ordinal_def year_length)
qed

lemma ordinal_strict_mono:
  assumes "valid_date (y, m, d)" and "valid_date (y', m', d')"
    and "y < y' \<or> y = y' \<and> (m < m' \<or> m = m' \<and> d < d')"
  shows "ordinal y m d < ordinal y' m' d'"
  using assms(3)
proof (elim disjE conjE)
  assume "y < y'"
  then have "days_before_year (y + 1) \<le> days_before_year y'"
    by (intro days_before_year_mono) simp
  with ordinal_bounds [OF assms(1)] ordinal_bounds [OF assms(2)] show ?thesis by linarith
next
  assume "y = y'" "m < m'"
  with month_prefix_mono [of m m' y] assms(1,2) show ?thesis
    by (fastforce simp: ordinal_def valid_date_def)
qed (simp add: ordinal_def)

lemma ordinal_less_iff:
  assumes "valid_date (y, m, d)" and "valid_date (y', m', d')"
  shows "ordinal y m d < ordinal y' m' d' \<longleftrightarrow> y < y' \<or> y = y' \<and> (m < m' \<or> m = m' \<and> d < d')"
  using ordinal_strict_mono [OF assms] ordinal_strict_mono [OF assms(2,1)]
  by (cases y y' rule: linorder_cases; cases m m' rule: linorder_cases;
      cases d d' rule: linorder_cases) auto

section \<open>Fixed-width decimals\<close>

text \<open>Quotient and remainder, read as the digits of a number, keep its order.\<close>

lemma div_mod_less:
  fixes a b N :: int
  assumes "0 < N"
  shows "a < b \<longleftrightarrow> a div N < b div N \<or> a div N = b div N \<and> a mod N < b mod N"
proof -
  have gen: "N * q + r < N * q' + r' \<longleftrightarrow> q < q' \<or> q = q' \<and> r < r'"
    if "0 \<le> r" "r < N" "0 \<le> r'" "r' < N" for q r q' r'
  proof -
    have up: "N * i + N \<le> N * j" if "i < j" for i j :: int
      using mult_left_mono [of "i + 1" j N] that assms by (simp add: algebra_simps)
    show ?thesis
      using up [of q q'] up [of q' q] that by (cases q q' rule: linorder_cases) auto
  qed
  from gen [of "a mod N" "b mod N" "a div N" "b div N"] show ?thesis
    using assms by simp
qed

fun pad :: "nat \<Rightarrow> int \<Rightarrow> string" where
  "pad 0 n = []"
| "pad (Suc w) n = pad w (n div 10) @ [char_of (nat (48 + n mod 10))]"

lemma pad_length [simp]: "length (pad w n) = w"
  by (induction w n rule: pad.induct) auto

lemma append_less_iff:
  fixes x y :: "'a::linorder list"
  shows "length x = length y \<Longrightarrow> x @ u < y @ v \<longleftrightarrow> x < y \<or> x = y \<and> u < v"
  by (induction x y rule: list_induct2) auto

lemma digit_less:
  assumes "0 \<le> a" "a < 10" "0 \<le> b" "b < 10"
  shows "(char_of (nat (48 + a)) :: char) < char_of (nat (48 + b)) \<longleftrightarrow> a < b"
  using assms by (simp add: less_char_def nat_less_iff)

lemma pad_less:
  "0 \<le> a \<Longrightarrow> a < 10 ^ w \<Longrightarrow> 0 \<le> b \<Longrightarrow> b < 10 ^ w \<Longrightarrow>
     (pad w a < pad w b \<longleftrightarrow> a < b) \<and> (pad w a = pad w b \<longleftrightarrow> a = b)"
proof (induction w arbitrary: a b)
  case (Suc w)
  have q: "0 \<le> a div 10" "a div 10 < 10 ^ w" "0 \<le> b div 10" "b div 10 < 10 ^ w"
    using Suc.prems by (simp_all add: div_less_iff_less_mult mult.commute)
  have "a mod 10 = b mod 10 \<longleftrightarrow> \<not> a mod 10 < b mod 10 \<and> \<not> b mod 10 < a mod 10"
    by linarith
  then have eq: "(char_of (nat (48 + a mod 10)) :: char) = char_of (nat (48 + b mod 10))
      \<longleftrightarrow> a mod 10 = b mod 10"
    by (metis digit_less less_irrefl pos_mod_bound pos_mod_sign zero_less_numeral)
  have less: "(char_of (nat (48 + a mod 10)) :: char) < char_of (nat (48 + b mod 10))
      \<longleftrightarrow> a mod 10 < b mod 10"
    by (rule digit_less) simp_all
  have "a < b \<longleftrightarrow> a div 10 < b div 10 \<or> a div 10 = b div 10 \<and> a mod 10 < b mod 10"
    by (rule div_mod_less) simp
  moreover have "a = b \<longleftrightarrow> a div 10 = b div 10 \<and> a mod 10 = b mod 10"
    by (metis mult_div_mod_eq)
  ultimately have "a < b \<longleftrightarrow> a div 10 < b div 10 \<or> a div 10 = b div 10 \<and> a mod 10 < b mod 10"
    "a = b \<longleftrightarrow> a div 10 = b div 10 \<and> a mod 10 = b mod 10"
    by blast+
  with Suc.IH [OF q] eq less show ?case by (simp add: append_less_iff)
qed simp

section \<open>Stamps\<close>

definition EPOCH_ORDINAL :: int where
  "EPOCH_ORDINAL = 719163"

definition second_of :: "instant \<Rightarrow> int" where
  "second_of t = t div 1000000"

text \<open>
  \<open>value.astimezone(timezone.utc).isoformat(timespec="seconds").replace("+00:00", "Z")\<close>: a
  \<open>datetime\<close> has a year between 1 and 9999.
\<close>

definition representable :: "instant \<Rightarrow> bool" where
  "representable t =
     (let n = second_of t div 86400 + EPOCH_ORDINAL in 1 \<le> n \<and> n \<le> 3652059)"

definition clock_text :: "int \<Rightarrow> int \<Rightarrow> int \<Rightarrow> int \<Rightarrow> int \<Rightarrow> int \<Rightarrow> string" where
  "clock_text y m d h i s =
     pad 4 y @ ''-'' @ pad 2 m @ ''-'' @ pad 2 d @ ''T'' @ pad 2 h @ '':'' @ pad 2 i @ '':'' @ pad 2 s"

definition date_time_text :: "instant \<Rightarrow> string" where
  "date_time_text t =
     (let s = second_of t; r = s mod 86400; (y, m, d) = date_of (s div 86400 + EPOCH_ORDINAL)
      in clock_text y m d (r div 3600) (r div 60 mod 60) (r mod 60))"

definition stamp :: "instant \<Rightarrow> string" where
  "stamp t = date_time_text t @ ''Z''"

lemma stamp_1970: "stamp 0 = ''1970-01-01T00:00:00Z''"
  by code_simp

lemma stamp_leap: "stamp 1709210096999999 = ''2024-02-29T12:34:56Z''"
  by code_simp

text \<open>The fields of a stamp, most significant first, and their lexicographic order.\<close>

lemma date_order:
  assumes "date_of n = (y, m, d)" and "date_of n' = (y', m', d')"
  shows "n < n' \<longleftrightarrow> y < y' \<or> y = y' \<and> (m < m' \<or> m = m' \<and> d < d')"
    and "n = n' \<longleftrightarrow> y = y' \<and> m = m' \<and> d = d'"
proof -
  note o = date_of_spec(1) [OF assms(1)] date_of_spec(1) [OF assms(2)]
  show "n < n' \<longleftrightarrow> y < y' \<or> y = y' \<and> (m < m' \<or> m = m' \<and> d < d')"
    using ordinal_less_iff [OF date_of_spec(2) [OF assms(1)] date_of_spec(2) [OF assms(2)]]
    by (simp only: o)
  show "n = n' \<longleftrightarrow> y = y' \<and> m = m' \<and> d = d'"
    using assms o by (metis Pair_inject)
qed

lemma year_range:
  assumes "1 \<le> n" and "n \<le> 3652059"
  shows "1 \<le> year_of n \<and> year_of n \<le> 9999"
proof -
  note b = year_of_days [of n]
  have "\<not> year_of n < 1"
    using days_before_year_mono [of "year_of n + 1" 1] b assms(1)
    by (auto simp: days_before_year_def [of 1])
  moreover have "\<not> 9999 < year_of n"
    using days_before_year_mono [of 10000 "year_of n"] b assms(2)
    by (auto simp: days_before_year_def [of 10000])
  ultimately show ?thesis by linarith
qed

lemma month_at_most_31:
  "1 \<le> m \<Longrightarrow> m \<le> 12 \<Longrightarrow> month_lengths y ! nat (m - 1) \<le> 31"
proof -
  assume "1 \<le> m" "m \<le> 12"
  then have "month_lengths y ! nat (m - 1) \<in> set (month_lengths y)"
    by (intro nth_mem) (simp add: month_lengths_def)
  then show ?thesis by (auto simp: month_lengths_def split: if_splits)
qed

lemma second_order:
  fixes s s' :: int
  shows "s < s' \<longleftrightarrow> s div 86400 < s' div 86400 \<or> s div 86400 = s' div 86400
      \<and> (s mod 86400 div 3600 < s' mod 86400 div 3600
         \<or> s mod 86400 div 3600 = s' mod 86400 div 3600
           \<and> (s mod 86400 div 60 mod 60 < s' mod 86400 div 60 mod 60
              \<or> s mod 86400 div 60 mod 60 = s' mod 86400 div 60 mod 60
                \<and> s mod 86400 mod 60 < s' mod 86400 mod 60))"
proof -
  have hours: "r div 60 div 60 = r div 3600" for r :: int
    by (simp add: zdiv_zmult2_eq [symmetric])
  have same: "a = b \<longleftrightarrow> a div 60 = b div 60 \<and> a mod 60 = b mod 60" for a b :: int
    by (metis mult_div_mod_eq)
  show ?thesis
    unfolding div_mod_less [of 86400 s s', simplified] div_mod_less [of 60 "s mod 86400" "s' mod 86400", simplified]
      div_mod_less [of 60 "s mod 86400 div 60" "s' mod 86400 div 60", simplified]
      same [of "s mod 86400 div 60"] hours
    by blast
qed

lemma text_field:
  assumes "0 \<le> a" "a < 10 ^ w" "0 \<le> b" "b < 10 ^ w"
  shows "pad w a @ c # u < pad w b @ c # v \<longleftrightarrow> a < b \<or> a = b \<and> u < v"
  using pad_less [OF assms] by (auto simp: append_less_iff)

lemma clock_text_less:
  assumes "0 \<le> y" "y < 10 ^ 4" "0 \<le> y'" "y' < 10 ^ 4" "0 \<le> m" "m < 10 ^ 2" "0 \<le> m'" "m' < 10 ^ 2"
    "0 \<le> d" "d < 10 ^ 2" "0 \<le> d'" "d' < 10 ^ 2" "0 \<le> h" "h < 10 ^ 2" "0 \<le> h'" "h' < 10 ^ 2"
    "0 \<le> i" "i < 10 ^ 2" "0 \<le> i'" "i' < 10 ^ 2" "0 \<le> s" "s < 10 ^ 2" "0 \<le> s'" "s' < 10 ^ 2"
  shows "clock_text y m d h i s @ ''Z'' < clock_text y' m' d' h' i' s' @ ''Z'' \<longleftrightarrow>
    y < y' \<or> y = y' \<and> (m < m' \<or> m = m' \<and> (d < d' \<or> d = d'
      \<and> (h < h' \<or> h = h' \<and> (i < i' \<or> i = i' \<and> s < s'))))"
  unfolding clock_text_def append_Cons append_Nil append_assoc
  by (simp only: text_field assms less_irrefl simp_thms)

lemma day_fields:
  fixes s :: int
  shows "0 \<le> s mod 86400 div 3600" "s mod 86400 div 3600 < 10 ^ 2"
    "0 \<le> s mod 86400 div 60 mod 60" "s mod 86400 div 60 mod 60 < 10 ^ 2"
    "0 \<le> s mod 86400 mod 60" "s mod 86400 mod 60 < 10 ^ 2"
proof -
  have "s mod 86400 < 86400" by simp
  then have "s mod 86400 div 3600 < 24" by (simp add: div_less_iff_less_mult)
  then show "s mod 86400 div 3600 < 10 ^ 2" by simp
  have "s mod 86400 div 60 mod 60 < 60" "s mod 86400 mod 60 < 60" by simp_all
  then show "s mod 86400 div 60 mod 60 < 10 ^ 2" "s mod 86400 mod 60 < 10 ^ 2" by simp_all
qed (simp_all add: pos_imp_zdiv_nonneg_iff)

lemma date_fields:
  assumes "date_of n = (y, m, d)" and "1 \<le> n" and "n \<le> 3652059"
  shows "0 \<le> y \<and> y < 10 ^ 4 \<and> 0 \<le> m \<and> m < 10 ^ 2 \<and> 0 \<le> d \<and> d < 10 ^ 2"
  using date_of_spec(2,3) [OF assms(1)] year_range [OF assms(2,3)] month_at_most_31 [of m y]
  by (auto simp: valid_date_def)

theorem stamp_less_iff:
  assumes "representable t" and "representable t'"
  shows "stamp t < stamp t' \<longleftrightarrow> second_of t < second_of t'"
proof -
  define s s' where "s = second_of t" and "s' = second_of t'"
  obtain y m d where d: "date_of (s div 86400 + EPOCH_ORDINAL) = (y, m, d)" by (metis prod_cases3)
  obtain y' m' d' where d': "date_of (s' div 86400 + EPOCH_ORDINAL) = (y', m', d')"
    by (metis prod_cases3)
  have r: "1 \<le> s div 86400 + EPOCH_ORDINAL" "s div 86400 + EPOCH_ORDINAL \<le> 3652059"
    "1 \<le> s' div 86400 + EPOCH_ORDINAL" "s' div 86400 + EPOCH_ORDINAL \<le> 3652059"
    using assms by (simp_all add: representable_def Let_def s_def s'_def)
  note f = date_fields [OF d r(1,2)] date_fields [OF d' r(3,4)]
  have "stamp t < stamp t' \<longleftrightarrow>
     (y < y' \<or> y = y' \<and> (m < m' \<or> m = m' \<and> (d < d' \<or> d = d'
      \<and> (s mod 86400 div 3600 < s' mod 86400 div 3600
         \<or> s mod 86400 div 3600 = s' mod 86400 div 3600
           \<and> (s mod 86400 div 60 mod 60 < s' mod 86400 div 60 mod 60
              \<or> s mod 86400 div 60 mod 60 = s' mod 86400 div 60 mod 60
                \<and> s mod 86400 mod 60 < s' mod 86400 mod 60)))))"
    unfolding stamp_def date_time_text_def Let_def s_def [symmetric] s'_def [symmetric] d d' prod.case
    by (rule clock_text_less) (use f day_fields in blast)+
  also have "\<dots> \<longleftrightarrow> s < s'"
    using second_order [of s s'] date_order [OF d d']
    unfolding add_less_cancel_right add_right_cancel by blast
  finally show ?thesis by (simp add: s_def s'_def)
qed

corollary stamp_le_iff:
  "representable t \<Longrightarrow> representable t' \<Longrightarrow> stamp t \<le> stamp t' \<longleftrightarrow> second_of t \<le> second_of t'"
  using stamp_less_iff [of t' t] by (simp only: linorder_not_less [symmetric])

corollary stamp_eq_iff:
  "representable t \<Longrightarrow> representable t' \<Longrightarrow> stamp t = stamp t' \<longleftrightarrow> second_of t = second_of t'"
  using stamp_le_iff [of t t'] stamp_le_iff [of t' t] by (auto intro: antisym)

section \<open>Reading a stamp\<close>

text \<open>
  What \<open>fromisoformat\<close> returns on the only texts the store itself writes. The general function is a
  parameter of the components; \<open>reads_stamps\<close> is the law they rely on, and \<open>read_iso\<close> one
  function that has it.
\<close>

definition utc_offset :: "string \<Rightarrow> string" where
  "utc_offset s = butlast s @ ''+00:00''"

definition whole_second :: "instant \<Rightarrow> instant" where
  "whole_second t = seconds (second_of t)"

definition reads_stamps :: "(string \<Rightarrow> pydatetime option) \<Rightarrow> bool" where
  "reads_stamps iso8601 =
     (\<forall>t. representable t \<longrightarrow> iso8601 (utc_offset (stamp t)) = Some (Aware (whole_second t)))"

definition read_field :: "nat \<Rightarrow> nat \<Rightarrow> string \<Rightarrow> int" where
  "read_field i w s = int (digits_value (take w (drop i s)))"

definition read_iso :: "string \<Rightarrow> pydatetime option" where
  "read_iso s =
     (if drop 19 s = ''+00:00'' \<and> length s = 25 then
        Some (Aware (seconds
          ((ordinal (read_field 0 4 s) (read_field 5 2 s) (read_field 8 2 s) - EPOCH_ORDINAL) * 86400
           + read_field 11 2 s * 3600 + read_field 14 2 s * 60 + read_field 17 2 s)))
      else None)"

lemma digits_value_snoc:
  "digits_value (xs @ [c]) = 10 * digits_value xs + (code c - 48)"
  by simp

lemma pad_value: "0 \<le> n \<Longrightarrow> n < 10 ^ w \<Longrightarrow> int (digits_value (pad w n)) = n"
proof (induction w arbitrary: n)
  case (Suc w)
  have "0 \<le> n div 10" "n div 10 < 10 ^ w"
    using Suc.prems by (simp_all add: div_less_iff_less_mult mult.commute)
  with Suc.IH have ih: "int (digits_value (pad w (n div 10))) = n div 10" by blast
  have d: "nat (48 + n mod 10) < 58" "48 \<le> nat (48 + n mod 10)" by (simp_all add: nat_less_iff le_nat_iff)
  then have "int (code (char_of (nat (48 + n mod 10))) - 48) = n mod 10"
    by (simp add: code_def)
  with ih show ?case
    unfolding pad.simps digits_value_snoc by simp
qed simp

lemma read_clock_text:
  assumes "0 \<le> y" "y < 10 ^ 4" "0 \<le> m" "m < 10 ^ 2" "0 \<le> d" "d < 10 ^ 2"
    "0 \<le> h" "h < 10 ^ 2" "0 \<le> i" "i < 10 ^ 2" "0 \<le> s" "s < 10 ^ 2"
  shows "read_iso (utc_offset (clock_text y m d h i s @ ''Z'')) =
    Some (Aware (seconds ((ordinal y m d - EPOCH_ORDINAL) * 86400 + h * 3600 + i * 60 + s)))"
proof -
  let ?t = "utc_offset (clock_text y m d h i s @ ''Z'')"
  have t: "?t = pad 4 y @ ''-'' @ pad 2 m @ ''-'' @ pad 2 d @ ''T'' @ pad 2 h @ '':'' @ pad 2 i @ '':''
      @ pad 2 s @ ''+00:00''"
    by (simp add: utc_offset_def clock_text_def butlast_append)
  have "take 4 (drop 0 ?t) = pad 4 y" "take 2 (drop 5 ?t) = pad 2 m" "take 2 (drop 8 ?t) = pad 2 d"
    "take 2 (drop 11 ?t) = pad 2 h" "take 2 (drop 14 ?t) = pad 2 i" "take 2 (drop 17 ?t) = pad 2 s"
    "drop 19 ?t = ''+00:00''" "length ?t = 25"
    unfolding t by (simp_all del: pad.simps)
  then show ?thesis
    using assms by (simp only: read_iso_def read_field_def pad_value) simp
qed

theorem read_iso_reads_stamps: "reads_stamps read_iso"
  unfolding reads_stamps_def
proof (intro allI impI)
  fix t assume "representable t"
  define s where "s = second_of t"
  obtain y m d where d: "date_of (s div 86400 + EPOCH_ORDINAL) = (y, m, d)" by (metis prod_cases3)
  have r: "1 \<le> s div 86400 + EPOCH_ORDINAL" "s div 86400 + EPOCH_ORDINAL \<le> 3652059"
    using \<open>representable t\<close> by (simp_all add: representable_def Let_def s_def)
  have "read_iso (utc_offset (stamp t)) =
      Some (Aware (seconds ((ordinal y m d - EPOCH_ORDINAL) * 86400 + s mod 86400 div 3600 * 3600
        + s mod 86400 div 60 mod 60 * 60 + s mod 86400 mod 60)))"
    unfolding stamp_def date_time_text_def Let_def s_def [symmetric] d prod.case
    by (rule read_clock_text) (use date_fields [OF d r] day_fields in blast)+
  also have "(ordinal y m d - EPOCH_ORDINAL) * 86400 + s mod 86400 div 3600 * 3600
        + s mod 86400 div 60 mod 60 * 60 + s mod 86400 mod 60 = s"
  proof -
    have clock: "q div 3600 * 3600 + q div 60 mod 60 * 60 + q mod 60 = q" for q :: int
    proof -
      have "q div 3600 = q div 60 div 60" by (simp add: zdiv_zmult2_eq [symmetric])
      moreover have "a * 3600 + b * 60 + c = q" if "60 * a + b = k" "60 * k + c = q" for a b c k :: int
        using that by simp
      ultimately show ?thesis by (simp only: mult_div_mod_eq)
    qed
    have "(x - EPOCH_ORDINAL) * 86400 + a + b + c = s"
      if "a + b + c = r" "86400 * k + r = s" "x = k + EPOCH_ORDINAL" for a b c k r x
      using that by simp
    from this [OF clock mult_div_mod_eq date_of_spec(1) [OF d]] show ?thesis .
  qed
  finally show "read_iso (utc_offset (stamp t)) = Some (Aware (whole_second t))"
    by (simp add: whole_second_def s_def)
qed

lemma utc_offset_stamp: "last (stamp t) = CHR ''Z''" "stamp t \<noteq> []"
  by (simp_all add: stamp_def)

lemma second_of_mono: "t \<le> t' \<Longrightarrow> second_of t \<le> second_of t'"
  by (simp add: second_of_def zdiv_mono1)

lemma whole_second_le: "whole_second t \<le> t"
  by (simp add: whole_second_def second_of_def mult.commute)

lemma second_of_whole [simp]: "second_of (seconds n) = n"
  by (simp add: second_of_def)

end
