(* ===== verification/Canonical_Json.thy ===== *)
theory Canonical_Json
  imports Py_Time
begin

text \<open>
  The canonical text the stores hash: \<open>json.dumps(value, sort_keys=True, separators=(",", ":"),
  ensure_ascii=False)\<close> on JSON values, and the UTC timestamps
  \<open>isoformat(timespec="microseconds")\<close> with \<open>+00:00\<close> replaced by \<open>Z\<close>. A \<open>datetime\<close> is not
  serialisable: \<open>json.dumps\<close> raises \<open>TypeError\<close>, which the callers see as a value.
\<close>

section \<open>JSON text\<close>

definition hex_digit :: "nat \<Rightarrow> char" where
  "hex_digit n = (if n < 10 then char_of (48 + n) else char_of (87 + n))"

definition json_char :: "char \<Rightarrow> string" where
  "json_char c =
     (if c = CHR 0x22 then [CHR 0x5C, CHR 0x22]
      else if c = CHR 0x5C then [CHR 0x5C, CHR 0x5C]
      else if code c = 10 then [CHR 0x5C, CHR ''n'']
      else if code c = 13 then [CHR 0x5C, CHR ''r'']
      else if code c = 9 then [CHR 0x5C, CHR ''t'']
      else if code c = 8 then [CHR 0x5C, CHR ''b'']
      else if code c = 12 then [CHR 0x5C, CHR ''f'']
      else if code c < 32 then
        [CHR 0x5C, CHR ''u'', CHR ''0'', CHR ''0'', hex_digit (code c div 16), hex_digit (code c mod 16)]
      else [c])"

definition json_string :: "string \<Rightarrow> string" where
  "json_string s = CHR 0x22 # concat (map json_char s) @ [CHR 0x22]"

fun joined :: "string list \<Rightarrow> string" where
  "joined [] = []"
| "joined [x] = x"
| "joined (x # y # ys) = x @ CHR '','' # joined (y # ys)"

fun json_text :: "pyval \<Rightarrow> string"
and json_texts :: "pyval list \<Rightarrow> string list"
and json_items :: "(string \<times> pyval) list \<Rightarrow> (string \<times> string) list" where
  "json_text PNone = ''null''"
| "json_text (PBool b) = (if b then ''true'' else ''false'')"
| "json_text (PInt i) = int_str i"
| "json_text (PStr s) = json_string s"
| "json_text (PTime t) = []"
| "json_text (PList xs) = CHR ''['' # joined (json_texts xs) @ '']''"
| "json_text (PDict d) =
     CHR ''{'' # joined (map (\<lambda>(k, t). json_string k @ CHR '':'' # t) (sort_key fst (json_items d))) @ ''}''"
| "json_texts [] = []"
| "json_texts (x # xs) = json_text x # json_texts xs"
| "json_items [] = []"
| "json_items ((k, v) # d) = (k, json_text v) # json_items d"

fun json_safe :: "pyval \<Rightarrow> bool"
and json_safe_all :: "pyval list \<Rightarrow> bool"
and json_safe_items :: "(string \<times> pyval) list \<Rightarrow> bool" where
  "json_safe (PTime t) = False"
| "json_safe (PList xs) = json_safe_all xs"
| "json_safe (PDict d) = json_safe_items d"
| "json_safe PNone = True"
| "json_safe (PBool b) = True"
| "json_safe (PInt i) = True"
| "json_safe (PStr s) = True"
| "json_safe_all [] = True"
| "json_safe_all (x # xs) = (json_safe x \<and> json_safe_all xs)"
| "json_safe_items [] = True"
| "json_safe_items ((k, v) # d) = (json_safe v \<and> json_safe_items d)"

lemma json_safe_items_pset [simp]:
  "json_safe v \<Longrightarrow> json_safe_items d \<Longrightarrow> json_safe_items (pset k v d)"
  by (induction d) auto

lemma json_safe_items_pmerge:
  "json_safe_items d \<Longrightarrow> json_safe_items e \<Longrightarrow> json_safe_items (pmerge d e)"
  unfolding pmerge_def
proof (induction e arbitrary: d)
  case (Cons p e)
  then show ?case by (cases p) simp
qed simp

section \<open>UTC timestamps\<close>

definition timestamp :: "instant \<Rightarrow> string" where
  "timestamp t = date_time_text t @ ''.'' @ pad 6 (t mod 1000000) @ ''Z''"

lemma timestamp_epoch: "timestamp 0 = ''1970-01-01T00:00:00.000000Z''"
  by code_simp

end
