(* ===== verification/Timing.thy ===== *)
theory Timing
  imports Py_Prelude
begin

text \<open>
  \<open>github_automation/timing.py\<close>: the timing oracle (policy version 1) and the failure taxonomy.
  Every helper normalises its timestamps with \<open>_utc\<close>, which raises on a naive \<open>datetime\<close>; the
  exception is a value here and the short-circuit of \<open>and\<close> decides whether it is reached.
\<close>

datatype py_exn = ValueError string | TypeError string

section \<open>Policy\<close>

record TimingPolicyV1 =
  tp_version :: int
  heartbeat_every :: int
  lease_ttl :: int
  watchdog_interval :: int
  api_tolerance :: int
  inventory_freshness :: int
  claim_deadline_after :: int
  execution_deadline_after :: int
  normal_cancel_grace :: int
  force_cancel_verify :: int
  dispatch_retry_backoff :: "int list"
  poll_initial :: int
  poll_cap :: int
  reviewer_timeout :: int
  reviewer_retry_backoff :: "int list"
  reviewer_queue_alert :: int
  reviewer_queue_max_age :: int
  reviewer_dlq_retention :: int
  preclaim_fallback_sla :: int
  total_fallback_gate_sla :: int

definition POLICY_V1 :: TimingPolicyV1 where
  "POLICY_V1 =
     \<lparr>tp_version = 1, heartbeat_every = seconds 60, lease_ttl = minutes 5,
      watchdog_interval = minutes 5, api_tolerance = minutes 2,
      inventory_freshness = minutes 5, claim_deadline_after = minutes 10,
      execution_deadline_after = minutes 40, normal_cancel_grace = seconds 90,
      force_cancel_verify = minutes 2,
      dispatch_retry_backoff = [seconds 2, seconds 8, seconds 32],
      poll_initial = seconds 15, poll_cap = seconds 30, reviewer_timeout = seconds 120,
      reviewer_retry_backoff = [seconds 30, minutes 2], reviewer_queue_alert = minutes 10,
      reviewer_queue_max_age = minutes (24 * 60), reviewer_dlq_retention = minutes (7 * 24 * 60),
      preclaim_fallback_sla = minutes 12, total_fallback_gate_sla = minutes 100\<rparr>"

datatype FailureClass =
    FUNCTIONAL_FAILURE | STALE_INPUT | INFRA_PRETEST | INFRA_TRANSPORT_LOSS
  | PROTOCOL_FAILURE | CONTROL_FAILURE | FALLBACK_FAILURE

datatype FailureOutcome =
    LOCAL_FINAL_FAILURE | FALLBACK_ONCE | STALE_CANCEL | OUTCOME_BLOCK_ALERT
  | FALLBACK_FINAL_FAILURE | EVIDENCE_ONLY_FALLBACK

section \<open>Deadlines\<close>

fun utc :: "pydatetime \<Rightarrow> py_exn + instant" where
  "utc (Aware t) = Inr t"
| "utc (Naive t) = Inl (ValueError ''authoritative timestamps must be timezone-aware'')"

definition utc2 :: "pydatetime \<Rightarrow> pydatetime \<Rightarrow> (instant \<Rightarrow> instant \<Rightarrow> 'a) \<Rightarrow> py_exn + 'a" where
  "utc2 a b f = bindE (utc a) (\<lambda>x. bindE (utc b) (\<lambda>y. Inr (f x y)))"

definition deadline_from :: "pydatetime \<Rightarrow> int \<Rightarrow> py_exn + pydatetime" where
  "deadline_from causal_timestamp duration =
     (if duration \<le> 0 then Inl (ValueError ''deadline duration must be positive'')
      else bindE (utc causal_timestamp) (\<lambda>t. Inr (Aware (t + duration))))"

definition claim_is_timely :: "pydatetime option \<Rightarrow> pydatetime \<Rightarrow> py_exn + bool" where
  "claim_is_timely started_at claim_deadline =
     (case started_at of None \<Rightarrow> Inr False
      | Some s \<Rightarrow> utc2 s claim_deadline (\<lambda>x y. x \<le> y))"

definition claim_timeout_due :: "pydatetime \<Rightarrow> pydatetime \<Rightarrow> bool \<Rightarrow> py_exn + bool" where
  "claim_timeout_due now claim_deadline timely_claim =
     (if timely_claim then Inr False else utc2 now claim_deadline (\<lambda>x y. x > y))"

definition lease_is_valid :: "pydatetime \<Rightarrow> pydatetime \<Rightarrow> py_exn + bool" where
  "lease_is_valid now lease_expires_at = utc2 now lease_expires_at (\<lambda>x y. x < y)"

definition completion_is_timely :: "pydatetime option \<Rightarrow> pydatetime \<Rightarrow> py_exn + bool" where
  "completion_is_timely terminal_at execution_deadline =
     (case terminal_at of None \<Rightarrow> Inr False
      | Some t \<Rightarrow> utc2 t execution_deadline (\<lambda>x y. x \<le> y))"

definition execution_timeout_due :: "pydatetime \<Rightarrow> pydatetime \<Rightarrow> bool \<Rightarrow> py_exn + bool" where
  "execution_timeout_due now execution_deadline timely_completion =
     (if timely_completion then Inr False else utc2 now execution_deadline (\<lambda>x y. x > y))"

definition force_cancel_due :: "pydatetime \<Rightarrow> pydatetime \<Rightarrow> py_exn + bool" where
  "force_cancel_due now cancel_requested_at =
     utc2 now cancel_requested_at (\<lambda>x y. x \<ge> y + normal_cancel_grace POLICY_V1)"

definition force_cancel_verification_due :: "pydatetime \<Rightarrow> pydatetime \<Rightarrow> py_exn + bool" where
  "force_cancel_verification_due now force_cancel_requested_at =
     utc2 now force_cancel_requested_at (\<lambda>x y. x \<ge> y + force_cancel_verify POLICY_V1)"

definition queue_alert_due :: "pydatetime \<Rightarrow> pydatetime \<Rightarrow> py_exn + bool" where
  "queue_alert_due now enqueued_at =
     utc2 now enqueued_at (\<lambda>x y. x - y \<ge> reviewer_queue_alert POLICY_V1)"

definition queue_dead_letter_due :: "pydatetime \<Rightarrow> pydatetime \<Rightarrow> py_exn + bool" where
  "queue_dead_letter_due now enqueued_at =
     utc2 now enqueued_at (\<lambda>x y. x - y \<ge> reviewer_queue_max_age POLICY_V1)"

definition heartbeat_due :: "pydatetime \<Rightarrow> pydatetime \<Rightarrow> py_exn + bool" where
  "heartbeat_due now last_heartbeat_at =
     utc2 now last_heartbeat_at (\<lambda>x y. x - y \<ge> heartbeat_every POLICY_V1)"

definition watchdog_due :: "pydatetime \<Rightarrow> pydatetime \<Rightarrow> py_exn + bool" where
  "watchdog_due now last_reconciled_at =
     utc2 now last_reconciled_at (\<lambda>x y. x - y \<ge> watchdog_interval POLICY_V1)"

definition inventory_is_fresh :: "pydatetime \<Rightarrow> pydatetime \<Rightarrow> py_exn + bool" where
  "inventory_is_fresh now observed_at =
     utc2 now observed_at (\<lambda>x y. 0 \<le> x - y \<and> x - y \<le> inventory_freshness POLICY_V1)"

definition api_tolerance_breached :: "pydatetime \<Rightarrow> pydatetime \<Rightarrow> py_exn + bool" where
  "api_tolerance_breached now threshold_at =
     utc2 now threshold_at (\<lambda>x y. x > y + api_tolerance POLICY_V1)"

definition preclaim_fallback_sla_breached :: "pydatetime \<Rightarrow> pydatetime \<Rightarrow> py_exn + bool" where
  "preclaim_fallback_sla_breached now dispatched_at =
     utc2 now dispatched_at (\<lambda>x y. x > y + preclaim_fallback_sla POLICY_V1)"

definition total_fallback_sla_breached :: "pydatetime \<Rightarrow> pydatetime \<Rightarrow> py_exn + bool" where
  "total_fallback_sla_breached now gate_started_at =
     utc2 now gate_started_at (\<lambda>x y. x > y + total_fallback_gate_sla POLICY_V1)"

definition http_ack_within_target :: "int \<Rightarrow> bool \<Rightarrow> bool" where
  "http_ack_within_target response_duration durable_enqueue =
     (durable_enqueue \<and> 0 \<le> response_duration \<and> response_duration < seconds 10)"

definition classify_failure ::
  "FailureClass \<Rightarrow> bool \<Rightarrow> pydatetime option \<Rightarrow> pydatetime option \<Rightarrow> py_exn + FailureOutcome" where
  "classify_failure failure admitted terminal_at execution_deadline =
     (case failure of
        FUNCTIONAL_FAILURE \<Rightarrow>
          (if \<not> admitted \<or> terminal_at = None then Inr OUTCOME_BLOCK_ALERT
           else case execution_deadline of
             None \<Rightarrow> Inr OUTCOME_BLOCK_ALERT
           | Some D \<Rightarrow>
               bindE (completion_is_timely terminal_at D)
                 (\<lambda>timely. Inr (if timely then LOCAL_FINAL_FAILURE else EVIDENCE_ONLY_FALLBACK)))
      | STALE_INPUT \<Rightarrow> Inr STALE_CANCEL
      | INFRA_PRETEST \<Rightarrow> Inr FALLBACK_ONCE
      | INFRA_TRANSPORT_LOSS \<Rightarrow> Inr FALLBACK_ONCE
      | PROTOCOL_FAILURE \<Rightarrow> Inr OUTCOME_BLOCK_ALERT
      | CONTROL_FAILURE \<Rightarrow> Inr OUTCOME_BLOCK_ALERT
      | FALLBACK_FAILURE \<Rightarrow> Inr FALLBACK_FINAL_FAILURE)"

section \<open>Facts about the oracle\<close>

named_theorems timing_simps \<open>evaluation of the oracle on aware timestamps\<close>

lemma utc_eq_Inr: "utc d = Inr t \<longleftrightarrow> d = Aware t"
  by (cases d) auto

lemma utc2_Aware [timing_simps]: "utc2 (Aware x) (Aware y) f = Inr (f x y)"
  by (simp add: utc2_def)

lemma utc2_eq_Inr: "utc2 a b f = Inr r \<longleftrightarrow> (\<exists>x y. a = Aware x \<and> b = Aware y \<and> r = f x y)"
  by (cases a; cases b) (auto simp: utc2_def)

lemmas oracle_defs = claim_is_timely_def claim_timeout_due_def lease_is_valid_def
  completion_is_timely_def execution_timeout_due_def force_cancel_due_def
  force_cancel_verification_due_def

lemma policy_numbers [timing_simps]:
  "normal_cancel_grace POLICY_V1 = 90000000"
  "force_cancel_verify POLICY_V1 = 120000000"
  "inventory_freshness POLICY_V1 = 300000000"
  by (simp_all add: POLICY_V1_def)

text \<open>The failure taxonomy lets a local failure be final only for a functional failure of an
  admitted execution whose terminal instant is present and not later than the persisted execution
  deadline; in every other case the outcome is another one.\<close>

theorem local_final_failure_only_if_timely:
  "classify_failure failure admitted terminal_at execution_deadline = Inr LOCAL_FINAL_FAILURE \<longleftrightarrow>
     failure = FUNCTIONAL_FAILURE \<and> admitted \<and>
     (\<exists>t D. terminal_at = Some (Aware t) \<and> execution_deadline = Some (Aware D) \<and> t \<le> D)"
  by (auto simp: classify_failure_def completion_is_timely_def bindE_eq_Inr utc2_eq_Inr
      split: FailureClass.splits option.splits if_splits)

text \<open>A claim deadline partitions the time line: at any aware instant the timeout is due exactly
  when the instant is strictly later than the deadline and no start at or before the deadline was
  observed, so a timely claim and a claim timeout never hold together.\<close>

theorem claim_timeout_excludes_timely_claim:
  assumes "claim_is_timely started (Aware D) = Inr timely"
  shows "claim_timeout_due (Aware now) (Aware D) timely = Inr (D < now \<and> \<not> timely)
    \<and> (timely \<longleftrightarrow> (\<exists>s. started = Some (Aware s) \<and> s \<le> D))"
  using assms
  by (auto simp: claim_is_timely_def claim_timeout_due_def utc2_eq_Inr utc2_Aware
      split: option.splits)

theorem claim_timeout_excludes_timely_claim_witness:
  "claim_timeout_due (Aware 700) (Aware 600) False = Inr True"
proof -
  have h: "claim_is_timely (Some (Aware 601)) (Aware 600) = Inr False"
    by (simp add: claim_is_timely_def utc2_Aware)
  show ?thesis using claim_timeout_excludes_timely_claim [OF h, of 700] by simp
qed

end
