(* ===== verification/Github_Contracts.thy ===== *)
theory Github_Contracts
  imports Timing
begin

text \<open>
  \<open>github.py\<close>: the contracts checked immediately before a network adapter uses its data. The GitHub
  App authority with minting and key rotation, the dispatch request and its response, the observed
  job of a dispatched run, the protocol package exchanged between coordinator and child, the formal
  claim and the hosted conclusion.

  A field whose type the source checks at run time is a \<open>pyval\<close>; one it only annotates has the
  annotated type. \<open>fromiso\<close> stands for \<open>datetime.fromisoformat\<close>, whose grammar differs between Python
  releases: \<open>None\<close> is its \<open>ValueError\<close>. An exception keeps its class and the constant part of its
  message.
\<close>

datatype gh_error =
    ControlFailure string
  | ProtocolFailure string
  | WorkflowJobPending string
  | GhTypeError string

definition PINNED_GITHUB_API_VERSION :: string where
  "PINNED_GITHUB_API_VERSION = ''2026-03-10''"

definition CI_GATE_NAME :: string where
  "CI_GATE_NAME = ''ci-gate''"

definition ALLOWED_CONTROL_ROLES :: "string list" where
  "ALLOWED_CONTROL_ROLES = [''coordinator'', ''reconciler'']"

definition MINIMUM_APP_PERMISSIONS :: pydict where
  "MINIMUM_APP_PERMISSIONS = [(''metadata'', PStr ''read''), (''checks'', PStr ''write'')]"

section \<open>Helpers\<close>

text \<open>\<open>_UUID\<close>, \<open>_NONCE\<close> and the runner label \<open>wsl-jit-[0-9a-f]{32}\<close>.\<close>

definition uuid_text :: "string \<Rightarrow> bool" where
  "uuid_text s = (length s = 36
     \<and> list_all (\<lambda>i. s ! i = CHR ''-'') [8, 13, 18, 23]
     \<and> list_all (\<lambda>i. List.member [8, 13, 18, 23] i \<or> is_hex (s ! i)) [0..<36]
     \<and> List.member ''12345'' (s ! 14) \<and> List.member ''89ab'' (s ! 19))"

definition nonce_text :: "string \<Rightarrow> bool" where
  "nonce_text s = (length s = 43 \<and> list_all (\<lambda>c. is_alnum c \<or> c = CHR ''_'' \<or> c = CHR ''-'') s)"

definition runner_label_text :: "string \<Rightarrow> bool" where
  "runner_label_text s = (take 8 s = ''wsl-jit-'' \<and> hex_of_length 32 (drop 8 s))"

definition require_positive_int :: "pyval \<Rightarrow> 'e \<Rightarrow> 'e + unit" where
  "require_positive_int v err = requireE (positive_int v) err"

definition require_exact_repository :: "pyval \<Rightarrow> 'e \<Rightarrow> 'e + unit" where
  "require_exact_repository v err =
     requireE (str_matches (\<lambda>s. \<not> List.member s (CHR ''*'') \<and> exact_repository_name s) v) err"

fun aware :: "pydatetime \<Rightarrow> 'e \<Rightarrow> 'e + instant" where
  "aware (Aware t) err = Inr t"
| "aware (Naive t) err = Inl err"

text \<open>\<open>value.replace("Z", "+00:00")\<close>.\<close>

definition replace_zulu :: "string \<Rightarrow> string" where
  "replace_zulu s = concat (map (\<lambda>c. if c = CHR ''Z'' then ''+00:00'' else [c]) s)"

fun parse_time :: "(string \<Rightarrow> pydatetime option) \<Rightarrow> pyval \<Rightarrow> string \<Rightarrow> gh_error + instant" where
  "parse_time fromiso (PTime t) field = aware t (ProtocolFailure (field @ '' must be timezone-aware''))"
| "parse_time fromiso (PStr s) field =
     (case fromiso (replace_zulu s) of
        None \<Rightarrow> Inl (ProtocolFailure (field @ '' must be an ISO-8601 timestamp''))
      | Some t \<Rightarrow> aware t (ProtocolFailure (field @ '' must be timezone-aware'')))"
| "parse_time fromiso _ field = Inl (ProtocolFailure (field @ '' must be an ISO-8601 timestamp''))"

text \<open>\<open>v in {...}\<close>, which hashes the value first.\<close>

definition set_member :: "pyval \<Rightarrow> string list \<Rightarrow> gh_error + bool" where
  "set_member v ss = (if hashable v then Inr (one_of v ss) else Inl (GhTypeError ''unhashable type''))"

text \<open>\<open>a <= b\<close> on two timestamps and on two integers.\<close>

fun time_le :: "pydatetime \<Rightarrow> pydatetime \<Rightarrow> gh_error + bool" where
  "time_le (Aware a) (Aware b) = Inr (a \<le> b)"
| "time_le (Naive a) (Naive b) = Inr (a \<le> b)"
| "time_le _ _ = Inl (GhTypeError ''naive and aware datetimes'')"

definition num_le :: "pyval \<Rightarrow> pyval \<Rightarrow> gh_error + bool" where
  "num_le a b = (case (py_num a, py_num b) of
       (Some x, Some y) \<Rightarrow> Inr (x \<le> y)
     | _ \<Rightarrow> Inl (GhTypeError ''unorderable types''))"

text \<open>\<open>f"{v}"\<close> for the values the source interpolates: text, integers, booleans and \<open>None\<close>.\<close>

fun fmt :: "pyval \<Rightarrow> string" where
  "fmt (PStr s) = s"
| "fmt (PInt i) = int_str i"
| "fmt (PBool b) = (if b then ''True'' else ''False'')"
| "fmt _ = ''None''"

section \<open>App authority\<close>

record RuntimeIdentity =
  ri_role :: string
  ri_workflow_identity :: string
  ri_workflow_ref :: string
  ri_reviewed_default_branch_code :: bool

record MintRequest =
  mr_app_id :: pyval
  mr_installation_id :: pyval
  mr_repository :: pyval
  mr_repository_id :: pyval
  mr_permissions :: pydict
  mr_ttl_seconds :: pyval
  mr_memory_only :: bool
  mr_masked :: bool
  mr_export_to_children :: bool
  mr_persist :: bool

record AppAuthorityV1 =
  aa_owner :: string
  aa_app_id :: pyval
  aa_app_slug :: string
  aa_repository :: pyval
  aa_repository_id :: pyval
  aa_installation_id :: pyval
  aa_control_workflow_identity :: string
  aa_control_workflow_ref :: string
  aa_key_fingerprint :: string
  aa_key_version :: pyval
  aa_rotated_at :: pydatetime
  aa_permissions :: pydict
  aa_ci_gate_authority_version :: pyval
  aa_key_state :: string

definition app_authority :: "AppAuthorityV1 \<Rightarrow> gh_error + AppAuthorityV1" where
  "app_authority a =
     bindE (requireE (py_eq (aa_ci_gate_authority_version a) (PInt 1))
       (ControlFailure ''ci_gate_authority_version must be 1'')) (\<lambda>_.
     bindE (requireE (account_name (aa_owner a))
       (ControlFailure ''authority owner must be a canonical GitHub account'')) (\<lambda>_.
     bindE (require_positive_int (aa_app_id a) (ControlFailure ''app_id must be a positive integer'')) (\<lambda>_.
     bindE (require_positive_int (aa_repository_id a) (ControlFailure ''repository_id must be a positive integer'')) (\<lambda>_.
     bindE (require_positive_int (aa_installation_id a) (ControlFailure ''installation_id must be a positive integer'')) (\<lambda>_.
     bindE (require_positive_int (aa_key_version a) (ControlFailure ''key_version must be a positive integer'')) (\<lambda>_.
     bindE (require_exact_repository (aa_repository a) (ControlFailure ''repository must be one exact owner/repo'')) (\<lambda>_.
     bindE (requireE (aa_app_slug a \<noteq> [] \<and> aa_app_slug a = lower (aa_app_slug a))
       (ControlFailure ''app_slug must be a non-empty canonical slug'')) (\<lambda>_.
     bindE (requireE (aa_control_workflow_identity a \<noteq> [] \<and> aa_control_workflow_ref a \<noteq> [])
       (ControlFailure ''exact control workflow identity/ref are required'')) (\<lambda>_.
     bindE (requireE (sha256hex (aa_key_fingerprint a))
       (ControlFailure ''key_fingerprint must be lowercase SHA-256'')) (\<lambda>_.
     bindE (aware (aa_rotated_at a) (ControlFailure ''rotated_at must be timezone-aware'')) (\<lambda>_.
     bindE (requireE (py_eq (PDict (aa_permissions a)) (PDict MINIMUM_APP_PERMISSIONS))
       (ControlFailure ''App permissions must be exactly metadata:read/checks:write'')) (\<lambda>_.
     bindE (requireE (List.member [''active'', ''revoked''] (aa_key_state a))
       (ControlFailure ''App key_state must be active or revoked'')) (\<lambda>_.
     Inr a)))))))))))))"

fun ttl_ok :: "pyval \<Rightarrow> gh_error + bool" where
  "ttl_ok (PBool b) = Inr False"
| "ttl_ok (PInt i) = Inr (0 < i \<and> i \<le> 3600)"
| "ttl_ok _ = Inl (GhTypeError ''unorderable types'')"

definition mint :: "AppAuthorityV1 \<Rightarrow> RuntimeIdentity \<Rightarrow> MintRequest \<Rightarrow> gh_error + MintRequest" where
  "mint a identity request =
     bindE (requireE (aa_key_state a = ''active'') (ControlFailure ''revoked App key cannot mint'')) (\<lambda>_.
     bindE (requireE (List.member ALLOWED_CONTROL_ROLES (ri_role identity)
         \<and> ri_workflow_identity identity = aa_control_workflow_identity a
         \<and> ri_workflow_ref identity = aa_control_workflow_ref a
         \<and> ri_reviewed_default_branch_code identity)
       (ControlFailure ''runtime identity is not the pinned control plane'')) (\<lambda>_.
     bindE (requireE (py_eq (mr_app_id request) (aa_app_id a)
         \<and> py_eq (mr_installation_id request) (aa_installation_id a)
         \<and> py_eq (mr_repository request) (aa_repository a)
         \<and> py_eq (mr_repository_id request) (aa_repository_id a))
       (ControlFailure ''App/install/repository scope mismatch'')) (\<lambda>_.
     bindE (requireE (py_eq (PDict (mr_permissions request)) (PDict MINIMUM_APP_PERMISSIONS))
       (ControlFailure ''mint permissions are not exactly narrow'')) (\<lambda>_.
     bindE (ttl_ok (mr_ttl_seconds request)) (\<lambda>ok.
     bindE (requireE ok (ControlFailure ''token TTL must be in 1..3600 seconds'')) (\<lambda>_.
     bindE (requireE (mr_memory_only request \<and> mr_masked request \<and> \<not> mr_export_to_children request
         \<and> \<not> mr_persist request)
       (ControlFailure ''token storage/export invariants violated'')) (\<lambda>_.
     Inr request)))))))"

definition permits :: "AppAuthorityV1 \<Rightarrow> string \<Rightarrow> pyval \<Rightarrow> pyval \<Rightarrow> bool" where
  "permits a operation repository installation_id =
     (if aa_key_state a \<noteq> ''active'' then False
      else if \<not> py_eq repository (aa_repository a) \<or> \<not> py_eq installation_id (aa_installation_id a) then False
      else List.member [''checks:create'', ''checks:update'', ''metadata:read''] operation)"

definition pinned_equal :: "AppAuthorityV1 \<Rightarrow> AppAuthorityV1 \<Rightarrow> bool" where
  "pinned_equal a b = (aa_owner a = aa_owner b \<and> py_eq (aa_app_id a) (aa_app_id b)
     \<and> aa_app_slug a = aa_app_slug b \<and> py_eq (aa_repository a) (aa_repository b)
     \<and> py_eq (aa_repository_id a) (aa_repository_id b) \<and> py_eq (aa_installation_id a) (aa_installation_id b)
     \<and> aa_control_workflow_identity a = aa_control_workflow_identity b
     \<and> aa_control_workflow_ref a = aa_control_workflow_ref b
     \<and> py_eq (PDict (aa_permissions a)) (PDict (aa_permissions b))
     \<and> py_eq (aa_ci_gate_authority_version a) (aa_ci_gate_authority_version b))"

definition rotated_to :: "AppAuthorityV1 \<Rightarrow> AppAuthorityV1 \<Rightarrow> gh_error + AppAuthorityV1" where
  "rotated_to a successor =
     bindE (requireE (pinned_equal a successor) (ControlFailure ''rotation changed pinned App authority'')) (\<lambda>_.
     bindE (requireE (aa_key_state a = ''active'' \<and> aa_key_state successor = ''active'')
       (ControlFailure ''rotation requires active old and new keys before switch'')) (\<lambda>_.
     bindE (num_le (aa_key_version successor) (aa_key_version a)) (\<lambda>not_newer.
     bindE (requireE (\<not> not_newer) (ControlFailure ''rotation key_version must increase'')) (\<lambda>_.
     bindE (requireE (aa_key_fingerprint successor \<noteq> aa_key_fingerprint a)
       (ControlFailure ''rotation must change key fingerprint'')) (\<lambda>_.
     bindE (time_le (aa_rotated_at successor) (aa_rotated_at a)) (\<lambda>not_later.
     bindE (requireE (\<not> not_later) (ControlFailure ''rotation timestamp must increase'')) (\<lambda>_.
     Inr successor)))))))"

definition revoked :: "AppAuthorityV1 \<Rightarrow> gh_error + AppAuthorityV1" where
  "revoked a = app_authority (a\<lparr>aa_key_state := ''revoked''\<rparr>)"

section \<open>Dispatch and its run\<close>

record DispatchRequest =
  dr_repository :: pyval
  dr_workflow_id :: pyval
  dr_ref :: pyval
  dr_default_branch :: pyval
  dr_api_version :: pyval

definition dispatch_request :: "DispatchRequest \<Rightarrow> gh_error + DispatchRequest" where
  "dispatch_request r =
     bindE (require_exact_repository (dr_repository r) (ProtocolFailure ''repository must be one exact owner/repo'')) (\<lambda>_.
     bindE (requireE (str_matches (\<lambda>s. s \<noteq> [] \<and> \<not> List.member s (CHR ''/'') \<and> s \<noteq> ''.'' \<and> s \<noteq> ''..'') (dr_workflow_id r))
       (ProtocolFailure ''dispatch workflow_id must be one exact workflow file or ID'')) (\<lambda>_.
     bindE (requireE (str_matches (\<lambda>s. s \<noteq> []) (dr_default_branch r))
       (ProtocolFailure ''exact default branch is required'')) (\<lambda>_.
     bindE (requireE (py_eq (dr_ref r) (dr_default_branch r))
       (ProtocolFailure ''child workflow ref must be the trusted default branch'')) (\<lambda>_.
     bindE (requireE (py_eq (dr_api_version r) (PStr PINNED_GITHUB_API_VERSION))
       (ProtocolFailure ''GitHub API version is not pinned'')) (\<lambda>_.
     Inr r)))))"

record ObservedWorkflowJob =
  oj_run_id :: pyval
  oj_run_attempt :: pyval
  oj_job_id :: pyval
  oj_job_name :: pyval
  oj_dispatch_sha :: pyval

definition job_matches :: "pyval \<Rightarrow> pyval \<Rightarrow> pyval \<Rightarrow> pyval \<Rightarrow> bool" where
  "job_matches run_id name label job =
     (case job of
        PDict j \<Rightarrow> py_eq (pget j ''run_id'') run_id \<and> py_eq (pget j ''name'') name
          \<and> (case pget j ''labels'' of PList ls \<Rightarrow> list_ex (\<lambda>l. py_eq l label) ls | _ \<Rightarrow> False)
      | _ \<Rightarrow> False)"

fun list_of :: "pyval \<Rightarrow> pyval list" where
  "list_of (PList xs) = xs"
| "list_of _ = []"

fun dict_of :: "pyval \<Rightarrow> pydict" where
  "dict_of (PDict d) = d"
| "dict_of _ = []"

fun is_list :: "pyval \<Rightarrow> bool" where
  "is_list (PList xs) = True"
| "is_list _ = False"

definition parse_observed_workflow_job ::
  "pyval \<Rightarrow> pyval \<Rightarrow> pyval \<Rightarrow> pydict \<Rightarrow> pyval \<Rightarrow> gh_error + ObservedWorkflowJob" where
  "parse_observed_workflow_job run_id runner_label run jobs expected_job_name =
     bindE (require_positive_int run_id (ProtocolFailure ''workflow_run_id must be a positive integer'')) (\<lambda>_.
     bindE (requireE (str_matches runner_label_text runner_label)
       (ProtocolFailure ''runner label is not an allocation-unique label'')) (\<lambda>_.
     bindE (requireE (str_matches (\<lambda>s. s \<noteq> []) expected_job_name)
       (ProtocolFailure ''expected workflow job name is absent'')) (\<lambda>_.
     bindE (requireE (keys_exact jobs [''total_count'', ''jobs''] \<and> py_num (pget jobs ''total_count'') \<noteq> None
         \<and> is_list (pget jobs ''jobs''))
       (ProtocolFailure ''workflow jobs response schema is invalid'')) (\<lambda>_.
     bindE (requireE (py_eq (pget jobs ''total_count'') (PInt (int (length (list_of (pget jobs ''jobs''))))))
       (ProtocolFailure ''workflow jobs response is incomplete'')) (\<lambda>_.
     bindE (requireE (is_dict run \<and> py_eq (pget (dict_of run) ''id'') run_id)
       (ProtocolFailure ''observed workflow job crossed the dispatch run'')) (\<lambda>_.
     bindE (requireE (str_matches sha40 (pget (dict_of run) ''head_sha''))
       (ProtocolFailure ''dispatch run head SHA is invalid'')) (\<lambda>_.
     (case filter (job_matches run_id expected_job_name runner_label) (list_of (pget jobs ''jobs'')) of
        [] \<Rightarrow> Inl (WorkflowJobPending ''exact local workflow job is not visible yet'')
      | [job] \<Rightarrow>
          let attempt = pget (dict_of run) ''run_attempt'';
              job_id = pget (dict_of job) ''id''; job_name = pget (dict_of job) ''name''
          in bindE (require_positive_int attempt (ProtocolFailure ''run_attempt must be a positive integer'')) (\<lambda>_.
             bindE (require_positive_int job_id (ProtocolFailure ''workflow_job_id must be a positive integer'')) (\<lambda>_.
             bindE (requireE (py_eq job_name expected_job_name)
               (ProtocolFailure ''workflow job name crossed the trusted job identity'')) (\<lambda>_.
             Inr \<lparr>oj_run_id = run_id, oj_run_attempt = attempt, oj_job_id = job_id, oj_job_name = job_name,
                  oj_dispatch_sha = pget (dict_of run) ''head_sha''\<rparr>)))
      | _ \<Rightarrow> Inl (ProtocolFailure ''dispatch exposed multiple jobs with the exact local identity'')))))))))"

definition expected_run_url :: "string \<Rightarrow> pyval \<Rightarrow> pyval \<Rightarrow> string" where
  "expected_run_url base repository run_id = base @ fmt repository @ ''/actions/runs/'' @ fmt run_id"

definition parse_dispatch_response :: "DispatchRequest \<Rightarrow> pyval \<Rightarrow> pydict \<Rightarrow> gh_error + pyval" where
  "parse_dispatch_response request status body =
     bindE (requireE (py_eq status (PInt 200)) (ProtocolFailure ''dispatch must return HTTP 200'')) (\<lambda>_.
     bindE (requireE (keys_exact body [''workflow_run_id'', ''run_url'', ''html_url''])
       (ProtocolFailure ''dispatch response schema must contain only workflow_run_id, run_url and html_url'')) (\<lambda>_.
     let run_id = pget body ''workflow_run_id''
     in bindE (require_positive_int run_id (ProtocolFailure ''workflow_run_id must be a positive integer'')) (\<lambda>_.
        bindE (requireE (py_eq (pget body ''run_url'')
            (PStr (expected_run_url ''https://api.github.com/repos/'' (dr_repository request) run_id)))
          (ProtocolFailure ''dispatch run_url is not bound to the exact repository and run'')) (\<lambda>_.
        bindE (requireE (py_eq (pget body ''html_url'')
            (PStr (expected_run_url ''https://github.com/'' (dr_repository request) run_id)))
          (ProtocolFailure ''dispatch html_url is not bound to the exact repository and run'')) (\<lambda>_.
        Inr run_id)))))"

section \<open>Protocol package\<close>

definition ATTESTATION_FIELDS :: "string list" where
  "ATTESTATION_FIELDS = [''key_manifest_generation_at_issuance'', ''key_manifest_digest_at_issuance'',
     ''attestation_id'', ''attestation_key_id'', ''attestation_key_version'',
     ''attestation_public_key_fingerprint'', ''attestation_head_generation'', ''attestation_expires_at'',
     ''attestation_nonce_binding'', ''attestation_envelope_digest'', ''attestation_request_linkage_hash'']"

definition LOCAL_RESULT_FIELDS :: "string list" where
  "LOCAL_RESULT_FIELDS = [''local_admission_id'', ''local_admission_digest'', ''local_evidence_id'',
     ''local_evidence_digest'', ''local_result_kind'', ''local_child_run_id'', ''local_child_job_id'',
     ''started_test_marker_digest'', ''canonical_command_digest'', ''terminal_at'',
     ''check_outbox_idempotency_key'']"

definition ALLOCATION_FIELDS :: "string list" where
  "ALLOCATION_FIELDS = [''allocation_id'', ''allocation_nonce'', ''runner_label'']"

definition PROTOCOL_FIELDS :: "string list" where
  "PROTOCOL_FIELDS =
     [''protocol_version'', ''timing_policy_version'', ''execution_trust_policy_version'',
      ''repository_id'', ''repository'', ''pr_number'', ''logical_key'', ''generation'',
      ''owner_run_id'', ''owner_run_attempt'', ''head_sha'', ''base_sha'', ''tested_merge_sha'',
      ''tested_sha'', ''check_target_sha'', ''default_branch'', ''backend'', ''policy_version'',
      ''execution_trust_mode'', ''execution_trust_attestation_authority_version'',
      ''execution_trust_key_manifest_version'', ''key_manifest_generation'', ''key_manifest_digest'']
     @ ATTESTATION_FIELDS
     @ [''inventory_guard_status'', ''missing_source_ids'', ''effective_writer_inventory_hash'',
        ''inventory_observed_at'', ''inventory_guard_freshness_policy_version'']
     @ LOCAL_RESULT_FIELDS
     @ [''ci_gate_check_run_id'', ''claim_deadline'', ''execution_deadline'']
     @ ALLOCATION_FIELDS"

definition PROTOCOL_ONE_FIELDS :: "string list" where
  "PROTOCOL_ONE_FIELDS = [''protocol_version'', ''timing_policy_version'', ''execution_trust_policy_version'',
     ''execution_trust_attestation_authority_version'', ''execution_trust_key_manifest_version'',
     ''inventory_guard_freshness_policy_version'']"

definition PROTOCOL_POSITIVE_FIELDS :: "string list" where
  "PROTOCOL_POSITIVE_FIELDS = [''repository_id'', ''pr_number'', ''generation'', ''owner_run_id'',
     ''owner_run_attempt'', ''key_manifest_generation'', ''ci_gate_check_run_id'']"

definition PROTOCOL_SHA_FIELDS :: "string list" where
  "PROTOCOL_SHA_FIELDS = [''head_sha'', ''base_sha'', ''tested_merge_sha'', ''tested_sha'', ''check_target_sha'']"

definition LOCAL_DIGEST_FIELDS :: "string list" where
  "LOCAL_DIGEST_FIELDS = [''key_manifest_digest_at_issuance'', ''attestation_public_key_fingerprint'',
     ''attestation_envelope_digest'', ''attestation_request_linkage_hash'', ''effective_writer_inventory_hash'']"

text \<open>
  \<open>sorted(set(xs))\<close>: hashing an element may raise, equal elements keep the first, and elements
  that are not all text, all numbers or all comparable timestamps cannot be ordered.
\<close>

fun py_remdups :: "pyval list \<Rightarrow> pyval list" where
  "py_remdups [] = []"
| "py_remdups (x # xs) = x # filter (\<lambda>y. \<not> py_eq x y) (py_remdups xs)"

fun num_key :: "pyval \<Rightarrow> int" where
  "num_key (PTime (Aware t)) = t"
| "num_key (PTime (Naive t)) = t"
| "num_key v = (case py_num v of Some i \<Rightarrow> i | None \<Rightarrow> 0)"

fun is_aware_time :: "pyval \<Rightarrow> bool" where
  "is_aware_time (PTime (Aware t)) = True"
| "is_aware_time _ = False"

fun is_naive_time :: "pyval \<Rightarrow> bool" where
  "is_naive_time (PTime (Naive t)) = True"
| "is_naive_time _ = False"

fun str_key :: "pyval \<Rightarrow> string" where
  "str_key (PStr s) = s"
| "str_key _ = []"

definition sorted_unique :: "pyval list \<Rightarrow> gh_error + pyval list" where
  "sorted_unique xs =
     (if \<not> list_all hashable xs then Inl (GhTypeError ''unhashable type'')
      else let ys = py_remdups xs
        in if length ys \<le> 1 then Inr ys
           else if list_all is_str ys then Inr (sort_key str_key ys)
           else if list_all (\<lambda>v. py_num v \<noteq> None) ys \<or> list_all is_aware_time ys \<or> list_all is_naive_time ys
           then Inr (sort_key num_key ys)
           else Inl (GhTypeError ''unorderable types''))"

definition require_sorted_unique :: "pyval \<Rightarrow> gh_error + unit" where
  "require_sorted_unique v =
     (case v of
        PList xs \<Rightarrow> bindE (sorted_unique xs) (\<lambda>ys. requireE (py_eq_list xs ys)
          (ProtocolFailure ''missing_source_ids must be a sorted unique list''))
      | _ \<Rightarrow> Inl (ProtocolFailure ''missing_source_ids must be a sorted unique list''))"

definition expected_logical_key :: "pydict \<Rightarrow> string" where
  "expected_logical_key d = fmt (pget d ''repository_id'') @ '':'' @ fmt (pget d ''pr_number'') @ '':''
     @ fmt (pget d ''head_sha'') @ '':ci-gate''"

definition validate_local_backend :: "pydict \<Rightarrow> gh_error + unit" where
  "validate_local_backend d =
     bindE (requireE (str_matches uuid_text (pget d ''allocation_id''))
       (ProtocolFailure ''local backend requires a reserved allocation identity'')) (\<lambda>_.
     bindE (requireE (str_matches nonce_text (pget d ''allocation_nonce''))
       (ProtocolFailure ''local backend requires the reserved allocation nonce'')) (\<lambda>_.
     bindE (requireE (str_matches runner_label_text (pget d ''runner_label''))
       (ProtocolFailure ''local backend requires the unique reserved runner label'')) (\<lambda>_.
     bindE (requireE (py_eq (pget d ''execution_trust_mode'') (PStr ''exact-sha-attestation''))
       (ProtocolFailure ''local backend requires exact-sha-attestation'')) (\<lambda>_.
     bindE (requireE (\<not> list_ex (\<lambda>f. pget d f = PNone) ATTESTATION_FIELDS)
       (ProtocolFailure ''local backend requires complete attestation authority fields'')) (\<lambda>_.
     bindE (forE LOCAL_DIGEST_FIELDS (\<lambda>f. requireE (str_matches sha256hex (pget d f))
       (ProtocolFailure (f @ '' must be lowercase SHA-256'')))) (\<lambda>_.
     requireE (\<not> py_eq (pget d ''inventory_guard_status'') (PStr ''unavailable''))
       (ProtocolFailure ''local backend rejects unavailable inventory'')))))))"

definition validate_github_backend :: "pydict \<Rightarrow> gh_error + unit" where
  "validate_github_backend d =
     bindE (requireE (\<not> list_ex (\<lambda>f. pget d f \<noteq> PNone) ALLOCATION_FIELDS)
       (ProtocolFailure ''hosted dispatch cannot carry local allocation authority'')) (\<lambda>_.
     bindE (requireE (py_eq (pget d ''execution_trust_mode'') (PStr ''github-hosted''))
       (ProtocolFailure ''github backend requires github-hosted trust mode'')) (\<lambda>_.
     bindE (requireE (\<not> list_ex (\<lambda>f. pget d f \<noteq> PNone) ATTESTATION_FIELDS)
       (ProtocolFailure ''hosted dispatch cannot carry attestation authority'')) (\<lambda>_.
     requireE (\<not> list_ex (\<lambda>f. pget d f \<noteq> PNone) LOCAL_RESULT_FIELDS)
       (ProtocolFailure ''hosted dispatch cannot cross-bind local result fields''))))"

definition protocol_package :: "(string \<Rightarrow> pydatetime option) \<Rightarrow> pyval \<Rightarrow> gh_error + pydict" where
  "protocol_package fromiso v =
     (case v of
        PDict d \<Rightarrow>
          bindE (requireE (keys_exact d PROTOCOL_FIELDS) (ProtocolFailure ''protocol fields mismatch'')) (\<lambda>_.
          bindE (forE PROTOCOL_ONE_FIELDS (\<lambda>f. requireE (py_eq (pget d f) (PInt 1))
            (ProtocolFailure (f @ '' must be 1'')))) (\<lambda>_.
          bindE (forE PROTOCOL_POSITIVE_FIELDS (\<lambda>f. require_positive_int (pget d f)
            (ProtocolFailure (f @ '' must be a positive integer'')))) (\<lambda>_.
          bindE (require_exact_repository (pget d ''repository'')
            (ProtocolFailure ''repository must be one exact owner/repo'')) (\<lambda>_.
          bindE (forE PROTOCOL_SHA_FIELDS (\<lambda>f. requireE (str_matches sha40 (pget d f))
            (ProtocolFailure (f @ '' must be a full lowercase 40-character SHA'')))) (\<lambda>_.
          bindE (requireE (py_eq (pget d ''tested_sha'') (pget d ''tested_merge_sha'')
              \<and> py_eq (pget d ''check_target_sha'') (pget d ''tested_merge_sha''))
            (ProtocolFailure ''PR tested/check target SHA must equal exact synthetic merge SHA'')) (\<lambda>_.
          bindE (requireE (py_eq (pget d ''logical_key'') (PStr (expected_logical_key d)))
            (ProtocolFailure ''logical_key does not bind repository/PR/head/ci-gate'')) (\<lambda>_.
          bindE (requireE (str_matches (\<lambda>s. s \<noteq> []) (pget d ''default_branch''))
            (ProtocolFailure ''trusted default branch is required'')) (\<lambda>_.
          bindE (requireE (str_matches sha40 (pget d ''policy_version''))
            (ProtocolFailure ''policy_version must be an exact commit SHA'')) (\<lambda>_.
          bindE (requireE (str_matches sha256hex (pget d ''key_manifest_digest''))
            (ProtocolFailure ''key_manifest_digest must be lowercase SHA-256'')) (\<lambda>_.
          bindE (set_member (pget d ''inventory_guard_status'') [''complete'', ''partial'', ''unavailable'']) (\<lambda>ok.
          bindE (requireE ok (ProtocolFailure ''invalid inventory guard status'')) (\<lambda>_.
          bindE (require_sorted_unique (pget d ''missing_source_ids'')) (\<lambda>_.
          bindE (forE [''claim_deadline'', ''execution_deadline''] (\<lambda>f.
            bindE (parse_time fromiso (pget d f) f) (\<lambda>_. Inr ()))) (\<lambda>_.
          bindE (if py_eq (pget d ''backend'') (PStr ''local'') then validate_local_backend d
                 else if py_eq (pget d ''backend'') (PStr ''github'') then validate_github_backend d
                 else Inl (ProtocolFailure ''backend must be local or github'')) (\<lambda>_.
          Inr d)))))))))))))))
      | _ \<Rightarrow> Inl (ProtocolFailure ''protocol must be an object''))"

text \<open>The methods of a package read fields every accepted package has.\<close>

definition assert_current_tuple :: "pydict \<Rightarrow> pydict \<Rightarrow> gh_error + unit" where
  "assert_current_tuple values expected =
     requireE (\<not> list_ex (\<lambda>k. \<not> py_eq (pget values k) (pget expected k))
         [''repository_id'', ''repository'', ''pr_number'', ''head_sha'', ''base_sha'', ''tested_merge_sha'',
          ''generation''])
       (ProtocolFailure ''protocol package is stale or for a different exact tuple'')"

definition assert_checkout :: "pydict \<Rightarrow> pyval \<Rightarrow> gh_error + unit" where
  "assert_checkout values git_head =
     requireE (py_eq git_head (pget values ''tested_sha''))
       (ProtocolFailure ''checkout HEAD differs from tested_sha'')"

section \<open>Claims and conclusions\<close>

definition validate_ci_gate_source :: "pydict \<Rightarrow> AppAuthorityV1 \<Rightarrow> pyval \<Rightarrow> bool" where
  "validate_ci_gate_source event authority check_target_sha =
     (pget event ''kind'' = PStr ''check_run''
      \<and> pget event ''explicit_custom_check'' = PBool True
      \<and> pget event ''name'' = PStr CI_GATE_NAME
      \<and> py_eq (pget event ''app_id'') (aa_app_id authority)
      \<and> pget event ''app_slug'' = PStr (aa_app_slug authority)
      \<and> py_eq (pget event ''repository'') (aa_repository authority)
      \<and> py_eq (pget event ''installation_id'') (aa_installation_id authority)
      \<and> py_eq (pget event ''head_sha'') check_target_sha)"

text \<open>\<open>set(v)\<close> of an arbitrary value: text iterates over its characters, a dictionary over its keys.\<close>

definition as_set :: "pyval \<Rightarrow> gh_error + pyval list" where
  "as_set v =
     (case v of
        PList xs \<Rightarrow> (if list_all hashable xs then Inr xs else Inl (GhTypeError ''unhashable type''))
      | PStr s \<Rightarrow> Inr (map (\<lambda>c. PStr [c]) s)
      | PDict d \<Rightarrow> Inr (map PStr (pkeys d))
      | _ \<Rightarrow> Inl (GhTypeError ''not iterable''))"

definition same_set :: "pyval list \<Rightarrow> pyval list \<Rightarrow> bool" where
  "same_set xs ys = (list_all (\<lambda>x. list_ex (py_eq x) ys) xs \<and> list_all (\<lambda>y. list_ex (py_eq y) xs) ys)"

definition validate_formal_claim ::
  "(string \<Rightarrow> pydatetime option) \<Rightarrow> pydict \<Rightarrow> pyval \<Rightarrow> pydict \<Rightarrow> pydict list \<Rightarrow> pyval \<Rightarrow> pyval
   \<Rightarrow> string list \<Rightarrow> pyval \<Rightarrow> gh_error + bool" where
  "validate_formal_claim fromiso data dispatch_run_id run jobs expected_workflow_id expected_job_name
     expected_labels expected_runner_id =
     bindE (requireE (py_eq (pget run ''id'') dispatch_run_id \<and> py_eq (pget run ''id'') (pget data ''local_child_run_id''))
       (ProtocolFailure ''claim run is not the exact dispatch-returned run ID'')) (\<lambda>_.
     bindE (requireE (py_eq (pget run ''workflow_id'') expected_workflow_id
         \<and> py_eq (pget run ''repository'') (pget data ''repository'')
         \<and> py_eq (pget run ''workflow_ref'') (pget data ''default_branch'')
         \<and> py_eq (pget run ''generation'') (pget data ''generation'')
         \<and> py_eq (pget run ''backend'') (PStr ''local''))
       (ProtocolFailure ''run identity/ref/generation/backend mismatch'')) (\<lambda>_.
     (case jobs of
        [job] \<Rightarrow>
          bindE (requireE (py_eq (pget job ''id'') (pget data ''local_child_job_id'')
              \<and> py_eq (pget job ''name'') expected_job_name)
            (ProtocolFailure ''exact child job identity mismatch'')) (\<lambda>_.
          bindE (parse_time fromiso (pget job ''started_at'') ''started_at'') (\<lambda>started_at.
          bindE (parse_time fromiso (pget data ''claim_deadline'') ''claim_deadline'') (\<lambda>claim_deadline.
          bindE (requireE (started_at \<le> claim_deadline)
            (ProtocolFailure ''job did not start by claim deadline'')) (\<lambda>_.
          bindE (case map_of job ''labels'' of None \<Rightarrow> Inr [] | Some v \<Rightarrow> as_set v) (\<lambda>labels.
          bindE (requireE (same_set labels (map PStr expected_labels))
            (ProtocolFailure ''job labels do not exactly match the allocation'')) (\<lambda>_.
          let runner = pget job ''runner''
          in bindE (requireE (is_dict runner \<and> py_eq (pget (dict_of runner) ''id'') expected_runner_id)
               (ProtocolFailure ''fresh exact runner identity is absent'')) (\<lambda>_.
             bindE (requireE (pget (dict_of runner) ''ephemeral'' = PBool True \<and> pget (dict_of runner) ''fresh'' = PBool True)
               (ProtocolFailure ''runner is not a fresh ephemeral allocation'')) (\<lambda>_.
             bindE (requireE (pget (dict_of runner) ''online'' = PBool True)
               (ProtocolFailure ''claimed runner is not online'')) (\<lambda>_.
             Inr True)))))))))
      | _ \<Rightarrow> Inl (ProtocolFailure ''formal claim requires exactly one expected job''))))"

definition GATE_EXACT :: "(string \<times> string) list" where
  "GATE_EXACT = [(''owner'', ''owner_run_id''), (''generation'', ''generation''), (''logical_key'', ''logical_key''),
     (''repository_id'', ''repository_id''), (''repository'', ''repository''), (''pr_number'', ''pr_number''),
     (''head_sha'', ''head_sha''), (''base_sha'', ''base_sha''), (''tested_merge_sha'', ''tested_merge_sha'')]"

definition hosted_conclusion_allowed ::
  "(string \<Rightarrow> pydatetime option) \<Rightarrow> pydict \<Rightarrow> pydict \<Rightarrow> pydict \<Rightarrow> AppAuthorityV1 \<Rightarrow> pydatetime \<Rightarrow> bool" where
  "hosted_conclusion_allowed fromiso data gate hosted authority now =
     (case (parse_time fromiso (pget gate ''lease_expires_at'') ''lease_expires_at'',
            parse_time fromiso (pget hosted ''terminal_at'') ''terminal_at'',
            parse_time fromiso (pget hosted ''execution_deadline'') ''execution_deadline'',
            aware now (ProtocolFailure ''now must be timezone-aware'')) of
        (Inr lease_expiry, Inr terminal_at, Inr execution_deadline, Inr n) \<Rightarrow>
          if \<not> py_eq (pget data ''backend'') (PStr ''github'') \<or> \<not> py_eq (pget gate ''winner'') (PStr ''github'') then False
          else if n \<ge> lease_expiry then False
          else if list_ex (\<lambda>(g, k). \<not> py_eq (pget gate g) (pget data k)) GATE_EXACT then False
          else if \<not> (py_eq (pget hosted ''tested_sha'') (pget hosted ''check_target_sha'')
              \<and> py_eq (pget hosted ''check_target_sha'') (pget data ''tested_merge_sha'')) then False
          else if \<not> py_eq (pget hosted ''canonical_command_digest'') (pget gate ''canonical_command_digest'') then False
          else if \<not> py_eq (pget hosted ''workflow_id'') (pget gate ''hosted_workflow_id'') then False
          else if \<not> py_eq (pget hosted ''workflow_ref'') (pget data ''default_branch'') then False
          else if \<not> py_eq (pget hosted ''run_id'') (pget gate ''hosted_run_id'')
              \<or> \<not> py_eq (pget hosted ''job_id'') (pget gate ''hosted_job_id'') then False
          else if pget hosted ''trustworthy_github_hosted'' \<noteq> PBool True \<or> terminal_at > execution_deadline then False
          else (case pget hosted ''check_source'' of
              PDict source \<Rightarrow> validate_ci_gate_source source authority (pget data ''check_target_sha'')
            | _ \<Rightarrow> False)
      | _ \<Rightarrow> False)"

section \<open>Lemmas\<close>

lemma require_positive_int_iff [simp]: "require_positive_int v e = Inr u \<longleftrightarrow> positive_int v"
  by (simp add: require_positive_int_def)

lemma require_exact_repository_iff [simp]:
  "require_exact_repository v e = Inr u \<longleftrightarrow> (\<exists>s. v = PStr s \<and> CHR ''*'' \<notin> set s \<and> exact_repository_name s)"
  by (simp add: require_exact_repository_def str_matches_iff)

lemma aware_eq_Inr [simp]: "aware t e = Inr n \<longleftrightarrow> t = Aware n"
  by (cases t) auto

lemmas guard_simps = errE_iffs str_matches_iff positive_int_iff list_ex_iff

text \<open>What an accepted package says about the tuple it is for.\<close>

definition package_tuple :: "pydict \<Rightarrow> int \<Rightarrow> int \<Rightarrow> string \<Rightarrow> string \<Rightarrow> string \<Rightarrow> int \<Rightarrow> bool" where
  "package_tuple d repo pr head base merge gen = (0 < repo \<and> 0 < pr \<and> 0 < gen
     \<and> sha40 head \<and> sha40 base \<and> sha40 merge
     \<and> pget d ''repository_id'' = PInt repo \<and> pget d ''pr_number'' = PInt pr \<and> pget d ''generation'' = PInt gen
     \<and> pget d ''head_sha'' = PStr head \<and> pget d ''base_sha'' = PStr base
     \<and> pget d ''tested_merge_sha'' = PStr merge \<and> pget d ''tested_sha'' = PStr merge
     \<and> pget d ''check_target_sha'' = PStr merge
     \<and> pget d ''logical_key'' = PStr (int_str repo @ '':'' @ int_str pr @ '':'' @ head @ '':ci-gate''))"

lemma protocol_package_dict: "protocol_package fromiso v = Inr d \<Longrightarrow> v = PDict d \<and> keys_exact d PROTOCOL_FIELDS"
  by (cases v) (auto simp: protocol_package_def errE_iffs)

lemma protocol_package_guards:
  assumes "protocol_package fromiso v = Inr d"
  shows "\<forall>f \<in> set PROTOCOL_POSITIVE_FIELDS. positive_int (pget d f)"
    and "\<forall>f \<in> set PROTOCOL_SHA_FIELDS. str_matches sha40 (pget d f)"
    and "py_eq (pget d ''tested_sha'') (pget d ''tested_merge_sha'')"
    and "py_eq (pget d ''check_target_sha'') (pget d ''tested_merge_sha'')"
    and "pget d ''logical_key'' = PStr (expected_logical_key d)"
    and "pget d ''backend'' = PStr ''local'' \<and> validate_local_backend d = Inr ()
       \<or> pget d ''backend'' = PStr ''github'' \<and> validate_github_backend d = Inr ()"
    and "\<exists>n. parse_time fromiso (pget d ''execution_deadline'') ''execution_deadline'' = Inr n"
    and "\<exists>s. pget d ''repository'' = PStr s \<and> exact_repository_name s"
  using assms by (cases v; auto simp: protocol_package_def errE_iffs split: if_splits)+

lemma protocol_package_tuple:
  assumes "protocol_package fromiso v = Inr d"
  shows "\<exists>repo pr head base merge gen. package_tuple d repo pr head base merge gen"
proof -
  note g = protocol_package_guards [OF assms]
  from g(1) obtain repo pr gen where ints: "0 < repo" "0 < pr" "0 < gen"
    "pget d ''repository_id'' = PInt repo" "pget d ''pr_number'' = PInt pr" "pget d ''generation'' = PInt gen"
    by (auto simp: PROTOCOL_POSITIVE_FIELDS_def positive_int_iff)
  from g(2) obtain head base merge where shas: "sha40 head" "sha40 base" "sha40 merge"
    "pget d ''head_sha'' = PStr head" "pget d ''base_sha'' = PStr base" "pget d ''tested_merge_sha'' = PStr merge"
    by (auto simp: PROTOCOL_SHA_FIELDS_def str_matches_iff)
  have "package_tuple d repo pr head base merge gen"
    using g(3-5) ints shas by (simp add: package_tuple_def expected_logical_key_def)
  then show ?thesis by blast
qed

lemma logical_key_text_inj:
  assumes "int_str r @ '':'' @ int_str p @ '':'' @ h @ '':ci-gate''
      = int_str r' @ '':'' @ int_str p' @ '':'' @ h' @ '':ci-gate''"
    and "sha40 h" "sha40 h'"
  shows "r = r' \<and> p = p' \<and> h = h'"
proof -
  have "(int_str r @ '':'' @ int_str p) @ CHR '':'' # h = (int_str r' @ '':'' @ int_str p') @ CHR '':'' # h'"
    using assms(1) by simp
  from join_right_inj [OF this hex_no_colon [OF assms(2)] hex_no_colon [OF assms(3)]]
  have h: "h = h'" and "int_str r @ CHR '':'' # int_str p = int_str r' @ CHR '':'' # int_str p'"
    by simp_all
  from join_right_inj [OF this(2) int_str_no_colon int_str_no_colon] h show ?thesis
    by (auto dest: int_str_inj)
qed

definition no_local_authority :: "pydict \<Rightarrow> bool" where
  "no_local_authority d = (pget d ''execution_trust_mode'' = PStr ''github-hosted''
     \<and> (\<forall>f \<in> set (ALLOCATION_FIELDS @ ATTESTATION_FIELDS @ LOCAL_RESULT_FIELDS). pget d f = PNone))"

definition full_local_authority :: "pydict \<Rightarrow> bool" where
  "full_local_authority d = (pget d ''execution_trust_mode'' = PStr ''exact-sha-attestation''
     \<and> str_matches uuid_text (pget d ''allocation_id'') \<and> str_matches nonce_text (pget d ''allocation_nonce'')
     \<and> str_matches runner_label_text (pget d ''runner_label'')
     \<and> (\<forall>f \<in> set ATTESTATION_FIELDS. pget d f \<noteq> PNone)
     \<and> (\<forall>f \<in> set LOCAL_DIGEST_FIELDS. str_matches sha256hex (pget d f))
     \<and> pget d ''inventory_guard_status'' \<noteq> PStr ''unavailable'')"

lemma validate_github_backend_iff: "validate_github_backend d = Inr () \<longleftrightarrow> no_local_authority d"
  by (auto simp: validate_github_backend_def no_local_authority_def errE_iffs list_ex_iff)

lemma validate_local_backend_iff: "validate_local_backend d = Inr () \<longleftrightarrow> full_local_authority d"
  by (auto simp: validate_local_backend_def full_local_authority_def errE_iffs list_ex_iff)

lemma ttl_ok_iff: "ttl_ok v = Inr True \<longleftrightarrow> (\<exists>i. v = PInt i \<and> 0 < i \<and> i \<le> 3600)"
  by (cases v) auto

lemma mint_InrD:
  assumes "mint a identity request = Inr token"
  shows "token = request \<and> aa_key_state a = ''active'' \<and> ri_role identity \<in> {''coordinator'', ''reconciler''}
    \<and> ri_workflow_identity identity = aa_control_workflow_identity a
    \<and> ri_workflow_ref identity = aa_control_workflow_ref a
    \<and> py_eq (mr_repository request) (aa_repository a)
    \<and> py_eq (mr_installation_id request) (aa_installation_id a)
    \<and> py_eq (PDict (mr_permissions request)) (PDict MINIMUM_APP_PERMISSIONS)
    \<and> (\<exists>ttl. mr_ttl_seconds request = PInt ttl \<and> 0 < ttl \<and> ttl \<le> 3600)
    \<and> \<not> mr_export_to_children request \<and> \<not> mr_persist request"
  using assms
  by (auto simp: mint_def errE_iffs ALLOWED_CONTROL_ROLES_def ttl_ok_iff [symmetric] simp del: py_eq.simps
      split: if_splits)

lemma revoked_state: "revoked a = Inr a' \<Longrightarrow> a' = a\<lparr>aa_key_state := ''revoked''\<rparr>"
  by (auto simp: revoked_def app_authority_def errE_iffs)

lemma rotated_to_InrD:
  "rotated_to a b = Inr c \<Longrightarrow> c = b \<and> pinned_equal a b \<and> aa_key_state a = ''active'' \<and> aa_key_state b = ''active''
     \<and> aa_key_fingerprint b \<noteq> aa_key_fingerprint a \<and> num_le (aa_key_version b) (aa_key_version a) = Inr False"
  by (auto simp: rotated_to_def errE_iffs)

lemma filter_eq_singleD: "filter P xs = [x] \<Longrightarrow> x \<in> set xs \<and> P x \<and> (\<forall>y \<in> set xs. P y \<longrightarrow> y = x)"
proof -
  assume eq: "filter P xs = [x]"
  have "y \<in> set (filter P xs) \<longleftrightarrow> y \<in> set xs \<and> P y" for y by simp
  then show ?thesis unfolding eq by auto
qed

lemma single_match:
  assumes "parse_observed_workflow_job run_id label run jobs name = Inr j"
  shows "\<exists>x. filter (job_matches run_id name label) (list_of (pget jobs ''jobs'')) = [x]"
proof (cases "filter (job_matches run_id name label) (list_of (pget jobs ''jobs''))")
  case Nil
  with assms show ?thesis by (simp add: parse_observed_workflow_job_def bindE_eq_Inr)
next
  case (Cons x xs)
  with assms show ?thesis by (cases xs) (simp_all add: parse_observed_workflow_job_def bindE_eq_Inr)
qed

text \<open>The package fields a hosted conclusion reads: no attestation field is among them.\<close>

definition HOSTED_READS :: "string list" where
  "HOSTED_READS = [''backend'', ''default_branch'', ''check_target_sha''] @ map snd GATE_EXACT"

lemma hosted_frame:
  assumes "\<And>k. k \<in> set HOSTED_READS \<Longrightarrow> pget d' k = pget d k"
  shows "hosted_conclusion_allowed fromiso d' gate hosted authority now
    = hosted_conclusion_allowed fromiso d gate hosted authority now"
proof -
  have single: "pget d' ''backend'' = pget d ''backend''" "pget d' ''default_branch'' = pget d ''default_branch''"
    "pget d' ''check_target_sha'' = pget d ''check_target_sha''"
    "pget d' ''tested_merge_sha'' = pget d ''tested_merge_sha''"
    by (rule assms, simp add: HOSTED_READS_def GATE_EXACT_def)+
  have gate: "list_ex (\<lambda>(g, k). \<not> py_eq (pget gate g) (pget d' k)) GATE_EXACT
      = list_ex (\<lambda>(g, k). \<not> py_eq (pget gate g) (pget d k)) GATE_EXACT"
  proof -
    have "pget d' (snd gk) = pget d (snd gk)" if "gk \<in> set GATE_EXACT" for gk
      by (rule assms) (use that in \<open>simp add: HOSTED_READS_def\<close>)
    then show ?thesis unfolding list_ex_iff case_prod_beta by (intro bex_cong) simp_all
  qed
  show ?thesis
    by (simp only: hosted_conclusion_allowed_def single gate)
qed

lemma attestation_not_read:
  "f \<in> set ATTESTATION_FIELDS \<Longrightarrow> k \<in> set HOSTED_READS \<Longrightarrow> pget (pset f v d) k = pget d k"
proof -
  have "list_all (\<lambda>f. \<not> List.member HOSTED_READS f) ATTESTATION_FIELDS" by code_simp
  then show "f \<in> set ATTESTATION_FIELDS \<Longrightarrow> k \<in> set HOSTED_READS \<Longrightarrow> ?thesis"
    by (auto simp: list_all_iff)
qed

section \<open>Sample values\<close>

text \<open>A package of either backend; \<open>x\<close> fills the attestation fields.\<close>

definition package_of :: "string \<Rightarrow> string \<Rightarrow> string \<Rightarrow> pyval \<Rightarrow> pyval \<Rightarrow> pyval \<Rightarrow> pyval \<Rightarrow> pydict" where
  "package_of backend mode status x aid nonce label =
     map (\<lambda>f. (f, PInt 1)) (PROTOCOL_ONE_FIELDS @ PROTOCOL_POSITIVE_FIELDS)
     @ map (\<lambda>f. (f, PStr (replicate 40 CHR ''a''))) (PROTOCOL_SHA_FIELDS @ [''policy_version''])
     @ [(''repository'', PStr ''o/r''), (''logical_key'', PStr (''1:1:'' @ replicate 40 CHR ''a'' @ '':ci-gate'')),
        (''default_branch'', PStr ''main''), (''backend'', PStr backend), (''execution_trust_mode'', PStr mode),
        (''key_manifest_digest'', PStr (replicate 64 CHR ''b'')),
        (''inventory_guard_status'', PStr status), (''missing_source_ids'', PList []),
        (''inventory_observed_at'', PNone),
        (''claim_deadline'', PTime (Aware 0)), (''execution_deadline'', PTime (Aware 1))]
     @ map (\<lambda>f. (f, x)) (''effective_writer_inventory_hash'' # ATTESTATION_FIELDS)
     @ [(''allocation_id'', aid), (''allocation_nonce'', nonce), (''runner_label'', label)]
     @ map (\<lambda>f. (f, PNone)) LOCAL_RESULT_FIELDS"

lemma package_of_pkeys:
  "pkeys (package_of backend mode status x aid nonce label) = pkeys (package_of [] [] [] PNone PNone PNone PNone)"
  by (simp add: pkeys_def package_of_def)

lemma package_of_distinct: "distinct (pkeys (package_of backend mode status x aid nonce label))"
  by (subst package_of_pkeys) code_simp

lemmas package_of_member = pget_member [OF package_of_distinct]

lemma package_of_keys: "keys_exact (package_of backend mode status x aid nonce label) PROTOCOL_FIELDS"
proof -
  note package_of_pkeys [of backend mode status x aid nonce label]
  moreover have "keys_exact (package_of [] [] [] PNone PNone PNone PNone) PROTOCOL_FIELDS"
    by code_simp
  ultimately show ?thesis
    by (simp add: keys_exact_def keys_within_def keys_cover_def)
qed

lemma package_of_lists:
  "f \<in> set PROTOCOL_ONE_FIELDS \<Longrightarrow> pget (package_of backend mode status x aid nonce label) f = PInt 1"
  "f \<in> set PROTOCOL_POSITIVE_FIELDS \<Longrightarrow> pget (package_of backend mode status x aid nonce label) f = PInt 1"
  "f \<in> set PROTOCOL_SHA_FIELDS \<Longrightarrow>
     pget (package_of backend mode status x aid nonce label) f = PStr (replicate 40 CHR ''a'')"
  "f \<in> set ATTESTATION_FIELDS \<Longrightarrow> pget (package_of backend mode status x aid nonce label) f = x"
  "f \<in> set LOCAL_DIGEST_FIELDS \<Longrightarrow> pget (package_of backend mode status x aid nonce label) f = x"
  "f \<in> set LOCAL_RESULT_FIELDS \<Longrightarrow> pget (package_of backend mode status x aid nonce label) f = PNone"
  by (rule package_of_member, (auto simp: package_of_def LOCAL_DIGEST_FIELDS_def ATTESTATION_FIELDS_def)[1])+

lemma package_of_reads [simp]:
  "pget (package_of backend mode status x aid nonce label) ''repository'' = PStr ''o/r''"
  "pget (package_of backend mode status x aid nonce label) ''logical_key''
     = PStr (''1:1:'' @ replicate 40 CHR ''a'' @ '':ci-gate'')"
  "pget (package_of backend mode status x aid nonce label) ''default_branch'' = PStr ''main''"
  "pget (package_of backend mode status x aid nonce label) ''policy_version'' = PStr (replicate 40 CHR ''a'')"
  "pget (package_of backend mode status x aid nonce label) ''backend'' = PStr backend"
  "pget (package_of backend mode status x aid nonce label) ''execution_trust_mode'' = PStr mode"
  "pget (package_of backend mode status x aid nonce label) ''key_manifest_digest'' = PStr (replicate 64 CHR ''b'')"
  "pget (package_of backend mode status x aid nonce label) ''inventory_guard_status'' = PStr status"
  "pget (package_of backend mode status x aid nonce label) ''missing_source_ids'' = PList []"
  "pget (package_of backend mode status x aid nonce label) ''claim_deadline'' = PTime (Aware 0)"
  "pget (package_of backend mode status x aid nonce label) ''execution_deadline'' = PTime (Aware 1)"
  "pget (package_of backend mode status x aid nonce label) ''allocation_id'' = aid"
  "pget (package_of backend mode status x aid nonce label) ''allocation_nonce'' = nonce"
  "pget (package_of backend mode status x aid nonce label) ''runner_label'' = label"
  by (rule package_of_member, simp add: package_of_def)+

lemma package_of_tuple [simp]:
  "pget (package_of backend mode status x aid nonce label) ''tested_sha'' = PStr (replicate 40 CHR ''a'')"
  "pget (package_of backend mode status x aid nonce label) ''tested_merge_sha'' = PStr (replicate 40 CHR ''a'')"
  "pget (package_of backend mode status x aid nonce label) ''check_target_sha'' = PStr (replicate 40 CHR ''a'')"
  "pget (package_of backend mode status x aid nonce label) ''head_sha'' = PStr (replicate 40 CHR ''a'')"
  "pget (package_of backend mode status x aid nonce label) ''repository_id'' = PInt 1"
  "pget (package_of backend mode status x aid nonce label) ''pr_number'' = PInt 1"
  by (simp_all add: package_of_lists PROTOCOL_SHA_FIELDS_def PROTOCOL_POSITIVE_FIELDS_def)

lemma sample_text: "is_hex CHR ''a''" "is_hex CHR ''b''" "is_hex CHR ''d''" "exact_repository_name ''o/r''"
  "int_str 1 = ''1''"
  by code_simp+

lemma package_of_accepted:
  assumes "status \<in> {''complete'', ''partial'', ''unavailable''}"
    and "backend = ''local'' \<and> full_local_authority (package_of backend mode status x aid nonce label)
       \<or> backend = ''github'' \<and> no_local_authority (package_of backend mode status x aid nonce label)"
  shows "protocol_package fromiso (PDict (package_of backend mode status x aid nonce label))
    = Inr (package_of backend mode status x aid nonce label)"
proof -
  let ?d = "package_of backend mode status x aid nonce label"
  have "set_member (PStr status) [''complete'', ''partial'', ''unavailable''] = Inr True"
    using assms(1) by (auto simp: set_member_def one_of_def)
  moreover have "require_sorted_unique (PList []) = Inr ()"
    by (simp add: require_sorted_unique_def sorted_unique_def)
  moreover have "backend = ''local'' \<and> validate_local_backend ?d = Inr () \<or> backend = ''github'' \<and> validate_github_backend ?d = Inr ()"
    using assms(2) by (simp add: validate_local_backend_iff validate_github_backend_iff)
  ultimately show ?thesis
    by (auto simp: protocol_package_def errE_iffs package_of_keys package_of_lists expected_logical_key_def sample_text)
qed

definition sample_package :: pydict where
  "sample_package = package_of ''github'' ''github-hosted'' ''unavailable'' PNone PNone PNone PNone"

definition sample_app :: AppAuthorityV1 where
  "sample_app = \<lparr>aa_owner = ''o'', aa_app_id = PInt 5, aa_app_slug = ''gate'', aa_repository = PStr ''o/r'',
     aa_repository_id = PInt 1, aa_installation_id = PInt 9, aa_control_workflow_identity = ''w'',
     aa_control_workflow_ref = ''refs/heads/main'', aa_key_fingerprint = replicate 64 CHR ''c'',
     aa_key_version = PInt 1, aa_rotated_at = Aware 0, aa_permissions = MINIMUM_APP_PERMISSIONS,
     aa_ci_gate_authority_version = PInt 1, aa_key_state = ''active''\<rparr>"

definition sample_identity :: RuntimeIdentity where
  "sample_identity = \<lparr>ri_role = ''coordinator'', ri_workflow_identity = ''w'',
     ri_workflow_ref = ''refs/heads/main'', ri_reviewed_default_branch_code = True\<rparr>"

definition sample_mint :: MintRequest where
  "sample_mint = \<lparr>mr_app_id = PInt 5, mr_installation_id = PInt 9, mr_repository = PStr ''o/r'',
     mr_repository_id = PInt 1, mr_permissions = MINIMUM_APP_PERMISSIONS, mr_ttl_seconds = PInt 600,
     mr_memory_only = True, mr_masked = True, mr_export_to_children = False, mr_persist = False\<rparr>"

definition sample_dispatch :: DispatchRequest where
  "sample_dispatch = \<lparr>dr_repository = PStr ''o/r'', dr_workflow_id = PStr ''ci.yml'', dr_ref = PStr ''main'',
     dr_default_branch = PStr ''main'', dr_api_version = PStr PINNED_GITHUB_API_VERSION\<rparr>"

definition sample_dispatch_body :: pydict where
  "sample_dispatch_body = [(''workflow_run_id'', PInt 77),
     (''run_url'', PStr ''https://api.github.com/repos/o/r/actions/runs/77''),
     (''html_url'', PStr ''https://github.com/o/r/actions/runs/77'')]"

definition sample_label :: string where
  "sample_label = ''wsl-jit-'' @ replicate 32 CHR ''0''"

definition sample_job :: pyval where
  "sample_job = PDict [(''run_id'', PInt 77), (''id'', PInt 8), (''name'', PStr ''local-quality''),
     (''labels'', PList [PStr sample_label])]"

definition sample_gate :: pydict where
  "sample_gate = [(''lease_expires_at'', PTime (Aware 100)), (''winner'', PStr ''github''), (''owner'', PInt 1),
     (''generation'', PInt 1), (''logical_key'', pget sample_package ''logical_key''), (''repository_id'', PInt 1),
     (''repository'', PStr ''o/r''), (''pr_number'', PInt 1)]
     @ map (\<lambda>f. (f, PStr (replicate 40 CHR ''a''))) [''head_sha'', ''base_sha'', ''tested_merge_sha'']"

definition sample_hosted :: pydict where
  "sample_hosted = [(''terminal_at'', PTime (Aware 50)), (''execution_deadline'', PTime (Aware 60)),
     (''tested_sha'', PStr (replicate 40 CHR ''a'')), (''check_target_sha'', PStr (replicate 40 CHR ''a'')),
     (''workflow_ref'', PStr ''main''), (''trustworthy_github_hosted'', PBool True),
     (''check_source'', PDict [(''kind'', PStr ''check_run''), (''explicit_custom_check'', PBool True),
        (''name'', PStr ''ci-gate''), (''app_id'', PInt 5), (''app_slug'', PStr ''gate''),
        (''repository'', PStr ''o/r''), (''installation_id'', PInt 9),
        (''head_sha'', PStr (replicate 40 CHR ''a''))])]"

lemma sample_package_accepted: "protocol_package fromiso (PDict sample_package) = Inr sample_package"
  unfolding sample_package_def
  by (rule package_of_accepted) (auto simp: no_local_authority_def package_of_lists ALLOCATION_FIELDS_def)

lemma sample_app_accepted: "app_authority sample_app = Inr sample_app"
  by code_simp

lemma sample_mint_accepted: "mint sample_app sample_identity sample_mint = Inr sample_mint"
  by code_simp

lemma sample_revoked: "revoked sample_app = Inr (sample_app\<lparr>aa_key_state := ''revoked''\<rparr>)"
  by code_simp

lemma sample_dispatch_accepted: "dispatch_request sample_dispatch = Inr sample_dispatch"
  by code_simp

lemma sample_response_accepted:
  "parse_dispatch_response sample_dispatch (PInt 200) sample_dispatch_body = Inr (PInt 77)"
  by code_simp

lemma sample_job_observed:
  "parse_observed_workflow_job (PInt 77) (PStr sample_label)
     (PDict [(''id'', PInt 77), (''head_sha'', PStr (replicate 40 CHR ''a'')), (''run_attempt'', PInt 1)])
     [(''total_count'', PInt 1), (''jobs'', PList [sample_job])] (PStr ''local-quality'')
   = Inr \<lparr>oj_run_id = PInt 77, oj_run_attempt = PInt 1, oj_job_id = PInt 8, oj_job_name = PStr ''local-quality'',
          oj_dispatch_sha = PStr (replicate 40 CHR ''a'')\<rparr>"
  by code_simp

lemma sample_hosted_allowed:
  "hosted_conclusion_allowed fromiso sample_package sample_gate sample_hosted sample_app (Aware 70)"
  by code_simp

section \<open>Properties\<close>

text \<open>An accepted protocol package is bound to one exact tuple: the tested and checked SHA are the
  synthetic merge commit, and its logical key determines repository, pull request and head. Two
  accepted packages share a logical key exactly when these three agree.\<close>

theorem logical_key_identifies_tuple:
  assumes "protocol_package fromiso v = Inr d" and "protocol_package fromiso v' = Inr d'"
  shows "\<exists>repo pr head base merge gen repo' pr' head' base' merge' gen'.
    package_tuple d repo pr head base merge gen \<and> package_tuple d' repo' pr' head' base' merge' gen'
    \<and> (pget d ''logical_key'' = pget d' ''logical_key'' \<longleftrightarrow> repo = repo' \<and> pr = pr' \<and> head = head')"
proof -
  obtain repo pr head base merge gen where d: "package_tuple d repo pr head base merge gen"
    using protocol_package_tuple [OF assms(1)] by blast
  obtain repo' pr' head' base' merge' gen' where d': "package_tuple d' repo' pr' head' base' merge' gen'"
    using protocol_package_tuple [OF assms(2)] by blast
  have "pget d ''logical_key'' = pget d' ''logical_key'' \<longleftrightarrow> repo = repo' \<and> pr = pr' \<and> head = head'"
    using d d' logical_key_text_inj [of repo pr head repo' pr' head']
    by (auto simp: package_tuple_def)
  with d d' show ?thesis by blast
qed

theorem logical_key_identifies_tuple_witness:
  "\<exists>repo pr head base merge gen. package_tuple sample_package repo pr head base merge gen"
  using logical_key_identifies_tuple [OF sample_package_accepted [of "\<lambda>_. None"]
      sample_package_accepted [of "\<lambda>_. None"]] by blast

text \<open>Local and hosted authority never mix in an accepted package: a local one carries a reserved
  allocation, every attestation field and SHA-256 bindings over an available inventory; a hosted
  one carries no allocation, no attestation field and no local result field at all.\<close>

theorem package_authority_exclusive:
  assumes "protocol_package fromiso v = Inr d"
  shows "pget d ''backend'' = PStr ''local'' \<and> full_local_authority d \<and> \<not> no_local_authority d
    \<or> pget d ''backend'' = PStr ''github'' \<and> no_local_authority d \<and> \<not> full_local_authority d"
proof -
  have excl: "\<not> (full_local_authority d \<and> no_local_authority d)"
    by (auto simp: full_local_authority_def no_local_authority_def)
  show ?thesis
    using protocol_package_guards(6) [OF assms] excl
    by (auto simp: validate_local_backend_iff validate_github_backend_iff)
qed

theorem package_authority_exclusive_witness: "no_local_authority sample_package"
proof -
  have "pget sample_package ''backend'' = PStr ''github''" by (simp add: sample_package_def)
  then show ?thesis
    using package_authority_exclusive [OF sample_package_accepted [of "\<lambda>_. None"]] by auto
qed

text \<open>A minted token is exactly the requested one, for the pinned repository and installation, with
  the minimum permissions, at most an hour and never exported; after revocation the authority can
  neither mint, nor permit any operation, nor be rotated back into use.\<close>

theorem mint_narrow_and_revocation_final:
  assumes "mint a identity request = Inr token" and "revoked a = Inr a'"
  shows "token = request \<and> py_eq (mr_repository token) (aa_repository a)
    \<and> py_eq (mr_installation_id token) (aa_installation_id a)
    \<and> py_eq (PDict (mr_permissions token)) (PDict MINIMUM_APP_PERMISSIONS)
    \<and> (\<exists>ttl. mr_ttl_seconds token = PInt ttl \<and> 0 < ttl \<and> ttl \<le> 3600)
    \<and> \<not> mr_export_to_children token \<and> \<not> mr_persist token
    \<and> (\<forall>i r. \<exists>e. mint a' i r = Inl e) \<and> (\<forall>op repo inst. \<not> permits a' op repo inst)
    \<and> (\<forall>b. \<exists>e. rotated_to a' b = Inl e)"
proof -
  have st: "aa_key_state a' = ''revoked''"
    using revoked_state [OF assms(2)] by simp
  have "\<exists>e. mint a' i r = Inl e" for i r
    using st by (simp add: mint_def)
  moreover have "\<not> permits a' op repo inst" for op repo inst
    using st by (simp add: permits_def)
  moreover have "\<exists>e. rotated_to a' b = Inl e" for b
    using st rotated_to_InrD [of a' b] by (cases "rotated_to a' b") auto
  ultimately show ?thesis
    using mint_InrD [OF assms(1)] by blast
qed

theorem mint_narrow_and_revocation_final_witness:
  "\<exists>e. mint (sample_app\<lparr>aa_key_state := ''revoked''\<rparr>) sample_identity sample_mint = Inl e"
  using mint_narrow_and_revocation_final [OF sample_mint_accepted sample_revoked] by blast

text \<open>A dispatch response is accepted only for the repository it was sent to: the same response
  cannot be accepted for two requests on different repositories, and the accepted run id is the
  positive one both URLs end in.\<close>

theorem dispatch_response_binds_repository:
  assumes "dispatch_request r = Inr r" and "dispatch_request r' = Inr r'"
    and "parse_dispatch_response r status body = Inr run" and "parse_dispatch_response r' status' body = Inr run'"
  shows "dr_repository r = dr_repository r' \<and> run = run' \<and> positive_int run
    \<and> pget body ''run_url'' = PStr (''https://api.github.com/repos/'' @ fmt (dr_repository r) @ ''/actions/runs/'' @ fmt run)"
proof -
  obtain s s' where s: "dr_repository r = PStr s" "dr_repository r' = PStr s'"
    using assms(1,2) by (auto simp: dispatch_request_def errE_iffs)
  have run: "run = pget body ''workflow_run_id''" "run' = run" "positive_int run"
    and url: "pget body ''run_url'' = PStr (expected_run_url ''https://api.github.com/repos/'' (PStr s) run)"
      "pget body ''run_url'' = PStr (expected_run_url ''https://api.github.com/repos/'' (PStr s') run)"
    using assms(3,4) s by (auto simp: parse_dispatch_response_def errE_iffs Let_def)
  from url have "s @ ''/actions/runs/'' @ fmt run = s' @ ''/actions/runs/'' @ fmt run"
    by (simp add: expected_run_url_def)
  then have "s = s'" by simp
  with s run url(1) show ?thesis by (simp add: expected_run_url_def)
qed

theorem dispatch_response_binds_repository_witness: "positive_int (PInt 77) \<and> dr_repository sample_dispatch = dr_repository sample_dispatch"
  using dispatch_response_binds_repository [OF sample_dispatch_accepted sample_dispatch_accepted
      sample_response_accepted sample_response_accepted] by blast

text \<open>The job accepted for a dispatched run is the only one of the response that carries the run,
  the expected name and the allocation's unique label, in a response that is complete.\<close>

theorem observed_job_is_unique:
  assumes "parse_observed_workflow_job run_id label run jobs name = Inr j"
  shows "\<exists>js job. pget jobs ''jobs'' = PList js \<and> py_num (pget jobs ''total_count'') = Some (int (length js))
    \<and> PDict job \<in> set js \<and> (\<forall>x \<in> set js. job_matches run_id name label x \<longleftrightarrow> x = PDict job)
    \<and> oj_job_id j = pget job ''id'' \<and> positive_int (oj_job_id j) \<and> oj_run_id j = run_id
    \<and> str_matches sha40 (oj_dispatch_sha j)"
proof -
  let ?m = "job_matches run_id name label" and ?js = "list_of (pget jobs ''jobs'')"
  from assms have list: "pget jobs ''jobs'' = PList ?js"
    by (cases "pget jobs ''jobs''") (simp_all add: parse_observed_workflow_job_def errE_iffs)
  have count: "py_num (pget jobs ''total_count'') = Some (int (length ?js))"
    using assms by (simp add: parse_observed_workflow_job_def errE_iffs)
  obtain x where x: "filter ?m ?js = [x]"
    using single_match [OF assms] by blast
  have "?m x" using filter_eq_singleD [OF x] by simp
  then obtain job where job: "x = PDict job"
    by (auto simp: job_matches_def split: pyval.splits)
  have "oj_job_id j = pget job ''id'' \<and> positive_int (oj_job_id j) \<and> oj_run_id j = run_id
      \<and> str_matches sha40 (oj_dispatch_sha j)"
    using assms unfolding parse_observed_workflow_job_def x job Let_def
    by (simp add: bindE_eq_Inr) auto
  moreover have "PDict job \<in> set ?js \<and> (\<forall>y \<in> set ?js. ?m y \<longleftrightarrow> y = PDict job)"
    using filter_eq_singleD [OF x] job by auto
  ultimately show ?thesis using list count by blast
qed

theorem observed_job_is_unique_witness:
  "positive_int (PInt 8) \<and> str_matches sha40 (PStr (replicate 40 CHR ''a''))"
  using observed_job_is_unique [OF sample_job_observed] by auto

text \<open>A hosted conclusion is allowed only for a hosted package under a GitHub winner, strictly before
  the gate's lease expires, for a run that ended by its deadline on the exact tested merge commit
  and generation, reported by the dedicated App's custom check; no attestation field is read.\<close>

theorem hosted_conclusion_sound:
  assumes "hosted_conclusion_allowed fromiso d gate hosted authority now"
  shows "pget d ''backend'' = PStr ''github'' \<and> pget gate ''winner'' = PStr ''github''
    \<and> (\<exists>n lease term dl. now = Aware n \<and> parse_time fromiso (pget gate ''lease_expires_at'') ''lease_expires_at'' = Inr lease
        \<and> parse_time fromiso (pget hosted ''terminal_at'') ''terminal_at'' = Inr term
        \<and> parse_time fromiso (pget hosted ''execution_deadline'') ''execution_deadline'' = Inr dl
        \<and> n < lease \<and> term \<le> dl)
    \<and> (\<forall>(g, k) \<in> set GATE_EXACT. py_eq (pget gate g) (pget d k))
    \<and> py_eq (pget hosted ''check_target_sha'') (pget d ''tested_merge_sha'')
    \<and> (\<exists>src. pget hosted ''check_source'' = PDict src \<and> pget src ''name'' = PStr ''ci-gate''
        \<and> py_eq (pget src ''app_id'') (aa_app_id authority)
        \<and> py_eq (pget src ''head_sha'') (pget d ''check_target_sha''))
    \<and> (\<forall>v. \<forall>f \<in> set ATTESTATION_FIELDS. hosted_conclusion_allowed fromiso (pset f v d) gate hosted authority now)"
proof -
  have "hosted_conclusion_allowed fromiso (pset f v d) gate hosted authority now"
    if "f \<in> set ATTESTATION_FIELDS" for f v
    using assms hosted_frame [OF attestation_not_read [OF that]] by metis
  with assms show ?thesis
    by (auto simp: hosted_conclusion_allowed_def validate_ci_gate_source_def CI_GATE_NAME_def list_ex_iff
        split: sum.splits if_splits pyval.splits)
qed

theorem hosted_conclusion_sound_witness: "pget sample_gate ''winner'' = PStr ''github''"
  using hosted_conclusion_sound [OF sample_hosted_allowed [of "\<lambda>_. None"]] by blast

end
