(* ===== verification/Attestation.thy ===== *)
theory Attestation
  imports Github_Contracts Canonical_Json
begin

text \<open>
  \<open>crypto.py\<close>: canonical bytes, domain-separated detached signatures, the authenticated key-manifest
  chain, exact-SHA attestations, nonce bindings and the complete current-authority predicate.

  Bytes are characters. The third-party primitives are arguments: \<open>H\<close> is the SHA-256 hex digest,
  \<open>prims\<close> holds the Ed25519 and P-256 verifiers of the \<open>cryptography\<close> package, a public key is its
  DER encoding tagged with its class. \<open>fromiso\<close> is \<open>datetime.fromisoformat\<close>; every aware
  timestamp is in UTC. An exception keeps its class and the constant part of its message.
\<close>

datatype crypto_error =
    CryptoContractError string
  | CanonicalizationError string
  | SignatureContractError string
  | ManifestContractError string
  | AttestationContractError string
  | CrTypeError string
  | CrStopIteration

definition ATTESTATION_DOMAIN :: string where
  "ATTESTATION_DOMAIN = ''github-automation/execution-trust-attestation/v1''"

definition KEY_MANIFEST_DOMAIN :: string where
  "KEY_MANIFEST_DOMAIN = ''github-automation/execution-trust-key-manifest/v1''"

definition P256_ORDER :: int where
  "P256_ORDER = 0xFFFFFFFF00000000FFFFFFFFFFFFFFFFBCE6FAADA7179E84F3B9CAC2FC632551"

definition MAX_SAFE_INTEGER :: int where
  "MAX_SAFE_INTEGER = 2 ^ 53 - 1"

section \<open>Canonical bytes\<close>

text \<open>
  Below code point 256 UTF-16 order is code point order and no surrogate occurs, so the canonical
  text of a value that is accepted at all is the compact JSON text with sorted keys.
\<close>

fun jcs_safe :: "pyval \<Rightarrow> bool"
and jcs_safe_all :: "pyval list \<Rightarrow> bool"
and jcs_safe_items :: "(string \<times> pyval) list \<Rightarrow> bool" where
  "jcs_safe (PInt i) = (\<bar>i\<bar> \<le> MAX_SAFE_INTEGER)"
| "jcs_safe (PTime t) = False"
| "jcs_safe (PList xs) = jcs_safe_all xs"
| "jcs_safe (PDict d) = jcs_safe_items d"
| "jcs_safe PNone = True"
| "jcs_safe (PBool b) = True"
| "jcs_safe (PStr s) = True"
| "jcs_safe_all [] = True"
| "jcs_safe_all (x # xs) = (jcs_safe x \<and> jcs_safe_all xs)"
| "jcs_safe_items [] = True"
| "jcs_safe_items ((k, v) # d) = (jcs_safe v \<and> jcs_safe_items d)"

definition utf8_char :: "char \<Rightarrow> string" where
  "utf8_char c = (if code c < 128 then [c] else [char_of (192 + code c div 64), char_of (128 + code c mod 64)])"

definition utf8 :: "string \<Rightarrow> string" where
  "utf8 s = concat (map utf8_char s)"

definition canonicalize_jcs :: "pyval \<Rightarrow> crypto_error + string" where
  "canonicalize_jcs v =
     (if jcs_safe v then Inr (utf8 (json_text v))
      else Inl (CanonicalizationError ''unsupported I-JSON value''))"

definition domain_separated_payload :: "string \<Rightarrow> pyval \<Rightarrow> crypto_error + string" where
  "domain_separated_payload domain payload =
     (if domain = [] \<or> List.member domain (CHR 0x00) then
        Inl (CryptoContractError ''domain must be non-empty ASCII without NUL'')
      else if \<not> list_all (\<lambda>c. code c < 128) domain then Inl (CryptoContractError ''domain must be ASCII'')
      else bindE (canonicalize_jcs payload) (\<lambda>body. Inr (domain @ [CHR 0x00] @ body)))"

definition payload_digest :: "(string \<Rightarrow> string) \<Rightarrow> string \<Rightarrow> pyval \<Rightarrow> crypto_error + string" where
  "payload_digest H domain payload = bindE (domain_separated_payload domain payload) (\<lambda>m. Inr (H m))"

definition manifest_digest :: "(string \<Rightarrow> string) \<Rightarrow> pyval \<Rightarrow> crypto_error + string" where
  "manifest_digest H payload = payload_digest H KEY_MANIFEST_DOMAIN payload"

section \<open>Signatures\<close>

text \<open>URL-safe base64 without padding.\<close>

definition b64_char :: "nat \<Rightarrow> char" where
  "b64_char n = (if n < 26 then char_of (65 + n) else if n < 52 then char_of (71 + n)
     else if n < 62 then char_of (n - 4) else if n = 62 then CHR ''-'' else CHR ''_'')"

definition b64_value :: "char \<Rightarrow> nat" where
  "b64_value c = (if 65 \<le> code c \<and> code c \<le> 90 then code c - 65
     else if 97 \<le> code c \<and> code c \<le> 122 then code c - 71
     else if 48 \<le> code c \<and> code c \<le> 57 then code c + 4
     else if c = CHR ''-'' then 62 else 63)"

fun b64_encode :: "string \<Rightarrow> string" where
  "b64_encode [] = []"
| "b64_encode [x] = [b64_char (code x div 4), b64_char (code x mod 4 * 16)]"
| "b64_encode [x, y] = [b64_char (code x div 4), b64_char (code x mod 4 * 16 + code y div 16),
     b64_char (code y mod 16 * 4)]"
| "b64_encode (x # y # z # r) = b64_char (code x div 4) # b64_char (code x mod 4 * 16 + code y div 16)
     # b64_char (code y mod 16 * 4 + code z div 64) # b64_char (code z mod 64) # b64_encode r"

text \<open>The leftover bits of an incomplete group are dropped, as \<open>b64decode\<close> does.\<close>

fun b64_decode :: "string \<Rightarrow> string" where
  "b64_decode (a # b # c # d # r) = char_of (b64_value a * 4 + b64_value b div 16)
     # char_of (b64_value b mod 16 * 16 + b64_value c div 4) # char_of (b64_value c mod 4 * 64 + b64_value d)
     # b64_decode r"
| "b64_decode [a, b, c] = [char_of (b64_value a * 4 + b64_value b div 16),
     char_of (b64_value b mod 16 * 16 + b64_value c div 4)]"
| "b64_decode [a, b] = [char_of (b64_value a * 4 + b64_value b div 16)]"
| "b64_decode _ = []"

definition is_b64 :: "char \<Rightarrow> bool" where
  "is_b64 c = (is_alnum c \<or> c = CHR ''_'' \<or> c = CHR ''-'')"

definition encode_base64url_raw64 :: "string \<Rightarrow> crypto_error + string" where
  "encode_base64url_raw64 signature =
     (if length signature \<noteq> 64 then Inl (SignatureContractError ''signature must be exactly 64 raw bytes'')
      else Inr (b64_encode signature))"

definition decode_base64url_raw64 :: "pyval \<Rightarrow> crypto_error + string" where
  "decode_base64url_raw64 encoded =
     (case encoded of
        PStr s \<Rightarrow>
          if length s \<noteq> 86 \<or> List.member s (CHR ''='') then
            Inl (SignatureContractError ''signature must be unpadded base64url for 64 raw bytes'')
          else if \<not> list_all is_b64 s then
            Inl (SignatureContractError ''signature contains invalid base64url characters'')
          else let raw = b64_decode s
            in if length raw \<noteq> 64 then Inl (SignatureContractError ''non-canonical signature encoding'')
               else bindE (encode_base64url_raw64 raw) (\<lambda>again.
                 if again \<noteq> s then Inl (SignatureContractError ''non-canonical signature encoding'') else Inr raw)
      | _ \<Rightarrow> Inl (SignatureContractError ''signature must be unpadded base64url for 64 raw bytes''))"

datatype public_key = Ed25519Key string | P256Key string | OtherKey string

fun public_key_spki :: "public_key \<Rightarrow> string" where
  "public_key_spki (Ed25519Key der) = der"
| "public_key_spki (P256Key der) = der"
| "public_key_spki (OtherKey der) = der"

definition spki_fingerprint :: "(string \<Rightarrow> string) \<Rightarrow> public_key \<Rightarrow> string" where
  "spki_fingerprint H k = H (public_key_spki k)"

record sig_prims =
  ed25519_verify :: "string \<Rightarrow> string \<Rightarrow> string \<Rightarrow> bool"
  p256_verify :: "string \<Rightarrow> int \<Rightarrow> int \<Rightarrow> string \<Rightarrow> bool"

definition big_endian :: "string \<Rightarrow> int" where
  "big_endian bs = foldl (\<lambda>acc c. 256 * acc + int (code c)) 0 bs"

definition verify_detached :: "sig_prims \<Rightarrow> pyval \<Rightarrow> pyval \<Rightarrow> public_key \<Rightarrow> string \<Rightarrow> crypto_error + unit" where
  "verify_detached prims payload signature public_key domain =
     bindE (decode_base64url_raw64 signature) (\<lambda>raw.
     bindE (domain_separated_payload domain payload) (\<lambda>message.
     case public_key of
       Ed25519Key der \<Rightarrow>
         requireE (ed25519_verify prims der raw message) (SignatureContractError ''signature verification failed'')
     | P256Key der \<Rightarrow>
         (let r = big_endian (take 32 raw); s = big_endian (drop 32 raw)
          in bindE (requireE (1 \<le> r \<and> r < P256_ORDER \<and> 1 \<le> s \<and> s \<le> P256_ORDER div 2)
               (SignatureContractError ''P-256 signature must be valid low-S P1363'')) (\<lambda>_.
             requireE (p256_verify prims der r s message) (SignatureContractError ''signature verification failed'')))
     | OtherKey _ \<Rightarrow> Inl (SignatureContractError ''only Ed25519 and P-256 public keys are accepted'')))"

text \<open>
  The signing side: a private key is a handle of the \<open>cryptography\<close> package, \<open>signers\<close> what its
  \<open>sign\<close> returns, with the DER signature of ECDSA read back as \<open>(r, s)\<close>.
\<close>

datatype private_key = Ed25519Private string | P256Private string | OtherPrivate string

record sig_signers =
  ed25519_sign :: "string \<Rightarrow> string \<Rightarrow> string"
  p256_sign :: "string \<Rightarrow> string \<Rightarrow> int \<times> int"

fun to_bytes :: "nat \<Rightarrow> int \<Rightarrow> string" where
  "to_bytes 0 n = []"
| "to_bytes (Suc w) n = to_bytes w (n div 256) @ [char_of (nat (n mod 256))]"

definition sign_detached :: "sig_signers \<Rightarrow> pyval \<Rightarrow> private_key \<Rightarrow> string \<Rightarrow> crypto_error + string" where
  "sign_detached signers payload private_key domain =
     bindE (domain_separated_payload domain payload) (\<lambda>message.
     bindE (case private_key of
         Ed25519Private k \<Rightarrow> Inr (ed25519_sign signers k message)
       | P256Private k \<Rightarrow>
           (let (r, s) = p256_sign signers k message; s' = min s (P256_ORDER - s)
            in Inr (to_bytes 32 r @ to_bytes 32 s'))
       | OtherPrivate k \<Rightarrow> Inl (SignatureContractError ''only Ed25519 and P-256 private keys are accepted'')) (\<lambda>raw.
     encode_base64url_raw64 raw))"

section \<open>Key manifests\<close>

record KeyRecord =
  kr_key_id :: string
  kr_key_version :: int
  kr_algorithm :: string
  kr_public_key_fingerprint :: string
  kr_state :: string

type_synonym key_identity = "string \<times> int"
type_synonym key_table = "(key_identity \<times> KeyRecord) list"

definition key_identity :: "KeyRecord \<Rightarrow> key_identity" where
  "key_identity k = (kr_key_id k, kr_key_version k)"

record AuthenticatedManifest =
  am_payload :: pydict
  am_signature :: pyval
  am_generation :: int
  am_digest :: string
  am_keys :: key_table

text \<open>\<open>(0|[1-9][0-9]*)\<close> and \<open>[A-Za-z0-9._-]{1,128}\<close>.\<close>

definition canonical_uint :: "string \<Rightarrow> bool" where
  "canonical_uint s = (s = ''0'' \<or> canonical_positive s)"

definition key_id_text :: "string \<Rightarrow> bool" where
  "key_id_text s = (1 \<le> length s \<and> length s \<le> 128 \<and> list_all is_name_char s)"

definition chain_current :: "AuthenticatedManifest list \<Rightarrow> crypto_error + AuthenticatedManifest" where
  "chain_current ms = (if ms = [] then Inl (ManifestContractError ''manifest chain is empty'') else Inr (last ms))"

definition at_issuance :: "AuthenticatedManifest list \<Rightarrow> string \<Rightarrow> string \<Rightarrow> crypto_error + AuthenticatedManifest" where
  "at_issuance ms generation dig =
     (if \<not> canonical_uint generation then
        Inl (AttestationContractError ''issuance manifest generation is not canonical'')
      else case filter (\<lambda>m. am_generation m = int (digits_value generation)) ms of
          [m] \<Rightarrow> if am_digest m \<noteq> dig
            then Inl (AttestationContractError ''issuance manifest is not in the authenticated chain'') else Inr m
        | _ \<Rightarrow> Inl (AttestationContractError ''issuance manifest is not in the authenticated chain''))"

fun parse_utc :: "(string \<Rightarrow> pydatetime option) \<Rightarrow> pyval \<Rightarrow> string \<Rightarrow> crypto_error + instant" where
  "parse_utc fromiso (PStr s) field =
     (if s = [] \<or> last s \<noteq> CHR ''Z'' then
        Inl (CryptoContractError (field @ '' must be a canonical UTC timestamp ending in Z''))
      else case fromiso (butlast s @ ''+00:00'') of
          None \<Rightarrow> Inl (CryptoContractError (''invalid '' @ field))
        | Some t \<Rightarrow> aware t (CryptoContractError ''authoritative time must be timezone-aware UTC''))"
| "parse_utc fromiso _ field =
     Inl (CryptoContractError (field @ '' must be a canonical UTC timestamp ending in Z''))"

definition KEY_FIELDS :: "string list" where
  "KEY_FIELDS = [''key_id'', ''key_version'', ''algorithm'', ''public_key_fingerprint'', ''state'']"

definition in_set :: "pyval \<Rightarrow> string list \<Rightarrow> crypto_error + bool" where
  "in_set v ss = (if hashable v then Inr (one_of v ss) else Inl (CrTypeError ''unhashable type''))"

fun int_of :: "pyval \<Rightarrow> int" where
  "int_of (PInt i) = i"
| "int_of _ = 0"

definition key_record :: "key_table \<Rightarrow> pyval \<Rightarrow> crypto_error + KeyRecord" where
  "key_record keys v =
     (let bad = ManifestContractError ''invalid or duplicate manifest key entry''
      in case v of
        PDict raw \<Rightarrow>
          bindE (requireE (keys_exact raw KEY_FIELDS) (ManifestContractError ''invalid manifest key entry'')) (\<lambda>_.
          bindE (requireE (str_matches key_id_text (pget raw ''key_id'')) bad) (\<lambda>_.
          bindE (requireE (positive_int (pget raw ''key_version'')) bad) (\<lambda>_.
          bindE (in_set (pget raw ''algorithm'') [''Ed25519'', ''platform-native-P256'']) (\<lambda>ok.
          bindE (requireE ok bad) (\<lambda>_.
          bindE (requireE (str_matches sha256hex (pget raw ''public_key_fingerprint'')) bad) (\<lambda>_.
          bindE (in_set (pget raw ''state'') [''active'', ''retiring'', ''revoked'']) (\<lambda>ok.
          bindE (requireE ok bad) (\<lambda>_.
          let k = \<lparr>kr_key_id = fmt (pget raw ''key_id''), kr_key_version = int_of (pget raw ''key_version''),
                   kr_algorithm = fmt (pget raw ''algorithm''),
                   kr_public_key_fingerprint = fmt (pget raw ''public_key_fingerprint''),
                   kr_state = fmt (pget raw ''state'')\<rparr>
          in bindE (requireE (map_of keys (key_identity k) = None) bad) (\<lambda>_. Inr k)))))))))
      | _ \<Rightarrow> Inl (ManifestContractError ''invalid manifest key entry''))"

fun key_records :: "key_table \<Rightarrow> pyval list \<Rightarrow> crypto_error + key_table" where
  "key_records keys [] = Inr keys"
| "key_records keys (v # vs) =
     bindE (key_record keys v) (\<lambda>k. key_records (keys @ [(key_identity k, k)]) vs)"

definition MANIFEST_FIELDS :: "string list" where
  "MANIFEST_FIELDS = [''execution_trust_key_manifest_version'', ''manifest_generation'',
     ''previous_manifest_digest'', ''issued_at'', ''offline_root_public_fingerprint'', ''keys'']"

definition validate_manifest_payload ::
  "(string \<Rightarrow> pydatetime option) \<Rightarrow> pydict \<Rightarrow> string \<Rightarrow> crypto_error + int \<times> key_table" where
  "validate_manifest_payload fromiso payload root_fingerprint =
     bindE (requireE (keys_exact payload MANIFEST_FIELDS
         \<and> py_eq (pget payload ''execution_trust_key_manifest_version'') (PInt 1))
       (ManifestContractError ''invalid key manifest v1 payload shape'')) (\<lambda>_.
     bindE (requireE (str_matches canonical_positive (pget payload ''manifest_generation''))
       (ManifestContractError ''manifest_generation must be a canonical positive string'')) (\<lambda>_.
     bindE (requireE (py_eq (pget payload ''offline_root_public_fingerprint'') (PStr root_fingerprint))
       (ManifestContractError ''manifest root fingerprint mismatch'')) (\<lambda>_.
     bindE (requireE (pget payload ''previous_manifest_digest'' = PNone
         \<or> str_matches sha256hex (pget payload ''previous_manifest_digest''))
       (ManifestContractError ''invalid previous_manifest_digest'')) (\<lambda>_.
     bindE (parse_utc fromiso (pget payload ''issued_at'') ''issued_at'') (\<lambda>_.
     bindE (requireE (is_list (pget payload ''keys'') \<and> list_of (pget payload ''keys'') \<noteq> [])
       (ManifestContractError ''manifest keys must be a non-empty list'')) (\<lambda>_.
     bindE (key_records [] (list_of (pget payload ''keys''))) (\<lambda>keys.
     Inr (int (digits_value (fmt (pget payload ''manifest_generation''))), keys))))))))"

fun allowed_key_states :: "string \<Rightarrow> string list" where
  "allowed_key_states s =
     (if s = ''active'' then [''active'', ''retiring'', ''revoked'']
      else if s = ''retiring'' then [''retiring'', ''revoked''] else [''revoked''])"

definition validate_key_transition :: "key_table \<Rightarrow> key_table \<Rightarrow> crypto_error + unit" where
  "validate_key_transition previous current =
     bindE (forE previous (\<lambda>(identity, old).
       case map_of current identity of
         None \<Rightarrow> Inl (ManifestContractError ''manifest omitted an existing key version'')
       | Some new \<Rightarrow>
           bindE (requireE (kr_algorithm old = kr_algorithm new
               \<and> kr_public_key_fingerprint old = kr_public_key_fingerprint new)
             (ManifestContractError ''immutable key metadata changed'')) (\<lambda>_.
           requireE (List.member (allowed_key_states (kr_state old)) (kr_state new))
             (ManifestContractError ''key state rollback/reactivation is forbidden'')))) (\<lambda>_.
     requireE (list_all (\<lambda>(identity, k). kr_state k = ''active'' \<or> map_of previous identity \<noteq> None) current)
       (ManifestContractError ''a newly introduced key version must be active''))"

text \<open>One round of the loop of \<open>authenticate_manifest_chain\<close>; the root key is Ed25519.\<close>

definition authenticate_envelope ::
  "(string \<Rightarrow> string) \<Rightarrow> sig_prims \<Rightarrow> (string \<Rightarrow> pydatetime option) \<Rightarrow> string \<Rightarrow> string
   \<Rightarrow> AuthenticatedManifest option \<Rightarrow> pydict \<Rightarrow> crypto_error + AuthenticatedManifest" where
  "authenticate_envelope H prims fromiso root_der root_fingerprint previous envelope =
     bindE (requireE (keys_exact envelope [''payload'', ''signature''] \<and> is_dict (pget envelope ''payload''))
       (ManifestContractError ''manifest envelope must contain only payload and detached signature'')) (\<lambda>_.
     let payload = dict_of (pget envelope ''payload''); signature = pget envelope ''signature''
     in bindE (recastE (verify_detached prims (PDict payload) signature (Ed25519Key root_der) KEY_MANIFEST_DOMAIN)
            (ManifestContractError ''offline root signature is invalid'')) (\<lambda>_.
        bindE (validate_manifest_payload fromiso payload root_fingerprint) (\<lambda>(generation, keys).
        bindE (manifest_digest H (PDict payload)) (\<lambda>dig.
        bindE (requireE (generation = (case previous of None \<Rightarrow> 1 | Some p \<Rightarrow> am_generation p + 1)
            \<and> py_eq (pget payload ''previous_manifest_digest'')
                (case previous of None \<Rightarrow> PNone | Some p \<Rightarrow> PStr (am_digest p)))
          (ManifestContractError ''manifest chain has a rollback, skip, conflict, or missing predecessor'')) (\<lambda>_.
        bindE (case previous of
            None \<Rightarrow> Inr ()
          | Some p \<Rightarrow>
              bindE (validate_key_transition (am_keys p) keys) (\<lambda>_.
              bindE (parse_utc fromiso (pget payload ''issued_at'') ''issued_at'') (\<lambda>t.
              bindE (parse_utc fromiso (pget (am_payload p) ''issued_at'') ''issued_at'') (\<lambda>t0.
              requireE (t0 \<le> t) (ManifestContractError ''manifest issued_at moved backwards''))))) (\<lambda>_.
        Inr \<lparr>am_payload = payload, am_signature = signature, am_generation = generation,
             am_digest = dig, am_keys = keys\<rparr>))))))"

fun authenticate_envelopes ::
  "(string \<Rightarrow> string) \<Rightarrow> sig_prims \<Rightarrow> (string \<Rightarrow> pydatetime option) \<Rightarrow> string \<Rightarrow> string
   \<Rightarrow> AuthenticatedManifest option \<Rightarrow> pydict list \<Rightarrow> crypto_error + AuthenticatedManifest list" where
  "authenticate_envelopes H prims fromiso root_der root_fingerprint previous [] = Inr []"
| "authenticate_envelopes H prims fromiso root_der root_fingerprint previous (e # es) =
     bindE (authenticate_envelope H prims fromiso root_der root_fingerprint previous e) (\<lambda>m.
     bindE (authenticate_envelopes H prims fromiso root_der root_fingerprint (Some m) es) (\<lambda>ms. Inr (m # ms)))"

definition authenticate_manifest_chain ::
  "(string \<Rightarrow> string) \<Rightarrow> sig_prims \<Rightarrow> (string \<Rightarrow> pydatetime option) \<Rightarrow> pydict list \<Rightarrow> public_key \<Rightarrow> string
   \<Rightarrow> int option \<Rightarrow> string option \<Rightarrow> crypto_error + AuthenticatedManifest list" where
  "authenticate_manifest_chain H prims fromiso envelopes root_public_key pinned_root_fingerprint
     minimum_generation minimum_digest =
     (case root_public_key of
        Ed25519Key der \<Rightarrow>
          bindE (requireE (spki_fingerprint H root_public_key = pinned_root_fingerprint)
            (ManifestContractError ''offline root fingerprint mismatch'')) (\<lambda>_.
          bindE (authenticate_envelopes H prims fromiso der pinned_root_fingerprint None envelopes) (\<lambda>ms.
          bindE (requireE (ms \<noteq> []) (ManifestContractError ''manifest chain is unavailable'')) (\<lambda>_.
          bindE (case minimum_generation of None \<Rightarrow> Inr ()
              | Some g \<Rightarrow> requireE (g \<le> am_generation (last ms))
                  (ManifestContractError ''manifest rollback below persisted highest generation'')) (\<lambda>_.
          bindE (case (minimum_generation, minimum_digest) of
                (Some g, Some dig) \<Rightarrow>
                  (case find (\<lambda>m. am_generation m = g) ms of
                     None \<Rightarrow> Inl (ManifestContractError ''conflicting manifest at persisted highest generation'')
                   | Some m \<Rightarrow> requireE (am_digest m = dig)
                       (ManifestContractError ''conflicting manifest at persisted highest generation''))
              | _ \<Rightarrow> Inr ()) (\<lambda>_.
          Inr ms)))))
      | _ \<Rightarrow> Inl (ManifestContractError ''offline root verifier must be Ed25519''))"

definition authorize_key_for_issuance ::
  "AuthenticatedManifest list \<Rightarrow> string \<Rightarrow> int \<Rightarrow> crypto_error + KeyRecord" where
  "authorize_key_for_issuance chain key_id key_version =
     bindE (chain_current chain) (\<lambda>m.
     case map_of (am_keys m) (key_id, key_version) of
       Some k \<Rightarrow> if kr_state k \<noteq> ''active''
         then Inl (AttestationContractError ''only a currently active key may sign a new proof'') else Inr k
     | None \<Rightarrow> Inl (AttestationContractError ''only a currently active key may sign a new proof''))"

section \<open>Base64 text\<close>

lemma code_less [simp]: "code c < 256"
  by (simp add: code_def)

lemma char_of_code [simp]: "char_of (code c) = c"
  by (simp add: code_def)

lemma code_char_of [simp]: "n < 256 \<Longrightarrow> code (char_of n) = n"
  by (simp add: code_def)

lemma char_of_eq: "n < 256 \<Longrightarrow> char_of n = c \<longleftrightarrow> n = code c"
  by (metis char_of_code code_char_of)

lemma char_codes: "code (CHR ''-'') = 45" "code (CHR ''_'') = 95" "code (CHR ''='') = 61"
  by (simp_all add: code_def)

lemma b64_value_char: "n < 64 \<Longrightarrow> b64_value (b64_char n) = n"
  by (auto simp: b64_char_def b64_value_def char_codes char_of_eq)

lemma b64_char_text: "n < 64 \<Longrightarrow> is_b64 (b64_char n)"
  by (auto simp: b64_char_def is_b64_def is_alnum_def is_digit_def char_codes char_of_eq)

lemma b64_char_not_pad: "n < 64 \<Longrightarrow> CHR ''='' \<noteq> b64_char n"
proof
  assume "n < 64" and eq: "CHR ''='' = b64_char n"
  then have "is_b64 (CHR ''='')" using b64_char_text by simp
  then show False by (simp add: is_b64_def is_alnum_def is_digit_def char_codes)
qed

lemma sextets:
  "code x div 4 < 64" "code x mod 4 * 16 < 64" "code x mod 4 * 16 + code y div 16 < 64"
  "code y mod 16 * 4 < 64" "code y mod 16 * 4 + code z div 64 < 64" "code z mod 64 < 64"
  using code_less [of x] code_less [of y] code_less [of z] by arith+

lemma code_parts:
  "code y div 16 div 16 = 0" "code y div 16 mod 16 = code y div 16" "code z div 64 div 4 = 0"
  "code z div 64 mod 4 = code z div 64"
proof -
  have "code y div 16 < 16" "code z div 64 < 4"
    by (simp_all add: less_mult_imp_div_less)
  then show "code y div 16 div 16 = 0" "code y div 16 mod 16 = code y div 16" "code z div 64 div 4 = 0"
    "code z div 64 mod 4 = code z div 64" by simp_all
qed

lemma b64_decode_encode: "b64_decode (b64_encode xs) = xs"
  by (induction xs rule: b64_encode.induct) (simp_all add: b64_value_char sextets code_parts)

lemma b64_encode_length: "length (b64_encode xs) = (4 * length xs + 2) div 3"
  by (induction xs rule: b64_encode.induct) simp_all

lemma b64_encode_text: "list_all is_b64 (b64_encode xs) \<and> CHR ''='' \<notin> set (b64_encode xs)"
  by (induction xs rule: b64_encode.induct) (simp_all add: b64_char_text b64_char_not_pad sextets)

lemma encode_decode_raw64: "encode_base64url_raw64 raw = Inr s \<Longrightarrow> decode_base64url_raw64 (PStr s) = Inr raw"
  using b64_encode_text [of raw]
  by (auto simp: encode_base64url_raw64_def decode_base64url_raw64_def b64_decode_encode b64_encode_length
      Let_def split: if_splits)

lemma decode_encode_raw64: "decode_base64url_raw64 (PStr s) = Inr raw \<Longrightarrow> encode_base64url_raw64 raw = Inr s"
  by (auto simp: decode_base64url_raw64_def encode_base64url_raw64_def Let_def split: if_splits)

section \<open>Signing and verifying\<close>

lemma to_bytes_length [simp]: "length (to_bytes w n) = w"
  by (induction w arbitrary: n) simp_all

lemma big_endian_snoc: "big_endian (bs @ [c]) = 256 * big_endian bs + int (code c)"
  by (simp add: big_endian_def)

lemma big_endian_to_bytes: "0 \<le> n \<Longrightarrow> n < 256 ^ w \<Longrightarrow> big_endian (to_bytes w n) = n"
proof (induction w arbitrary: n)
  case (Suc w)
  have "n div 256 < 256 ^ w" using Suc.prems(2) by (simp add: div_less_iff_less_mult)
  moreover have "code (char_of (nat (n mod 256))) = nat (n mod 256)" by (rule code_char_of) auto
  ultimately show ?case using Suc by (simp add: big_endian_snoc)
qed (simp add: big_endian_def)

lemma low_s:
  assumes "1 \<le> s" and "s < P256_ORDER"
  shows "1 \<le> min s (P256_ORDER - s) \<and> min s (P256_ORDER - s) \<le> P256_ORDER div 2"
  using assms by (auto simp: min_def P256_ORDER_def)

text \<open>What the \<open>cryptography\<close> package documents: a key's own signatures verify, an Ed25519 signature has 64 bytes,
  an ECDSA signature has components below the group order and stays valid when \<open>s\<close> is negated.\<close>

fun key_pair :: "sig_signers \<Rightarrow> sig_prims \<Rightarrow> private_key \<Rightarrow> public_key \<Rightarrow> bool" where
  "key_pair signers prims (Ed25519Private k) (Ed25519Key der) =
     (\<forall>m. length (ed25519_sign signers k m) = 64 \<and> ed25519_verify prims der (ed25519_sign signers k m) m)"
| "key_pair signers prims (P256Private k) (P256Key der) =
     (\<forall>m r s. p256_sign signers k m = (r, s) \<longrightarrow> 1 \<le> r \<and> r < P256_ORDER \<and> 1 \<le> s \<and> s < P256_ORDER
        \<and> p256_verify prims der r s m \<and> p256_verify prims der r (P256_ORDER - s) m)"
| "key_pair signers prims _ _ = False"

lemma sign_verify:
  assumes "key_pair signers prims sk pk" and "sign_detached signers payload sk domain = Inr text"
  shows "verify_detached prims payload (PStr text) pk domain = Inr ()"
proof -
  obtain message raw where m: "domain_separated_payload domain payload = Inr message"
    and raw: "decode_base64url_raw64 (PStr text) = Inr raw"
    and signed: "(case sk of Ed25519Private k \<Rightarrow> Inr (ed25519_sign signers k message)
      | P256Private k \<Rightarrow> (let (r, s) = p256_sign signers k message; s' = min s (P256_ORDER - s)
          in Inr (to_bytes 32 r @ to_bytes 32 s'))
      | OtherPrivate k \<Rightarrow> Inl (SignatureContractError ''only Ed25519 and P-256 private keys are accepted'')) = Inr raw"
    using assms(2) encode_decode_raw64 unfolding sign_detached_def bindE_eq_Inr by blast
  show ?thesis
  proof (cases sk)
    case (Ed25519Private k)
    with assms(1) signed m raw show ?thesis
      by (cases pk) (auto simp: verify_detached_def)
  next
    case (P256Private k)
    with assms(1) obtain der where pk: "pk = P256Key der" by (cases pk) auto
    obtain r s where rs: "p256_sign signers k message = (r, s)"
      and raw': "raw = to_bytes 32 r @ to_bytes 32 (min s (P256_ORDER - s))"
      using signed P256Private by (cases "p256_sign signers k message") (auto simp: Let_def)
    have bounds: "1 \<le> r" "r < P256_ORDER" "1 \<le> s" "s < P256_ORDER"
      and ok: "p256_verify prims der r s message" "p256_verify prims der r (P256_ORDER - s) message"
      using assms(1) rs unfolding P256Private pk by auto
    have order: "P256_ORDER < 256 ^ 32" by (simp add: P256_ORDER_def)
    have "big_endian (take 32 raw) = r" "big_endian (drop 32 raw) = min s (P256_ORDER - s)"
      using bounds order by (simp_all add: raw' big_endian_to_bytes min_def)
    moreover have "p256_verify prims der r (min s (P256_ORDER - s)) message"
      using ok by (simp add: min_def)
    ultimately show ?thesis
      using low_s [OF bounds(3,4)] bounds(1,2) m raw by (simp add: verify_detached_def pk Let_def)
  next
    case (OtherPrivate k)
    with assms(1) show ?thesis by simp
  qed
qed

section \<open>The manifest chain\<close>

text \<open>What one accepted manifest says of its predecessor.\<close>

definition follows :: "AuthenticatedManifest \<Rightarrow> AuthenticatedManifest \<Rightarrow> bool" where
  "follows p m = (am_generation m = am_generation p + 1
     \<and> pget (am_payload m) ''previous_manifest_digest'' = PStr (am_digest p)
     \<and> validate_key_transition (am_keys p) (am_keys m) = Inr ())"

fun chained :: "AuthenticatedManifest option \<Rightarrow> AuthenticatedManifest list \<Rightarrow> bool" where
  "chained previous [] = True"
| "chained previous (m # ms) =
     ((case previous of None \<Rightarrow> am_generation m = 1 | Some p \<Rightarrow> follows p m) \<and> chained (Some m) ms)"

text \<open>A table whose entries are filed under their own identity, in one of the three states.\<close>

definition keys_ok :: "key_table \<Rightarrow> bool" where
  "keys_ok keys = (\<forall>(i, k) \<in> set keys. key_identity k = i \<and> kr_state k \<in> {''active'', ''retiring'', ''revoked''})"

lemma one_of_fmt: "one_of v ss \<Longrightarrow> fmt v \<in> set ss"
  by (auto simp: one_of_def list_ex_iff)

lemma key_record_state: "key_record keys v = Inr k \<Longrightarrow> kr_state k \<in> {''active'', ''retiring'', ''revoked''}"
  using one_of_fmt
  by (cases v) (fastforce simp: key_record_def errE_iffs Let_def in_set_def split: if_splits)+

lemma key_records_ok: "key_records keys vs = Inr keys' \<Longrightarrow> keys_ok keys \<Longrightarrow> keys_ok keys'"
proof (induction vs arbitrary: keys)
  case (Cons v vs)
  then obtain k where k: "key_record keys v = Inr k" "key_records (keys @ [(key_identity k, k)]) vs = Inr keys'"
    by (auto simp: bindE_eq_Inr)
  have "keys_ok (keys @ [(key_identity k, k)])"
    using Cons.prems(2) key_record_state [OF k(1)] by (auto simp: keys_ok_def)
  with Cons.IH k(2) show ?case by blast
qed simp

lemma validate_manifest_keys: "validate_manifest_payload fromiso d fp = Inr (g, keys) \<Longrightarrow> keys_ok keys"
proof -
  assume "validate_manifest_payload fromiso d fp = Inr (g, keys)"
  then have "key_records [] (list_of (pget d ''keys'')) = Inr keys"
    by (auto simp: validate_manifest_payload_def bindE_eq_Inr)
  then show ?thesis by (rule key_records_ok) (simp add: keys_ok_def)
qed

lemma authenticate_envelopeD:
  assumes "authenticate_envelope H prims fromiso der fp previous e = Inr m"
  shows "(case previous of None \<Rightarrow> am_generation m = 1 | Some p \<Rightarrow> follows p m) \<and> keys_ok (am_keys m)
    \<and> verify_detached prims (PDict (am_payload m)) (am_signature m) (Ed25519Key der) KEY_MANIFEST_DOMAIN = Inr ()"
proof -
  obtain g keys where v: "validate_manifest_payload fromiso (am_payload m) fp = Inr (g, keys)"
    and m: "am_generation m = g" "am_keys m = keys"
    and sig: "verify_detached prims (PDict (am_payload m)) (am_signature m) (Ed25519Key der) KEY_MANIFEST_DOMAIN = Inr ()"
    and prev: "g = (case previous of None \<Rightarrow> 1 | Some p \<Rightarrow> am_generation p + 1)"
      "py_eq (pget (am_payload m) ''previous_manifest_digest'') (case previous of None \<Rightarrow> PNone | Some p \<Rightarrow> PStr (am_digest p))"
      "\<forall>p. previous = Some p \<longrightarrow> validate_key_transition (am_keys p) keys = Inr ()"
    using assms
    by (auto simp: authenticate_envelope_def errE_iffs Let_def split: sum.splits option.splits)
  with validate_manifest_keys [OF v] show ?thesis
    by (cases previous) (auto simp: follows_def)
qed

lemma authenticate_envelopes_chained:
  "authenticate_envelopes H prims fromiso der fp previous es = Inr ms \<Longrightarrow>
     chained previous ms \<and> (\<forall>m \<in> set ms. keys_ok (am_keys m))"
proof (induction es arbitrary: previous ms)
  case (Cons e es)
  then obtain m rest where "authenticate_envelope H prims fromiso der fp previous e = Inr m"
    "authenticate_envelopes H prims fromiso der fp (Some m) es = Inr rest" "ms = m # rest"
    by (auto simp: bindE_eq_Inr)
  with Cons.IH authenticate_envelopeD show ?case by fastforce
qed simp

lemma chain_ok:
  assumes "authenticate_manifest_chain H prims fromiso es root fp g0 d0 = Inr ms"
  shows "chained None ms \<and> ms \<noteq> [] \<and> (\<forall>m \<in> set ms. keys_ok (am_keys m))"
proof -
  obtain der where "authenticate_envelopes H prims fromiso der fp None es = Inr ms" "ms \<noteq> []"
    using assms by (cases root) (auto simp: authenticate_manifest_chain_def bindE_eq_Inr)
  with authenticate_envelopes_chained show ?thesis by blast
qed

text \<open>Along the chain a key keeps its metadata and its state only moves towards revocation.\<close>

fun state_rank :: "string \<Rightarrow> nat" where
  "state_rank s = (if s = ''active'' then 0 else if s = ''retiring'' then 1 else 2)"

definition key_advanced :: "KeyRecord \<Rightarrow> KeyRecord \<Rightarrow> bool" where
  "key_advanced k k' = (kr_algorithm k' = kr_algorithm k
     \<and> kr_public_key_fingerprint k' = kr_public_key_fingerprint k
     \<and> state_rank (kr_state k) \<le> state_rank (kr_state k'))"

lemma transition_advances:
  assumes "validate_key_transition previous current = Inr ()" and "map_of previous i = Some k"
  shows "\<exists>k'. map_of current i = Some k' \<and> key_advanced k k'"
proof -
  have "(i, k) \<in> set previous" using assms(2) by (rule map_of_SomeD)
  then have "(case map_of current i of None \<Rightarrow> Inl (ManifestContractError ''manifest omitted an existing key version'')
      | Some new \<Rightarrow> bindE (requireE (kr_algorithm k = kr_algorithm new
            \<and> kr_public_key_fingerprint k = kr_public_key_fingerprint new)
          (ManifestContractError ''immutable key metadata changed'')) (\<lambda>_.
        requireE (List.member (allowed_key_states (kr_state k)) (kr_state new))
          (ManifestContractError ''key state rollback/reactivation is forbidden''))) = Inr ()"
    using assms(1) unfolding validate_key_transition_def bindE_eq_Inr forE_eq_Inr by auto
  then show ?thesis
    by (cases "map_of current i") (auto simp: key_advanced_def bindE_eq_Inr split: if_splits)
qed

lemma key_advanced_refl: "key_advanced k k"
  by (simp add: key_advanced_def)

lemma key_advanced_trans: "key_advanced a b \<Longrightarrow> key_advanced b c \<Longrightarrow> key_advanced a c"
  by (simp add: key_advanced_def del: state_rank.simps)

lemma chained_generation: "chained (Some p) ms \<Longrightarrow> i < length ms \<Longrightarrow> am_generation (ms ! i) = am_generation p + int i + 1"
proof (induction ms arbitrary: p i)
  case (Cons m ms)
  then show ?case by (cases i) (auto simp: follows_def)
qed simp

lemma chain_generation: "chained None ms \<Longrightarrow> i < length ms \<Longrightarrow> am_generation (ms ! i) = int i + 1"
  by (cases ms; cases i) (auto simp: chained_generation)

lemma chained_advances:
  "chained (Some p) ms \<Longrightarrow> map_of (am_keys p) i = Some k \<Longrightarrow> m \<in> set ms \<Longrightarrow>
     \<exists>k'. map_of (am_keys m) i = Some k' \<and> key_advanced k k'"
proof (induction ms arbitrary: p k)
  case (Cons a ms)
  from Cons.prems obtain ka where ka: "map_of (am_keys a) i = Some ka" "key_advanced k ka"
    using transition_advances by (fastforce simp: follows_def)
  show ?case
  proof (cases "m = a")
    case False
    with Cons.prems Cons.IH [OF _ ka(1)] ka(2) show ?thesis
      using key_advanced_trans by fastforce
  qed (use ka in blast)
qed simp

lemma chain_advances:
  assumes "chained previous ms" and "i \<le> j" and "j < length ms" and "map_of (am_keys (ms ! i)) x = Some k"
  shows "\<exists>k'. map_of (am_keys (ms ! j)) x = Some k' \<and> key_advanced k k'"
  using assms
proof (induction ms arbitrary: previous i j)
  case (Cons m ms)
  show ?case
  proof (cases i)
    case 0
    with Cons.prems chained_advances [of m ms x k "(m # ms) ! j"] key_advanced_refl show ?thesis
      by (cases j) auto
  next
    case (Suc n)
    then obtain l where "j = Suc l" using Cons.prems(2) by (cases j) auto
    with Suc Cons.IH [of "Some m" n l] Cons.prems show ?thesis by simp
  qed
qed simp

section \<open>A sample chain\<close>

text \<open>
  Two manifests for one Ed25519 key, under primitives that accept everything; the second manifest
  leaves the key in the state given.
\<close>

definition sample_hash :: string where
  "sample_hash = replicate 64 (CHR ''a'')"

definition sample_signature :: string where
  "sample_signature = b64_encode (replicate 64 (CHR ''0''))"

definition sample_prims :: sig_prims where
  "sample_prims = \<lparr>ed25519_verify = (\<lambda>_ _ _. True), p256_verify = (\<lambda>_ _ _ _. True)\<rparr>"

definition sample_time :: "string \<Rightarrow> pydatetime option" where
  "sample_time s = Some (Aware (int (digits_value (takeWhile is_digit s))))"

definition sample_key :: "string \<Rightarrow> pydict" where
  "sample_key state = [(''key_id'', PStr ''k''), (''key_version'', PInt 1), (''algorithm'', PStr ''Ed25519''),
     (''public_key_fingerprint'', PStr sample_hash), (''state'', PStr state)]"

definition sample_manifest :: "string \<Rightarrow> pyval \<Rightarrow> string \<Rightarrow> pydict" where
  "sample_manifest generation previous state =
     [(''execution_trust_key_manifest_version'', PInt 1), (''manifest_generation'', PStr generation),
      (''previous_manifest_digest'', previous), (''issued_at'', PStr ''5Z''),
      (''offline_root_public_fingerprint'', PStr sample_hash), (''keys'', PList [PDict (sample_key state)])]"

definition sample_envelopes :: "string \<Rightarrow> pydict list" where
  "sample_envelopes state =
     [[(''payload'', PDict (sample_manifest ''1'' PNone ''active'')), (''signature'', PStr sample_signature)],
      [(''payload'', PDict (sample_manifest ''2'' (PStr sample_hash) state)), (''signature'', PStr sample_signature)]]"

definition sample_record :: "string \<Rightarrow> KeyRecord" where
  "sample_record state = \<lparr>kr_key_id = ''k'', kr_key_version = 1, kr_algorithm = ''Ed25519'',
     kr_public_key_fingerprint = sample_hash, kr_state = state\<rparr>"

definition sample_authenticated :: "int \<Rightarrow> pydict \<Rightarrow> string \<Rightarrow> AuthenticatedManifest" where
  "sample_authenticated generation payload state =
     \<lparr>am_payload = payload, am_signature = PStr sample_signature, am_generation = generation,
      am_digest = sample_hash, am_keys = [((''k'', 1), sample_record state)]\<rparr>"

definition sample_chain :: "string \<Rightarrow> AuthenticatedManifest list" where
  "sample_chain state = [sample_authenticated 1 (sample_manifest ''1'' PNone ''active'') ''active'',
     sample_authenticated 2 (sample_manifest ''2'' (PStr sample_hash) state) state]"

lemmas dict_eval = pget_def keys_exact_def keys_within_def keys_cover_def pkeys_def

lemma sample_hash_text [simp]: "sha256hex sample_hash"
  unfolding sample_hash_def hex_of_length_replicate by code_simp

lemma sample_signature_decodes: "decode_base64url_raw64 (PStr sample_signature) = Inr (replicate 64 (CHR ''0''))"
  by (rule encode_decode_raw64) (simp add: encode_base64url_raw64_def sample_signature_def)

lemma sample_verifies:
  assumes "jcs_safe payload" and "domain \<in> {ATTESTATION_DOMAIN, KEY_MANIFEST_DOMAIN}"
  shows "verify_detached sample_prims payload (PStr sample_signature) (Ed25519Key der) domain = Inr ()"
proof -
  have "domain \<noteq> [] \<and> \<not> List.member domain (CHR 0x00) \<and> list_all (\<lambda>c. code c < 128) domain"
    using assms(2) by (elim insertE emptyE; simp only:; code_simp)
  with assms(1) show ?thesis
    by (simp add: verify_detached_def sample_signature_decodes domain_separated_payload_def canonicalize_jcs_def
        sample_prims_def)
qed

lemma sample_manifest_valid:
  assumes "state \<in> {''active'', ''retiring'', ''revoked''}" and "previous \<in> {PNone, PStr sample_hash}"
    and "generation \<in> {''1'', ''2''}"
  shows "validate_manifest_payload sample_time (sample_manifest generation previous state) sample_hash
    = Inr (int (digits_value generation), [((''k'', 1), sample_record state)])"
proof -
  have "key_id_text ''k''" by code_simp
  then have "key_record [] (PDict (sample_key state)) = Inr (sample_record state)"
    using assms(1)
    by (auto simp: key_record_def sample_key_def dict_eval KEY_FIELDS_def in_set_def one_of_def
        key_identity_def sample_record_def Let_def)
  moreover have "canonical_positive generation"
    using assms(3) by (elim insertE emptyE; simp only:; code_simp)
  ultimately show ?thesis
    using assms(2)
    by (auto simp: validate_manifest_payload_def sample_manifest_def dict_eval MANIFEST_FIELDS_def sample_time_def
        key_identity_def sample_record_def)
qed

lemma sample_manifest_safe: "jcs_safe (PDict (sample_manifest g (PStr s) state))" "jcs_safe (PDict (sample_manifest g PNone state))"
  by (simp_all add: sample_manifest_def sample_key_def MAX_SAFE_INTEGER_def)

lemma sample_digest: "jcs_safe v \<Longrightarrow> manifest_digest (\<lambda>_. sample_hash) v = Inr sample_hash"
proof -
  have "KEY_MANIFEST_DOMAIN \<noteq> [] \<and> \<not> List.member KEY_MANIFEST_DOMAIN (CHR 0x00)
      \<and> list_all (\<lambda>c. code c < 128) KEY_MANIFEST_DOMAIN" by code_simp
  then show "jcs_safe v \<Longrightarrow> ?thesis"
    by (simp add: manifest_digest_def payload_digest_def domain_separated_payload_def canonicalize_jcs_def)
qed

lemma sample_issued [simp]: "parse_utc sample_time (pget (sample_manifest g previous state) ''issued_at'') f = Inr 5"
proof -
  have "digits_value (takeWhile is_digit ''5+00:00'') = 5" by code_simp
  then show ?thesis by (simp add: sample_manifest_def sample_time_def pget_def del: digits_value.simps)
qed

lemma sample_chain_authenticates:
  assumes "state \<in> {''active'', ''retiring'', ''revoked''}"
  shows "authenticate_manifest_chain (\<lambda>_. sample_hash) sample_prims sample_time (sample_envelopes state)
    (Ed25519Key der) sample_hash None None = Inr (sample_chain state)"
proof -
  have first: "authenticate_envelope (\<lambda>_. sample_hash) sample_prims sample_time der sample_hash None
      (sample_envelopes state ! 0) = Inr (sample_chain state ! 0)"
    by (simp add: authenticate_envelope_def sample_envelopes_def dict_eval sample_verifies sample_manifest_safe
        sample_manifest_valid sample_digest sample_chain_def sample_authenticated_def del: jcs_safe.simps)
      (simp add: sample_manifest_def pget_def code_def)
  have "validate_key_transition [((''k'', 1), sample_record ''active'')] [((''k'', 1), sample_record state)] = Inr ()"
    using assms by (auto simp: validate_key_transition_def sample_record_def)
  then have "authenticate_envelope (\<lambda>_. sample_hash) sample_prims sample_time der sample_hash (Some (sample_chain state ! 0))
      (sample_envelopes state ! 1) = Inr (sample_chain state ! 1)"
    using assms
    by (simp add: authenticate_envelope_def sample_envelopes_def dict_eval sample_verifies sample_manifest_safe
        sample_manifest_valid sample_digest sample_chain_def sample_authenticated_def del: jcs_safe.simps)
      (simp add: sample_manifest_def sample_time_def pget_def code_def)
  with first show ?thesis
    by (simp add: authenticate_manifest_chain_def sample_envelopes_def sample_chain_def spki_fingerprint_def)
qed

section \<open>Properties\<close>

text \<open>A detached signature text decodes to 64 raw bytes exactly when it is the canonical unpadded base64url
  encoding of those bytes: no other text is accepted for a signature, and every encoded signature is.\<close>

theorem signature_text_roundtrip: "decode_base64url_raw64 (PStr s) = Inr raw \<longleftrightarrow> encode_base64url_raw64 raw = Inr s"
  using encode_decode_raw64 decode_encode_raw64 by blast

text \<open>C10. In an authenticated manifest chain generations count up from 1 without a gap, and a key version present
  in one manifest is present in every later one with the same algorithm and fingerprint and a state that has only
  moved from active over retiring to revoked.\<close>

theorem manifest_chain_monotone:
  assumes "authenticate_manifest_chain H prims fromiso envelopes root fingerprint minimum_generation minimum_digest = Inr ms"
    and "i \<le> j" and "j < length ms" and "map_of (am_keys (ms ! i)) identity = Some k"
  shows "am_generation (ms ! j) = int j + 1
    \<and> (\<exists>k'. map_of (am_keys (ms ! j)) identity = Some k' \<and> key_advanced k k')"
  using chain_ok [OF assms(1)] chain_generation chain_advances assms(2-4) by blast

theorem manifest_chain_monotone_witness:
  "\<exists>k'. map_of (am_keys (sample_chain ''revoked'' ! 1)) (''k'', 1) = Some k' \<and> key_advanced (sample_record ''active'') k'"
  using manifest_chain_monotone [OF sample_chain_authenticates [of "''revoked''" "''der''"], of 0 1 "(''k'', 1)" "sample_record ''active''"]
  by (simp add: sample_chain_def sample_authenticated_def)

end
