(* ===== verification/Pilot_Checks.thy ===== *)
theory Pilot_Checks
  imports Worker_Errors Py_Effects Canonical_Json Attestation
begin

text \<open>
  \<open>pilot_checks.py\<close>: the verdict per phase that a job log supports, the Check Runs client of the gate
  App, and the publisher that owns the Check Runs of one assignment. The HTTP transport, the clock
  and the signer act on a state of the caller; a response body is what \<open>json.loads\<close> makes of it.
  Bytes are characters.
\<close>

section \<open>Evidence in the job log\<close>

definition PROFILE_PHASES :: "string list" where
  "PROFILE_PHASES = [''backend'', ''frontend'', ''e2e'']"

definition PHASE_CHECK_NAMES :: "(string \<times> string) list" where
  "PHASE_CHECK_NAMES = [(''backend'', ''backend lint + test''), (''frontend'', ''frontend lint + test'')]"

definition MAX_LOG_BYTES :: nat where
  "MAX_LOG_BYTES = 64 * 1024 * 1024"

text \<open>\<open>{"phase":"([a-z0-9-]{1,32})","memory_peak_bytes":\<close>; the name ends at the first quote.\<close>

definition MARK_OPEN :: string where
  "MARK_OPEN = CHR 0x7B # CHR 0x22 # ''phase'' @ [CHR 0x22, CHR '':'', CHR 0x22]"

definition MARK_CLOSE :: string where
  "MARK_CLOSE = CHR 0x22 # CHR '','' # CHR 0x22 # ''memory_peak_bytes'' @ [CHR 0x22, CHR '':'']"

definition is_phase_char :: "char \<Rightarrow> bool" where
  "is_phase_char c = ((97 \<le> code c \<and> code c \<le> 122) \<or> is_digit c \<or> c = CHR ''-'')"

definition starts_with :: "string \<Rightarrow> string \<Rightarrow> bool" where
  "starts_with p s = (take (length p) s = p)"

definition phase_line :: "string \<Rightarrow> (string \<times> string) option" where
  "phase_line s =
     (let r = drop (length MARK_OPEN) s; name = takeWhile is_phase_char r; rest = drop (length name) r
      in if starts_with MARK_OPEN s \<and> 1 \<le> length name \<and> length name \<le> 32 \<and> starts_with MARK_CLOSE rest
         then Some (name, drop (length MARK_CLOSE) rest) else None)"

text \<open>\<open>finditer\<close>: the search goes on behind a match.\<close>

function phase_lines :: "string \<Rightarrow> string list" where
  "phase_lines s =
     (case s of
        [] \<Rightarrow> []
      | c # cs \<Rightarrow> (case phase_line s of None \<Rightarrow> phase_lines cs | Some (name, rest) \<Rightarrow> name # phase_lines rest))"
  by pat_completeness auto
termination
proof (relation "measure length")
  fix s c cs a name rest
  assume "s = c # cs" "phase_line s = Some a" "(name, rest) = a"
  then show "(rest, s) \<in> measure length"
    by (auto simp: phase_line_def Let_def split: if_splits)
qed auto

declare phase_lines.simps [simp del]

definition note_phase :: "string \<Rightarrow> string list \<Rightarrow> string list" where
  "note_phase p observed = (if List.member PROFILE_PHASES p \<and> \<not> List.member observed p then observed @ [p] else observed)"

datatype log_chunk = Chunk string | NotBytes

text \<open>The chunks a log yields, and what it raises instead of ending.\<close>

type_synonym job_log = "log_chunk list \<times> wk_exc option"

fun scan_chunks :: "log_chunk list \<Rightarrow> string \<Rightarrow> nat \<Rightarrow> string list \<Rightarrow> wk_exc + string list" where
  "scan_chunks [] tail size_read observed = Inr observed"
| "scan_chunks (NotBytes # rest) tail size_read observed = Inl GateCheckError"
| "scan_chunks (Chunk c # rest) tail size_read observed =
     (if MAX_LOG_BYTES < size_read + length c then Inl GateCheckError
      else let buffer = tail @ c
           in scan_chunks rest (drop (length buffer - 64) buffer) (size_read + length c)
                (fold note_phase (phase_lines buffer) observed))"

definition parse_phase_evidence :: "job_log \<Rightarrow> wk_exc + string list" where
  "parse_phase_evidence log =
     bindE (scan_chunks (fst log) [] 0 []) (\<lambda>observed.
       case snd log of None \<Rightarrow> Inr observed | Some e \<Rightarrow> Inl e)"

section \<open>Verdicts\<close>

record PhaseVerdict =
  conclusion_of :: string
  title_of :: string
  summary_of :: string

definition verdict_of :: "string \<Rightarrow> string \<Rightarrow> string \<Rightarrow> PhaseVerdict" where
  "verdict_of c title summary = \<lparr>conclusion_of = c, title_of = title, summary_of = summary\<rparr>"

definition phase_passed :: "string \<Rightarrow> string list \<Rightarrow> string list \<Rightarrow> bool" where
  "phase_passed job_conclusion observed later =
     (job_conclusion = ''success'' \<or> (case later of [] \<Rightarrow> False | q # _ \<Rightarrow> List.member observed q))"

definition phase_verdict :: "string \<Rightarrow> bool \<Rightarrow> bool \<Rightarrow> string \<Rightarrow> string \<Rightarrow> PhaseVerdict" where
  "phase_verdict job_conclusion passed failed_before details_url p =
     (if passed then
        verdict_of ''success'' (p @ '' passed on the local runner'')
          (''The `'' @ p @ ''` phase of the reviewed Overworld CI profile completed on the self-hosted Windows runner. Full job log: '' @ details_url)
      else if failed_before then
        verdict_of ''skipped'' (p @ '' never ran'')
          (''An earlier phase of the local run failed, so this phase was never reached. Full job log: '' @ details_url)
      else if List.member [''cancelled'', ''cancel''] job_conclusion then
        verdict_of ''cancelled'' (p @ '' was cancelled'')
          (''The local run was cancelled during the `'' @ p @ ''` phase. Full job log: '' @ details_url)
      else if List.member [''timed_out'', ''timeout''] job_conclusion then
        verdict_of ''timed_out'' (p @ '' timed out'')
          (''The local run hit its time limit during the `'' @ p @ ''` phase. Full job log: '' @ details_url)
      else
        verdict_of ''failure'' (p @ '' failed on the local runner'')
          (''The `'' @ p @ ''` phase of the reviewed Overworld CI profile failed on the self-hosted Windows runner. Full job log: '' @ details_url))"

fun verdict_loop ::
    "string \<Rightarrow> string list \<Rightarrow> string \<Rightarrow> bool \<Rightarrow> string list \<Rightarrow> (string \<times> PhaseVerdict) list" where
  "verdict_loop job_conclusion observed details_url failed_before [] = []"
| "verdict_loop job_conclusion observed details_url failed_before (p # later) =
     (let passed = phase_passed job_conclusion observed later;
          rest = verdict_loop job_conclusion observed details_url (failed_before \<or> \<not> passed) later
      in if map_of PHASE_CHECK_NAMES p = None then rest
         else (p, phase_verdict job_conclusion passed failed_before details_url p) # rest)"

definition phase_verdicts ::
    "string \<Rightarrow> string list \<Rightarrow> string list \<Rightarrow> string \<Rightarrow> wk_exc + (string \<times> PhaseVerdict) list" where
  "phase_verdicts job_conclusion observed phases details_url =
     (if phases \<noteq> PROFILE_PHASES then Inl GateCheckError
      else if \<not> list_all (List.member phases) observed then Inl GateCheckError
      else Inr (verdict_loop job_conclusion observed details_url False phases))"

definition abandoned_verdicts :: "string \<Rightarrow> string \<Rightarrow> (string \<times> PhaseVerdict) list" where
  "abandoned_verdicts reason details_url =
     map (\<lambda>(p, _). (p, verdict_of ''stale'' (p @ '' result was lost'')
       (''The self-hosted Windows runner stopped owning this run before it could report a result ('' @ reason
        @ ''). Nothing was proven about this phase; dispatch the pull request again. Job log, if any: '' @ details_url)))
       PHASE_CHECK_NAMES"

definition superseded_verdicts :: "string \<Rightarrow> string \<Rightarrow> (string \<times> PhaseVerdict) list" where
  "superseded_verdicts reason details_url =
     map (\<lambda>(p, _). (p, verdict_of ''skipped'' (p @ '' was skipped because this run was superseded'')
       (''This local run was discarded without executing stale code: '' @ reason @ ''. Run details: '' @ details_url)))
       PHASE_CHECK_NAMES"

section \<open>The gate client\<close>

definition gate_permissions :: pyval where
  "gate_permissions = PDict [(''checks'', PStr ''write''), (''metadata'', PStr ''read'')]"

record gate_authority =
  ga_app_id :: pyval
  ga_app_slug :: string
  ga_installation_id :: pyval
  ga_repository :: string
  ga_repository_id :: pyval
  ga_selection :: string
  ga_permissions :: pydict

definition positive_id :: "pyval \<Rightarrow> bool" where
  "positive_id v = (case v of PInt n \<Rightarrow> 1 \<le> n | _ \<Rightarrow> False)"

definition slash_name :: "string \<Rightarrow> bool" where
  "slash_name s =
     (List.member s (CHR ''/'') \<and> before_slash s \<noteq> [] \<and> after_slash s \<noteq> [] \<and> list_all is_name_char (before_slash s)
      \<and> list_all is_name_char (after_slash s))"

definition GateAppAuthorityV1 :: "gate_authority \<Rightarrow> wk_exc + gate_authority" where
  "GateAppAuthorityV1 a =
     bindE (requireE (list_all positive_id [ga_app_id a, ga_installation_id a, ga_repository_id a]) GateCheckError) (\<lambda>_.
     bindE (requireE (slash_name (ga_repository a)) GateCheckError) (\<lambda>_.
     bindE (requireE (ga_selection a = ''selected'') GateCheckError) (\<lambda>_.
     bindE (requireE (py_eq (PDict (ga_permissions a)) gate_permissions) GateCheckError) (\<lambda>_.
     bindE (requireE (ga_app_slug a \<noteq> [] \<and> list_all (\<lambda>c. is_alnum c \<or> c = CHR ''-'') (ga_app_slug a)) GateCheckError) (\<lambda>_.
     Inr a)))))"

text \<open>A response: its status, and its body as \<open>json.loads\<close> reads it.\<close>

datatype http_body = EmptyBody | TooLong | NotJson | Json pyval

record http_response =
  hr_status :: int
  hr_body :: http_body

record gate_token =
  gt_value :: string
  gt_expires :: instant

text \<open>
  The transport answers a method, an URL, the bearer of the headers and a body; the signer signs
  bytes.
\<close>

record 's gate_client =
  gc_authority :: gate_authority
  gc_clock :: "'s \<Rightarrow> pydatetime \<times> 's"
  gc_sign :: "string \<Rightarrow> string"
  gc_http :: "string \<Rightarrow> string \<Rightarrow> string \<Rightarrow> pyval \<Rightarrow> 's \<Rightarrow> (wk_exc + http_response) \<times> 's"
  gc_iso :: "string \<Rightarrow> pydatetime option"
  gc_digest :: "string \<Rightarrow> string"

type_synonym ('s, 'a) gio = "('s, wk_exc, 'a) io"

definition clockG :: "'s gate_client \<Rightarrow> ('s, pydatetime) gio" where
  "clockG g = (\<lambda>s. case gc_clock g s of (t, s1) \<Rightarrow> (Inr t, s1))"

definition liftG :: "wk_exc + 'a \<Rightarrow> ('s, 'a) gio" where
  "liftG = pure_io"

definition API_ROOT :: string where
  "API_ROOT = ''https://api.github.com''"

definition gate_json :: "http_response \<Rightarrow> int \<Rightarrow> wk_exc + pydict" where
  "gate_json r status =
     (if hr_status r \<noteq> status then Inl GateCheckError
      else case hr_body r of Json (PDict d) \<Rightarrow> Inr d | _ \<Rightarrow> Inl GateCheckError)"

definition gate_request :: "'s gate_client \<Rightarrow> string \<Rightarrow> string \<Rightarrow> string \<Rightarrow> pyval \<Rightarrow> ('s, http_response) gio" where
  "gate_request g method path bearer body =
     (if \<not> starts_with ''/'' path \<or> starts_with ''//'' path \<or> List.member path (CHR ''#'') then throw GateCheckError
      else gc_http g method (API_ROOT @ path) bearer body)"

definition b64url :: "string \<Rightarrow> string" where
  "b64url s =
     map (\<lambda>c. if c = CHR ''+'' then CHR ''-'' else if c = CHR ''/'' then CHR ''_'' else c)
       (rev (dropWhile (\<lambda>c. c = CHR ''='') (rev (b64_encode s))))"

text \<open>\<open>int(now.timestamp())\<close> truncates towards zero.\<close>

definition unix_seconds :: "instant \<Rightarrow> int" where
  "unix_seconds t = (if 0 \<le> t then t div 1000000 else - (- t div 1000000))"

definition app_jwt :: "pyval \<Rightarrow> (string \<Rightarrow> string) \<Rightarrow> instant \<Rightarrow> string" where
  "app_jwt app_id sign now =
     (let header = b64url (json_text (PDict [(''alg'', PStr ''RS256''), (''typ'', PStr ''JWT'')]));
          payload = b64url (json_text (PDict [(''exp'', PInt (unix_seconds now + 540)), (''iat'', PInt (unix_seconds now - 60)),
            (''iss'', PStr (fmt app_id))]));
          signing_input = header @ ''.'' @ payload
      in signing_input @ ''.'' @ b64url (sign signing_input))"

definition authenticate :: "'s gate_client \<Rightarrow> ('s, gate_token) gio" where
  "authenticate g =
     bindI (clockG g) (\<lambda>clock.
     case clock of
       Naive _ \<Rightarrow> throw GateCheckError
     | Aware now \<Rightarrow>
         let a = gc_authority g; bearer = app_jwt (ga_app_id a) (gc_sign g) now
         in bindI (gate_request g ''GET'' ''/app'' bearer PNone) (\<lambda>r.
            bindI (liftG (gate_json r 200)) (\<lambda>app.
            bindI (requireI (py_eq (pget app ''id'') (ga_app_id a) \<and> py_eq (pget app ''slug'') (PStr (ga_app_slug a)))
              GateCheckError) (\<lambda>_.
            bindI (gate_request g ''GET'' (''/repos/'' @ ga_repository a @ ''/installation'') bearer PNone) (\<lambda>r.
            bindI (liftG (gate_json r 200)) (\<lambda>installation.
            bindI (requireI (py_eq (pget installation ''id'') (ga_installation_id a)
                \<and> py_eq (pget installation ''app_id'') (ga_app_id a)
                \<and> py_eq (pget installation ''repository_selection'') (PStr ''selected'')
                \<and> py_eq (pget installation ''permissions'') gate_permissions) GateCheckError) (\<lambda>_.
            bindI (gate_request g ''POST'' (''/app/installations/'' @ fmt (ga_installation_id a) @ ''/access_tokens'') bearer
              (PDict [(''repository_ids'', PList [ga_repository_id a]), (''permissions'', gate_permissions)])) (\<lambda>r.
            bindI (liftG (gate_json r 201)) (\<lambda>token.
            case (pget token ''token'', pget token ''expires_at'') of
              (PStr v, PStr expires) \<Rightarrow>
                if v = [] then throw GateCheckError
                else (case gc_iso g (concat (map (\<lambda>c. if c = CHR ''Z'' then ''+00:00'' else [c]) expires)) of
                    Some (Aware t) \<Rightarrow> if t \<le> now then throw GateCheckError else ret \<lparr>gt_value = v, gt_expires = t\<rparr>
                  | _ \<Rightarrow> throw GateCheckError)
            | _ \<Rightarrow> throw GateCheckError)))))))))"

text \<open>A naive clock compared with the expiry of a token is a \<open>TypeError\<close>.\<close>

definition token_json ::
    "'s gate_client \<Rightarrow> string \<Rightarrow> string \<Rightarrow> gate_token \<Rightarrow> int \<Rightarrow> pyval \<Rightarrow> ('s, pydict) gio" where
  "token_json g method path token status body =
     bindI (clockG g) (\<lambda>clock.
     case clock of
       Naive _ \<Rightarrow> throw PyTypeError
     | Aware now \<Rightarrow>
         if gt_expires token \<le> now then throw GateCheckError
         else
           bindI (gate_request g method (''/repos/'' @ ga_repository (gc_authority g) @ path) (gt_value token) body) (\<lambda>r.
           liftG (gate_json r status)))"

definition published_name :: "string \<Rightarrow> bool" where
  "published_name n = List.member (map snd PHASE_CHECK_NAMES) n"

definition external_text :: "string \<Rightarrow> bool" where
  "external_text s =
     (starts_with ''self-hosted-ci-discard:'' s \<and> sha256hex (drop (length ''self-hosted-ci-discard:'') s))"

definition discard_external_id :: "(string \<Rightarrow> string) \<Rightarrow> string \<Rightarrow> string \<Rightarrow> string" where
  "discard_external_id digest scope name = ''self-hosted-ci-discard:'' @ digest (scope @ CHR 0x00 # name)"

text \<open>\<open>isoformat\<close> of a UTC instant, microseconds included when there are any.\<close>

definition micro_stamp :: "pydatetime \<Rightarrow> wk_exc + string" where
  "micro_stamp clock =
     (case clock of
        Naive _ \<Rightarrow> Inl GateCheckError
      | Aware t \<Rightarrow>
          Inr (date_time_text t @ (if t mod 1000000 = 0 then [] else CHR ''.'' # pad 6 (t mod 1000000)) @ ''Z''))"

text \<open>The body of a creation; \<open>head_sha\<close> comes from the validated package or from the request.\<close>

definition creation_body ::
    "string \<Rightarrow> pyval \<Rightarrow> string \<Rightarrow> string \<Rightarrow> string \<Rightarrow> string option \<Rightarrow> pyval" where
  "creation_body name head_sha details_url started_at summary external_id =
     PDict ([(''name'', PStr name), (''head_sha'', head_sha), (''status'', PStr ''in_progress''),
       (''details_url'', PStr details_url), (''started_at'', PStr started_at),
       (''output'', PDict [(''title'', PStr (name @ '' is running on the local runner'')), (''summary'', PStr summary)])]
       @ (case external_id of None \<Rightarrow> [] | Some x \<Rightarrow> [(''external_id'', PStr x)]))"

definition create_in_progress ::
    "'s gate_client \<Rightarrow> string \<Rightarrow> pyval \<Rightarrow> string \<Rightarrow> string \<Rightarrow> gate_token \<Rightarrow> string option \<Rightarrow> ('s, int) gio" where
  "create_in_progress g name head_sha details_url summary token external_id =
     bindI (requireI (published_name name) GateCheckError) (\<lambda>_.
     bindI (requireI (str_matches sha40 head_sha) GateCheckError) (\<lambda>_.
     bindI (clockG g) (\<lambda>clock.
     bindI (liftG (micro_stamp clock)) (\<lambda>started_at.
     bindI (requireI (case external_id of None \<Rightarrow> True | Some x \<Rightarrow> external_text x) GateCheckError) (\<lambda>_.
     bindI (token_json g ''POST'' ''/check-runs'' token 201
       (creation_body name head_sha details_url started_at summary external_id)) (\<lambda>v.
     case pget v ''id'' of
       PInt i \<Rightarrow>
         if i < 1 \<or> \<not> py_eq (pget v ''head_sha'') head_sha \<or> \<not> py_eq (pget v ''name'') (PStr name)
         then throw GateCheckError else ret i
     | _ \<Rightarrow> throw GateCheckError))))))"

text \<open>\<open>urllib.parse.quote\<close> on ASCII text.\<close>

definition upper_hex :: "nat \<Rightarrow> char" where
  "upper_hex n = (if n < 10 then char_of (48 + n) else char_of (55 + n))"

definition quote_char :: "char \<Rightarrow> string" where
  "quote_char c =
     (if is_name_char c \<or> c = CHR ''~'' \<or> c = CHR ''/'' then [c]
      else [CHR ''%'', upper_hex (code c div 16), upper_hex (code c mod 16)])"

definition own_row :: "'s gate_client \<Rightarrow> string \<Rightarrow> pyval \<Rightarrow> string \<Rightarrow> pydict \<Rightarrow> bool" where
  "own_row g name head_sha external_id row =
     (py_eq (pget row ''name'') (PStr name) \<and> py_eq (pget row ''head_sha'') head_sha
      \<and> py_eq (pget row ''external_id'') (PStr external_id)
      \<and> (case pget row ''app'' of PDict app \<Rightarrow> py_eq (pget app ''id'') (ga_app_id (gc_authority g)) | _ \<Rightarrow> False))"

fun own_matches :: "'s gate_client \<Rightarrow> string \<Rightarrow> pyval \<Rightarrow> string \<Rightarrow> pyval list \<Rightarrow> wk_exc + int list" where
  "own_matches g name head_sha external_id [] = Inr []"
| "own_matches g name head_sha external_id (v # rest) =
     (case v of
        PDict row \<Rightarrow>
          if own_row g name head_sha external_id row then
            (case pget row ''id'' of
               PInt i \<Rightarrow> if i < 1 then Inl GateCheckError
                 else bindE (own_matches g name head_sha external_id rest) (\<lambda>is. Inr (i # is))
             | _ \<Rightarrow> Inl GateCheckError)
          else own_matches g name head_sha external_id rest
      | _ \<Rightarrow> own_matches g name head_sha external_id rest)"

definition find_by_external_id ::
    "'s gate_client \<Rightarrow> string \<Rightarrow> pyval \<Rightarrow> string \<Rightarrow> gate_token \<Rightarrow> ('s, int option) gio" where
  "find_by_external_id g name head_sha external_id token =
     bindI (requireI (published_name name) GateCheckError) (\<lambda>_.
     bindI (requireI (str_matches sha40 head_sha) GateCheckError) (\<lambda>_.
     bindI (requireI (external_text external_id) GateCheckError) (\<lambda>_.
     bindI (token_json g ''GET''
       (''/commits/'' @ fmt head_sha @ ''/check-runs?check_name='' @ concat (map quote_char name) @ ''&filter=all&per_page=100'')
       token 200 PNone) (\<lambda>v.
     case pget v ''check_runs'' of
       PList rows \<Rightarrow>
         bindI (liftG (own_matches g name head_sha external_id rows)) (\<lambda>matches.
         if 1 < length matches then throw GateCheckError
         else ret (case matches of [] \<Rightarrow> None | i # _ \<Rightarrow> Some i))
     | _ \<Rightarrow> throw GateCheckError))))"

definition TERMINAL :: "string list" where
  "TERMINAL = [''success'', ''failure'', ''cancelled'', ''timed_out'', ''stale'', ''skipped'']"

definition conclusion_body :: "PhaseVerdict \<Rightarrow> string \<Rightarrow> string \<Rightarrow> pyval" where
  "conclusion_body v completed_at details_url =
     PDict [(''status'', PStr ''completed''), (''conclusion'', PStr (conclusion_of v)), (''completed_at'', PStr completed_at),
       (''details_url'', PStr details_url),
       (''output'', PDict [(''title'', PStr (title_of v)), (''summary'', PStr (summary_of v))])]"

definition conclude_check ::
    "'s gate_client \<Rightarrow> pyval \<Rightarrow> PhaseVerdict \<Rightarrow> string \<Rightarrow> gate_token \<Rightarrow> ('s, unit) gio" where
  "conclude_check g check_run_id v details_url token =
     bindI (requireI (List.member TERMINAL (conclusion_of v)) GateCheckError) (\<lambda>_.
     bindI (requireI (positive_id check_run_id) GateCheckError) (\<lambda>_.
     bindI (clockG g) (\<lambda>clock.
     bindI (liftG (micro_stamp clock)) (\<lambda>completed_at.
     bindI (token_json g ''PATCH'' (''/check-runs/'' @ fmt check_run_id) token 200
       (conclusion_body v completed_at details_url)) (\<lambda>answer.
     requireI (py_eq (pget answer ''id'') check_run_id \<and> py_eq (pget answer ''conclusion'') (PStr (conclusion_of v)))
       GateCheckError)))))"

section \<open>The publisher\<close>

record 's publisher =
  pu_client :: "'s gate_client"
  pu_job_log :: "int \<Rightarrow> 's \<Rightarrow> (wk_exc + job_log) \<times> 's"

definition start_summary :: "string \<Rightarrow> pyval \<Rightarrow> string" where
  "start_summary p head_sha =
     ''The `'' @ p @ ''` phase of the reviewed Overworld CI profile is running on the self-hosted Windows runner, against the exact merge of this pull request head (''
       @ take 8 (fmt head_sha) @ '').''"

fun start_each :: "'s publisher \<Rightarrow> pyval \<Rightarrow> string \<Rightarrow> gate_token \<Rightarrow> (string \<times> string) list \<Rightarrow> ('s, pydict) gio" where
  "start_each p head_sha details_url token [] = ret []"
| "start_each p head_sha details_url token ((ph, name) # rest) =
     bindI (create_in_progress (pu_client p) name head_sha details_url (start_summary ph head_sha) token None) (\<lambda>i.
     bindI (start_each p head_sha details_url token rest) (\<lambda>opened. ret ((name, PInt i) # opened)))"

definition start_checks :: "'s publisher \<Rightarrow> pyval \<Rightarrow> string \<Rightarrow> ('s, pydict) gio" where
  "start_checks p head_sha details_url =
     bindI (authenticate (pu_client p)) (\<lambda>token. start_each p head_sha details_url token PHASE_CHECK_NAMES)"

fun apply_each ::
    "'s publisher \<Rightarrow> pydict \<Rightarrow> (string \<times> PhaseVerdict) list \<Rightarrow> string \<Rightarrow> gate_token \<Rightarrow> (string \<times> string) list
     \<Rightarrow> ('s, pydict) gio" where
  "apply_each p checks verdicts details_url token [] = ret []"
| "apply_each p checks verdicts details_url token ((ph, name) # rest) =
     (case (pget checks name, map_of verdicts ph) of
        (PNone, _) \<Rightarrow> apply_each p checks verdicts details_url token rest
      | (_, None) \<Rightarrow> apply_each p checks verdicts details_url token rest
      | (i, Some v) \<Rightarrow>
          bindI (conclude_check (pu_client p) i v details_url token) (\<lambda>_.
          bindI (apply_each p checks verdicts details_url token rest) (\<lambda>applied.
          ret ((name, PStr (conclusion_of v)) # applied))))"

definition apply_verdicts ::
    "'s publisher \<Rightarrow> pydict \<Rightarrow> (string \<times> PhaseVerdict) list \<Rightarrow> string \<Rightarrow> ('s, pydict) gio" where
  "apply_verdicts p checks verdicts details_url =
     bindI (authenticate (pu_client p)) (\<lambda>token. apply_each p checks verdicts details_url token PHASE_CHECK_NAMES)"

definition gate_or_os :: "wk_exc \<Rightarrow> bool" where
  "gate_or_os e = (isa e ''GateCheckError'' \<or> isa e ''OSError'')"

definition conclude_checks ::
    "'s publisher \<Rightarrow> pydict \<Rightarrow> int \<Rightarrow> string \<Rightarrow> string \<Rightarrow> ('s, pydict) gio" where
  "conclude_checks p checks job_id job_conclusion details_url =
     bindI (tryI
       (bindI (pu_job_log p job_id) (\<lambda>log.
        bindI (liftG (parse_phase_evidence log)) (\<lambda>observed.
        liftG (phase_verdicts job_conclusion observed PROFILE_PHASES details_url))))
       (\<lambda>e. if gate_or_os e
          then ret (abandoned_verdicts (''the job log could not be read ('' @ type_name e @ '')'') details_url)
          else throw e)) (\<lambda>verdicts.
     apply_verdicts p checks verdicts details_url)"

definition abandon_checks :: "'s publisher \<Rightarrow> pydict \<Rightarrow> string \<Rightarrow> string \<Rightarrow> ('s, pydict) gio" where
  "abandon_checks p checks reason details_url =
     apply_verdicts p checks (abandoned_verdicts reason details_url) details_url"

fun discard_each ::
    "'s publisher \<Rightarrow> pydict \<Rightarrow> (string \<times> PhaseVerdict) list \<Rightarrow> string \<Rightarrow> gate_token \<Rightarrow> (string \<times> string) list
     \<Rightarrow> ('s, pydict) gio" where
  "discard_each p checks verdicts details_url token [] = ret []"
| "discard_each p checks verdicts details_url token ((ph, name) # rest) =
     (case (pget checks name, map_of verdicts ph) of
        (PInt i, Some v) \<Rightarrow>
          bindI (conclude_check (pu_client p) (PInt i) v details_url token) (\<lambda>_.
          bindI (discard_each p checks verdicts details_url token rest) (\<lambda>applied.
          ret ((name, PStr (conclusion_of v)) # applied)))
      | (PInt i, None) \<Rightarrow> throw PyKeyError
      | _ \<Rightarrow> throw GateCheckError)"

definition discard_checks :: "'s publisher \<Rightarrow> pydict \<Rightarrow> string \<Rightarrow> string \<Rightarrow> ('s, pydict) gio" where
  "discard_checks p checks reason details_url =
     bindI (authenticate (pu_client p)) (\<lambda>token.
     discard_each p checks (superseded_verdicts reason details_url) details_url token PHASE_CHECK_NAMES)"

text \<open>What the caller of \<open>publish_discarded\<close> is told on the way.\<close>

record 's recorders =
  rc_pending :: "string \<Rightarrow> ('s, unit) gio"
  rc_created :: "string \<Rightarrow> int \<Rightarrow> ('s, unit) gio"
  rc_completed :: "string \<Rightarrow> ('s, unit) gio"

definition discard_identity_of ::
    "'s publisher \<Rightarrow> 's recorders \<Rightarrow> pyval \<Rightarrow> string \<Rightarrow> string \<Rightarrow> gate_token \<Rightarrow> string \<Rightarrow> string \<Rightarrow> ('s, int) gio" where
  "discard_identity_of p rc head_sha details_url scope token ph name =
     bindI (rc_pending rc name) (\<lambda>_.
     let external_id = discard_external_id (gc_digest (pu_client p)) scope name
     in bindI (find_by_external_id (pu_client p) name head_sha external_id token) (\<lambda>found.
        bindI (case found of
            Some i \<Rightarrow> ret i
          | None \<Rightarrow> create_in_progress (pu_client p) name head_sha details_url
              (''The `'' @ ph @ ''` phase was discarded before allocation.'') token (Some external_id)) (\<lambda>i.
        bindI (rc_created rc name i) (\<lambda>_. ret i))))"

fun publish_each ::
    "'s publisher \<Rightarrow> 's recorders \<Rightarrow> pyval \<Rightarrow> string \<Rightarrow> string \<Rightarrow> gate_token \<Rightarrow> (string \<times> PhaseVerdict) list
     \<Rightarrow> pydict \<Rightarrow> string list \<Rightarrow> (string \<times> string) list \<Rightarrow> ('s, unit) gio" where
  "publish_each p rc head_sha details_url scope token verdicts known completed [] = ret ()"
| "publish_each p rc head_sha details_url scope token verdicts known completed ((ph, name) # rest) =
     (if List.member completed name then publish_each p rc head_sha details_url scope token verdicts known completed rest
      else
        bindI (case pget known name of
            PNone \<Rightarrow> bindI (discard_identity_of p rc head_sha details_url scope token ph name) (\<lambda>i. ret (PInt i))
          | i \<Rightarrow> ret i) (\<lambda>i.
        bindI (case map_of verdicts ph of
            None \<Rightarrow> throw PyKeyError
          | Some v \<Rightarrow> conclude_check (pu_client p) i v details_url token) (\<lambda>_.
        bindI (rc_completed rc name) (\<lambda>_.
        publish_each p rc head_sha details_url scope token verdicts known completed rest))))"

definition publish_discarded ::
    "'s publisher \<Rightarrow> 's recorders \<Rightarrow> pyval \<Rightarrow> string \<Rightarrow> string \<Rightarrow> string \<Rightarrow> pydict \<Rightarrow> string list \<Rightarrow> ('s, unit) gio" where
  "publish_discarded p rc head_sha reason details_url scope checks completed =
     bindI (authenticate (pu_client p)) (\<lambda>token.
     bindI (requireI (scope \<noteq> [] \<and> length scope \<le> 512) GateCheckError) (\<lambda>_.
     publish_each p rc head_sha details_url scope token (superseded_verdicts reason details_url) checks completed
       PHASE_CHECK_NAMES))"

end
