(* ===== verification/Worker_Authority.thy ===== *)
theory Worker_Authority
  imports Pilot_Checks
begin

text \<open>
  \<open>worker_authority.py\<close>: the GitHub App client of the outbound worker, for one repository and one
  workflow at fixed endpoints. The transport answers the raw status and body; \<open>wc_json\<close> is
  \<open>json.loads\<close> with the hook that refuses duplicate keys, \<open>wc_loads\<close> the plain one. The RS256
  signature is a parameter. The loading of the private key file is not modelled.
\<close>

section \<open>Authority\<close>

abbreviation WorkerTransportError :: wk_exc where
  "WorkerTransportError \<equiv> Exc ''WorkerTransportError'' [''WorkerAuthorityError'', ''RuntimeError'']"

definition WORKER_PERMISSIONS :: pyval where
  "WORKER_PERMISSIONS =
     PDict [(''metadata'', PStr ''read''), (''contents'', PStr ''read''), (''pull_requests'', PStr ''read''),
       (''actions'', PStr ''write''), (''administration'', PStr ''read'')]"

definition MAX_TOKEN_TTL :: int where
  "MAX_TOKEN_TTL = minutes 60"

definition MAX_SERVER_CLOCK_SKEW :: int where
  "MAX_SERVER_CLOCK_SKEW = seconds 60"

definition TOKEN_SAFETY_MARGIN :: int where
  "TOKEN_SAFETY_MARGIN = seconds 30"

record worker_app =
  wa_app_id :: pyval
  wa_app_slug :: string
  wa_installation_id :: pyval
  wa_repository :: string
  wa_repository_id :: pyval
  wa_selection :: string
  wa_default_branch :: string
  wa_workflow_id :: string
  wa_workflow_path :: string
  wa_permissions :: pydict

definition yaml_name :: "string \<Rightarrow> bool" where
  "yaml_name s =
     (list_all is_name_char s
      \<and> list_ex (\<lambda>x. length x < length s \<and> drop (length s - length x) s = x) [''.yml'', ''.yaml''])"

definition WorkerAppAuthorityV1 :: "worker_app \<Rightarrow> wk_exc + worker_app" where
  "WorkerAppAuthorityV1 a =
     bindE (requireE (list_all positive_id [wa_app_id a, wa_installation_id a, wa_repository_id a]) WorkerAuthorityError) (\<lambda>_.
     bindE (requireE (slash_name (wa_repository a)) WorkerAuthorityError) (\<lambda>_.
     bindE (requireE (wa_selection a = ''selected'') WorkerAuthorityError) (\<lambda>_.
     bindE (requireE (py_eq (PDict (wa_permissions a)) WORKER_PERMISSIONS) WorkerAuthorityError) (\<lambda>_.
     bindE (requireE (wa_app_slug a \<noteq> [] \<and> list_all (\<lambda>c. is_alnum c \<or> c = CHR ''-'') (wa_app_slug a)) WorkerAuthorityError) (\<lambda>_.
     bindE (requireE (wa_default_branch a \<noteq> [] \<and> list_all (\<lambda>c. is_name_char c \<or> c = CHR ''/'') (wa_default_branch a)
       \<and> \<not> starts_with ''/'' (wa_default_branch a)) WorkerAuthorityError) (\<lambda>_.
     bindE (requireE (yaml_name (wa_workflow_id a)) WorkerAuthorityError) (\<lambda>_.
     bindE (requireE (wa_workflow_path a = ''.github/workflows/'' @ wa_workflow_id a) WorkerAuthorityError) (\<lambda>_.
     Inr a))))))))"

record worker_token =
  wt_value :: string
  wt_expires :: instant
  wt_authority :: worker_app

definition assert_current :: "worker_token \<Rightarrow> worker_app \<Rightarrow> pydatetime \<Rightarrow> wk_exc + unit" where
  "assert_current token a clock =
     requireE (a = wt_authority token \<and> (case clock of Naive _ \<Rightarrow> False | Aware now \<Rightarrow> now < wt_expires token)) WorkerAuthorityError"

section \<open>Requests\<close>

record wire_response =
  wr_status :: int
  wr_body :: string

datatype json_read = Malformed | Duplicated | Parsed pyval

record 's worker_github =
  wg_authority :: worker_app
  wg_clock :: "'s \<Rightarrow> pydatetime \<times> 's"
  wg_sign :: "string \<Rightarrow> string"
  wg_http :: "string \<Rightarrow> string \<Rightarrow> string \<Rightarrow> pyval \<Rightarrow> 's \<Rightarrow> (wk_exc + wire_response) \<times> 's"
  wg_json :: "string \<Rightarrow> json_read"
  wg_loads :: "string \<Rightarrow> pyval option"
  wg_iso :: "string \<Rightarrow> pydatetime option"

definition clockH :: "'s worker_github \<Rightarrow> ('s, pydatetime) gio" where
  "clockH g = (\<lambda>s. case wg_clock g s of (t, s1) \<Rightarrow> (Inr t, s1))"

definition requestH :: "'s worker_github \<Rightarrow> string \<Rightarrow> string \<Rightarrow> string \<Rightarrow> pyval \<Rightarrow> ('s, wire_response) gio" where
  "requestH g method path bearer body =
     (if \<not> starts_with ''/'' path \<or> starts_with ''//'' path \<or> List.member path (CHR ''#'') then throw WorkerAuthorityError
      else wg_http g method (API_ROOT @ path) bearer body)"

definition response_json :: "'s worker_github \<Rightarrow> wire_response \<Rightarrow> int \<Rightarrow> wk_exc + pydict" where
  "response_json g r expected =
     (if wr_status r = 429 \<or> 500 \<le> wr_status r then Inl WorkerTransportError
      else if wr_status r \<noteq> expected \<or> wr_body r = [] \<or> 1048576 < int (length (wr_body r)) then Inl WorkerAuthorityError
      else case wg_json g (wr_body r) of Parsed (PDict d) \<Rightarrow> Inr d | _ \<Rightarrow> Inl WorkerAuthorityError)"

definition currentH :: "'s worker_github \<Rightarrow> worker_token \<Rightarrow> ('s, unit) gio" where
  "currentH g token = bindI (clockH g) (\<lambda>clock. pure_io (assert_current token (wg_authority g) clock))"

definition jsonH ::
    "'s worker_github \<Rightarrow> string \<Rightarrow> string \<Rightarrow> worker_token \<Rightarrow> int \<Rightarrow> pyval \<Rightarrow> ('s, pydict) gio" where
  "jsonH g method path token status body =
     bindI (currentH g token) (\<lambda>_.
     bindI (requestH g method path (wt_value token) body) (\<lambda>r.
     pure_io (response_json g r status)))"

abbreviation repository_path :: "'s worker_github \<Rightarrow> string \<Rightarrow> string" where
  "repository_path g path \<equiv> ''/repos/'' @ wa_repository (wg_authority g) @ path"

text \<open>\<open>quote(text, safe="")\<close>.\<close>

definition quote_all :: "string \<Rightarrow> string" where
  "quote_all s = concat (map (\<lambda>c. if c = CHR ''/'' then ''%2F'' else quote_char c) s)"

section \<open>Authentication\<close>

definition expiry_of :: "'s worker_github \<Rightarrow> pydict \<Rightarrow> wk_exc + pydatetime" where
  "expiry_of g v =
     (case pget v ''expires_at'' of
        PStr s \<Rightarrow>
          (case wg_iso g (concat (map (\<lambda>c. if c = CHR ''Z'' then ''+00:00'' else [c]) s)) of
             Some t \<Rightarrow> Inr t | None \<Rightarrow> Inl WorkerAuthorityError)
      | _ \<Rightarrow> Inl WorkerAuthorityError)"

definition single_repository :: "pyval \<Rightarrow> pydict option" where
  "single_repository v = (case v of PList [PDict d] \<Rightarrow> Some d | _ \<Rightarrow> None)"

definition parse_token :: "'s worker_github \<Rightarrow> pydict \<Rightarrow> instant \<Rightarrow> wk_exc + worker_token" where
  "parse_token g v now =
     (let a = wg_authority g
      in bindE (expiry_of g v) (\<lambda>expires.
         case (pget v ''token'', single_repository (pget v ''repositories''), expires) of
           (PStr token, Some repository, Aware t) \<Rightarrow>
             if token = [] \<or> list_ex is_space token
                \<or> \<not> py_eq (pget v ''permissions'') WORKER_PERMISSIONS
                \<or> \<not> py_eq (pget repository ''id'') (wa_repository_id a)
                \<or> \<not> py_eq (pget repository ''full_name'') (PStr (wa_repository a))
                \<or> \<not> (now < t \<and> t \<le> now + MAX_TOKEN_TTL + MAX_SERVER_CLOCK_SKEW)
             then Inl WorkerAuthorityError
             else Inr \<lparr>wt_value = token, wt_expires = t - TOKEN_SAFETY_MARGIN, wt_authority = a\<rparr>
         | _ \<Rightarrow> Inl WorkerAuthorityError))"

definition authenticateH :: "'s worker_github \<Rightarrow> ('s, worker_token) gio" where
  "authenticateH g =
     bindI (clockH g) (\<lambda>clock.
     case clock of
       Naive _ \<Rightarrow> throw WorkerAuthorityError
     | Aware now \<Rightarrow>
         let a = wg_authority g; bearer = app_jwt (wa_app_id a) (wg_sign g) now
         in bindI (requestH g ''GET'' ''/app'' bearer PNone) (\<lambda>r.
            bindI (pure_io (response_json g r 200)) (\<lambda>app.
            bindI (requireI (py_eq (pget app ''id'') (wa_app_id a) \<and> py_eq (pget app ''slug'') (PStr (wa_app_slug a)))
              WorkerAuthorityError) (\<lambda>_.
            bindI (requestH g ''GET'' (repository_path g ''/installation'') bearer PNone) (\<lambda>r.
            bindI (pure_io (response_json g r 200)) (\<lambda>installation.
            bindI (requireI (py_eq (pget installation ''id'') (wa_installation_id a)
                \<and> py_eq (pget installation ''app_id'') (wa_app_id a)
                \<and> py_eq (pget installation ''repository_selection'') (PStr ''selected'')
                \<and> py_eq (pget installation ''permissions'') WORKER_PERMISSIONS) WorkerAuthorityError) (\<lambda>_.
            bindI (requestH g ''POST'' (''/app/installations/'' @ fmt (wa_installation_id a) @ ''/access_tokens'') bearer
              (PDict [(''repository_ids'', PList [wa_repository_id a]), (''permissions'', WORKER_PERMISSIONS)])) (\<lambda>r.
            bindI (pure_io (response_json g r 201)) (\<lambda>v.
            pure_io (parse_token g v now))))))))))"

section \<open>Reads of the repository\<close>

definition repositoryH :: "'s worker_github \<Rightarrow> worker_token \<Rightarrow> ('s, pydict) gio" where
  "repositoryH g token =
     bindI (jsonH g ''GET'' (repository_path g []) token 200 PNone) (\<lambda>v.
     bindI (requireI (py_eq (pget v ''id'') (wa_repository_id (wg_authority g))
         \<and> py_eq (pget v ''full_name'') (PStr (wa_repository (wg_authority g)))
         \<and> py_eq (pget v ''default_branch'') (PStr (wa_default_branch (wg_authority g)))) WorkerAuthorityError) (\<lambda>_.
     ret v))"

definition default_branch_head :: "'s worker_github \<Rightarrow> worker_token \<Rightarrow> ('s, string) gio" where
  "default_branch_head g token =
     bindI (jsonH g ''GET'' (repository_path g (''/branches/'' @ quote_all (wa_default_branch (wg_authority g)))) token 200 PNone) (\<lambda>v.
     case pget (dict_of (pget v ''commit'')) ''sha'' of
       PStr sha \<Rightarrow>
         if py_eq (pget v ''name'') (PStr (wa_default_branch (wg_authority g))) \<and> sha40 sha then ret sha
         else throw WorkerAuthorityError
     | _ \<Rightarrow> throw WorkerAuthorityError)"

definition own_repo :: "worker_app \<Rightarrow> pyval \<Rightarrow> bool" where
  "own_repo a side =
     (case pget (dict_of side) ''repo'' of PDict repo \<Rightarrow> py_eq (pget repo ''id'') (wa_repository_id a) | _ \<Rightarrow> False)"

definition head_sha_ok :: "pyval \<Rightarrow> bool" where
  "head_sha_ok head = (is_dict head \<and> sha40 (fmt (pget_or (dict_of head) ''sha'' (PStr []))))"

definition exact_pull_request :: "worker_app \<Rightarrow> pyval \<Rightarrow> pydict \<Rightarrow> wk_exc + bool" where
  "exact_pull_request a number v =
     (if \<not> py_eq (pget v ''number'') number then Inr False
      else bindE (requireE (hashable (pget v ''state'')) PyTypeError) (\<lambda>_.
      Inr (one_of (pget v ''state'') [''open'', ''closed''] \<and> head_sha_ok (pget v ''head'') \<and> is_dict (pget v ''base'')
        \<and> py_eq (pget (dict_of (pget v ''base'')) ''ref'') (PStr (wa_default_branch a)) \<and> own_repo a (pget v ''base''))))"

definition pull_request_snapshot :: "'s worker_github \<Rightarrow> pyval \<Rightarrow> worker_token \<Rightarrow> ('s, pydict) gio" where
  "pull_request_snapshot g number token =
     bindI (requireI (positive_id number) WorkerAuthorityError) (\<lambda>_.
     bindI (jsonH g ''GET'' (repository_path g (''/pulls/'' @ fmt number)) token 200 PNone) (\<lambda>v.
     bindI (pure_io (exact_pull_request (wg_authority g) number v)) (\<lambda>ok.
     bindI (requireI ok WorkerAuthorityError) (\<lambda>_. ret v))))"

definition pull_requestH :: "'s worker_github \<Rightarrow> pyval \<Rightarrow> worker_token \<Rightarrow> ('s, pydict) gio" where
  "pull_requestH g number token =
     bindI (pull_request_snapshot g number token) (\<lambda>v.
     bindI (requireI (py_eq (pget v ''state'') (PStr ''open'')) WorkerAuthorityError) (\<lambda>_. ret v))"

text \<open>The entries of the listing: an inexact one refuses the whole list, a foreign one is left out.\<close>

definition entry_exact :: "pydict \<Rightarrow> bool" where
  "entry_exact e =
     (positive_id (pget e ''number'') \<and> py_eq (pget e ''state'') (PStr ''open'') \<and> head_sha_ok (pget e ''head'')
      \<and> is_dict (pget e ''base''))"

definition entry_own :: "worker_app \<Rightarrow> pydict \<Rightarrow> bool" where
  "entry_own a e =
     (own_repo a (pget e ''head'') \<and> own_repo a (pget e ''base'')
      \<and> py_eq (pget (dict_of (pget e ''base'')) ''ref'') (PStr (wa_default_branch a)))"

fun list_entries :: "worker_app \<Rightarrow> pyval list \<Rightarrow> wk_exc + (pyval \<times> string) list" where
  "list_entries a [] = Inr []"
| "list_entries a (v # vs) =
     (case v of
        PDict e \<Rightarrow>
          if \<not> entry_exact e then Inl WorkerAuthorityError
          else bindE (list_entries a vs) (\<lambda>rest.
            Inr (if entry_own a e then (pget e ''number'', fmt (pget (dict_of (pget e ''head'')) ''sha'')) # rest else rest))
      | _ \<Rightarrow> Inl WorkerAuthorityError)"

definition listing_of :: "'s worker_github \<Rightarrow> wire_response \<Rightarrow> wk_exc + (pyval \<times> string) list" where
  "listing_of g r =
     (if wr_status r \<noteq> 200 \<or> 4194304 < int (length (wr_body r)) then Inl WorkerAuthorityError
      else case wg_loads g (wr_body r) of
        Some (PList entries) \<Rightarrow> list_entries (wg_authority g) entries
      | _ \<Rightarrow> Inl WorkerAuthorityError)"

definition open_pull_requests :: "'s worker_github \<Rightarrow> worker_token \<Rightarrow> pyval \<Rightarrow> ('s, (pyval \<times> string) list) gio" where
  "open_pull_requests g token limit =
     bindI (requireI (case limit of PInt n \<Rightarrow> 1 \<le> n \<and> n \<le> 100 | _ \<Rightarrow> False) WorkerAuthorityError) (\<lambda>_.
     bindI (requestH g ''GET''
       (repository_path g (''/pulls?state=open&sort=created&direction=asc&per_page='' @ fmt limit)) (wt_value token) PNone) (\<lambda>r.
     bindI (currentH g token) (\<lambda>_.
     pure_io (listing_of g r))))"

text \<open>\<open>value["a"]["b"]...\<close>, where a missing key or a value that is no object is refused.\<close>

fun path_of :: "pyval \<Rightarrow> string list \<Rightarrow> pyval option" where
  "path_of v [] = Some v"
| "path_of v (k # ks) =
     (case v of PDict d \<Rightarrow> (case map_of d k of None \<Rightarrow> None | Some w \<Rightarrow> path_of w ks) | _ \<Rightarrow> None)"

definition MERGE_QUERY :: string where
  "MERGE_QUERY =
     ''query($owner:String!,$name:String!,$number:Int!){repository(owner:$owner,name:$name){pullRequest(number:$number){potentialMergeCommit{oid}}}}''"

definition potential_merge_commit :: "'s worker_github \<Rightarrow> pyval \<Rightarrow> worker_token \<Rightarrow> ('s, string) gio" where
  "potential_merge_commit g number token =
     bindI (requireI (positive_id number) WorkerAuthorityError) (\<lambda>_.
     bindI (jsonH g ''POST'' ''/graphql'' token 200
       (PDict [(''query'', PStr MERGE_QUERY),
         (''variables'', PDict [(''owner'', PStr (before_slash (wa_repository (wg_authority g)))),
           (''name'', PStr (after_slash (wa_repository (wg_authority g)))), (''number'', number)])])) (\<lambda>v.
     case path_of (PDict v) [''data'', ''repository'', ''pullRequest'', ''potentialMergeCommit'', ''oid''] of
       Some (PStr oid) \<Rightarrow> if sha40 oid then ret oid else throw WorkerAuthorityError
     | _ \<Rightarrow> throw WorkerAuthorityError))"

fun parent_shas :: "pyval list \<Rightarrow> wk_exc + string list" where
  "parent_shas [] = Inr []"
| "parent_shas (v # vs) =
     (case pget (dict_of v) ''sha'' of
        PStr sha \<Rightarrow> if sha40 sha then bindE (parent_shas vs) (\<lambda>rest. Inr (sha # rest)) else Inl WorkerAuthorityError
      | _ \<Rightarrow> Inl WorkerAuthorityError)"

definition merge_commit_parents :: "'s worker_github \<Rightarrow> string \<Rightarrow> worker_token \<Rightarrow> ('s, string list) gio" where
  "merge_commit_parents g sha token =
     bindI (requireI (sha40 sha) WorkerAuthorityError) (\<lambda>_.
     bindI (jsonH g ''GET'' (repository_path g (''/git/commits/'' @ sha)) token 200 PNone) (\<lambda>v.
     case pget v ''parents'' of
       PList parents \<Rightarrow> if py_eq (pget v ''sha'') (PStr sha) then pure_io (parent_shas parents) else throw WorkerAuthorityError
     | _ \<Rightarrow> throw WorkerAuthorityError))"

definition workflowH :: "'s worker_github \<Rightarrow> worker_token \<Rightarrow> ('s, pydict) gio" where
  "workflowH g token =
     bindI (jsonH g ''GET'' (repository_path g (''/actions/workflows/'' @ quote_all (wa_workflow_id (wg_authority g)))) token 200 PNone) (\<lambda>v.
     bindI (requireI (py_eq (pget v ''path'') (PStr (wa_workflow_path (wg_authority g)))
       \<and> py_eq (pget v ''state'') (PStr ''active'')) WorkerAuthorityError) (\<lambda>_. ret v))"

section \<open>Runs\<close>

text \<open>The package is ASCII text, so \<open>len(package.encode())\<close> is its length.\<close>

definition dispatch_exact :: "'s worker_github \<Rightarrow> string \<Rightarrow> string \<Rightarrow> worker_token \<Rightarrow> ('s, int) gio" where
  "dispatch_exact g input package token =
     bindI (requireI (List.member [''protocol_package'', ''pilot_package''] input) WorkerAuthorityError) (\<lambda>_.
     bindI (requireI (package \<noteq> [] \<and> int (length package) \<le> 60000) WorkerAuthorityError) (\<lambda>_.
     bindI (jsonH g ''POST'' (repository_path g (''/actions/workflows/'' @ quote_all (wa_workflow_id (wg_authority g)) @ ''/dispatches''))
       token 200
       (PDict [(''ref'', PStr (wa_default_branch (wg_authority g))), (''inputs'', PDict [(input, PStr package)]),
         (''return_run_details'', PBool True)])) (\<lambda>v.
     case pget v ''workflow_run_id'' of
       PInt run_id \<Rightarrow>
         if 1 \<le> run_id \<and> py_eq (pget v ''run_url'') (PStr (API_ROOT @ repository_path g (''/actions/runs/'' @ fmt (PInt run_id))))
         then ret run_id else throw WorkerAuthorityError
     | _ \<Rightarrow> throw WorkerAuthorityError)))"

definition dispatch_protocol :: "'s worker_github \<Rightarrow> string \<Rightarrow> worker_token \<Rightarrow> ('s, int) gio" where
  "dispatch_protocol g package token = dispatch_exact g ''protocol_package'' package token"

definition dispatch_pilot :: "'s worker_github \<Rightarrow> string \<Rightarrow> worker_token \<Rightarrow> ('s, int) gio" where
  "dispatch_pilot g package token =
     bindI (requireI (wa_workflow_id (wg_authority g) = ''ci-jit-pilot-child.yml'') WorkerAuthorityError) (\<lambda>_.
     dispatch_exact g ''pilot_package'' package token)"

definition own_run :: "worker_app \<Rightarrow> pyval \<Rightarrow> pydict \<Rightarrow> wk_exc + bool" where
  "own_run a run_id v =
     (if \<not> py_eq (pget v ''id'') run_id then Inr False
      else case pget v ''repository'' of
        PDict repo \<Rightarrow>
          if \<not> py_eq (pget repo ''id'') (wa_repository_id a) then Inr False
          else bindE (requireE (hashable (pget v ''path'')) PyTypeError) (\<lambda>_.
            Inr (one_of (pget v ''path'') [wa_workflow_path a, wa_workflow_path a @ ''@refs/heads/'' @ wa_default_branch a]
              \<and> py_eq (pget v ''head_branch'') (PStr (wa_default_branch a))))
      | _ \<Rightarrow> Inr False)"

definition runH :: "'s worker_github \<Rightarrow> pyval \<Rightarrow> worker_token \<Rightarrow> ('s, pydict) gio" where
  "runH g run_id token =
     bindI (requireI (positive_id run_id) WorkerAuthorityError) (\<lambda>_.
     bindI (jsonH g ''GET'' (repository_path g (''/actions/runs/'' @ fmt run_id)) token 200 PNone) (\<lambda>v.
     bindI (pure_io (own_run (wg_authority g) run_id v)) (\<lambda>ok.
     bindI (requireI ok WorkerAuthorityError) (\<lambda>_. ret v))))"

definition run_completed :: "pydict \<Rightarrow> bool" where
  "run_completed v = py_eq (pget v ''status'') (PStr ''completed'')"

definition run_cancelled :: "pydict \<Rightarrow> bool" where
  "run_cancelled v = py_eq (pget v ''conclusion'') (PStr ''cancelled'')"

definition cancel_run :: "'s worker_github \<Rightarrow> pyval \<Rightarrow> worker_token \<Rightarrow> ('s, bool) gio" where
  "cancel_run g run_id token =
     bindI (runH g run_id token) (\<lambda>v.
     if run_completed v then ret (run_cancelled v)
     else
       bindI (requestH g ''POST'' (repository_path g (''/actions/runs/'' @ fmt run_id @ ''/cancel'')) (wt_value token) PNone) (\<lambda>r.
       bindI (currentH g token) (\<lambda>_.
       let accepted = requireI (wr_status r = 202 \<and> List.member [[], ''{}''] (wr_body r)) WorkerAuthorityError
       in if wr_status r = 409 then
            bindI (runH g run_id token) (\<lambda>terminal.
            if run_completed terminal then ret (run_cancelled terminal) else bindI accepted (\<lambda>_. ret True))
          else bindI accepted (\<lambda>_. ret True))))"

definition jobs_exact :: "pyval \<Rightarrow> pydict \<Rightarrow> bool" where
  "jobs_exact run_id v =
     (keys_exact v [''total_count'', ''jobs'']
      \<and> (case pget v ''jobs'' of
           PList jobs \<Rightarrow>
             (case py_num (pget v ''total_count'') of Some n \<Rightarrow> n = int (length jobs) | None \<Rightarrow> False)
             \<and> list_all (\<lambda>job. case job of PDict d \<Rightarrow> py_eq (pget d ''run_id'') run_id | _ \<Rightarrow> False) jobs
         | _ \<Rightarrow> False))"

definition jobsH :: "'s worker_github \<Rightarrow> pyval \<Rightarrow> worker_token \<Rightarrow> ('s, pydict) gio" where
  "jobsH g run_id token =
     bindI (requireI (positive_id run_id) WorkerAuthorityError) (\<lambda>_.
     bindI (jsonH g ''GET'' (repository_path g (''/actions/runs/'' @ fmt run_id @ ''/jobs?filter=latest&per_page=100'')) token 200 PNone) (\<lambda>v.
     bindI (requireI (jobs_exact run_id v) WorkerAuthorityError) (\<lambda>_. ret v)))"

section \<open>What the client asks and believes\<close>

text \<open>A listing is all or nothing: exact entries, and of those the ones of this repository, in order.\<close>

definition listed_entry :: "pyval \<Rightarrow> pyval \<times> string" where
  "listed_entry v = (pget (dict_of v) ''number'', fmt (pget (dict_of (pget (dict_of v) ''head'')) ''sha''))"

lemma list_entries_eq:
  "list_entries a vs =
     (if \<forall>v \<in> set vs. is_dict v \<and> entry_exact (dict_of v)
      then Inr (map listed_entry (filter (\<lambda>v. entry_own a (dict_of v)) vs)) else Inl WorkerAuthorityError)"
proof (induction vs)
  case (Cons v vs)
  then show ?case by (cases v) (auto simp: bindE_def listed_entry_def)
qed simp

text \<open>The client over a transport that keeps what it was asked and what it answered.\<close>

type_synonym wire_log = "(string \<times> string \<times> (wk_exc + wire_response)) list"

definition logged :: "'s worker_github \<Rightarrow> ('s \<times> wire_log) worker_github" where
  "logged g =
     \<lparr>wg_authority = wg_authority g,
      wg_clock = (\<lambda>(s, l). case wg_clock g s of (t, s1) \<Rightarrow> (t, s1, l)),
      wg_sign = wg_sign g,
      wg_http = (\<lambda>method url bearer body (s, l).
        case wg_http g method url bearer body s of (r, s1) \<Rightarrow> (r, s1, l @ [(method, url, r)])),
      wg_json = wg_json g, wg_loads = wg_loads g, wg_iso = wg_iso g\<rparr>"

definition run_url :: "'s worker_github \<Rightarrow> pyval \<Rightarrow> string" where
  "run_url g run_id = API_ROOT @ repository_path g (''/actions/runs/'' @ fmt run_id)"

text \<open>A GET of the run whose answer is this run of the fixed workflow, with the fields \<open>d\<close>.\<close>

definition read_back ::
    "'s worker_github \<Rightarrow> pyval \<Rightarrow> pydict \<Rightarrow> string \<times> string \<times> (wk_exc + wire_response) \<Rightarrow> bool" where
  "read_back g run_id d e =
     (\<exists>answer. e = (''GET'', run_url g run_id, Inr answer) \<and> response_json g answer 200 = Inr d
        \<and> own_run (wg_authority g) run_id d = Inr True)"

lemma logged_simps [simp]:
  "wg_authority (logged g) = wg_authority g"
  "wg_json (logged g) = wg_json g"
  "wg_loads (logged g) = wg_loads g"
  by (simp_all add: logged_def)

lemma logged_reads [simp]: "response_json (logged g) = response_json g" "listing_of (logged g) = listing_of g"
  by (simp_all add: response_json_def listing_of_def fun_eq_iff split: option.splits pyval.splits)

lemma wp_currentH:
  assumes "\<And>t s1. wg_clock g s = (t, s1) \<Longrightarrow> Q () (s1, l)"
    and "\<And>e t s1. wg_clock g s = (t, s1) \<Longrightarrow> R e (s1, l)"
  shows "wp (currentH (logged g) token) Q R (s, l)"
  using assms
  by (auto simp: currentH_def clockH_def wp_def bindI_def pure_io_def logged_def assert_current_def
      requireE_def split: prod.splits sum.splits)

lemma wp_requestH:
  assumes "\<And>e. R e (s, l)"
    and "\<And>r s1. Q r (s1, l @ [(m, API_ROOT @ path, Inr r)])"
    and "\<And>e s1. R e (s1, l @ [(m, API_ROOT @ path, Inl e)])"
  shows "wp (requestH (logged g) m path bearer body) Q R (s, l)"
  using assms by (auto simp: requestH_def wp_def throw_def logged_def split: prod.splits sum.splits)

lemma wp_jsonH:
  assumes "\<And>e s1. R e (s1, l)"
    and "\<And>r d s1. response_json g r status = Inr d \<Longrightarrow> Q d (s1, l @ [(m, API_ROOT @ path, Inr r)])"
    and "\<And>e x s1. R e (s1, l @ [(m, API_ROOT @ path, x)])"
  shows "wp (jsonH (logged g) m path token status body) Q R (s, l)"
  unfolding jsonH_def wp_bind
  using assms by (intro wp_currentH wp_requestH) (auto split: sum.splits)

lemma wp_runH:
  assumes "\<And>e s1. R e (s1, l)" and "\<And>d e s1. read_back g run_id d e \<Longrightarrow> Q d (s1, l @ [e])"
    and "\<And>x s1 e. R e (s1, l @ [(''GET'', run_url g run_id, x)])"
  shows "wp (runH (logged g) run_id token) Q R (s, l)"
  unfolding runH_def wp_bind wp_require
  using assms
  by (auto intro!: wp_jsonH simp: run_url_def read_back_def split: sum.splits)

text \<open>What the log may hold after a cancellation with the result \<open>r\<close>.\<close>

definition cancel_log :: "'s worker_github \<Rightarrow> pyval \<Rightarrow> wk_exc + bool \<Rightarrow> wire_log \<Rightarrow> bool" where
  "cancel_log g run_id r log =
     (let posts = filter (\<lambda>e. fst e = ''POST'') log
      in (posts \<noteq> [] \<longrightarrow>
            (\<exists>d e answer. take 1 log = [e] \<and> read_back g run_id d e \<and> \<not> run_completed d
               \<and> posts = [(''POST'', run_url g run_id @ ''/cancel'', answer)]))
         \<and> (r = Inr True \<longrightarrow>
            (\<exists>e \<in> set log. \<exists>d. read_back g run_id d e \<and> run_completed d \<and> run_cancelled d)
            \<or> (\<exists>answer. posts = [(''POST'', run_url g run_id @ ''/cancel'', Inr answer)] \<and> wr_status answer = 202)))"

lemma read_back_get: "read_back g run_id d e \<Longrightarrow> fst e = ''GET''"
  by (auto simp: read_back_def)

lemma wp_cancel_post:
  assumes "\<And>e. R e (s, l)"
    and "\<And>r s1. Q r (s1, l @ [(''POST'', run_url g run_id @ ''/cancel'', Inr r)])"
    and "\<And>e s1. R e (s1, l @ [(''POST'', run_url g run_id @ ''/cancel'', Inl e)])"
  shows "wp (requestH (logged g) ''POST'' (repository_path (logged g) (''/actions/runs/'' @ fmt run_id @ ''/cancel'')) bearer body)
    Q R (s, l)"
  using assms by (intro wp_requestH) (simp_all add: run_url_def)

text \<open>After the read-back of an unfinished run: one POST, and at most one further GET.\<close>

lemma cancel_log_posted:
  assumes "read_back g run_id d e" and "\<not> run_completed d"
  shows "cancel_log g run_id (Inl err) [e, (''POST'', run_url g run_id @ ''/cancel'', x)]"
    and "cancel_log g run_id (Inl err) [e, (''POST'', run_url g run_id @ ''/cancel'', x), (''GET'', u, y)]"
    and "wr_status answer = 202 \<Longrightarrow>
      cancel_log g run_id (Inr True) [e, (''POST'', run_url g run_id @ ''/cancel'', Inr answer)]"
    and "read_back g run_id d2 e2 \<Longrightarrow> run_completed d2 \<Longrightarrow>
      cancel_log g run_id (Inr (run_cancelled d2)) [e, (''POST'', run_url g run_id @ ''/cancel'', x), e2]"
    and "read_back g run_id d2 e2 \<Longrightarrow>
      cancel_log g run_id (Inl err) [e, (''POST'', run_url g run_id @ ''/cancel'', x), e2]"
  using assms by (auto simp: cancel_log_def read_back_get)

lemma cancel_log_unposted:
  "cancel_log g run_id (Inl err) []"
  "cancel_log g run_id (Inl err) [(''GET'', u, x)]"
  "read_back g run_id d e \<Longrightarrow> run_completed d \<Longrightarrow> cancel_log g run_id (Inr (run_cancelled d)) [e]"
  "read_back g run_id d e \<Longrightarrow> cancel_log g run_id (Inl err) [e]"
  by (auto simp: cancel_log_def read_back_get)

lemma cancel_logged:
  "wp (cancel_run (logged g) run_id token) (\<lambda>b (_, log). cancel_log g run_id (Inr b) log)
     (\<lambda>e (_, log). cancel_log g run_id (Inl e) log) (s, [])"
  unfolding cancel_run_def wp_bind
proof (rule wp_runH, goal_cases)
  case (2 d e s1)
  note posted = cancel_log_posted [OF 2] and unposted = cancel_log_unposted(3,4) [OF 2]
  show ?case
  proof (cases "run_completed d")
    case False
    then show ?thesis
      by (simp only: if_False wp_bind Let_def, intro wp_cancel_post wp_currentH)
        (auto simp: unposted 2 posted False intro!: wp_runH split: if_splits)
  qed (simp add: unposted)
qed (simp_all add: cancel_log_unposted)

lemma wp_listing:
  "wp (open_pull_requests (logged g) token limit)
     (\<lambda>listed (_, log). \<exists>answer. listing_of g answer = Inr listed
        \<and> log = [(''GET'', API_ROOT @ repository_path g (''/pulls?state=open&sort=created&direction=asc&per_page='' @ fmt limit),
            Inr answer)])
     (\<lambda>_ _. True) (s, [])"
  unfolding open_pull_requests_def wp_bind wp_require
  by (auto intro!: wp_requestH wp_currentH split: sum.splits)

lemma listed_entry_typed:
  "is_dict v \<Longrightarrow> entry_exact (dict_of v) \<Longrightarrow> positive_id (fst (listed_entry v)) \<and> sha40 (snd (listed_entry v))"
  by (auto simp: entry_exact_def head_sha_ok_def listed_entry_def pget_or_def pget_def hex_of_length_def split: option.splits)

text \<open>C40. The client reads the open pull requests with one GET. It returns a list only when every entry
  of the answer is exact (a positive number, open, a full head commit), and then exactly the numbers and
  heads, in the order of the answer, of the entries whose head and base both live in the selected
  repository and whose base is its default branch: a head in a fork is never handed on.\<close>

theorem listed_pull_requests_are_own:
  assumes "open_pull_requests (logged g) token limit (s, []) = (Inr listed, s', log)"
  shows "\<exists>answer entries.
    log = [(''GET'', API_ROOT @ repository_path g (''/pulls?state=open&sort=created&direction=asc&per_page='' @ fmt limit),
      Inr answer)]
    \<and> wr_status answer = 200 \<and> wg_loads g (wr_body answer) = Some (PList entries)
    \<and> (\<forall>v \<in> set entries. is_dict v \<and> entry_exact (dict_of v))
    \<and> listed = map listed_entry
        (filter (\<lambda>v. let e = dict_of v; base = pget e ''base'' in
           own_repo (wg_authority g) (pget e ''head'') \<and> own_repo (wg_authority g) base
           \<and> py_eq (pget (dict_of base) ''ref'') (PStr (wa_default_branch (wg_authority g)))) entries)
    \<and> (\<forall>(number, head) \<in> set listed. positive_id number \<and> sha40 head)"
proof -
  obtain answer where
    log: "log = [(''GET'', API_ROOT @ repository_path g (''/pulls?state=open&sort=created&direction=asc&per_page='' @ fmt limit),
      Inr answer)]" and "listing_of g answer = Inr listed"
    using wp_resultD(1) [OF wp_listing assms] by auto
  then obtain entries where "wr_status answer = 200" "wg_loads g (wr_body answer) = Some (PList entries)"
    and exact: "\<forall>v \<in> set entries. is_dict v \<and> entry_exact (dict_of v)"
    and "listed = map listed_entry (filter (\<lambda>v. entry_own (wg_authority g) (dict_of v)) entries)"
    by (auto simp: listing_of_def list_entries_eq split: if_splits option.splits pyval.splits)
  moreover from this have "\<forall>x \<in> set listed. positive_id (fst x) \<and> sha40 (snd x)"
    using listed_entry_typed by auto
  ultimately show ?thesis
    using log by (auto simp: entry_own_def Let_def cong: conj_cong)
qed

text \<open>C39. A cancellation sends at most one POST, to the cancel endpoint of the asked run, and only after it
  has read that run back as an unfinished run of the fixed workflow on the default branch of the selected
  repository. It answers that the run is cancelled only when a read-back says so or the POST was accepted.\<close>

theorem cancels_only_read_back_runs:
  assumes "cancel_run (logged g) run_id token (s, []) = (r, s', log)"
  defines "posts \<equiv> filter (\<lambda>e. fst e = ''POST'') log"
  shows "(posts \<noteq> [] \<longrightarrow>
      (\<exists>d e answer. take 1 log = [e] \<and> read_back g run_id d e \<and> \<not> run_completed d
         \<and> posts = [(''POST'', run_url g run_id @ ''/cancel'', answer)]))
    \<and> (r = Inr True \<longrightarrow>
      (\<exists>e \<in> set log. \<exists>d. read_back g run_id d e \<and> run_completed d \<and> run_cancelled d)
      \<or> (\<exists>answer. posts = [(''POST'', run_url g run_id @ ''/cancel'', Inr answer)] \<and> wr_status answer = 202))"
proof -
  have "cancel_log g run_id r log"
    using cancel_logged [of g run_id token s] assms(1) by (cases r) (auto dest: wp_resultD)
  then show ?thesis
    by (simp only: cancel_log_def posts_def Let_def)
qed

section \<open>Concrete runs\<close>

definition sample_worker_app :: worker_app where
  "sample_worker_app = \<lparr>wa_app_id = PInt 1, wa_app_slug = ''ci'', wa_installation_id = PInt 2, wa_repository = ''o/r'',
     wa_repository_id = PInt 3, wa_selection = ''selected'', wa_default_branch = ''main'', wa_workflow_id = ''w.yml'',
     wa_workflow_path = ''.github/workflows/w.yml'', wa_permissions = dict_of WORKER_PERMISSIONS\<rparr>"

definition sample_side :: "int \<Rightarrow> pyval" where
  "sample_side repository = PDict [(''sha'', PStr (replicate 40 CHR ''a'')), (''ref'', PStr ''main''),
     (''repo'', PDict [(''id'', PInt repository)])]"

definition sample_entry :: "int \<Rightarrow> int \<Rightarrow> pyval" where
  "sample_entry number repository =
     PDict [(''number'', PInt number), (''state'', PStr ''open''), (''head'', sample_side repository), (''base'', sample_side 3)]"

definition sample_worker_run :: pydict where
  "sample_worker_run = [(''id'', PInt 7), (''repository'', PDict [(''id'', PInt 3)]), (''path'', PStr ''.github/workflows/w.yml''),
     (''head_branch'', PStr ''main''), (''status'', PStr ''queued'')]"

text \<open>A GitHub with one own pull request, one of a fork, and a queued run.\<close>

definition sample_github :: "unit worker_github" where
  "sample_github =
     \<lparr>wg_authority = sample_worker_app, wg_clock = (\<lambda>s. (Aware 0, s)), wg_sign = (\<lambda>x. x),
      wg_http = (\<lambda>method url bearer body s.
        (Inr \<lparr>wr_status = (if method = ''POST'' then 202 else 200), wr_body = ''{}''\<rparr>, s)),
      wg_json = (\<lambda>_. Parsed (PDict sample_worker_run)),
      wg_loads = (\<lambda>_. Some (PList [sample_entry 5 3, sample_entry 6 9])), wg_iso = (\<lambda>_. None)\<rparr>"

definition sample_worker_token :: worker_token where
  "sample_worker_token = \<lparr>wt_value = ''t'', wt_expires = 1, wt_authority = sample_worker_app\<rparr>"

lemma sample_listing:
  "open_pull_requests (logged sample_github) sample_worker_token (PInt 100) ((), []) =
     (Inr [(PInt 5, replicate 40 CHR ''a'')], (),
      [(''GET'', API_ROOT @ repository_path sample_github (''/pulls?state=open&sort=created&direction=asc&per_page='' @ fmt (PInt 100)),
        Inr \<lparr>wr_status = 200, wr_body = ''{}''\<rparr>)])"
  by code_simp

lemma listed_pull_requests_are_own_witness:
  "\<exists>(answer :: wire_response) entries. wr_status answer = 200 \<and> wg_loads sample_github (wr_body answer) = Some (PList entries)
     \<and> positive_id (PInt 5) \<and> sha40 (replicate 40 CHR ''a'')"
  using listed_pull_requests_are_own [OF sample_listing]
proof (elim exE conjE)
  fix answer :: wire_response and entries
  assume "wr_status answer = 200" and "wg_loads sample_github (wr_body answer) = Some (PList entries)"
    and "\<forall>(number, head) \<in> set [(PInt 5, replicate 40 CHR ''a'')]. positive_id number \<and> sha40 head"
  then show ?thesis
    by - (rule exI [of _ answer], rule exI [of _ entries], simp)
qed

lemma sample_cancel:
  "cancel_run (logged sample_github) (PInt 7) sample_worker_token ((), []) =
     (Inr True, (), [(''GET'', run_url sample_github (PInt 7), Inr \<lparr>wr_status = 200, wr_body = ''{}''\<rparr>),
       (''POST'', run_url sample_github (PInt 7) @ ''/cancel'', Inr \<lparr>wr_status = 202, wr_body = ''{}''\<rparr>)])"
  by code_simp

lemma cancels_only_read_back_runs_witness:
  "\<exists>d. read_back sample_github (PInt 7) d
     (''GET'', run_url sample_github (PInt 7), Inr \<lparr>wr_status = 200, wr_body = ''{}''\<rparr>) \<and> \<not> run_completed d"
  using cancels_only_read_back_runs [OF sample_cancel] by simp

end
