(* ===== verification/Watchdog.thy ===== *)
theory Watchdog
  imports Timing
begin

text \<open>
  \<open>github_automation/watchdog.py\<close>: the reconciler's pure planner \<open>reconcile\<close> and the fenced
  execution of one decision. The planner's early returns are the branches of \<open>reconcile\<close>, cut
  into the three stretches of the source that decide a GitHub winner, a classified failure and a
  due deadline. The adapter protocol of \<open>execute_decision\<close> is code outside the repository: its
  four operations are arguments over a state of their own.
\<close>

section \<open>Observations and decisions\<close>

datatype ActionKind =
    NOOP | FENCED | TAKE_OVER | BLOCK_ALERT | MARK_STALE_CANCEL | OFFER_LOCAL_FAILURE
  | SELECT_GITHUB | REQUEST_NORMAL_CANCEL | REQUEST_FORCE_CANCEL | VERIFY_FORCE_CANCEL
  | DISPATCH_FALLBACK | COMPLETE_FALLBACK_FAILURE

fun kind_value :: "ActionKind \<Rightarrow> string" where
  "kind_value NOOP = ''noop''"
| "kind_value FENCED = ''fenced''"
| "kind_value TAKE_OVER = ''take_over''"
| "kind_value BLOCK_ALERT = ''block_alert''"
| "kind_value MARK_STALE_CANCEL = ''mark_stale_cancel''"
| "kind_value OFFER_LOCAL_FAILURE = ''offer_local_failure''"
| "kind_value SELECT_GITHUB = ''select_github''"
| "kind_value REQUEST_NORMAL_CANCEL = ''request_normal_cancel''"
| "kind_value REQUEST_FORCE_CANCEL = ''request_force_cancel''"
| "kind_value VERIFY_FORCE_CANCEL = ''verify_force_cancel''"
| "kind_value DISPATCH_FALLBACK = ''dispatch_fallback''"
| "kind_value COMPLETE_FALLBACK_FAILURE = ''complete_fallback_failure''"

fun outcome_value :: "FailureOutcome \<Rightarrow> string" where
  "outcome_value LOCAL_FINAL_FAILURE = ''local_final_failure''"
| "outcome_value FALLBACK_ONCE = ''fallback_once''"
| "outcome_value STALE_CANCEL = ''stale_cancel''"
| "outcome_value OUTCOME_BLOCK_ALERT = ''block_alert''"
| "outcome_value FALLBACK_FINAL_FAILURE = ''fallback_final_failure''"
| "outcome_value EVIDENCE_ONLY_FALLBACK = ''evidence_only_fallback''"

definition CURRENT_AUTHORITY_BOUNDARIES :: "string list" where
  "CURRENT_AUTHORITY_BOUNDARIES = [''dispatch'', ''claim'', ''pre_marker_admission'', ''local_success'']"

record ObservedState =
  os_logical_key :: string
  os_generation :: int
  os_owner :: string
  os_lease_epoch :: int
  os_lease_expires_at :: pydatetime
  os_phase :: string
  os_winner :: "string option"
  os_claim_deadline :: "pydatetime option"
  os_execution_deadline :: "pydatetime option"
  os_job_started_at :: "pydatetime option"
  os_job_terminal_at :: "pydatetime option"
  os_job_active :: bool
  os_failure_class :: "FailureClass option"
  os_admission_valid :: bool
  os_proof_valid :: bool
  os_authority_boundary :: "string option"
  os_ambiguous :: bool
  os_stale_input :: bool
  os_cancel_requested_at :: "pydatetime option"
  os_force_cancel_requested_at :: "pydatetime option"
  os_fallback_dispatched :: bool
  os_fallback_terminal :: bool

record Decision =
  d_kind :: ActionKind
  d_logical_key :: string
  d_generation :: int
  d_owner :: string
  d_lease_epoch :: int
  d_reason :: string

definition idempotency_key :: "Decision \<Rightarrow> string" where
  "idempotency_key d = d_logical_key d @ '':'' @ int_str (d_generation d) @ '':'' @ kind_value (d_kind d)"

definition decision :: "ObservedState \<Rightarrow> ActionKind \<Rightarrow> string \<Rightarrow> Decision" where
  "decision state kind reason =
     \<lparr>d_kind = kind, d_logical_key = os_logical_key state, d_generation = os_generation state,
      d_owner = os_owner state, d_lease_epoch = os_lease_epoch state, d_reason = reason\<rparr>"

section \<open>The planner\<close>

text \<open>\<open><=\<close> on two \<open>datetime\<close> values raises when exactly one of them is aware.\<close>

fun datetime_le :: "pydatetime \<Rightarrow> pydatetime \<Rightarrow> py_exn + bool" where
  "datetime_le (Aware a) (Aware b) = Inr (a \<le> b)"
| "datetime_le (Naive a) (Naive b) = Inr (a \<le> b)"
| "datetime_le _ _ = Inl (TypeError ''can't compare offset-naive and offset-aware datetimes'')"

definition causal_deadline :: "ObservedState \<Rightarrow> pydatetime option" where
  "causal_deadline state =
     (if os_phase state = ''LOCAL_DISPATCHED'' then os_claim_deadline state
      else if os_phase state = ''LOCAL_RUNNING'' then os_execution_deadline state
      else None)"

definition reconcile_github_winner :: "ObservedState \<Rightarrow> pydatetime \<Rightarrow> py_exn + Decision" where
  "reconcile_github_winner state now =
     (if os_job_active state then
        (case os_cancel_requested_at state of
           None \<Rightarrow> Inr (decision state REQUEST_NORMAL_CANCEL ''cancel_losing_local_run'')
         | Some requested \<Rightarrow>
             bindE (force_cancel_due now requested) (\<lambda>due.
               if \<not> due then Inr (decision state NOOP ''normal_cancel_grace'')
               else case os_force_cancel_requested_at state of
                 None \<Rightarrow> Inr (decision state REQUEST_FORCE_CANCEL ''normal_cancel_stalled'')
               | Some forced \<Rightarrow>
                   bindE (force_cancel_verification_due now forced) (\<lambda>verify.
                     if verify then Inr (decision state VERIFY_FORCE_CANCEL ''verify_force_cancel'')
                     else Inr (decision state NOOP ''force_cancel_verification_wait''))))
      else if \<not> os_fallback_dispatched state then
        Inr (decision state DISPATCH_FALLBACK ''resume_persisted_github_winner'')
      else if os_fallback_terminal state \<and> os_failure_class state = Some FALLBACK_FAILURE then
        Inr (decision state COMPLETE_FALLBACK_FAILURE ''hosted_attempt_failed'')
      else Inr (decision state NOOP ''github_path_in_progress_or_terminal''))"

fun outcome_action :: "FailureOutcome \<Rightarrow> ActionKind" where
  "outcome_action LOCAL_FINAL_FAILURE = OFFER_LOCAL_FAILURE"
| "outcome_action FALLBACK_ONCE = SELECT_GITHUB"
| "outcome_action STALE_CANCEL = MARK_STALE_CANCEL"
| "outcome_action OUTCOME_BLOCK_ALERT = BLOCK_ALERT"
| "outcome_action FALLBACK_FINAL_FAILURE = COMPLETE_FALLBACK_FAILURE"
| "outcome_action EVIDENCE_ONLY_FALLBACK = SELECT_GITHUB"

definition reconcile_failure :: "ObservedState \<Rightarrow> FailureClass \<Rightarrow> py_exn + Decision" where
  "reconcile_failure state failure =
     bindE (classify_failure failure (os_admission_valid state) (os_job_terminal_at state)
              (os_execution_deadline state))
       (\<lambda>outcome. Inr (decision state (outcome_action outcome) (outcome_value outcome)))"

text \<open>The two deadline checks: \<open>None\<close> when neither returns and the planner goes on.\<close>

definition due_deadline :: "ObservedState \<Rightarrow> pydatetime \<Rightarrow> py_exn + Decision option" where
  "due_deadline state now =
     (case (os_phase state = ''LOCAL_DISPATCHED'', os_claim_deadline state) of
        (True, Some D) \<Rightarrow>
          bindE (claim_is_timely (os_job_started_at state) D) (\<lambda>timely_claim.
            if timely_claim then Inr (Some (decision state NOOP ''formal_claim_visible''))
            else bindE (claim_timeout_due now D False) (\<lambda>due.
              Inr (if due then Some (decision state SELECT_GITHUB ''claim_timeout'') else None)))
      | _ \<Rightarrow>
        (case (os_phase state = ''LOCAL_RUNNING'', os_execution_deadline state) of
           (True, Some D) \<Rightarrow>
             bindE (completion_is_timely (os_job_terminal_at state) D) (\<lambda>timely_completion.
               bindE (execution_timeout_due now D timely_completion) (\<lambda>due.
                 Inr (if due then
                        Some (decision state SELECT_GITHUB ''execution_timeout_after_exact_job_reread'')
                      else None)))
         | _ \<Rightarrow> Inr None))"

definition authority_lost :: "ObservedState \<Rightarrow> bool" where
  "authority_lost state =
     (\<not> os_proof_valid state
      \<and> (case os_authority_boundary state of None \<Rightarrow> False
         | Some b \<Rightarrow> List.member CURRENT_AUTHORITY_BOUNDARIES b))"

definition reconcile_undecided :: "ObservedState \<Rightarrow> pydatetime \<Rightarrow> py_exn + Decision" where
  "reconcile_undecided state now =
     (if authority_lost state then Inr (decision state SELECT_GITHUB ''current_authority_invalid'')
      else case os_failure_class state of
        Some failure \<Rightarrow> reconcile_failure state failure
      | None \<Rightarrow>
          bindE (due_deadline state now) (\<lambda>due.
            case due of
              Some d \<Rightarrow> Inr d
            | None \<Rightarrow>
                bindE (lease_is_valid now (os_lease_expires_at state)) (\<lambda>live.
                  if \<not> live then Inr (decision state TAKE_OVER ''lease_expired'')
                  else Inr (decision state NOOP ''no_transition_due''))))"

definition reconcile :: "ObservedState \<Rightarrow> pydatetime \<Rightarrow> py_exn + Decision" where
  "reconcile state now =
     bindE (lease_is_valid now (os_lease_expires_at state)) (\<lambda>live.
     bindE (if live then Inr False
            else case causal_deadline state of
              None \<Rightarrow> Inr True
            | Some D \<Rightarrow> datetime_le (os_lease_expires_at state) D) (\<lambda>expired_first.
       if expired_first then
         Inr (decision state TAKE_OVER ''lease_expired_before_pending_transition'')
       else if os_ambiguous state then
         Inr (decision state BLOCK_ALERT ''ambiguous_authoritative_state'')
       else if os_stale_input state then
         Inr (decision state MARK_STALE_CANCEL ''stale_pr_tuple'')
       else if os_winner state = Some ''local'' then
         Inr (decision state NOOP ''local_winner_terminal'')
       else if os_winner state = Some ''github'' then reconcile_github_winner state now
       else reconcile_undecided state now))"

definition reconcile_execution_timeout_after_reread ::
  "ObservedState \<Rightarrow> pydatetime \<Rightarrow> pydatetime option \<Rightarrow> FailureClass option \<Rightarrow> py_exn + Decision" where
  "reconcile_execution_timeout_after_reread state now authoritative_terminal_at
     authoritative_failure_class =
     reconcile (state\<lparr>os_job_terminal_at := authoritative_terminal_at,
                      os_failure_class := authoritative_failure_class\<rparr>) now"

section \<open>Fenced execution\<close>

text \<open>
  \<open>completed\<close> and \<open>owns\<close> read the adapter's state, \<open>record_done\<close> writes it, and \<open>perform\<close> is the
  external effect, which may raise after it changed the state.
\<close>

definition execute_decision ::
  "('s \<Rightarrow> Decision \<Rightarrow> bool) \<Rightarrow> ('s \<Rightarrow> string \<Rightarrow> bool) \<Rightarrow> (Decision \<Rightarrow> 's \<Rightarrow> ('e + unit) \<times> 's)
   \<Rightarrow> (string \<Rightarrow> 's \<Rightarrow> 's) \<Rightarrow> Decision \<Rightarrow> 's \<Rightarrow> ('e + string) \<times> 's" where
  "execute_decision owns completed perform record_done d s =
     (if d_kind d = NOOP \<or> d_kind d = FENCED then (Inr (kind_value (d_kind d)), s)
      else if completed s (idempotency_key d) then (Inr ''idempotent'', s)
      else if d_kind d \<noteq> TAKE_OVER \<and> \<not> owns s d then (Inr (kind_value FENCED), s)
      else case perform d s of
        (Inl e, s') \<Rightarrow> (Inl e, s')
      | (Inr _, s') \<Rightarrow> (Inr ''performed'', record_done (idempotency_key d) s'))"

section \<open>Inversion of the planner\<close>

fun is_aware :: "pydatetime \<Rightarrow> bool" where
  "is_aware (Aware t) = True"
| "is_aware (Naive t) = False"

definition aware_option :: "pydatetime option \<Rightarrow> bool" where
  "aware_option t = (case t of None \<Rightarrow> True | Some d \<Rightarrow> is_aware d)"

definition aware_state :: "ObservedState \<Rightarrow> bool" where
  "aware_state state =
     (is_aware (os_lease_expires_at state) \<and> aware_option (os_claim_deadline state)
      \<and> aware_option (os_execution_deadline state) \<and> aware_option (os_job_started_at state)
      \<and> aware_option (os_job_terminal_at state) \<and> aware_option (os_cancel_requested_at state)
      \<and> aware_option (os_force_cancel_requested_at state))"

lemma is_aware_iff: "is_aware d \<longleftrightarrow> (\<exists>t. d = Aware t)"
  by (cases d) auto

lemma decision_sel [simp]:
  "d_kind (decision state k r) = k" "d_logical_key (decision state k r) = os_logical_key state"
  "d_generation (decision state k r) = os_generation state"
  "d_owner (decision state k r) = os_owner state"
  "d_lease_epoch (decision state k r) = os_lease_epoch state"
  "d_reason (decision state k r) = r"
  by (simp_all add: decision_def)

lemma decision_eq_iff [simp]: "decision state k r = decision state k' r' \<longleftrightarrow> k = k' \<and> r = r'"
  by (auto simp: decision_def)

text \<open>
  The planner returns a take-over, one of the two refusals, the local no-op, or what the stretch
  for the recorded winner returns.
\<close>

lemma reconcile_cases:
  assumes "reconcile state now = Inr d"
  obtains "d_kind d = TAKE_OVER" | "d_kind d = BLOCK_ALERT" "os_ambiguous state"
  | "d_kind d = MARK_STALE_CANCEL" "os_stale_input state"
  | "d_kind d = NOOP" "os_winner state = Some ''local''"
  | "os_winner state = Some ''github''" "\<not> os_ambiguous state" "\<not> os_stale_input state"
    "reconcile_github_winner state now = Inr d"
  | "os_winner state \<noteq> Some ''local''" "os_winner state \<noteq> Some ''github''"
    "\<not> os_ambiguous state" "\<not> os_stale_input state" "reconcile_undecided state now = Inr d"
  using assms unfolding reconcile_def
  by (auto simp: bindE_eq_Inr split: if_splits)

lemma github_winner_kinds:
  "reconcile_github_winner state now = Inr d \<Longrightarrow>
     d_kind d \<in> {NOOP, REQUEST_NORMAL_CANCEL, REQUEST_FORCE_CANCEL, VERIFY_FORCE_CANCEL,
       DISPATCH_FALLBACK, COMPLETE_FALLBACK_FAILURE}"
  by (auto simp: reconcile_github_winner_def bindE_eq_Inr split: if_splits option.splits)




lemma classify_select_github:
  "classify_failure failure admitted term D = Inr outcome \<Longrightarrow> outcome_action outcome = SELECT_GITHUB \<Longrightarrow>
     failure \<in> {INFRA_PRETEST, INFRA_TRANSPORT_LOSS} \<or>
     (failure = FUNCTIONAL_FAILURE \<and> admitted \<and>
       (\<exists>t d. term = Some (Aware t) \<and> D = Some (Aware d) \<and> d < t))"
  by (auto simp: classify_failure_def completion_is_timely_def bindE_eq_Inr utc2_eq_Inr
      split: FailureClass.splits option.splits if_splits)

lemma due_deadline_select:
  "due_deadline state (Aware now) = Inr (Some d) \<Longrightarrow> d_kind d = SELECT_GITHUB \<Longrightarrow>
     (os_phase state = ''LOCAL_DISPATCHED'' \<and> (\<exists>D. os_claim_deadline state = Some (Aware D) \<and> D < now \<and>
        (\<forall>s. os_job_started_at state = Some (Aware s) \<longrightarrow> D < s)))
     \<or> (os_phase state = ''LOCAL_RUNNING'' \<and> (\<exists>D. os_execution_deadline state = Some (Aware D) \<and> D < now \<and>
        (\<forall>t. os_job_terminal_at state = Some (Aware t) \<longrightarrow> D < t)))"
  by (auto simp: due_deadline_def bindE_eq_Inr claim_is_timely_def claim_timeout_due_def
      completion_is_timely_def execution_timeout_due_def utc2_eq_Inr
      split: if_splits option.splits bool.splits)

section \<open>Properties of the planner\<close>

definition observed_example :: ObservedState where
  "observed_example =
     \<lparr>os_logical_key = ''7:3:abc:ci-gate'', os_generation = 1, os_owner = ''run-1'',
      os_lease_epoch = 1, os_lease_expires_at = Aware 2000, os_phase = ''LOCAL_DISPATCHED'',
      os_winner = None, os_claim_deadline = Some (Aware 1000), os_execution_deadline = None,
      os_job_started_at = None, os_job_terminal_at = None, os_job_active = False,
      os_failure_class = None, os_admission_valid = False, os_proof_valid = True,
      os_authority_boundary = None, os_ambiguous = False, os_stale_input = False,
      os_cancel_requested_at = None, os_force_cancel_requested_at = None,
      os_fallback_dispatched = False, os_fallback_terminal = False\<rparr>"

lemmas reconcile_eval = reconcile_def reconcile_undecided_def reconcile_github_winner_def
  reconcile_failure_def classify_failure_def due_deadline_def causal_deadline_def authority_lost_def
  oracle_defs utc2_def POLICY_V1_def CURRENT_AUTHORITY_BOUNDARIES_def

lemma github_winner_total:
  "aware_state state \<Longrightarrow> \<exists>k r. reconcile_github_winner state (Aware now) = Inr (decision state k r)"
  by (auto simp: aware_state_def aware_option_def is_aware_iff reconcile_github_winner_def
      force_cancel_due_def force_cancel_verification_due_def utc2_Aware split: option.splits)

lemma timely_total:
  assumes "aware_option s" and "is_aware D"
  shows "\<exists>b. claim_is_timely s D = Inr b" and "\<exists>b. completion_is_timely s D = Inr b"
  using assms by (auto simp: aware_option_def is_aware_iff claim_is_timely_def
      completion_is_timely_def utc2_Aware split: option.splits)

lemma timeout_total:
  assumes "is_aware D"
  shows "\<exists>b. claim_timeout_due (Aware now) D timely = Inr b"
    and "\<exists>b. execution_timeout_due (Aware now) D timely = Inr b"
  using assms by (auto simp: is_aware_iff claim_timeout_due_def execution_timeout_due_def utc2_Aware)

lemma due_deadline_total:
  assumes "aware_state state"
  shows "\<exists>x. due_deadline state (Aware now) = Inr x"
proof -
  have a: "aware_option (os_job_started_at state)" "aware_option (os_job_terminal_at state)"
    "\<And>D. os_claim_deadline state = Some D \<Longrightarrow> is_aware D"
    "\<And>D. os_execution_deadline state = Some D \<Longrightarrow> is_aware D"
    using assms by (auto simp: aware_state_def aware_option_def)
  have claim: "\<exists>x. bindE (claim_is_timely (os_job_started_at state) D) (\<lambda>timely.
      if timely then Inr (Some v) else bindE (claim_timeout_due (Aware now) D False)
        (\<lambda>due. Inr (g due))) = Inr x" if "os_claim_deadline state = Some D" for D v g
    using timely_total(1) [OF a(1) a(3) [OF that]] timeout_total(1) [OF a(3) [OF that]]
    by (intro bindE_total) (auto intro: bindE_total)
  have run: "\<exists>x. bindE (completion_is_timely (os_job_terminal_at state) D) (\<lambda>timely.
      bindE (execution_timeout_due (Aware now) D timely) (\<lambda>due. Inr (g due))) = Inr x"
    if "os_execution_deadline state = Some D" for D g
    using timely_total(2) [OF a(2) a(4) [OF that]] timeout_total(2) [OF a(4) [OF that]]
    by (intro bindE_total) auto
  show ?thesis unfolding due_deadline_def
    by (auto split: option.split bool.split intro!: claim run)
qed

lemma due_deadline_decision:
  "due_deadline state now = Inr (Some d) \<Longrightarrow> \<exists>k r. d = decision state k r"
  by (auto simp: due_deadline_def bindE_eq_Inr split: if_splits option.splits bool.splits)

lemma reconcile_failure_total:
  "aware_state state \<Longrightarrow> \<exists>k r. reconcile_failure state failure = Inr (decision state k r)"
  by (auto simp: aware_state_def aware_option_def is_aware_iff reconcile_failure_def
      classify_failure_def completion_is_timely_def utc2_Aware
      split: option.splits FailureClass.splits)

lemma undecided_total:
  assumes "aware_state state"
  shows "\<exists>k r. reconcile_undecided state (Aware now) = Inr (decision state k r)"
proof -
  from assms obtain L where "os_lease_expires_at state = Aware L"
    by (auto simp: aware_state_def is_aware_iff)
  moreover from due_deadline_total [OF assms] obtain x where "due_deadline state (Aware now) = Inr x"
    by blast
  ultimately show ?thesis using reconcile_failure_total [OF assms]
    by (auto simp: reconcile_undecided_def lease_is_valid_def utc2_Aware
        dest: due_deadline_decision split: option.splits)
qed

text \<open>The planner always decides: for an observation whose timestamps are all timezone-aware it
  raises nothing and returns exactly one decision, bound to the observed key, generation, owner and
  lease epoch.\<close>

theorem reconcile_total:
  assumes "aware_state state"
  shows "\<exists>d. reconcile state (Aware now) = Inr d \<and> d_logical_key d = os_logical_key state
    \<and> d_generation d = os_generation state \<and> d_owner d = os_owner state
    \<and> d_lease_epoch d = os_lease_epoch state"
proof -
  from assms obtain L where L: "os_lease_expires_at state = Aware L"
    by (auto simp: aware_state_def is_aware_iff)
  from assms have "\<exists>b. (case causal_deadline state of None \<Rightarrow> Inr True
      | Some D \<Rightarrow> datetime_le (os_lease_expires_at state) D) = Inr b"
    by (auto simp: L aware_state_def aware_option_def is_aware_iff causal_deadline_def
        split: option.splits)
  with github_winner_total [OF assms, of now] undecided_total [OF assms, of now]
  have "\<exists>k r. reconcile state (Aware now) = Inr (decision state k r)"
    by (auto simp: reconcile_def lease_is_valid_def utc2_Aware L)
  then show ?thesis by force
qed

theorem reconcile_total_witness:
  "\<exists>d. reconcile observed_example (Aware 1500) = Inr d \<and> d_logical_key d = ''7:3:abc:ci-gate''
    \<and> d_generation d = 1 \<and> d_owner d = ''run-1'' \<and> d_lease_epoch d = 1"
proof -
  have h: "aware_state observed_example"
    by (simp add: observed_example_def aware_state_def aware_option_def)
  show ?thesis using reconcile_total [OF h, of 1500] by (simp add: observed_example_def)
qed

text \<open>The planner selects GitHub only for a generation that has no winner, from an unambiguous
  and current observation, and only for a lost current authority, an infrastructure failure, a
  functional failure of an admitted run that ended after its deadline, a claim deadline that passed
  without a start by it, or an execution deadline that passed without a terminal instant by it.\<close>

theorem select_github_justified:
  assumes "reconcile state (Aware now) = Inr d" and "d_kind d = SELECT_GITHUB"
  shows "os_winner state \<noteq> Some ''local'' \<and> os_winner state \<noteq> Some ''github''
    \<and> \<not> os_ambiguous state \<and> \<not> os_stale_input state
    \<and> (authority_lost state
       \<or> os_failure_class state \<in> {Some INFRA_PRETEST, Some INFRA_TRANSPORT_LOSS}
       \<or> (os_failure_class state = Some FUNCTIONAL_FAILURE \<and> os_admission_valid state \<and>
           (\<exists>t D. os_job_terminal_at state = Some (Aware t)
             \<and> os_execution_deadline state = Some (Aware D) \<and> D < t))
       \<or> (os_phase state = ''LOCAL_DISPATCHED'' \<and> (\<exists>D. os_claim_deadline state = Some (Aware D)
           \<and> D < now \<and> (\<forall>s. os_job_started_at state = Some (Aware s) \<longrightarrow> D < s)))
       \<or> (os_phase state = ''LOCAL_RUNNING'' \<and> (\<exists>D. os_execution_deadline state = Some (Aware D)
           \<and> D < now \<and> (\<forall>t. os_job_terminal_at state = Some (Aware t) \<longrightarrow> D < t))))"
  using assms(1)
proof (cases rule: reconcile_cases)
  case 6
  from 6(5) assms(2) have "authority_lost state
      \<or> (\<exists>f. os_failure_class state = Some f \<and> reconcile_failure state f = Inr d)
      \<or> due_deadline state (Aware now) = Inr (Some d)"
    by (auto simp: reconcile_undecided_def bindE_eq_Inr split: if_splits option.splits)
  moreover have "reconcile_failure state f = Inr d \<Longrightarrow> f \<in> {INFRA_PRETEST, INFRA_TRANSPORT_LOSS} \<or>
      (f = FUNCTIONAL_FAILURE \<and> os_admission_valid state \<and> (\<exists>t D. os_job_terminal_at state = Some (Aware t)
        \<and> os_execution_deadline state = Some (Aware D) \<and> D < t))" for f
    using assms(2) by (auto simp: reconcile_failure_def bindE_eq_Inr dest: classify_select_github)
  ultimately show ?thesis using 6(1-4) assms(2) due_deadline_select by blast
qed (use assms(2) in \<open>auto dest: github_winner_kinds\<close>)

theorem select_github_justified_witness:
  "\<exists>d. reconcile observed_example (Aware 1500) = Inr d \<and> d_kind d = SELECT_GITHUB
    \<and> os_winner observed_example \<noteq> Some ''github''"
proof -
  have h: "reconcile observed_example (Aware 1500) =
      Inr (decision observed_example SELECT_GITHUB ''claim_timeout'')"
    by (simp add: reconcile_eval observed_example_def)
  show ?thesis using select_github_justified [OF h] h by simp
qed



text \<open>Reading the exact job again before a timeout decides: while the lease is live, a functional
  failure of an admitted, undecided run with valid proof that ended by its execution deadline is
  offered as the local result, however late the watchdog runs.\<close>

theorem timely_failure_beats_timeout:
  assumes "os_lease_expires_at state = Aware L" and "now < L"
    and "\<not> os_ambiguous state" and "\<not> os_stale_input state" and "os_winner state = None"
    and "os_proof_valid state" and "os_admission_valid state"
    and "os_execution_deadline state = Some (Aware D)" and "t \<le> D"
  shows "\<exists>d. reconcile_execution_timeout_after_reread state (Aware now) (Some (Aware t))
      (Some FUNCTIONAL_FAILURE) = Inr d \<and> d_kind d = OFFER_LOCAL_FAILURE"
  using assms
  by (simp add: reconcile_execution_timeout_after_reread_def reconcile_def lease_is_valid_def
      utc2_Aware reconcile_undecided_def authority_lost_def reconcile_failure_def
      classify_failure_def completion_is_timely_def)

theorem timely_failure_beats_timeout_witness:
  "\<exists>d. reconcile_execution_timeout_after_reread
      (observed_example\<lparr>os_phase := ''LOCAL_RUNNING'', os_admission_valid := True,
        os_execution_deadline := Some (Aware 900)\<rparr>) (Aware 1900) (Some (Aware 900))
      (Some FUNCTIONAL_FAILURE) = Inr d \<and> d_kind d = OFFER_LOCAL_FAILURE"
  by (rule timely_failure_beats_timeout [where L = 2000 and D = 900])
    (simp_all add: observed_example_def)

section \<open>Properties of the execution\<close>

lemma kind_value_no_colon: "CHR '':'' \<notin> set (kind_value k)"
  by (cases k) simp_all

lemma kind_value_inj: "kind_value j = kind_value k \<Longrightarrow> j = k"
  by (cases j; cases k) simp_all

text \<open>The idempotency key identifies the effect: two decisions have the same key exactly when
  they agree on logical key, generation and kind, although logical keys contain colons themselves.\<close>

theorem idempotency_key_injective:
  "idempotency_key d = idempotency_key e \<longleftrightarrow>
     d_logical_key d = d_logical_key e \<and> d_generation d = d_generation e \<and> d_kind d = d_kind e"
proof
  assume "idempotency_key d = idempotency_key e"
  then have "(d_logical_key d @ '':'' @ int_str (d_generation d)) @ CHR '':'' # kind_value (d_kind d)
      = (d_logical_key e @ '':'' @ int_str (d_generation e)) @ CHR '':'' # kind_value (d_kind e)"
    by (simp add: idempotency_key_def)
  from join_right_inj [OF this kind_value_no_colon kind_value_no_colon]
  have k: "d_kind d = d_kind e"
    and "d_logical_key d @ CHR '':'' # int_str (d_generation d)
      = d_logical_key e @ CHR '':'' # int_str (d_generation e)"
    by (auto dest: kind_value_inj)
  from join_right_inj [OF this(2) int_str_no_colon int_str_no_colon] k
  show "d_logical_key d = d_logical_key e \<and> d_generation d = d_generation e \<and> d_kind d = d_kind e"
    by (auto dest: int_str_inj)
qed (simp add: idempotency_key_def)

text \<open>Fencing and effectively-once execution. Without a live lease no decision but a take-over
  has an effect; and when the adapter remembers what it recorded, executing a decision again after a
  performed one changes nothing and reports \<open>idempotent\<close>.\<close>

theorem execute_decision_fenced_and_once:
  assumes record_law: "\<And>k s. completed (record_done k s) k"
  shows "(d_kind d \<noteq> TAKE_OVER \<and> \<not> owns s d \<longrightarrow>
      snd (execute_decision owns completed perform record_done d s) = s)
    \<and> (execute_decision owns completed perform record_done d s = (Inr ''performed'', s') \<longrightarrow>
      execute_decision owns completed perform record_done d s' = (Inr ''idempotent'', s'))"
proof (intro conjI impI)
  assume "d_kind d \<noteq> TAKE_OVER \<and> \<not> owns s d"
  then show "snd (execute_decision owns completed perform record_done d s) = s"
    by (simp add: execute_decision_def)
next
  assume run: "execute_decision owns completed perform record_done d s = (Inr ''performed'', s')"
  then have kinds: "d_kind d \<noteq> NOOP" "d_kind d \<noteq> FENCED"
    by (auto simp: execute_decision_def)
  with run obtain s1 where "s' = record_done (idempotency_key d) s1"
    by (auto simp: execute_decision_def split: if_splits prod.splits sum.splits)
  with kinds record_law show
    "execute_decision owns completed perform record_done d s' = (Inr ''idempotent'', s')"
    by (simp add: execute_decision_def)
qed

theorem execute_decision_fenced_and_once_witness:
  "execute_decision (\<lambda>s d. True) (\<lambda>s k. k \<in> set s) (\<lambda>d s. (Inr () :: string + unit, s)) (#)
      (decision observed_example SELECT_GITHUB ''claim_timeout'')
      [idempotency_key (decision observed_example SELECT_GITHUB ''claim_timeout'')]
   = (Inr ''idempotent'',
      [idempotency_key (decision observed_example SELECT_GITHUB ''claim_timeout'')])"
proof -
  have law: "\<And>k s. (\<lambda>s k. k \<in> set s) ((#) k s) (k :: string)" by simp
  have run: "execute_decision (\<lambda>s d. True) (\<lambda>s k. k \<in> set s) (\<lambda>d s. (Inr () :: string + unit, s)) (#)
      (decision observed_example SELECT_GITHUB ''claim_timeout'') []
    = (Inr ''performed'', [idempotency_key (decision observed_example SELECT_GITHUB ''claim_timeout'')])"
    by (simp add: execute_decision_def)
  show ?thesis
    using execute_decision_fenced_and_once [where completed = "\<lambda>s k. k \<in> set s" and record_done = "(#)",
        OF law] run by blast
qed

end
