(* ===== verification/Gatestore.thy ===== *)
theory Gatestore
  imports Canonical_Json "HOL-Library.Product_Lexorder"
begin

text \<open>
  \<open>github_automation/gatestore.py\<close>: the transactional single-winner store. The five SQLite tables
  are lists of rows in insertion order; each method is one transaction over them. A transaction body
  returns the value or the exception together with the tables as it left them, and \<open>transaction\<close>
  commits or rolls back as \<open>_transaction\<close> does, so a fault hook that raises between two writes is
  visible to the model before the rollback hides it.

  Arguments that stand for what a call reads from outside: \<open>H\<close> (SHA-256 of the UTF-8 text, in hex),
  \<open>hook\<close> (the stages at which the fault hook raises), \<open>now\<close> (the clock), \<open>uid\<close> (\<open>uuid.uuid4\<close>).
  Timestamp columns hold the instant their canonical text denotes.
\<close>

section \<open>Tables\<close>

datatype gs_error =
    GsValueError string | GsTypeError string | ConflictError string | FencedError string
  | ReplayError string | ControlFailure string | LateEvidence string
  | IntegrityError string | FaultInjected string

record head_row =
  h_repository_id :: string
  h_pr_number :: int
  h_head_sha :: string
  h_head_generation :: int

record gate_row =
  g_logical_key :: string
  g_generation :: int
  g_head_generation :: int
  g_base_sha :: string
  g_tested_merge_sha :: string
  g_owner :: string
  g_lease_epoch :: int
  g_lease_expires_at :: instant
  g_check_run_id :: int
  g_winner :: "string option"
  g_result_kind :: "string option"
  g_evidence_digest :: "string option"
  g_terminal_json :: "string option"
  g_created_at :: instant
  g_updated_at :: instant

record nonce_row =
  n_attestation_id :: string
  n_nonce_hash :: string
  n_logical_key :: string
  n_generation :: int
  n_head_generation :: int
  n_envelope_digest :: string
  n_target_digest :: string
  n_bound_at :: instant

text \<open>\<open>a_execution\<close> is what \<open>json.loads\<close> reads back from the \<open>execution_json\<close> column.\<close>

record admission_row =
  a_logical_key :: string
  a_generation :: int
  a_admission_id :: string
  a_admission_digest :: string
  a_marker_core_digest :: string
  a_marker_digest :: string
  a_authority_json :: string
  a_execution_json :: string
  a_execution :: pydict
  a_started_at :: instant
  a_execution_deadline :: instant

record outbox_row =
  o_outbox_key :: string
  o_logical_key :: string
  o_generation :: int
  o_winner :: string
  o_evidence_digest :: string
  o_check_run_id :: int
  o_payload_json :: string
  o_state :: string
  o_attempts :: int
  o_created_at :: instant
  o_delivered_at :: "instant option"

record gate_store =
  heads :: "head_row list"
  gates :: "gate_row list"
  nonce_bindings :: "nonce_row list"
  admissions :: "admission_row list"
  outbox :: "outbox_row list"

definition empty_store :: gate_store where
  "empty_store = \<lparr>heads = [], gates = [], nonce_bindings = [], admissions = [], outbox = []\<rparr>"

definition head_key :: "head_row \<Rightarrow> string \<times> int" where
  "head_key r = (h_repository_id r, h_pr_number r)"

definition gate_key :: "gate_row \<Rightarrow> string \<times> int" where
  "gate_key r = (g_logical_key r, g_generation r)"

definition nonce_key :: "nonce_row \<Rightarrow> string \<times> string" where
  "nonce_key r = (n_attestation_id r, n_nonce_hash r)"

definition admission_key :: "admission_row \<Rightarrow> string \<times> int" where
  "admission_key r = (a_logical_key r, a_generation r)"

section \<open>Values returned to callers\<close>

record Gate =
  gate_logical_key :: string
  gate_generation :: int
  gate_head_generation :: int
  gate_owner :: string
  gate_lease_epoch :: int
  gate_lease_expires_at :: instant
  gate_base_sha :: string
  gate_tested_merge_sha :: string
  gate_check_run_id :: int
  gate_winner :: "string option"
  gate_result_kind :: "string option"
  gate_evidence_digest :: "string option"

record Admission =
  admission_id :: string
  admission_digest :: string
  marker_digest :: string
  started_at :: instant
  execution_deadline :: instant

record Completion =
  c_status :: string
  c_winner :: string
  c_result_kind :: string
  c_evidence_digest :: string
  c_outbox_key :: string

definition gate_from_row :: "gate_row \<Rightarrow> Gate" where
  "gate_from_row r =
     \<lparr>gate_logical_key = g_logical_key r, gate_generation = g_generation r,
      gate_head_generation = g_head_generation r, gate_owner = g_owner r,
      gate_lease_epoch = g_lease_epoch r, gate_lease_expires_at = g_lease_expires_at r,
      gate_base_sha = g_base_sha r, gate_tested_merge_sha = g_tested_merge_sha r,
      gate_check_run_id = g_check_run_id r, gate_winner = g_winner r,
      gate_result_kind = g_result_kind r, gate_evidence_digest = g_evidence_digest r\<rparr>"

definition admission_from_row :: "admission_row \<Rightarrow> Admission" where
  "admission_from_row r =
     \<lparr>admission_id = a_admission_id r, admission_digest = a_admission_digest r,
      marker_digest = a_marker_digest r, started_at = a_started_at r,
      execution_deadline = a_execution_deadline r\<rparr>"

section \<open>Transactions, text and queries\<close>

definition transaction ::
  "(gate_store \<Rightarrow> (gs_error + 'a) \<times> gate_store) \<Rightarrow> gate_store \<Rightarrow> (gs_error + 'a) \<times> gate_store" where
  "transaction body db =
     (case body db of (Inl e, _) \<Rightarrow> (Inl e, db) | (Inr a, db') \<Rightarrow> (Inr a, db'))"

fun gs_utc :: "pydatetime \<Rightarrow> gs_error + instant" where
  "gs_utc (Aware t) = Inr t"
| "gs_utc (Naive t) = Inl (GsValueError ''timestamps must be timezone-aware'')"

definition canonical :: "pydict \<Rightarrow> gs_error + string" where
  "canonical d =
     (if json_safe (PDict d) then Inr (json_text (PDict d))
      else Inl (GsTypeError ''Object of type datetime is not JSON serializable''))"

definition digest :: "(string \<Rightarrow> string) \<Rightarrow> pydict \<Rightarrow> gs_error + string" where
  "digest H d = bindE (canonical d) (\<lambda>t. Inr (H t))"

definition outbox_key_of :: "string \<Rightarrow> int \<Rightarrow> string \<Rightarrow> string \<Rightarrow> string" where
  "outbox_key_of logical_key generation winner evidence_digest =
     logical_key @ '':'' @ int_str generation @ '':'' @ winner @ '':'' @ evidence_digest"

text \<open>\<open>SELECT * FROM gates WHERE logical_key=? ORDER BY generation DESC LIMIT 1\<close>.\<close>

fun latest_gate :: "string \<Rightarrow> gate_row list \<Rightarrow> gate_row option" where
  "latest_gate k [] = None"
| "latest_gate k (r # rs) =
     (if g_logical_key r = k then
        (case latest_gate k rs of
           None \<Rightarrow> Some r
         | Some r' \<Rightarrow> if g_generation r < g_generation r' then Some r' else Some r)
      else latest_gate k rs)"

definition insert_gate :: "gate_row \<Rightarrow> gate_store \<Rightarrow> gs_error + gate_store" where
  "insert_gate r db =
     (if g_generation r \<le> 0 \<or> g_head_generation r \<le> 0 \<or> g_lease_epoch r \<le> 0
         \<or> gate_key r \<in> gate_key ` set (gates db)
      then Inl (IntegrityError ''gates'') else Inr (db\<lparr>gates := gates db @ [r]\<rparr>))"

definition insert_admission :: "admission_row \<Rightarrow> gate_store \<Rightarrow> gs_error + gate_store" where
  "insert_admission r db =
     (if admission_key r \<in> admission_key ` set (admissions db)
         \<or> a_admission_id r \<in> a_admission_id ` set (admissions db)
         \<or> a_admission_digest r \<in> a_admission_digest ` set (admissions db)
         \<or> a_marker_digest r \<in> a_marker_digest ` set (admissions db)
         \<or> admission_key r \<notin> gate_key ` set (gates db)
      then Inl (IntegrityError ''admissions'') else Inr (db\<lparr>admissions := admissions db @ [r]\<rparr>))"

definition insert_outbox :: "outbox_row \<Rightarrow> gate_store \<Rightarrow> gs_error + gate_store" where
  "insert_outbox r db =
     (if o_outbox_key r \<in> o_outbox_key ` set (outbox db)
         \<or> (o_logical_key r, o_generation r) \<notin> gate_key ` set (gates db)
      then Inl (IntegrityError ''outbox'') else Inr (db\<lparr>outbox := outbox db @ [r]\<rparr>))"

text \<open>The column lists of the UPDATE statements.\<close>

definition set_lease :: "string \<Rightarrow> int \<Rightarrow> instant \<Rightarrow> instant \<Rightarrow> gate_row \<Rightarrow> gate_row" where
  "set_lease owner epoch expires now r =
     r\<lparr>g_owner := owner, g_lease_epoch := epoch, g_lease_expires_at := expires, g_updated_at := now\<rparr>"

definition set_expiry :: "instant \<Rightarrow> instant \<Rightarrow> gate_row \<Rightarrow> gate_row" where
  "set_expiry expires now r = r\<lparr>g_lease_expires_at := expires, g_updated_at := now\<rparr>"

definition set_winner :: "string \<Rightarrow> instant \<Rightarrow> gate_row \<Rightarrow> gate_row" where
  "set_winner w now r = r\<lparr>g_winner := Some w, g_updated_at := now\<rparr>"

definition set_terminal :: "string \<Rightarrow> string \<Rightarrow> string \<Rightarrow> string \<Rightarrow> instant \<Rightarrow> gate_row \<Rightarrow> gate_row" where
  "set_terminal w kind dig json now r =
     r\<lparr>g_winner := Some w, g_result_kind := Some kind, g_evidence_digest := Some dig,
       g_terminal_json := Some json, g_updated_at := now\<rparr>"

definition set_delivered :: "instant \<Rightarrow> outbox_row \<Rightarrow> outbox_row" where
  "set_delivered now r =
     r\<lparr>o_state := ''delivered'', o_attempts := o_attempts r + 1, o_delivered_at := Some now\<rparr>"

definition set_attempted :: "outbox_row \<Rightarrow> outbox_row" where
  "set_attempted r = r\<lparr>o_attempts := o_attempts r + 1\<rparr>"

definition set_head :: "string \<Rightarrow> int \<Rightarrow> head_row \<Rightarrow> head_row" where
  "set_head sha generation r = r\<lparr>h_head_sha := sha, h_head_generation := generation\<rparr>"

section \<open>Guards shared by the methods\<close>

definition owned ::
  "string \<Rightarrow> int \<Rightarrow> string \<Rightarrow> int \<Rightarrow> instant \<Rightarrow> gate_store \<Rightarrow> gs_error + gate_row" where
  "owned logical_key generation owner lease_epoch now db =
     (if map_option g_generation (latest_gate logical_key (gates db)) \<noteq> Some generation then
        Inl (FencedError ''generation is not current'')
      else case select_key gate_key (logical_key, generation) (gates db) of
        None \<Rightarrow> Inl (FencedError ''owner or lease epoch is stale'')
      | Some row \<Rightarrow>
          if g_owner row \<noteq> owner \<or> g_lease_epoch row \<noteq> lease_epoch then
            Inl (FencedError ''owner or lease epoch is stale'')
          else if g_lease_expires_at row \<le> now then Inl (FencedError ''lease expired'')
          else Inr row)"

definition require_admission ::
  "string \<Rightarrow> int \<Rightarrow> string \<Rightarrow> string \<Rightarrow> gate_store \<Rightarrow> gs_error + admission_row" where
  "require_admission logical_key generation adm_id adm_digest db =
     (case select_key admission_key (logical_key, generation) (admissions db) of
        None \<Rightarrow> Inl (ControlFailure ''missing, forged or mismatched local admission'')
      | Some row \<Rightarrow>
          if a_admission_id row \<noteq> adm_id \<or> a_admission_digest row \<noteq> adm_digest then
            Inl (ControlFailure ''missing, forged or mismatched local admission'')
          else Inr row)"

text \<open>The outbox row \<open>_complete\<close> inserts, with the payload it publishes.\<close>

definition terminal_outbox_row ::
  "string \<Rightarrow> int \<Rightarrow> string \<Rightarrow> string \<Rightarrow> pydict \<Rightarrow> string \<Rightarrow> int \<Rightarrow> instant \<Rightarrow> outbox_row" where
  "terminal_outbox_row logical_key generation winner result_kind evidence evidence_digest
     check_run_id now =
     \<lparr>o_outbox_key = outbox_key_of logical_key generation winner evidence_digest,
      o_logical_key = logical_key, o_generation = generation, o_winner = winner,
      o_evidence_digest = evidence_digest, o_check_run_id = check_run_id,
      o_payload_json = json_text (PDict
        [(''logical_key'', PStr logical_key), (''generation'', PInt generation),
         (''winner'', PStr winner), (''result_kind'', PStr result_kind),
         (''evidence_digest'', PStr evidence_digest), (''evidence'', PDict evidence)]),
      o_state = ''pending'', o_attempts = 0, o_created_at = now, o_delivered_at = None\<rparr>"

text \<open>\<open>_complete\<close>: the only writer of a terminal result, and of the outbox row that goes with it.\<close>

definition complete ::
  "(string \<Rightarrow> string) \<Rightarrow> (string \<Rightarrow> bool) \<Rightarrow> string \<Rightarrow> int \<Rightarrow> string \<Rightarrow> string \<Rightarrow> pydict \<Rightarrow> instant
   \<Rightarrow> gate_store \<Rightarrow> (gs_error + Completion) \<times> gate_store" where
  "complete H hook logical_key generation winner result_kind evidence now db =
     (case canonical evidence of Inl e \<Rightarrow> (Inl e, db) | Inr evidence_json \<Rightarrow>
      let evidence_digest = H evidence_json;
          key = outbox_key_of logical_key generation winner evidence_digest
      in case select_key gate_key (logical_key, generation) (gates db) of
        None \<Rightarrow> (Inl (GsTypeError '''NoneType' object is not subscriptable''), db)
      | Some gate \<Rightarrow>
          if g_winner gate \<noteq> None \<and> g_winner gate \<noteq> Some winner then
            (Inl (FencedError ''winner is already decided''), db)
          else if g_result_kind gate \<noteq> None then
            (if g_result_kind gate = Some result_kind \<and> g_evidence_digest gate = Some evidence_digest
             then (Inr \<lparr>c_status = ''idempotent'', c_winner = winner, c_result_kind = result_kind,
                        c_evidence_digest = evidence_digest, c_outbox_key = key\<rparr>, db)
             else (Inl (ConflictError ''terminal generation already has different evidence''), db))
          else
            let db1 = db\<lparr>gates := update_key gate_key
                  (set_terminal winner result_kind evidence_digest evidence_json now)
                  (logical_key, generation) (gates db)\<rparr>
            in if hook ''after_winner'' then (Inl (FaultInjected ''after_winner''), db1)
            else if hook ''after_terminal'' then (Inl (FaultInjected ''after_terminal''), db1)
            else
              let row = terminal_outbox_row logical_key generation winner result_kind evidence
                    evidence_digest (g_check_run_id gate) now
              in case insert_outbox row db1 of
                Inl e \<Rightarrow> (Inl e, db1)
              | Inr db2 \<Rightarrow>
                  if hook ''after_outbox'' then (Inl (FaultInjected ''after_outbox''), db2)
                  else (Inr \<lparr>c_status = ''committed'', c_winner = winner, c_result_kind = result_kind,
                             c_evidence_digest = evidence_digest, c_outbox_key = key\<rparr>, db2))"

section \<open>Operations\<close>

definition observe_head ::
  "string \<Rightarrow> int \<Rightarrow> string \<Rightarrow> gate_store \<Rightarrow> (gs_error + int) \<times> gate_store" where
  "observe_head repository_id pr_number head_sha =
     (\<lambda>db. if repository_id = [] \<or> pr_number \<le> 0 \<or> head_sha = [] then
        (Inl (GsValueError ''repository_id, positive pr_number and head_sha are required''), db)
      else transaction (\<lambda>db.
        case select_key head_key (repository_id, pr_number) (heads db) of
          None \<Rightarrow>
            (Inr 1, db\<lparr>heads := heads db @ [\<lparr>h_repository_id = repository_id, h_pr_number = pr_number,
                       h_head_sha = head_sha, h_head_generation = 1\<rparr>]\<rparr>)
        | Some row \<Rightarrow>
            if h_head_sha row = head_sha then (Inr (h_head_generation row), db)
            else
              let generation = h_head_generation row + 1
              in (Inr generation,
                  db\<lparr>heads := update_key head_key (set_head head_sha generation)
                       (repository_id, pr_number) (heads db)\<rparr>)) db)"

definition acquire ::
  "instant \<Rightarrow> string \<Rightarrow> int \<Rightarrow> string \<Rightarrow> string \<Rightarrow> string \<Rightarrow> int \<Rightarrow> int \<Rightarrow> gate_store
   \<Rightarrow> (gs_error + Gate) \<times> gate_store" where
  "acquire now logical_key head_generation base_sha tested_merge_sha owner check_run_id ttl =
     (\<lambda>db. if ttl \<le> 0 then (Inl (GsValueError ''lease_ttl must be positive''), db)
      else transaction (\<lambda>db.
        let latest = latest_gate logical_key (gates db);
            fresh = (\<lambda>generation. \<lparr>g_logical_key = logical_key, g_generation = generation,
              g_head_generation = head_generation, g_base_sha = base_sha,
              g_tested_merge_sha = tested_merge_sha, g_owner = owner, g_lease_epoch = 1,
              g_lease_expires_at = now + ttl, g_check_run_id = check_run_id, g_winner = None,
              g_result_kind = None, g_evidence_digest = None, g_terminal_json = None,
              g_created_at = now, g_updated_at = now\<rparr>);
            insert = (\<lambda>generation. case insert_gate (fresh generation) db of
              Inl e \<Rightarrow> (Inl e, db)
            | Inr db' \<Rightarrow> (Inr (gate_from_row (fresh generation)), db'))
        in case latest of
          None \<Rightarrow> insert 1
        | Some row \<Rightarrow>
            if \<not> (g_head_generation row = head_generation \<and> g_base_sha row = base_sha
                  \<and> g_tested_merge_sha row = tested_merge_sha)
            then insert (g_generation row + 1)
            else
              let lease_live = now < g_lease_expires_at row in
              if g_owner row \<noteq> owner \<and> lease_live then
                (Inl (ConflictError ''generation already has a live owner''), db)
              else if g_winner row \<noteq> None \<and> g_owner row \<noteq> owner then
                (Inl (ConflictError ''terminal generation cannot be reacquired by another owner''), db)
              else
                let epoch = (if g_owner row \<noteq> owner \<or> \<not> lease_live
                             then g_lease_epoch row + 1 else g_lease_epoch row);
                    upd = set_lease owner epoch (now + ttl) now
                in (Inr (gate_from_row (upd row)),
                    db\<lparr>gates := update_key gate_key upd (gate_key row) (gates db)\<rparr>)) db)"

definition heartbeat ::
  "instant \<Rightarrow> string \<Rightarrow> int \<Rightarrow> string \<Rightarrow> int \<Rightarrow> int \<Rightarrow> gate_store \<Rightarrow> (gs_error + Gate) \<times> gate_store" where
  "heartbeat now logical_key generation owner lease_epoch ttl =
     transaction (\<lambda>db.
       case owned logical_key generation owner lease_epoch now db of
         Inl e \<Rightarrow> (Inl e, db)
       | Inr row \<Rightarrow>
           (Inr (gate_from_row (row\<lparr>g_lease_expires_at := now + ttl\<rparr>)),
            db\<lparr>gates := update_key gate_key (set_expiry (now + ttl) now)
                 (logical_key, generation) (gates db)\<rparr>))"

definition bind_attestation_nonce ::
  "(string \<Rightarrow> string) \<Rightarrow> instant \<Rightarrow> string \<Rightarrow> string \<Rightarrow> string \<Rightarrow> int \<Rightarrow> int \<Rightarrow> string \<Rightarrow> pydict option
   \<Rightarrow> gate_store \<Rightarrow> (gs_error + string) \<times> gate_store" where
  "bind_attestation_nonce H now attestation_id nonce_hash logical_key generation
     expected_head_generation envelope_digest target =
     (\<lambda>db. case digest H (case target of None \<Rightarrow> [] | Some t \<Rightarrow> t) of
        Inl e \<Rightarrow> (Inl e, db)
      | Inr target_digest \<Rightarrow> transaction (\<lambda>db.
          if map_option g_head_generation (select_key gate_key (logical_key, generation) (gates db))
             \<noteq> Some expected_head_generation
          then (Inl (FencedError ''head generation expectation does not match GateStore''), db)
          else case select_key nonce_key (attestation_id, nonce_hash) (nonce_bindings db) of
            Some existing \<Rightarrow>
              if n_logical_key existing = logical_key \<and> n_generation existing = generation
                 \<and> n_head_generation existing = expected_head_generation
                 \<and> n_envelope_digest existing = envelope_digest
                 \<and> n_target_digest existing = target_digest
              then (Inr ''idempotent'', db)
              else (Inl (ReplayError ''nonce is already bound to another gate tuple''), db)
          | None \<Rightarrow>
              (Inr ''bound'', db\<lparr>nonce_bindings := nonce_bindings db @
                 [\<lparr>n_attestation_id = attestation_id, n_nonce_hash = nonce_hash,
                   n_logical_key = logical_key, n_generation = generation,
                   n_head_generation = expected_head_generation,
                   n_envelope_digest = envelope_digest, n_target_digest = target_digest,
                   n_bound_at = now\<rparr>]\<rparr>)) db)"

definition execution_of :: "int \<Rightarrow> int \<Rightarrow> string \<Rightarrow> string \<Rightarrow> string \<Rightarrow> pydict" where
  "execution_of child_run_id child_job_id tested_merge_sha canonical_command_digest wrapper_digest =
     [(''child_run_id'', PInt child_run_id), (''child_job_id'', PInt child_job_id),
      (''tested_merge_sha'', PStr tested_merge_sha),
      (''canonical_command_digest'', PStr canonical_command_digest),
      (''wrapper_digest'', PStr wrapper_digest)]"

text \<open>
  The row a new admission inserts: the marker binds the admission digest, and the admission digest
  binds the digest of the marker's core.
\<close>

definition admission_row_of ::
  "(string \<Rightarrow> string) \<Rightarrow> instant \<Rightarrow> string \<Rightarrow> gate_row \<Rightarrow> string \<Rightarrow> int \<Rightarrow> pydict \<Rightarrow> pydict \<Rightarrow> pydict
   \<Rightarrow> string \<Rightarrow> instant \<Rightarrow> gs_error + admission_row" where
  "admission_row_of H now uid gate owner lease_epoch verifier_decision authority execution
     authority_json deadline =
     (let marker_core = [(''logical_key'', PStr (g_logical_key gate)),
            (''generation'', PInt (g_generation gate))] @ execution
            @ [(''started_at'', PStr (timestamp now))]
      in bindE (digest H marker_core) (\<lambda>marker_core_digest.
         bindE (digest H
           [(''logical_key'', PStr (g_logical_key gate)), (''generation'', PInt (g_generation gate)),
            (''head_generation'', PInt (g_head_generation gate)), (''owner'', PStr owner),
            (''lease_epoch'', PInt lease_epoch), (''authority'', PDict authority),
            (''execution'', PDict execution), (''verifier_decision'', PDict verifier_decision),
            (''execution_deadline'', PStr (timestamp deadline)),
            (''marker_core_digest'', PStr marker_core_digest)]) (\<lambda>adm_digest.
         bindE (digest H (pmerge marker_core
           [(''admission_id'', PStr uid), (''admission_digest'', PStr adm_digest)])) (\<lambda>mark_digest.
         Inr \<lparr>a_logical_key = g_logical_key gate, a_generation = g_generation gate,
              a_admission_id = uid, a_admission_digest = adm_digest,
              a_marker_core_digest = marker_core_digest, a_marker_digest = mark_digest,
              a_authority_json = authority_json, a_execution_json = json_text (PDict execution),
              a_execution = execution, a_started_at = now, a_execution_deadline = deadline\<rparr>))))"

definition create_local_admission_after_pre_marker_verify ::
  "(string \<Rightarrow> string) \<Rightarrow> (string \<Rightarrow> bool) \<Rightarrow> instant \<Rightarrow> string \<Rightarrow> string \<Rightarrow> int \<Rightarrow> string \<Rightarrow> int
   \<Rightarrow> pydict \<Rightarrow> pydict \<Rightarrow> int \<Rightarrow> int \<Rightarrow> string \<Rightarrow> string \<Rightarrow> string \<Rightarrow> pydatetime
   \<Rightarrow> gate_store \<Rightarrow> (gs_error + Admission) \<times> gate_store" where
  "create_local_admission_after_pre_marker_verify H hook now uid logical_key generation owner
     lease_epoch verifier_decision authority child_run_id child_job_id tested_merge_sha
     canonical_command_digest wrapper_digest deadline =
     (\<lambda>db. if pget verifier_decision ''valid'' \<noteq> PBool True
              \<or> pget verifier_decision ''boundary'' \<noteq> PStr ''pre-marker''
      then (Inl (ControlFailure ''admission requires a successful current pre-marker decision''), db)
      else
        let execution = execution_of child_run_id child_job_id tested_merge_sha
              canonical_command_digest wrapper_digest
        in transaction (\<lambda>db.
          case owned logical_key generation owner lease_epoch now db of
            Inl e \<Rightarrow> (Inl e, db)
          | Inr gate \<Rightarrow>
            if g_winner gate \<noteq> None \<or> g_tested_merge_sha gate \<noteq> tested_merge_sha then
              (Inl (FencedError ''generation already decided or tested merge mismatched''), db)
            else case canonical (pmerge authority [(''verifier_decision'', PDict verifier_decision)]) of
              Inl e \<Rightarrow> (Inl e, db)
            | Inr authority_json \<Rightarrow>
              (case select_key admission_key (logical_key, generation) (admissions db) of
                 Some existing \<Rightarrow>
                   if a_authority_json existing \<noteq> authority_json
                      \<or> a_execution_json existing \<noteq> json_text (PDict execution)
                   then (Inl (ConflictError
                     ''immutable admission already exists with different authority/execution''), db)
                   else (case gs_utc deadline of
                     Inl e \<Rightarrow> (Inl e, db)
                   | Inr d \<Rightarrow>
                       if a_execution_deadline existing \<noteq> d
                       then (Inl (ConflictError
                         ''immutable admission already exists with different authority/execution''), db)
                       else (Inr (admission_from_row existing), db))
               | None \<Rightarrow>
                   (case bindE (gs_utc deadline) (\<lambda>d. bindE
                           (admission_row_of H now uid gate owner lease_epoch verifier_decision
                              authority execution authority_json d)
                           (\<lambda>row. bindE (insert_admission row db) (\<lambda>db'. Inr (row, db')))) of
                      Inl e \<Rightarrow> (Inl e, db)
                    | Inr (row, db') \<Rightarrow>
                        if hook ''after_admission_insert'' then
                          (Inl (FaultInjected ''after_admission_insert''), db')
                        else if hook ''after_marker_insert'' then
                          (Inl (FaultInjected ''after_marker_insert''), db')
                        else (Inr (admission_from_row row), db')))) db)"

definition complete_local_success_if_authorized ::
  "(string \<Rightarrow> string) \<Rightarrow> (string \<Rightarrow> bool) \<Rightarrow> instant \<Rightarrow> string \<Rightarrow> int \<Rightarrow> string \<Rightarrow> int \<Rightarrow> string
   \<Rightarrow> string \<Rightarrow> pydict \<Rightarrow> bool \<Rightarrow> pydatetime \<Rightarrow> gate_store \<Rightarrow> (gs_error + Completion) \<times> gate_store" where
  "complete_local_success_if_authorized H hook now logical_key generation owner lease_epoch
     adm_id adm_digest evidence attestation_valid attestation_expires_at =
     (\<lambda>db. case (if \<not> attestation_valid then Inr True
                 else bindE (gs_utc attestation_expires_at) (\<lambda>e. Inr (e \<le> now))) of
        Inl e \<Rightarrow> (Inl e, db)
      | Inr True \<Rightarrow>
          (Inl (FencedError ''current attestation is invalid or expired at transaction time''), db)
      | Inr False \<Rightarrow> transaction (\<lambda>db.
          case owned logical_key generation owner lease_epoch now db of
            Inl e \<Rightarrow> (Inl e, db)
          | Inr gate \<Rightarrow>
            (case require_admission logical_key generation adm_id adm_digest db of
               Inl e \<Rightarrow> (Inl e, db)
             | Inr _ \<Rightarrow>
                 complete H hook logical_key generation ''local'' ''success'' evidence now db)) db)"

definition complete_local_failure_if_current ::
  "(string \<Rightarrow> string) \<Rightarrow> (string \<Rightarrow> bool) \<Rightarrow> instant \<Rightarrow> string \<Rightarrow> int \<Rightarrow> string \<Rightarrow> int \<Rightarrow> string
   \<Rightarrow> string \<Rightarrow> pydict \<Rightarrow> pydatetime \<Rightarrow> int \<Rightarrow> int \<Rightarrow> string \<Rightarrow> string
   \<Rightarrow> gate_store \<Rightarrow> (gs_error + Completion) \<times> gate_store" where
  "complete_local_failure_if_current H hook now logical_key generation owner lease_epoch
     adm_id adm_digest evidence terminal_at child_run_id child_job_id tested_merge_sha
     canonical_command_digest =
     transaction (\<lambda>db.
       case owned logical_key generation owner lease_epoch now db of
         Inl e \<Rightarrow> (Inl e, db)
       | Inr gate \<Rightarrow>
         (case require_admission logical_key generation adm_id adm_digest db of
            Inl e \<Rightarrow> (Inl e, db)
          | Inr admission \<Rightarrow>
            let expected = [(''child_run_id'', PInt child_run_id), (''child_job_id'', PInt child_job_id),
                  (''tested_merge_sha'', PStr tested_merge_sha),
                  (''canonical_command_digest'', PStr canonical_command_digest)]
            in if list_ex (\<lambda>(k, v). \<not> py_eq (pget (a_execution admission) k) v) expected then
              (Inl (ControlFailure
                 ''failure evidence does not match immutable admission execution''), db)
            else if pget evidence ''kind'' \<noteq> PStr ''FUNCTIONAL_FAILURE''
                 \<or> pget evidence ''conclusion'' = PStr ''success'' then
              (Inl (ControlFailure ''only terminal functional failure evidence is accepted''), db)
            else (case gs_utc terminal_at of
              Inl e \<Rightarrow> (Inl e, db)
            | Inr t \<Rightarrow>
              if a_execution_deadline admission < t then
                (Inl (LateEvidence ''terminal evidence is later than the persisted deadline''), db)
              else complete H hook logical_key generation ''local'' ''functional_failure''
                (pmerge evidence ((''terminal_at'', PStr (timestamp t)) # expected)) now db)))"

definition select_github_winner ::
  "(string \<Rightarrow> bool) \<Rightarrow> instant \<Rightarrow> string \<Rightarrow> int \<Rightarrow> string \<Rightarrow> int \<Rightarrow> gate_store
   \<Rightarrow> (gs_error + string) \<times> gate_store" where
  "select_github_winner hook now logical_key generation owner lease_epoch =
     transaction (\<lambda>db.
       case owned logical_key generation owner lease_epoch now db of
         Inl e \<Rightarrow> (Inl e, db)
       | Inr gate \<Rightarrow>
           if g_winner gate = None then
             let db1 = db\<lparr>gates := update_key gate_key (set_winner ''github'' now)
                   (logical_key, generation) (gates db)\<rparr>
             in if hook ''after_winner'' then (Inl (FaultInjected ''after_winner''), db1)
                else (Inr ''selected'', db1)
           else if g_winner gate = Some ''github'' then (Inr ''idempotent'', db)
           else (Inl (FencedError ''winner is already decided''), db))"

definition complete_hosted_winner ::
  "(string \<Rightarrow> string) \<Rightarrow> (string \<Rightarrow> bool) \<Rightarrow> instant \<Rightarrow> string \<Rightarrow> int \<Rightarrow> string \<Rightarrow> int \<Rightarrow> pydict \<Rightarrow> bool
   \<Rightarrow> gate_store \<Rightarrow> (gs_error + Completion) \<times> gate_store" where
  "complete_hosted_winner H hook now logical_key generation owner lease_epoch evidence
     hosted_predicate_valid =
     (\<lambda>db. if \<not> hosted_predicate_valid then
        (Inl (ControlFailure ''hosted conclusion predicate failed''), db)
      else transaction (\<lambda>db.
        case owned logical_key generation owner lease_epoch now db of
          Inl e \<Rightarrow> (Inl e, db)
        | Inr gate \<Rightarrow>
            if g_winner gate \<noteq> Some ''github'' then
              (Inl (FencedError ''GitHub must be the immutable selected winner''), db)
            else complete H hook logical_key generation ''github''
              (if pget evidence ''conclusion'' = PStr ''success'' then ''success''
               else ''functional_failure'') evidence now db) db)"

definition pending_outbox :: "gate_store \<Rightarrow> outbox_row list" where
  "pending_outbox db =
     sort_key (\<lambda>r. (o_created_at r, o_outbox_key r)) (filter (\<lambda>r. o_state r = ''pending'') (outbox db))"

definition mark_outbox_delivered ::
  "instant \<Rightarrow> string \<Rightarrow> string \<Rightarrow> gate_store \<Rightarrow> (gs_error + string) \<times> gate_store" where
  "mark_outbox_delivered now outbox_key observed_evidence_digest =
     transaction (\<lambda>db.
       case select_key o_outbox_key outbox_key (outbox db) of
         None \<Rightarrow> (Inl (ControlFailure ''unknown outbox item''), db)
       | Some row \<Rightarrow>
           if o_evidence_digest row \<noteq> observed_evidence_digest then
             (Inl (ConflictError ''Check Run evidence marker differs from committed evidence''), db)
           else if o_state row = ''delivered'' then (Inr ''idempotent'', db)
           else (Inr ''delivered'',
                 db\<lparr>outbox := update_key o_outbox_key (set_delivered now) outbox_key (outbox db)\<rparr>))"

definition record_outbox_attempt :: "string \<Rightarrow> gate_store \<Rightarrow> (gs_error + unit) \<times> gate_store" where
  "record_outbox_attempt outbox_key =
     transaction (\<lambda>db.
       let db' = db\<lparr>outbox := update_key o_outbox_key set_attempted outbox_key (outbox db)\<rparr>
       in if length (filter (\<lambda>r. o_outbox_key r = outbox_key) (outbox db)) \<noteq> 1
          then (Inl (ControlFailure ''unknown outbox item''), db') else (Inr (), db'))"

definition get_gate :: "string \<Rightarrow> int option \<Rightarrow> gate_store \<Rightarrow> Gate option" where
  "get_gate logical_key generation db =
     map_option gate_from_row
       (case generation of
          None \<Rightarrow> latest_gate logical_key (gates db)
        | Some n \<Rightarrow> select_key gate_key (logical_key, n) (gates db))"

definition get_admission :: "string \<Rightarrow> int \<Rightarrow> gate_store \<Rightarrow> Admission option" where
  "get_admission logical_key generation db =
     map_option admission_from_row (select_key admission_key (logical_key, generation) (admissions db))"

end
