(* ===== verification/Gatestore_Safety.thy ===== *)
theory Gatestore_Safety
  imports Gatestore
begin

text \<open>
  What the GateStore promises. \<open>gs_change\<close> is its abstract specification: the twelve ways a committed
  transaction may change the tables, each with the condition the protocol needs. Every method of
  \<open>Gatestore\<close> refines it (\<open>gs_step_change\<close>), the invariant \<open>store_inv\<close> and the permanent facts
  \<open>gs_holds\<close> are proved once per kind of change, and the locale \<open>stable_machine\<close> carries both to
  every sequence of calls, by any owners, with faults injected anywhere.
\<close>

section \<open>Every call of the store\<close>

datatype gs_call =
    ObserveHead string int string
  | Acquire instant string int string string string int int
  | Heartbeat instant string int string int int
  | BindNonce instant string string string int int string "pydict option"
  | CreateAdmission "string \<Rightarrow> bool" instant string string int string int pydict pydict int int
      string string string pydatetime
  | CompleteSuccess "string \<Rightarrow> bool" instant string int string int string string pydict bool pydatetime
  | CompleteFailure "string \<Rightarrow> bool" instant string int string int string string pydict pydatetime
      int int string string
  | SelectGithub "string \<Rightarrow> bool" instant string int string int
  | CompleteHosted "string \<Rightarrow> bool" instant string int string int pydict bool
  | MarkDelivered instant string string
  | RecordAttempt string

fun gs_step :: "(string \<Rightarrow> string) \<Rightarrow> gs_call \<Rightarrow> gate_store \<Rightarrow> gate_store" where
  "gs_step H (ObserveHead r n h) db = snd (observe_head r n h db)"
| "gs_step H (Acquire now k hg b m ow c ttl) db = snd (acquire now k hg b m ow c ttl db)"
| "gs_step H (Heartbeat now k g ow e ttl) db = snd (heartbeat now k g ow e ttl db)"
| "gs_step H (BindNonce now a n k g hg env t) db = snd (bind_attestation_nonce H now a n k g hg env t db)"
| "gs_step H (CreateAdmission hook now uid k g ow e vd au run job m c w dl) db =
     snd (create_local_admission_after_pre_marker_verify H hook now uid k g ow e vd au run job m c w dl db)"
| "gs_step H (CompleteSuccess hook now k g ow e ai ad ev ok ex) db =
     snd (complete_local_success_if_authorized H hook now k g ow e ai ad ev ok ex db)"
| "gs_step H (CompleteFailure hook now k g ow e ai ad ev t run job m c) db =
     snd (complete_local_failure_if_current H hook now k g ow e ai ad ev t run job m c db)"
| "gs_step H (SelectGithub hook now k g ow e) db = snd (select_github_winner hook now k g ow e db)"
| "gs_step H (CompleteHosted hook now k g ow e ev ok) db =
     snd (complete_hosted_winner H hook now k g ow e ev ok db)"
| "gs_step H (MarkDelivered now k d) db = snd (mark_outbox_delivered now k d db)"
| "gs_step H (RecordAttempt k) db = snd (record_outbox_attempt k db)"

section \<open>The abstract specification\<close>

definition gate_at :: "gate_store \<Rightarrow> string \<times> int \<Rightarrow> gate_row option" where
  "gate_at db k = select_key gate_key k (gates db)"

inductive gs_change :: "gate_store \<Rightarrow> gate_store \<Rightarrow> bool" where
  stay: "gs_change db db"
| new_head: "head_key r \<notin> head_key ` set (heads db) \<Longrightarrow> h_head_generation r = 1 \<Longrightarrow>
    gs_change db (db\<lparr>heads := heads db @ [r]\<rparr>)"
| bump_head: "select_key head_key k (heads db) = Some r \<Longrightarrow> sha \<noteq> h_head_sha r \<Longrightarrow>
    gs_change db (db\<lparr>heads := update_key head_key (set_head sha (h_head_generation r + 1)) k (heads db)\<rparr>)"
| new_gate: "gate_key r \<notin> gate_key ` set (gates db) \<Longrightarrow> 0 < g_generation r \<Longrightarrow>
    0 < g_head_generation r \<Longrightarrow> g_lease_epoch r = 1 \<Longrightarrow>
    (\<forall>r' \<in> set (gates db). g_logical_key r' = g_logical_key r \<longrightarrow> g_generation r' < g_generation r) \<Longrightarrow>
    g_winner r = None \<Longrightarrow> g_result_kind r = None \<Longrightarrow> g_evidence_digest r = None \<Longrightarrow>
    gs_change db (db\<lparr>gates := gates db @ [r]\<rparr>)"
| lease: "gate_at db k = Some r \<Longrightarrow> g_lease_epoch r \<le> epoch \<Longrightarrow>
    (epoch = g_lease_epoch r \<longrightarrow> owner = g_owner r) \<Longrightarrow>
    gs_change db (db\<lparr>gates := update_key gate_key (set_lease owner epoch expires now) k (gates db)\<rparr>)"
| extend: "gate_at db k = Some r \<Longrightarrow>
    gs_change db (db\<lparr>gates := update_key gate_key (set_expiry expires now) k (gates db)\<rparr>)"
| choose_github: "gate_at db k = Some r \<Longrightarrow> g_winner r = None \<Longrightarrow>
    gs_change db (db\<lparr>gates := update_key gate_key (set_winner ''github'' now) k (gates db)\<rparr>)"
| finish: "gate_at db k = Some r \<Longrightarrow> g_result_kind r = None \<Longrightarrow> g_winner r \<in> {None, Some w} \<Longrightarrow>
    w \<in> {''local'', ''github''} \<Longrightarrow> rk \<in> {''success'', ''functional_failure''} \<Longrightarrow>
    o_outbox_key row \<notin> o_outbox_key ` set (outbox db) \<Longrightarrow>
    o_outbox_key row = outbox_key_of (fst k) (snd k) w dig \<Longrightarrow>
    (o_logical_key row, o_generation row) = k \<Longrightarrow> o_winner row = w \<Longrightarrow> o_evidence_digest row = dig \<Longrightarrow>
    o_check_run_id row = g_check_run_id r \<Longrightarrow> o_state row = ''pending'' \<Longrightarrow>
    gs_change db (db\<lparr>gates := update_key gate_key (set_terminal w rk dig js now) k (gates db),
      outbox := outbox db @ [row]\<rparr>)"
| admit: "gate_at db (admission_key a) = Some r \<Longrightarrow> g_winner r = None \<Longrightarrow>
    admission_key a \<notin> admission_key ` set (admissions db) \<Longrightarrow>
    gs_change db (db\<lparr>admissions := admissions db @ [a]\<rparr>)"
| bind: "nonce_key b \<notin> nonce_key ` set (nonce_bindings db) \<Longrightarrow>
    gs_change db (db\<lparr>nonce_bindings := nonce_bindings db @ [b]\<rparr>)"
| deliver: "gs_change db (db\<lparr>outbox := update_key o_outbox_key (set_delivered now) ok (outbox db)\<rparr>)"
| attempt: "gs_change db (db\<lparr>outbox := update_key o_outbox_key set_attempted ok (outbox db)\<rparr>)"

section \<open>Table updates\<close>

interpretation lease_upd: row_update gate_key "set_lease ow e ex now" for ow e ex now
  by unfold_locales (simp add: gate_key_def set_lease_def)

interpretation expiry_upd: row_update gate_key "set_expiry ex now" for ex now
  by unfold_locales (simp add: gate_key_def set_expiry_def)

interpretation winner_upd: row_update gate_key "set_winner w now" for w now
  by unfold_locales (simp add: gate_key_def set_winner_def)

interpretation terminal_upd: row_update gate_key "set_terminal w rk dig js now" for w rk dig js now
  by unfold_locales (simp add: gate_key_def set_terminal_def)

interpretation delivered_upd: row_update o_outbox_key "set_delivered now" for now
  by unfold_locales (simp add: set_delivered_def)

interpretation attempted_upd: row_update o_outbox_key set_attempted
  by unfold_locales (simp add: set_attempted_def)

interpretation head_upd: row_update head_key "set_head sha n" for sha n
  by unfold_locales (simp add: head_key_def set_head_def)

lemmas table_select = lease_upd.select_update expiry_upd.select_update winner_upd.select_update
  terminal_upd.select_update delivered_upd.select_update attempted_upd.select_update
  head_upd.select_update

lemmas table_keys = lease_upd.update_keys expiry_upd.update_keys winner_upd.update_keys
  terminal_upd.update_keys delivered_upd.update_keys attempted_upd.update_keys head_upd.update_keys

lemmas table_images = lease_upd.update_image expiry_upd.update_image winner_upd.update_image
  terminal_upd.update_image delivered_upd.update_image attempted_upd.update_image
  head_upd.update_image

lemma set_lease_sel [simp]:
  "g_winner (set_lease ow e ex now r) = g_winner r"
  "g_result_kind (set_lease ow e ex now r) = g_result_kind r"
  "g_evidence_digest (set_lease ow e ex now r) = g_evidence_digest r"
  "g_generation (set_lease ow e ex now r) = g_generation r"
  "g_logical_key (set_lease ow e ex now r) = g_logical_key r"
  "g_head_generation (set_lease ow e ex now r) = g_head_generation r"
  "g_check_run_id (set_lease ow e ex now r) = g_check_run_id r"
  "g_lease_epoch (set_lease ow e ex now r) = e" "g_owner (set_lease ow e ex now r) = ow"
  by (simp_all add: set_lease_def)

lemma set_winner_sel [simp]:
  "g_winner (set_winner w now r) = Some w"
  "g_result_kind (set_winner w now r) = g_result_kind r"
  "g_evidence_digest (set_winner w now r) = g_evidence_digest r"
  "g_generation (set_winner w now r) = g_generation r"
  "g_logical_key (set_winner w now r) = g_logical_key r"
  "g_head_generation (set_winner w now r) = g_head_generation r"
  "g_check_run_id (set_winner w now r) = g_check_run_id r"
  "g_lease_epoch (set_winner w now r) = g_lease_epoch r" "g_owner (set_winner w now r) = g_owner r"
  by (simp_all add: set_winner_def)

lemma set_terminal_sel [simp]:
  "g_winner (set_terminal w rk dig js now r) = Some w"
  "g_result_kind (set_terminal w rk dig js now r) = Some rk"
  "g_evidence_digest (set_terminal w rk dig js now r) = Some dig"
  "g_generation (set_terminal w rk dig js now r) = g_generation r"
  "g_logical_key (set_terminal w rk dig js now r) = g_logical_key r"
  "g_head_generation (set_terminal w rk dig js now r) = g_head_generation r"
  "g_check_run_id (set_terminal w rk dig js now r) = g_check_run_id r"
  "g_lease_epoch (set_terminal w rk dig js now r) = g_lease_epoch r"
  "g_owner (set_terminal w rk dig js now r) = g_owner r"
  by (simp_all add: set_terminal_def)

lemma outbox_upd_sel [simp]:
  "o_outbox_key (set_delivered now r) = o_outbox_key r" "o_outbox_key (set_attempted r) = o_outbox_key r"
  "o_logical_key (set_delivered now r) = o_logical_key r" "o_logical_key (set_attempted r) = o_logical_key r"
  "o_generation (set_delivered now r) = o_generation r" "o_generation (set_attempted r) = o_generation r"
  "o_winner (set_delivered now r) = o_winner r" "o_winner (set_attempted r) = o_winner r"
  "o_evidence_digest (set_delivered now r) = o_evidence_digest r"
  "o_evidence_digest (set_attempted r) = o_evidence_digest r"
  "o_check_run_id (set_delivered now r) = o_check_run_id r"
  "o_check_run_id (set_attempted r) = o_check_run_id r"
  "o_state (set_delivered now r) = ''delivered''" "o_state (set_attempted r) = o_state r"
  by (simp_all add: set_delivered_def set_attempted_def)

lemma set_expiry_sel [simp]:
  "g_winner (set_expiry ex now r) = g_winner r"
  "g_result_kind (set_expiry ex now r) = g_result_kind r"
  "g_evidence_digest (set_expiry ex now r) = g_evidence_digest r"
  "g_generation (set_expiry ex now r) = g_generation r"
  "g_logical_key (set_expiry ex now r) = g_logical_key r"
  "g_head_generation (set_expiry ex now r) = g_head_generation r"
  "g_check_run_id (set_expiry ex now r) = g_check_run_id r"
  "g_lease_epoch (set_expiry ex now r) = g_lease_epoch r" "g_owner (set_expiry ex now r) = g_owner r"
  by (simp_all add: set_expiry_def)

lemma latest_gate_None: "latest_gate k rs = None \<longleftrightarrow> (\<forall>r \<in> set rs. g_logical_key r \<noteq> k)"
  by (induction rs) (auto split: option.splits)

lemma latest_gate_mem: "latest_gate k rs = Some r \<Longrightarrow> r \<in> set rs \<and> g_logical_key r = k"
  by (induction rs arbitrary: r) (auto split: if_splits option.splits)

lemma latest_gate_max:
  "latest_gate k rs = Some r \<Longrightarrow> r' \<in> set rs \<Longrightarrow> g_logical_key r' = k \<Longrightarrow> g_generation r' \<le> g_generation r"
proof (induction rs arbitrary: r)
  case (Cons x xs)
  then show ?case
    by (cases "latest_gate k xs")
      (use latest_gate_None [of k xs] in \<open>auto split: if_splits intro: order_trans less_imp_le\<close>)
qed simp

lemma latest_gate_SomeD:
  "latest_gate k rs = Some r \<Longrightarrow> r \<in> set rs \<and> g_logical_key r = k
     \<and> (\<forall>r' \<in> set rs. g_logical_key r' = k \<longrightarrow> g_generation r' \<le> g_generation r)"
  using latest_gate_mem latest_gate_max by blast

lemma owned_InrD:
  "owned k g ow e now db = Inr r \<Longrightarrow> gate_at db (k, g) = Some r \<and> g_owner r = ow
     \<and> g_lease_epoch r = e \<and> now < g_lease_expires_at r
     \<and> (\<exists>r'. latest_gate k (gates db) = Some r' \<and> g_generation r' = g)"
  by (auto simp: owned_def gate_at_def split: if_splits option.splits)

lemma transaction_cases:
  "snd (transaction body db) = db \<or> (\<exists>a. body db = (Inr a, snd (transaction body db)))"
  by (auto simp: transaction_def split: prod.splits sum.splits)

lemma transaction_changeI:
  assumes "\<And>a db'. body db = (Inr a, db') \<Longrightarrow> gs_change db db'"
  shows "gs_change db (snd (transaction body db))"
  using transaction_cases [of body db] assms gs_change.stay by fastforce

section \<open>Every operation refines the specification\<close>

named_theorems refines \<open>one refinement lemma per operation\<close>

lemma observe_head_change [refines]: "gs_change db (snd (observe_head r n h db))"
  unfolding observe_head_def
  by (auto simp: Let_def select_key_None head_key_def
      intro!: transaction_changeI gs_change.stay gs_change.new_head gs_change.bump_head
      split: option.splits if_splits)

lemma insert_gate_change:
  assumes "insert_gate r db = Inr db'" and "g_lease_epoch r = 1" and "g_winner r = None"
    and "g_result_kind r = None" and "g_evidence_digest r = None"
    and "\<forall>r' \<in> set (gates db). g_logical_key r' = g_logical_key r \<longrightarrow> g_generation r' < g_generation r"
  shows "gs_change db db'"
  using assms by (auto simp: insert_gate_def split: if_splits intro!: gs_change.new_gate)

lemma acquire_change [refines]:
  assumes "distinct (map gate_key (gates db))"
  shows "gs_change db (snd (acquire now k hg b m ow c ttl db))"
proof (cases "latest_gate k (gates db)")
  case None
  moreover from None have "\<forall>r \<in> set (gates db). g_logical_key r \<noteq> k"
    by (simp add: latest_gate_None)
  ultimately show ?thesis unfolding acquire_def
    by (auto simp: Let_def split: sum.splits
        intro!: transaction_changeI gs_change.stay elim!: insert_gate_change)
next
  case (Some row)
  note top = latest_gate_SomeD [OF this]
  from top have "select_key gate_key (gate_key row) (gates db) = Some row"
    using select_key_unique [OF assms] by blast
  then have "gate_at db (gate_key row) = Some row" by (simp add: gate_at_def)
  then show ?thesis unfolding acquire_def using Some top
    by (auto simp: Let_def split: sum.splits if_splits
        intro!: transaction_changeI gs_change.stay gs_change.lease elim!: insert_gate_change)
qed

lemma heartbeat_change [refines]: "gs_change db (snd (heartbeat now k g ow e ttl db))"
  unfolding heartbeat_def
  by (rule transaction_changeI)
    (auto split: sum.splits dest: owned_InrD intro: gs_change.extend)

lemma bind_change [refines]: "gs_change db (snd (bind_attestation_nonce H now a n k g hg env t db))"
  unfolding bind_attestation_nonce_def
  by (auto simp: select_key_None nonce_key_def
      intro!: transaction_changeI gs_change.stay gs_change.bind
      split: sum.splits option.splits if_splits)

lemma admission_row_of_key:
  "admission_row_of H now uid gate ow e vd au ex aj d = Inr row \<Longrightarrow> admission_key row = gate_key gate"
  by (auto simp: admission_row_of_def Let_def bindE_eq_Inr admission_key_def gate_key_def)

lemma gate_at_key: "gate_at db k = Some r \<Longrightarrow> gate_key r = k"
  by (auto simp: gate_at_def dest: select_key_SomeD)

lemma new_admission_change:
  assumes "gate_at db k = Some gate" and "g_winner gate = None"
    and "admission_row_of H now uid gate ow e vd au ex aj d = Inr row"
    and "insert_admission row db = Inr db'"
  shows "gs_change db db'"
proof -
  have "admission_key row = k"
    using gate_at_key [OF assms(1)] admission_row_of_key [OF assms(3)] by simp
  with assms(1,2,4) show ?thesis
    by (metis gs_change.admit insert_admission_def Inl_Inr_False Inr_inject)
qed

lemma create_admission_change [refines]:
  "gs_change db (snd (create_local_admission_after_pre_marker_verify H hook now uid k g ow e vd au
     run job m c w dl db))"
  unfolding create_local_admission_after_pre_marker_verify_def Let_def
  by (auto simp: bindE_eq_Inr split: sum.splits option.splits if_splits prod.splits
      intro!: transaction_changeI gs_change.stay dest!: owned_InrD intro: new_admission_change)

lemma complete_InrD:
  assumes "complete H hook k g w rk ev now db = (Inr a, db')"
  obtains (idempotent) gate js where "canonical ev = Inr js" and "gate_at db (k, g) = Some gate"
    and "g_winner gate \<in> {None, Some w}" and "g_result_kind gate = Some rk"
    and "g_evidence_digest gate = Some (H js)" and "c_status a = ''idempotent''" and "db' = db"
  | (committed) gate js where "canonical ev = Inr js" and "gate_at db (k, g) = Some gate"
    and "g_winner gate \<in> {None, Some w}" and "g_result_kind gate = None"
    and "c_status a = ''committed''"
    and "outbox_key_of k g w (H js) \<notin> o_outbox_key ` set (outbox db)"
    and "db' = db\<lparr>gates := update_key gate_key (set_terminal w rk (H js) js now) (k, g) (gates db),
      outbox := outbox db @ [terminal_outbox_row k g w rk ev (H js) (g_check_run_id gate) now]\<rparr>"
proof -
  from assms obtain js where js: "canonical ev = Inr js"
    by (cases "canonical ev") (simp_all add: complete_def)
  with assms obtain gate where gate: "gate_at db (k, g) = Some gate"
    by (cases "gate_at db (k, g)") (simp_all add: complete_def gate_at_def)
  from assms have win: "g_winner gate \<in> {None, Some w}"
    by (auto simp: complete_def js gate [unfolded gate_at_def] Let_def split: if_splits)
  show thesis
  proof (cases "g_result_kind gate")
    case None
    with assms show thesis
      by (intro committed [OF js gate win None])
        (auto simp: complete_def js gate [unfolded gate_at_def] Let_def insert_outbox_def
          terminal_outbox_row_def split: if_splits)
  next
    case (Some rk')
    with assms have "rk' = rk" "g_evidence_digest gate = Some (H js)" "c_status a = ''idempotent''"
      "db' = db"
      by (auto simp: complete_def js gate [unfolded gate_at_def] Let_def split: if_splits)
    with Some show thesis by (intro idempotent [OF js gate win]) simp_all
  qed
qed

lemma complete_change:
  assumes "complete H hook k g w rk ev now db = (Inr a, db')"
    and "w \<in> {''local'', ''github''}" and "rk \<in> {''success'', ''functional_failure''}"
  shows "gs_change db db'"
  using assms(1)
proof (cases rule: complete_InrD)
  case idempotent
  then show ?thesis by (simp add: gs_change.stay)
next
  case committed
  with assms(2,3) show ?thesis
    by (auto simp: terminal_outbox_row_def intro!: gs_change.finish [where k = "(k, g)"])
qed

lemma complete_success_change [refines]:
  "gs_change db (snd (complete_local_success_if_authorized H hook now k g ow e ai ad ev ok ex db))"
  unfolding complete_local_success_if_authorized_def
  by (auto split: sum.splits bool.splits intro!: transaction_changeI gs_change.stay
      elim!: complete_change)

lemma complete_failure_change [refines]:
  "gs_change db (snd (complete_local_failure_if_current H hook now k g ow e ai ad ev t run job m c db))"
  unfolding complete_local_failure_if_current_def Let_def
  by (rule transaction_changeI) (auto split: sum.splits if_splits elim!: complete_change)

lemma select_github_change [refines]:
  "gs_change db (snd (select_github_winner hook now k g ow e db))"
  unfolding select_github_winner_def Let_def
  by (rule transaction_changeI)
    (auto split: sum.splits if_splits dest!: owned_InrD intro: gs_change.stay gs_change.choose_github)

lemma complete_hosted_change [refines]:
  "gs_change db (snd (complete_hosted_winner H hook now k g ow e ev ok db))"
  unfolding complete_hosted_winner_def
  by (auto split: sum.splits if_splits intro!: transaction_changeI gs_change.stay
      elim!: complete_change)

lemma mark_delivered_change [refines]: "gs_change db (snd (mark_outbox_delivered now k d db))"
  unfolding mark_outbox_delivered_def
  by (rule transaction_changeI)
    (auto split: option.splits if_splits intro: gs_change.stay gs_change.deliver)

lemma record_attempt_change [refines]: "gs_change db (snd (record_outbox_attempt k db))"
  unfolding record_outbox_attempt_def Let_def
  by (rule transaction_changeI) (auto split: if_splits intro: gs_change.attempt)

lemma gs_step_change:
  "distinct (map gate_key (gates db)) \<Longrightarrow> gs_change db (gs_step H call db)"
  by (cases call) (simp_all add: refines)

section \<open>The invariant\<close>

definition keys_inv :: "gate_store \<Rightarrow> bool" where
  "keys_inv db \<longleftrightarrow> distinct (map head_key (heads db)) \<and> distinct (map gate_key (gates db))
     \<and> distinct (map nonce_key (nonce_bindings db)) \<and> distinct (map admission_key (admissions db))
     \<and> distinct (map o_outbox_key (outbox db))"

definition gate_row_ok :: "gate_row \<Rightarrow> bool" where
  "gate_row_ok r \<longleftrightarrow> 0 < g_generation r \<and> 0 < g_head_generation r \<and> 0 < g_lease_epoch r
     \<and> g_winner r \<in> {None, Some ''local'', Some ''github''}
     \<and> (g_result_kind r = None \<longrightarrow> g_evidence_digest r = None)"

definition columns_inv :: "gate_store \<Rightarrow> bool" where
  "columns_inv db \<longleftrightarrow> (\<forall>r \<in> set (gates db). gate_row_ok r)
     \<and> (\<forall>h \<in> set (heads db). 0 < h_head_generation h)
     \<and> (\<forall>a \<in> set (admissions db). admission_key a \<in> gate_key ` set (gates db))"

definition terminal_matches :: "gate_row \<Rightarrow> outbox_row \<Rightarrow> bool" where
  "terminal_matches r row \<longleftrightarrow> g_result_kind r \<noteq> None \<and> (o_logical_key row, o_generation row) = gate_key r
     \<and> g_winner r = Some (o_winner row) \<and> g_evidence_digest r = Some (o_evidence_digest row)
     \<and> o_check_run_id row = g_check_run_id r
     \<and> o_outbox_key row = outbox_key_of (o_logical_key row) (o_generation row) (o_winner row) (o_evidence_digest row)"

definition outbox_inv :: "gate_store \<Rightarrow> bool" where
  "outbox_inv db \<longleftrightarrow> (\<forall>r \<in> set (gates db). g_result_kind r \<noteq> None \<longrightarrow> (\<exists>row \<in> set (outbox db). terminal_matches r row))
     \<and> (\<forall>row \<in> set (outbox db). \<exists>r \<in> set (gates db). terminal_matches r row)"

definition store_inv :: "gate_store \<Rightarrow> bool" where
  "store_inv db \<longleftrightarrow> keys_inv db \<and> columns_inv db \<and> outbox_inv db"

lemma keys_inv_change: "gs_change db db' \<Longrightarrow> keys_inv db \<Longrightarrow> keys_inv db'"
  by (induction rule: gs_change.induct) (auto simp: keys_inv_def table_keys)

lemma gate_at_mem: "gate_at db k = Some r \<Longrightarrow> r \<in> set (gates db)"
  by (auto simp: gate_at_def dest: select_key_SomeD)

lemma gate_at_unique:
  "keys_inv db \<Longrightarrow> gate_at db k = Some r \<Longrightarrow> x \<in> set (gates db) \<Longrightarrow> gate_key x = k \<Longrightarrow> x = r"
  by (auto simp: keys_inv_def gate_at_def dest: select_key_unique)

lemma gate_update_mem:
  assumes "keys_inv db" and "gate_at db k = Some r" and "x \<in> set (update_key gate_key f k (gates db))"
  shows "x = f r \<or> (x \<in> set (gates db) \<and> gate_key x \<noteq> k)"
  using assms(3) gate_at_unique [OF assms(1,2)] by (auto simp: update_key_def split: if_splits)

lemma columns_update:
  assumes "columns_inv db" and "keys_inv db" and "gate_at db k = Some r" and "gate_row_ok (f r)"
    and "gate_key ` set (update_key gate_key f k (gates db)) = gate_key ` set (gates db)"
  shows "columns_inv (db\<lparr>gates := update_key gate_key f k (gates db)\<rparr>)"
  using assms(1,4,5) gate_update_mem [OF assms(2,3)]
  by (auto simp: columns_inv_def)

lemma gate_at_row_ok: "columns_inv db \<Longrightarrow> gate_at db k = Some r \<Longrightarrow> gate_row_ok r"
  by (auto simp: columns_inv_def dest: gate_at_mem)

lemma columns_inv_change: "gs_change db db' \<Longrightarrow> keys_inv db \<Longrightarrow> columns_inv db \<Longrightarrow> columns_inv db'"
proof (induction rule: gs_change.induct)
  case (lease db k r epoch owner expires now)
  then show ?case using gate_at_row_ok [of db k r]
    by (intro columns_update [where r = r]) (simp_all add: gate_row_ok_def table_images)
next
  case (extend db k r expires now)
  then show ?case using gate_at_row_ok [of db k r]
    by (intro columns_update [where r = r]) (simp_all add: gate_row_ok_def table_images)
next
  case (choose_github db k r now)
  then show ?case using gate_at_row_ok [of db k r]
    by (intro columns_update [where r = r]) (simp_all add: gate_row_ok_def table_images)
next
  case (finish db k r w rk row dig js now)
  then have "columns_inv (db\<lparr>gates := update_key gate_key (set_terminal w rk dig js now) k (gates db)\<rparr>)"
    using gate_at_row_ok [of db k r]
    by (intro columns_update [where r = r]) (auto simp: gate_row_ok_def table_images)
  then show ?case by (simp add: columns_inv_def)
next
  case (admit db a r)
  from gate_at_mem [OF admit(1)] gate_at_key [OF admit(1)]
  have "admission_key a \<in> gate_key ` set (gates db)" by force
  with admit show ?case by (auto simp: columns_inv_def)
next
  case (bump_head k db r sha)
  then have "r \<in> set (heads db)" by (auto dest: select_key_SomeD)
  with bump_head show ?case by (auto simp: columns_inv_def update_key_def set_head_def)
qed (auto simp: columns_inv_def gate_row_ok_def)

lemma outbox_frame:
  assumes "outbox_inv db" and "keys_inv db" and "gate_at db k = Some r"
    and "\<And>row. terminal_matches (f r) row \<longleftrightarrow> terminal_matches r row"
    and "g_result_kind (f r) = g_result_kind r"
  shows "outbox_inv (db\<lparr>gates := update_key gate_key f k (gates db)\<rparr>)"
proof -
  have still: "\<exists>y \<in> set (update_key gate_key f k (gates db)). terminal_matches y row"
    if "x \<in> set (gates db)" "terminal_matches x row" for x row
  proof (cases "gate_key x = k")
    case True
    with that assms(4) gate_at_unique [OF assms(2,3)] show ?thesis
      by (fastforce simp: update_key_def)
  next
    case False
    with that show ?thesis by (fastforce simp: update_key_def)
  qed
  show ?thesis
    unfolding outbox_inv_def
  proof (intro conjI ballI impI)
    fix x assume x: "x \<in> set (gates (db\<lparr>gates := update_key gate_key f k (gates db)\<rparr>))"
      and "g_result_kind x \<noteq> None"
    moreover from x have "x = f r \<or> x \<in> set (gates db)"
      using gate_update_mem [OF assms(2,3)] by auto
    ultimately obtain y where "y \<in> set (gates db)" and "g_result_kind y \<noteq> None"
      and y: "\<And>row. terminal_matches x row \<longleftrightarrow> terminal_matches y row"
      using assms(4,5) gate_at_mem [OF assms(3)] by metis
    then obtain row where "row \<in> set (outbox db)" "terminal_matches y row"
      using assms(1) unfolding outbox_inv_def by blast
    with y show "\<exists>row \<in> set (outbox (db\<lparr>gates := update_key gate_key f k (gates db)\<rparr>)). terminal_matches x row"
      by auto
  next
    fix row assume "row \<in> set (outbox (db\<lparr>gates := update_key gate_key f k (gates db)\<rparr>))"
    with assms(1) obtain x where "x \<in> set (gates db)" "terminal_matches x row"
      by (auto simp: outbox_inv_def)
    then show "\<exists>r \<in> set (gates (db\<lparr>gates := update_key gate_key f k (gates db)\<rparr>)). terminal_matches r row"
      using still by simp
  qed
qed

lemma outbox_rows_update:
  assumes "outbox_inv db" and "\<And>r row. terminal_matches r (f row) \<longleftrightarrow> terminal_matches r row"
  shows "outbox_inv (db\<lparr>outbox := update_key o_outbox_key f ok (outbox db)\<rparr>)"
proof -
  let ?g = "\<lambda>row. if o_outbox_key row = ok then f row else row"
  have same: "terminal_matches r (?g row) \<longleftrightarrow> terminal_matches r row" for r row
    by (simp add: assms(2))
  have rows: "set (outbox (db\<lparr>outbox := update_key o_outbox_key f ok (outbox db)\<rparr>)) = ?g ` set (outbox db)"
    by (simp add: update_key_def)
  show ?thesis
    using assms(1) unfolding outbox_inv_def rows bex_simps(7) ball_simps(9) same by simp
qed

lemma outbox_inv_change:
  "gs_change db db' \<Longrightarrow> keys_inv db \<Longrightarrow> outbox_inv db \<Longrightarrow> outbox_inv db'"
proof (induction rule: gs_change.induct)
  case (lease db k r epoch owner expires now)
  then show ?case
    by (intro outbox_frame) (auto simp: terminal_matches_def gate_key_def)
next
  case (extend db k r expires now)
  then show ?case
    by (intro outbox_frame) (auto simp: terminal_matches_def gate_key_def)
next
  case (choose_github db k r now)
  have "g_result_kind r \<noteq> None \<Longrightarrow> \<exists>row. terminal_matches r row"
    using choose_github(4) gate_at_mem [OF choose_github(1)] unfolding outbox_inv_def by blast
  then have "g_result_kind r = None" using choose_github(2)
    by (cases "g_result_kind r") (auto simp: terminal_matches_def)
  with choose_github show ?case
    by (intro outbox_frame) (auto simp: terminal_matches_def)
next
  case (finish db k r w rk row dig js now)
  let ?f = "set_terminal w rk dig js now"
  have k: "gate_key r = k" by (rule gate_at_key [OF finish(1)])
  have new: "terminal_matches (?f r) row"
    using finish k by (auto simp: terminal_matches_def gate_key_def)
  have old: "\<not> terminal_matches r row'" for row'
    using finish(2) by (simp add: terminal_matches_def)
  have in_upd: "?f r \<in> set (update_key gate_key ?f k (gates db))"
    using gate_at_mem [OF finish(1)] k by (auto simp: update_key_def)
  have keep: "x \<in> set (update_key gate_key ?f k (gates db))"
    if "x \<in> set (gates db)" "terminal_matches x row'" for x row'
    using that old gate_at_unique [OF finish(13) finish(1)] by (auto simp: update_key_def)
  show ?case
    unfolding outbox_inv_def
  proof (intro conjI ballI impI, goal_cases)
    case (1 x)
    then have "x = ?f r \<or> x \<in> set (gates db)"
      using gate_update_mem [OF finish(13) finish(1)] by auto
    with 1 finish(14) new show ?case by (auto simp: outbox_inv_def)
  next
    case (2 row')
    then have "row' = row \<or> (\<exists>x \<in> set (gates db). terminal_matches x row')"
      using finish(14) by (auto simp: outbox_inv_def)
    with new in_upd keep show ?case by auto
  qed
next
  case (deliver db now ok)
  then show ?case by (intro outbox_rows_update) (auto simp: terminal_matches_def)
next
  case (attempt db ok)
  then show ?case by (intro outbox_rows_update) (auto simp: terminal_matches_def)
qed (auto simp: outbox_inv_def)

lemma store_inv_change: "gs_change db db' \<Longrightarrow> store_inv db \<Longrightarrow> store_inv db'"
  by (auto simp: store_inv_def intro: keys_inv_change columns_inv_change outbox_inv_change)

lemma store_inv_step: "store_inv db \<Longrightarrow> store_inv (gs_step H call db)"
  by (rule store_inv_change [OF gs_step_change]) (auto simp: store_inv_def keys_inv_def)

lemma store_inv_empty: "store_inv empty_store"
  by (simp add: store_inv_def keys_inv_def columns_inv_def outbox_inv_def empty_store_def)

section \<open>Permanent facts\<close>

datatype gs_fact =
    WinnerIs "string \<times> int" string
  | TerminalIs "string \<times> int" string string string
  | EpochAtLeast "string \<times> int" int
  | Superseded string int
  | NonceBound nonce_row
  | AdmissionIs admission_row
  | DeliveredIs string string
  | HeadAtLeast "string \<times> int" int

fun gs_holds :: "gs_fact \<Rightarrow> gate_store \<Rightarrow> bool" where
  "gs_holds (WinnerIs k w) db = (\<exists>r. gate_at db k = Some r \<and> g_winner r = Some w)"
| "gs_holds (TerminalIs k w rk d) db =
     (\<exists>r. gate_at db k = Some r \<and> g_winner r = Some w \<and> g_result_kind r = Some rk \<and> g_evidence_digest r = Some d)"
| "gs_holds (EpochAtLeast k e) db = (\<exists>r. gate_at db k = Some r \<and> e \<le> g_lease_epoch r)"
| "gs_holds (Superseded k g) db = (\<exists>r \<in> set (gates db). g_logical_key r = k \<and> g < g_generation r)"
| "gs_holds (NonceBound b) db = (select_key nonce_key (nonce_key b) (nonce_bindings db) = Some b)"
| "gs_holds (AdmissionIs a) db = (select_key admission_key (admission_key a) (admissions db) = Some a)"
| "gs_holds (DeliveredIs k d) db = (\<exists>r. select_key o_outbox_key k (outbox db) = Some r
     \<and> o_state r = ''delivered'' \<and> o_evidence_digest r = d)"
| "gs_holds (HeadAtLeast k n) db = (\<exists>r. select_key head_key k (heads db) = Some r \<and> n \<le> h_head_generation r)"

text \<open>A row-wise view of a change: what happens to the gate of one key.\<close>

lemma gate_at_change:
  assumes "gs_change db db'" and "gate_at db k = Some r"
  shows "\<exists>r'. gate_at db' k = Some r' \<and> g_lease_epoch r \<le> g_lease_epoch r'
    \<and> (g_winner r \<noteq> None \<longrightarrow> g_winner r' = g_winner r)
    \<and> (g_result_kind r \<noteq> None \<longrightarrow> g_result_kind r' = g_result_kind r \<and> g_evidence_digest r' = g_evidence_digest r)"
  using assms
  by (induction rule: gs_change.induct)
    (auto simp: gate_at_def table_select select_key_append)

lemma superseded_iff:
  "gs_holds (Superseded k g) db \<longleftrightarrow> (\<exists>g'. g < g' \<and> (k, g') \<in> gate_key ` set (gates db))"
  by (auto simp: gate_key_def image_iff)

lemma gate_keys_change: "gs_change db db' \<Longrightarrow> gate_key ` set (gates db) \<subseteq> gate_key ` set (gates db')"
  by (induction rule: gs_change.induct) (simp_all add: table_images subset_insertI)

lemma gs_holds_change: "gs_change db db' \<Longrightarrow> gs_holds x db \<Longrightarrow> gs_holds x db'"
proof (induction x)
  case (WinnerIs k w)
  then show ?case using gate_at_change by fastforce
next
  case (TerminalIs k w rk d)
  then show ?case using gate_at_change by fastforce
next
  case (EpochAtLeast k e)
  then obtain r where r: "gate_at db k = Some r" "e \<le> g_lease_epoch r" by auto
  from gate_at_change [OF EpochAtLeast(1) r(1)] obtain r'
    where "gate_at db' k = Some r'" "g_lease_epoch r \<le> g_lease_epoch r'" by blast
  with r(2) show ?case by auto
next
  case (Superseded k g)
  from Superseded(2) [unfolded superseded_iff]
  obtain g' where "g < g'" and "(k, g') \<in> gate_key ` set (gates db)" by blast
  with gate_keys_change [OF Superseded(1)] show ?case
    unfolding superseded_iff by blast
next
  case (NonceBound b)
  from NonceBound(1,2) show ?case
    by (induction rule: gs_change.induct) (auto simp: select_key_append)
next
  case (AdmissionIs a)
  from AdmissionIs(1,2) show ?case
    by (induction rule: gs_change.induct) (auto simp: select_key_append)
next
  case (DeliveredIs k d)
  from DeliveredIs(1,2) show ?case
    by (induction rule: gs_change.induct) (auto simp: table_select select_key_append)
next
  case (HeadAtLeast k n)
  from HeadAtLeast(1,2) show ?case
    by (induction rule: gs_change.induct)
      (auto simp: table_select select_key_append set_head_def)
qed

interpretation gsm: stable_machine "gs_step H" store_inv empty_store gs_holds for H
proof
  fix x db and call
  show "store_inv empty_store" by (rule store_inv_empty)
  show "store_inv db \<Longrightarrow> store_inv (gs_step H call db)" by (rule store_inv_step)
  show "store_inv db \<Longrightarrow> gs_holds x db \<Longrightarrow> gs_holds x (gs_step H call db)"
    by (rule gs_holds_change [OF gs_step_change]) (auto simp: store_inv_def keys_inv_def)
qed

section \<open>Safety of every run\<close>

text \<open>An example run used by the witnesses: a lease, the GitHub winner, its hosted completion.\<close>

definition example_key :: string where
  "example_key = ''7:3:abc:ci-gate''"

definition example_run :: "gs_call list" where
  "example_run =
     [ObserveHead ''7'' 3 ''abc'',
      Acquire 0 example_key 1 ''base'' ''merge'' ''run-1'' 11 1000,
      SelectGithub (\<lambda>_. False) 10 example_key 1 ''run-1'' 1,
      CompleteHosted (\<lambda>_. False) 20 example_key 1 ''run-1'' 1 [(''conclusion'', PStr ''success'')] True]"

lemmas gs_eval = observe_head_def acquire_def heartbeat_def bind_attestation_nonce_def
  select_github_winner_def complete_hosted_winner_def mark_outbox_delivered_def
  complete_def transaction_def owned_def insert_gate_def insert_outbox_def terminal_outbox_row_def
  select_key_def update_key_def gate_key_def head_key_def canonical_def digest_def bindE_def
  set_lease_def set_winner_def set_terminal_def set_delivered_def set_expiry_def empty_store_def
  gate_from_row_def gate_at_def pget_def

definition example_store :: "(string \<Rightarrow> string) \<Rightarrow> gate_store" where
  "example_store H = fold (gs_step H) example_run empty_store"

lemma example_gate:
  "\<exists>r. gate_at (example_store H) (example_key, 1) = Some r \<and> g_winner r = Some ''github''
     \<and> g_result_kind r = Some ''success'' \<and> g_generation r = 1 \<and> g_lease_epoch r = 1"
  by (simp add: example_store_def example_run_def gs_eval Let_def)

text \<open>C1. One winner for ever: once a generation has a winner, no sequence of calls, by whatever
  owners and with faults injected anywhere, changes it, and once it has a result, neither the result
  kind nor the evidence digest changes.\<close>

theorem winner_and_result_immutable:
  assumes "gate_at (fold (gs_step H) cs empty_store) k = Some r" and "g_winner r = Some w"
  shows "\<exists>r'. gate_at (fold (gs_step H) (cs @ ds) empty_store) k = Some r' \<and> g_winner r' = Some w
    \<and> (g_result_kind r \<noteq> None \<longrightarrow> g_result_kind r' = g_result_kind r
        \<and> g_evidence_digest r' = g_evidence_digest r)"
proof (cases "g_result_kind r")
  case None
  from assms have "gs_holds (WinnerIs k w) (fold (gs_step H) cs empty_store)" by auto
  from gsm.fact_later [OF this, of ds] None show ?thesis by auto
next
  case (Some rk)
  have "outbox_inv (fold (gs_step H) cs empty_store)"
    using gsm.inv_reachable by (simp add: store_inv_def)
  with Some gate_at_mem [OF assms(1)] obtain d where "g_evidence_digest r = Some d"
    by (auto simp: outbox_inv_def terminal_matches_def)
  with assms Some have "gs_holds (TerminalIs k w rk d) (fold (gs_step H) cs empty_store)" by auto
  from gsm.fact_later [OF this, of ds] Some \<open>g_evidence_digest r = Some d\<close> show ?thesis by auto
qed

theorem winner_and_result_immutable_witness:
  "\<exists>r'. gate_at (fold (gs_step id) (example_run @
      [Acquire 5000 example_key 2 ''base2'' ''merge2'' ''run-2'' 12 1000]) empty_store) (example_key, 1)
    = Some r' \<and> g_winner r' = Some ''github''"
proof -
  from example_gate [of id] obtain r where
    "gate_at (fold (gs_step id) example_run empty_store) (example_key, 1) = Some r"
    "g_winner r = Some ''github''" by (auto simp: example_store_def)
  from winner_and_result_immutable [OF this] show ?thesis by blast
qed

text \<open>C2. The tables stay consistent in every reachable store: primary keys are unique, generations,
  head generations and epochs are positive, winners are \<open>local\<close> or \<open>github\<close>, every admission refers
  to a gate, a generation is terminal exactly when the outbox has a row for it, and that row carries
  its winner, evidence digest and Check Run.\<close>

theorem reachable_store_inv: "store_inv (fold (gs_step H) cs empty_store)"
  by (rule gsm.inv_reachable)

text \<open>C3. Exactly-once publication intent: in every reachable store a terminal generation has exactly
  one outbox row, and a generation without a result has none.\<close>

theorem terminal_has_one_outbox_row:
  assumes "db = fold (gs_step H) cs empty_store" and "r \<in> set (gates db)"
  shows "(g_result_kind r \<noteq> None \<longrightarrow> (\<exists>!row. row \<in> set (outbox db)
        \<and> (o_logical_key row, o_generation row) = gate_key r))
    \<and> (g_result_kind r = None \<longrightarrow> \<not> (\<exists>row \<in> set (outbox db). (o_logical_key row, o_generation row) = gate_key r))"
proof -
  have inv: "keys_inv db" "outbox_inv db"
    using gsm.inv_reachable [of H cs] assms(1) by (auto simp: store_inv_def)
  have own: "terminal_matches r row"
    if "row \<in> set (outbox db)" "(o_logical_key row, o_generation row) = gate_key r" for row
  proof -
    from inv(2) that(1) obtain x where x: "x \<in> set (gates db)" "terminal_matches x row"
      by (auto simp: outbox_inv_def)
    moreover have "gate_key x = gate_key r"
      using x(2) that(2) by (simp add: terminal_matches_def)
    ultimately show ?thesis
      using inv(1) assms(2) by (metis keys_inv_def select_key_unique option.inject)
  qed
  have "row = row'" if "row \<in> set (outbox db)" "row' \<in> set (outbox db)"
    "terminal_matches r row" "terminal_matches r row'" for row row'
  proof -
    from that(3,4) have "o_outbox_key row = o_outbox_key row'"
      by (auto simp: terminal_matches_def gate_key_def)
    with that(1,2) inv(1) show ?thesis
      by (metis keys_inv_def select_key_unique option.inject)
  qed
  moreover have "g_result_kind r \<noteq> None \<Longrightarrow> \<exists>row \<in> set (outbox db). terminal_matches r row"
    using inv(2) assms(2) unfolding outbox_inv_def by blast
  moreover have "terminal_matches r row \<Longrightarrow> (o_logical_key row, o_generation row) = gate_key r
      \<and> g_result_kind r \<noteq> None" for row
    by (simp add: terminal_matches_def)
  ultimately show ?thesis using own by (intro conjI impI ex_ex1I) blast+
qed

theorem terminal_has_one_outbox_row_witness:
  "\<exists>r \<in> set (gates (example_store id)). g_result_kind r \<noteq> None
    \<and> (\<exists>!row. row \<in> set (outbox (example_store id)) \<and> (o_logical_key row, o_generation row) = gate_key r)"
proof -
  from example_gate [of id] obtain r where
    "gate_at (example_store id) (example_key, 1) = Some r" "g_result_kind r = Some ''success''" by auto
  then have r: "r \<in> set (gates (example_store id))" "g_result_kind r \<noteq> None"
    by (auto dest: gate_at_mem)
  show ?thesis
    using terminal_has_one_outbox_row [OF example_store_def r(1)] r by blast
qed

end
