(* ===== verification/Gatestore_Ops.thy ===== *)
theory Gatestore_Ops
  imports Gatestore_Safety
begin

text \<open>
  The behaviour of the GateStore's methods one by one: what a call that raises leaves behind, what a
  call that returns must have found, and what stale callers meet afterwards.
\<close>

section \<open>Atomicity\<close>

text \<open>Whether a call raises: the exception reaches the caller after the rollback.\<close>

fun gs_raises :: "(string \<Rightarrow> string) \<Rightarrow> gs_call \<Rightarrow> gate_store \<Rightarrow> bool" where
  "gs_raises H (ObserveHead r n h) db = isl (fst (observe_head r n h db))"
| "gs_raises H (Acquire now k hg b m ow c ttl) db = isl (fst (acquire now k hg b m ow c ttl db))"
| "gs_raises H (Heartbeat now k g ow e ttl) db = isl (fst (heartbeat now k g ow e ttl db))"
| "gs_raises H (BindNonce now a n k g hg env t) db =
     isl (fst (bind_attestation_nonce H now a n k g hg env t db))"
| "gs_raises H (CreateAdmission hook now uid k g ow e vd au run job m c w dl) db =
     isl (fst (create_local_admission_after_pre_marker_verify H hook now uid k g ow e vd au run job m c w dl db))"
| "gs_raises H (CompleteSuccess hook now k g ow e ai ad ev ok ex) db =
     isl (fst (complete_local_success_if_authorized H hook now k g ow e ai ad ev ok ex db))"
| "gs_raises H (CompleteFailure hook now k g ow e ai ad ev t run job m c) db =
     isl (fst (complete_local_failure_if_current H hook now k g ow e ai ad ev t run job m c db))"
| "gs_raises H (SelectGithub hook now k g ow e) db = isl (fst (select_github_winner hook now k g ow e db))"
| "gs_raises H (CompleteHosted hook now k g ow e ev ok) db =
     isl (fst (complete_hosted_winner H hook now k g ow e ev ok db))"
| "gs_raises H (MarkDelivered now k d) db = isl (fst (mark_outbox_delivered now k d db))"
| "gs_raises H (RecordAttempt k) db = isl (fst (record_outbox_attempt k db))"

lemma transaction_isl: "isl (fst (transaction body db)) \<Longrightarrow> snd (transaction body db) = db"
  by (auto simp: transaction_def split: prod.splits sum.splits)

text \<open>C4. All or nothing: a call that raises, whether by a guard, a constraint of the tables or a
  fault injected between its writes, leaves every table as it was.\<close>

theorem raising_call_changes_nothing:
  assumes "gs_raises H call db"
  shows "gs_step H call db = db"
  using assms
  by (cases call)
    (auto simp: observe_head_def acquire_def heartbeat_def bind_attestation_nonce_def
      create_local_admission_after_pre_marker_verify_def complete_local_success_if_authorized_def
      complete_local_failure_if_current_def select_github_winner_def complete_hosted_winner_def
      mark_outbox_delivered_def record_outbox_attempt_def Let_def
      dest: transaction_isl split: sum.splits bool.splits if_splits)

theorem raising_call_changes_nothing_witness:
  "gs_step id (CompleteHosted (\<lambda>stage. stage = ''after_outbox'') 20 example_key 1 ''run-1'' 1
      [(''conclusion'', PStr ''success'')] True)
      (fold (gs_step id) (take 3 example_run) empty_store)
    = fold (gs_step id) (take 3 example_run) empty_store"
  by (rule raising_call_changes_nothing)
    (simp add: example_run_def gs_eval Let_def)

section \<open>Fencing\<close>

lemma owned_superseded:
  assumes "gs_holds (Superseded k g) db"
  shows "owned k g ow e now db = Inl (FencedError ''generation is not current'')"
proof -
  from assms obtain r where r: "r \<in> set (gates db)" "g_logical_key r = k" "g < g_generation r" by auto
  have "map_option g_generation (latest_gate k (gates db)) \<noteq> Some g"
  proof
    assume "map_option g_generation (latest_gate k (gates db)) = Some g"
    then obtain r' where "latest_gate k (gates db) = Some r'" "g_generation r' = g" by auto
    with latest_gate_max [of k "gates db" r' r] r show False by auto
  qed
  then show ?thesis by (simp add: owned_def)
qed

lemma owned_stale_epoch:
  assumes "gs_holds (EpochAtLeast (k, g) (e + 1)) db"
  shows "\<exists>msg. owned k g ow e now db = Inl (FencedError msg)"
  using assms by (auto simp: owned_def gate_at_def split: option.splits)

text \<open>A superseded generation is fenced for ever: once a later generation of a logical key exists,
  every later heartbeat, admission, completion or winner selection for the older one changes
  nothing, whatever was called in between.\<close>

theorem superseded_generation_fenced:
  assumes "r \<in> set (gates (fold (gs_step H) cs empty_store))"
    and "g_logical_key r = k" and "g < g_generation r"
    and "call \<in> {Heartbeat now k g ow e ttl,
      CreateAdmission hook now uid k g ow e vd au run job m c w dl,
      CompleteSuccess hook now k g ow e ai ad ev valid ex,
      CompleteFailure hook now k g ow e ai ad ev t run job m c,
      SelectGithub hook now k g ow e, CompleteHosted hook now k g ow e ev valid}"
  shows "gs_step H call (fold (gs_step H) (cs @ ds) empty_store) = fold (gs_step H) (cs @ ds) empty_store"
proof -
  have "gs_holds (Superseded k g) (fold (gs_step H) cs empty_store)" using assms(1-3) by auto
  from gsm.fact_later [OF this, of ds]
  have o: "owned k g ow e now (fold (gs_step H) (cs @ ds) empty_store)
      = Inl (FencedError ''generation is not current'')" by (rule owned_superseded)
  from assms(4) show ?thesis
    by (elim insertE emptyE; simp add: heartbeat_def create_local_admission_after_pre_marker_verify_def
        complete_local_success_if_authorized_def complete_local_failure_if_current_def
        select_github_winner_def complete_hosted_winner_def transaction_def o [simplified]
        split: sum.split bool.split)
qed

theorem superseded_generation_fenced_witness:
  "gs_step id (Heartbeat 30 example_key 0 ''run-0'' 1 1000) (fold (gs_step id) (example_run @ []) empty_store)
    = fold (gs_step id) (example_run @ []) empty_store"
proof -
  from example_gate [of id] obtain r where r: "gate_at (example_store id) (example_key, 1) = Some r"
    "g_generation r = 1" by auto
  then have m: "r \<in> set (gates (fold (gs_step id) example_run empty_store))"
    by (auto simp: example_store_def dest: gate_at_mem)
  have k: "g_logical_key r = example_key" using gate_at_key [OF r(1)] by (simp add: gate_key_def)
  show ?thesis
    by (rule superseded_generation_fenced [OF m k, where g = 0]) (simp_all add: r)
qed

text \<open>A lease epoch that was passed is fenced for ever: after the epoch of a generation has moved
  beyond \<open>e\<close>, a caller that still presents \<open>e\<close> is refused with a fencing error in every later store.\<close>

theorem stale_epoch_fenced:
  assumes "gate_at (fold (gs_step H) cs empty_store) (k, g) = Some r" and "e < g_lease_epoch r"
  shows "\<exists>msg. owned k g ow e now (fold (gs_step H) (cs @ ds) empty_store) = Inl (FencedError msg)"
proof -
  from assms have "gs_holds (EpochAtLeast (k, g) (e + 1)) (fold (gs_step H) cs empty_store)" by auto
  from gsm.fact_later [OF this] show ?thesis by (rule owned_stale_epoch)
qed

theorem stale_epoch_fenced_witness:
  "\<exists>msg. owned example_key 1 ''run-1'' 0 30 (fold (gs_step id) (example_run @ []) empty_store)
    = Inl (FencedError msg)"
proof -
  from example_gate [of id] obtain r where "gate_at (fold (gs_step id) example_run empty_store)
      (example_key, 1) = Some r" "0 < g_lease_epoch r" by (auto simp: example_store_def)
  from stale_epoch_fenced [OF this] show ?thesis .
qed

section \<open>Completions\<close>

text \<open>A run that reaches an admission, for the witnesses of the completions.\<close>

definition admitted_run :: "gs_call list" where
  "admitted_run =
     [Acquire 0 example_key 1 ''base'' ''merge'' ''run-1'' 11 1000,
      CreateAdmission (\<lambda>_. False) 5 ''uid-1'' example_key 1 ''run-1'' 1
        [(''valid'', PBool True), (''boundary'', PStr ''pre-marker'')] [] 91 92 ''merge'' ''cmd'' ''wrap''
        (Aware 500)]"

definition admitted_store :: gate_store where
  "admitted_store = fold (gs_step (\<lambda>_. ''d'')) admitted_run empty_store"

lemmas admission_eval = create_local_admission_after_pre_marker_verify_def admission_row_of_def
  insert_admission_def admission_key_def admission_from_row_def execution_of_def
  require_admission_def json_safe_items_pmerge pmerge_def

lemma admitted_store_inv: "store_inv admitted_store"
  unfolding admitted_store_def by (rule gsm.inv_reachable)


lemma transaction_InrD: "transaction body db = (Inr a, db') \<Longrightarrow> body db = (Inr a, db')"
  by (auto simp: transaction_def split: prod.splits sum.splits)

lemma complete_value:
  assumes "complete H hook k g w rk ev now db = (Inr c, db')"
  shows "\<exists>js. canonical ev = Inr js \<and> c_evidence_digest c = H js \<and> c_winner c = w \<and> c_result_kind c = rk
    \<and> c_outbox_key c = outbox_key_of k g w (H js)"
  using assms
  by (auto simp: complete_def Let_def split: sum.splits option.splits if_splits)

lemma complete_terminal:
  assumes "complete H hook k g w rk ev now db = (Inr c, db')" and "outbox_inv db"
  shows "gs_holds (TerminalIs (k, g) w rk (c_evidence_digest c)) db'"
proof -
  from complete_value [OF assms(1)] obtain js where js: "canonical ev = Inr js"
    "c_evidence_digest c = H js" by blast
  from assms(1) show ?thesis
  proof (cases rule: complete_InrD)
    case (idempotent gate js')
    moreover have "g_winner gate \<noteq> None"
      using assms(2) gate_at_mem [OF idempotent(2)] idempotent(4)
      by (auto simp: outbox_inv_def terminal_matches_def)
    ultimately show ?thesis using js by auto
  next
    case (committed gate js')
    then show ?thesis using js by (auto simp: gate_at_def table_select)
  qed
qed

lemma require_admission_InrD:
  "require_admission k g ai ad db = Inr a \<Longrightarrow>
     select_key admission_key (k, g) (admissions db) = Some a \<and> a_admission_id a = ai \<and> a_admission_digest a = ad"
  by (auto simp: require_admission_def split: option.splits if_splits)

lemma complete_winner_free:
  "complete H hook k g w rk ev now db = (Inr c, db') \<Longrightarrow>
     \<exists>gate. gate_at db (k, g) = Some gate \<and> g_winner gate \<in> {None, Some w}"
  by (erule complete_InrD) auto

text \<open>A local success needs current authority: when it is recorded, the attestation was valid and
  unexpired at that instant, the caller held the live lease of the current generation, the exact
  admission existed, GitHub had not been chosen, and afterwards the generation is terminal with a
  local success and the digest that was returned.\<close>

theorem local_success_requires_authority:
  assumes "complete_local_success_if_authorized H hook now k g ow e ai ad ev valid ex db = (Inr c, db')"
    and "store_inv db"
  shows "valid \<and> (\<exists>E. ex = Aware E \<and> now < E)
    \<and> (\<exists>gate a. gate_at db (k, g) = Some gate \<and> g_owner gate = ow \<and> g_lease_epoch gate = e
        \<and> now < g_lease_expires_at gate \<and> g_winner gate \<in> {None, Some ''local''}
        \<and> select_key admission_key (k, g) (admissions db) = Some a
        \<and> a_admission_id a = ai \<and> a_admission_digest a = ad)
    \<and> gs_holds (TerminalIs (k, g) ''local'' ''success'' (c_evidence_digest c)) db'"
proof -
  from assms(1) have v: "valid" "\<exists>E. ex = Aware E \<and> now < E"
    by (cases ex; auto simp: complete_local_success_if_authorized_def split: if_splits bool.splits)+
  with assms(1) obtain gate a where
    "owned k g ow e now db = Inr gate" "require_admission k g ai ad db = Inr a"
    and c: "complete H hook k g ''local'' ''success'' ev now db = (Inr c, db')"
    by (auto simp: complete_local_success_if_authorized_def
        dest!: transaction_InrD split: sum.splits bool.splits)
  with owned_InrD require_admission_InrD complete_winner_free [OF c] complete_terminal [OF c] assms(2) v
  show ?thesis by (fastforce simp: store_inv_def)
qed

theorem local_success_requires_authority_witness:
  "\<exists>c db'. complete_local_success_if_authorized (\<lambda>_. ''d'') (\<lambda>_. False) 20 example_key 1 ''run-1'' 1
      ''uid-1'' ''d'' [] True (Aware 900) admitted_store = (Inr c, db')
    \<and> gs_holds (TerminalIs (example_key, 1) ''local'' ''success'' ''d'') db'"
proof -
  obtain c db' where run: "complete_local_success_if_authorized (\<lambda>_. ''d'') (\<lambda>_. False) 20 example_key 1
      ''run-1'' 1 ''uid-1'' ''d'' [] True (Aware 900) admitted_store = (Inr c, db')"
    and d: "c_evidence_digest c = ''d''"
    by (simp add: complete_local_success_if_authorized_def admitted_store_def admitted_run_def
        admission_eval gs_eval Let_def)
  from local_success_requires_authority [OF run admitted_store_inv] run d show ?thesis by auto
qed

text \<open>A late local failure cannot win: a recorded local functional failure has a terminal instant
  no later than the deadline persisted with the admission, its run, job, merge commit and command are
  those of the immutable admission, the caller held the live lease and GitHub had not been chosen.\<close>

theorem local_failure_is_timely_and_exact:
  assumes "complete_local_failure_if_current H hook now k g ow e ai ad ev terminal_at run job m cmd db
      = (Inr c, db')"
    and "store_inv db"
  shows "\<exists>t gate a. terminal_at = Aware t \<and> gate_at db (k, g) = Some gate \<and> g_owner gate = ow
      \<and> g_lease_epoch gate = e \<and> now < g_lease_expires_at gate \<and> g_winner gate \<in> {None, Some ''local''}
      \<and> select_key admission_key (k, g) (admissions db) = Some a \<and> t \<le> a_execution_deadline a
      \<and> a_admission_id a = ai \<and> a_admission_digest a = ad
      \<and> py_num (pget (a_execution a) ''child_run_id'') = Some run
      \<and> py_num (pget (a_execution a) ''child_job_id'') = Some job
      \<and> pget (a_execution a) ''tested_merge_sha'' = PStr m
      \<and> pget (a_execution a) ''canonical_command_digest'' = PStr cmd
      \<and> gs_holds (TerminalIs (k, g) ''local'' ''functional_failure'' (c_evidence_digest c)) db'"
proof -
  from transaction_InrD [OF assms(1) [unfolded complete_local_failure_if_current_def]]
  obtain gate a t where o: "owned k g ow e now db = Inr gate"
    and a: "require_admission k g ai ad db = Inr a" and t: "terminal_at = Aware t"
    and late: "\<not> a_execution_deadline a < t"
    and ids: "py_num (pget (a_execution a) ''child_run_id'') = Some run"
      "py_num (pget (a_execution a) ''child_job_id'') = Some job"
      "pget (a_execution a) ''tested_merge_sha'' = PStr m"
      "pget (a_execution a) ''canonical_command_digest'' = PStr cmd"
    and c: "\<exists>ev'. complete H hook k g ''local'' ''functional_failure'' ev' now db = (Inr c, db')"
    by (cases terminal_at) (auto simp: Let_def split: sum.splits if_splits)
  from c obtain ev' where
    "complete H hook k g ''local'' ''functional_failure'' ev' now db = (Inr c, db')" by blast
  with owned_InrD [OF o] require_admission_InrD [OF a] complete_winner_free complete_terminal t late ids
    assms(2) show ?thesis by (fastforce simp: store_inv_def)
qed

theorem local_failure_is_timely_and_exact_witness:
  "\<exists>c db'. complete_local_failure_if_current (\<lambda>_. ''d'') (\<lambda>_. False) 20 example_key 1 ''run-1'' 1
      ''uid-1'' ''d'' [(''kind'', PStr ''FUNCTIONAL_FAILURE'')] (Aware 500) 91 92 ''merge'' ''cmd''
      admitted_store = (Inr c, db')
    \<and> gs_holds (TerminalIs (example_key, 1) ''local'' ''functional_failure'' ''d'') db'"
proof -
  obtain c db' where run: "complete_local_failure_if_current (\<lambda>_. ''d'') (\<lambda>_. False) 20 example_key 1
      ''run-1'' 1 ''uid-1'' ''d'' [(''kind'', PStr ''FUNCTIONAL_FAILURE'')] (Aware 500) 91 92 ''merge'' ''cmd''
      admitted_store = (Inr c, db')"
    and d: "c_evidence_digest c = ''d''"
    by (simp add: complete_local_failure_if_current_def admitted_store_def admitted_run_def
        admission_eval gs_eval Let_def)
  from local_failure_is_timely_and_exact [OF run admitted_store_inv] run d show ?thesis by auto
qed

section \<open>Leases\<close>

lemma latest_gate_snoc:
  assumes "g_logical_key r = k" and "\<forall>x \<in> set rs. g_logical_key x = k \<longrightarrow> g_generation x < g_generation r"
  shows "latest_gate k (rs @ [r]) = Some r"
  using assms by (induction rs) auto

lemma latest_gate_map:
  assumes "\<And>r. g_logical_key (f r) = g_logical_key r \<and> g_generation (f r) = g_generation r"
  shows "latest_gate k (map f rs) = map_option f (latest_gate k rs)"
  using assms by (induction rs) (auto split: option.splits)

lemma latest_gate_lease:
  "latest_gate k (gates db) = Some r \<Longrightarrow>
     latest_gate k (update_key gate_key (set_lease ow e ex now) (gate_key r) (gates db))
       = Some (set_lease ow e ex now r)"
  unfolding update_key_def by (subst latest_gate_map) auto

text \<open>The row a successful \<open>acquire\<close> leaves as the latest one of its key.\<close>

lemma acquire_InrD:
  assumes "acquire now k hg b m ow c ttl db = (Inr gt, db')" and "keys_inv db"
  shows "\<exists>r. latest_gate k (gates db') = Some r \<and> gate_at db' (k, g_generation r) = Some r
    \<and> g_owner r = ow \<and> g_lease_expires_at r = now + ttl \<and> g_head_generation r = hg
    \<and> g_base_sha r = b \<and> g_tested_merge_sha r = m \<and> gt = gate_from_row r"
proof -
  have keys: "keys_inv db'"
    using keys_inv_change [OF acquire_change assms(2), of now k hg b m ow c ttl] assms
    by (simp add: keys_inv_def)
  have "\<exists>r. latest_gate k (gates db') = Some r \<and> g_owner r = ow \<and> g_lease_expires_at r = now + ttl
    \<and> g_head_generation r = hg \<and> g_base_sha r = b \<and> g_tested_merge_sha r = m \<and> gt = gate_from_row r"
  proof (cases "latest_gate k (gates db)")
    case None
    then have "\<forall>x \<in> set (gates db). g_logical_key x \<noteq> k" by (simp add: latest_gate_None)
    with None assms(1) show ?thesis
      by (auto simp: acquire_def insert_gate_def Let_def latest_gate_snoc dest!: transaction_InrD
          split: if_splits)
  next
    case (Some row)
    note top = latest_gate_SomeD [OF this]
    show ?thesis
    proof (cases "g_head_generation row = hg \<and> g_base_sha row = b \<and> g_tested_merge_sha row = m")
      case True
      with Some assms(1) latest_gate_lease [OF Some] show ?thesis
        by (auto simp: acquire_def Let_def set_lease_def dest!: transaction_InrD split: if_splits)
    next
      case False
      with Some assms(1) top show ?thesis
        by (auto simp: acquire_def insert_gate_def Let_def latest_gate_snoc zle_add1_eq_le
            dest!: transaction_InrD split: if_splits)
    qed
  qed
  then obtain r where r: "latest_gate k (gates db') = Some r" "g_owner r = ow"
    "g_lease_expires_at r = now + ttl" "g_head_generation r = hg" "g_base_sha r = b"
    "g_tested_merge_sha r = m" "gt = gate_from_row r" by blast
  from latest_gate_mem [OF r(1)] have "gate_at db' (k, g_generation r) = Some r"
    using keys select_key_unique [of gate_key "gates db'" r]
    by (auto simp: gate_at_def keys_inv_def gate_key_def)
  with r show ?thesis by blast
qed

text \<open>A lease is exclusive and usable: while the lease just acquired is live, another owner's attempt
  on the same tuple is refused with a conflict and changes nothing, and the holder passes the
  ownership guard with the generation and epoch it was given.\<close>

theorem acquired_lease_is_exclusive:
  assumes "acquire now k hg b m ow c ttl db = (Inr gt, db')" and "store_inv db"
    and "now' < now + ttl" and "ow' \<noteq> ow" and "0 < ttl'"
  shows "acquire now' k hg b m ow' c' ttl' db'
      = (Inl (ConflictError ''generation already has a live owner''), db')
    \<and> (\<exists>r. owned k (gate_generation gt) ow (gate_lease_epoch gt) now' db' = Inr r)"
proof -
  from acquire_InrD [OF assms(1)] assms(2) obtain r where
    "latest_gate k (gates db') = Some r" "gate_at db' (k, g_generation r) = Some r"
    "g_owner r = ow" "g_lease_expires_at r = now + ttl" "g_head_generation r = hg"
    "g_base_sha r = b" "g_tested_merge_sha r = m" "gt = gate_from_row r"
    by (auto simp: store_inv_def)
  with assms(3-5) show ?thesis
    by (auto simp: acquire_def transaction_def Let_def owned_def gate_at_def gate_from_row_def)
qed

theorem acquired_lease_is_exclusive_witness:
  "\<exists>gt db'. acquire 0 example_key 1 ''base'' ''merge'' ''run-1'' 11 1000 empty_store = (Inr gt, db')
    \<and> acquire 10 example_key 1 ''base'' ''merge'' ''run-2'' 12 1000 db'
      = (Inl (ConflictError ''generation already has a live owner''), db')"
proof -
  obtain gt db' where run: "acquire 0 example_key 1 ''base'' ''merge'' ''run-1'' 11 1000 empty_store
      = (Inr gt, db')"
    by (simp add: gs_eval Let_def)
  have "acquire 10 example_key 1 ''base'' ''merge'' ''run-2'' 12 1000 db'
      = (Inl (ConflictError ''generation already has a live owner''), db')"
    using acquired_lease_is_exclusive [OF run store_inv_empty, of 10 "''run-2''" 1000 12] by simp
  with run show ?thesis by blast
qed

section \<open>Nonces, heads and the outbox\<close>

text \<open>An attestation nonce is bound once: after a binding exists, in every later store the same
  nonce offered for another key, generation, head generation, envelope or target is refused as a
  replay or as fenced and nothing is written, and the identical binding is idempotent as long as the
  gate still has that head generation.\<close>

theorem nonce_is_single_use:
  assumes "n \<in> set (nonce_bindings (fold (gs_step H) cs empty_store))"
    and "db = fold (gs_step H) (cs @ ds) empty_store"
    and "digest H (case target of None \<Rightarrow> [] | Some t \<Rightarrow> t) = Inr td"
  shows "snd (bind_attestation_nonce H now (n_attestation_id n) (n_nonce_hash n) k g hg env target db) = db
    \<and> (fst (bind_attestation_nonce H now (n_attestation_id n) (n_nonce_hash n) k g hg env target db)
        = Inr ''idempotent'' \<longleftrightarrow>
        map_option g_head_generation (gate_at db (k, g)) = Some hg
        \<and> (k, g, hg, env, td) = (n_logical_key n, n_generation n, n_head_generation n,
            n_envelope_digest n, n_target_digest n))"
proof -
  have "keys_inv (fold (gs_step H) cs empty_store)"
    using gsm.inv_reachable [of H cs] by (simp add: store_inv_def)
  then have "gs_holds (NonceBound n) (fold (gs_step H) cs empty_store)"
    using assms(1) by (simp add: keys_inv_def select_key_unique)
  from gsm.fact_later [OF this, of ds] assms(2)
  have "select_key nonce_key (n_attestation_id n, n_nonce_hash n) (nonce_bindings db) = Some n"
    by (simp add: nonce_key_def)
  with assms(3) show ?thesis
    by (auto simp: bind_attestation_nonce_def transaction_def gate_at_def)
qed

theorem nonce_is_single_use_witness:
  "\<exists>db. snd (bind_attestation_nonce id 9 ''att'' ''nonce'' ''other'' 4 2 ''env2'' None db) = db
    \<and> nonce_bindings db \<noteq> []"
proof -
  let ?cs = "[Acquire 0 example_key 1 ''base'' ''merge'' ''run-1'' 11 1000,
      BindNonce 1 ''att'' ''nonce'' example_key 1 1 ''env'' None]"
  obtain n where n: "nonce_bindings (fold (gs_step id) ?cs empty_store) = [n]"
    "n_attestation_id n = ''att''" "n_nonce_hash n = ''nonce''"
    by (simp add: gs_eval Let_def)
  from n(1) have m: "n \<in> set (nonce_bindings (fold (gs_step id) ?cs empty_store))" by simp
  have d: "digest id (case None of None \<Rightarrow> [] | Some t \<Rightarrow> t) = Inr ''{}''"
    by (simp add: digest_def canonical_def)
  from nonce_is_single_use [OF m refl d, where ds = "[]" and now = 9 and k = "''other''" and g = 4
      and hg = 2 and env = "''env2''"] n
  show ?thesis by auto
qed

text \<open>
  What the approval store relies on when it asks for a head generation: positive numbers, the same
  number while the head stays, the next one when it changes.
\<close>

locale head_oracle =
  fixes observe :: "string \<Rightarrow> int \<Rightarrow> string \<Rightarrow> 's \<Rightarrow> ('e + int) \<times> 's" and ok :: "'s \<Rightarrow> bool"
  assumes observe_ok: "ok s \<Longrightarrow> observe r n h s = (Inr g, s') \<Longrightarrow> ok s' \<and> 0 < g"
    and observe_again: "ok s \<Longrightarrow> observe r n h s = (Inr g, s') \<Longrightarrow> observe r n h s' = (Inr g, s')"
    and observe_other: "ok s \<Longrightarrow> observe r n h s = (Inr g, s') \<Longrightarrow> h' \<noteq> h \<Longrightarrow> h' \<noteq> [] \<Longrightarrow>
      \<exists>s''. observe r n h' s' = (Inr (g + 1), s'')"
    and observe_head_text: "observe r n h s = (Inr g, s') \<Longrightarrow> h \<noteq> []"
begin

text \<open>A head that comes back gets a new number: the old generation is not revived.\<close>

lemma not_revived:
  assumes "ok s" and "observe r n h s = (Inr g, s1)" and "h' \<noteq> h" and "h' \<noteq> []"
  shows "\<exists>s2 s3. observe r n h' s1 = (Inr (g + 1), s2) \<and> observe r n h s2 = (Inr (g + 2), s3)"
proof -
  from observe_other [OF assms] obtain s2 where s2: "observe r n h' s1 = (Inr (g + 1), s2)" by blast
  from observe_ok [OF assms(1,2)] have "ok s1" by blast
  from observe_other [OF this s2, of h] assms(3) observe_head_text [OF assms(2)]
  obtain s3 where "observe r n h s2 = (Inr (g + 1 + 1), s3)" by auto
  with s2 show ?thesis by auto
qed

end

lemma observe_head_InrD:
  assumes "observe_head r n h db = (Inr g, db')"
  shows "r \<noteq> [] \<and> 0 < n \<and> h \<noteq> []
    \<and> (\<exists>row. select_key head_key (r, n) (heads db') = Some row \<and> h_head_sha row = h \<and> h_head_generation row = g)"
  using assms
  by (auto simp: observe_head_def transaction_def Let_def head_upd.select_update select_key_append
      select_key_Cons head_key_def set_head_def split: if_splits option.splits)

lemma observe_head_inv: "store_inv db \<Longrightarrow> observe_head r n h db = (Inr g, db') \<Longrightarrow> store_inv db'"
  using store_inv_change [OF observe_head_change, of db r n h] by simp

interpretation ghead: head_oracle observe_head store_inv
proof
  fix r n h g and db db' :: gate_store and h'
  assume inv: "store_inv db" and obs: "observe_head r n h db = (Inr g, db')"
  note D = observe_head_InrD [OF obs] and inv' = observe_head_inv [OF inv obs]
  from D obtain row where row: "select_key head_key (r, n) (heads db') = Some row"
    "h_head_sha row = h" "h_head_generation row = g" by blast
  show "store_inv db' \<and> 0 < g"
    using inv' row by (auto simp: store_inv_def columns_inv_def dest: select_key_SomeD)
  show "observe_head r n h db' = (Inr g, db')"
    using D row by (simp add: observe_head_def transaction_def)
  show "\<exists>db''. observe_head r n h' db' = (Inr (g + 1), db'')" if "h' \<noteq> h" "h' \<noteq> []"
    using D row that by (simp add: observe_head_def transaction_def Let_def)
qed (use observe_head_InrD in blast)

text \<open>Head generations are never reused: a pull request whose head moves away and comes back is
  numbered afresh, so work bound to the earlier occurrence of the same commit stays stale, while
  observing an unchanged head again returns the same number and writes nothing.\<close>

theorem head_generation_not_revived:
  assumes "store_inv db" and "observe_head r n h db = (Inr g, db1)" and "h' \<noteq> h" and "h' \<noteq> []"
  shows "observe_head r n h db1 = (Inr g, db1)
    \<and> (\<exists>db2 db3. observe_head r n h' db1 = (Inr (g + 1), db2) \<and> observe_head r n h db2 = (Inr (g + 2), db3))"
  using ghead.observe_again [OF assms(1,2)] ghead.not_revived [OF assms] by blast

theorem head_generation_not_revived_witness:
  "\<exists>db1 db2 db3. observe_head ''7'' 3 ''abc'' empty_store = (Inr 1, db1)
    \<and> observe_head ''7'' 3 ''def'' db1 = (Inr 2, db2) \<and> observe_head ''7'' 3 ''abc'' db2 = (Inr 3, db3)"
proof -
  obtain db1 where o: "observe_head ''7'' 3 ''abc'' empty_store = (Inr 1, db1)"
    by (simp add: gs_eval)
  from head_generation_not_revived [OF store_inv_empty o, of "''def''"] o show ?thesis by auto
qed

text \<open>Delivery is recorded once: after an outbox row was marked delivered with its evidence digest,
  in every later store it is no longer pending, marking it again with that digest is idempotent and
  writes nothing, and marking it with any other digest is a conflict.\<close>

theorem delivery_recorded_once:
  assumes "mark_outbox_delivered now k d db = (Inr ''delivered'', db1)" and "store_inv db"
    and "db2 = fold (gs_step H) ds db1"
  shows "(\<forall>row \<in> set (pending_outbox db2). o_outbox_key row \<noteq> k)
    \<and> mark_outbox_delivered now' k d db2 = (Inr ''idempotent'', db2)
    \<and> (d' \<noteq> d \<longrightarrow> mark_outbox_delivered now' k d' db2 =
        (Inl (ConflictError ''Check Run evidence marker differs from committed evidence''), db2))"
proof -
  have "gs_holds (DeliveredIs k d) db1"
    using assms(1) by (auto simp: mark_outbox_delivered_def delivered_upd.select_update
        dest!: transaction_InrD split: option.splits if_splits)
  moreover have inv1: "store_inv db1"
    using store_inv_change [OF mark_delivered_change, of db now k d] assms(1,2) by simp
  ultimately have "gs_holds (DeliveredIs k d) db2" "store_inv db2"
    using gsm.fact_run gsm.inv_run assms(3) by blast+
  then obtain row where row: "select_key o_outbox_key k (outbox db2) = Some row"
    "o_state row = ''delivered''" "o_evidence_digest row = d" and "keys_inv db2"
    by (auto simp: store_inv_def)
  then have "\<forall>x \<in> set (outbox db2). o_outbox_key x = k \<longrightarrow> x = row"
    by (auto simp: keys_inv_def dest: select_key_unique)
  with row show ?thesis
    by (auto simp: pending_outbox_def mark_outbox_delivered_def transaction_def)
qed

theorem delivery_recorded_once_witness:
  "\<exists>k d db1. mark_outbox_delivered 30 k d (example_store (\<lambda>_. ''d'')) = (Inr ''delivered'', db1)
    \<and> mark_outbox_delivered 40 k d db1 = (Inr ''idempotent'', db1)"
proof -
  let ?k = "outbox_key_of example_key 1 ''github'' ''d''"
  obtain db1 where run: "mark_outbox_delivered 30 ?k ''d'' (example_store (\<lambda>_. ''d'')) = (Inr ''delivered'', db1)"
    by (simp add: example_store_def example_run_def gs_eval Let_def)
  have inv: "store_inv (example_store (\<lambda>_. ''d''))"
    unfolding example_store_def by (rule gsm.inv_reachable)
  have "mark_outbox_delivered 40 ?k ''d'' db1 = (Inr ''idempotent'', db1)"
    using delivery_recorded_once [OF run inv refl, where ds = "[]"] by simp
  with run show ?thesis by blast
qed

text \<open>The outbox key determines the publication: for colon-free winners and digests (the digests are
  hexadecimal) two keys are equal only for the same logical key, generation, winner and digest.\<close>

theorem outbox_key_injective:
  assumes "outbox_key_of k g w d = outbox_key_of k' g' w' d'"
    and "CHR '':'' \<notin> set w" "CHR '':'' \<notin> set w'" "CHR '':'' \<notin> set d" "CHR '':'' \<notin> set d'"
  shows "k = k' \<and> g = g' \<and> w = w' \<and> d = d'"
proof -
  from assms(1) have "(k @ '':'' @ int_str g @ '':'' @ w) @ CHR '':'' # d
      = (k' @ '':'' @ int_str g' @ '':'' @ w') @ CHR '':'' # d'" by (simp add: outbox_key_of_def)
  from join_right_inj [OF this assms(4,5)] have d: "d = d'"
    and "(k @ '':'' @ int_str g) @ CHR '':'' # w = (k' @ '':'' @ int_str g') @ CHR '':'' # w'" by auto
  from join_right_inj [OF this(2) assms(2,3)] have w: "w = w'"
    and "k @ CHR '':'' # int_str g = k' @ CHR '':'' # int_str g'" by auto
  from join_right_inj [OF this(2) int_str_no_colon int_str_no_colon] d w show ?thesis
    by (auto dest: int_str_inj)
qed

theorem outbox_key_injective_witness:
  "outbox_key_of ''7:3:abc:ci-gate'' 1 ''local'' ''d'' \<noteq> outbox_key_of ''7:3:abc:ci-gate'' 2 ''local'' ''d''"
  using outbox_key_injective [of "''7:3:abc:ci-gate''" 1 "''local''" "''d''" "''7:3:abc:ci-gate''" 2
      "''local''" "''d''"] by auto

end
