(* ===== verification/Registry_Policy.thy ===== *)
theory Registry_Policy
  imports Timing Canonical_Json
begin

text \<open>
  Routing: the exact-repository registry (\<open>registry.py\<close>), the writer inventory with its freshness
  (\<open>inventory.py\<close>), the fail-closed routing policy over both (\<open>policy.py\<close>) and the effects permitted
  when attestation authority is lost (\<open>authority_boundary.py\<close>). Registry documents are the value
  \<open>json.loads\<close> returns; reading the file is not modelled. An exception keeps its class and the
  constant part of its message.
\<close>

section \<open>Registry documents\<close>

datatype reg_error = RegistryError string | RegTypeError string

definition ALLOWED_TOP_LEVEL :: "string list" where
  "ALLOWED_TOP_LEVEL = [''$schema'', ''registry_schema_version'', ''repositories'']"

definition ALLOWED_REPOSITORY :: "string list" where
  "ALLOWED_REPOSITORY = [''ci_runner'', ''ai_reviewer'', ''execution_trust'', ''authority'']"

definition ALLOWED_TRUST :: "string list" where
  "ALLOWED_TRUST = [''policy_version'', ''mode'', ''attestation_authority_version'',
     ''key_manifest_version'', ''key_manifest_generation'', ''key_manifest_digest'',
     ''offline_root_public_fingerprint'', ''public_key_id'', ''public_key_fingerprint'',
     ''inventory_drift_guard'']"

definition ALLOWED_AUTHORITY :: "string list" where
  "ALLOWED_AUTHORITY = [''kind'', ''installation_id'', ''runner_group'']"

record RepositoryConfig =
  rc_repository :: string
  rc_ci_runner :: string
  rc_ai_reviewer :: string
  rc_execution_trust :: "pydict option"
  rc_authority :: "pydict option"

type_synonym Registry = "(string \<times> RepositoryConfig) list"

definition local_requested :: "RepositoryConfig \<Rightarrow> bool" where
  "local_requested c = (rc_ci_runner c = ''local-with-github-fallback'')"

definition validate_repository_name :: "string \<Rightarrow> reg_error + unit" where
  "validate_repository_name r =
     requireE (\<not> List.member r (CHR ''*'') \<and> exact_repository_name r)
       (RegistryError (''invalid exact owner/repo: '' @ r))"

fun require_mapping :: "pyval \<Rightarrow> string \<Rightarrow> reg_error + pydict" where
  "require_mapping (PDict d) label = Inr d"
| "require_mapping _ label = Inl (RegistryError (label @ '' must be an object''))"

definition reject_unknown :: "pydict \<Rightarrow> string list \<Rightarrow> string \<Rightarrow> reg_error + unit" where
  "reject_unknown d allowed label = requireE (keys_within d allowed) (RegistryError (label @ '': unknown fields''))"

text \<open>The \<open>object_pairs_hook\<close> of \<open>from_json\<close>.\<close>

fun reject_duplicate_keys :: "pydict \<Rightarrow> (string \<times> pyval) list \<Rightarrow> reg_error + pydict" where
  "reject_duplicate_keys result [] = Inr result"
| "reject_duplicate_keys result ((k, v) # pairs) =
     (if List.member (pkeys result) k then Inl (RegistryError (''duplicate key: '' @ k))
      else reject_duplicate_keys (pset k v result) pairs)"

definition trust_exact :: "(string \<times> pyval) list" where
  "trust_exact = [(''policy_version'', PInt 1), (''mode'', PStr ''exact-sha-attestation''),
     (''attestation_authority_version'', PInt 1), (''key_manifest_version'', PInt 1),
     (''inventory_drift_guard'', PStr ''enabled'')]"

definition validate_trust :: "string \<Rightarrow> pydict \<Rightarrow> reg_error + unit" where
  "validate_trust repository trust =
     bindE (reject_unknown trust ALLOWED_TRUST (repository @ ''.execution_trust'')) (\<lambda>_.
     bindE (forE trust_exact (\<lambda>(key, expected).
       requireE (py_eq (pget trust key) expected) (RegistryError (repository @ '': '' @ key)))) (\<lambda>_.
     bindE (requireE (positive_int (pget trust ''key_manifest_generation''))
       (RegistryError (repository @ '': key_manifest_generation must be a positive integer''))) (\<lambda>_.
     bindE (forE [''key_manifest_digest'', ''offline_root_public_fingerprint'', ''public_key_fingerprint'']
       (\<lambda>key. requireE (str_matches sha256hex (pget trust key))
         (RegistryError (repository @ '': '' @ key @ '' must be lowercase SHA-256'')))) (\<lambda>_.
     requireE (str_matches (\<lambda>s. strip s \<noteq> []) (pget trust ''public_key_id''))
       (RegistryError (repository @ '': public_key_id is required''))))))"

definition validate_authority :: "string \<Rightarrow> pydict \<Rightarrow> reg_error + unit" where
  "validate_authority repository authority =
     bindE (reject_unknown authority ALLOWED_AUTHORITY (repository @ ''.authority'')) (\<lambda>_.
     bindE (requireE (positive_int (pget authority ''installation_id''))
       (RegistryError (repository @ '': installation_id must be a positive integer''))) (\<lambda>_.
     if pget authority ''kind'' = PStr ''personal-repository'' then
       requireE (pget authority ''runner_group'' = PNone)
         (RegistryError (repository @ '': personal repository cannot use a runner group''))
     else if pget authority ''kind'' = PStr ''organization-runner-group'' then
       requireE (str_matches (\<lambda>s. strip s \<noteq> [] \<and> \<not> List.member s (CHR ''*'')) (pget authority ''runner_group''))
         (RegistryError (repository @ '': exact organization runner_group is required''))
     else Inl (RegistryError (repository @ '': invalid authority kind''))))"

text \<open>\<open>x not in {...}\<close> on an unhashable value raises \<open>TypeError\<close> before any comparison.\<close>

definition require_member :: "pyval \<Rightarrow> string list \<Rightarrow> string \<Rightarrow> reg_error + unit" where
  "require_member v allowed msg =
     (if \<not> hashable v then Inl (RegTypeError ''unhashable type'')
      else requireE (one_of v allowed) (RegistryError msg))"

definition parse_repository :: "string \<Rightarrow> pyval \<Rightarrow> reg_error + RepositoryConfig" where
  "parse_repository repository v =
     bindE (require_mapping v repository) (\<lambda>item.
     bindE (reject_unknown item ALLOWED_REPOSITORY repository) (\<lambda>_.
     let ci_runner = pget item ''ci_runner''; reviewer = pget item ''ai_reviewer'';
         trust = pget item ''execution_trust''; authority = pget item ''authority''
     in bindE (require_member ci_runner [''github'', ''local-with-github-fallback'']
          (repository @ '': invalid ci_runner'')) (\<lambda>_.
        bindE (require_member reviewer [''enabled'', ''disabled''] (repository @ '': invalid ai_reviewer'')) (\<lambda>_.
        if ci_runner = PStr ''github'' then
          bindE (requireE (trust = PNone \<and> authority = PNone)
            (RegistryError (repository @ '': hosted entries must not carry local authority''))) (\<lambda>_.
          Inr \<lparr>rc_repository = repository, rc_ci_runner = text_of ci_runner,
               rc_ai_reviewer = text_of reviewer, rc_execution_trust = None, rc_authority = None\<rparr>)
        else
          bindE (require_mapping trust (repository @ ''.execution_trust'')) (\<lambda>t.
          bindE (require_mapping authority (repository @ ''.authority'')) (\<lambda>a.
          bindE (validate_trust repository t) (\<lambda>_.
          bindE (validate_authority repository a) (\<lambda>_.
          Inr \<lparr>rc_repository = repository, rc_ci_runner = text_of ci_runner,
               rc_ai_reviewer = text_of reviewer, rc_execution_trust = Some t,
               rc_authority = Some a\<rparr>))))))))"

fun parse_entries :: "pydict \<Rightarrow> reg_error + Registry" where
  "parse_entries [] = Inr []"
| "parse_entries ((repository, v) # entries) =
     bindE (validate_repository_name repository) (\<lambda>_.
     bindE (parse_repository repository v) (\<lambda>c.
     bindE (parse_entries entries) (\<lambda>rest. Inr ((repository, c) # rest))))"

definition registry_from_mapping :: "pyval \<Rightarrow> reg_error + Registry" where
  "registry_from_mapping v =
     bindE (require_mapping v ''registry'') (\<lambda>data.
     bindE (reject_unknown data ALLOWED_TOP_LEVEL ''registry'') (\<lambda>_.
     bindE (requireE (py_eq (pget data ''registry_schema_version'') (PInt 1))
       (RegistryError ''registry_schema_version must be 1'')) (\<lambda>_.
     bindE (require_mapping (pget data ''repositories'') ''repositories'') parse_entries)))"

definition registry_resolve :: "Registry \<Rightarrow> string \<Rightarrow> reg_error + RepositoryConfig" where
  "registry_resolve reg repository =
     bindE (validate_repository_name repository) (\<lambda>_.
     Inr (case map_of reg repository of
        Some c \<Rightarrow> c
      | None \<Rightarrow> \<lparr>rc_repository = repository, rc_ci_runner = ''github'', rc_ai_reviewer = ''disabled'',
                 rc_execution_trust = None, rc_authority = None\<rparr>))"

section \<open>Writer inventory\<close>

record InventoryObservation =
  inv_status :: string
  inv_required :: "string list"
  inv_missing :: "string list"
  inv_records :: "(string \<times> pyval list) list"
  inv_observed_at :: pydatetime
  inv_semantic_hash :: string

definition sorted_set :: "string list \<Rightarrow> string list" where
  "sorted_set xs = sort (remdups xs)"

definition semantic_inventory_hash ::
  "(string \<Rightarrow> string) \<Rightarrow> string \<Rightarrow> string list \<Rightarrow> string list \<Rightarrow> (string \<times> pyval list) list \<Rightarrow> py_exn + string" where
  "semantic_inventory_hash H status required missing records =
     (if \<not> List.member [''complete'', ''partial'', ''unavailable''] status then
        Inl (ValueError ''invalid inventory status'')
      else
        let payload = PDict [(''status'', PStr status),
              (''required_source_ids'', PList (map PStr (sort required))),
              (''missing_source_ids'', PList (map PStr (sort missing))),
              (''normalized_usable_source_records'', PList (map (\<lambda>(source, rs).
                 PDict [(''source_id'', PStr source), (''records'', PList rs)]) records))]
        in if json_safe payload then Inr (H (json_text payload))
           else Inl (TypeError ''Object of type datetime is not JSON serializable''))"

definition classify_inventory ::
  "(string \<Rightarrow> string) \<Rightarrow> string list \<Rightarrow> (string \<times> pyval list) list \<Rightarrow> pydatetime \<Rightarrow> py_exn + InventoryObservation" where
  "classify_inventory H required_source_ids usable observed_at =
     (let required = sorted_set required_source_ids;
          sources = map fst usable
      in if required = [] \<or> List.member required [] then
           Inl (ValueError ''required_source_ids must be a non-empty authenticated set'')
         else if \<not> list_all (\<lambda>s. List.member required s) sources then
           Inl (ValueError ''records for unknown sources'')
         else
           let missing = filter (\<lambda>s. \<not> List.member sources s) required;
               status = (if length sources = length required then ''complete''
                         else if sources \<noteq> [] then ''partial'' else ''unavailable'');
               records = sort_key fst usable
           in bindE (semantic_inventory_hash H status required missing records) (\<lambda>dig.
              Inr \<lparr>inv_status = status, inv_required = required, inv_missing = missing,
                   inv_records = records, inv_observed_at = observed_at, inv_semantic_hash = dig\<rparr>))"

definition inventory_fresh :: "InventoryObservation \<Rightarrow> pydatetime \<Rightarrow> int \<Rightarrow> py_exn + bool" where
  "inventory_fresh obs now maximum_age =
     utc2 now (inv_observed_at obs) (\<lambda>n t. 0 \<le> n - t \<and> n - t \<le> maximum_age)"

section \<open>Routing policy\<close>

record ExecutionDecision =
  ed_backend :: string
  ed_local_eligible :: bool
  ed_reason :: string

definition hosted :: "string \<Rightarrow> ExecutionDecision" where
  "hosted reason = \<lparr>ed_backend = ''github'', ed_local_eligible = False, ed_reason = reason\<rparr>"

definition evaluate_execution_trust ::
  "RepositoryConfig \<Rightarrow> pydatetime \<Rightarrow> InventoryObservation option \<Rightarrow> bool \<Rightarrow> bool \<Rightarrow> bool
   \<Rightarrow> string list \<Rightarrow> py_exn + ExecutionDecision" where
  "evaluate_execution_trust config now inventory attestation_valid external_contributor dependabot
     relationship_signals =
     (if rc_ci_runner config \<noteq> ''local-with-github-fallback'' then Inr (hosted ''registry-default-or-hosted'')
      else if external_contributor \<or> dependabot then Inr (hosted ''untrusted-event'')
      else if (case rc_execution_trust config of None \<Rightarrow> True
               | Some t \<Rightarrow> pget t ''mode'' \<noteq> PStr ''exact-sha-attestation'')
      then Inr (hosted ''missing-exact-sha-policy'')
      else case inventory of
        None \<Rightarrow> Inr (hosted ''inventory-unavailable'')
      | Some obs \<Rightarrow>
          if inv_status obs = ''unavailable'' then Inr (hosted ''inventory-unavailable'')
          else bindE (inventory_fresh obs now (minutes 5)) (\<lambda>fresh.
            if \<not> fresh then Inr (hosted ''inventory-stale'')
            else if \<not> attestation_valid then Inr (hosted ''attestation-invalid-or-absent'')
            else Inr \<lparr>ed_backend = ''local'', ed_local_eligible = True,
                      ed_reason = ''exact-sha-attestation-and-fresh-negative-guard''\<rparr>))"

section \<open>Authority loss\<close>

definition CURRENT_BOUNDARIES :: "string list" where
  "CURRENT_BOUNDARIES = [''dispatch'', ''claim'', ''pre-marker'', ''local-success'']"

definition LOSS_REASONS :: "string list" where
  "LOSS_REASONS = [''head_drift'', ''inventory_drift'', ''writer_revoked'', ''team_drift'',
     ''expired'', ''key_unavailable'', ''proof_invalid'']"

record AuthorityBoundaryDecision =
  route_github :: bool
  fence_allocation :: bool
  cancel_allocation :: bool
  allow_historical_failure :: bool
  allow_success :: bool
  alert_code :: "string option"

definition decide_authority_loss :: "string \<Rightarrow> bool \<Rightarrow> string \<Rightarrow> py_exn + AuthorityBoundaryDecision" where
  "decide_authority_loss boundary admission_exists reason =
     (if \<not> List.member CURRENT_BOUNDARIES boundary then
        Inl (ValueError ''unknown current-authority boundary'')
      else if \<not> List.member LOSS_REASONS reason then
        Inl (ValueError ''unknown authority-loss reason'')
      else
        let before_admission = \<not> admission_exists
        in Inr \<lparr>route_github = before_admission, fence_allocation = \<not> before_admission,
                cancel_allocation = \<not> before_admission, allow_historical_failure = admission_exists,
                allow_success = False,
                alert_code = (if reason = ''key_unavailable''
                  then Some ''signing_authority_unavailable'' else None)\<rparr>)"

section \<open>What an accepted registry holds\<close>

definition trust_ok :: "pydict \<Rightarrow> bool" where
  "trust_ok t = (keys_within t ALLOWED_TRUST \<and> pget t ''mode'' = PStr ''exact-sha-attestation''
     \<and> pget t ''inventory_drift_guard'' = PStr ''enabled''
     \<and> positive_int (pget t ''key_manifest_generation'')
     \<and> str_matches sha256hex (pget t ''key_manifest_digest'')
     \<and> str_matches sha256hex (pget t ''offline_root_public_fingerprint'')
     \<and> str_matches sha256hex (pget t ''public_key_fingerprint'')
     \<and> str_matches (\<lambda>s. strip s \<noteq> []) (pget t ''public_key_id''))"

definition authority_ok :: "pydict \<Rightarrow> bool" where
  "authority_ok a = (keys_within a ALLOWED_AUTHORITY \<and> positive_int (pget a ''installation_id'')
     \<and> (pget a ''kind'' = PStr ''personal-repository'' \<and> pget a ''runner_group'' = PNone
        \<or> pget a ''kind'' = PStr ''organization-runner-group''
          \<and> str_matches (\<lambda>s. strip s \<noteq> [] \<and> CHR ''*'' \<notin> set s) (pget a ''runner_group'')))"

definition entry_ok :: "string \<Rightarrow> RepositoryConfig \<Rightarrow> bool" where
  "entry_ok r c = (exact_repository_name r \<and> rc_repository c = r
     \<and> rc_ai_reviewer c \<in> {''enabled'', ''disabled''}
     \<and> (rc_ci_runner c = ''github'' \<and> rc_execution_trust c = None \<and> rc_authority c = None
        \<or> local_requested c \<and> (\<exists>t a. rc_execution_trust c = Some t \<and> rc_authority c = Some a
             \<and> trust_ok t \<and> authority_ok a)))"

lemma require_mapping_eq_Inr [simp]: "require_mapping v l = Inr d \<longleftrightarrow> v = PDict d"
  by (cases v) auto

lemma validate_repository_name_iff [simp]:
  "validate_repository_name r = Inr u \<longleftrightarrow> CHR ''*'' \<notin> set r \<and> exact_repository_name r"
  by (simp add: validate_repository_name_def)

lemma validate_trust_ok: "validate_trust r t = Inr u \<Longrightarrow> trust_ok t"
  by (simp add: validate_trust_def trust_ok_def reject_unknown_def trust_exact_def errE_iffs)

lemma validate_authority_ok: "validate_authority r a = Inr u \<Longrightarrow> authority_ok a"
  by (simp add: validate_authority_def authority_ok_def reject_unknown_def errE_iffs
      split: if_splits)

lemma require_member_iff: "require_member v allowed m = Inr u \<longleftrightarrow> hashable v \<and> one_of v allowed"
  by (simp add: require_member_def)

lemma one_of_text: "one_of v ss \<Longrightarrow> text_of v \<in> set ss \<and> v = PStr (text_of v)"
  by (auto simp: one_of_def list_ex_iff)

lemma parse_repository_ok:
  assumes "parse_repository r v = Inr c" and "exact_repository_name r"
  shows "entry_ok r c"
proof -
  obtain item where v: "v = PDict item"
    and ci: "one_of (pget item ''ci_runner'') [''github'', ''local-with-github-fallback'']"
    and ai: "one_of (pget item ''ai_reviewer'') [''enabled'', ''disabled'']"
    using assms(1) by (auto simp: parse_repository_def errE_iffs require_member_iff Let_def)
  show ?thesis
  proof (cases "pget item ''ci_runner'' = PStr ''github''")
    case True
    with assms(1) v show ?thesis
      using one_of_text [OF ai] assms(2)
      by (auto simp: parse_repository_def errE_iffs entry_ok_def)
  next
    case False
    with ci have loc: "text_of (pget item ''ci_runner'') = ''local-with-github-fallback''"
      by (auto simp: one_of_def)
    with False assms(1) v obtain t a where "validate_trust r t = Inr ()" "validate_authority r a = Inr ()"
      and c: "c = \<lparr>rc_repository = r, rc_ci_runner = ''local-with-github-fallback'',
        rc_ai_reviewer = text_of (pget item ''ai_reviewer''), rc_execution_trust = Some t, rc_authority = Some a\<rparr>"
      by (auto simp: parse_repository_def errE_iffs Let_def)
    then have "trust_ok t" "authority_ok a"
      by (simp_all add: validate_trust_ok validate_authority_ok)
    with c one_of_text [OF ai] assms(2) show ?thesis
      by (simp add: entry_ok_def local_requested_def)
  qed
qed

lemma parse_entries_ok:
  "parse_entries ps = Inr reg \<Longrightarrow> (r, c) \<in> set reg \<Longrightarrow> entry_ok r c \<and> r \<in> fst ` set ps"
proof (induction ps arbitrary: reg)
  case (Cons p ps)
  obtain r0 v0 where p: "p = (r0, v0)" by (cases p)
  from Cons.prems(1) p obtain c0 rest where name: "exact_repository_name r0"
    and c0: "parse_repository r0 v0 = Inr c0" and rest: "parse_entries ps = Inr rest"
    and reg: "reg = (r0, c0) # rest"
    by (auto simp: errE_iffs)
  show ?case
  proof (cases "(r, c) = (r0, c0)")
    case True
    with parse_repository_ok [OF c0 name] p show ?thesis by simp
  next
    case False
    with Cons.prems(2) reg have "(r, c) \<in> set rest" by auto
    with Cons.IH [OF rest] show ?thesis by auto
  qed
qed simp

lemma registry_from_mapping_ok:
  "registry_from_mapping v = Inr reg \<Longrightarrow> (r, c) \<in> set reg \<Longrightarrow> entry_ok r c"
  by (auto simp: registry_from_mapping_def errE_iffs dest: parse_entries_ok)

lemma evaluate_local:
  "evaluate_execution_trust config now inventory att ext dep sig = Inr d \<and> ed_backend d = ''local'' \<longleftrightarrow>
     local_requested config \<and> \<not> ext \<and> \<not> dep \<and> att
     \<and> (\<exists>t. rc_execution_trust config = Some t \<and> pget t ''mode'' = PStr ''exact-sha-attestation'')
     \<and> (\<exists>obs. inventory = Some obs \<and> inv_status obs \<noteq> ''unavailable''
          \<and> inventory_fresh obs now (minutes 5) = Inr True)
     \<and> d = \<lparr>ed_backend = ''local'', ed_local_eligible = True,
            ed_reason = ''exact-sha-attestation-and-fresh-negative-guard''\<rparr>"
  by (auto simp: evaluate_execution_trust_def local_requested_def hosted_def errE_iffs
      split: option.splits if_splits)

lemma inventory_fresh_iff:
  "inventory_fresh obs now age = Inr True \<longleftrightarrow>
     (\<exists>n t. now = Aware n \<and> inv_observed_at obs = Aware t \<and> t \<le> n \<and> n \<le> t + age)"
  by (cases now; cases "inv_observed_at obs") (auto simp: inventory_fresh_def utc2_def)

section \<open>A registered repository\<close>

definition sample_trust :: pydict where
  "sample_trust = [(''policy_version'', PInt 1), (''mode'', PStr ''exact-sha-attestation''),
     (''attestation_authority_version'', PInt 1), (''key_manifest_version'', PInt 1),
     (''key_manifest_generation'', PInt 3), (''key_manifest_digest'', PStr (replicate 64 CHR ''a'')),
     (''offline_root_public_fingerprint'', PStr (replicate 64 CHR ''b'')), (''public_key_id'', PStr ''k1''),
     (''public_key_fingerprint'', PStr (replicate 64 CHR ''c'')), (''inventory_drift_guard'', PStr ''enabled'')]"

definition sample_authority :: pydict where
  "sample_authority = [(''kind'', PStr ''personal-repository''), (''installation_id'', PInt 7)]"

definition sample_config :: RepositoryConfig where
  "sample_config = \<lparr>rc_repository = ''o/r'', rc_ci_runner = ''local-with-github-fallback'',
     rc_ai_reviewer = ''disabled'', rc_execution_trust = Some sample_trust,
     rc_authority = Some sample_authority\<rparr>"

definition sample_document :: pyval where
  "sample_document = PDict [(''registry_schema_version'', PInt 1),
     (''repositories'', PDict [(''o/r'', PDict [(''ci_runner'', PStr ''local-with-github-fallback''),
        (''ai_reviewer'', PStr ''disabled''), (''execution_trust'', PDict sample_trust),
        (''authority'', PDict sample_authority)])])]"

lemma sample_document_accepted: "registry_from_mapping sample_document = Inr [(''o/r'', sample_config)]"
  by code_simp

lemma sample_config_resolved: "registry_resolve [(''o/r'', sample_config)] ''o/r'' = Inr sample_config"
  by code_simp

definition sample_inventory :: InventoryObservation where
  "sample_inventory = \<lparr>inv_status = ''partial'', inv_required = [''x'', ''y''], inv_missing = [''x''],
     inv_records = [(''y'', [])], inv_observed_at = Aware 0, inv_semantic_hash = []\<rparr>"

lemma sample_inventory_classified:
  "classify_inventory (\<lambda>_. []) [''y'', ''x'', ''y''] [(''y'', [])] (Aware 0) = Inr sample_inventory"
  by code_simp

lemma sample_routed_local:
  "evaluate_execution_trust sample_config (Aware (minutes 2)) (Some sample_inventory) True False False [] =
     Inr \<lparr>ed_backend = ''local'', ed_local_eligible = True,
          ed_reason = ''exact-sha-attestation-and-fresh-negative-guard''\<rparr>"
  by code_simp

section \<open>Properties\<close>

text \<open>A registry document is accepted only when every entry names an exact owner/repository, a
  hosted entry carries no local authority at all, and a local entry carries a complete exact-SHA
  trust policy (positive key generation, SHA-256 fingerprints, enabled drift guard, no unknown
  field) with a positive installation and either no runner group (personal) or an exact one.\<close>

theorem registry_entries_well_formed:
  assumes "registry_from_mapping v = Inr reg"
  shows "list_all (\<lambda>(r, c). entry_ok r c) reg"
  using registry_from_mapping_ok [OF assms] by (auto simp: list_all_iff)

theorem registry_entries_well_formed_witness: "list_all (\<lambda>(r, c). entry_ok r c) [(''o/r'', sample_config)]"
  by (rule registry_entries_well_formed [OF sample_document_accepted])

text \<open>A run is routed to the local backend exactly when the repository asks for local execution
  with an exact-SHA policy, the event is neither external nor Dependabot's, the attestation is
  valid, and an available writer inventory was observed at most five minutes ago; relationship
  signals never matter.\<close>

theorem local_route_iff:
  "(\<exists>d. evaluate_execution_trust config now inventory att ext dep sig = Inr d \<and> ed_backend d = ''local'')
   \<longleftrightarrow> local_requested config
     \<and> (\<exists>t. rc_execution_trust config = Some t \<and> pget t ''mode'' = PStr ''exact-sha-attestation'')
     \<and> (\<not> ext \<and> \<not> dep) \<and> att
     \<and> (\<exists>obs n t. inventory = Some obs \<and> inv_status obs \<noteq> ''unavailable''
          \<and> now = Aware n \<and> inv_observed_at obs = Aware t \<and> t \<le> n \<and> n \<le> t + minutes 5)"
  unfolding evaluate_local inventory_fresh_iff by auto

text \<open>Whatever the signals, a repository that resolves through an accepted registry can be routed
  locally only if that registry names it with a validated trust policy and authority: an
  unregistered repository is always hosted.\<close>

theorem local_route_needs_registered_authority:
  assumes "registry_from_mapping v = Inr reg" and "registry_resolve reg r = Inr c"
    and "evaluate_execution_trust c now inventory att ext dep sig = Inr d" and "ed_backend d = ''local''"
  shows "r \<in> fst ` set reg \<and> exact_repository_name r
    \<and> (\<exists>t a. rc_execution_trust c = Some t \<and> rc_authority c = Some a \<and> trust_ok t \<and> authority_ok a)"
proof -
  have loc: "local_requested c" and trust: "rc_execution_trust c \<noteq> None"
    using evaluate_local assms(3,4) by blast+
  have "map_of reg r = Some c"
    using assms(2) trust by (auto simp: registry_resolve_def errE_iffs split: option.splits)
  then have mem: "(r, c) \<in> set reg" by (rule map_of_SomeD)
  with registry_from_mapping_ok [OF assms(1)] have "entry_ok r c" by blast
  with loc trust have "exact_repository_name r"
    "\<exists>t a. rc_execution_trust c = Some t \<and> rc_authority c = Some a \<and> trust_ok t \<and> authority_ok a"
    by (auto simp: entry_ok_def)
  moreover from mem have "r \<in> fst ` set reg" by force
  ultimately show ?thesis by blast
qed

theorem local_route_needs_registered_authority_witness:
  "\<exists>t a. rc_execution_trust sample_config = Some t \<and> rc_authority sample_config = Some a
     \<and> trust_ok t \<and> authority_ok a"
  using local_route_needs_registered_authority [OF sample_document_accepted sample_config_resolved
      sample_routed_local] by simp

text \<open>A classified inventory lists, sorted and without duplicates, exactly the required sources
  that have no usable records; it is complete exactly when none is missing and unavailable exactly
  when no source is usable.\<close>

theorem inventory_classification_exact:
  assumes "classify_inventory H req usable at = Inr obs" and "distinct (map fst usable)"
  shows "set (inv_missing obs) = set req - fst ` set usable
    \<and> sorted (inv_missing obs) \<and> distinct (inv_missing obs) \<and> fst ` set usable \<subseteq> set req
    \<and> (inv_status obs = ''complete'' \<longleftrightarrow> inv_missing obs = [])
    \<and> (inv_status obs = ''unavailable'' \<longleftrightarrow> usable = [])"
proof -
  let ?req = "sorted_set req" and ?src = "map fst usable"
  let ?missing = "filter (\<lambda>s. \<not> List.member ?src s) ?req"
  have req: "set ?req = set req" "sorted ?req" "distinct ?req"
    by (simp_all add: sorted_set_def)
  from assms(1) have ne: "?req \<noteq> []" and sub: "set ?src \<subseteq> set ?req" and obs: "inv_missing obs = ?missing"
    "inv_status obs = (if length ?src = length ?req then ''complete''
       else if ?src \<noteq> [] then ''partial'' else ''unavailable'')"
    by (auto simp: classify_inventory_def errE_iffs Let_def list_all_iff split: if_splits)
  have eq: "length ?src = length ?req \<longleftrightarrow> set ?req \<subseteq> set ?src"
  proof -
    have len: "length ?src = card (set ?src)" "length ?req = card (set ?req)"
      using assms(2) req(3) by (simp_all add: distinct_card del: set_map)
    show ?thesis
      unfolding len using sub card_subset_eq [of "set ?req" "set ?src"] subset_antisym [OF sub]
      by (metis List.finite_set order_refl)
  qed
  have missing: "?missing = [] \<longleftrightarrow> set ?req \<subseteq> set ?src"
    by (auto simp: filter_empty_conv)
  have "length ?src \<noteq> length ?req" if "usable = []"
    using that ne by simp
  then show ?thesis
    using obs eq missing req sub by (auto simp: sorted_wrt_filter)
qed

theorem inventory_classification_exact_witness: "set (inv_missing sample_inventory) = {''x'', ''y''} - {''y''}"
  using inventory_classification_exact [OF sample_inventory_classified] by auto

text \<open>The semantic hash of an inventory, and the whole observation, do not depend on the order in
  which the required sources or the records arrive.\<close>

theorem inventory_order_irrelevant:
  assumes "set req = set req'" and "set usable = set usable'"
    and "distinct (map fst usable)" and "distinct (map fst usable')"
  shows "classify_inventory H req usable at = classify_inventory H req' usable' at"
proof -
  have req: "sorted_set req = sorted_set req'"
    unfolding sorted_set_def using assms(1)
    by (intro sorted_distinct_set_unique) simp_all
  have inj: "inj_on fst (set usable)"
    using assms(3) by (simp add: distinct_map)
  have dist: "distinct (map fst (sort_key fst u))" if "distinct (map fst u)" for u :: "(string \<times> pyval list) list"
    using that by (simp add: distinct_map)
  have recs: "sort_key fst usable = sort_key fst usable'"
    by (rule map_sorted_distinct_set_unique [of fst])
      (use assms inj dist [OF assms(3)] dist [OF assms(4)] in simp_all)
  have len: "length usable = length usable'"
    using assms(2-4) distinct_card [of "map fst usable"] distinct_card [of "map fst usable'"] by simp
  have emp: "usable = [] \<longleftrightarrow> usable' = []"
    using len by auto
  have mem: "List.member (map fst usable) = List.member (map fst usable')"
    using assms(2) by (auto simp: fun_eq_iff)
  have all: "list_all P (map fst usable) = list_all P (map fst usable')" for P
    using assms(2) by (simp add: list_all_iff)
  show ?thesis
    by (simp only: classify_inventory_def Let_def req recs mem all length_map len map_is_Nil_conv emp)
qed

theorem inventory_order_irrelevant_witness:
  "classify_inventory (\<lambda>_. []) [''a'', ''b''] [(''b'', []), (''a'', [])] (Aware 0)
   = classify_inventory (\<lambda>_. []) [''b'', ''a'', ''b''] [(''a'', []), (''b'', [])] (Aware 0)"
  by (rule inventory_order_irrelevant) auto

end
