(* ===== verification/Attestation_Authority.thy ===== *)
theory Attestation_Authority
  imports Attestation
begin

text \<open>
  \<open>crypto.py\<close>, second half: exact-SHA attestations against the authenticated manifest chain, the
  nonce binding store, and the current-authority predicate applied at every local boundary.
\<close>

section \<open>Attestation payloads\<close>

text \<open>The canonical text of a UUID: \<open>str(UUID(v)) == v\<close>; version 7 needs the RFC variant too.\<close>

definition canonical_uuid :: "string \<Rightarrow> bool" where
  "canonical_uuid s = (length s = 36 \<and> list_all (\<lambda>i. s ! i = CHR ''-'') [8, 13, 18, 23]
     \<and> list_all (\<lambda>i. List.member [8, 13, 18, 23] i \<or> is_hex (s ! i)) [0..<36])"

definition uuid7_text :: "string \<Rightarrow> bool" where
  "uuid7_text s = (canonical_uuid s \<and> s ! 14 = CHR ''7'' \<and> List.member ''89ab'' (s ! 19))"

definition ATTESTATION_PAYLOAD_FIELDS :: "string list" where
  "ATTESTATION_PAYLOAD_FIELDS = [''attestation_schema_version'', ''execution_trust_policy_version'',
     ''execution_trust_attestation_authority_version'', ''execution_trust_key_manifest_version'',
     ''key_manifest_generation_at_issuance'', ''key_manifest_digest_at_issuance'', ''attestation_id'',
     ''algorithm'', ''key_id'', ''key_version'', ''public_key_fingerprint'', ''repository_id'',
     ''repository'', ''pr_number'', ''head_sha'', ''head_generation'', ''inventory_guard_status'',
     ''missing_source_ids'', ''effective_writer_inventory_hash'',
     ''inventory_guard_freshness_policy_version'', ''inventory_observed_at_at_issuance'',
     ''issued_at'', ''expires_at'', ''nonce'', ''request_linkage_hash'']"

definition ATTESTATION_ONE_FIELDS :: "string list" where
  "ATTESTATION_ONE_FIELDS = [''attestation_schema_version'', ''execution_trust_policy_version'',
     ''execution_trust_attestation_authority_version'', ''execution_trust_key_manifest_version'',
     ''inventory_guard_freshness_policy_version'']"

definition sorted_text_set :: "pyval list \<Rightarrow> bool" where
  "sorted_text_set xs = (list_all (str_matches (\<lambda>s. s \<noteq> [])) xs \<and> map str_key xs = sort (remdups (map str_key xs)))"

definition guard_status_ok :: "pyval \<Rightarrow> pyval \<Rightarrow> crypto_error + bool" where
  "guard_status_ok status missing =
     bindE (in_set status [''complete'', ''partial'']) (\<lambda>known.
     Inr (known \<and> is_list missing \<and> sorted_text_set (list_of missing)
       \<and> (status = PStr ''complete'' \<longrightarrow> list_of missing = [])
       \<and> (status = PStr ''partial'' \<longrightarrow> list_of missing \<noteq> [])))"

definition decode_nonce :: "string \<Rightarrow> crypto_error + string" where
  "decode_nonce s =
     (let raw = b64_decode s
      in if length raw \<noteq> 32 then Inl (AttestationContractError ''nonce must encode exactly 256 bits'') else Inr raw)"

definition validate_attestation_payload ::
  "(string \<Rightarrow> pydatetime option) \<Rightarrow> pydict \<Rightarrow> crypto_error + instant \<times> instant" where
  "validate_attestation_payload fromiso payload =
     bindE (requireE (keys_exact payload ATTESTATION_PAYLOAD_FIELDS)
       (AttestationContractError ''invalid exact-SHA attestation v1 payload shape'')) (\<lambda>_.
     bindE (forE ATTESTATION_ONE_FIELDS (\<lambda>f. requireE (pget payload f = PInt 1)
       (AttestationContractError (''unsupported '' @ f)))) (\<lambda>_.
     bindE (forE [''key_manifest_generation_at_issuance'', ''repository_id'', ''head_generation''] (\<lambda>f.
       requireE (str_matches canonical_uint (pget payload f))
         (AttestationContractError (f @ '' must be a canonical unsigned string'')))) (\<lambda>_.
     bindE (forE [''key_manifest_digest_at_issuance'', ''public_key_fingerprint'',
         ''effective_writer_inventory_hash'', ''request_linkage_hash''] (\<lambda>f.
       requireE (str_matches sha256hex (pget payload f)) (AttestationContractError (''invalid '' @ f)))) (\<lambda>_.
     bindE (requireE (str_matches uuid7_text (pget payload ''attestation_id''))
       (AttestationContractError ''attestation_id must be a canonical UUIDv7'')) (\<lambda>_.
     bindE (in_set (pget payload ''algorithm'') [''Ed25519'', ''platform-native-P256'']) (\<lambda>ok.
     bindE (requireE ok (AttestationContractError ''invalid attestation algorithm'')) (\<lambda>_.
     bindE (requireE (str_matches key_id_text (pget payload ''key_id''))
       (AttestationContractError ''invalid key_id'')) (\<lambda>_.
     bindE (requireE (positive_int (pget payload ''key_version''))
       (AttestationContractError ''invalid key_version'')) (\<lambda>_.
     bindE (requireE (str_matches loose_repository_name (pget payload ''repository''))
       (AttestationContractError ''invalid exact repository'')) (\<lambda>_.
     bindE (requireE (positive_int (pget payload ''pr_number''))
       (AttestationContractError ''invalid pr_number'')) (\<lambda>_.
     bindE (requireE (str_matches sha40 (pget payload ''head_sha''))
       (AttestationContractError ''invalid head_sha'')) (\<lambda>_.
     bindE (guard_status_ok (pget payload ''inventory_guard_status'') (pget payload ''missing_source_ids'')) (\<lambda>ok.
     bindE (requireE ok (AttestationContractError ''invalid inventory guard status/missing set'')) (\<lambda>_.
     bindE (requireE (str_matches (\<lambda>s. length s = 43 \<and> list_all is_b64 s) (pget payload ''nonce''))
       (AttestationContractError ''nonce must be canonical unpadded base64url'')) (\<lambda>_.
     bindE (decode_nonce (fmt (pget payload ''nonce''))) (\<lambda>_.
     bindE (parse_utc fromiso (pget payload ''inventory_observed_at_at_issuance'')
       ''inventory_observed_at_at_issuance'') (\<lambda>_.
     bindE (parse_utc fromiso (pget payload ''issued_at'') ''issued_at'') (\<lambda>issued_at.
     bindE (parse_utc fromiso (pget payload ''expires_at'') ''expires_at'') (\<lambda>expires_at.
     bindE (requireE (issued_at < expires_at \<and> expires_at - issued_at \<le> minutes 90)
       (AttestationContractError ''attestation validity must be positive and at most 90 minutes'')) (\<lambda>_.
     Inr (issued_at, expires_at)))))))))))))))))))))"

section \<open>Verification against the chain\<close>

definition algorithm_matches :: "pyval \<Rightarrow> public_key \<Rightarrow> bool" where
  "algorithm_matches algorithm k =
     (case k of Ed25519Key _ \<Rightarrow> algorithm = PStr ''Ed25519''
      | P256Key _ \<Rightarrow> algorithm = PStr ''platform-native-P256'' | OtherKey _ \<Rightarrow> False)"

definition retirement_manifest :: "AuthenticatedManifest list \<Rightarrow> AuthenticatedManifest \<Rightarrow> key_identity
    \<Rightarrow> crypto_error + AuthenticatedManifest" where
  "retirement_manifest chain issuance identity =
     (case find (\<lambda>m. am_generation m > am_generation issuance
         \<and> (case map_of (am_keys m) identity of None \<Rightarrow> False | Some k \<Rightarrow> kr_state k \<noteq> ''active'')) chain of
        None \<Rightarrow> Inl CrStopIteration
      | Some m \<Rightarrow> Inr m)"

text \<open>The key records at issuance and now, and the verifier key they pin.\<close>

definition authorized_verifier ::
  "(string \<Rightarrow> string) \<Rightarrow> pydict \<Rightarrow> AuthenticatedManifest \<Rightarrow> AuthenticatedManifest
   \<Rightarrow> (key_identity \<times> public_key) list \<Rightarrow> key_identity \<Rightarrow> crypto_error + KeyRecord \<times> public_key" where
  "authorized_verifier H payload issuance current public_keys identity =
     (case map_of (am_keys issuance) identity of
        None \<Rightarrow> Inl (AttestationContractError ''key was not active in the authenticated issuance manifest'')
      | Some issued_record \<Rightarrow>
     bindE (requireE (kr_state issued_record = ''active'')
       (AttestationContractError ''key was not active in the authenticated issuance manifest'')) (\<lambda>_.
     (case map_of (am_keys current) identity of
        None \<Rightarrow> Inl (AttestationContractError ''key is currently revoked or unknown'')
      | Some current_record \<Rightarrow>
     bindE (requireE (List.member [''active'', ''retiring''] (kr_state current_record))
       (AttestationContractError ''key is currently revoked or unknown'')) (\<lambda>_.
     (case map_of public_keys identity of
        None \<Rightarrow> Inl (AttestationContractError ''public verifier key is unavailable'')
      | Some public_key \<Rightarrow>
     bindE (requireE (algorithm_matches (pget payload ''algorithm'') public_key
         \<and> PStr (kr_algorithm issued_record) = pget payload ''algorithm''
         \<and> PStr (kr_algorithm current_record) = pget payload ''algorithm'')
       (AttestationContractError ''attestation algorithm/key mismatch'')) (\<lambda>_.
     let fingerprint = spki_fingerprint H public_key
     in bindE (requireE (kr_public_key_fingerprint issued_record = fingerprint
           \<and> kr_public_key_fingerprint current_record = fingerprint)
          (AttestationContractError ''manifest public-key fingerprint mismatch'')) (\<lambda>_.
        bindE (requireE (py_eq (pget payload ''public_key_fingerprint'') (PStr fingerprint))
          (AttestationContractError ''attestation public-key fingerprint mismatch'')) (\<lambda>_.
        Inr (current_record, public_key)))))))))"

definition check_issuance_order ::
  "(string \<Rightarrow> pydatetime option) \<Rightarrow> AuthenticatedManifest list \<Rightarrow> AuthenticatedManifest \<Rightarrow> KeyRecord
   \<Rightarrow> key_identity \<Rightarrow> instant \<Rightarrow> crypto_error + unit" where
  "check_issuance_order fromiso chain issuance current_record identity issued_at =
     bindE (parse_utc fromiso (pget (am_payload issuance) ''issued_at'') ''issued_at'') (\<lambda>manifest_time.
     bindE (requireE (manifest_time \<le> issued_at)
       (AttestationContractError ''proof predates its issuance manifest'')) (\<lambda>_.
     if kr_state current_record = ''retiring'' then
       bindE (retirement_manifest chain issuance identity) (\<lambda>retirement.
       bindE (parse_utc fromiso (pget (am_payload retirement) ''issued_at'') ''issued_at'') (\<lambda>t.
       requireE (issued_at < t)
         (AttestationContractError ''retiring key proof was not issued before the transition'')))
     else Inr ()))"

definition verify_attestation ::
  "(string \<Rightarrow> string) \<Rightarrow> sig_prims \<Rightarrow> (string \<Rightarrow> pydatetime option) \<Rightarrow> pydict \<Rightarrow> AuthenticatedManifest list
   \<Rightarrow> (key_identity \<times> public_key) list \<Rightarrow> pydatetime \<Rightarrow> crypto_error + pydict" where
  "verify_attestation H prims fromiso envelope chain public_keys now =
     bindE (requireE (keys_exact envelope [''payload'', ''signature''] \<and> is_dict (pget envelope ''payload''))
       (AttestationContractError ''attestation envelope must contain only payload and signature'')) (\<lambda>_.
     let payload = dict_of (pget envelope ''payload''); signature = pget envelope ''signature'';
         identity = (fmt (pget payload ''key_id''), int_of (pget payload ''key_version''))
     in bindE (validate_attestation_payload fromiso payload) (\<lambda>(issued_at, expires_at).
        bindE (aware now (CryptoContractError ''authoritative time must be timezone-aware UTC'')) (\<lambda>n.
        bindE (requireE (issued_at \<le> n \<and> n < expires_at)
          (AttestationContractError ''attestation is not yet valid or is expired'')) (\<lambda>_.
        bindE (at_issuance chain (fmt (pget payload ''key_manifest_generation_at_issuance''))
          (fmt (pget payload ''key_manifest_digest_at_issuance''))) (\<lambda>issuance.
        bindE (chain_current chain) (\<lambda>current.
        bindE (authorized_verifier H payload issuance current public_keys identity) (\<lambda>(current_record, public_key).
        bindE (check_issuance_order fromiso chain issuance current_record identity issued_at) (\<lambda>_.
        bindE (recastE (verify_detached prims (PDict payload) signature public_key ATTESTATION_DOMAIN)
          (AttestationContractError ''attestation signature is invalid'')) (\<lambda>_.
        Inr payload)))))))))"

section \<open>Nonce bindings\<close>

record NonceBinding =
  nb_attestation_id :: string
  nb_nonce_hash :: string
  nb_logical_key :: string
  nb_generation :: pyval
  nb_expected_head_generation :: pyval
  nb_envelope_digest :: string

record nonce_store =
  ns_by_attestation :: "(string \<times> NonceBinding) list"
  ns_by_nonce :: "(string \<times> NonceBinding) list"

definition empty_nonce_store :: nonce_store where
  "empty_nonce_store = \<lparr>ns_by_attestation = [], ns_by_nonce = []\<rparr>"

definition generation_differs :: "NonceBinding \<Rightarrow> NonceBinding \<Rightarrow> bool" where
  "generation_differs existing b = (nb_logical_key existing = nb_logical_key b
     \<and> (nb_generation existing \<noteq> nb_generation b
        \<or> nb_expected_head_generation existing \<noteq> nb_expected_head_generation b))"

definition nonce_bind :: "NonceBinding \<Rightarrow> nonce_store \<Rightarrow> (crypto_error + string) \<times> nonce_store" where
  "nonce_bind b st =
     (if nb_attestation_id b = [] \<or> nb_nonce_hash b = [] \<or> nb_logical_key b = [] then
        (Inl (AttestationContractError ''nonce binding identity fields are required''), st)
      else
        case (case map_of (ns_by_attestation st) (nb_attestation_id b) of
                Some e \<Rightarrow> Some e | None \<Rightarrow> map_of (ns_by_nonce st) (nb_nonce_hash b)) of
          None \<Rightarrow> (Inr ''bound'', \<lparr>ns_by_attestation = ns_by_attestation st @ [(nb_attestation_id b, b)],
              ns_by_nonce = ns_by_nonce st @ [(nb_nonce_hash b, b)]\<rparr>)
        | Some existing \<Rightarrow>
            if existing = b then (Inr ''idempotent'', st)
            else if generation_differs existing b then (Inr ''generation_mismatch'', st)
            else (Inr ''replay'', st))"

definition nonce_require :: "NonceBinding \<Rightarrow> nonce_store \<Rightarrow> string" where
  "nonce_require b st =
     (case (map_of (ns_by_attestation st) (nb_attestation_id b), map_of (ns_by_nonce st) (nb_nonce_hash b)) of
        (Some existing, Some nonce_existing) \<Rightarrow>
          if existing = b \<and> nonce_existing = b then ''idempotent''
          else if generation_differs existing b then ''generation_mismatch'' else ''replay''
      | _ \<Rightarrow> ''unbound'')"

section \<open>Current authority\<close>

record ExactAttestationTarget =
  at_repository_id :: pyval
  at_repository :: pyval
  at_pr_number :: pyval
  at_head_sha :: pyval
  at_head_generation :: pyval
  at_local_gate_generation :: pyval

definition target_validate :: "ExactAttestationTarget \<Rightarrow> crypto_error + unit" where
  "target_validate t =
     bindE (requireE (str_matches canonical_uint (at_repository_id t))
       (AttestationContractError ''target repository_id is not canonical'')) (\<lambda>_.
     bindE (requireE (str_matches loose_repository_name (at_repository t))
       (AttestationContractError ''target repository name is invalid'')) (\<lambda>_.
     bindE (requireE (positive_int (at_pr_number t)) (AttestationContractError ''target PR number is invalid'')) (\<lambda>_.
     bindE (requireE (str_matches sha40 (at_head_sha t)) (AttestationContractError ''target head SHA is invalid'')) (\<lambda>_.
     bindE (requireE (str_matches canonical_uint (at_head_generation t))
       (AttestationContractError ''target head generation is not canonical'')) (\<lambda>_.
     requireE (positive_int (at_local_gate_generation t))
       (AttestationContractError ''local gate generation is invalid''))))))"

record AttestationAuthorityDecision =
  ad_valid :: bool
  ad_boundary :: string
  ad_proof_role :: string
  ad_decision_id :: string
  ad_attestation_id :: pyval
  ad_envelope_digest :: string
  ad_request_linkage_hash :: pyval
  ad_nonce_binding_outcome :: string

definition AUTHORITY_BOUNDARIES :: "string list" where
  "AUTHORITY_BOUNDARIES = [''pre-dispatch'', ''pre-claim'', ''pre-marker'', ''local-success'']"

definition attestation_envelope_digest :: "(string \<Rightarrow> string) \<Rightarrow> pydict \<Rightarrow> crypto_error + string" where
  "attestation_envelope_digest H envelope = bindE (canonicalize_jcs (PDict envelope)) (\<lambda>m. Inr (H m))"

text \<open>\<open>isoformat()\<close> of a UTC time, which keeps the offset \<open>+00:00\<close>.\<close>

definition isoformat_utc :: "instant \<Rightarrow> string" where
  "isoformat_utc t = date_time_text t
     @ (if t mod 1000000 = 0 then [] else ''.'' @ pad 6 (t mod 1000000)) @ ''+00:00''"

definition authority_expected :: "ExactAttestationTarget \<Rightarrow> string \<Rightarrow> pyval list \<Rightarrow> pyval \<Rightarrow> (string \<times> pyval) list" where
  "authority_expected target status missing semantic_hash =
     [(''repository_id'', at_repository_id target), (''repository'', at_repository target),
      (''pr_number'', at_pr_number target), (''head_sha'', at_head_sha target),
      (''head_generation'', at_head_generation target), (''inventory_guard_status'', PStr status),
      (''missing_source_ids'', PList missing), (''effective_writer_inventory_hash'', semantic_hash)]"

text \<open>Everything up to the nonce: the payload and the binding it asks for.\<close>

definition current_authority ::
  "(string \<Rightarrow> string) \<Rightarrow> sig_prims \<Rightarrow> (string \<Rightarrow> pydatetime option) \<Rightarrow> pydict \<Rightarrow> AuthenticatedManifest list
   \<Rightarrow> (key_identity \<times> public_key) list \<Rightarrow> ExactAttestationTarget \<Rightarrow> string \<Rightarrow> pyval list \<Rightarrow> pyval
   \<Rightarrow> pydatetime \<Rightarrow> pydatetime \<Rightarrow> string \<Rightarrow> crypto_error + pydict \<times> NonceBinding \<times> instant" where
  "current_authority H prims fromiso envelope chain public_keys target status missing semantic_hash
     observed_at now boundary =
     bindE (requireE (List.member AUTHORITY_BOUNDARIES boundary)
       (AttestationContractError ''unknown current-authority boundary'')) (\<lambda>_.
     bindE (target_validate target) (\<lambda>_.
     bindE (aware now (CryptoContractError ''authoritative time must be timezone-aware UTC'')) (\<lambda>n.
     bindE (aware observed_at (CryptoContractError ''authoritative time must be timezone-aware UTC'')) (\<lambda>t.
     bindE (requireE (0 \<le> n - t \<and> n - t \<le> minutes 5)
       (AttestationContractError ''current inventory observation is not fresh'')) (\<lambda>_.
     bindE (guard_status_ok (PStr status) (PList missing)) (\<lambda>ok.
     bindE (requireE (ok \<and> str_matches sha256hex semantic_hash)
       (AttestationContractError ''current inventory observation is invalid'')) (\<lambda>_.
     bindE (verify_attestation H prims fromiso envelope chain public_keys now) (\<lambda>payload.
     bindE (forE (authority_expected target status missing semantic_hash) (\<lambda>(field, expected).
       requireE (py_eq (pget payload field) expected)
         (AttestationContractError (''current authority mismatch: '' @ field)))) (\<lambda>_.
     bindE (attestation_envelope_digest H envelope) (\<lambda>envelope_hash.
     bindE (decode_nonce (fmt (pget payload ''nonce''))) (\<lambda>nonce.
     Inr (payload, \<lparr>nb_attestation_id = fmt (pget payload ''attestation_id''), nb_nonce_hash = H nonce,
       nb_logical_key = fmt (at_repository_id target) @ '':'' @ fmt (at_pr_number target) @ '':'' @ fmt (at_head_sha target),
       nb_generation = at_local_gate_generation target,
       nb_expected_head_generation = at_head_generation target, nb_envelope_digest = envelope_hash\<rparr>, t))))))))))))"

definition verify_attestation_authority ::
  "(string \<Rightarrow> string) \<Rightarrow> sig_prims \<Rightarrow> (string \<Rightarrow> pydatetime option) \<Rightarrow> pydict \<Rightarrow> AuthenticatedManifest list
   \<Rightarrow> (key_identity \<times> public_key) list \<Rightarrow> ExactAttestationTarget \<Rightarrow> string \<Rightarrow> pyval list \<Rightarrow> pyval
   \<Rightarrow> pydatetime \<Rightarrow> pydatetime \<Rightarrow> string \<Rightarrow> nonce_store
   \<Rightarrow> (crypto_error + AttestationAuthorityDecision) \<times> nonce_store" where
  "verify_attestation_authority H prims fromiso envelope chain public_keys target status missing semantic_hash
     observed_at now boundary st =
     (case current_authority H prims fromiso envelope chain public_keys target status missing semantic_hash
         observed_at now boundary of
        Inl e \<Rightarrow> (Inl e, st)
      | Inr (payload, binding, t) \<Rightarrow>
          (case (if boundary = ''pre-dispatch'' then nonce_bind binding st else (Inr (nonce_require binding st), st)) of
             (Inl e, st') \<Rightarrow> (Inl e, st')
           | (Inr outcome, st') \<Rightarrow>
               if \<not> List.member [''bound'', ''idempotent''] outcome then
                 (Inl (AttestationContractError ''attestation nonce rejected''), st')
               else
                 (bindE (canonicalize_jcs (PDict [(''boundary'', PStr boundary),
                      (''attestation_id'', pget payload ''attestation_id''),
                      (''envelope_digest'', PStr (nb_envelope_digest binding)),
                      (''local_gate_generation'', at_local_gate_generation target),
                      (''inventory_observed_at'', PStr (isoformat_utc t))])) (\<lambda>body.
                  Inr \<lparr>ad_valid = True, ad_boundary = boundary, ad_proof_role = ''current_authority_for_success'',
                       ad_decision_id = H body, ad_attestation_id = pget payload ''attestation_id'',
                       ad_envelope_digest = nb_envelope_digest binding,
                       ad_request_linkage_hash = pget payload ''request_linkage_hash'',
                       ad_nonce_binding_outcome = outcome\<rparr>), st')))"

section \<open>What verification establishes\<close>

lemma at_issuanceD: "at_issuance ms g dig = Inr m \<Longrightarrow> m \<in> set ms \<and> am_generation m = int (digits_value g) \<and> am_digest m = dig"
proof -
  assume a: "at_issuance ms g dig = Inr m"
  then have "filter (\<lambda>m. am_generation m = int (digits_value g)) ms = [m] \<and> am_digest m = dig"
    by (auto simp: at_issuance_def simp del: digits_value.simps split: if_splits list.splits)
  then show ?thesis using filter_eq_singleD [of _ ms m] by auto
qed

lemma chain_current_iff: "chain_current ms = Inr m \<longleftrightarrow> ms \<noteq> [] \<and> m = last ms"
  by (auto simp: chain_current_def)

text \<open>The facts an accepted attestation rests on.\<close>

definition attestation_grounds ::
  "(string \<Rightarrow> string) \<Rightarrow> sig_prims \<Rightarrow> (string \<Rightarrow> pydatetime option) \<Rightarrow> pydict \<Rightarrow> AuthenticatedManifest list
   \<Rightarrow> (key_identity \<times> public_key) list \<Rightarrow> pydatetime \<Rightarrow> pydict \<Rightarrow> bool" where
  "attestation_grounds H prims fromiso envelope chain public_keys now payload =
     (\<exists>n issued expires issuance k k' pk.
        now = Aware n \<and> validate_attestation_payload fromiso payload = Inr (issued, expires)
        \<and> issued \<le> n \<and> n < expires
        \<and> issuance \<in> set chain
        \<and> pget payload ''key_manifest_digest_at_issuance'' = PStr (am_digest issuance)
        \<and> map_of (am_keys issuance) (fmt (pget payload ''key_id''), int_of (pget payload ''key_version'')) = Some k
        \<and> kr_state k = ''active''
        \<and> map_of (am_keys (last chain)) (fmt (pget payload ''key_id''), int_of (pget payload ''key_version'')) = Some k'
        \<and> kr_state k' \<noteq> ''revoked''
        \<and> map_of public_keys (fmt (pget payload ''key_id''), int_of (pget payload ''key_version'')) = Some pk
        \<and> kr_public_key_fingerprint k' = spki_fingerprint H pk
        \<and> verify_detached prims (PDict payload) (pget envelope ''signature'') pk ATTESTATION_DOMAIN = Inr ())"

lemma payload_shape:
  assumes "validate_attestation_payload fromiso p = Inr (issued, expires)"
  shows "str_matches sha256hex (pget p ''key_manifest_digest_at_issuance'')"
    and "issued < expires \<and> expires - issued \<le> minutes 90"
    and "keys_exact p ATTESTATION_PAYLOAD_FIELDS"
  using assms by (auto simp: validate_attestation_payload_def bindE_eq_Inr forE_eq_Inr)

lemma authorized_verifierD:
  assumes "authorized_verifier H payload issuance current public_keys identity = Inr (k', pk)"
  shows "\<exists>k. map_of (am_keys issuance) identity = Some k \<and> kr_state k = ''active''
    \<and> map_of (am_keys current) identity = Some k' \<and> kr_state k' \<in> {''active'', ''retiring''}
    \<and> map_of public_keys identity = Some pk \<and> kr_public_key_fingerprint k' = spki_fingerprint H pk"
  using assms by (auto simp: authorized_verifier_def bindE_eq_Inr Let_def split: option.splits)

lemma verify_attestation_steps:
  assumes "verify_attestation H prims fromiso envelope chain public_keys now = Inr payload"
  obtains n issued expires issuance k' pk where "now = Aware n"
    "validate_attestation_payload fromiso payload = Inr (issued, expires)" "issued \<le> n" "n < expires"
    "at_issuance chain (fmt (pget payload ''key_manifest_generation_at_issuance''))
       (fmt (pget payload ''key_manifest_digest_at_issuance'')) = Inr issuance"
    "chain \<noteq> []" "authorized_verifier H payload issuance (last chain) public_keys
       (fmt (pget payload ''key_id''), int_of (pget payload ''key_version'')) = Inr (k', pk)"
    "check_issuance_order fromiso chain issuance k'
       (fmt (pget payload ''key_id''), int_of (pget payload ''key_version'')) issued = Inr ()"
    "verify_detached prims (PDict payload) (pget envelope ''signature'') pk ATTESTATION_DOMAIN = Inr ()"
    "is_dict (pget envelope ''payload'')" "dict_of (pget envelope ''payload'') = payload"
  using assms unfolding verify_attestation_def Let_def
  by (auto simp: bindE_eq_Inr chain_current_iff)

lemma verify_attestationD:
  assumes "verify_attestation H prims fromiso envelope chain public_keys now = Inr payload"
  shows "attestation_grounds H prims fromiso envelope chain public_keys now payload
    \<and> pget envelope ''payload'' = PDict payload"
  using assms
proof (rule verify_attestation_steps)
  fix n issued expires issuance k' pk
  assume facts: "now = Aware n" "validate_attestation_payload fromiso payload = Inr (issued, expires)"
    "issued \<le> n" "n < expires"
    and at: "at_issuance chain (fmt (pget payload ''key_manifest_generation_at_issuance''))
       (fmt (pget payload ''key_manifest_digest_at_issuance'')) = Inr issuance"
    and ver: "authorized_verifier H payload issuance (last chain) public_keys
       (fmt (pget payload ''key_id''), int_of (pget payload ''key_version'')) = Inr (k', pk)"
    and sig: "verify_detached prims (PDict payload) (pget envelope ''signature'') pk ATTESTATION_DOMAIN = Inr ()"
    and dict: "is_dict (pget envelope ''payload'')" "dict_of (pget envelope ''payload'') = payload"
  from payload_shape(1) [OF facts(2)] at_issuanceD [OF at]
  have issuance: "issuance \<in> set chain" "pget payload ''key_manifest_digest_at_issuance'' = PStr (am_digest issuance)"
    by (auto simp: str_matches_iff)
  have "attestation_grounds H prims fromiso envelope chain public_keys now payload"
    unfolding attestation_grounds_def
    using facts issuance sig authorized_verifierD [OF ver] by fastforce
  moreover have "pget envelope ''payload'' = PDict payload"
    using dict by (cases "pget envelope ''payload''") simp_all
  ultimately show ?thesis ..
qed

text \<open>The first manifest after issuance that no longer has the key active always exists for a retiring key.\<close>

lemma retirement_found:
  assumes chain: "chained None chain" and m: "issuance \<in> set chain"
    and k: "map_of (am_keys issuance) identity = Some k" "kr_state k = ''active''"
    and k': "map_of (am_keys (last chain)) identity = Some k'" "kr_state k' = ''retiring''"
  shows "\<exists>r. retirement_manifest chain issuance identity = Inr r"
proof -
  obtain i where i: "i < length chain" "issuance = chain ! i"
    using m by (auto simp: in_set_conv_nth)
  have last: "last chain = chain ! (length chain - 1)" "length chain - 1 < length chain"
    using i(1) by (cases "chain = []"; simp add: last_conv_nth)+
  have "issuance \<noteq> last chain" using k k' by auto
  then have "i < length chain - 1" using i last by (cases "i = length chain - 1") auto
  then have "am_generation issuance < am_generation (last chain)"
    using chain_generation [OF chain] i last by simp
  moreover have "last chain \<in> set chain" using i(1) by (cases chain) auto
  ultimately have "find (\<lambda>m. am_generation issuance < am_generation m
      \<and> (case map_of (am_keys m) identity of None \<Rightarrow> False | Some k \<Rightarrow> kr_state k \<noteq> ''active'')) chain \<noteq> None"
    unfolding find_None_iff using k' by force
  then show ?thesis by (auto simp: retirement_manifest_def)
qed

lemma no_stop:
  "parse_utc fromiso v field \<noteq> Inl CrStopIteration" "canonicalize_jcs v \<noteq> Inl CrStopIteration"
  "in_set v ss \<noteq> Inl CrStopIteration" "chain_current ms \<noteq> Inl CrStopIteration" "at_issuance ms g dig \<noteq> Inl CrStopIteration"
  "authorized_verifier H payload issuance current public_keys identity \<noteq> Inl CrStopIteration"
  "decode_nonce s \<noteq> Inl CrStopIteration" "guard_status_ok status missing \<noteq> Inl CrStopIteration"
proof -
  show "parse_utc fromiso v field \<noteq> Inl CrStopIteration"
    by (cases v) (auto split: option.splits pydatetime.splits elim: aware.elims)
  show "in_set v ss \<noteq> Inl CrStopIteration" for v ss by (simp add: in_set_def)
  then show "guard_status_ok status missing \<noteq> Inl CrStopIteration"
    by (auto simp: guard_status_ok_def bindE_eq_Inl)
qed (auto simp: canonicalize_jcs_def chain_current_def at_issuance_def authorized_verifier_def decode_nonce_def
    Let_def bindE_eq_Inl split: list.splits option.splits)

lemma bindE_never: "m \<noteq> Inl e \<Longrightarrow> (\<And>x. m = Inr x \<Longrightarrow> f x \<noteq> Inl e) \<Longrightarrow> bindE m f \<noteq> Inl e"
  by (cases m) simp_all

lemma case_prod_never: "(\<And>a b. p = (a, b) \<Longrightarrow> f a b \<noteq> y) \<Longrightarrow> case_prod f p \<noteq> y"
  by (cases p) simp

lemma forE_never: "(\<And>x. f x \<noteq> Inl e) \<Longrightarrow> forE xs f \<noteq> Inl e"
  by (auto dest!: forE_eq_Inl)

lemma requireE_never: "d \<noteq> e \<Longrightarrow> requireE c d \<noteq> Inl e"
  by (simp add: requireE_def)

lemma recastE_never: "d \<noteq> e \<Longrightarrow> recastE m d \<noteq> Inl e"
  by (cases m) (simp_all add: recastE_def)

lemma validate_no_stop: "validate_attestation_payload fromiso p \<noteq> Inl CrStopIteration"
  unfolding validate_attestation_payload_def
  by (intro bindE_never forE_never requireE_never no_stop) simp_all

lemma order_no_stop:
  assumes "chained None chain" and "at_issuance chain g dig = Inr issuance" and "chain_current chain = Inr current"
    and "authorized_verifier H payload issuance current public_keys identity = Inr (k', pk)"
  shows "check_issuance_order fromiso chain issuance k' identity t \<noteq> Inl CrStopIteration"
proof -
  have "\<exists>r. retirement_manifest chain issuance identity = Inr r" if "kr_state k' = ''retiring''"
    using authorized_verifierD [OF assms(4)] at_issuanceD [OF assms(2)] assms(3) that
    by (auto simp: chain_current_iff intro: retirement_found [OF assms(1)])
  then have "kr_state k' = ''retiring'' \<Longrightarrow> retirement_manifest chain issuance identity \<noteq> Inl CrStopIteration"
    by auto
  then show ?thesis
    unfolding check_issuance_order_def
    by (cases "kr_state k' = ''retiring''"; simp only: if_True if_False)
      (intro bindE_never requireE_never no_stop, simp_all)+
qed

lemma verify_no_stop:
  assumes "chained None chain"
  shows "verify_attestation H prims fromiso envelope chain public_keys now \<noteq> Inl CrStopIteration"
proof -
  have aware: "aware now (CryptoContractError s) \<noteq> Inl CrStopIteration" for s by (cases now) simp_all
  show ?thesis
    unfolding verify_attestation_def Let_def
    by (intro bindE_never requireE_never recastE_never no_stop validate_no_stop case_prod_never aware)
      (simp_all add: order_no_stop [OF assms])
qed

section \<open>Nonce store\<close>

definition nonce_inv :: "nonce_store \<Rightarrow> bool" where
  "nonce_inv st =
     ((\<forall>i b. map_of (ns_by_attestation st) i = Some b \<longrightarrow>
         nb_attestation_id b = i \<and> map_of (ns_by_nonce st) (nb_nonce_hash b) = Some b)
      \<and> (\<forall>h b. map_of (ns_by_nonce st) h = Some b \<longrightarrow>
         nb_nonce_hash b = h \<and> map_of (ns_by_attestation st) (nb_attestation_id b) = Some b))"

definition nonce_held :: "NonceBinding \<Rightarrow> nonce_store \<Rightarrow> bool" where
  "nonce_held b st = (map_of (ns_by_attestation st) (nb_attestation_id b) = Some b
     \<and> map_of (ns_by_nonce st) (nb_nonce_hash b) = Some b)"

definition nonce_step :: "NonceBinding \<Rightarrow> nonce_store \<Rightarrow> nonce_store" where
  "nonce_step b st = snd (nonce_bind b st)"

lemma nonce_bind_new:
  assumes "nonce_bind b st = (Inr ''bound'', st')"
  shows "map_of (ns_by_attestation st) (nb_attestation_id b) = None \<and> map_of (ns_by_nonce st) (nb_nonce_hash b) = None
    \<and> st' = \<lparr>ns_by_attestation = ns_by_attestation st @ [(nb_attestation_id b, b)],
        ns_by_nonce = ns_by_nonce st @ [(nb_nonce_hash b, b)]\<rparr>"
  using assms by (auto simp: nonce_bind_def split: if_splits option.splits)

lemma nonce_bind_other: "fst (nonce_bind b st) \<noteq> Inr ''bound'' \<Longrightarrow> snd (nonce_bind b st) = st"
  by (auto simp: nonce_bind_def split: option.splits)

lemma nonce_invD:
  assumes "nonce_inv st"
  shows "map_of (ns_by_attestation st) i = Some b \<Longrightarrow> nonce_held b st \<and> nb_attestation_id b = i"
    and "map_of (ns_by_nonce st) h = Some b \<Longrightarrow> nonce_held b st \<and> nb_nonce_hash b = h"
  using assms unfolding nonce_inv_def nonce_held_def by metis+

lemma nonce_bind_idempotent:
  assumes "fst (nonce_bind b st) = Inr ''idempotent''" and "nonce_inv st"
  shows "nonce_held b st"
proof -
  from assms(1) consider "map_of (ns_by_attestation st) (nb_attestation_id b) = Some b"
    | "map_of (ns_by_nonce st) (nb_nonce_hash b) = Some b"
    by (auto simp: nonce_bind_def split: if_splits option.splits)
  then show ?thesis
    using nonce_invD [OF assms(2)] by cases blast+
qed

interpretation nonce_machine: stable_machine nonce_step nonce_inv empty_nonce_store nonce_held
proof
  show "nonce_inv empty_nonce_store"
    by (simp add: nonce_inv_def empty_nonce_store_def)
  show "nonce_inv (nonce_step c s)" if inv: "nonce_inv s" for s c
  proof (cases "fst (nonce_bind c s) = Inr ''bound''")
    case True
    then obtain st' where st': "nonce_bind c s = (Inr ''bound'', st')" by (cases "nonce_bind c s") auto
    note new = nonce_bind_new [OF st']
    have "snd (nonce_bind c s) = st'" using st' by simp
    with new show ?thesis
      unfolding nonce_inv_def nonce_step_def by (auto simp: map_add_def split: option.splits dest: nonce_invD [OF inv, unfolded nonce_held_def])
  qed (use inv nonce_bind_other in \<open>simp add: nonce_step_def\<close>)
  show "nonce_held x (nonce_step c s)" if "nonce_inv s" "nonce_held x s" for s x c
  proof (cases "fst (nonce_bind c s) = Inr ''bound''")
    case True
    then obtain st' where st': "nonce_bind c s = (Inr ''bound'', st')" by (cases "nonce_bind c s") auto
    show ?thesis
      using that nonce_bind_new [OF st'] st' by (simp add: nonce_held_def nonce_step_def map_add_def)
  qed (use that nonce_bind_other in \<open>simp add: nonce_step_def\<close>)
qed

lemma held_require: "nonce_held b st \<Longrightarrow> nonce_require b st = ''idempotent''"
  by (simp add: nonce_held_def nonce_require_def)

lemma held_excludes:
  assumes "nonce_inv st" and "nonce_held b st" and "b' \<noteq> b"
    and "nb_attestation_id b' = nb_attestation_id b \<or> nb_nonce_hash b' = nb_nonce_hash b"
  shows "fst (nonce_bind b' st) \<notin> {Inr ''bound'', Inr ''idempotent''} \<and> nonce_require b' st \<noteq> ''idempotent''"
proof -
  have nheld: "\<not> nonce_held b' st"
    using assms(2-4) by (auto simp: nonce_held_def)
  have "fst (nonce_bind b' st) \<noteq> Inr ''bound''"
  proof
    assume "fst (nonce_bind b' st) = Inr ''bound''"
    then obtain st' where "nonce_bind b' st = (Inr ''bound'', st')" by (cases "nonce_bind b' st") auto
    from nonce_bind_new [OF this] assms(2,4) show False by (auto simp: nonce_held_def)
  qed
  moreover have "nonce_require b' st \<noteq> ''idempotent''"
    using nheld by (auto simp: nonce_require_def nonce_held_def split: option.splits)
  ultimately show ?thesis
    using nonce_bind_idempotent assms(1) nheld by blast
qed

lemma current_authorityD:
  assumes "current_authority H prims fromiso envelope chain public_keys target status missing semantic_hash
      (Aware t) (Aware n) boundary = Inr (payload, binding, t')"
  shows "verify_attestation H prims fromiso envelope chain public_keys (Aware n) = Inr payload"
    and "list_all (\<lambda>(field, v). py_eq (pget payload field) v) (authority_expected target status missing semantic_hash)"
    and "0 \<le> n - t \<and> n - t \<le> minutes 5"
    and "nb_attestation_id binding = fmt (pget payload ''attestation_id'')"
    and "nb_generation binding = at_local_gate_generation target"
  using assms by (auto simp: current_authority_def bindE_eq_Inr forE_eq_Inr list_all_iff)

lemma nonce_accepted_held:
  assumes "nonce_inv st"
  shows "nonce_bind b st = (Inr outcome, st') \<Longrightarrow> outcome \<in> {''bound'', ''idempotent''} \<Longrightarrow> nonce_held b st'"
    and "nonce_require b st \<in> {''bound'', ''idempotent''} \<Longrightarrow> nonce_held b st"
proof -
  assume bind: "nonce_bind b st = (Inr outcome, st')" and outcome: "outcome \<in> {''bound'', ''idempotent''}"
  show "nonce_held b st'"
  proof (cases "outcome = ''bound''")
    case True
    with nonce_bind_new bind show ?thesis by (fastforce simp: nonce_held_def map_add_def)
  next
    case False
    with bind outcome nonce_bind_idempotent [OF _ assms, of b] nonce_bind_other [of b st] show ?thesis by simp
  qed
qed (auto simp: nonce_require_def nonce_held_def split: option.splits if_splits)

lemma authority_steps:
  assumes "verify_attestation_authority H prims fromiso envelope chain public_keys target status missing semantic_hash
      observed_at now boundary st = (Inr d, st')" and "nonce_inv st"
  obtains payload binding t where "current_authority H prims fromiso envelope chain public_keys target status missing
      semantic_hash observed_at now boundary = Inr (payload, binding, t)"
    "nonce_held binding st'" "boundary \<noteq> ''pre-dispatch'' \<Longrightarrow> st' = st"
proof -
  obtain payload binding t where c: "current_authority H prims fromiso envelope chain public_keys target status missing
      semantic_hash observed_at now boundary = Inr (payload, binding, t)"
    using assms(1) unfolding verify_attestation_authority_def by (auto split: sum.splits)
  have "nonce_held binding st' \<and> (boundary \<noteq> ''pre-dispatch'' \<longrightarrow> st' = st)"
  proof (cases "boundary = ''pre-dispatch''")
    case True
    then have "\<exists>outcome. nonce_bind binding st = (Inr outcome, st') \<and> outcome \<in> {''bound'', ''idempotent''}"
      using assms(1) unfolding verify_attestation_authority_def c
      by (auto split: prod.splits sum.splits if_splits)
    with True nonce_accepted_held(1) [OF assms(2)] show ?thesis by blast
  next
    case False
    then have "nonce_require binding st \<in> {''bound'', ''idempotent''} \<and> st' = st"
      using assms(1) unfolding verify_attestation_authority_def c by (auto split: if_splits)
    with nonce_accepted_held(2) [OF assms(2)] show ?thesis by blast
  qed
  with c that show ?thesis by blast
qed

section \<open>A sample attestation\<close>

definition sample_payload :: pydict where
  "sample_payload = map (\<lambda>f. (f, PInt 1)) ATTESTATION_ONE_FIELDS @
     [(''key_manifest_generation_at_issuance'', PStr ''1''), (''key_manifest_digest_at_issuance'', PStr sample_hash),
      (''attestation_id'', PStr ''01234567-89ab-7def-8123-456789abcdef''), (''algorithm'', PStr ''Ed25519''),
      (''key_id'', PStr ''k''), (''key_version'', PInt 1), (''public_key_fingerprint'', PStr sample_hash),
      (''repository_id'', PStr ''9''), (''repository'', PStr ''o/r''), (''pr_number'', PInt 3),
      (''head_sha'', PStr (replicate 40 (CHR ''a''))), (''head_generation'', PStr ''2''),
      (''inventory_guard_status'', PStr ''complete''), (''missing_source_ids'', PList []),
      (''effective_writer_inventory_hash'', PStr sample_hash),
      (''inventory_observed_at_at_issuance'', PStr ''9Z''), (''issued_at'', PStr ''10Z''),
      (''expires_at'', PStr ''20Z''), (''nonce'', PStr (b64_encode (replicate 32 (CHR ''0'')))),
      (''request_linkage_hash'', PStr sample_hash)]"

definition sample_attestation :: pydict where
  "sample_attestation = [(''payload'', PDict sample_payload), (''signature'', PStr sample_signature)]"

definition sample_keys :: "(key_identity \<times> public_key) list" where
  "sample_keys = [((''k'', 1), Ed25519Key ''der'')]"

definition sample_target :: ExactAttestationTarget where
  "sample_target = \<lparr>at_repository_id = PStr ''9'', at_repository = PStr ''o/r'', at_pr_number = PInt 3,
     at_head_sha = PStr (replicate 40 (CHR ''a'')), at_head_generation = PStr ''2'', at_local_gate_generation = PInt 1\<rparr>"

lemma sample_payload_get:
  "pget sample_payload ''key_manifest_generation_at_issuance'' = PStr ''1''"
  "pget sample_payload ''key_manifest_digest_at_issuance'' = PStr sample_hash"
  "pget sample_payload ''attestation_id'' = PStr ''01234567-89ab-7def-8123-456789abcdef''"
  "pget sample_payload ''algorithm'' = PStr ''Ed25519''"
  "pget sample_payload ''key_id'' = PStr ''k''" "pget sample_payload ''key_version'' = PInt 1"
  "pget sample_payload ''public_key_fingerprint'' = PStr sample_hash"
  "pget sample_payload ''repository_id'' = PStr ''9''" "pget sample_payload ''repository'' = PStr ''o/r''"
  "pget sample_payload ''pr_number'' = PInt 3" "pget sample_payload ''head_sha'' = PStr (replicate 40 (CHR ''a''))"
  "pget sample_payload ''head_generation'' = PStr ''2''" "pget sample_payload ''inventory_guard_status'' = PStr ''complete''"
  "pget sample_payload ''missing_source_ids'' = PList []"
  "pget sample_payload ''effective_writer_inventory_hash'' = PStr sample_hash"
  "pget sample_payload ''inventory_observed_at_at_issuance'' = PStr ''9Z''" "pget sample_payload ''issued_at'' = PStr ''10Z''"
  "pget sample_payload ''expires_at'' = PStr ''20Z''"
  "pget sample_payload ''nonce'' = PStr (b64_encode (replicate 32 (CHR ''0'')))"
  "pget sample_payload ''request_linkage_hash'' = PStr sample_hash"
  "list_all (\<lambda>f. pget sample_payload f = PInt 1) ATTESTATION_ONE_FIELDS"
  by (simp_all add: sample_payload_def pget_def ATTESTATION_ONE_FIELDS_def)

lemma attested_texts:
  "canonical_uint ''1''" "canonical_uint ''2''" "canonical_uint ''9''" "uuid7_text ''01234567-89ab-7def-8123-456789abcdef''"
  "key_id_text ''k''" "loose_repository_name ''o/r''" "sha40 (replicate 40 (CHR ''a''))"
  "is_hex (CHR ''a'')" "sorted_text_set []" "digits_value ''1'' = 1" "sample_time ''9+00:00'' = Some (Aware 9)"
  "sample_time ''10+00:00'' = Some (Aware 10)" "sample_time ''20+00:00'' = Some (Aware 20)"
  by code_simp+

lemma sample_nonce: "length (b64_encode (replicate 32 (CHR ''0''))) = 43" "list_all is_b64 (b64_encode xs)"
  "decode_nonce (b64_encode (replicate 32 (CHR ''0''))) = Inr (replicate 32 (CHR ''0''))"
  using b64_encode_text by (simp_all add: b64_encode_length b64_decode_encode decode_nonce_def Let_def)

lemma sample_payload_valid: "validate_attestation_payload sample_time sample_payload = Inr (10, 20)"
proof -
  have "keys_exact sample_payload ATTESTATION_PAYLOAD_FIELDS"
    unfolding sample_payload_def ATTESTATION_PAYLOAD_FIELDS_def ATTESTATION_ONE_FIELDS_def keys_exact_iff
    by auto
  moreover have "forE ATTESTATION_ONE_FIELDS (\<lambda>f. requireE (pget sample_payload f = PInt 1)
      (AttestationContractError (''unsupported '' @ f))) = Inr ()"
    using sample_payload_get(21) by (simp add: forE_eq_Inr list_all_iff)
  ultimately show ?thesis
    by (simp add: validate_attestation_payload_def sample_payload_get attested_texts sample_nonce guard_status_ok_def
        in_set_def one_of_def del: digits_value.simps b64_encode.simps replicate.simps)
qed

lemma sample_payload_safe: "jcs_safe (PDict sample_payload)"
  by (simp add: sample_payload_def ATTESTATION_ONE_FIELDS_def MAX_SAFE_INTEGER_def)

lemma sample_attestation_accepted:
  "verify_attestation (\<lambda>_. sample_hash) sample_prims sample_time sample_attestation (sample_chain ''active'') sample_keys (Aware 15)
    = Inr sample_payload"
proof -
  have "at_issuance (sample_chain ''active'') ''1'' sample_hash = Inr (sample_chain ''active'' ! 0)"
    by (simp add: at_issuance_def attested_texts sample_chain_def sample_authenticated_def del: digits_value.simps)
  moreover have "chain_current (sample_chain ''active'') = Inr (sample_chain ''active'' ! 1)"
    by (simp add: chain_current_def sample_chain_def)
  moreover have "authorized_verifier (\<lambda>_. sample_hash) sample_payload (sample_chain ''active'' ! 0) (sample_chain ''active'' ! 1)
      sample_keys (''k'', 1) = Inr (sample_record ''active'', Ed25519Key ''der'')"
    by (simp add: authorized_verifier_def sample_chain_def sample_authenticated_def sample_record_def sample_keys_def
        algorithm_matches_def sample_payload_get spki_fingerprint_def)
  moreover have "check_issuance_order sample_time (sample_chain ''active'') (sample_chain ''active'' ! 0)
      (sample_record ''active'') (''k'', 1) 10 = Inr ()"
    by (simp add: check_issuance_order_def sample_chain_def sample_authenticated_def sample_record_def)
  ultimately show ?thesis
    by (simp add: verify_attestation_def sample_attestation_def dict_eval sample_payload_valid sample_payload_get [unfolded pget_def]
        sample_verifies sample_payload_safe Let_def del: jcs_safe.simps)
qed

lemma sample_binding: 
  "current_authority (\<lambda>_. sample_hash) sample_prims sample_time sample_attestation (sample_chain ''active'') sample_keys
     sample_target ''complete'' [] (PStr sample_hash) (Aware 14) (Aware 15) ''pre-dispatch''
   = Inr (sample_payload, \<lparr>nb_attestation_id = ''01234567-89ab-7def-8123-456789abcdef'', nb_nonce_hash = sample_hash,
       nb_logical_key = ''9'' @ '':'' @ fmt (PInt 3) @ '':'' @ replicate 40 (CHR ''a''), nb_generation = PInt 1,
       nb_expected_head_generation = PStr ''2'', nb_envelope_digest = sample_hash\<rparr>, 14)"
proof -
  have "attestation_envelope_digest (\<lambda>_. sample_hash) sample_attestation = Inr sample_hash"
    using sample_payload_safe by (simp add: attestation_envelope_digest_def canonicalize_jcs_def sample_attestation_def)
  then show ?thesis
    by (simp add: current_authority_def AUTHORITY_BOUNDARIES_def target_validate_def sample_target_def attested_texts
        sample_attestation_accepted authority_expected_def sample_payload_get sample_nonce guard_status_ok_def in_set_def one_of_def
        del: replicate.simps b64_encode.simps)
qed

section \<open>Properties\<close>

text \<open>An attestation verified against an authenticated manifest chain rests on all of its grounds: it is inside its
  validity window, its issuance manifest is a member of the chain that had the key active, the newest
  manifest has not revoked the key, and its signature verifies over the canonical payload under the public key
  whose fingerprint that manifest pins; the window is positive and at most ninety minutes.\<close>

theorem attestation_sound:
  assumes "verify_attestation H prims fromiso envelope chain public_keys now = Inr payload"
  shows "attestation_grounds H prims fromiso envelope chain public_keys now payload
    \<and> pget envelope ''payload'' = PDict payload
    \<and> (\<forall>issued expires. validate_attestation_payload fromiso payload = Inr (issued, expires)
          \<longrightarrow> issued < expires \<and> expires - issued \<le> minutes 90)"
  using verify_attestationD [OF assms] payload_shape(2) by blast

theorem attestation_sound_witness:
  "attestation_grounds (\<lambda>_. sample_hash) sample_prims sample_time sample_attestation (sample_chain ''active'') sample_keys
     (Aware 15) sample_payload"
  using attestation_sound [OF sample_attestation_accepted] by blast

text \<open>C9. Once any manifest of an authenticated chain has revoked a key version, no attestation by that key
  version verifies against the chain, whatever its issuance manifest and issue time.\<close>

theorem revoked_key_never_verifies:
  assumes "authenticate_manifest_chain H prims fromiso envelopes root fingerprint minimum_generation minimum_digest = Inr chain"
    and "m \<in> set chain" and "map_of (am_keys m) identity = Some k" and "kr_state k = ''revoked''"
    and "(fmt (pget payload ''key_id''), int_of (pget payload ''key_version'')) = identity"
  shows "verify_attestation H prims fromiso envelope chain public_keys now \<noteq> Inr payload"
proof
  assume "verify_attestation H prims fromiso envelope chain public_keys now = Inr payload"
  from verify_attestationD [OF this] assms(5) obtain k' where
    k': "map_of (am_keys (last chain)) identity = Some k'" "kr_state k' \<noteq> ''revoked''"
    by (auto simp: attestation_grounds_def)
  from assms(2) obtain i where i: "i < length chain" "chain ! i = m" by (auto simp: in_set_conv_nth)
  have ok: "chained None chain" "chain \<noteq> []" "keys_ok (am_keys (last chain))"
    using chain_ok [OF assms(1)] by auto
  have "\<exists>k''. map_of (am_keys (chain ! (length chain - 1))) identity = Some k'' \<and> key_advanced k k''"
    using i assms(3) by (intro chain_advances [OF ok(1), of i]) auto
  with k'(1) ok(2) have "key_advanced k k'" by (simp add: last_conv_nth)
  moreover have "kr_state k' \<in> {''active'', ''retiring'', ''revoked''}"
    using ok(3) map_of_SomeD [OF k'(1)] by (auto simp: keys_ok_def)
  ultimately show False
    using assms(4) k'(2) by (auto simp: key_advanced_def)
qed

theorem revoked_key_never_verifies_witness:
  "verify_attestation (\<lambda>_. sample_hash) sample_prims sample_time sample_attestation (sample_chain ''revoked'') sample_keys (Aware 15)
     \<noteq> Inr sample_payload"
  by (rule revoked_key_never_verifies [OF sample_chain_authenticates [of "''revoked''" "''der''"],
        of "sample_chain ''revoked'' ! 1" "(''k'', 1)" "sample_record ''revoked''"])
    (simp_all add: sample_chain_def sample_authenticated_def sample_record_def sample_payload_get)

text \<open>The search for the manifest that retired a key always succeeds on an authenticated chain: verifying an
  attestation never ends in the bare \<open>StopIteration\<close> the unguarded \<open>next\<close> could raise.\<close>

theorem verification_never_stops_iteration:
  assumes "authenticate_manifest_chain H prims fromiso envelopes root fingerprint minimum_generation minimum_digest = Inr chain"
  shows "verify_attestation H' prims' fromiso' envelope chain public_keys now \<noteq> Inl CrStopIteration"
  using verify_no_stop chain_ok [OF assms] by blast

theorem verification_never_stops_iteration_witness:
  "verify_attestation (\<lambda>_. sample_hash) sample_prims sample_time sample_attestation (sample_chain ''retiring'') sample_keys (Aware 15)
     \<noteq> Inl CrStopIteration"
  using verification_never_stops_iteration [OF sample_chain_authenticates [of "''retiring''" "''der''"]] by simp

text \<open>A nonce binding is single use: once a binding holds in a run of the store, every later attempt to bind or
  require a different binding with the same attestation id or the same nonce is refused, while requiring the
  original still succeeds.\<close>

theorem nonce_single_use:
  assumes "nonce_held b (fold nonce_step earlier empty_nonce_store)" and "b' \<noteq> b"
    and "nb_attestation_id b' = nb_attestation_id b \<or> nb_nonce_hash b' = nb_nonce_hash b"
  shows "let st = fold nonce_step (earlier @ later) empty_nonce_store
    in nonce_require b st = ''idempotent'' \<and> nonce_require b' st \<noteq> ''idempotent''
       \<and> fst (nonce_bind b' st) \<notin> {Inr ''bound'', Inr ''idempotent''}"
proof -
  have "nonce_held b (fold nonce_step (earlier @ later) empty_nonce_store)"
    using assms(1) by (rule nonce_machine.fact_later)
  with held_excludes [OF nonce_machine.inv_reachable _ assms(2,3)] held_require show ?thesis
    by (simp add: Let_def del: fold_append)
qed

theorem nonce_single_use_witness:
  "let b = \<lparr>nb_attestation_id = ''a'', nb_nonce_hash = ''n'', nb_logical_key = ''l'', nb_generation = PInt 1,
       nb_expected_head_generation = PStr ''1'', nb_envelope_digest = ''d''\<rparr>
   in nonce_require (b\<lparr>nb_attestation_id := ''z''\<rparr>) (fold nonce_step [b, b] empty_nonce_store) \<noteq> ''idempotent''"
proof -
  define b where "b = \<lparr>nb_attestation_id = ''a'', nb_nonce_hash = ''n'', nb_logical_key = ''l'', nb_generation = PInt 1,
       nb_expected_head_generation = PStr ''1'', nb_envelope_digest = ''d''\<rparr>"
  have "nonce_held b (fold nonce_step [b] empty_nonce_store)"
    by (simp add: b_def nonce_step_def nonce_bind_def nonce_held_def empty_nonce_store_def)
  from nonce_single_use [OF this, of "b\<lparr>nb_attestation_id := ''z''\<rparr>" "[b]"] show ?thesis
    by (simp add: Let_def b_def)
qed

text \<open>A positive current-authority decision is for the exact target: the attested repository, pull request, head,
  head generation and inventory are the ones asked about, the inventory was observed within the last five
  minutes, the attestation is sound, and its nonce binding to that target is held by the store, which
  only a decision at the pre-dispatch boundary can have changed.\<close>

theorem authority_decision_sound:
  assumes "verify_attestation_authority H prims fromiso envelope chain public_keys target status missing semantic_hash
      (Aware t) (Aware n) boundary st = (Inr d, st')" and "nonce_inv st"
  shows "\<exists>payload binding. attestation_grounds H prims fromiso envelope chain public_keys (Aware n) payload
    \<and> list_all (\<lambda>(field, v). py_eq (pget payload field) v) (authority_expected target status missing semantic_hash)
    \<and> 0 \<le> n - t \<and> n - t \<le> minutes 5
    \<and> nonce_held binding st' \<and> nb_attestation_id binding = fmt (pget payload ''attestation_id'')
    \<and> nb_generation binding = at_local_gate_generation target
    \<and> (boundary \<noteq> ''pre-dispatch'' \<longrightarrow> st' = st)"
  using assms
proof (rule authority_steps)
  fix payload binding t'
  assume c: "current_authority H prims fromiso envelope chain public_keys target status missing semantic_hash
      (Aware t) (Aware n) boundary = Inr (payload, binding, t')"
    and "nonce_held binding st'" and "boundary \<noteq> ''pre-dispatch'' \<Longrightarrow> st' = st"
  with current_authorityD [OF c] verify_attestationD show ?thesis by blast
qed

theorem authority_decision_sound_witness:
  "\<exists>d st'. verify_attestation_authority (\<lambda>_. sample_hash) sample_prims sample_time sample_attestation (sample_chain ''active'')
      sample_keys sample_target ''complete'' [] (PStr sample_hash) (Aware 14) (Aware 15) ''pre-dispatch'' empty_nonce_store
      = (Inr d, st') \<and> (\<exists>binding. nonce_held binding st' \<and> nb_generation binding = PInt 1)"
proof -
  have target_generation: "at_local_gate_generation sample_target = PInt 1" by (simp add: sample_target_def)
  have "nonce_inv empty_nonce_store" by (simp add: nonce_inv_def empty_nonce_store_def)
  moreover obtain d st' where "verify_attestation_authority (\<lambda>_. sample_hash) sample_prims sample_time sample_attestation
      (sample_chain ''active'') sample_keys sample_target ''complete'' [] (PStr sample_hash) (Aware 14) (Aware 15)
      ''pre-dispatch'' empty_nonce_store = (Inr d, st')"
    by (simp add: verify_attestation_authority_def sample_binding nonce_bind_def empty_nonce_store_def canonicalize_jcs_def
        sample_payload_get MAX_SAFE_INTEGER_def target_generation hex_nonempty [OF sample_hash_text])
  ultimately show ?thesis
    using authority_decision_sound target_generation by fastforce
qed

end
