(* ===== verification/Allocation.thy ===== *)
theory Allocation
  imports Attestation_Authority
begin

text \<open>
  \<open>runner_jit.py\<close>, first half: the signed contract of one disposable runner allocation, its
  reservation before the workflow run exists, and the projection that ties the two together.
  \<open>H\<close> is the SHA-256 hex digest, \<open>fromiso\<close> is \<open>datetime.fromisoformat\<close>. The two refusals of a UUID text
  (not parsed, not canonical) share one message.
\<close>

datatype rj_error =
    RunnerJitError string
  | RunnerJitTemporalError string
  | ApprovalExpired string
  | AllocationClaimExpired string
  | InvalidLifecycleTransition string
  | RjCrypto crypto_error
  | RjTypeError
  | RjOverflowError

text \<open>The classes below \<open>RunnerJitTemporalError\<close>.\<close>

fun temporal :: "rj_error \<Rightarrow> bool" where
  "temporal (RunnerJitTemporalError s) = True"
| "temporal (ApprovalExpired s) = True"
| "temporal (AllocationClaimExpired s) = True"
| "temporal _ = False"

fun error_text :: "rj_error \<Rightarrow> string" where
  "error_text (RunnerJitError s) = s"
| "error_text (RunnerJitTemporalError s) = s"
| "error_text (ApprovalExpired s) = s"
| "error_text (AllocationClaimExpired s) = s"
| "error_text (InvalidLifecycleTransition s) = s"
| "error_text _ = []"

definition liftR :: "crypto_error + 'a \<Rightarrow> rj_error + 'a" where
  "liftR m = (case m of Inl e \<Rightarrow> Inl (RjCrypto e) | Inr a \<Rightarrow> Inr a)"

lemma liftR_eq_Inr [simp]: "liftR m = Inr a \<longleftrightarrow> m = Inr a"
  by (cases m) (auto simp: liftR_def)

lemma liftR_Inr [simp]: "liftR (Inr a) = Inr a"
  by (simp add: liftR_def)

section \<open>Constants and text forms\<close>

definition ALLOCATION_DOMAINS :: "pyval \<Rightarrow> string" where
  "ALLOCATION_DOMAINS version =
     (if py_eq version (PInt 1) then ''self-hosted-ci/runner-jit-allocation/v1''
      else ''self-hosted-ci/runner-jit-allocation/v2'')"

definition MAX_APPROVAL_TTL :: int where
  "MAX_APPROVAL_TTL = minutes 5"

definition MAX_ALLOCATION_CLAIM_TTL :: int where
  "MAX_ALLOCATION_CLAIM_TTL = minutes 15"

text \<open>\<open><name>/<name>/.github/workflows/<name>@refs/heads/<path>\<close>; no class before the \<open>@\<close> contains a slash or an at.\<close>

definition has_prefix :: "string \<Rightarrow> string \<Rightarrow> bool" where
  "has_prefix p s = (take (length p) s = p)"

definition name_text :: "string \<Rightarrow> bool" where
  "name_text s = (s \<noteq> [] \<and> list_all is_name_char s)"

definition workflow_ref_text :: "string \<Rightarrow> bool" where
  "workflow_ref_text s =
     (let r1 = after_slash s; r2 = after_slash r1; r3 = drop (length ''.github/workflows/'') r2;
          file = takeWhile (\<lambda>c. c \<noteq> CHR ''@'') r3; r4 = drop (length file) r3;
          branch = drop (length ''@refs/heads/'') r4
      in name_text (before_slash s) \<and> name_text (before_slash r1) \<and> has_prefix ''.github/workflows/'' r2
         \<and> name_text file \<and> has_prefix ''@refs/heads/'' r4
         \<and> branch \<noteq> [] \<and> list_all (\<lambda>c. is_name_char c \<or> c = CHR ''/'') branch)"

definition label_text :: "string \<Rightarrow> bool" where
  "label_text s = (1 \<le> length s \<and> length s \<le> 63 \<and> list_all is_name_char s)"

definition runner_group_text :: "string \<Rightarrow> bool" where
  "runner_group_text s = (1 \<le> length s \<and> length s \<le> 100
     \<and> list_all (\<lambda>c. c \<noteq> CHR ''*'' \<and> code c \<noteq> 13 \<and> code c \<noteq> 10) s)"

definition job_name_text :: "string \<Rightarrow> bool" where
  "job_name_text s = (1 \<le> length s \<and> length s \<le> 100 \<and> list_all (\<lambda>c. is_name_char c \<or> c = CHR '' '') s)"

definition transient_label_text :: "string \<Rightarrow> bool" where
  "transient_label_text s = (has_prefix ''wsl-jit-'' s \<and> hex_of_length 32 (drop 8 s))"

section \<open>Parsing helpers\<close>

fun rj_parse_time :: "(string \<Rightarrow> pydatetime option) \<Rightarrow> pyval \<Rightarrow> string \<Rightarrow> rj_error + instant" where
  "rj_parse_time fromiso (PStr s) field =
     (if s = [] \<or> last s \<noteq> CHR ''Z'' then Inl (RunnerJitError (field @ '' must be canonical UTC RFC3339''))
      else case fromiso (butlast s @ ''+00:00'') of
          None \<Rightarrow> Inl (RunnerJitError (field @ '' is invalid''))
        | Some (Aware t) \<Rightarrow>
            if t mod 1000000 \<noteq> 0 then Inl (RunnerJitError (field @ '' must use whole UTC seconds'')) else Inr t
        | Some (Naive t) \<Rightarrow> Inl (RunnerJitError (field @ '' must use whole UTC seconds'')))"
| "rj_parse_time fromiso _ field = Inl (RunnerJitError (field @ '' must be canonical UTC RFC3339''))"

fun validate_uuid :: "pyval \<Rightarrow> string \<Rightarrow> rj_error + string" where
  "validate_uuid (PStr s) field =
     (if canonical_uuid s then Inr s else Inl (RunnerJitError (field @ '' must be a canonical UUID'')))"
| "validate_uuid _ field = Inl (RunnerJitError (field @ '' must be a UUID string''))"

definition allocation_scale_set_name :: "(string \<Rightarrow> string) \<Rightarrow> pydict \<Rightarrow> rj_error + string" where
  "allocation_scale_set_name H payload =
     bindE (validate_uuid (pget payload ''allocation_id'') ''allocation_id'') (\<lambda>allocation_id.
     bindE (requireE (str_matches nonce_text (pget payload ''nonce''))
       (RunnerJitError ''nonce must be 32 bytes encoded as unpadded base64url'')) (\<lambda>_.
     bindE (liftR (canonicalize_jcs (PDict [(''allocation_id'', PStr allocation_id), (''nonce'', pget payload ''nonce'')]))) (\<lambda>body.
     Inr (''wsl-jit-'' @ take 32 (H body)))))"

section \<open>The allocation payload\<close>

definition PAYLOAD_V1_FIELDS :: "string list" where
  "PAYLOAD_V1_FIELDS = [''runner_allocation_version'', ''allocation_id'', ''repository_id'', ''repository'', ''head_sha'',
     ''tested_sha'', ''dispatch_sha'', ''workflow_ref'', ''run_id'', ''run_attempt'', ''job_id'', ''job_name'',
     ''authority_kind'', ''runner_group'', ''scale_set_name'', ''labels'', ''image_fingerprint'', ''nonce'',
     ''issued_at'', ''expires_at'', ''max_jobs'', ''ephemeral'']"

definition PAYLOAD_V2_FIELDS :: "string list" where
  "PAYLOAD_V2_FIELDS = filter (\<lambda>f. f \<noteq> ''expires_at'') PAYLOAD_V1_FIELDS
     @ [''pr_number'', ''base_sha'', ''approval_issued_at'', ''approval_expires_at'', ''claim_deadline'']"

text \<open>\<open>version not in {1, 2} or set(payload) != required\<close>; the set display hashes the version.\<close>

definition check_fields :: "pyval \<Rightarrow> pydict \<Rightarrow> string list \<Rightarrow> string list \<Rightarrow> string \<Rightarrow> rj_error + unit" where
  "check_fields version payload v1 v2 msg =
     (if \<not> hashable version then Inl RjTypeError
      else requireE ((py_eq version (PInt 1) \<and> keys_exact payload v1) \<or> (py_eq version (PInt 2) \<and> keys_exact payload v2))
        (RunnerJitError msg))"

definition check_identity :: "pydict \<Rightarrow> rj_error + unit" where
  "check_identity payload =
     bindE (validate_uuid (pget payload ''allocation_id'') ''allocation_id'') (\<lambda>_.
     bindE (requireE (str_matches canonical_positive (pget payload ''repository_id''))
       (RunnerJitError ''repository_id must be a canonical positive integer string'')) (\<lambda>_.
     bindE (requireE (str_matches loose_repository_name (pget payload ''repository''))
       (RunnerJitError ''repository is invalid'')) (\<lambda>_.
     bindE (requireE (str_matches sha40 (pget payload ''head_sha''))
       (RunnerJitError ''head_sha must be lowercase full SHA-1'')) (\<lambda>_.
     if py_eq (pget payload ''runner_allocation_version'') (PInt 2) then
       bindE (requireE (positive_int (pget payload ''pr_number''))
         (RunnerJitError ''pr_number must be a positive integer'')) (\<lambda>_.
       requireE (str_matches sha40 (pget payload ''base_sha''))
         (RunnerJitError ''base_sha must be lowercase full SHA-1''))
     else Inr ()))))"

definition check_run :: "pydict \<Rightarrow> rj_error + unit" where
  "check_run payload =
     bindE (forE [''tested_sha'', ''dispatch_sha''] (\<lambda>f. requireE (str_matches sha40 (pget payload f))
       (RunnerJitError (f @ '' must be lowercase full SHA-1'')))) (\<lambda>_.
     bindE (requireE (str_matches workflow_ref_text (pget payload ''workflow_ref''))
       (RunnerJitError ''workflow_ref must identify a default-branch workflow'')) (\<lambda>_.
     bindE (forE [''run_id'', ''job_id''] (\<lambda>f. requireE (str_matches canonical_positive (pget payload f))
       (RunnerJitError (f @ '' must be a canonical positive integer string'')))) (\<lambda>_.
     bindE (requireE (positive_int (pget payload ''run_attempt''))
       (RunnerJitError ''run_attempt must be a positive integer'')) (\<lambda>_.
     requireE (str_matches (\<lambda>s. s = strip s \<and> job_name_text s) (pget payload ''job_name''))
       (RunnerJitError ''job_name is invalid'')))))"

definition check_authority_kind :: "pydict \<Rightarrow> rj_error + unit" where
  "check_authority_kind payload =
     (if pget payload ''authority_kind'' = PStr ''personal-repository'' then
        requireE (pget payload ''runner_group'' = PNone)
          (RunnerJitError ''personal repository allocations cannot use a runner group'')
      else if pget payload ''authority_kind'' = PStr ''organization-runner-group'' then
        requireE (str_matches (\<lambda>s. s = strip s \<and> runner_group_text s) (pget payload ''runner_group''))
          (RunnerJitError ''organization allocations require an exact selected runner group'')
      else Inl (RunnerJitError ''authority_kind is invalid''))"

definition check_labels :: "(string \<Rightarrow> string) \<Rightarrow> pydict \<Rightarrow> rj_error + unit" where
  "check_labels H payload =
     bindE (allocation_scale_set_name H payload) (\<lambda>expected.
     requireE (pget payload ''scale_set_name'' = PStr expected \<and> transient_label_text expected
         \<and> py_eq (pget payload ''labels'') (PList [PStr expected]) \<and> label_text expected)
       (RunnerJitError ''labels must select exactly the allocation-derived transient scale set''))"

definition check_limits :: "pydict \<Rightarrow> rj_error + unit" where
  "check_limits payload =
     bindE (requireE (str_matches sha256hex (pget payload ''image_fingerprint''))
       (RunnerJitError ''image_fingerprint must be lowercase SHA-256'')) (\<lambda>_.
     bindE (requireE (str_matches nonce_text (pget payload ''nonce''))
       (RunnerJitError ''nonce must be 32 bytes encoded as unpadded base64url'')) (\<lambda>_.
     requireE (py_eq (pget payload ''max_jobs'') (PInt 1) \<and> pget payload ''ephemeral'' = PBool True)
       (RunnerJitError ''allocations must be ephemeral and limited to exactly one job'')))"

definition check_lifetime :: "instant \<Rightarrow> instant \<Rightarrow> int \<Rightarrow> string \<Rightarrow> rj_error + unit" where
  "check_lifetime start stop ttl msg = requireE (start < stop \<and> stop - start \<le> ttl) (RunnerJitTemporalError msg)"

definition check_window :: "(string \<Rightarrow> pydatetime option) \<Rightarrow> pydict \<Rightarrow> pydatetime \<Rightarrow> rj_error + unit" where
  "check_window fromiso payload now =
     bindE (aware now (RunnerJitTemporalError ''now must be timezone-aware UTC'')) (\<lambda>n.
     bindE (rj_parse_time fromiso (pget payload ''issued_at'') ''issued_at'') (\<lambda>issued.
     bindE (if py_eq (pget payload ''runner_allocation_version'') (PInt 1) then
         bindE (rj_parse_time fromiso (pget payload ''expires_at'') ''expires_at'') (\<lambda>deadline.
         bindE (check_lifetime issued deadline MAX_APPROVAL_TTL
           ''legacy allocation lifetime must be positive and at most five minutes'') (\<lambda>_. Inr deadline))
       else
         bindE (rj_parse_time fromiso (pget payload ''approval_issued_at'') ''approval_issued_at'') (\<lambda>approval_issued.
         bindE (rj_parse_time fromiso (pget payload ''approval_expires_at'') ''approval_expires_at'') (\<lambda>approval_expires.
         bindE (check_lifetime approval_issued approval_expires MAX_APPROVAL_TTL
           ''approval lifetime must be positive and at most five minutes'') (\<lambda>_.
         bindE (rj_parse_time fromiso (pget payload ''claim_deadline'') ''claim_deadline'') (\<lambda>deadline.
         bindE (check_lifetime issued deadline MAX_ALLOCATION_CLAIM_TTL
           ''allocation claim lifetime must be positive and at most fifteen minutes'') (\<lambda>_. Inr deadline)))))) (\<lambda>deadline.
     requireE (issued - seconds 30 \<le> n \<and> n < deadline)
       (AllocationClaimExpired ''allocation claim deadline is not currently valid''))))"

definition validate_allocation_payload ::
  "(string \<Rightarrow> string) \<Rightarrow> (string \<Rightarrow> pydatetime option) \<Rightarrow> pyval \<Rightarrow> pydatetime \<Rightarrow> rj_error + unit" where
  "validate_allocation_payload H fromiso value now =
     (case value of
        PDict payload \<Rightarrow>
          bindE (check_fields (pget payload ''runner_allocation_version'') payload PAYLOAD_V1_FIELDS PAYLOAD_V2_FIELDS
            (''allocation payload requires exact ''
             @ (if py_eq (pget payload ''runner_allocation_version'') (PInt 1) then ''v1'' else ''versioned'') @ '' fields'')) (\<lambda>_.
          bindE (check_identity payload) (\<lambda>_.
          bindE (check_run payload) (\<lambda>_.
          bindE (check_authority_kind payload) (\<lambda>_.
          bindE (check_labels H payload) (\<lambda>_.
          bindE (check_limits payload) (\<lambda>_.
          bindE (check_window fromiso payload now) (\<lambda>_.
          bindE (liftR (canonicalize_jcs (PDict payload))) (\<lambda>_. Inr ()))))))))
      | _ \<Rightarrow> Inl (RunnerJitError ''allocation payload requires exact versioned fields''))"

section \<open>Reservations\<close>

definition LEGACY_RESERVATION_FIELDS :: "string list" where
  "LEGACY_RESERVATION_FIELDS = [''allocation_reservation_version'', ''allocation_id'', ''repository_id'', ''repository'',
     ''head_sha'', ''workflow_ref'', ''job_name'', ''authority_kind'', ''runner_group'', ''scale_set_name'', ''labels'',
     ''image_fingerprint'', ''nonce'', ''issued_at'', ''expires_at'', ''max_jobs'', ''ephemeral'']"

definition RESERVATION_V2_FIELDS :: "string list" where
  "RESERVATION_V2_FIELDS = filter (\<lambda>f. f \<noteq> ''issued_at'' \<and> f \<noteq> ''expires_at'') LEGACY_RESERVATION_FIELDS
     @ [''pr_number'', ''base_sha'', ''approval_issued_at'', ''approval_expires_at'']"

definition without :: "string list \<Rightarrow> pydict \<Rightarrow> pydict" where
  "without ks d = filter (\<lambda>(k, _). \<not> List.member ks k) d"

definition synthetic_payload :: "pydict \<Rightarrow> pydict" where
  "synthetic_payload reservation =
     (let base = without [''allocation_reservation_version''] reservation;
          s = (if py_eq (pget reservation ''allocation_reservation_version'') (PInt 2) then
                 pset ''expires_at'' (pget base ''approval_expires_at'')
                   (pset ''issued_at'' (pget base ''approval_issued_at'')
                      (without [''pr_number'', ''base_sha'', ''approval_issued_at'', ''approval_expires_at''] base))
               else base)
      in pmerge s [(''runner_allocation_version'', PInt 1), (''run_id'', PStr ''1''), (''run_attempt'', PInt 1),
           (''job_id'', PStr ''1''), (''dispatch_sha'', pget s ''head_sha''), (''tested_sha'', pget s ''head_sha'')])"

definition validate_allocation_reservation ::
  "(string \<Rightarrow> string) \<Rightarrow> (string \<Rightarrow> pydatetime option) \<Rightarrow> pyval \<Rightarrow> pydatetime \<Rightarrow> rj_error + unit" where
  "validate_allocation_reservation H fromiso value now =
     (case value of
        PDict reservation \<Rightarrow>
          bindE (check_fields (pget reservation ''allocation_reservation_version'') reservation LEGACY_RESERVATION_FIELDS
            RESERVATION_V2_FIELDS ''allocation reservation requires exact versioned fields'') (\<lambda>_.
          bindE (if py_eq (pget reservation ''allocation_reservation_version'') (PInt 2) then
              bindE (requireE (positive_int (pget reservation ''pr_number''))
                (RunnerJitError ''pr_number must be a positive integer'')) (\<lambda>_.
              requireE (str_matches sha40 (pget reservation ''base_sha''))
                (RunnerJitError ''base_sha must be lowercase full SHA-1''))
            else Inr ()) (\<lambda>_.
          case validate_allocation_payload H fromiso (PDict (synthetic_payload reservation)) now of
            Inl e \<Rightarrow> if temporal e then Inl (ApprovalExpired (error_text e)) else Inl e
          | Inr u \<Rightarrow> Inr u))
      | _ \<Rightarrow> Inl (RunnerJitError ''allocation reservation requires exact v1 fields''))"

definition PROJECTION_DYNAMIC :: "string list" where
  "PROJECTION_DYNAMIC = [''runner_allocation_version'', ''run_id'', ''run_attempt'', ''job_id'', ''dispatch_sha'',
     ''tested_sha'', ''claim_deadline'']"

definition reservation_projection :: "pydict \<Rightarrow> pydict" where
  "reservation_projection payload =
     (let version = pget payload ''runner_allocation_version'';
          dynamic = PROJECTION_DYNAMIC @ (if py_eq version (PInt 2) then [''issued_at''] else [])
      in pset ''allocation_reservation_version'' version (without dynamic payload))"

section \<open>Signed allocations\<close>

definition sign_allocation ::
  "(string \<Rightarrow> string) \<Rightarrow> (string \<Rightarrow> pydatetime option) \<Rightarrow> sig_signers \<Rightarrow> (private_key \<Rightarrow> public_key)
   \<Rightarrow> pydict \<Rightarrow> private_key \<Rightarrow> pydatetime \<Rightarrow> rj_error + pydict" where
  "sign_allocation H fromiso signers public_of payload key now =
     bindE (validate_allocation_payload H fromiso (PDict payload) now) (\<lambda>_.
     bindE (liftR (sign_detached signers (PDict payload) key
       (ALLOCATION_DOMAINS (pget payload ''runner_allocation_version'')))) (\<lambda>signature.
     Inr [(''payload'', PDict payload), (''signer_fingerprint'', PStr (spki_fingerprint H (public_of key))),
          (''signature'', PStr signature)]))"

definition verify_allocation ::
  "(string \<Rightarrow> string) \<Rightarrow> (string \<Rightarrow> pydatetime option) \<Rightarrow> sig_prims \<Rightarrow> pyval \<Rightarrow> public_key \<Rightarrow> string
   \<Rightarrow> pydatetime \<Rightarrow> rj_error + pydict" where
  "verify_allocation H fromiso prims value public_key pinned now =
     (case value of
        PDict envelope \<Rightarrow>
          bindE (requireE (keys_exact envelope [''payload'', ''signer_fingerprint'', ''signature''])
            (RunnerJitError ''allocation envelope requires exact fields'')) (\<lambda>_.
          bindE (requireE (sha256hex pinned \<and> pget envelope ''signer_fingerprint'' = PStr pinned
              \<and> spki_fingerprint H public_key = pinned)
            (RunnerJitError ''allocation signer does not match the pinned Ed25519 key'')) (\<lambda>_.
          (case pget envelope ''payload'' of
             PDict payload \<Rightarrow>
               bindE (validate_allocation_payload H fromiso (PDict payload) now) (\<lambda>_.
               bindE (recastE (verify_detached prims (PDict payload) (pget envelope ''signature'') public_key
                   (ALLOCATION_DOMAINS (pget payload ''runner_allocation_version'')))
                 (RunnerJitError ''allocation signature is invalid'')) (\<lambda>_.
               Inr payload))
           | _ \<Rightarrow> Inl (RunnerJitError ''allocation payload must be an object''))))
      | _ \<Rightarrow> Inl (RunnerJitError ''allocation envelope requires exact fields''))"

end
