(* ===== verification/Allocation_Ledger.thy ===== *)
theory Allocation_Ledger
  imports Allocation
begin

text \<open>
  \<open>runner_jit.py\<close>, second half: \<open>SqliteAllocationLedger\<close>, the durable replay and lifecycle ledger of
  allocations and the bounded log of their outcomes.

  A table is the list of its rows. A JSON column holds the value whose canonical text the code
  stores; reading it back gives that value, comparing texts compares \<open>json_text\<close>. A call that raises
  rolls back: every operation is a body over the tables under \<open>commit\<close>.
\<close>

section \<open>Tables\<close>

record alloc_row =
  al_allocation_id :: string
  al_binding_digest :: string
  al_payload_digest :: string
  al_state :: string
  al_outcome :: "string option"
  al_jobs_started :: int
  al_cleanup_complete :: bool
  al_issued_at :: pyval
  al_expires_at :: pyval
  al_claim_deadline :: pyval
  al_recovery_required :: bool
  al_cleanup_pending :: bool
  al_cleanup_key :: "string option"
  al_evidence_digest :: "string option"
  al_payload :: "pydict option"
  al_scale_set_name :: pyval
  al_garm_scale_set_id :: "string option"
  al_reservation :: "pydict option"

record outcome_row =
  oc_event_key :: string
  oc_cause_code :: pyval
  oc_allocation_id :: pyval
  oc_run_id :: pyval
  oc_job_id :: pyval
  oc_repository :: pyval
  oc_pr_number :: pyval
  oc_head_sha :: pyval
  oc_prior_ledger_state :: pyval
  oc_issued_at :: pyval
  oc_claim_deadline :: pyval
  oc_occurred_at :: string
  oc_delay_bucket :: pyval
  oc_executed :: bool
  oc_success :: bool

record ledger =
  lg_version :: int
  lg_retention_days :: int
  lg_rows :: "alloc_row list"
  lg_outcomes :: "outcome_row list"

definition LEDGER_SCHEMA_VERSION :: int where
  "LEDGER_SCHEMA_VERSION = 3"

definition TERMINAL_OUTCOMES :: "string list" where
  "TERMINAL_OUTCOMES = [''success'', ''failure'', ''cancel'', ''timeout'', ''force-cancel'', ''reboot'']"

definition OUTCOME_CAUSES :: "string list" where
  "OUTCOME_CAUSES = [''success'', ''job-failure'', ''job-cancelled'', ''job-timeout'', ''worker-error'',
     ''cancel-not-converged'', ''claim-expired'', ''claim-state-conflict'', ''claim-not-observed'', ''garm-timeout'',
     ''garm-runtime-erofs'', ''superseded-head'', ''superseded-base'', ''superseded-merge'', ''pr-closed'', ''stale-merge-ref'']"

definition DELAY_BUCKETS :: "string list" where
  "DELAY_BUCKETS = [''before-deadline'', ''0-60s'', ''1-5m'', ''>5m'', ''unknown'']"

definition days :: "int \<Rightarrow> int" where
  "days n = n * 86400000000"

definition commit :: "ledger \<Rightarrow> rj_error + 'a \<times> alloc_row list \<Rightarrow> (rj_error + 'a) \<times> ledger" where
  "commit L m = (case m of Inl e \<Rightarrow> (Inl e, L) | Inr (a, rows) \<Rightarrow> (Inr a, L\<lparr>lg_rows := rows\<rparr>))"

section \<open>Opening and migration\<close>

definition cleanup_key_of :: "(string \<Rightarrow> string) \<Rightarrow> string \<Rightarrow> string \<Rightarrow> rj_error + string" where
  "cleanup_key_of H allocation_id dig =
     bindE (liftR (canonicalize_jcs (PDict [(''allocation_id'', PStr allocation_id),
       (''payload_digest'', PStr dig), (''operation'', PStr ''reboot-cleanup-v1'')]))) (\<lambda>b. Inr (H b))"

definition fence_claimed :: "(string \<Rightarrow> string) \<Rightarrow> alloc_row \<Rightarrow> rj_error + alloc_row" where
  "fence_claimed H r =
     (if al_state r \<noteq> ''claimed'' then Inr r
      else bindE (cleanup_key_of H (al_allocation_id r) (al_payload_digest r)) (\<lambda>k.
        Inr (r\<lparr>al_state := ''recovery_required'', al_outcome := Some ''reboot'', al_recovery_required := True,
               al_cleanup_pending := True, al_cleanup_key := Some k\<rparr>)))"

fun fence_all :: "(string \<Rightarrow> string) \<Rightarrow> alloc_row list \<Rightarrow> rj_error + alloc_row list" where
  "fence_all H [] = Inr []"
| "fence_all H (r # rows) = bindE (fence_claimed H r) (\<lambda>r'. bindE (fence_all H rows) (\<lambda>rows'. Inr (r' # rows')))"

definition prune :: "int \<Rightarrow> instant \<Rightarrow> outcome_row list \<Rightarrow> outcome_row list" where
  "prune retention now rows = filter (\<lambda>r. \<not> oc_occurred_at r < stamp (now - days retention)) rows"

text \<open>\<open>__init__\<close> over the database as it is on disk, at the wall-clock time given.\<close>

definition ledger_open :: "(string \<Rightarrow> string) \<Rightarrow> int \<Rightarrow> instant \<Rightarrow> ledger \<Rightarrow> (rj_error + unit) \<times> ledger" where
  "ledger_open H retention now L =
     (if \<not> (1 \<le> retention \<and> retention \<le> 365) then
        (Inl (RunnerJitError ''outcome retention must be between 1 and 365 days''), L)
      else if LEDGER_SCHEMA_VERSION < lg_version L then
        (Inl (RunnerJitError ''allocation ledger schema is newer than this binary''), L)
      else
        case (if lg_version L < 3 then fence_all H (lg_rows L) else Inr (lg_rows L)) of
          Inl e \<Rightarrow> (Inl e, L)
        | Inr rows \<Rightarrow> (Inr (), \<lparr>lg_version = LEDGER_SCHEMA_VERSION, lg_retention_days = retention, lg_rows = rows,
            lg_outcomes = prune retention now (lg_outcomes L)\<rparr>))"

section \<open>Admission, reservation, finalization\<close>

definition ledger_digests :: "(string \<Rightarrow> string) \<Rightarrow> pydict \<Rightarrow> rj_error + string \<times> string" where
  "ledger_digests H payload =
     bindE (liftR (canonicalize_jcs (PDict payload))) (\<lambda>body.
     bindE (liftR (canonicalize_jcs (PDict [(''nonce'', pget payload ''nonce'')]))) (\<lambda>binding.
     Inr (H binding, H body)))"

definition fresh_row :: "string \<Rightarrow> string \<Rightarrow> string \<Rightarrow> string \<Rightarrow> alloc_row" where
  "fresh_row allocation_id binding dig state =
     \<lparr>al_allocation_id = allocation_id, al_binding_digest = binding, al_payload_digest = dig, al_state = state,
      al_outcome = None, al_jobs_started = 0, al_cleanup_complete = False, al_issued_at = PNone, al_expires_at = PNone,
      al_claim_deadline = PNone, al_recovery_required = False, al_cleanup_pending = False, al_cleanup_key = None,
      al_evidence_digest = None, al_payload = None, al_scale_set_name = PNone, al_garm_scale_set_id = None,
      al_reservation = None\<rparr>"

abbreviation select_row :: "string \<Rightarrow> alloc_row list \<Rightarrow> alloc_row option" where
  "select_row \<equiv> select_key al_allocation_id"

abbreviation select_binding :: "string \<Rightarrow> alloc_row list \<Rightarrow> alloc_row option" where
  "select_binding \<equiv> select_key al_binding_digest"

definition admit_body ::
  "(string \<Rightarrow> string) \<Rightarrow> pydict \<Rightarrow> alloc_row list \<Rightarrow> rj_error + string \<times> alloc_row list" where
  "admit_body H payload rows =
     (let allocation_id = fmt (pget payload ''allocation_id'')
      in bindE (ledger_digests H payload) (\<lambda>(binding, dig).
      case select_row allocation_id rows of
        Some r \<Rightarrow>
          if al_binding_digest r = binding \<and> al_payload_digest r = dig then Inr (''idempotent'', rows)
          else Inl (RunnerJitError ''allocation_id replayed with different content'')
      | None \<Rightarrow>
          if select_binding binding rows \<noteq> None then Inl (RunnerJitError ''allocation binding replay detected'')
          else Inr (''issued'', rows @ [(fresh_row allocation_id binding dig ''issued'')
            \<lparr>al_issued_at := pget payload ''issued_at'',
             al_expires_at := pget_or payload ''approval_expires_at'' (pget payload ''expires_at''),
             al_claim_deadline := pget_or payload ''claim_deadline'' (pget payload ''expires_at''),
             al_payload := Some payload, al_scale_set_name := pget payload ''scale_set_name''\<rparr>])))"

definition admit ::
  "(string \<Rightarrow> string) \<Rightarrow> (string \<Rightarrow> pydatetime option) \<Rightarrow> sig_prims \<Rightarrow> pyval \<Rightarrow> public_key \<Rightarrow> string \<Rightarrow> pydatetime
   \<Rightarrow> ledger \<Rightarrow> (rj_error + string) \<times> ledger" where
  "admit H fromiso prims envelope key pinned now L =
     commit L (bindE (verify_allocation H fromiso prims envelope key pinned now) (\<lambda>payload.
       admit_body H payload (lg_rows L)))"

definition reserve_body ::
  "(string \<Rightarrow> string) \<Rightarrow> pydict \<Rightarrow> alloc_row list \<Rightarrow> rj_error + string \<times> alloc_row list" where
  "reserve_body H reservation rows =
     (let allocation_id = fmt (pget reservation ''allocation_id'')
      in bindE (ledger_digests H reservation) (\<lambda>(binding, dig).
      case select_row allocation_id rows of
        Some r \<Rightarrow>
          if al_binding_digest r = binding
             \<and> map_option (\<lambda>d. json_text (PDict d)) (al_reservation r) = Some (json_text (PDict reservation))
          then Inr (''idempotent'', rows)
          else Inl (RunnerJitError ''allocation reservation replayed with different content'')
      | None \<Rightarrow>
          if select_binding binding rows \<noteq> None then
            Inl (RunnerJitError ''allocation reservation nonce replay detected'')
          else Inr (''reserved'', rows @ [(fresh_row allocation_id binding dig ''reserved'')
            \<lparr>al_issued_at := pget_or reservation ''approval_issued_at'' (pget reservation ''issued_at''),
             al_expires_at := pget_or reservation ''approval_expires_at'' (pget reservation ''expires_at''),
             al_scale_set_name := pget reservation ''scale_set_name'', al_reservation := Some reservation\<rparr>])))"

definition reserve ::
  "(string \<Rightarrow> string) \<Rightarrow> (string \<Rightarrow> pydatetime option) \<Rightarrow> pydict \<Rightarrow> pydatetime
   \<Rightarrow> ledger \<Rightarrow> (rj_error + string) \<times> ledger" where
  "reserve H fromiso reservation now L =
     commit L (bindE (validate_allocation_reservation H fromiso (PDict reservation) now) (\<lambda>_.
       reserve_body H reservation (lg_rows L)))"

definition set_finalized :: "pydict \<Rightarrow> string \<Rightarrow> alloc_row \<Rightarrow> alloc_row" where
  "set_finalized payload dig r =
     r\<lparr>al_payload_digest := dig, al_payload := Some payload, al_state := ''issued'',
       al_issued_at := pget payload ''issued_at'',
       al_claim_deadline := pget_or payload ''claim_deadline'' (pget payload ''expires_at'')\<rparr>"

definition finalize_body ::
  "(string \<Rightarrow> string) \<Rightarrow> pydict \<Rightarrow> alloc_row list \<Rightarrow> rj_error + string \<times> alloc_row list" where
  "finalize_body H payload rows =
     (let allocation_id = fmt (pget payload ''allocation_id'')
      in bindE (liftR (canonicalize_jcs (PDict payload))) (\<lambda>body.
      case select_row allocation_id rows of
        None \<Rightarrow> Inl (RunnerJitError ''signed allocation has no prior reservation'')
      | Some r \<Rightarrow>
          (case al_payload r of
             Some p \<Rightarrow>
               if json_text (PDict p) = json_text (PDict payload) then Inr (''idempotent'', rows)
               else Inl (RunnerJitError ''allocation was finalized with different content'')
           | None \<Rightarrow>
               if al_state r \<noteq> ''reserved''
                  \<or> \<not> py_eq (PDict (reservation_projection payload))
                        (case al_reservation r of None \<Rightarrow> PNone | Some d \<Rightarrow> PDict d)
               then Inl (RunnerJitError ''signed allocation crossed its immutable reservation'')
               else Inr (''issued'', update_key al_allocation_id (set_finalized payload (H body)) allocation_id rows))))"

definition finalize ::
  "(string \<Rightarrow> string) \<Rightarrow> (string \<Rightarrow> pydatetime option) \<Rightarrow> sig_prims \<Rightarrow> pyval \<Rightarrow> public_key \<Rightarrow> string \<Rightarrow> pydatetime
   \<Rightarrow> ledger \<Rightarrow> (rj_error + string) \<times> ledger" where
  "finalize H fromiso prims envelope key pinned now L =
     commit L (bindE (verify_allocation H fromiso prims envelope key pinned now) (\<lambda>payload.
       finalize_body H payload (lg_rows L)))"

definition ledger_payload :: "ledger \<Rightarrow> string \<Rightarrow> rj_error + pydict" where
  "ledger_payload L allocation_id =
     (case select_row allocation_id (lg_rows L) of
        None \<Rightarrow> Inl (RunnerJitError ''allocation payload is absent'')
      | Some r \<Rightarrow> (case al_payload r of None \<Rightarrow> Inl (RunnerJitError ''allocation payload is absent'') | Some p \<Rightarrow> Inr p))"

definition ledger_reservation :: "ledger \<Rightarrow> string \<Rightarrow> rj_error + pydict" where
  "ledger_reservation L allocation_id =
     (case select_row allocation_id (lg_rows L) of
        None \<Rightarrow> Inl (RunnerJitError ''allocation reservation is absent'')
      | Some r \<Rightarrow> (case al_reservation r of
            None \<Rightarrow> Inl (RunnerJitError ''allocation reservation is absent'') | Some d \<Rightarrow> Inr d))"

section \<open>Scale-set binding\<close>

definition set_scale_set :: "string \<Rightarrow> alloc_row \<Rightarrow> alloc_row" where
  "set_scale_set scale_set_id r = r\<lparr>al_garm_scale_set_id := Some scale_set_id\<rparr>"

definition bind_body :: "string \<Rightarrow> string \<Rightarrow> string \<Rightarrow> alloc_row list \<Rightarrow> rj_error + string \<times> alloc_row list" where
  "bind_body allocation_id scale_set_id scale_set_name rows =
     (if \<not> canonical_positive scale_set_id then
        Inl (RunnerJitError ''GARM scale-set ID must be a canonical positive integer string'')
      else case select_row allocation_id rows of
        None \<Rightarrow> Inl (RunnerJitError ''unknown allocation'')
      | Some r \<Rightarrow>
          if al_scale_set_name r \<noteq> PStr scale_set_name then
            Inl (RunnerJitError ''scale-set name crossed allocation binding'')
          else case al_garm_scale_set_id r of
            Some i \<Rightarrow> if i = scale_set_id then Inr (''idempotent'', rows)
              else Inl (RunnerJitError ''allocation is already bound to a different scale set'')
          | None \<Rightarrow> Inr (''bound'', update_key al_allocation_id (set_scale_set scale_set_id) allocation_id rows))"

definition bind_scale_set :: "string \<Rightarrow> string \<Rightarrow> string \<Rightarrow> ledger \<Rightarrow> (rj_error + string) \<times> ledger" where
  "bind_scale_set allocation_id scale_set_id scale_set_name L =
     commit L (bind_body allocation_id scale_set_id scale_set_name (lg_rows L))"

definition scale_set_binding :: "ledger \<Rightarrow> string \<Rightarrow> rj_error + pyval \<times> string" where
  "scale_set_binding L allocation_id =
     (let absent = Inl (RunnerJitError ''allocation has no durable scale-set binding'')
      in case select_row allocation_id (lg_rows L) of
           None \<Rightarrow> absent
         | Some r \<Rightarrow>
             if \<not> py_truthy (al_scale_set_name r) then absent
             else case al_garm_scale_set_id r of
                 None \<Rightarrow> absent
               | Some i \<Rightarrow> if i = [] then absent else Inr (al_scale_set_name r, i))"

definition recoverable_allocation_ids :: "ledger \<Rightarrow> string list" where
  "recoverable_allocation_ids L =
     sort (map al_allocation_id (filter (\<lambda>r. \<not> al_cleanup_complete r) (lg_rows L)))"

section \<open>Lifecycle\<close>

record AllocationRecord =
  rec_allocation_id :: string
  rec_state :: string
  rec_outcome :: "string option"
  rec_jobs_started :: int
  rec_cleanup_complete :: bool
  rec_issued_at :: instant
  rec_expires_at :: instant
  rec_claim_deadline :: instant
  rec_recovery_required :: bool
  rec_cleanup_pending :: bool
  rec_cleanup_key :: "string option"
  rec_evidence_digest :: "string option"

definition lease_times :: "(string \<Rightarrow> pydatetime option) \<Rightarrow> alloc_row \<Rightarrow> rj_error + instant \<times> instant \<times> instant" where
  "lease_times fromiso r =
     bindE (requireE (al_issued_at r \<noteq> PNone \<and> al_expires_at r \<noteq> PNone)
       (RunnerJitError ''allocation lease timestamps are absent'')) (\<lambda>_.
     bindE (rj_parse_time fromiso (al_issued_at r) ''issued_at'') (\<lambda>issued.
     bindE (rj_parse_time fromiso (al_expires_at r) ''expires_at'') (\<lambda>expires.
     bindE (rj_parse_time fromiso (if py_truthy (al_claim_deadline r) then al_claim_deadline r else al_expires_at r)
       ''claim_deadline'') (\<lambda>deadline.
     Inr (issued, expires, deadline)))))"

definition record_of :: "alloc_row \<Rightarrow> instant \<times> instant \<times> instant \<Rightarrow> AllocationRecord" where
  "record_of r = (\<lambda>(issued, expires, deadline).
     \<lparr>rec_allocation_id = al_allocation_id r, rec_state = al_state r, rec_outcome = al_outcome r,
      rec_jobs_started = al_jobs_started r, rec_cleanup_complete = al_cleanup_complete r, rec_issued_at = issued,
      rec_expires_at = expires, rec_claim_deadline = deadline, rec_recovery_required = al_recovery_required r,
      rec_cleanup_pending = al_cleanup_pending r, rec_cleanup_key = al_cleanup_key r,
      rec_evidence_digest = al_evidence_digest r\<rparr>)"

definition ledger_get :: "(string \<Rightarrow> pydatetime option) \<Rightarrow> ledger \<Rightarrow> string \<Rightarrow> rj_error + AllocationRecord" where
  "ledger_get fromiso L allocation_id =
     (case select_row allocation_id (lg_rows L) of
        None \<Rightarrow> Inl (RunnerJitError ''unknown allocation'')
      | Some r \<Rightarrow> bindE (lease_times fromiso r) (\<lambda>lease. Inr (record_of r lease)))"

record transition_args =
  ta_now :: "pydatetime option"
  ta_outcome :: "string option"
  ta_normal_cancel :: bool
  ta_cleanup_key :: "string option"
  ta_evidence :: pyval

definition EVIDENCE_FIELDS :: "string list" where
  "EVIDENCE_FIELDS = [''allocation_id'', ''cleanup_idempotency_key'', ''jobs_started'', ''registration_removed'',
     ''workspace_removed'', ''token_removed'', ''container_removed'', ''allocation_removed'', ''orphan_registrations'']"

definition EVIDENCE_REMOVED :: "string list" where
  "EVIDENCE_REMOVED = [''registration_removed'', ''workspace_removed'', ''token_removed'', ''container_removed'',
     ''allocation_removed'']"

fun optional :: "string option \<Rightarrow> pyval" where
  "optional None = PNone"
| "optional (Some s) = PStr s"

definition evidence_ok :: "transition_args \<Rightarrow> alloc_row \<Rightarrow> bool" where
  "evidence_ok args r =
     (case ta_evidence args of
        PDict e \<Rightarrow> keys_exact e EVIDENCE_FIELDS \<and> ta_cleanup_key args = al_cleanup_key r
          \<and> pget e ''allocation_id'' = PStr (al_allocation_id r)
          \<and> pget e ''cleanup_idempotency_key'' = optional (al_cleanup_key r)
          \<and> py_eq (pget e ''jobs_started'') (PInt (al_jobs_started r))
          \<and> py_eq (pget e ''orphan_registrations'') (PInt 0)
          \<and> list_all (\<lambda>f. pget e f = PBool True) EVIDENCE_REMOVED
      | _ \<Rightarrow> False)"

definition invalid_transition :: "alloc_row \<Rightarrow> string \<Rightarrow> rj_error" where
  "invalid_transition r action =
     InvalidLifecycleTransition (''invalid lifecycle transition: '' @ al_state r @ ''->'' @ action)"

definition terminal_outcome :: "string option \<Rightarrow> bool" where
  "terminal_outcome oc = (case oc of None \<Rightarrow> False | Some s \<Rightarrow> List.member TERMINAL_OUTCOMES s)"

definition admit_job :: "instant \<Rightarrow> instant \<Rightarrow> instant \<Rightarrow> alloc_row \<Rightarrow> rj_error + alloc_row" where
  "admit_job now issued deadline r =
     (if al_state r \<noteq> ''issued'' then Inl (invalid_transition r ''admit-job'')
      else if now < issued - seconds 30 \<or> deadline \<le> now then
        Inl (AllocationClaimExpired ''allocation claim deadline expired before job admission'')
      else if al_jobs_started r = 0 then Inr (r\<lparr>al_state := ''running'', al_jobs_started := 1\<rparr>)
      else Inl (invalid_transition r ''admit-job''))"

definition finish_job :: "transition_args \<Rightarrow> alloc_row \<Rightarrow> rj_error + alloc_row" where
  "finish_job args r =
     (if al_state r = ''running'' \<and> al_jobs_started r = 1 \<and> terminal_outcome (ta_outcome args)
         \<and> (ta_outcome args = Some ''force-cancel'' \<longrightarrow> ta_normal_cancel args)
      then Inr (r\<lparr>al_state := ''terminal'', al_outcome := ta_outcome args\<rparr>)
      else Inl (invalid_transition r ''finish''))"

definition cleanup_job :: "alloc_row \<Rightarrow> rj_error + alloc_row" where
  "cleanup_job r =
     (if al_state r = ''terminal'' \<and> al_jobs_started r = 1 \<and> terminal_outcome (al_outcome r)
      then Inr (r\<lparr>al_state := ''cleaned'', al_cleanup_complete := True\<rparr>)
      else if al_state r = ''cleaned'' then Inr r
      else Inl (invalid_transition r ''cleanup''))"

definition recover_job :: "(string \<Rightarrow> string) \<Rightarrow> alloc_row \<Rightarrow> rj_error + alloc_row" where
  "recover_job H r =
     (if List.member [''reserved'', ''issued'', ''running''] (al_state r) \<and> (al_jobs_started r = 0 \<or> al_jobs_started r = 1)
      then bindE (cleanup_key_of H (al_allocation_id r) (al_payload_digest r)) (\<lambda>k.
        Inr (r\<lparr>al_state := ''recovery_required'', al_outcome := Some ''reboot'', al_recovery_required := True,
               al_cleanup_pending := True, al_cleanup_key := Some k\<rparr>))
      else if al_state r = ''recovery_required'' \<and> al_outcome r = Some ''reboot'' then Inr r
      else Inl (invalid_transition r ''recover''))"

definition ack_cleanup :: "(string \<Rightarrow> string) \<Rightarrow> transition_args \<Rightarrow> alloc_row \<Rightarrow> rj_error + alloc_row" where
  "ack_cleanup H args r =
     bindE (requireE (evidence_ok args r)
       (RunnerJitError ''recovery cleanup acknowledgement evidence is invalid'')) (\<lambda>_.
     bindE (liftR (canonicalize_jcs (ta_evidence args))) (\<lambda>body.
     if al_state r = ''recovery_required'' \<and> al_recovery_required r \<and> al_cleanup_pending r then
       Inr (r\<lparr>al_state := ''cleaned'', al_cleanup_complete := True, al_recovery_required := False,
              al_cleanup_pending := False, al_evidence_digest := Some (H body)\<rparr>)
     else if al_state r = ''cleaned'' \<and> al_outcome r = Some ''reboot'' \<and> al_evidence_digest r = Some (H body) then Inr r
     else Inl (RunnerJitError ''recovery cleanup acknowledgement conflicts with durable state'')))"

definition ALLOWED_ACTIONS :: "string list" where
  "ALLOWED_ACTIONS = [''admit-job'', ''finish'', ''cleanup'', ''recover'', ''ack-recovery-cleanup'']"

definition aware_now :: "transition_args \<Rightarrow> bool" where
  "aware_now args = (case ta_now args of Some (Aware t) \<Rightarrow> True | _ \<Rightarrow> False)"

definition next_row :: "(string \<Rightarrow> string) \<Rightarrow> string \<Rightarrow> transition_args \<Rightarrow> instant \<times> instant \<times> instant
   \<Rightarrow> alloc_row \<Rightarrow> rj_error + alloc_row" where
  "next_row H action args lease r =
     (if action = ''admit-job'' then
        (case ta_now args of
           Some (Aware now) \<Rightarrow> admit_job now (fst lease) (snd (snd lease)) r
         | _ \<Rightarrow> Inl (RunnerJitError ''admit-job requires a timezone-aware UTC now''))
      else if action = ''finish'' then finish_job args r
      else if action = ''cleanup'' then cleanup_job r
      else if action = ''recover'' then recover_job H r
      else ack_cleanup H args r)"

text \<open>The UPDATE writes the lifecycle columns of the row.\<close>

definition set_lifecycle :: "alloc_row \<Rightarrow> alloc_row \<Rightarrow> alloc_row" where
  "set_lifecycle n r =
     r\<lparr>al_state := al_state n, al_outcome := al_outcome n, al_jobs_started := al_jobs_started n,
       al_cleanup_complete := al_cleanup_complete n, al_recovery_required := al_recovery_required n,
       al_cleanup_pending := al_cleanup_pending n, al_cleanup_key := al_cleanup_key n,
       al_evidence_digest := al_evidence_digest n\<rparr>"

definition transition_body :: "(string \<Rightarrow> string) \<Rightarrow> (string \<Rightarrow> pydatetime option) \<Rightarrow> string \<Rightarrow> string \<Rightarrow> transition_args
   \<Rightarrow> alloc_row list \<Rightarrow> rj_error + AllocationRecord \<times> alloc_row list" where
  "transition_body H fromiso allocation_id action args rows =
     bindE (requireE (List.member ALLOWED_ACTIONS action) (RunnerJitError ''unknown lifecycle action'')) (\<lambda>_.
     bindE (requireE (action = ''admit-job'' \<longrightarrow> aware_now args)
       (RunnerJitError ''admit-job requires a timezone-aware UTC now'')) (\<lambda>_.
     case select_row allocation_id rows of
       None \<Rightarrow> Inl (RunnerJitError ''unknown allocation'')
     | Some r \<Rightarrow>
         bindE (lease_times fromiso r) (\<lambda>lease.
         bindE (next_row H action args lease r) (\<lambda>n.
         Inr (record_of n lease, update_key al_allocation_id (set_lifecycle n) allocation_id rows)))))"

definition transition :: "(string \<Rightarrow> string) \<Rightarrow> (string \<Rightarrow> pydatetime option) \<Rightarrow> string \<Rightarrow> string \<Rightarrow> transition_args
   \<Rightarrow> ledger \<Rightarrow> (rj_error + AllocationRecord) \<times> ledger" where
  "transition H fromiso allocation_id action args L =
     commit L (transition_body H fromiso allocation_id action args (lg_rows L))"

section \<open>Outcome log\<close>

definition delay_bucket :: "(string \<Rightarrow> pydatetime option) \<Rightarrow> pyval \<Rightarrow> instant \<Rightarrow> rj_error + string" where
  "delay_bucket fromiso claim_deadline now =
     (if claim_deadline = PNone then Inr ''unknown''
      else bindE (rj_parse_time fromiso claim_deadline ''claim_deadline'') (\<lambda>deadline.
        Inr (if now - deadline < 0 then ''before-deadline'' else if now - deadline < seconds 60 then ''0-60s''
             else if now - deadline < seconds 300 then ''1-5m'' else ''>5m'')))"

definition EVENT_FIELDS :: "string list" where
  "EVENT_FIELDS = [''event_key'', ''cause_code'', ''allocation_id'', ''run_id'', ''job_id'', ''repository'', ''pr_number'',
     ''head_sha'', ''prior_ledger_state'', ''issued_at'', ''claim_deadline'', ''now'', ''delay_bucket'', ''executed'', ''success'']"

definition event_key_text :: "string \<Rightarrow> bool" where
  "event_key_text s = (1 \<le> length s \<and> length s \<le> 200 \<and> list_all (\<lambda>c. is_name_char c \<or> c = CHR '':'') s)"

fun is_bool :: "pyval \<Rightarrow> bool" where
  "is_bool (PBool b) = True"
| "is_bool _ = False"

definition LEDGER_STATES :: "string list" where
  "LEDGER_STATES = [''reserved'', ''issued'', ''claimed'', ''running'', ''terminal'', ''recovery_required'', ''cleaned'', ''absent'']"

definition optionally :: "(pyval \<Rightarrow> bool) \<Rightarrow> pyval \<Rightarrow> bool" where
  "optionally p v = (v = PNone \<or> p v)"

definition in_texts :: "pyval \<Rightarrow> string list \<Rightarrow> rj_error + bool" where
  "in_texts v ss = (if hashable v then Inr (one_of v ss) else Inl RjTypeError)"

definition check_event_head :: "pydict \<Rightarrow> rj_error + unit" where
  "check_event_head event =
     bindE (requireE (keys_exact event EVENT_FIELDS) (RunnerJitError ''outcome event fields are not exact'')) (\<lambda>_.
     bindE (requireE (str_matches event_key_text (pget event ''event_key''))
       (RunnerJitError ''outcome event key is invalid'')) (\<lambda>_.
     bindE (in_texts (pget event ''cause_code'') OUTCOME_CAUSES) (\<lambda>ok.
     bindE (requireE ok (RunnerJitError ''outcome cause or delay bucket is invalid'')) (\<lambda>_.
     bindE (in_texts (pget event ''delay_bucket'') DELAY_BUCKETS) (\<lambda>ok.
     bindE (requireE ok (RunnerJitError ''outcome cause or delay bucket is invalid'')) (\<lambda>_.
     bindE (requireE (is_bool (pget event ''executed'') \<and> is_bool (pget event ''success''))
       (RunnerJitError ''outcome booleans are invalid'')) (\<lambda>_.
     requireE (pget event ''success'' = PBool True \<longrightarrow>
         pget event ''executed'' = PBool True \<and> pget event ''cause_code'' = PStr ''success'')
       (RunnerJitError ''successful outcome identity is invalid''))))))))"

definition check_event_identity :: "pydict \<Rightarrow> rj_error + unit" where
  "check_event_identity event =
     bindE (if pget event ''allocation_id'' = PNone then Inr []
       else validate_uuid (pget event ''allocation_id'') ''allocation_id'') (\<lambda>_.
     bindE (forE [''run_id'', ''job_id''] (\<lambda>f. requireE (optionally (str_matches canonical_positive) (pget event f))
       (RunnerJitError (''outcome '' @ f @ '' is invalid'')))) (\<lambda>_.
     bindE (requireE (optionally (str_matches loose_repository_name) (pget event ''repository''))
       (RunnerJitError ''outcome repository is invalid'')) (\<lambda>_.
     bindE (requireE (optionally positive_int (pget event ''pr_number'')) (RunnerJitError ''outcome PR is invalid'')) (\<lambda>_.
     bindE (requireE (optionally (str_matches sha40) (pget event ''head_sha''))
       (RunnerJitError ''outcome head SHA is invalid'')) (\<lambda>_.
     if pget event ''prior_ledger_state'' = PNone then Inr ()
     else bindE (in_texts (pget event ''prior_ledger_state'') LEDGER_STATES) (\<lambda>ok.
       requireE ok (RunnerJitError ''outcome prior ledger state is invalid'')))))))"

definition check_event_times :: "(string \<Rightarrow> pydatetime option) \<Rightarrow> pydict \<Rightarrow> rj_error + instant" where
  "check_event_times fromiso event =
     bindE (case pget event ''now'' of PTime (Aware t) \<Rightarrow> Inr t | _ \<Rightarrow> Inl (RunnerJitError ''outcome now must be UTC'')) (\<lambda>now.
     bindE (forE [''issued_at'', ''claim_deadline''] (\<lambda>f.
       if pget event f = PNone then Inr () else bindE (rj_parse_time fromiso (pget event f) f) (\<lambda>_. Inr ()))) (\<lambda>_.
     Inr now))"

definition outcome_row_of :: "pydict \<Rightarrow> instant \<Rightarrow> outcome_row" where
  "outcome_row_of event now =
     \<lparr>oc_event_key = fmt (pget event ''event_key''), oc_cause_code = pget event ''cause_code'',
      oc_allocation_id = pget event ''allocation_id'', oc_run_id = pget event ''run_id'', oc_job_id = pget event ''job_id'',
      oc_repository = pget event ''repository'', oc_pr_number = pget event ''pr_number'', oc_head_sha = pget event ''head_sha'',
      oc_prior_ledger_state = pget event ''prior_ledger_state'', oc_issued_at = pget event ''issued_at'',
      oc_claim_deadline = pget event ''claim_deadline'', oc_occurred_at = stamp now,
      oc_delay_bucket = pget event ''delay_bucket'', oc_executed = py_truthy (pget event ''executed''),
      oc_success = py_truthy (pget event ''success'')\<rparr>"

definition stable_outcome :: "outcome_row \<Rightarrow> pyval list \<times> bool \<times> bool" where
  "stable_outcome r = ([oc_cause_code r, oc_allocation_id r, oc_run_id r, oc_job_id r, oc_repository r, oc_pr_number r,
     oc_head_sha r], oc_executed r, oc_success r)"

text \<open>SQLite integers have 64 bits: \<open>execute\<close> raises \<open>OverflowError\<close> on a larger one.\<close>

definition fits_sqlite :: "pyval \<Rightarrow> bool" where
  "fits_sqlite v = (case v of PInt i \<Rightarrow> - (2 ^ 63) \<le> i \<and> i < 2 ^ 63 | _ \<Rightarrow> True)"

definition append_outcome ::
  "(string \<Rightarrow> pydatetime option) \<Rightarrow> pydict \<Rightarrow> ledger \<Rightarrow> (rj_error + bool) \<times> ledger" where
  "append_outcome fromiso event L =
     (case bindE (check_event_head event) (\<lambda>_. bindE (check_event_identity event) (\<lambda>_. check_event_times fromiso event)) of
        Inl e \<Rightarrow> (Inl e, L)
      | Inr now \<Rightarrow>
          let row = outcome_row_of event now; kept = prune (lg_retention_days L) now (lg_outcomes L)
          in case select_key oc_event_key (oc_event_key row) kept of
               Some r \<Rightarrow>
                 if stable_outcome r = stable_outcome row then (Inr False, L)
                 else (Inl (RunnerJitError ''outcome event key was reused with different content''), L)
             | None \<Rightarrow>
                 if \<not> fits_sqlite (oc_pr_number row) then (Inl RjOverflowError, L)
                 else (Inr True, L\<lparr>lg_outcomes := kept @ [row]\<rparr>))"

definition has_outcome_cause :: "ledger \<Rightarrow> string \<Rightarrow> string list \<Rightarrow> bool" where
  "has_outcome_cause L allocation_id causes =
     list_ex (\<lambda>r. oc_allocation_id r = PStr allocation_id \<and> one_of (oc_cause_code r) causes) (lg_outcomes L)"

definition outcomes :: "ledger \<Rightarrow> pydatetime \<Rightarrow> pydatetime \<Rightarrow> rj_error + outcome_row list" where
  "outcomes L since now =
     (case (since, now) of
        (Aware s, Aware n) \<Rightarrow>
          if n < s then Inl (RunnerJitError ''outcome window is invalid'')
          else Inr (filter (\<lambda>r. stamp s \<le> oc_occurred_at r) (lg_outcomes L))
      | _ \<Rightarrow> Inl (RunnerJitError ''outcome window is invalid''))"

end
