(* ===== verification/Ledger_Safety.thy ===== *)
theory Ledger_Safety
  imports Allocation_Ledger
begin

text \<open>
  Properties of the allocation ledger: the lifecycle is a refinement of an abstract state machine,
  identifiers and nonces are single use, at most one job ever starts per allocation, and an
  allocation is issued only for what was reserved and signed.
\<close>

section \<open>The abstract lifecycle\<close>

text \<open>What may happen to one allocation, \<open>None\<close> before it is known.\<close>

inductive lifecycle :: "string option \<Rightarrow> string option \<Rightarrow> bool" where
  reserve: "lifecycle None (Some ''reserved'')"
| admit: "lifecycle None (Some ''issued'')"
| finalize: "lifecycle (Some ''reserved'') (Some ''issued'')"
| start: "lifecycle (Some ''issued'') (Some ''running'')"
| finish: "lifecycle (Some ''running'') (Some ''terminal'')"
| cleanup: "lifecycle (Some ''terminal'') (Some ''cleaned'')"
| recover: "s \<in> {''reserved'', ''issued'', ''running''} \<Longrightarrow> lifecycle (Some s) (Some ''recovery_required'')"
| acknowledge: "lifecycle (Some ''recovery_required'') (Some ''cleaned'')"
| stutter: "lifecycle s s"

inductive_cases from_cleanedE: "lifecycle (Some ''cleaned'') s"
inductive_cases to_runningE: "lifecycle s (Some ''running'')"

inductive_simps lifecycle_None: "lifecycle s None"

definition phase :: "string \<Rightarrow> ledger \<Rightarrow> string option" where
  "phase i L = map_option al_state (select_row i (lg_rows L))"

section \<open>Invariant\<close>

definition row_ok :: "alloc_row \<Rightarrow> bool" where
  "row_ok r =
     (al_state r \<in> {''reserved'', ''issued'', ''running'', ''terminal'', ''recovery_required'', ''cleaned''}
      \<and> al_jobs_started r \<in> {0, 1}
      \<and> (al_state r \<in> {''reserved'', ''issued''} \<longrightarrow> al_jobs_started r = 0 \<and> al_outcome r = None)
      \<and> (al_state r \<in> {''running'', ''terminal''} \<longrightarrow> al_jobs_started r = 1)
      \<and> (al_state r \<in> {''terminal'', ''recovery_required'', ''cleaned''} \<longrightarrow> terminal_outcome (al_outcome r))
      \<and> (al_state r = ''recovery_required'' \<longrightarrow> al_outcome r = Some ''reboot'' \<and> al_cleanup_key r \<noteq> None)
      \<and> (al_cleanup_complete r \<longleftrightarrow> al_state r = ''cleaned'')
      \<and> (al_recovery_required r \<longleftrightarrow> al_state r = ''recovery_required'')
      \<and> (al_cleanup_pending r \<longleftrightarrow> al_state r = ''recovery_required'')
      \<and> (al_state r = ''reserved'' \<longrightarrow> al_payload r = None \<and> al_reservation r \<noteq> None)
      \<and> (al_state r \<in> {''issued'', ''running'', ''terminal''} \<longrightarrow> al_payload r \<noteq> None)
      \<and> (case (al_payload r, al_reservation r) of
           (Some p, Some d) \<Rightarrow> py_eq (PDict (reservation_projection p)) (PDict d) | _ \<Rightarrow> True))"

definition rows_inv :: "alloc_row list \<Rightarrow> bool" where
  "rows_inv rows = (distinct (map al_allocation_id rows) \<and> distinct (map al_binding_digest rows) \<and> list_all row_ok rows)"

definition ledger_inv :: "ledger \<Rightarrow> bool" where
  "ledger_inv L = (rows_inv (lg_rows L) \<and> lg_version L = LEDGER_SCHEMA_VERSION
     \<and> distinct (map oc_event_key (lg_outcomes L))
     \<and> list_all (\<lambda>r. oc_success r \<longrightarrow> oc_executed r \<and> oc_cause_code r = PStr ''success'') (lg_outcomes L))"

definition empty_ledger :: ledger where
  "empty_ledger = \<lparr>lg_version = LEDGER_SCHEMA_VERSION, lg_retention_days = 30, lg_rows = [], lg_outcomes = []\<rparr>"

text \<open>Each row-level operation moves along the lifecycle and keeps the row well formed.\<close>

interpretation finalized_upd: row_update al_allocation_id "set_finalized payload dig" for payload dig
  by unfold_locales (simp add: set_finalized_def)

interpretation scale_set_upd: row_update al_allocation_id "set_scale_set sid" for sid
  by unfold_locales (simp add: set_scale_set_def)

interpretation lifecycle_upd: row_update al_allocation_id "set_lifecycle n" for n
  by unfold_locales (simp add: set_lifecycle_def)

lemma outcome_reboot: "terminal_outcome (Some ''reboot'')"
  by (simp add: terminal_outcome_def TERMINAL_OUTCOMES_def)

lemma admit_job_ok:
  assumes "admit_job now issued deadline r = Inr n" and "row_ok r"
  shows "row_ok n \<and> lifecycle (Some (al_state r)) (Some (al_state n)) \<and> set_lifecycle n r = n"
proof -
  have s: "al_state r = ''issued''" and n: "n = r\<lparr>al_state := ''running'', al_jobs_started := 1\<rparr>"
    using assms(1) by (auto simp: admit_job_def split: if_splits)
  show ?thesis
    using assms(2) s by (simp add: n row_ok_def set_lifecycle_def lifecycle.start)
qed

lemma finish_job_ok:
  assumes "finish_job args r = Inr n" and "row_ok r"
  shows "row_ok n \<and> lifecycle (Some (al_state r)) (Some (al_state n)) \<and> set_lifecycle n r = n"
proof -
  have s: "al_state r = ''running''" "terminal_outcome (ta_outcome args)"
    and n: "n = r\<lparr>al_state := ''terminal'', al_outcome := ta_outcome args\<rparr>"
    using assms(1) by (auto simp: finish_job_def split: if_splits)
  show ?thesis
    using assms(2) s by (simp add: n row_ok_def set_lifecycle_def lifecycle.finish)
qed

lemma cleanup_job_ok:
  assumes "cleanup_job r = Inr n" and "row_ok r"
  shows "row_ok n \<and> lifecycle (Some (al_state r)) (Some (al_state n)) \<and> set_lifecycle n r = n"
proof -
  consider "n = r" | "al_state r = ''terminal''" "n = r\<lparr>al_state := ''cleaned'', al_cleanup_complete := True\<rparr>"
    using assms(1) by (auto simp: cleanup_job_def split: if_splits)
  then show ?thesis
  proof cases
    case 2
    then show ?thesis using assms(2) by (simp add: row_ok_def set_lifecycle_def lifecycle.cleanup)
  qed (use assms(2) in \<open>simp add: set_lifecycle_def lifecycle.stutter\<close>)
qed

lemma recover_job_ok:
  assumes "recover_job H r = Inr n" and "row_ok r"
  shows "row_ok n \<and> lifecycle (Some (al_state r)) (Some (al_state n)) \<and> set_lifecycle n r = n"
proof -
  consider "n = r" | k where "al_state r \<in> {''reserved'', ''issued'', ''running''}"
      "n = r\<lparr>al_state := ''recovery_required'', al_outcome := Some ''reboot'', al_recovery_required := True,
             al_cleanup_pending := True, al_cleanup_key := Some k\<rparr>"
    using assms(1) by (auto simp: recover_job_def bindE_eq_Inr split: if_splits)
  then show ?thesis
  proof cases
    case 2
    then have "al_state r \<noteq> ''cleaned''" "al_state r \<noteq> ''terminal''" "al_state r \<noteq> ''recovery_required''" by auto
    then show ?thesis
      using assms(2) lifecycle.recover [OF 2(1)] 2(2) by (simp add: row_ok_def set_lifecycle_def outcome_reboot)
  qed (use assms(2) in \<open>simp add: set_lifecycle_def lifecycle.stutter\<close>)
qed

lemma ack_cleanup_ok:
  assumes "ack_cleanup H args r = Inr n" and "row_ok r"
  shows "row_ok n \<and> lifecycle (Some (al_state r)) (Some (al_state n)) \<and> set_lifecycle n r = n"
proof -
  consider "n = r" | e where "al_state r = ''recovery_required''"
      "n = r\<lparr>al_state := ''cleaned'', al_cleanup_complete := True, al_recovery_required := False,
             al_cleanup_pending := False, al_evidence_digest := Some e\<rparr>"
    using assms(1) by (auto simp: ack_cleanup_def bindE_eq_Inr split: if_splits)
  then show ?thesis
  proof cases
    case 2
    then show ?thesis
      using assms(2) by (simp add: row_ok_def set_lifecycle_def lifecycle.acknowledge outcome_reboot)
  qed (use assms(2) in \<open>simp add: set_lifecycle_def lifecycle.stutter\<close>)
qed

lemmas row_steps = admit_job_ok finish_job_ok cleanup_job_ok recover_job_ok ack_cleanup_ok

lemma next_row_ok:
  assumes "next_row H action args lease r = Inr n" and "row_ok r"
  shows "row_ok n \<and> lifecycle (Some (al_state r)) (Some (al_state n)) \<and> set_lifecycle n r = n"
  using assms row_steps
  unfolding next_row_def by (auto split: if_splits option.splits pydatetime.splits)

section \<open>Operations on the table\<close>

definition ident :: "alloc_row \<Rightarrow> string \<times> string" where
  "ident r = (al_allocation_id r, al_binding_digest r)"

definition moves :: "alloc_row list \<Rightarrow> alloc_row list \<Rightarrow> bool" where
  "moves rows rows' = (rows_inv rows' \<and> map ident rows = take (length rows) (map ident rows')
     \<and> (\<forall>i. lifecycle (map_option al_state (select_row i rows)) (map_option al_state (select_row i rows'))))"

lemma moves_refl: "rows_inv rows \<Longrightarrow> moves rows rows"
  by (simp add: moves_def lifecycle.stutter)

lemma moves_append:
  assumes "rows_inv rows" and "select_row (al_allocation_id r) rows = None"
    and "select_binding (al_binding_digest r) rows = None" and "row_ok r" and "lifecycle None (Some (al_state r))"
  shows "moves rows (rows @ [r])"
proof -
  have "lifecycle (map_option al_state (select_row i rows)) (map_option al_state (select_row i (rows @ [r])))" for i
    using assms(2,5)
    by (cases "select_row i rows"; cases "i = al_allocation_id r")
      (simp_all add: select_key_append select_key_Cons lifecycle.stutter)
  then show ?thesis
    using assms(1-4) by (simp add: moves_def rows_inv_def select_key_None)
qed

lemma moves_update:
  assumes inv: "rows_inv rows" and r: "select_row i rows = Some r" and ok: "row_ok (f r)"
    and life: "lifecycle (Some (al_state r)) (Some (al_state (f r)))"
    and keys: "\<And>r. al_allocation_id (f r) = al_allocation_id r" "\<And>r. al_binding_digest (f r) = al_binding_digest r"
  shows "moves rows (update_key al_allocation_id f i rows)"
proof -
  have ids: "map al_allocation_id (update_key al_allocation_id f i rows) = map al_allocation_id rows"
    and bindings: "map al_binding_digest (update_key al_allocation_id f i rows) = map al_binding_digest rows"
    and idents: "map ident (update_key al_allocation_id f i rows) = map ident rows"
    by (simp_all add: update_key_def keys ident_def)
  have only: "x = r" if "x \<in> set rows" "al_allocation_id x = i" for x
    using that inv r select_key_unique [of al_allocation_id rows x] by (simp add: rows_inv_def)
  then have "list_all row_ok (update_key al_allocation_id f i rows)"
    using inv ok by (auto simp: rows_inv_def list_all_iff update_key_def)
  moreover have "select_row j (update_key al_allocation_id f i rows) =
      (if j = i then Some (f r) else select_row j rows)" for j
    using row_update.select_update [of al_allocation_id f] r keys(1) by (simp add: row_update_def)
  ultimately show ?thesis
    using inv r life ids bindings idents by (simp add: moves_def rows_inv_def lifecycle.stutter)
qed

lemma fresh_ok:
  "row_ok ((fresh_row i b d ''issued'')\<lparr>al_issued_at := t, al_expires_at := t', al_claim_deadline := t'', al_payload := Some p,
     al_scale_set_name := n\<rparr>)"
  "row_ok ((fresh_row i b d ''reserved'')\<lparr>al_issued_at := t, al_expires_at := t', al_scale_set_name := n, al_reservation := Some p\<rparr>)"
  by (simp_all add: row_ok_def fresh_row_def)

lemma fresh_columns [simp]: "al_allocation_id (fresh_row i b d s) = i" "al_binding_digest (fresh_row i b d s) = b"
  "al_state (fresh_row i b d s) = s" "al_outcome (fresh_row i b d s) = None"
  by (simp_all add: fresh_row_def)

lemma admit_body_cases:
  assumes "admit_body H payload rows = Inr (out, rows')"
  obtains "rows' = rows" "out = ''idempotent''"
  | r where "rows' = rows @ [r]" "out = ''issued''" "select_row (al_allocation_id r) rows = None"
      "select_binding (al_binding_digest r) rows = None"
      "al_state r = ''issued''" "row_ok r" "al_payload r = Some payload" "al_allocation_id r = fmt (pget payload ''allocation_id'')"
      "\<exists>dig. ledger_digests H payload = Inr (al_binding_digest r, dig)"
proof (cases "select_row (fmt (pget payload ''allocation_id'')) rows")
  case None
  with assms obtain b dig t t' t'' n where "ledger_digests H payload = Inr (b, dig)" "select_binding b rows = None" "out = ''issued''"
    "rows' = rows @ [(fresh_row (fmt (pget payload ''allocation_id'')) b dig ''issued'')\<lparr>al_issued_at := t, al_expires_at := t',
       al_claim_deadline := t'', al_payload := Some payload, al_scale_set_name := n\<rparr>]"
    unfolding admit_body_def Let_def bindE_eq_Inr by (auto split: if_splits)
  with None fresh_ok(1) show ?thesis by - (rule that(2), assumption, simp_all)
qed (use assms that(1) in \<open>auto simp: admit_body_def Let_def bindE_eq_Inr split: if_splits\<close>)

lemma admit_body_moves: "admit_body H payload rows = Inr (out, rows') \<Longrightarrow> rows_inv rows \<Longrightarrow> moves rows rows'"
  by (erule admit_body_cases) (simp_all add: moves_refl moves_append lifecycle.admit)

lemma reserve_body_cases:
  assumes "reserve_body H reservation rows = Inr (out, rows')"
  obtains "rows' = rows" "out = ''idempotent''"
  | r where "rows' = rows @ [r]" "out = ''reserved''" "select_row (al_allocation_id r) rows = None"
      "select_binding (al_binding_digest r) rows = None"
      "al_state r = ''reserved''" "row_ok r" "al_reservation r = Some reservation"
      "al_allocation_id r = fmt (pget reservation ''allocation_id'')"
      "\<exists>dig. ledger_digests H reservation = Inr (al_binding_digest r, dig)"
proof (cases "select_row (fmt (pget reservation ''allocation_id'')) rows")
  case None
  with assms obtain b dig t t' n where "ledger_digests H reservation = Inr (b, dig)" "select_binding b rows = None" "out = ''reserved''"
    "rows' = rows @ [(fresh_row (fmt (pget reservation ''allocation_id'')) b dig ''reserved'')\<lparr>al_issued_at := t, al_expires_at := t',
       al_scale_set_name := n, al_reservation := Some reservation\<rparr>]"
    unfolding reserve_body_def Let_def bindE_eq_Inr by (auto split: if_splits)
  with None fresh_ok(2) show ?thesis by - (rule that(2), assumption, simp_all)
qed (use assms that(1) in \<open>auto simp: reserve_body_def Let_def bindE_eq_Inr simp del: json_text.simps split: if_splits\<close>)

lemma reserve_body_moves: "reserve_body H reservation rows = Inr (out, rows') \<Longrightarrow> rows_inv rows \<Longrightarrow> moves rows rows'"
  by (erule reserve_body_cases) (simp_all add: moves_refl moves_append lifecycle.reserve)

lemma selected_ok: "rows_inv rows \<Longrightarrow> select_row i rows = Some r \<Longrightarrow> row_ok r \<and> al_allocation_id r = i"
  using select_key_SomeD [of al_allocation_id i rows r] by (auto simp: rows_inv_def list_all_iff)

lemma finalize_body_cases:
  assumes "finalize_body H payload rows = Inr (out, rows')"
  obtains "rows' = rows" "out = ''idempotent''"
  | r body where "out = ''issued''" "select_row (fmt (pget payload ''allocation_id'')) rows = Some r" "al_state r = ''reserved''"
      "al_payload r = None" "\<exists>d. al_reservation r = Some d \<and> py_eq (PDict (reservation_projection payload)) (PDict d)"
      "rows' = update_key al_allocation_id (set_finalized payload (H body)) (fmt (pget payload ''allocation_id'')) rows"
proof -
  let ?i = "fmt (pget payload ''allocation_id'')"
  obtain r where r: "select_row ?i rows = Some r"
    using assms by (cases "select_row ?i rows") (auto simp: finalize_body_def Let_def bindE_eq_Inr)
  show ?thesis
  proof (cases "al_payload r")
    case None
    with assms r obtain body where "out = ''issued''" "al_state r = ''reserved''"
      "py_eq (PDict (reservation_projection payload)) (case al_reservation r of None \<Rightarrow> PNone | Some d \<Rightarrow> PDict d)"
      "rows' = update_key al_allocation_id (set_finalized payload (H body)) ?i rows"
      by (auto simp: finalize_body_def Let_def bindE_eq_Inr simp del: py_eq.simps split: if_splits)
    with None r that(2) show ?thesis by (cases "al_reservation r") auto
  next
    case (Some p)
    with assms r have "rows' = rows" "out = ''idempotent''"
      by (auto simp: finalize_body_def Let_def bindE_eq_Inr simp del: json_text.simps split: if_splits)
    with that(1) show ?thesis .
  qed
qed

lemma finalize_body_moves:
  assumes "finalize_body H payload rows = Inr (out, rows')" and inv: "rows_inv rows"
  shows "moves rows rows'"
  using assms(1)
proof (cases rule: finalize_body_cases)
  case (2 r body)
  have "row_ok (set_finalized payload (H body) r)"
    using selected_ok [OF inv 2(2)] 2(3-5) by (auto simp: row_ok_def set_finalized_def)
  then show ?thesis
    unfolding 2(6) by (intro moves_update [OF inv 2(2)]) (simp_all add: set_finalized_def 2(3) lifecycle.finalize)
qed (use inv moves_refl in simp)

lemma bind_body_moves:
  assumes "bind_body i sid name rows = Inr (out, rows')" and inv: "rows_inv rows"
  shows "moves rows rows'"
proof -
  consider "rows' = rows" | r where "select_row i rows = Some r" "rows' = update_key al_allocation_id (set_scale_set sid) i rows"
    using assms(1) by (auto simp: bind_body_def split: option.splits if_splits)
  then show ?thesis
  proof cases
    case 2
    have "row_ok (set_scale_set sid r)"
      using selected_ok [OF inv 2(1)] by (simp add: row_ok_def set_scale_set_def outcome_reboot)
    then show ?thesis
      unfolding 2(2) by (intro moves_update [OF inv 2(1)]) (simp_all add: set_scale_set_def lifecycle.stutter)
  qed (use inv moves_refl in simp)
qed

lemma transition_body_moves:
  assumes "transition_body H fromiso i action args rows = Inr (out, rows')" and inv: "rows_inv rows"
  shows "moves rows rows'"
proof -
  obtain r lease n where r: "select_row i rows = Some r" and n: "next_row H action args lease r = Inr n"
    and rows': "rows' = update_key al_allocation_id (set_lifecycle n) i rows"
    using assms(1) by (auto simp: transition_body_def bindE_eq_Inr split: option.splits)
  from next_row_ok [OF n] selected_ok [OF inv r]
  have "row_ok (set_lifecycle n r)" "lifecycle (Some (al_state r)) (Some (al_state (set_lifecycle n r)))" by auto
  then show ?thesis
    unfolding rows' by (intro moves_update [OF inv r]) (simp_all add: set_lifecycle_def)
qed

lemmas body_moves = admit_body_moves reserve_body_moves finalize_body_moves bind_body_moves transition_body_moves

section \<open>Runs of the ledger\<close>

datatype ledger_call =
    CAdmit sig_prims pyval public_key string pydatetime
  | CReserve pydict pydatetime
  | CFinalize sig_prims pyval public_key string pydatetime
  | CBind string string string
  | CTransition string string transition_args
  | COutcome pydict
  | COpen int instant

fun ledger_step :: "(string \<Rightarrow> string) \<Rightarrow> (string \<Rightarrow> pydatetime option) \<Rightarrow> ledger_call \<Rightarrow> ledger \<Rightarrow> ledger" where
  "ledger_step H fromiso (CAdmit prims envelope key pinned now) L = snd (admit H fromiso prims envelope key pinned now L)"
| "ledger_step H fromiso (CReserve reservation now) L = snd (reserve H fromiso reservation now L)"
| "ledger_step H fromiso (CFinalize prims envelope key pinned now) L = snd (finalize H fromiso prims envelope key pinned now L)"
| "ledger_step H fromiso (CBind i sid name) L = snd (bind_scale_set i sid name L)"
| "ledger_step H fromiso (CTransition i action args) L = snd (transition H fromiso i action args L)"
| "ledger_step H fromiso (COutcome event) L = snd (append_outcome fromiso event L)"
| "ledger_step H fromiso (COpen retention now) L = snd (ledger_open H retention now L)"

lemma commit_moves:
  assumes "rows_inv (lg_rows L)" and "\<And>out rows'. m = Inr (out, rows') \<Longrightarrow> moves (lg_rows L) rows'"
  shows "moves (lg_rows L) (lg_rows (snd (commit L m)))"
  using assms by (cases m) (auto simp: commit_def moves_refl)

lemma commit_keeps: "lg_outcomes (snd (commit L m)) = lg_outcomes L" "lg_version (snd (commit L m)) = lg_version L"
  by (cases m; auto simp: commit_def)+

lemma append_outcome_rows: "lg_rows (snd (append_outcome fromiso event L)) = lg_rows L"
  "lg_version (snd (append_outcome fromiso event L)) = lg_version L"
  by (auto simp: append_outcome_def Let_def split: sum.splits option.splits)

lemma ledger_open_rows:
  assumes "lg_version L = LEDGER_SCHEMA_VERSION"
  shows "lg_rows (snd (ledger_open H retention now L)) = lg_rows L"
    and "lg_version (snd (ledger_open H retention now L)) = LEDGER_SCHEMA_VERSION"
  using assms by (auto simp: ledger_open_def LEDGER_SCHEMA_VERSION_def)

lemma step_moves:
  assumes "ledger_inv L"
  shows "moves (lg_rows L) (lg_rows (ledger_step H fromiso c L))"
proof -
  have inv: "rows_inv (lg_rows L)" "lg_version L = LEDGER_SCHEMA_VERSION" using assms by (simp_all add: ledger_inv_def)
  show ?thesis
    by (cases c)
      (auto simp: admit_def reserve_def finalize_def bind_scale_set_def transition_def append_outcome_rows
        ledger_open_rows [OF inv(2)] moves_refl [OF inv(1)] bindE_eq_Inr intro!: commit_moves inv intro: body_moves [OF _ inv(1)])
qed

lemma prune_outcomes:
  "distinct (map oc_event_key rows) \<Longrightarrow> distinct (map oc_event_key (prune d now rows))"
  "list_all P rows \<Longrightarrow> list_all P (prune d now rows)"
  by (simp_all add: prune_def distinct_map_filter list_all_iff)

lemma event_success:
  assumes "check_event_head event = Inr ()"
  shows "oc_success (outcome_row_of event now) \<longrightarrow>
    oc_executed (outcome_row_of event now) \<and> oc_cause_code (outcome_row_of event now) = PStr ''success''"
proof -
  have "is_bool (pget event ''success'')" "pget event ''success'' = PBool True \<longrightarrow>
      pget event ''executed'' = PBool True \<and> pget event ''cause_code'' = PStr ''success''"
    using assms by (auto simp: check_event_head_def bindE_eq_Inr)
  then show ?thesis
    by (cases "pget event ''success''") (auto simp: outcome_row_of_def)
qed

lemma append_outcome_cases:
  obtains "snd (append_outcome fromiso event L) = L" "fst (append_outcome fromiso event L) \<noteq> Inr True"
  | now where "pget event ''now'' = PTime (Aware now)" "check_event_head event = Inr ()"
      "select_key oc_event_key (oc_event_key (outcome_row_of event now)) (prune (lg_retention_days L) now (lg_outcomes L)) = None"
      "append_outcome fromiso event L =
         (Inr True, L\<lparr>lg_outcomes := prune (lg_retention_days L) now (lg_outcomes L) @ [outcome_row_of event now]\<rparr>)"
proof (cases "bindE (check_event_head event) (\<lambda>_. bindE (check_event_identity event) (\<lambda>_. check_event_times fromiso event))")
  case (Inr now)
  then have checks: "check_event_head event = Inr ()" "pget event ''now'' = PTime (Aware now)"
    by (auto simp: bindE_eq_Inr check_event_times_def split: pyval.splits pydatetime.splits)
  show ?thesis
  proof (cases "select_key oc_event_key (oc_event_key (outcome_row_of event now)) (prune (lg_retention_days L) now (lg_outcomes L))")
    case None
    with Inr checks that show ?thesis
      by (cases "fits_sqlite (oc_pr_number (outcome_row_of event now))") (auto simp: append_outcome_def Let_def)
  qed (use Inr that(1) in \<open>auto simp: append_outcome_def Let_def split: if_splits\<close>)
qed (use that(1) in \<open>simp add: append_outcome_def\<close>)

lemma append_outcome_inv:
  assumes "ledger_inv L"
  shows "ledger_inv (snd (append_outcome fromiso event L))"
proof (rule append_outcome_cases [of fromiso event L])
  fix now
  assume new: "check_event_head event = Inr ()"
    "select_key oc_event_key (oc_event_key (outcome_row_of event now)) (prune (lg_retention_days L) now (lg_outcomes L)) = None"
    "append_outcome fromiso event L =
       (Inr True, L\<lparr>lg_outcomes := prune (lg_retention_days L) now (lg_outcomes L) @ [outcome_row_of event now]\<rparr>)"
  show ?thesis
    using assms prune_outcomes event_success [OF new(1), of now] new(2)
    by (auto simp: ledger_inv_def select_key_None new(3))
qed (use assms in simp)

lemma open_inv: "ledger_inv L \<Longrightarrow> ledger_inv (snd (ledger_open H retention now L))"
  by (auto simp: ledger_open_def ledger_inv_def prune_outcomes LEDGER_SCHEMA_VERSION_def)

text \<open>The fact every call keeps: an allocation id holds its nonce digest for ever.\<close>

definition holds_binding :: "string \<times> string \<Rightarrow> ledger \<Rightarrow> bool" where
  "holds_binding x L = (\<exists>r \<in> set (lg_rows L). al_allocation_id r = fst x \<and> al_binding_digest r = snd x)"

lemma holds_binding_ident: "holds_binding x L \<longleftrightarrow> x \<in> ident ` set (lg_rows L)"
  by (cases x) (auto simp: holds_binding_def ident_def)

lemma moves_ident: "moves rows rows' \<Longrightarrow> ident ` set rows \<subseteq> ident ` set rows'"
  unfolding moves_def by (metis image_set set_take_subset)

lemma step_inv:
  assumes "ledger_inv L"
  shows "ledger_inv (ledger_step H fromiso c L)"
proof (cases c)
  case (COutcome event)
  with assms append_outcome_inv show ?thesis by simp
next
  case (COpen retention now)
  with assms open_inv show ?thesis by simp
qed (use assms step_moves [OF assms, of H fromiso c] in
    \<open>simp_all add: ledger_inv_def moves_def admit_def reserve_def finalize_def bind_scale_set_def transition_def commit_keeps\<close>)

interpretation lgm: stable_machine "ledger_step H fromiso" ledger_inv empty_ledger holds_binding for H fromiso
proof
  show "ledger_inv empty_ledger"
    by (simp add: ledger_inv_def empty_ledger_def rows_inv_def)
  show "ledger_inv (ledger_step H fromiso c s)" if "ledger_inv s" for s c
    using that by (rule step_inv)
  show "holds_binding x (ledger_step H fromiso c s)" if "ledger_inv s" "holds_binding x s" for s x c
    using that(2) moves_ident [OF step_moves [OF that(1), of H fromiso c]] unfolding holds_binding_ident by blast
qed

lemma step_lifecycle: "ledger_inv L \<Longrightarrow> lifecycle (phase i L) (phase i (ledger_step H fromiso c L))"
  using step_moves by (simp add: phase_def moves_def)

section \<open>Single admission\<close>

definition admits :: "(string \<Rightarrow> string) \<Rightarrow> (string \<Rightarrow> pydatetime option) \<Rightarrow> string \<Rightarrow> ledger_call \<Rightarrow> ledger \<Rightarrow> bool" where
  "admits H fromiso i c L =
     (case c of CTransition j action args \<Rightarrow> j = i \<and> action = ''admit-job'' \<and> \<not> isl (fst (transition H fromiso j action args L))
      | _ \<Rightarrow> False)"

fun admissions :: "(string \<Rightarrow> string) \<Rightarrow> (string \<Rightarrow> pydatetime option) \<Rightarrow> string \<Rightarrow> ledger_call list \<Rightarrow> ledger \<Rightarrow> nat" where
  "admissions H fromiso i [] L = 0"
| "admissions H fromiso i (c # cs) L =
     (if admits H fromiso i c L then 1 else 0) + admissions H fromiso i cs (ledger_step H fromiso c L)"

definition started :: "string \<Rightarrow> ledger \<Rightarrow> bool" where
  "started i L = (case phase i L of None \<Rightarrow> False | Some s \<Rightarrow> s \<noteq> ''reserved'' \<and> s \<noteq> ''issued'')"

lemma lifecycle_started:
  assumes "lifecycle x y" and "x = Some s" and "s \<noteq> ''reserved''" and "s \<noteq> ''issued''"
  shows "\<exists>s'. y = Some s' \<and> s' \<noteq> ''reserved'' \<and> s' \<noteq> ''issued''"
  using assms by cases auto

lemma started_step: "ledger_inv L \<Longrightarrow> started i L \<Longrightarrow> started i (ledger_step H fromiso c L)"
  using lifecycle_started [OF step_lifecycle [of L i H fromiso c]]
  by (fastforce simp: started_def split: option.splits)

lemma transition_rows:
  assumes "transition H fromiso i action args L = (Inr a, L')"
  obtains r lease n where "select_row i (lg_rows L) = Some r" "lease_times fromiso r = Inr lease"
    "next_row H action args lease r = Inr n" "a = record_of n lease"
    "L' = L\<lparr>lg_rows := update_key al_allocation_id (set_lifecycle n) i (lg_rows L)\<rparr>"
  using assms
  by (auto simp: transition_def commit_def transition_body_def bindE_eq_Inr split: sum.splits option.splits prod.splits)

lemma phase_update:
  "select_row i rows = Some r \<Longrightarrow>
     phase i (L\<lparr>lg_rows := update_key al_allocation_id (set_lifecycle n) i rows\<rparr>) = Some (al_state n)"
  by (simp add: phase_def lifecycle_upd.select_update set_lifecycle_def)

lemma admits_starts:
  assumes "admits H fromiso i c L"
  shows "\<not> started i L \<and> started i (ledger_step H fromiso c L)"
proof -
  obtain args where c: "c = CTransition i ''admit-job'' args" and ok: "\<not> isl (fst (transition H fromiso i ''admit-job'' args L))"
    using assms by (cases c) (simp_all add: admits_def)
  obtain a L' where t: "transition H fromiso i ''admit-job'' args L = (Inr a, L')"
    using ok by (cases "transition H fromiso i ''admit-job'' args L"; cases "fst (transition H fromiso i ''admit-job'' args L)") auto
  from t show ?thesis
  proof (rule transition_rows)
    fix r lease n
    assume r: "select_row i (lg_rows L) = Some r" and n: "next_row H ''admit-job'' args lease r = Inr n"
      and L': "L' = L\<lparr>lg_rows := update_key al_allocation_id (set_lifecycle n) i (lg_rows L)\<rparr>"
    have "al_state r = ''issued''" "al_state n = ''running''"
      using n by (auto simp: next_row_def admit_job_def split: option.splits pydatetime.splits if_splits)
    with r L' phase_update [OF r] show ?thesis
      by (simp add: c t started_def phase_def [of i L])
  qed
qed

lemma admissions_bound:
  "ledger_inv L \<Longrightarrow> admissions H fromiso i cs L \<le> (if started i L then 0 else 1)"
proof (induction cs arbitrary: L)
  case (Cons c cs)
  note IH = Cons.IH [OF step_inv [OF Cons.prems, of H fromiso c]]
  show ?case
  proof (cases "admits H fromiso i c L")
    case True
    with admits_starts [OF True] IH show ?thesis by simp
  next
    case False
    with IH started_step [OF Cons.prems, of i H fromiso c] show ?thesis by (auto split: if_splits)
  qed
qed simp

section \<open>Nonces\<close>

lemma digests_nonce:
  assumes "ledger_digests H d = Inr (b, dig)" and "ledger_digests H d' = Inr (b', dig')"
    and "pget d ''nonce'' = pget d' ''nonce''"
  shows "b = b'"
  using assms by (auto simp: ledger_digests_def bindE_eq_Inr)

lemma ident_select:
  assumes "rows_inv rows" and "(i, b) \<in> ident ` set rows"
  shows "select_binding b rows \<noteq> None" and "select_row j rows = Some r \<Longrightarrow> j \<noteq> i \<Longrightarrow> al_binding_digest r \<noteq> b"
proof -
  obtain r0 where r0: "r0 \<in> set rows" "al_allocation_id r0 = i" "al_binding_digest r0 = b"
    using assms(2) by (auto simp: ident_def)
  then show "select_binding b rows \<noteq> None" by (auto simp: select_key_None)
  show "al_binding_digest r \<noteq> b" if r: "select_row j rows = Some r" and "j \<noteq> i"
  proof
    assume b: "al_binding_digest r = b"
    have "distinct (map al_binding_digest rows)" using assms(1) by (simp add: rows_inv_def)
    then have "select_binding b rows = Some r" "select_binding b rows = Some r0"
      using select_key_unique [of al_binding_digest rows] select_key_SomeD [OF r] r0(1,3) b by metis+
    then show False using select_key_SomeD [OF r] r0(2) \<open>j \<noteq> i\<close> by simp
  qed
qed

lemma binding_taken:
  assumes inv: "rows_inv rows" and held: "(i, b) \<in> ident ` set rows" and "ledger_digests H d = Inr (b, dig)"
    and "pget d' ''nonce'' = pget d ''nonce''" and other: "fmt (pget d' ''allocation_id'') \<noteq> i"
  shows "\<exists>e. reserve_body H d' rows = Inl e" and "\<exists>e. admit_body H d' rows = Inl e"
proof -
  have "(\<exists>e. reserve_body H d' rows = Inl e) \<and> (\<exists>e. admit_body H d' rows = Inl e)"
  proof (cases "ledger_digests H d'")
    case (Inl e)
    then show ?thesis by (simp add: reserve_body_def admit_body_def Let_def)
  next
    case (Inr p)
    then obtain dig' where d': "ledger_digests H d' = Inr (b, dig')"
      using digests_nonce [OF assms(3)] assms(4) by (cases p) auto
    show ?thesis
    proof (cases "select_row (fmt (pget d' ''allocation_id'')) rows")
      case None
      with ident_select(1) [OF inv held] d' show ?thesis
        by (auto simp: reserve_body_def admit_body_def Let_def)
    next
      case (Some r)
      with ident_select(2) [OF inv held Some other] d' show ?thesis
        by (simp add: reserve_body_def admit_body_def Let_def)
    qed
  qed
  then show "\<exists>e. reserve_body H d' rows = Inl e" and "\<exists>e. admit_body H d' rows = Inl e" by auto
qed

lemma reserve_holds:
  assumes "reserve H fromiso d now L = (Inr out, L')"
  shows "\<exists>b dig. ledger_digests H d = Inr (b, dig) \<and> holds_binding (fmt (pget d ''allocation_id''), b) L'"
proof -
  obtain rows' where body: "reserve_body H d (lg_rows L) = Inr (out, rows')" and L': "L' = L\<lparr>lg_rows := rows'\<rparr>"
    using assms by (auto simp: reserve_def commit_def bindE_eq_Inr split: sum.splits prod.splits)
  obtain b dig where b: "ledger_digests H d = Inr (b, dig)"
    using body by (auto simp: reserve_body_def Let_def bindE_eq_Inr)
  show ?thesis
  proof (cases "select_row (fmt (pget d ''allocation_id'')) (lg_rows L)")
    case None
    with body b L' show ?thesis
      by (auto simp: reserve_body_def Let_def holds_binding_def split: if_splits)
  next
    case (Some r)
    with body b L' select_key_SomeD [OF Some] show ?thesis
      by (auto simp: reserve_body_def Let_def holds_binding_def simp del: json_text.simps split: if_splits)
  qed
qed

section \<open>Recovery\<close>

definition no_args :: transition_args where
  "no_args = \<lparr>ta_now = None, ta_outcome = None, ta_normal_cancel = False, ta_cleanup_key = None, ta_evidence = PNone\<rparr>"

text \<open>The acknowledgement the broker sends once everything of the allocation is gone.\<close>

definition ack_args :: "AllocationRecord \<Rightarrow> transition_args" where
  "ack_args r = no_args\<lparr>ta_cleanup_key := rec_cleanup_key r,
     ta_evidence := PDict ([(''allocation_id'', PStr (rec_allocation_id r)),
       (''cleanup_idempotency_key'', optional (rec_cleanup_key r)), (''jobs_started'', PInt (rec_jobs_started r)),
       (''orphan_registrations'', PInt 0)] @ map (\<lambda>f. (f, PBool True)) EVIDENCE_REMOVED)\<rparr>"

lemma ack_evidence_ok:
  assumes "al_jobs_started r \<in> {0, 1}"
  shows "evidence_ok (ack_args (record_of r lease)) r"
    and "\<exists>b. canonicalize_jcs (ta_evidence (ack_args (record_of r lease))) = Inr b"
proof -
  have get: "rec_allocation_id (record_of r lease) = al_allocation_id r" "rec_cleanup_key (record_of r lease) = al_cleanup_key r"
    "rec_jobs_started (record_of r lease) = al_jobs_started r"
    by (simp_all add: record_of_def split: prod.splits)
  show "evidence_ok (ack_args (record_of r lease)) r"
    unfolding evidence_ok_def ack_args_def get EVIDENCE_REMOVED_def EVIDENCE_FIELDS_def
    by (auto simp: keys_exact_iff pget_def)
  have "jcs_safe (optional (al_cleanup_key r))" by (cases "al_cleanup_key r") simp_all
  then show "\<exists>b. canonicalize_jcs (ta_evidence (ack_args (record_of r lease))) = Inr b"
    using assms unfolding canonicalize_jcs_def ack_args_def get EVIDENCE_REMOVED_def
    by (auto simp: MAX_SAFE_INTEGER_def)
qed

lemma transition_known:
  assumes "select_row i (lg_rows L) = Some r" and "lease_times fromiso r = Inr lease"
    and "next_row H action args lease r = Inr n" and "action \<in> set ALLOWED_ACTIONS" and "action \<noteq> ''admit-job''"
  shows "transition H fromiso i action args L =
    (Inr (record_of n lease), L\<lparr>lg_rows := update_key al_allocation_id (set_lifecycle n) i (lg_rows L)\<rparr>)"
  using assms by (simp add: transition_def transition_body_def commit_def)

lemma recover_then_acknowledge:
  assumes inv: "ledger_inv L" and p: "phase i L = Some s" "s \<in> {''reserved'', ''issued'', ''running''}"
    and get: "ledger_get fromiso L i = Inr known"
  obtains r L1 r' L2 where "transition H fromiso i ''recover'' no_args L = (Inr r, L1)"
    "transition H fromiso i ''ack-recovery-cleanup'' (ack_args r) L1 = (Inr r', L2)" "phase i L2 = Some ''cleaned''"
    "rec_jobs_started r' = rec_jobs_started known"
proof -
  obtain row lease where row: "select_row i (lg_rows L) = Some row" "al_state row = s" "lease_times fromiso row = Inr lease"
    and known: "known = record_of row lease"
    using p(1) get by (auto simp: phase_def ledger_get_def bindE_eq_Inr)
  have ok: "row_ok row" "al_allocation_id row = i"
    using selected_ok [OF _ row(1)] inv by (simp_all add: ledger_inv_def)
  then have jobs: "al_jobs_started row \<in> {0, 1}" by (simp add: row_ok_def)
  obtain k where key: "cleanup_key_of H (al_allocation_id row) (al_payload_digest row) = Inr k"
    by (simp add: cleanup_key_of_def canonicalize_jcs_def)
  define n where "n = row\<lparr>al_state := ''recovery_required'', al_outcome := Some ''reboot'', al_recovery_required := True,
      al_cleanup_pending := True, al_cleanup_key := Some k\<rparr>"
  have next1: "next_row H ''recover'' no_args lease row = Inr n"
    using p(2) row(2) jobs key by (auto simp: next_row_def recover_job_def n_def)
  define L1 where "L1 = L\<lparr>lg_rows := update_key al_allocation_id (set_lifecycle n) i (lg_rows L)\<rparr>"
  have t1: "transition H fromiso i ''recover'' no_args L = (Inr (record_of n lease), L1)"
    unfolding L1_def using transition_known [OF row(1,3) next1] by (simp add: ALLOWED_ACTIONS_def)
  have "set_lifecycle n row = n" by (simp add: n_def set_lifecycle_def)
  then have row1: "select_row i (lg_rows L1) = Some n" using row(1) by (simp add: L1_def lifecycle_upd.select_update)
  have "lease_times fromiso n = lease_times fromiso row" by (simp add: n_def lease_times_def)
  then have lease1: "lease_times fromiso n = Inr lease" using row(3) by simp
  have jobs1: "al_jobs_started n \<in> {0, 1}" using jobs by (simp add: n_def)
  obtain b where b: "canonicalize_jcs (ta_evidence (ack_args (record_of n lease))) = Inr b"
    using ack_evidence_ok(2) [OF jobs1] by blast
  obtain n' where next2: "next_row H ''ack-recovery-cleanup'' (ack_args (record_of n lease)) lease n = Inr n'"
    and n': "al_state n' = ''cleaned''" "al_jobs_started n' = al_jobs_started row"
    using ack_evidence_ok(1) [OF jobs1, of lease] b by (simp add: next_row_def ack_cleanup_def n_def)
  from transition_known [OF row1 lease1 next2] have
    t2: "transition H fromiso i ''ack-recovery-cleanup'' (ack_args (record_of n lease)) L1 =
      (Inr (record_of n' lease), L1\<lparr>lg_rows := update_key al_allocation_id (set_lifecycle n') i (lg_rows L1)\<rparr>)"
    by (simp add: ALLOWED_ACTIONS_def)
  have "rec_jobs_started (record_of n' lease) = rec_jobs_started known"
    using n'(2) known by (simp add: record_of_def split: prod.splits)
  with that [OF t1 t2] phase_update [OF row1] n'(1) show ?thesis by simp
qed

section \<open>Finalization\<close>

text \<open>The fields of an allocation that its reservation fixes, by version.\<close>

definition FIXED_FIELDS :: "pyval \<Rightarrow> string list" where
  "FIXED_FIELDS version =
     [''allocation_id'', ''repository_id'', ''repository'', ''head_sha'', ''workflow_ref'', ''job_name'', ''authority_kind'',
      ''runner_group'', ''scale_set_name'', ''labels'', ''image_fingerprint'', ''nonce'', ''max_jobs'', ''ephemeral'']
     @ (if py_eq version (PInt 1) then [''issued_at'', ''expires_at'']
        else [''pr_number'', ''base_sha'', ''approval_issued_at'', ''approval_expires_at''])"

lemma py_eq_dict_member: "py_eq_dict d e \<Longrightarrow> (k, v) \<in> set d \<Longrightarrow> \<exists>w. map_of e k = Some w \<and> py_eq v w"
  by (induction d) (auto split: option.splits)

lemma pset_other_mem: "(k, v) \<in> set d \<Longrightarrow> k \<noteq> j \<Longrightarrow> (k, v) \<in> set (pset j w d)"
  by (induction d) auto

lemma projection_keeps:
  assumes "py_eq (PDict (reservation_projection payload)) (PDict d)" and "f \<in> fst ` set payload"
    and "f \<noteq> ''allocation_reservation_version''" and "f \<notin> set PROJECTION_DYNAMIC"
    and "f \<noteq> ''issued_at'' \<or> \<not> py_eq (pget payload ''runner_allocation_version'') (PInt 2)"
  shows "py_eq (pget payload f) (pget d f)"
proof -
  obtain v where v: "map_of payload f = Some v"
    using assms(2) by (cases "map_of payload f") (auto simp: map_of_eq_None_iff)
  then have "(f, v) \<in> set (reservation_projection payload)"
    using map_of_SomeD [OF v] assms(3-5)
    by (auto simp: reservation_projection_def Let_def without_def intro!: pset_other_mem)
  with py_eq_dict_member [of "reservation_projection payload" d f v] assms(1) v show ?thesis
    by (auto simp: pget_def)
qed

lemma projection_version:
  assumes "py_eq (PDict (reservation_projection payload)) (PDict d)"
  shows "py_eq (pget payload ''runner_allocation_version'') (pget d ''allocation_reservation_version'')"
proof -
  have "(''allocation_reservation_version'', pget payload ''runner_allocation_version'') \<in> set (reservation_projection payload)"
    by (simp add: reservation_projection_def Let_def map_of_SomeD)
  then obtain w where w: "map_of d ''allocation_reservation_version'' = Some w" "py_eq (pget payload ''runner_allocation_version'') w"
    using py_eq_dict_member [of "reservation_projection payload" d] assms by fastforce
  from w(1) have "pget d ''allocation_reservation_version'' = w" by (simp add: pget_def)
  with w(2) show ?thesis by simp
qed

lemma verify_allocationD:
  assumes "verify_allocation H fromiso prims v key pinned now = Inr payload"
  shows "validate_allocation_payload H fromiso (PDict payload) now = Inr ()" and "spki_fingerprint H key = pinned"
    and "\<exists>envelope. v = PDict envelope \<and> verify_detached prims (PDict payload) (pget envelope ''signature'') key
        (ALLOCATION_DOMAINS (pget payload ''runner_allocation_version'')) = Inr ()"
  using assms by (auto simp: verify_allocation_def bindE_eq_Inr split: pyval.splits)

lemma fixed_fields_stand:
  "list_all (\<lambda>f. f \<in> set PAYLOAD_V1_FIELDS \<and> f \<noteq> ''allocation_reservation_version'' \<and> f \<notin> set PROJECTION_DYNAMIC)
     (FIXED_FIELDS (PInt 1))"
  "list_all (\<lambda>f. f \<in> set PAYLOAD_V2_FIELDS \<and> f \<noteq> ''allocation_reservation_version'' \<and> f \<notin> set PROJECTION_DYNAMIC
     \<and> f \<noteq> ''issued_at'') (FIXED_FIELDS (PInt 2))"
  by code_simp+

lemma fixed_fields_kept:
  assumes "validate_allocation_payload H fromiso (PDict payload) now = Inr ()"
    and "f \<in> set (FIXED_FIELDS (pget payload ''runner_allocation_version''))"
  shows "f \<in> fst ` set payload" and "f \<noteq> ''allocation_reservation_version''" and "f \<notin> set PROJECTION_DYNAMIC"
    and "f \<noteq> ''issued_at'' \<or> \<not> py_eq (pget payload ''runner_allocation_version'') (PInt 2)"
proof -
  let ?v = "pget payload ''runner_allocation_version''"
  have one: "\<not> (py_eq v (PInt 1) \<and> py_eq v (PInt 2))" for v by (cases v) auto
  have v: "py_eq ?v (PInt 1) \<and> keys_exact payload PAYLOAD_V1_FIELDS \<or> py_eq ?v (PInt 2) \<and> keys_exact payload PAYLOAD_V2_FIELDS"
    using assms(1) by (auto simp: validate_allocation_payload_def bindE_eq_Inr check_fields_def simp del: py_eq.simps split: if_splits)
  have same: "FIXED_FIELDS ?v = FIXED_FIELDS (PInt 1) \<or> \<not> py_eq ?v (PInt 1)"
    "FIXED_FIELDS ?v = FIXED_FIELDS (PInt 2) \<or> py_eq ?v (PInt 1)"
    by (simp_all add: FIXED_FIELDS_def)
  have "f \<in> fst ` set payload \<and> f \<noteq> ''allocation_reservation_version'' \<and> f \<notin> set PROJECTION_DYNAMIC
    \<and> (f \<noteq> ''issued_at'' \<or> \<not> py_eq ?v (PInt 2))"
    using v
  proof
    assume v: "py_eq ?v (PInt 1) \<and> keys_exact payload PAYLOAD_V1_FIELDS"
    with assms(2) same(1) have "f \<in> set (FIXED_FIELDS (PInt 1))" by metis
    with fixed_fields_stand(1) v one [of ?v] show ?thesis unfolding list_all_iff keys_exact_iff by blast
  next
    assume v: "py_eq ?v (PInt 2) \<and> keys_exact payload PAYLOAD_V2_FIELDS"
    with assms(2) same(2) one [of ?v] have "f \<in> set (FIXED_FIELDS (PInt 2))" by metis
    with fixed_fields_stand(2) v show ?thesis unfolding list_all_iff keys_exact_iff by blast
  qed
  then show "f \<in> fst ` set payload" "f \<noteq> ''allocation_reservation_version''" "f \<notin> set PROJECTION_DYNAMIC"
    "f \<noteq> ''issued_at'' \<or> \<not> py_eq ?v (PInt 2)" by blast+
qed

lemma projection_binds:
  assumes "py_eq (PDict (reservation_projection payload)) (PDict d)"
    and "validate_allocation_payload H fromiso (PDict payload) now = Inr ()"
  shows "list_all (\<lambda>f. py_eq (pget payload f) (pget d f)) (FIXED_FIELDS (pget payload ''runner_allocation_version''))"
  using projection_keeps [OF assms(1) fixed_fields_kept [OF assms(2)]] unfolding list_all_iff by blast

section \<open>Migration\<close>

text \<open>A schema 2 row: well formed, or claimed and not yet known to have executed.\<close>

definition legacy_row_ok :: "alloc_row \<Rightarrow> bool" where
  "legacy_row_ok r = (row_ok r \<or> (al_state r = ''claimed'' \<and> al_jobs_started r \<in> {0, 1} \<and> \<not> al_cleanup_complete r
     \<and> (case (al_payload r, al_reservation r) of
          (Some p, Some d) \<Rightarrow> py_eq (PDict (reservation_projection p)) (PDict d) | _ \<Rightarrow> True)))"

lemma fence_claimed_ok:
  assumes "legacy_row_ok r"
  shows "\<exists>r'. fence_claimed H r = Inr r' \<and> row_ok r' \<and> ident r' = ident r \<and> al_jobs_started r' = al_jobs_started r
    \<and> (al_state r = ''claimed'' \<longrightarrow> al_state r' = ''recovery_required'') \<and> (al_state r \<noteq> ''claimed'' \<longrightarrow> r' = r)"
proof (cases "al_state r = ''claimed''")
  case True
  obtain k where "cleanup_key_of H (al_allocation_id r) (al_payload_digest r) = Inr k"
    by (simp add: cleanup_key_of_def canonicalize_jcs_def)
  moreover have "\<not> row_ok r" using True by (simp add: row_ok_def)
  ultimately show ?thesis
    using assms True
    by (cases "al_payload r"; cases "al_reservation r")
      (simp_all add: legacy_row_ok_def fence_claimed_def row_ok_def ident_def outcome_reboot)
qed (use assms in \<open>auto simp: legacy_row_ok_def fence_claimed_def\<close>)

lemma fence_all_ok:
  "list_all legacy_row_ok rows \<Longrightarrow> \<exists>rows'. fence_all H rows = Inr rows' \<and> list_all row_ok rows' \<and> map ident rows' = map ident rows
     \<and> map al_jobs_started rows' = map al_jobs_started rows"
proof (induction rows)
  case (Cons r rows)
  then obtain rows' where "fence_all H rows = Inr rows'" "list_all row_ok rows'" "map ident rows' = map ident rows"
    "map al_jobs_started rows' = map al_jobs_started rows" by auto
  moreover obtain r' where "fence_claimed H r = Inr r'" "row_ok r'" "ident r' = ident r" "al_jobs_started r' = al_jobs_started r"
    using fence_claimed_ok [of r H] Cons.prems by auto
  ultimately show ?case by simp
qed simp

lemma map_ident: "map al_allocation_id rows = map fst (map ident rows)" "map al_binding_digest rows = map snd (map ident rows)"
  by (simp_all add: ident_def comp_def)

section \<open>A sample allocation\<close>

definition sample_scale_label :: string where
  "sample_scale_label = ''wsl-jit-'' @ replicate 32 (CHR ''a'')"

definition sample_bound :: "string \<Rightarrow> pydict" where
  "sample_bound i =
     [(''allocation_id'', PStr i), (''repository_id'', PStr ''9''), (''repository'', PStr ''o/r''),
      (''head_sha'', PStr (replicate 40 (CHR ''a''))), (''workflow_ref'', PStr ''o/r/.github/workflows/ci.yml@refs/heads/main''),
      (''job_name'', PStr ''ci''), (''authority_kind'', PStr ''personal-repository''), (''runner_group'', PNone),
      (''scale_set_name'', PStr sample_scale_label), (''labels'', PList [PStr sample_scale_label]),
      (''image_fingerprint'', PStr sample_hash), (''nonce'', PStr (b64_encode (replicate 32 (CHR ''0'')))),
      (''max_jobs'', PInt 1), (''ephemeral'', PBool True)]"

definition sample_offer :: "string \<Rightarrow> pydict" where
  "sample_offer i = (''allocation_reservation_version'', PInt 1) # sample_bound i
     @ [(''issued_at'', PStr ''1000000Z''), (''expires_at'', PStr ''9000000Z'')]"

definition sample_allocation :: "string \<Rightarrow> pydict" where
  "sample_allocation i = sample_bound i @ [(''issued_at'', PStr ''1000000Z''), (''expires_at'', PStr ''9000000Z''),
     (''runner_allocation_version'', PInt 1), (''run_id'', PStr ''1''), (''run_attempt'', PInt 1), (''job_id'', PStr ''1''),
     (''dispatch_sha'', PStr (replicate 40 (CHR ''a''))), (''tested_sha'', PStr (replicate 40 (CHR ''a'')))]"

definition sample_envelope :: "string \<Rightarrow> pyval" where
  "sample_envelope i = PDict [(''payload'', PDict (sample_allocation i)), (''signer_fingerprint'', PStr sample_hash),
     (''signature'', PStr sample_signature)]"

abbreviation id_a :: string where "id_a \<equiv> ''01234567-89ab-7def-8123-456789abcdef''"
abbreviation id_b :: string where "id_b \<equiv> ''11234567-89ab-7def-8123-456789abcdef''"

lemma sample_ids: "canonical_uuid id_a" "canonical_uuid id_b"
  by code_simp+

lemma sample_alloc_texts:
  "canonical_positive ''1''" "canonical_positive ''9''" "workflow_ref_text ''o/r/.github/workflows/ci.yml@refs/heads/main''"
  "strip ''ci'' = ''ci''" "job_name_text ''ci''" "transient_label_text sample_scale_label" "label_text sample_scale_label"
  "sample_time ''1000000+00:00'' = Some (Aware 1000000)" "sample_time ''9000000+00:00'' = Some (Aware 9000000)"
  "nonce_text (b64_encode (replicate 32 (CHR ''0'')))"
proof -
  show "nonce_text (b64_encode (replicate 32 (CHR ''0'')))"
    using sample_nonce(1) sample_nonce(2) [of "replicate 32 (CHR ''0'')"] by (simp add: nonce_text_def is_b64_def [abs_def] b64_encode_length)
  show "sample_time ''1000000+00:00'' = Some (Aware 1000000)" "sample_time ''9000000+00:00'' = Some (Aware 9000000)"
    by (simp_all add: sample_time_def is_digit_def code_def)
qed code_simp+

lemma sample_synthetic: "synthetic_payload (sample_offer i) = sample_allocation i"
  by (simp add: synthetic_payload_def sample_offer_def sample_allocation_def sample_bound_def without_def pmerge_def pget_def)

lemma sample_allocation_get:
  "pget (sample_allocation i) ''allocation_id'' = PStr i" "pget (sample_allocation i) ''repository_id'' = PStr ''9''"
  "pget (sample_allocation i) ''repository'' = PStr ''o/r''" "pget (sample_allocation i) ''head_sha'' = PStr (replicate 40 (CHR ''a''))"
  "pget (sample_allocation i) ''workflow_ref'' = PStr ''o/r/.github/workflows/ci.yml@refs/heads/main''"
  "pget (sample_allocation i) ''job_name'' = PStr ''ci''" "pget (sample_allocation i) ''authority_kind'' = PStr ''personal-repository''"
  "pget (sample_allocation i) ''runner_group'' = PNone" "pget (sample_allocation i) ''scale_set_name'' = PStr sample_scale_label"
  "pget (sample_allocation i) ''labels'' = PList [PStr sample_scale_label]" "pget (sample_allocation i) ''image_fingerprint'' = PStr sample_hash"
  "pget (sample_allocation i) ''nonce'' = PStr (b64_encode (replicate 32 (CHR ''0'')))"
  "pget (sample_allocation i) ''max_jobs'' = PInt 1" "pget (sample_allocation i) ''ephemeral'' = PBool True"
  "pget (sample_allocation i) ''issued_at'' = PStr ''1000000Z''" "pget (sample_allocation i) ''expires_at'' = PStr ''9000000Z''"
  "pget (sample_allocation i) ''runner_allocation_version'' = PInt 1" "pget (sample_allocation i) ''run_id'' = PStr ''1''"
  "pget (sample_allocation i) ''run_attempt'' = PInt 1" "pget (sample_allocation i) ''job_id'' = PStr ''1''"
  "pget (sample_allocation i) ''dispatch_sha'' = PStr (replicate 40 (CHR ''a''))"
  "pget (sample_allocation i) ''tested_sha'' = PStr (replicate 40 (CHR ''a''))"
  by (simp_all add: sample_allocation_def sample_bound_def pget_def)

lemma sample_allocation_safe: "jcs_safe (PDict (sample_allocation i))" "jcs_safe (PDict (sample_offer i))"
  by (simp_all add: sample_allocation_def sample_offer_def sample_bound_def MAX_SAFE_INTEGER_def)

lemma sample_allocation_fields: "keys_exact (sample_allocation i) PAYLOAD_V1_FIELDS"
  "keys_exact (sample_offer i) LEGACY_RESERVATION_FIELDS"
  by (simp_all add: dict_eval sample_allocation_def sample_offer_def sample_bound_def PAYLOAD_V1_FIELDS_def
      LEGACY_RESERVATION_FIELDS_def)

lemma sample_scale_set:
  "canonical_uuid i \<Longrightarrow> allocation_scale_set_name (\<lambda>_. sample_hash) (sample_allocation i) = Inr sample_scale_label"
  by (simp add: allocation_scale_set_name_def sample_allocation_get sample_alloc_texts canonicalize_jcs_def sample_scale_label_def
      sample_hash_def del: b64_encode.simps)

lemma sample_allocation_valid:
  assumes "canonical_uuid i"
  shows "validate_allocation_payload (\<lambda>_. sample_hash) sample_time (PDict (sample_allocation i)) (Aware 2000000) = Inr ()"
proof -
  have "check_fields (PInt 1) (sample_allocation i) PAYLOAD_V1_FIELDS PAYLOAD_V2_FIELDS msg = Inr ()" for msg
    by (simp add: check_fields_def sample_allocation_fields)
  moreover have "check_identity (sample_allocation i) = Inr ()"
    using assms by (simp add: check_identity_def sample_allocation_get sample_alloc_texts attested_texts del: replicate.simps)
  moreover have "check_run (sample_allocation i) = Inr ()"
    by (simp add: check_run_def sample_allocation_get sample_alloc_texts attested_texts del: replicate.simps)
  moreover have "check_authority_kind (sample_allocation i) = Inr ()"
    by (simp add: check_authority_kind_def sample_allocation_get)
  moreover have "check_labels (\<lambda>_. sample_hash) (sample_allocation i) = Inr ()"
    by (simp add: check_labels_def sample_scale_set [OF assms] sample_allocation_get sample_alloc_texts)
  moreover have "check_limits (sample_allocation i) = Inr ()"
    by (simp add: check_limits_def sample_allocation_get sample_alloc_texts del: b64_encode.simps)
  moreover have "check_window sample_time (sample_allocation i) (Aware 2000000) = Inr ()"
    by (simp add: check_window_def sample_allocation_get sample_alloc_texts check_lifetime_def MAX_APPROVAL_TTL_def)
  ultimately show ?thesis
    using sample_allocation_safe(1) [of i]
    by (simp add: validate_allocation_payload_def sample_allocation_get canonicalize_jcs_def del: jcs_safe.simps)
qed

lemma sample_offer_valid:
  assumes "canonical_uuid i"
  shows "validate_allocation_reservation (\<lambda>_. sample_hash) sample_time (PDict (sample_offer i)) (Aware 2000000) = Inr ()"
proof -
  have "pget (sample_offer i) ''allocation_reservation_version'' = PInt 1"
    by (simp add: sample_offer_def pget_def)
  then show ?thesis
    using sample_allocation_valid [OF assms] sample_allocation_fields(2) [of i]
    by (simp add: validate_allocation_reservation_def check_fields_def sample_synthetic)
qed

lemma sample_envelope_verifies:
  assumes "canonical_uuid i"
  shows "verify_allocation (\<lambda>_. sample_hash) sample_time sample_prims (sample_envelope i) (Ed25519Key ''der'') sample_hash (Aware 2000000)
    = Inr (sample_allocation i)"
proof -
  have "ALLOCATION_DOMAINS (PInt 1) \<noteq> [] \<and> \<not> List.member (ALLOCATION_DOMAINS (PInt 1)) (CHR 0x00)
      \<and> list_all (\<lambda>c. code c < 128) (ALLOCATION_DOMAINS (PInt 1))" by code_simp
  then have "verify_detached sample_prims (PDict (sample_allocation i)) (PStr sample_signature) (Ed25519Key ''der'')
      (ALLOCATION_DOMAINS (PInt 1)) = Inr ()"
    using sample_allocation_safe(1) [of i]
    by (simp add: verify_detached_def sample_signature_decodes domain_separated_payload_def canonicalize_jcs_def sample_prims_def
        del: jcs_safe.simps)
  then show ?thesis
    using sample_allocation_valid [OF assms]
    by (simp add: verify_allocation_def sample_envelope_def dict_eval spki_fingerprint_def
        sample_allocation_get(17) [unfolded pget_def])
qed

lemma sample_digests:
  "ledger_digests (\<lambda>_. sample_hash) (sample_offer i) = Inr (sample_hash, sample_hash)"
  "ledger_digests (\<lambda>_. sample_hash) (sample_allocation i) = Inr (sample_hash, sample_hash)"
proof -
  have "pget (sample_offer i) ''nonce'' = PStr (b64_encode (replicate 32 (CHR ''0'')))"
    by (simp add: sample_offer_def sample_bound_def pget_def)
  then show "ledger_digests (\<lambda>_. sample_hash) (sample_offer i) = Inr (sample_hash, sample_hash)"
    using sample_allocation_safe(2) [of i] by (simp add: ledger_digests_def canonicalize_jcs_def)
qed (use sample_allocation_safe(1) [of i] in \<open>simp add: ledger_digests_def canonicalize_jcs_def sample_allocation_get\<close>)

definition sample_ledger :: ledger where
  "sample_ledger = snd (reserve (\<lambda>_. sample_hash) sample_time (sample_offer id_a) (Aware 2000000) empty_ledger)"

lemma sample_ledger_row:
  "reserve (\<lambda>_. sample_hash) sample_time (sample_offer id_a) (Aware 2000000) empty_ledger = (Inr ''reserved'', sample_ledger)"
  "lg_rows sample_ledger = [(fresh_row id_a sample_hash sample_hash ''reserved'')\<lparr>al_issued_at := PStr ''1000000Z'',
     al_expires_at := PStr ''9000000Z'', al_scale_set_name := PStr sample_scale_label, al_reservation := Some (sample_offer id_a)\<rparr>]"
proof -
  have get: "pget (sample_offer id_a) ''allocation_id'' = PStr id_a" "pget (sample_offer id_a) ''scale_set_name'' = PStr sample_scale_label"
    "pget_or (sample_offer id_a) ''approval_issued_at'' (pget (sample_offer id_a) ''issued_at'') = PStr ''1000000Z''"
    "pget_or (sample_offer id_a) ''approval_expires_at'' (pget (sample_offer id_a) ''expires_at'') = PStr ''9000000Z''"
    by (simp_all add: sample_offer_def sample_bound_def pget_def pget_or_def)
  have "reserve (\<lambda>_. sample_hash) sample_time (sample_offer id_a) (Aware 2000000) empty_ledger =
    (Inr ''reserved'', empty_ledger\<lparr>lg_rows := [(fresh_row id_a sample_hash sample_hash ''reserved'')\<lparr>al_issued_at := PStr ''1000000Z'',
     al_expires_at := PStr ''9000000Z'', al_scale_set_name := PStr sample_scale_label, al_reservation := Some (sample_offer id_a)\<rparr>]\<rparr>)"
    by (simp add: reserve_def sample_offer_valid [OF sample_ids(1)] reserve_body_def sample_digests get commit_def empty_ledger_def)
  then show "reserve (\<lambda>_. sample_hash) sample_time (sample_offer id_a) (Aware 2000000) empty_ledger = (Inr ''reserved'', sample_ledger)"
    "lg_rows sample_ledger = [(fresh_row id_a sample_hash sample_hash ''reserved'')\<lparr>al_issued_at := PStr ''1000000Z'',
     al_expires_at := PStr ''9000000Z'', al_scale_set_name := PStr sample_scale_label, al_reservation := Some (sample_offer id_a)\<rparr>]"
    by (simp_all add: sample_ledger_def)
qed

section \<open>Properties\<close>

text \<open>C11. The ledger refines the allocation lifecycle: after any run of ledger calls, one more call takes each allocation
  along at most one edge of the abstract state machine, whatever the call is and whether it raises or not.\<close>

theorem ledger_refines_lifecycle:
  "lifecycle (phase i (fold (ledger_step H fromiso) cs empty_ledger))
     (phase i (ledger_step H fromiso c (fold (ledger_step H fromiso) cs empty_ledger)))"
  by (rule step_lifecycle [OF lgm.inv_reachable])

text \<open>C12. In every reachable ledger allocation ids and nonce digests are unique, an allocation has started at most one job
  and exactly one while it runs, completion and recovery flags agree with its state, an issued allocation has
  its signed payload, which projects to its reservation, and a logged success was executed.\<close>

theorem ledger_always_consistent: "ledger_inv (fold (ledger_step H fromiso) cs empty_ledger)"
  by (rule lgm.inv_reachable)

text \<open>C13. However the ledger is driven, at most one job admission ever succeeds for an allocation.\<close>

theorem one_job_per_allocation: "admissions H fromiso i cs empty_ledger \<le> 1"
  using admissions_bound [OF lgm.inv_init, of H fromiso i cs] by (simp split: if_splits)

text \<open>A nonce is single use across the broker: once an allocation was reserved, reserving or admitting a different
  allocation with the same nonce raises in every later ledger and changes nothing.\<close>

theorem nonce_never_reused:
  assumes "L = fold (ledger_step H fromiso) cs empty_ledger" and "reserve H fromiso d now L = (Inr out, L1)"
    and "L2 = fold (ledger_step H fromiso) later L1"
    and "pget d' ''nonce'' = pget d ''nonce''" and "fmt (pget d' ''allocation_id'') \<noteq> fmt (pget d ''allocation_id'')"
  shows "(\<exists>e. reserve H fromiso d' now' L2 = (Inl e, L2))
    \<and> (\<forall>envelope key pinned prims. verify_allocation H fromiso prims envelope key pinned now' = Inr d'
         \<longrightarrow> (\<exists>e. admit H fromiso prims envelope key pinned now' L2 = (Inl e, L2)))"
proof -
  have "ledger_inv (ledger_step H fromiso (CReserve d now) L)"
    unfolding assms(1) by (rule step_inv [OF lgm.inv_reachable])
  then have L1: "ledger_inv L1" using assms(2) by simp
  obtain b dig where b: "ledger_digests H d = Inr (b, dig)" "holds_binding (fmt (pget d ''allocation_id''), b) L1"
    using reserve_holds [OF assms(2)] by blast
  have "rows_inv (lg_rows L2)" "holds_binding (fmt (pget d ''allocation_id''), b) L2"
    using lgm.inv_run [OF L1] lgm.fact_run [OF L1 b(2)] by (simp_all add: assms(3) ledger_inv_def)
  then obtain e e' where "reserve_body H d' (lg_rows L2) = Inl e" "admit_body H d' (lg_rows L2) = Inl e'"
    using binding_taken [OF _ _ b(1) assms(4,5)] unfolding holds_binding_ident by metis
  then show ?thesis
    by (cases "validate_allocation_reservation H fromiso (PDict d') now'") (simp_all add: reserve_def admit_def commit_def)
qed

theorem nonce_never_reused_witness:
  "\<exists>e. reserve (\<lambda>_. sample_hash) sample_time (sample_offer id_b) (Aware 2000000) sample_ledger = (Inl e, sample_ledger)"
  using nonce_never_reused [where L = empty_ledger and cs = "[]" and later = "[]" and ?L2.0 = sample_ledger
      and d' = "sample_offer id_b" and now' = "Aware 2000000", OF _ sample_ledger_row(1)]
  by (simp add: sample_offer_def sample_bound_def pget_def)

text \<open>C14. A finalization that issues an allocation does so for a payload signed by the pinned key whose allocation is
  still only reserved, in the version of its reservation, and every field the reservation fixed is the signed one: target,
  workflow, label, image, nonce and the single job in both versions, with the two times of version 1 and with
  the pull request, its base and the two times of the approval of version 2. The signed payload is what the ledger
  holds afterwards.\<close>

theorem issued_as_reserved_and_signed:
  assumes "finalize H fromiso prims envelope key pinned now L = (Inr ''issued'', L')"
  shows "\<exists>payload d. verify_allocation H fromiso prims envelope key pinned now = Inr payload
    \<and> phase (fmt (pget payload ''allocation_id'')) L = Some ''reserved''
    \<and> ledger_reservation L (fmt (pget payload ''allocation_id'')) = Inr d
    \<and> py_eq (pget payload ''runner_allocation_version'') (pget d ''allocation_reservation_version'')
    \<and> list_all (\<lambda>f. py_eq (pget payload f) (pget d f)) (FIXED_FIELDS (pget payload ''runner_allocation_version''))
    \<and> phase (fmt (pget payload ''allocation_id'')) L' = Some ''issued''
    \<and> ledger_payload L' (fmt (pget payload ''allocation_id'')) = Inr payload"
proof -
  obtain payload rows' where v: "verify_allocation H fromiso prims envelope key pinned now = Inr payload"
    and body: "finalize_body H payload (lg_rows L) = Inr (''issued'', rows')" and L': "L' = L\<lparr>lg_rows := rows'\<rparr>"
    using assms by (auto simp: finalize_def commit_def bindE_eq_Inr split: sum.splits prod.splits)
  from body show ?thesis
  proof (cases rule: finalize_body_cases)
    case (2 r body)
    then obtain d where d: "al_reservation r = Some d" "py_eq (PDict (reservation_projection payload)) (PDict d)" by blast
    note binds = projection_version [OF d(2)] projection_binds [OF d(2) verify_allocationD(1) [OF v]]
    with v 2 d(1) binds show ?thesis
      by (auto simp: L' phase_def ledger_reservation_def ledger_payload_def finalized_upd.select_update set_finalized_def
          simp del: py_eq.simps)
  qed simp
qed

theorem issued_as_reserved_and_signed_witness:
  "\<exists>L'. finalize (\<lambda>_. sample_hash) sample_time sample_prims (sample_envelope id_a) (Ed25519Key ''der'') sample_hash (Aware 2000000)
      sample_ledger = (Inr ''issued'', L')
    \<and> (\<exists>payload. ledger_payload L' (fmt (pget payload ''allocation_id'')) = Inr payload)"
proof -
  have projection: "py_eq (PDict (reservation_projection (sample_allocation id_a))) (PDict (sample_offer id_a))"
    by (simp add: reservation_projection_def sample_allocation_def sample_offer_def sample_bound_def PROJECTION_DYNAMIC_def
        without_def pget_def Let_def)
  have "finalize_body (\<lambda>_. sample_hash) (sample_allocation id_a) (lg_rows sample_ledger) =
      Inr (''issued'', update_key al_allocation_id (set_finalized (sample_allocation id_a) sample_hash) id_a (lg_rows sample_ledger))"
    using projection sample_allocation_safe(1) [of id_a]
    by (simp add: finalize_body_def Let_def sample_allocation_get canonicalize_jcs_def sample_ledger_row(2) select_key_Cons fresh_row_def
        del: py_eq.simps jcs_safe.simps)
  then obtain L' where "finalize (\<lambda>_. sample_hash) sample_time sample_prims (sample_envelope id_a) (Ed25519Key ''der'') sample_hash
      (Aware 2000000) sample_ledger = (Inr ''issued'', L')"
    by (simp add: finalize_def sample_envelope_verifies [OF sample_ids(1)] commit_def)
  with issued_as_reserved_and_signed [OF this] show ?thesis by blast
qed

text \<open>A reserved, issued or running allocation whose lease can be read is never stuck: recovery succeeds, and
  acknowledging the removal of everything it owned cleans it, without starting another job.\<close>

theorem recovery_reaches_cleaned:
  assumes "L = fold (ledger_step H fromiso) cs empty_ledger" and "phase i L = Some s"
    and "s \<in> {''reserved'', ''issued'', ''running''}" and "ledger_get fromiso L i = Inr known"
  shows "\<exists>r L1 r' L2. transition H fromiso i ''recover'' no_args L = (Inr r, L1)
    \<and> transition H fromiso i ''ack-recovery-cleanup'' (ack_args r) L1 = (Inr r', L2)
    \<and> phase i L2 = Some ''cleaned'' \<and> rec_jobs_started r' = rec_jobs_started known"
proof -
  have "ledger_inv L" unfolding assms(1) by (rule lgm.inv_reachable)
  then show ?thesis
    by (rule recover_then_acknowledge [OF _ assms(2-4), of H]) (intro exI conjI, assumption+)
qed

theorem recovery_reaches_cleaned_witness:
  "\<exists>r L1 r' L2. transition (\<lambda>_. sample_hash) sample_time id_a ''recover'' no_args sample_ledger = (Inr r, L1)
    \<and> transition (\<lambda>_. sample_hash) sample_time id_a ''ack-recovery-cleanup'' (ack_args r) L1 = (Inr r', L2) \<and> phase id_a L2 = Some ''cleaned''"
proof -
  have reached: "sample_ledger = fold (ledger_step (\<lambda>_. sample_hash) sample_time) [CReserve (sample_offer id_a) (Aware 2000000)] empty_ledger"
    by (simp add: sample_ledger_def)
  have "phase id_a sample_ledger = Some ''reserved''"
    by (simp add: phase_def sample_ledger_row(2) select_key_Cons)
  moreover obtain known where "ledger_get sample_time sample_ledger id_a = Inr known"
    by (simp add: ledger_get_def sample_ledger_row(2) select_key_Cons lease_times_def fresh_row_def sample_alloc_texts)
  ultimately obtain r L1 r' L2 where "transition (\<lambda>_. sample_hash) sample_time id_a ''recover'' no_args sample_ledger = (Inr r, L1)"
    "transition (\<lambda>_. sample_hash) sample_time id_a ''ack-recovery-cleanup'' (ack_args r) L1 = (Inr r', L2)" "phase id_a L2 = Some ''cleaned''"
    using recovery_reaches_cleaned [OF reached, of id_a "''reserved''" known] by auto
  then show ?thesis by (intro exI conjI)
qed

text \<open>Opening a schema 2 ledger fences every claimed allocation into recovery, keeps identities and job counts, and
  yields a consistent current ledger.\<close>

theorem migration_fences_claimed:
  assumes "lg_version L < 3" and "list_all legacy_row_ok (lg_rows L)" and "1 \<le> retention" and "retention \<le> 365"
    and "distinct (map al_allocation_id (lg_rows L))" and "distinct (map al_binding_digest (lg_rows L))" and "lg_outcomes L = []"
  shows "\<exists>L'. ledger_open H retention now L = (Inr (), L') \<and> ledger_inv L'
    \<and> map al_allocation_id (lg_rows L') = map al_allocation_id (lg_rows L)
    \<and> map al_jobs_started (lg_rows L') = map al_jobs_started (lg_rows L)"
proof -
  obtain rows' where rows': "fence_all H (lg_rows L) = Inr rows'" "list_all row_ok rows'" "map ident rows' = map ident (lg_rows L)"
    "map al_jobs_started rows' = map al_jobs_started (lg_rows L)"
    using fence_all_ok [OF assms(2)] by blast
  then have "map al_allocation_id rows' = map al_allocation_id (lg_rows L)"
    "map al_binding_digest rows' = map al_binding_digest (lg_rows L)"
    by (simp_all only: map_ident)
  with rows' assms show ?thesis
    by (simp add: ledger_open_def LEDGER_SCHEMA_VERSION_def ledger_inv_def rows_inv_def prune_def)
qed

theorem migration_fences_claimed_witness:
  "\<exists>L'. ledger_open (\<lambda>_. sample_hash) 30 0
      (empty_ledger\<lparr>lg_version := 2, lg_rows := [(fresh_row id_a sample_hash sample_hash ''claimed'')]\<rparr>) = (Inr (), L') \<and> ledger_inv L'"
  using migration_fences_claimed [of "empty_ledger\<lparr>lg_version := 2, lg_rows := [(fresh_row id_a sample_hash sample_hash ''claimed'')]\<rparr>" 30]
  by (auto simp: empty_ledger_def fresh_row_def legacy_row_ok_def)

end
