(* ===== verification/Coordinator.thy ===== *)
theory Coordinator
  imports Github_Contracts Canonical_Json
begin

text \<open>
  \<open>coordinator.py\<close>: the command surface of the trusted workflow templates and the outbound local
  dispatch (reserve, dispatch, observe, sign, finalize, with recovery). The broker, GitHub, signer
  and progress adapters are arguments: each answers from the history of calls made so far, so that
  any sequence of answers and exceptions, also different answers to equal calls, is covered. The
  calls are recorded in order. \<open>json.loads\<close> is the argument \<open>loads\<close> (\<open>None\<close> is its
  \<open>JSONDecodeError\<close>).
\<close>

datatype coord_exn =
    CoordinatorUnavailable string
  | ReserveDefinitelyUnavailableBeforeEffect string
  | ReservePartialFailure string
  | CoordProtocolFailure gh_error
  | OtherException string

section \<open>Command surface\<close>

type_synonym environ = "(string \<times> string) list"

definition protocolE :: "gh_error + 'a \<Rightarrow> coord_exn + 'a" where
  "protocolE r = (case r of Inl e \<Rightarrow> Inl (CoordProtocolFailure e) | Inr x \<Rightarrow> Inr x)"

definition environment_json :: "(string \<Rightarrow> pyval option) \<Rightarrow> environ \<Rightarrow> string \<Rightarrow> string \<Rightarrow> string \<Rightarrow> coord_exn + pyval" where
  "environment_json loads env name absent malformed =
     (case map_of env name of
        None \<Rightarrow> Inl (CoordProtocolFailure (ProtocolFailure absent))
      | Some raw \<Rightarrow>
          if raw = [] then Inl (CoordProtocolFailure (ProtocolFailure absent))
          else (case loads raw of None \<Rightarrow> Inl (CoordProtocolFailure (ProtocolFailure malformed)) | Some v \<Rightarrow> Inr v))"

definition package_from_environment ::
  "(string \<Rightarrow> pydatetime option) \<Rightarrow> (string \<Rightarrow> pyval option) \<Rightarrow> environ \<Rightarrow> coord_exn + pydict" where
  "package_from_environment fromiso loads env =
     bindE (environment_json loads env ''CI_GATE_PROTOCOL_PACKAGE'' ''CI_GATE_PROTOCOL_PACKAGE is required''
       ''protocol package is not valid JSON'') (\<lambda>v. protocolE (protocol_package fromiso v))"

definition CURRENT_TUPLE_FIELDS :: "string list" where
  "CURRENT_TUPLE_FIELDS = [''repository_id'', ''repository'', ''pr_number'', ''head_sha'', ''base_sha'',
     ''tested_merge_sha'', ''generation'']"

definition assert_live_tuple :: "(string \<Rightarrow> pyval option) \<Rightarrow> pydict \<Rightarrow> environ \<Rightarrow> coord_exn + unit" where
  "assert_live_tuple loads package env =
     bindE (environment_json loads env ''CI_GATE_CURRENT_TUPLE'' ''authoritative CI_GATE_CURRENT_TUPLE is required''
       ''current GitHub tuple is not valid JSON'') (\<lambda>v.
     case v of
       PDict current \<Rightarrow>
         if keys_exact current CURRENT_TUPLE_FIELDS then protocolE (assert_current_tuple package current)
         else Inl (CoordProtocolFailure (ProtocolFailure ''current GitHub tuple fields are not exact''))
     | _ \<Rightarrow> Inl (CoordProtocolFailure (ProtocolFailure ''current GitHub tuple fields are not exact'')))"

text \<open>The lines appended to the file \<open>GITHUB_OUTPUT\<close> names; \<open>None\<close> when it is unset or empty.\<close>

definition output_line :: "string \<Rightarrow> string \<Rightarrow> string" where
  "output_line name v = name @ ''='' @ v @ [CHR 0x0A]"

definition write_outputs :: "pydict \<Rightarrow> environ \<Rightarrow> string option" where
  "write_outputs values env =
     (case map_of env ''GITHUB_OUTPUT'' of
        None \<Rightarrow> None
      | Some output \<Rightarrow> if output = [] then None else
          Some (output_line ''backend'' (fmt (pget values ''backend''))
            @ output_line ''tested_sha'' (fmt (pget values ''tested_sha''))
            @ output_line ''logical_key'' (fmt (pget values ''logical_key''))
            @ output_line ''generation'' (fmt (pget values ''generation''))
            @ output_line ''runner_label''
                (if py_truthy (pget values ''runner_label'') then fmt (pget values ''runner_label'') else [])))"

definition child :: "(string \<Rightarrow> pydatetime option) \<Rightarrow> (string \<Rightarrow> pyval option) \<Rightarrow> environ \<Rightarrow> string
    \<Rightarrow> coord_exn + string option" where
  "child fromiso loads env action =
     bindE (package_from_environment fromiso loads env) (\<lambda>package.
     if action = ''validate'' then
       bindE (assert_live_tuple loads package env) (\<lambda>_. Inr (write_outputs package env))
     else Inl (CoordinatorUnavailable ''child action requires the installed transactional control-plane adapter''))"

definition coordinate :: "environ \<Rightarrow> coord_exn" where
  "coordinate env =
     (if map_of env ''CI_GATE_COORDINATOR_ENABLED'' \<noteq> Some ''true''
      then CoordinatorUnavailable ''coordinator is disabled by default''
      else CoordinatorUnavailable ''hosted workflow cannot reach the local allocation broker'')"

definition coordinator_reconcile :: "environ \<Rightarrow> coord_exn" where
  "coordinator_reconcile env =
     (if map_of env ''CI_GATE_COORDINATOR_ENABLED'' \<noteq> Some ''true''
      then CoordinatorUnavailable ''reconciler is disabled by default''
      else CoordinatorUnavailable ''reconciliation requires the installed GitHub/GateStore adapter'')"

datatype command = Coordinate | Reconcile | Child (claim: bool) (mark_started: bool) (complete_hosted: bool)

text \<open>The exit status, and what the validated child appends to its output file.\<close>

definition coordinator_main :: "(string \<Rightarrow> pydatetime option) \<Rightarrow> (string \<Rightarrow> pyval option) \<Rightarrow> environ \<Rightarrow> command
    \<Rightarrow> coord_exn + int \<times> string option" where
  "coordinator_main fromiso loads env cmd =
     (let result = (case cmd of
          Coordinate \<Rightarrow> Inl (coordinate env)
        | Reconcile \<Rightarrow> Inl (coordinator_reconcile env)
        | Child c m h \<Rightarrow> child fromiso loads env
            (if c then ''claim'' else if m then ''mark-started'' else if h then ''complete-hosted'' else ''validate''))
      in case result of
           Inr out \<Rightarrow> Inr (0, out)
         | Inl (CoordProtocolFailure (GhTypeError m)) \<Rightarrow> Inl (CoordProtocolFailure (GhTypeError m))
         | Inl (OtherException m) \<Rightarrow> Inl (OtherException m)
         | Inl _ \<Rightarrow> Inr (2, None))"

section \<open>Hosted fallback\<close>

definition HOSTED_CLEARED :: "string list" where
  "HOSTED_CLEARED = ATTESTATION_FIELDS @ LOCAL_RESULT_FIELDS"

definition hosted_values :: "pydict \<Rightarrow> pydict" where
  "hosted_values package =
     pmerge (pmerge package
         [(''backend'', PStr ''github''), (''execution_trust_mode'', PStr ''github-hosted''),
          (''allocation_id'', PNone), (''allocation_nonce'', PNone), (''runner_label'', PNone)])
       (map (\<lambda>f. (f, PNone)) HOSTED_CLEARED)"

definition github_hosted_fallback :: "(string \<Rightarrow> pydatetime option) \<Rightarrow> pydict \<Rightarrow> gh_error + pydict" where
  "github_hosted_fallback fromiso package = protocol_package fromiso (PDict (hosted_values package))"

section \<open>Outbound dispatch\<close>

datatype event =
    EReserve pydict
  | ERecover pyval
  | EDispatch pydict
  | EObserve pyval pyval
  | ESign pydict
  | EFinalize pydict
  | PReserved pydict
  | PDispatching
  | PDispatched pyval
  | PObserved ObservedWorkflowJob
  | PWindow pyval pyval
  | PFinalizing
  | PFinalized pydict
  | PRecovered
  | PAmbiguous

record adapters =
  ad_reserve :: "event list \<Rightarrow> pydict \<Rightarrow> coord_exn + pyval"
  ad_recover :: "event list \<Rightarrow> pyval \<Rightarrow> coord_exn + pyval"
  ad_finalize :: "event list \<Rightarrow> pydict \<Rightarrow> coord_exn + pydict"
  ad_dispatch :: "event list \<Rightarrow> pydict \<Rightarrow> coord_exn + pyval"
  ad_observe :: "event list \<Rightarrow> pyval \<Rightarrow> pyval \<Rightarrow> coord_exn + ObservedWorkflowJob"
  ad_sign :: "event list \<Rightarrow> pydict \<Rightarrow> coord_exn + pydict"
  ad_progress :: "(event list \<Rightarrow> event \<Rightarrow> coord_exn + unit) option"
  ad_clock :: "event list \<Rightarrow> instant"

text \<open>
  The state of one call: the recorded events, the local \<open>dispatch_receipt_ambiguous\<close>, and
  \<open>resumed_run_id\<close>, which is unbound (\<open>None\<close>) until its assignment inside the \<open>try\<close>.
\<close>

record cstate =
  cs_events :: "event list"
  cs_ambiguous :: bool
  cs_resumed :: "pyval option"

type_synonym 'a cm = "cstate \<Rightarrow> (coord_exn + 'a) \<times> cstate"

definition liftC :: "coord_exn + 'a \<Rightarrow> 'a cm" where
  "liftC r s = (r, s)"

definition bindC :: "'a cm \<Rightarrow> ('a \<Rightarrow> 'b cm) \<Rightarrow> 'b cm" where
  "bindC m f s = (case m s of (Inl e, s') \<Rightarrow> (Inl e, s') | (Inr x, s') \<Rightarrow> f x s')"

definition tryC :: "'a cm \<Rightarrow> (coord_exn \<Rightarrow> 'a cm) \<Rightarrow> 'a cm" where
  "tryC m h s = (case m s of (Inl e, s') \<Rightarrow> h e s' | (Inr x, s') \<Rightarrow> (Inr x, s'))"

definition callC :: "event \<Rightarrow> (event list \<Rightarrow> coord_exn + 'a) \<Rightarrow> 'a cm" where
  "callC ev answer s = (answer (cs_events s), s\<lparr>cs_events := cs_events s @ [ev]\<rparr>)"

definition requireC :: "bool \<Rightarrow> string \<Rightarrow> unit cm" where
  "requireC c msg = liftC (requireE c (CoordinatorUnavailable msg))"

definition progressC :: "adapters \<Rightarrow> event \<Rightarrow> unit cm" where
  "progressC ad ev = (case ad_progress ad of None \<Rightarrow> liftC (Inr ()) | Some p \<Rightarrow> callC ev (\<lambda>h. p h ev))"

definition set_ambiguous :: "bool \<Rightarrow> unit cm" where
  "set_ambiguous b s = (Inr (), s\<lparr>cs_ambiguous := b\<rparr>)"

definition set_resumed :: "pyval \<Rightarrow> unit cm" where
  "set_resumed v s = (Inr (), s\<lparr>cs_resumed := Some v\<rparr>)"

definition assert_exact_recovery :: "pyval \<Rightarrow> pyval \<Rightarrow> unit cm" where
  "assert_exact_recovery recovered allocation_id =
     requireC (py_eq recovered (PDict [(''allocation_id'', allocation_id), (''state'', PStr ''absent'')]))
       ''exact allocation recovery did not prove absence''"

datatype reserve_outcome = Hosted pydict | Reserved pyval

definition hosted_dispatch ::
  "(string \<Rightarrow> pydatetime option) \<Rightarrow> adapters \<Rightarrow> pydict \<Rightarrow> reserve_outcome cm" where
  "hosted_dispatch fromiso ad package =
     bindC (liftC (protocolE (github_hosted_fallback fromiso package))) (\<lambda>hosted.
     bindC (callC (EDispatch hosted) (\<lambda>h. ad_dispatch ad h hosted)) (\<lambda>_.
     liftC (Inr (Hosted hosted))))"

definition reserve_failed ::
  "(string \<Rightarrow> pydatetime option) \<Rightarrow> adapters \<Rightarrow> pydict \<Rightarrow> pydict \<Rightarrow> coord_exn \<Rightarrow> reserve_outcome cm" where
  "reserve_failed fromiso ad package reservation exc =
     (case exc of
        ReserveDefinitelyUnavailableBeforeEffect _ \<Rightarrow> hosted_dispatch fromiso ad package
      | ReservePartialFailure failed_id \<Rightarrow>
          let allocation_id = pget reservation ''allocation_id''
          in bindC (requireC (is_str allocation_id \<and> PStr failed_id = allocation_id)
               ''partial reserve failure crossed the allocation'') (\<lambda>_.
             bindC (callC (ERecover allocation_id) (\<lambda>h. ad_recover ad h allocation_id)) (\<lambda>recovered.
             bindC (assert_exact_recovery recovered allocation_id) (\<lambda>_.
             hosted_dispatch fromiso ad package)))
      | _ \<Rightarrow> liftC (Inl (CoordinatorUnavailable ''allocation reserve outcome is ambiguous'')))"

definition reserve_step ::
  "(string \<Rightarrow> pydatetime option) \<Rightarrow> adapters \<Rightarrow> pydict \<Rightarrow> pydict \<Rightarrow> pydict \<Rightarrow> reserve_outcome cm" where
  "reserve_step fromiso ad package reservation resume =
     (if pget resume ''reserved'' = PNone \<or> py_eq (pget resume ''phase'') (PStr ''recovered'') then
        tryC (bindC (callC (EReserve reservation) (\<lambda>h. ad_reserve ad h reservation)) (\<lambda>r.
                liftC (Inr (Reserved r))))
          (reserve_failed fromiso ad package reservation)
      else liftC (Inr (Reserved (pget resume ''reserved''))))"

definition RESERVED_FIELDS :: "string list" where
  "RESERVED_FIELDS = [''allocation_id'', ''scale_set_id'', ''runner_label'', ''state'']"

text \<open>\<open>set(reserved) != expected\<close>: a persisted value that is not a mapping raises one way or another.\<close>

definition exact_reserved :: "pyval \<Rightarrow> coord_exn + pydict" where
  "exact_reserved v =
     (case v of
        PDict d \<Rightarrow>
          if keys_exact d RESERVED_FIELDS \<and> py_eq (pget d ''state'') (PStr ''reserved-disabled'') then Inr d
          else Inl (CoordinatorUnavailable ''allocation reserve response is not exact'')
      | _ \<Rightarrow> (case as_set v of
                Inl _ \<Rightarrow> Inl (OtherException ''TypeError'')
              | Inr xs \<Rightarrow> if same_set xs (map PStr RESERVED_FIELDS) then Inl (OtherException ''TypeError'')
                  else Inl (CoordinatorUnavailable ''allocation reserve response is not exact'')))"

definition local_values :: "pydict \<Rightarrow> pydict \<Rightarrow> pydict \<Rightarrow> pydict" where
  "local_values package reservation reserved =
     pmerge package [(''allocation_id'', pget reserved ''allocation_id''),
       (''allocation_nonce'', pget reservation ''nonce''), (''runner_label'', pget reserved ''runner_label'')]"

definition dispatch_step :: "adapters \<Rightarrow> pydict \<Rightarrow> pydict \<Rightarrow> pyval cm" where
  "dispatch_step ad resume protocol =
     (if pget resume ''run_id'' = PNone then
        bindC (requireC (\<not> py_eq (pget resume ''phase'') (PStr ''dispatching''))
          ''GitHub dispatch receipt is ambiguous; refusing redispatch'') (\<lambda>_.
        bindC (progressC ad PDispatching) (\<lambda>_.
        bindC (set_ambiguous True) (\<lambda>_.
        bindC (callC (EDispatch protocol) (\<lambda>h. ad_dispatch ad h protocol)) (\<lambda>run_id.
        bindC (requireC (positive_int run_id) ''GitHub dispatch receipt is invalid'') (\<lambda>_.
        bindC (progressC ad (PDispatched run_id)) (\<lambda>_.
        bindC (set_ambiguous False) (\<lambda>_.
        liftC (Inr run_id))))))))
      else
        bindC (requireC (positive_int (pget resume ''run_id'')) ''persisted GitHub dispatch receipt is invalid'') (\<lambda>_.
        liftC (Inr (pget resume ''run_id''))))"

definition observe_step :: "adapters \<Rightarrow> pyval \<Rightarrow> pyval \<Rightarrow> ObservedWorkflowJob cm" where
  "observe_step ad run_id label =
     bindC (callC (EObserve run_id label) (\<lambda>h. ad_observe ad h run_id label)) (\<lambda>observed.
     bindC (requireC (py_eq (oj_run_id observed) run_id) ''observed job is not bound to the dispatch run'') (\<lambda>_.
     bindC (progressC ad (PObserved observed)) (\<lambda>_.
     liftC (Inr observed))))"

text \<open>\<open>isoformat()\<close> of a UTC time with \<open>+00:00\<close> replaced by \<open>Z\<close>.\<close>

definition iso_utc :: "instant \<Rightarrow> string" where
  "iso_utc t = (if t mod 1000000 = 0 then stamp t else timestamp t)"

definition window_step :: "adapters \<Rightarrow> int \<Rightarrow> pydict \<Rightarrow> pydict \<Rightarrow> (pyval \<times> pyval) cm" where
  "window_step ad claim_ttl reservation resume =
     (let issued_at = pget resume ''allocation_issued_at''; claim_deadline = pget resume ''claim_deadline''
      in if py_eq (pget reservation ''allocation_reservation_version'') (PInt 2)
            \<and> (\<not> is_str issued_at \<or> \<not> is_str claim_deadline) then
           (\<lambda>s. let now = ad_clock ad (cs_events s) div 1000000 * 1000000;
                    window = (PStr (iso_utc now), PStr (iso_utc (now + claim_ttl)))
                in bindC (progressC ad (PWindow (fst window) (snd window))) (\<lambda>_. liftC (Inr window)) s)
         else liftC (Inr (issued_at, claim_deadline)))"

definition allocation_payload ::
  "pydict \<Rightarrow> pydict \<Rightarrow> ObservedWorkflowJob \<Rightarrow> pyval \<times> pyval \<Rightarrow> pydict" where
  "allocation_payload reservation protocol observed window =
     (let version = pget reservation ''allocation_reservation_version'';
          payload = pmerge (filter (\<lambda>(k, _). k \<noteq> ''allocation_reservation_version'') reservation)
            [(''runner_allocation_version'', version), (''run_id'', PStr (fmt (oj_run_id observed))),
             (''run_attempt'', oj_run_attempt observed), (''job_id'', PStr (fmt (oj_job_id observed))),
             (''job_name'', oj_job_name observed), (''dispatch_sha'', oj_dispatch_sha observed),
             (''tested_sha'', pget protocol ''tested_sha'')]
      in if py_eq version (PInt 2)
         then pmerge payload [(''issued_at'', fst window), (''claim_deadline'', snd window)]
         else payload)"

definition finalize_step :: "adapters \<Rightarrow> pydict \<Rightarrow> pydict \<Rightarrow> pydict \<Rightarrow> unit cm" where
  "finalize_step ad resume reserved payload =
     bindC (callC (ESign payload) (\<lambda>h. ad_sign ad h payload)) (\<lambda>envelope.
     bindC (requireC (\<not> (py_eq (pget resume ''phase'') (PStr ''finalizing'')
         \<and> \<not> List.member (pkeys resume) ''finalized''))
       ''allocation finalize receipt is ambiguous; refusing replay'') (\<lambda>_.
     bindC (progressC ad PFinalizing) (\<lambda>_.
     bindC (callC (EFinalize envelope) (\<lambda>h. ad_finalize ad h envelope)) (\<lambda>finalized.
     bindC (requireC (py_eq (pget finalized ''allocation_id'') (pget reserved ''allocation_id'')
         \<and> py_eq (pget finalized ''state'') (PStr ''enabled-awaiting-claim''))
       ''allocation finalize response is not exact'') (\<lambda>_.
     progressC ad (PFinalized finalized))))))"

definition dispatch_body ::
  "(string \<Rightarrow> pydatetime option) \<Rightarrow> adapters \<Rightarrow> int \<Rightarrow> pydict \<Rightarrow> pydict \<Rightarrow> pydict \<Rightarrow> pydict
   \<Rightarrow> (pydict \<times> ObservedWorkflowJob option) cm" where
  "dispatch_body fromiso ad claim_ttl package reservation resume reserved =
     bindC (liftC (protocolE (protocol_package fromiso (PDict (local_values package reservation reserved))))) (\<lambda>protocol.
     bindC (set_resumed (pget resume ''run_id'')) (\<lambda>_.
     bindC (dispatch_step ad resume protocol) (\<lambda>run_id.
     bindC (observe_step ad run_id (pget reserved ''runner_label'')) (\<lambda>observed.
     bindC (window_step ad claim_ttl reservation resume) (\<lambda>window.
     bindC (finalize_step ad resume reserved (allocation_payload reservation protocol observed window)) (\<lambda>_.
     liftC (Inr (protocol, Some observed))))))))"

text \<open>The \<open>except Exception\<close> of the dispatch: recover, record, re-raise.\<close>

definition recovery_record :: "adapters \<Rightarrow> pydict \<Rightarrow> unit cm" where
  "recovery_record ad resume s =
     (if ad_progress ad = None then (Inr (), s)
      else if cs_ambiguous s then progressC ad PAmbiguous s
      else if py_eq (pget resume ''phase'') (PStr ''dispatching'') then
        (case cs_resumed s of
           None \<Rightarrow> (Inl (OtherException ''UnboundLocalError''), s)
         | Some v \<Rightarrow> if v = PNone then progressC ad PAmbiguous s else progressC ad PRecovered s)
      else progressC ad PRecovered s)"

definition dispatch_failed :: "adapters \<Rightarrow> pydict \<Rightarrow> pydict \<Rightarrow> coord_exn \<Rightarrow> 'a cm" where
  "dispatch_failed ad resume reserved exc =
     (let allocation_id = pget reserved ''allocation_id''
      in bindC (callC (ERecover allocation_id) (\<lambda>h. ad_recover ad h allocation_id)) (\<lambda>recovered.
         bindC (assert_exact_recovery recovered allocation_id) (\<lambda>_.
         bindC (recovery_record ad resume) (\<lambda>_.
         liftC (Inl exc)))))"

definition outbound_local_dispatch ::
  "(string \<Rightarrow> pydatetime option) \<Rightarrow> adapters \<Rightarrow> int \<Rightarrow> pydict \<Rightarrow> pydict \<Rightarrow> pydict
   \<Rightarrow> (pydict \<times> ObservedWorkflowJob option) cm" where
  "outbound_local_dispatch fromiso ad claim_ttl package reservation resume =
     bindC (reserve_step fromiso ad package reservation resume) (\<lambda>outcome.
     case outcome of
       Hosted hosted \<Rightarrow> liftC (Inr (hosted, None))
     | Reserved v \<Rightarrow>
         bindC (liftC (exact_reserved v)) (\<lambda>reserved.
         bindC (requireC (py_eq (pget reserved ''allocation_id'') (pget reservation ''allocation_id'')
             \<and> py_eq (pget reserved ''runner_label'') (pget reservation ''scale_set_name''))
           ''allocation reserve response crossed the reservation'') (\<lambda>_.
         bindC (progressC ad (PReserved reserved)) (\<lambda>_.
         bindC (set_ambiguous False) (\<lambda>_.
         tryC (dispatch_body fromiso ad claim_ttl package reservation resume reserved)
           (dispatch_failed ad resume reserved))))))"

definition initial_cstate :: cstate where
  "initial_cstate = \<lparr>cs_events = [], cs_ambiguous = False, cs_resumed = None\<rparr>"

section \<open>Calculus of calls\<close>

text \<open>Inversion of each combinator, and the calls a computation may make.\<close>

lemma bindC_eq_Inr:
  "bindC m f s = (Inr y, s') \<longleftrightarrow> (\<exists>x s1. m s = (Inr x, s1) \<and> f x s1 = (Inr y, s'))"
  by (auto simp: bindC_def split: prod.splits sum.splits)

lemma bindC_eq_Inl:
  "bindC m f s = (Inl e, s') \<longleftrightarrow>
     m s = (Inl e, s') \<or> (\<exists>x s1. m s = (Inr x, s1) \<and> f x s1 = (Inl e, s'))"
  by (auto simp: bindC_def split: prod.splits sum.splits)

lemma tryC_eq:
  "tryC m h s = (r, s') \<longleftrightarrow>
     (\<exists>x. m s = (Inr x, s') \<and> r = Inr x) \<or> (\<exists>e s1. m s = (Inl e, s1) \<and> h e s1 = (r, s'))"
  by (cases "m s"; cases "fst (m s)") (auto simp: tryC_def)

lemma liftC_eq [simp]: "liftC r s = (r', s') \<longleftrightarrow> r' = r \<and> s' = s"
  by (auto simp: liftC_def)

lemma requireC_eq [simp]:
  "requireC c m s = (r, s') \<longleftrightarrow> s' = s \<and> r = (if c then Inr () else Inl (CoordinatorUnavailable m))"
  by (auto simp: requireC_def requireE_def)

lemma callC_eq [simp]:
  "callC ev a s = (r, s') \<longleftrightarrow> r = a (cs_events s) \<and> s' = s\<lparr>cs_events := cs_events s @ [ev]\<rparr>"
  by (auto simp: callC_def)

lemma set_ambiguous_eq [simp]: "set_ambiguous b s = (r, s') \<longleftrightarrow> r = Inr () \<and> s' = s\<lparr>cs_ambiguous := b\<rparr>"
  by (auto simp: set_ambiguous_def)

lemma set_resumed_eq [simp]: "set_resumed v s = (r, s') \<longleftrightarrow> r = Inr () \<and> s' = s\<lparr>cs_resumed := Some v\<rparr>"
  by (auto simp: set_resumed_def)

lemmas runC = bindC_eq_Inr bindC_eq_Inl tryC_eq

fun is_dispatch :: "event \<Rightarrow> bool" where
  "is_dispatch (EDispatch p) = True"
| "is_dispatch _ = False"

definition dispatches :: "event list \<Rightarrow> nat" where
  "dispatches es = length (filter is_dispatch es)"

lemma dispatches_simps [simp]:
  "dispatches [] = 0" "dispatches (e # es) = (if is_dispatch e then 1 else 0) + dispatches es"
  "dispatches (es @ es') = dispatches es + dispatches es'"
  by (simp_all add: dispatches_def)

lemma dispatches_zero: "dispatches es = 0 \<longleftrightarrow> (\<forall>p. EDispatch p \<notin> set es)"
proof -
  have "is_dispatch e \<longleftrightarrow> (\<exists>p. e = EDispatch p)" for e by (cases e) auto
  then show ?thesis by (auto simp: dispatches_def filter_empty_conv)
qed

definition emits :: "'a cm \<Rightarrow> event set \<Rightarrow> nat \<Rightarrow> bool" where
  "emits m A n = (\<forall>s r s'. m s = (r, s') \<longrightarrow>
     (\<exists>es. cs_events s' = cs_events s @ es \<and> set es \<subseteq> A \<and> dispatches es \<le> n))"

lemma emitsD:
  "emits m A n \<Longrightarrow> m s = (r, s') \<Longrightarrow> \<exists>es. cs_events s' = cs_events s @ es \<and> set es \<subseteq> A \<and> dispatches es \<le> n"
  by (simp add: emits_def)

lemma emits_liftC: "emits (liftC r) A n"
  by (auto simp: emits_def)

lemma emits_requireC: "emits (requireC c m) A n"
  by (auto simp: emits_def)

lemma emits_set: "emits (set_ambiguous b) A n" "emits (set_resumed v) A n"
  by (auto simp: emits_def)

lemma emits_callC: "ev \<in> A \<Longrightarrow> (if is_dispatch ev then 1 else 0) \<le> n \<Longrightarrow> emits (callC ev a) A n"
  by (auto simp: emits_def)

lemma emits_progressC: "ev \<in> A \<Longrightarrow> \<not> is_dispatch ev \<Longrightarrow> emits (progressC ad ev) A n"
  by (auto simp: progressC_def emits_liftC intro: emits_callC split: option.split)

lemma emits_bindC:
  assumes "emits m A n" and "\<And>x. emits (f x) A k"
  shows "emits (bindC m f) A (n + k)"
  unfolding emits_def
proof (intro allI impI)
  fix s r s'
  assume run: "bindC m f s = (r, s')"
  obtain r1 s1 where m: "m s = (r1, s1)" by (cases "m s")
  obtain es where es: "cs_events s1 = cs_events s @ es" "set es \<subseteq> A" "dispatches es \<le> n"
    using emitsD [OF assms(1) m] by blast
  show "\<exists>es. cs_events s' = cs_events s @ es \<and> set es \<subseteq> A \<and> dispatches es \<le> n + k"
  proof (cases r1)
    case (Inl e)
    with run m es show ?thesis by (auto simp: bindC_def)
  next
    case (Inr x)
    with run m have "f x s1 = (r, s')" by (simp add: bindC_def)
    from emitsD [OF assms(2) this] obtain es' where
      "cs_events s' = cs_events s1 @ es'" "set es' \<subseteq> A" "dispatches es' \<le> k" by blast
    with es show ?thesis by (intro exI [of _ "es @ es'"]) simp
  qed
qed

lemma emits_bind0: "emits m A 0 \<Longrightarrow> (\<And>x. emits (f x) A n) \<Longrightarrow> emits (bindC m f) A n"
  using emits_bindC [of m A 0 f n] by simp

lemma emits_bind1: "emits m A 1 \<Longrightarrow> (\<And>x. emits (f x) A 0) \<Longrightarrow> emits (bindC m f) A 1"
  using emits_bindC [of m A 1 f 0] by simp

lemmas emits_rules = emits_liftC emits_requireC emits_set emits_callC emits_progressC

lemma emits_bind_liftC: "(\<And>x. r = Inr x \<Longrightarrow> emits (f x) A n) \<Longrightarrow> emits (bindC (liftC r) f) A n"
  by (cases r) (auto simp: emits_def bindC_def liftC_def)

text \<open>The calls the dispatch makes between reservation and recovery.\<close>

definition body_events :: "(pydict \<Rightarrow> bool) \<Rightarrow> event set" where
  "body_events P = {e. case e of EReserve _ \<Rightarrow> False | ERecover _ \<Rightarrow> False | PReserved _ \<Rightarrow> False
     | PRecovered \<Rightarrow> False | PAmbiguous \<Rightarrow> False | EDispatch p \<Rightarrow> P p | _ \<Rightarrow> True}"

lemma body_events_simps [simp]:
  "EObserve r l \<in> body_events P" "ESign y \<in> body_events P" "EFinalize y \<in> body_events P"
  "PDispatching \<in> body_events P" "PDispatched r \<in> body_events P" "PObserved j \<in> body_events P"
  "PWindow a b \<in> body_events P" "PFinalizing \<in> body_events P" "PFinalized y \<in> body_events P"
  "EReserve y \<notin> body_events P" "ERecover v \<notin> body_events P" "PReserved y \<notin> body_events P"
  "PRecovered \<notin> body_events P" "PAmbiguous \<notin> body_events P" "EDispatch p \<in> body_events P \<longleftrightarrow> P p"
  by (simp_all add: body_events_def)

lemma dispatch_step_emits: "P protocol \<Longrightarrow> emits (dispatch_step ad resume protocol) (body_events P) 1"
proof -
  assume P: "P protocol"
  have tail: "emits (bindC (callC (EDispatch protocol) a) (\<lambda>run_id.
      bindC (requireC (positive_int run_id) m) (\<lambda>_.
      bindC (progressC ad (PDispatched run_id)) (\<lambda>_.
      bindC (set_ambiguous False) (\<lambda>_. liftC (Inr run_id)))))) (body_events P) 1" for a m
    by (rule emits_bind1, rule emits_callC) (intro emits_bind0 emits_rules | simp add: P)+
  have head: "emits (bindC (requireC c m) (\<lambda>_. bindC (progressC ad PDispatching) (\<lambda>_.
      bindC (set_ambiguous True) (\<lambda>_. f)))) (body_events P) 1" if "emits f (body_events P) 1"
    for c m and f :: "pyval cm"
    by (intro emits_bind0 emits_rules that) simp_all
  show ?thesis
    unfolding dispatch_step_def using head [OF tail] by (simp add: emits_bind0 emits_rules)
qed

lemma dispatch_step_silent:
  assumes "pget resume ''run_id'' \<noteq> PNone \<or> pget resume ''phase'' = PStr ''dispatching''"
  shows "emits (dispatch_step ad resume protocol) (body_events P) 0"
proof (cases "pget resume ''run_id'' = PNone")
  case True
  with assms show ?thesis
    by (auto simp: dispatch_step_def emits_def bindC_def requireC_def liftC_def)
next
  case False
  then show ?thesis
    unfolding dispatch_step_def by (simp add: emits_bind0 emits_rules)
qed

lemma observe_step_emits: "emits (observe_step ad run_id label) (body_events P) 0"
  unfolding observe_step_def by (intro emits_bind0 emits_rules) simp_all

lemma window_step_emits: "emits (window_step ad ttl reservation resume) (body_events P) 0"
proof -
  have "emits (bindC (progressC ad (PWindow a b)) (\<lambda>_. liftC (Inr w))) (body_events P) 0" for a b and w :: "pyval \<times> pyval"
    by (intro emits_bind0 emits_rules) simp_all
  then show ?thesis
    by (auto simp: window_step_def Let_def emits_def)
qed

lemma finalize_step_emits: "emits (finalize_step ad resume reserved payload) (body_events P) 0"
  unfolding finalize_step_def by (intro emits_bind0 emits_rules) simp_all

lemmas step_emits = observe_step_emits window_step_emits finalize_step_emits

abbreviation local_package :: "(string \<Rightarrow> pydatetime option) \<Rightarrow> pydict \<Rightarrow> pydict \<Rightarrow> pydict \<Rightarrow> pydict \<Rightarrow> bool" where
  "local_package fromiso package reservation reserved p \<equiv>
     protocol_package fromiso (PDict (local_values package reservation reserved)) = Inr p"

lemma protocolE_Inr [simp]: "protocolE r = Inr x \<longleftrightarrow> r = Inr x" "Inr x = protocolE r \<longleftrightarrow> r = Inr x"
  by (cases r; auto simp: protocolE_def)+

lemma dispatch_body_emits:
  "emits (dispatch_body fromiso ad ttl package reservation resume reserved)
     (body_events (local_package fromiso package reservation reserved)) 1"
  unfolding dispatch_body_def
  by (intro emits_bind_liftC emits_bind1 [OF dispatch_step_emits] emits_bind0 [OF emits_set(2)]
      emits_bind0 emits_rules step_emits) simp

lemma dispatch_body_silent:
  assumes "pget resume ''run_id'' \<noteq> PNone \<or> pget resume ''phase'' = PStr ''dispatching''"
  shows "emits (dispatch_body fromiso ad ttl package reservation resume reserved)
     (body_events (local_package fromiso package reservation reserved)) 0"
  unfolding dispatch_body_def
  by (intro emits_bind0 emits_rules step_emits dispatch_step_silent [OF assms])

section \<open>Cases of a dispatch\<close>

text \<open>The two ways the broker proves that no local allocation exists.\<close>

definition proven_absent :: "adapters \<Rightarrow> pydict \<Rightarrow> event list \<Rightarrow> bool" where
  "proven_absent ad reservation es =
     ((\<exists>m. ad_reserve ad [] reservation = Inl (ReserveDefinitelyUnavailableBeforeEffect m)
        \<and> es = [EReserve reservation])
      \<or> (\<exists>failed rec. ad_reserve ad [] reservation = Inl (ReservePartialFailure failed)
        \<and> pget reservation ''allocation_id'' = PStr failed
        \<and> ad_recover ad [EReserve reservation] (PStr failed) = Inr rec
        \<and> py_eq rec (PDict [(''allocation_id'', PStr failed), (''state'', PStr ''absent'')])
        \<and> es = [EReserve reservation, ERecover (PStr failed)]))"

lemma hosted_dispatchD:
  assumes "hosted_dispatch fromiso ad package s = (r, s')"
  shows "(\<exists>e. r = Inl e) \<and> s' = s
    \<or> (\<exists>h. github_hosted_fallback fromiso package = Inr h \<and> cs_events s' = cs_events s @ [EDispatch h]
         \<and> ((\<exists>e. r = Inl e) \<or> r = Inr (Hosted h)))"
  using assms
  by (cases r) (auto simp: hosted_dispatch_def runC)

lemma reserve_failedD:
  assumes "reserve_failed fromiso ad package reservation exc s = (r, s')"
    and "cs_events s = [EReserve reservation]" and "ad_reserve ad [] reservation = Inl exc"
  shows "(\<exists>e. r = Inl e) \<and> dispatches (cs_events s') = 0 \<and> set (cs_events s') \<subseteq> {EReserve reservation} \<union> range ERecover
    \<or> (\<exists>h pre. github_hosted_fallback fromiso package = Inr h \<and> proven_absent ad reservation pre
         \<and> cs_events s' = pre @ [EDispatch h] \<and> ((\<exists>e. r = Inl e) \<or> r = Inr (Hosted h)))"
proof (cases exc)
  case (ReserveDefinitelyUnavailableBeforeEffect m)
  with assms have "proven_absent ad reservation (cs_events s)"
    by (simp add: proven_absent_def)
  moreover have "hosted_dispatch fromiso ad package s = (r, s')"
    using assms(1) ReserveDefinitelyUnavailableBeforeEffect by (simp add: reserve_failed_def)
  ultimately show ?thesis
    using hosted_dispatchD [of fromiso ad package s r s'] assms(2) by auto
next
  case (ReservePartialFailure failed)
  let ?aid = "pget reservation ''allocation_id''"
  let ?s1 = "s\<lparr>cs_events := [EReserve reservation, ERecover ?aid]\<rparr>"
  have run: "bindC (requireC (is_str ?aid \<and> PStr failed = ?aid) ''partial reserve failure crossed the allocation'') (\<lambda>_.
      bindC (callC (ERecover ?aid) (\<lambda>h. ad_recover ad h ?aid)) (\<lambda>recovered.
      bindC (assert_exact_recovery recovered ?aid) (\<lambda>_. hosted_dispatch fromiso ad package))) s = (r, s')"
    using assms(1) ReservePartialFailure by (simp add: reserve_failed_def Let_def)
  show ?thesis
  proof (cases "PStr failed = ?aid \<and> (\<exists>rec. ad_recover ad [EReserve reservation] ?aid = Inr rec
      \<and> py_eq rec (PDict [(''allocation_id'', ?aid), (''state'', PStr ''absent'')]))")
    case True
    then have "hosted_dispatch fromiso ad package ?s1 = (r, s')"
      using run assms(2)
      by (auto simp: bindC_def requireC_def liftC_def requireE_def callC_def assert_exact_recovery_def
          simp del: py_eq.simps dest!: sym [of "PStr failed"])
    moreover have "proven_absent ad reservation (cs_events ?s1)"
      using True assms(3) ReservePartialFailure by (auto simp: proven_absent_def simp del: py_eq.simps)
    ultimately show ?thesis
      using hosted_dispatchD [of fromiso ad package ?s1 r s'] by auto
  next
    case False
    have "(\<exists>e. r = Inl e) \<and> (s' = s \<or> s' = ?s1)"
      using run assms(2) False
      by (cases "ad_recover ad [EReserve reservation] ?aid")
        (auto simp: bindC_def requireC_def liftC_def requireE_def callC_def assert_exact_recovery_def
          simp del: py_eq.simps split: if_splits)
    then show ?thesis using assms(2) by auto
  qed
qed (use assms in \<open>auto simp: reserve_failed_def\<close>)

lemma reserve_stepD:
  assumes "reserve_step fromiso ad package reservation resume initial_cstate = (r, s')"
  shows "(\<exists>v. r = Inr (Reserved v) \<and> set (cs_events s') \<subseteq> {EReserve reservation} \<and> cs_resumed s' = None)
    \<or> (\<exists>e. r = Inl e) \<and> dispatches (cs_events s') = 0 \<and> set (cs_events s') \<subseteq> {EReserve reservation} \<union> range ERecover
    \<or> (\<exists>h pre. github_hosted_fallback fromiso package = Inr h \<and> proven_absent ad reservation pre
         \<and> cs_events s' = pre @ [EDispatch h] \<and> ((\<exists>e. r = Inl e) \<or> r = Inr (Hosted h)))"
proof (cases "pget resume ''reserved'' = PNone \<or> py_eq (pget resume ''phase'') (PStr ''recovered'')")
  case False
  with assms show ?thesis by (auto simp: reserve_step_def initial_cstate_def)
next
  case True
  let ?s1 = "initial_cstate\<lparr>cs_events := [EReserve reservation]\<rparr>"
  show ?thesis
  proof (cases "ad_reserve ad [] reservation")
    case (Inr v)
    with True assms show ?thesis
      by (auto simp: reserve_step_def tryC_def bindC_def callC_def liftC_def initial_cstate_def)
  next
    case (Inl exc)
    with True assms have "reserve_failed fromiso ad package reservation exc ?s1 = (r, s')"
      by (auto simp: reserve_step_def tryC_def bindC_def callC_def initial_cstate_def)
    from reserve_failedD [OF this _ Inl] show ?thesis by simp
  qed
qed

lemma dispatch_failedD:
  assumes "dispatch_failed ad resume reserved exc s = (r, s')"
  shows "\<exists>e post. r = Inl e \<and> cs_events s' = cs_events s @ ERecover (pget reserved ''allocation_id'') # post
    \<and> set post \<subseteq> {PRecovered, PAmbiguous}"
proof -
  let ?aid = "pget reserved ''allocation_id''"
  have rec: "emits (recovery_record ad resume) {PRecovered, PAmbiguous} 0"
    using emits_progressC [of PRecovered "{PRecovered, PAmbiguous}" ad 0]
      emits_progressC [of PAmbiguous "{PRecovered, PAmbiguous}" ad 0]
    by (auto simp: emits_def recovery_record_def split: option.splits if_splits)
  have tail: "emits (bindC (assert_exact_recovery v ?aid) (\<lambda>_. bindC (recovery_record ad resume) (\<lambda>_.
      liftC (Inl exc)))) {PRecovered, PAmbiguous} 0" for v
    unfolding assert_exact_recovery_def by (intro emits_bind0 emits_rules rec)
  have inl: "\<exists>e. r = Inl e"
    using assms by (cases r) (auto simp: dispatch_failed_def Let_def runC)
  show ?thesis
  proof (cases "ad_recover ad (cs_events s) ?aid")
    case (Inl e)
    with assms have "cs_events s' = cs_events s @ [ERecover ?aid]"
      by (auto simp: dispatch_failed_def Let_def bindC_def callC_def)
    with inl show ?thesis by auto
  next
    case (Inr v)
    with assms have "bindC (assert_exact_recovery v ?aid) (\<lambda>_. bindC (recovery_record ad resume) (\<lambda>_.
        liftC (Inl exc))) (s\<lparr>cs_events := cs_events s @ [ERecover ?aid]\<rparr>) = (r, s')"
      unfolding dispatch_failed_def Let_def by (subst (asm) bindC_def) (simp add: callC_def)
    from emitsD [OF tail this] inl show ?thesis by auto
  qed
qed

text \<open>The four courses of a whole call.\<close>

lemma outbound_cases:
  assumes "outbound_local_dispatch fromiso ad ttl package reservation resume initial_cstate = (r, s')"
  obtains (failed) e where "reserve_step fromiso ad package reservation resume initial_cstate = (Inl e, s')" "r = Inl e"
  | (hosted) h where "reserve_step fromiso ad package reservation resume initial_cstate = (Inr (Hosted h), s')"
      "r = Inr (h, None)"
  | (rejected) pre es e where "set pre \<subseteq> {EReserve reservation}" "set es \<subseteq> range PReserved"
      "cs_events s' = pre @ es" "r = Inl e"
  | (tried) pre es reserved s2 where "set pre \<subseteq> {EReserve reservation}" "set es \<subseteq> range PReserved"
      "py_eq (pget reserved ''allocation_id'') (pget reservation ''allocation_id'')"
      "cs_events s2 = pre @ es" "cs_resumed s2 = None"
      "tryC (dispatch_body fromiso ad ttl package reservation resume reserved)
         (dispatch_failed ad resume reserved) s2 = (r, s')"
proof -
  obtain r1 s1 where step: "reserve_step fromiso ad package reservation resume initial_cstate = (r1, s1)"
    by (cases "reserve_step fromiso ad package reservation resume initial_cstate")
  show thesis
  proof (cases "\<exists>v. r1 = Inr (Reserved v)")
    case False
    then consider e where "r1 = Inl e" | h where "r1 = Inr (Hosted h)"
      by (cases r1) (auto, metis reserve_outcome.exhaust)
    then show thesis
      using assms step failed hosted by cases (auto simp: outbound_local_dispatch_def bindC_def)
  next
    case True
    then obtain v where v: "r1 = Inr (Reserved v)" by blast
    with reserve_stepD [OF step] have pre: "set (cs_events s1) \<subseteq> {EReserve reservation}" "cs_resumed s1 = None"
      by auto
    show thesis
    proof (cases "exact_reserved v")
      case (Inl e)
      with assms step v have "r = Inl e" "s' = s1"
        by (auto simp: outbound_local_dispatch_def bindC_def liftC_def)
      with rejected [of "cs_events s1" "[]"] pre show thesis by simp
    next
      case (Inr reserved)
      let ?ok = "py_eq (pget reserved ''allocation_id'') (pget reservation ''allocation_id'')
        \<and> py_eq (pget reserved ''runner_label'') (pget reservation ''scale_set_name'')"
      show thesis
      proof (cases ?ok)
        case False
        with assms step v Inr have "\<exists>e. r = Inl e" "s' = s1"
          by (auto simp: outbound_local_dispatch_def bindC_def liftC_def requireC_def requireE_def split: if_splits)
        with rejected [of "cs_events s1" "[]"] pre show thesis by auto
      next
        case True
        obtain rp sp where p: "progressC ad (PReserved reserved) s1 = (rp, sp)"
          by (cases "progressC ad (PReserved reserved) s1")
        have "emits (progressC ad (PReserved reserved)) (range PReserved) 0"
          by (rule emits_progressC) auto
        from emitsD [OF this p] obtain es where es: "cs_events sp = cs_events s1 @ es" "set es \<subseteq> range PReserved"
          by blast
        have resumed: "cs_resumed sp = None"
          using p pre(2) by (auto simp: progressC_def split: option.splits)
        show thesis
        proof (cases rp)
          case (Inl e)
          with assms step v Inr True p have "r = Inl e" "s' = sp"
            by (auto simp: outbound_local_dispatch_def bindC_def liftC_def requireC_def)
          with rejected [OF pre(1) es(2)] es(1) show thesis by simp
        next
          case (Inr u)
          with assms step v \<open>exact_reserved v = Inr reserved\<close> True p
          have "tryC (dispatch_body fromiso ad ttl package reservation resume reserved)
              (dispatch_failed ad resume reserved) (sp\<lparr>cs_ambiguous := False\<rparr>) = (r, s')"
            by (auto simp: outbound_local_dispatch_def bindC_def liftC_def requireC_def set_ambiguous_def)
          with tried [OF pre(1) es(2), of reserved "sp\<lparr>cs_ambiguous := False\<rparr>"] es(1) True resumed
          show thesis by simp
        qed
      qed
    qed
  qed
qed

lemma tried_cases:
  assumes "tryC (dispatch_body fromiso ad ttl package reservation resume reserved)
      (dispatch_failed ad resume reserved) s = (r, s')"
    and "emits (dispatch_body fromiso ad ttl package reservation resume reserved) A n"
  obtains (finished) x es where "r = Inr x" "dispatch_body fromiso ad ttl package reservation resume reserved s = (Inr x, s')"
      "cs_events s' = cs_events s @ es" "set es \<subseteq> A" "dispatches es \<le> n"
  | (recovered) e es post where "r = Inl e"
      "cs_events s' = cs_events s @ es @ ERecover (pget reserved ''allocation_id'') # post"
      "set es \<subseteq> A" "dispatches es \<le> n" "set post \<subseteq> {PRecovered, PAmbiguous}"
proof -
  consider x where "r = Inr x" "dispatch_body fromiso ad ttl package reservation resume reserved s = (Inr x, s')"
    | e s1 where "dispatch_body fromiso ad ttl package reservation resume reserved s = (Inl e, s1)"
        "dispatch_failed ad resume reserved e s1 = (r, s')"
    using assms(1) by (auto simp: tryC_eq)
  then show thesis
  proof cases
    case 1
    with emitsD [OF assms(2)] finished show thesis by blast
  next
    case 2
    obtain es where es: "cs_events s1 = cs_events s @ es" "set es \<subseteq> A" "dispatches es \<le> n"
      using emitsD [OF assms(2) 2(1)] by blast
    obtain e' post where "r = Inl e'" "set post \<subseteq> {PRecovered, PAmbiguous}"
      "cs_events s' = cs_events s1 @ ERecover (pget reserved ''allocation_id'') # post"
      using dispatch_failedD [OF 2(2)] by blast
    with es recovered [of e' es post] show thesis by simp
  qed
qed

lemma no_dispatch_noise:
  "set pre \<subseteq> {EReserve reservation} \<Longrightarrow> dispatches pre = 0"
  "set es \<subseteq> range PReserved \<Longrightarrow> dispatches es = 0"
  "set post \<subseteq> {PRecovered, PAmbiguous} \<Longrightarrow> dispatches post = 0"
  by (auto simp: dispatches_zero)

lemma proven_absent_silent: "proven_absent ad reservation pre \<Longrightarrow> dispatches pre = 0"
  by (auto simp: proven_absent_def)

section \<open>The fallback package\<close>

definition COMMON_FIELDS :: "string list" where
  "COMMON_FIELDS = PROTOCOL_ONE_FIELDS @ PROTOCOL_POSITIVE_FIELDS @ PROTOCOL_SHA_FIELDS
     @ [''repository'', ''logical_key'', ''default_branch'', ''policy_version'', ''key_manifest_digest'',
        ''inventory_guard_status'', ''missing_source_ids'', ''claim_deadline'', ''execution_deadline'']"

definition OVERRIDDEN :: "string list" where
  "OVERRIDDEN = [''backend'', ''execution_trust_mode'', ''allocation_id'', ''allocation_nonce'', ''runner_label'']"

lemma common_not_overridden: "list_all (\<lambda>k. \<not> List.member (OVERRIDDEN @ HOSTED_CLEARED) k) COMMON_FIELDS"
  by code_simp

lemma overridden_not_cleared: "list_all (\<lambda>k. \<not> List.member HOSTED_CLEARED k) OVERRIDDEN"
  by code_simp

lemma hosted_keys_are_fields: "list_all (List.member PROTOCOL_FIELDS) (OVERRIDDEN @ HOSTED_CLEARED)"
  by code_simp

lemma hosted_values_kept:
  assumes "k \<notin> set (OVERRIDDEN @ HOSTED_CLEARED)"
  shows "pget (hosted_values d) k = pget d k"
proof -
  have "k \<notin> fst ` set (map (\<lambda>f. (f, PNone :: pyval)) HOSTED_CLEARED)"
    using assms by auto
  then show ?thesis
    using assms by (simp add: hosted_values_def pget_pmerge_absent OVERRIDDEN_def)
qed

lemma hosted_values_cleared: "k \<in> set HOSTED_CLEARED \<Longrightarrow> pget (hosted_values d) k = PNone"
proof -
  assume k: "k \<in> set HOSTED_CLEARED"
  have "map_of (rev (map (\<lambda>f. (f, PNone :: pyval)) fs)) k = Some PNone" if "k \<in> set fs" for fs :: "string list"
    using that by (simp add: rev_map map_of_map_restrict)
  with k show ?thesis by (simp add: hosted_values_def pget_def map_of_pmerge)
qed

lemma hosted_values_overridden:
  assumes "k \<in> set OVERRIDDEN"
  shows "pget (hosted_values d) k = pget (pmerge d [(''backend'', PStr ''github''),
      (''execution_trust_mode'', PStr ''github-hosted''), (''allocation_id'', PNone),
      (''allocation_nonce'', PNone), (''runner_label'', PNone)]) k"
proof -
  have "k \<notin> fst ` set (map (\<lambda>f. (f, PNone :: pyval)) HOSTED_CLEARED)"
    using assms overridden_not_cleared by (auto simp: list_all_iff)
  then show ?thesis by (simp add: hosted_values_def pget_pmerge_absent)
qed

lemma hosted_values_backend: "pget (hosted_values d) ''backend'' = PStr ''github''"
  by (subst hosted_values_overridden) (simp_all add: OVERRIDDEN_def pmerge_def)

lemma hosted_values_no_authority: "no_local_authority (hosted_values d)"
proof -
  have "pget (hosted_values d) k = PNone" if "k \<in> set ALLOCATION_FIELDS" for k
    using that by (subst hosted_values_overridden) (auto simp: ALLOCATION_FIELDS_def OVERRIDDEN_def pmerge_def)
  moreover have "pget (hosted_values d) ''execution_trust_mode'' = PStr ''github-hosted''"
    by (subst hosted_values_overridden) (simp_all add: OVERRIDDEN_def pmerge_def)
  ultimately show ?thesis
    using hosted_values_cleared [of _ d] by (auto simp: no_local_authority_def HOSTED_CLEARED_def)
qed

lemma hosted_values_keys:
  assumes "keys_exact d PROTOCOL_FIELDS"
  shows "keys_exact (hosted_values d) PROTOCOL_FIELDS"
proof -
  have "fst ` set (hosted_values d) = fst ` set d \<union> set (OVERRIDDEN @ HOSTED_CLEARED)"
    by (auto simp: hosted_values_def pmerge_keys OVERRIDDEN_def image_image)
  moreover have "set (OVERRIDDEN @ HOSTED_CLEARED) \<subseteq> set PROTOCOL_FIELDS"
    using hosted_keys_are_fields by (auto simp: list_all_iff)
  ultimately show ?thesis
    using assms by (auto simp: keys_exact_iff)
qed

lemma hosted_package_frame:
  assumes "protocol_package fromiso (PDict d) = Inr d"
    and keep: "\<And>k. k \<in> set COMMON_FIELDS \<Longrightarrow> pget q k = pget d k"
    and "keys_exact q PROTOCOL_FIELDS" and "pget q ''backend'' = PStr ''github''" and "no_local_authority q"
  shows "protocol_package fromiso (PDict q) = Inr q"
proof -
  have lists: "pget q k = pget d k"
    if "k \<in> set PROTOCOL_ONE_FIELDS \<or> k \<in> set PROTOCOL_POSITIVE_FIELDS \<or> k \<in> set PROTOCOL_SHA_FIELDS" for k
    by (rule keep) (use that in \<open>auto simp: COMMON_FIELDS_def\<close>)
  have single: "pget q ''repository'' = pget d ''repository''" "pget q ''logical_key'' = pget d ''logical_key''"
    "pget q ''default_branch'' = pget d ''default_branch''" "pget q ''policy_version'' = pget d ''policy_version''"
    "pget q ''key_manifest_digest'' = pget d ''key_manifest_digest''"
    "pget q ''inventory_guard_status'' = pget d ''inventory_guard_status''"
    "pget q ''missing_source_ids'' = pget d ''missing_source_ids''"
    "pget q ''claim_deadline'' = pget d ''claim_deadline''"
    "pget q ''execution_deadline'' = pget d ''execution_deadline''"
    by (rule keep, simp add: COMMON_FIELDS_def)+
  have shas: "pget q ''tested_sha'' = pget d ''tested_sha''" "pget q ''tested_merge_sha'' = pget d ''tested_merge_sha''"
    "pget q ''check_target_sha'' = pget d ''check_target_sha''" "expected_logical_key q = expected_logical_key d"
    using lists by (simp_all add: PROTOCOL_SHA_FIELDS_def PROTOCOL_POSITIVE_FIELDS_def expected_logical_key_def)
  have backend: "validate_github_backend q = Inr ()"
    using assms(5) by (simp add: validate_github_backend_iff)
  show ?thesis
    using assms(1,3,4) lists backend
    by (auto simp: protocol_package_def errE_iffs single shas)
qed

lemma fallback_of_accepted:
  assumes "protocol_package fromiso v = Inr d"
  shows "github_hosted_fallback fromiso d = Inr (hosted_values d)"
proof -
  have d: "protocol_package fromiso (PDict d) = Inr d" "keys_exact d PROTOCOL_FIELDS"
    using assms protocol_package_dict [OF assms] by simp_all
  have "pget (hosted_values d) k = pget d k" if "k \<in> set COMMON_FIELDS" for k
    using that common_not_overridden by (intro hosted_values_kept) (auto simp: list_all_iff)
  from hosted_package_frame [OF d(1) this hosted_values_keys [OF d(2)] hosted_values_backend hosted_values_no_authority]
  show ?thesis by (simp add: github_hosted_fallback_def)
qed

lemma fallback_values: "github_hosted_fallback fromiso d = Inr q \<Longrightarrow> q = hosted_values d"
  using protocol_package_dict [of fromiso "PDict (hosted_values d)" q] by (simp add: github_hosted_fallback_def)

lemma local_values_backend: "pget (local_values package reservation reserved) ''backend'' = pget package ''backend''"
  by (simp add: local_values_def pget_pmerge_absent)

lemma local_package_authority:
  assumes "local_package fromiso package reservation reserved p" and "pget package ''backend'' = PStr ''local''"
  shows "\<not> no_local_authority p"
proof -
  have "p = local_values package reservation reserved"
    using protocol_package_dict [OF assms(1)] by simp
  then have "pget p ''backend'' = PStr ''local''"
    using assms(2) by (simp add: local_values_backend)
  with protocol_package_guards(6) [OF assms(1)] show ?thesis
    by (auto simp: validate_local_backend_iff full_local_authority_def no_local_authority_def)
qed

lemma call_recorded:
  assumes "bindC (callC ev a) f s = (r, s')" and "\<And>x. emits (f x) UNIV 0"
  shows "ev \<in> set (cs_events s')"
proof (cases "a (cs_events s)")
  case (Inl e)
  with assms(1) show ?thesis by (auto simp: bindC_def callC_def)
next
  case (Inr x)
  with assms(1) have "f x (s\<lparr>cs_events := cs_events s @ [ev]\<rparr>) = (r, s')"
    by (simp add: bindC_def callC_def)
  from emitsD [OF assms(2) this] show ?thesis by auto
qed

lemma finalize_signs: "finalize_step ad resume reserved payload s = (r, s') \<Longrightarrow> ESign payload \<in> set (cs_events s')"
  unfolding finalize_step_def by (erule call_recorded) (intro emits_bind0 emits_rules, simp_all)

text \<open>What a finished body did: the job it returns is the one it bound, and it called no recovery.\<close>

lemma dispatch_body_InrD:
  assumes "dispatch_body fromiso ad ttl package reservation resume reserved s = (Inr (p, oj), s')"
  shows "\<exists>j payload. oj = Some j \<and> local_package fromiso package reservation reserved p
    \<and> (pget resume ''run_id'' = PNone \<longrightarrow> pget resume ''phase'' \<noteq> PStr ''dispatching'')
    \<and> ESign payload \<in> set (cs_events s')
    \<and> (\<exists>window. payload = allocation_payload reservation p j window)"
proof -
  obtain run_id s1 s2 s3 s4 j window where
    pkg: "local_package fromiso package reservation reserved p"
    and disp: "dispatch_step ad resume p s1 = (Inr run_id, s2)"
    and fin: "finalize_step ad resume reserved (allocation_payload reservation p j window) s4 = (Inr (), s')"
    and oj: "oj = Some j"
    using assms by (auto simp: dispatch_body_def runC)
  have "pget resume ''run_id'' = PNone \<longrightarrow> pget resume ''phase'' \<noteq> PStr ''dispatching''"
    using disp by (auto simp: dispatch_step_def runC split: if_splits)
  moreover have "ESign (allocation_payload reservation p j window) \<in> set (cs_events s')"
    by (rule finalize_signs [OF fin])
  ultimately show ?thesis using pkg oj by blast
qed

section \<open>Sample run\<close>

definition sample_allocation_id :: string where
  "sample_allocation_id = ''00000000-0000-4000-8000-000000000000''"

definition sample_local_package :: pydict where
  "sample_local_package = package_of ''local'' ''exact-sha-attestation'' ''complete'' (PStr (replicate 64 CHR ''d''))
     (PStr sample_allocation_id) (PStr (replicate 43 CHR ''n'')) (PStr sample_label)"

definition sample_reservation :: pydict where
  "sample_reservation = [(''allocation_reservation_version'', PInt 2), (''allocation_id'', PStr sample_allocation_id),
     (''nonce'', PStr (replicate 43 CHR ''n'')), (''scale_set_name'', PStr sample_label)]"

definition sample_reserved :: pydict where
  "sample_reserved = [(''allocation_id'', PStr sample_allocation_id), (''scale_set_id'', PStr ''4''),
     (''runner_label'', PStr sample_label), (''state'', PStr ''reserved-disabled'')]"

definition sample_observed :: ObservedWorkflowJob where
  "sample_observed = \<lparr>oj_run_id = PInt 77, oj_run_attempt = PInt 1, oj_job_id = PInt 8,
     oj_job_name = PStr ''local-quality'', oj_dispatch_sha = PStr (replicate 40 CHR ''a'')\<rparr>"

definition sample_adapters :: adapters where
  "sample_adapters = \<lparr>ad_reserve = \<lambda>_ _. Inr (PDict sample_reserved),
     ad_recover = \<lambda>_ a. Inr (PDict [(''allocation_id'', a), (''state'', PStr ''absent'')]),
     ad_finalize = \<lambda>_ _. Inr [(''allocation_id'', PStr sample_allocation_id), (''state'', PStr ''enabled-awaiting-claim'')],
     ad_dispatch = \<lambda>_ _. Inr (PInt 77), ad_observe = \<lambda>_ _ _. Inr sample_observed,
     ad_sign = \<lambda>_ p. Inr p, ad_progress = Some (\<lambda>_ _. Inr ()), ad_clock = \<lambda>_. 1500000\<rparr>"

definition sample_unavailable :: adapters where
  "sample_unavailable =
     sample_adapters\<lparr>ad_reserve := \<lambda>_ _. Inl (ReserveDefinitelyUnavailableBeforeEffect [])\<rparr>"

definition sample_unobserved :: adapters where
  "sample_unobserved = sample_adapters\<lparr>ad_observe := \<lambda>_ _ _. Inl (OtherException ''timeout'')\<rparr>"

definition sample_run :: "adapters \<Rightarrow> pydict \<Rightarrow> pydict \<Rightarrow> (coord_exn + pydict \<times> ObservedWorkflowJob option) \<times> cstate" where
  "sample_run ad package resume =
     outbound_local_dispatch (\<lambda>_. None) ad (minutes 12) package sample_reservation resume initial_cstate"

lemma sample_reads [simp]:
  "pget sample_reserved ''allocation_id'' = PStr sample_allocation_id"
  "pget sample_reserved ''runner_label'' = PStr sample_label"
  "pget sample_reservation ''allocation_id'' = PStr sample_allocation_id"
  "pget sample_reservation ''scale_set_name'' = PStr sample_label"
  "pget sample_reservation ''nonce'' = PStr (replicate 43 CHR ''n'')"
  "pget sample_local_package ''backend'' = PStr ''local''"
  by (simp_all add: sample_reserved_def sample_reservation_def sample_local_package_def pget_def)
    (simp add: flip: pget_def)

lemma sample_texts: "uuid_text sample_allocation_id" "nonce_text (replicate 43 CHR ''n'')" "runner_label_text sample_label"
  by code_simp+

lemma sample_local_package_accepted [simp]:
  "protocol_package fromiso (PDict sample_local_package) = Inr sample_local_package"
  unfolding sample_local_package_def
  by (rule package_of_accepted) (auto simp: full_local_authority_def package_of_lists sample_texts sample_text)

lemma sample_local_values [simp]:
  "local_values sample_local_package sample_reservation sample_reserved = sample_local_package"
proof -
  have "map_of sample_local_package k = Some v" if "(k, v) \<in> set sample_local_package" for k v
    using that package_of_distinct by (simp add: sample_local_package_def pkeys_def)
  then have "map_of sample_local_package ''allocation_id'' = Some (PStr sample_allocation_id)"
    "map_of sample_local_package ''allocation_nonce'' = Some (PStr (replicate 43 CHR ''n''))"
    "map_of sample_local_package ''runner_label'' = Some (PStr sample_label)"
    by (simp_all add: sample_local_package_def package_of_def)
  then show ?thesis by (simp add: local_values_def pmerge_def pset_same)
qed

lemma sample_reserved_exact [simp]: "exact_reserved (PDict sample_reserved) = Inr sample_reserved"
  by code_simp

lemma sample_fallback [simp]: "github_hosted_fallback fromiso sample_local_package = Inr (hosted_values sample_local_package)"
  by (rule fallback_of_accepted [OF sample_local_package_accepted])

lemmas sample_eval = sample_run_def outbound_local_dispatch_def reserve_step_def reserve_failed_def
  hosted_dispatch_def dispatch_body_def dispatch_step_def observe_step_def window_step_def finalize_step_def
  dispatch_failed_def recovery_record_def assert_exact_recovery_def initial_cstate_def
  bindC_def tryC_def callC_def liftC_def requireC_def requireE_def progressC_def set_ambiguous_def set_resumed_def
  protocolE_def sample_adapters_def sample_unavailable_def sample_unobserved_def sample_observed_def Let_def

lemma pget_Nil [simp]: "pget [] k = PNone"
  by (simp add: pget_def)

lemma sample_run_succeeds:
  "\<exists>s. sample_run sample_adapters sample_local_package [] = (Inr (sample_local_package, Some sample_observed), s)"
  by (simp add: sample_eval) (simp add: pget_def)

lemma sample_run_hosted:
  "\<exists>s. sample_run sample_unavailable sample_local_package [] = (Inr (hosted_values sample_local_package, None), s)
     \<and> cs_events s = [EReserve sample_reservation, EDispatch (hosted_values sample_local_package)]"
  by (simp add: sample_eval)

lemma sample_run_fails:
  "\<exists>s. sample_run sample_unobserved sample_local_package [] = (Inl (OtherException ''timeout''), s)
     \<and> EObserve (PInt 77) (PStr sample_label) \<in> set (cs_events s)"
  by (simp add: sample_eval)

section \<open>Properties\<close>

text \<open>Every accepted package, local or hosted, has a valid hosted fallback: it is accepted again,
  carries no allocation, attestation or local result field, and keeps every other field.\<close>

theorem hosted_fallback_always_valid:
  assumes "protocol_package fromiso v = Inr d"
  shows "\<exists>q. github_hosted_fallback fromiso d = Inr q \<and> pget q ''backend'' = PStr ''github'' \<and> no_local_authority q
    \<and> (\<forall>k. k \<in> set (OVERRIDDEN @ HOSTED_CLEARED) \<or> pget q k = pget d k)"
  using fallback_of_accepted [OF assms] hosted_values_kept
  by (auto simp: hosted_values_backend hosted_values_no_authority)

theorem hosted_fallback_always_valid_witness:
  "\<exists>q. github_hosted_fallback (\<lambda>_. None) sample_local_package = Inr q \<and> no_local_authority q"
  using hosted_fallback_always_valid [OF sample_local_package_accepted [of "\<lambda>_. None"]] by blast

text \<open>One call dispatches at most one workflow, whatever the adapters answer or raise. A call that
  resumes a persisted reservation whose dispatch receipt was lost dispatches none and fails.\<close>

theorem dispatch_at_most_once:
  assumes "outbound_local_dispatch fromiso ad ttl package reservation resume initial_cstate = (r, s')"
  shows "dispatches (cs_events s') \<le> 1
    \<and> (pget resume ''reserved'' \<noteq> PNone \<and> pget resume ''phase'' = PStr ''dispatching'' \<and> pget resume ''run_id'' = PNone
       \<longrightarrow> dispatches (cs_events s') = 0 \<and> (\<exists>e. r = Inl e))"
proof (rule conjI)
  show "dispatches (cs_events s') \<le> 1"
    using assms
  proof (cases rule: outbound_cases)
    case (failed e)
    from reserve_stepD [OF failed(1)] show ?thesis by (auto simp: proven_absent_silent)
  next
    case (hosted h)
    from reserve_stepD [OF hosted(1)] show ?thesis by (auto simp: proven_absent_silent)
  next
    case (rejected pre es e)
    then show ?thesis by (simp add: no_dispatch_noise)
  next
    case (tried pre es reserved s2)
    from tried(6) dispatch_body_emits show ?thesis
      by (cases rule: tried_cases) (use tried no_dispatch_noise in simp_all)
  qed
  show "pget resume ''reserved'' \<noteq> PNone \<and> pget resume ''phase'' = PStr ''dispatching'' \<and> pget resume ''run_id'' = PNone
      \<longrightarrow> dispatches (cs_events s') = 0 \<and> (\<exists>e. r = Inl e)"
  proof
    assume lost: "pget resume ''reserved'' \<noteq> PNone \<and> pget resume ''phase'' = PStr ''dispatching'' \<and> pget resume ''run_id'' = PNone"
    then have step: "reserve_step fromiso ad package reservation resume initial_cstate
        = (Inr (Reserved (pget resume ''reserved'')), initial_cstate)"
      by (simp add: reserve_step_def liftC_def)
    show "dispatches (cs_events s') = 0 \<and> (\<exists>e. r = Inl e)"
      using assms
    proof (cases rule: outbound_cases)
      case (tried pre es reserved s2)
      have "emits (dispatch_body fromiso ad ttl package reservation resume reserved)
          (body_events (local_package fromiso package reservation reserved)) 0"
        using lost by (intro dispatch_body_silent) simp
      from tried(6) this show ?thesis
      proof (cases rule: tried_cases)
        case (finished x xs)
        then show ?thesis using lost dispatch_body_InrD [of fromiso ad ttl package reservation resume reserved s2]
          by (cases x) fastforce
      qed (use tried no_dispatch_noise in simp_all)
    qed (use step no_dispatch_noise in simp_all)
  qed
qed

theorem dispatch_at_most_once_witness:
  "dispatches (cs_events (snd (sample_run sample_adapters sample_local_package []))) \<le> 1"
  using dispatch_at_most_once [of "\<lambda>_. None" sample_adapters "minutes 12" sample_local_package sample_reservation "[]"
      "fst (sample_run sample_adapters sample_local_package [])" "snd (sample_run sample_adapters sample_local_package [])"]
  by (simp add: sample_run_def)

text \<open>C6. A hosted workflow is dispatched for a local package only as the last call, after the broker has
  proved that no local allocation exists: it refused before any effect, or its partial failure for
  exactly this allocation was followed by a recovery answering absent. An ambiguous reserve never
  leads to a hosted dispatch.\<close>

theorem hosted_only_if_proven_absent:
  assumes "outbound_local_dispatch fromiso ad ttl package reservation resume initial_cstate = (r, s')"
    and "pget package ''backend'' = PStr ''local''" and "EDispatch p \<in> set (cs_events s')" and "no_local_authority p"
  shows "p = hosted_values package
    \<and> (\<exists>pre. proven_absent ad reservation pre \<and> cs_events s' = pre @ [EDispatch p])"
proof -
  have reserve: ?thesis if "reserve_step fromiso ad package reservation resume initial_cstate = (r1, s')"
    and "\<nexists>v. r1 = Inr (Reserved v)" for r1
  proof -
    from reserve_stepD [OF that(1)] that(2) assms(3) obtain h pre where
      "github_hosted_fallback fromiso package = Inr h" "proven_absent ad reservation pre"
      "cs_events s' = pre @ [EDispatch h]"
      by (auto simp: dispatches_zero)
    moreover from this assms(3) have "p = h"
      using proven_absent_silent by (auto simp: dispatches_zero)
    ultimately show ?thesis using fallback_values by blast
  qed
  from assms(1) show ?thesis
  proof (cases rule: outbound_cases)
    case (tried pre es reserved s2)
    have quiet: "EDispatch p \<notin> set pre" "EDispatch p \<notin> set es"
      using tried(1,2) by auto
    have body: "EDispatch p \<notin> set xs"
      if "set xs \<subseteq> body_events (local_package fromiso package reservation reserved)" for xs
      using that local_package_authority [of fromiso package reservation reserved p] assms(2,4) by auto
    from tried(6) dispatch_body_emits show ?thesis
    proof (cases rule: tried_cases)
      case (finished x xs)
      with assms(3) tried(4) quiet body show ?thesis by auto
    next
      case (recovered e xs post)
      with assms(3) tried(4) quiet body show ?thesis by auto
    qed
  qed (use assms(3) reserve in auto)
qed

theorem hosted_only_if_proven_absent_witness:
  "\<exists>pre. proven_absent sample_unavailable sample_reservation pre"
proof -
  obtain s where "sample_run sample_unavailable sample_local_package [] = (Inr (hosted_values sample_local_package, None), s)"
    and "EDispatch (hosted_values sample_local_package) \<in> set (cs_events s)"
    using sample_run_hosted by auto
  from hosted_only_if_proven_absent [OF this(1) [unfolded sample_run_def] sample_reads(6) this(2) hosted_values_no_authority]
  show ?thesis by blast
qed

text \<open>C7. Whenever a call that already dispatched, observed, signed or finalized for the local allocation
  fails, the broker has been asked to recover exactly the reserved allocation after the last of these
  calls, and nothing but progress records follows.\<close>

theorem failed_local_dispatch_recovers:
  assumes "outbound_local_dispatch fromiso ad ttl package reservation resume initial_cstate = (Inl exc, s')"
    and "ev \<in> set (cs_events s')"
    and "ev \<in> range ESign \<union> range EFinalize \<union> range (case_prod EObserve) \<union> {EDispatch p |p. \<not> no_local_authority p}"
  shows "\<exists>before aid post. cs_events s' = before @ ERecover aid # post \<and> ev \<in> set before
    \<and> py_eq aid (pget reservation ''allocation_id'') \<and> set post \<subseteq> {PRecovered, PAmbiguous}"
proof -
  have absurd: "ev \<notin> set pre" if "set pre \<subseteq> {EReserve reservation} \<union> range ERecover \<union> range PReserved" for pre
    using that assms(3) by auto
  have hosted: "ev \<notin> set (pre @ [EDispatch h])"
    if "proven_absent ad reservation pre" and "github_hosted_fallback fromiso package = Inr h" for pre h
    using that assms(3) fallback_values [OF that(2)] hosted_values_no_authority [of package]
    by (auto simp: proven_absent_def)
  from assms(1) show ?thesis
  proof (cases rule: outbound_cases)
    case (failed e)
    have "\<not> set (cs_events s') \<subseteq> {EReserve reservation} \<union> range ERecover"
      using assms(2) absurd [of "cs_events s'"] by blast
    with reserve_stepD [OF failed(1)] hosted assms(2) show ?thesis by auto
  next
    case (rejected pre es e)
    then have "set (cs_events s') \<subseteq> {EReserve reservation} \<union> range ERecover \<union> range PReserved" by auto
    with absurd assms(2) show ?thesis by blast
  next
    case (tried pre es reserved s2)
    then have quiet: "ev \<notin> set (cs_events s2)" using absurd [of "cs_events s2"] by auto
    from tried(6) dispatch_body_emits show ?thesis
    proof (cases rule: tried_cases)
      case (recovered e xs post)
      have "ev \<in> set (cs_events s2 @ xs)"
        using assms(2,3) recovered(2,5) by auto
      with recovered tried(3) show ?thesis
        by (intro exI [of _ "cs_events s2 @ xs"] exI [of _ "pget reserved ''allocation_id''"] exI [of _ post]) simp
    qed simp
  qed simp
qed

theorem failed_local_dispatch_recovers_witness:
  "\<exists>s before aid post. sample_run sample_unobserved sample_local_package [] = (Inl (OtherException ''timeout''), s)
     \<and> cs_events s = before @ ERecover aid # post"
proof -
  obtain s where "sample_run sample_unobserved sample_local_package [] = (Inl (OtherException ''timeout''), s)"
    and "EObserve (PInt 77) (PStr sample_label) \<in> set (cs_events s)"
    using sample_run_fails by blast
  from failed_local_dispatch_recovers [OF this(1) [unfolded sample_run_def] this(2)] this(1) show ?thesis
    by (force intro: image_eqI [of _ "case_prod EObserve" "(PInt 77, PStr sample_label)"])
qed

text \<open>A successful local dispatch returns the accepted package of this reservation with an observed
  job, has signed a payload bound to that job's run and to the package's tested commit, and has not
  asked for any recovery.\<close>

theorem successful_local_dispatch_bound:
  assumes "outbound_local_dispatch fromiso ad ttl package reservation resume initial_cstate = (Inr (p, Some j), s')"
  shows "(\<exists>reserved. local_package fromiso package reservation reserved p
      \<and> py_eq (pget reserved ''allocation_id'') (pget reservation ''allocation_id''))
    \<and> (\<exists>payload. ESign payload \<in> set (cs_events s')
        \<and> pget payload ''tested_sha'' = pget p ''tested_sha''
        \<and> pget payload ''run_id'' = PStr (fmt (oj_run_id j))
        \<and> pget payload ''dispatch_sha'' = oj_dispatch_sha j)
    \<and> (\<forall>aid. ERecover aid \<notin> set (cs_events s'))"
  using assms
proof (cases rule: outbound_cases)
  case (tried pre es reserved s2)
  from tried(6) dispatch_body_emits show ?thesis
  proof (cases rule: tried_cases)
    case (finished x xs)
    then have "dispatch_body fromiso ad ttl package reservation resume reserved s2 = (Inr (p, Some j), s')" by simp
    from dispatch_body_InrD [OF this] obtain window where pkg: "local_package fromiso package reservation reserved p"
      and sign: "ESign (allocation_payload reservation p j window) \<in> set (cs_events s')" by auto
    have payload: "pget (allocation_payload reservation p j window) k
        = (if k = ''tested_sha'' then pget p ''tested_sha'' else if k = ''run_id'' then PStr (fmt (oj_run_id j))
           else oj_dispatch_sha j)" if "k \<in> {''tested_sha'', ''run_id'', ''dispatch_sha''}" for k
      using that by (auto simp: allocation_payload_def Let_def pmerge_def)
    have "ERecover aid \<notin> set (cs_events s')" for aid
      using finished tried(1,2,4) by auto
    moreover have "pget (allocation_payload reservation p j window) ''tested_sha'' = pget p ''tested_sha''"
      "pget (allocation_payload reservation p j window) ''run_id'' = PStr (fmt (oj_run_id j))"
      "pget (allocation_payload reservation p j window) ''dispatch_sha'' = oj_dispatch_sha j"
      by (simp_all add: payload)
    ultimately show ?thesis using pkg tried(3) sign by blast
  qed simp
qed simp_all

theorem successful_local_dispatch_bound_witness:
  "\<exists>s payload. sample_run sample_adapters sample_local_package [] = (Inr (sample_local_package, Some sample_observed), s)
     \<and> ESign payload \<in> set (cs_events s) \<and> pget payload ''run_id'' = PStr (fmt (oj_run_id sample_observed))"
proof -
  obtain s where "sample_run sample_adapters sample_local_package [] = (Inr (sample_local_package, Some sample_observed), s)"
    using sample_run_succeeds by blast
  from successful_local_dispatch_bound [OF this [unfolded sample_run_def]] this show ?thesis by blast
qed

text \<open>C8. The handler of a failed dispatch reads \<open>resumed_run_id\<close>, which is unbound when the package itself
  was refused: on a resumed \<open>dispatching\<close> phase, after an exact recovery, the refusal is replaced by
  an \<open>UnboundLocalError\<close>.\<close>

theorem resumed_refusal_raises_unbound:
  assumes "exact_reserved v = Inr reserved" and "protocol_package fromiso (PDict (local_values package reservation reserved)) = Inl e"
    and "pget resume ''reserved'' = v" and "v \<noteq> PNone" and "pget resume ''phase'' = PStr ''dispatching''"
    and "py_eq (pget reserved ''allocation_id'') (pget reservation ''allocation_id'')"
    and "py_eq (pget reserved ''runner_label'') (pget reservation ''scale_set_name'')"
    and "ad_progress ad = Some p" and "p [] (PReserved reserved) = Inr ()"
    and "ad_recover ad [PReserved reserved] (pget reserved ''allocation_id'') = Inr rec"
    and "py_eq rec (PDict [(''allocation_id'', pget reserved ''allocation_id''), (''state'', PStr ''absent'')])"
  shows "fst (outbound_local_dispatch fromiso ad ttl package reservation resume initial_cstate)
    = Inl (OtherException ''UnboundLocalError'')"
  using assms
  by (simp add: outbound_local_dispatch_def reserve_step_def bindC_def liftC_def requireC_def progressC_def callC_def
      set_ambiguous_def tryC_def dispatch_body_def protocolE_def dispatch_failed_def assert_exact_recovery_def
      recovery_record_def initial_cstate_def Let_def del: py_eq.simps)

theorem resumed_refusal_raises_unbound_witness:
  "fst (outbound_local_dispatch (\<lambda>_. None) sample_adapters (minutes 12) [] sample_reservation
     [(''reserved'', PDict sample_reserved), (''phase'', PStr ''dispatching'')] initial_cstate)
   = Inl (OtherException ''UnboundLocalError'')"
proof -
  have "\<exists>e. protocol_package (\<lambda>_. None) (PDict (local_values [] sample_reservation sample_reserved)) = Inl e"
    by (simp add: protocol_package_def keys_exact_def keys_cover_def local_values_def pmerge_def pkeys_def
        PROTOCOL_FIELDS_def)
  then obtain e where refused:
    "protocol_package (\<lambda>_. None) (PDict (local_values [] sample_reservation sample_reserved)) = Inl e" by blast
  show ?thesis
    by (rule resumed_refusal_raises_unbound [OF sample_reserved_exact refused,
          where p = "\<lambda>_ _. Inr ()" and rec = "PDict [(''allocation_id'', PStr sample_allocation_id), (''state'', PStr ''absent'')]"])
      (simp_all add: pget_def [of "(_, _) # _"] sample_adapters_def)
qed

end
