(* ===== verification/Allocation_Flow.thy ===== *)
theory Allocation_Flow
  imports Ledger_Safety Coordinator
begin

text \<open>
  The allocation across its components: what the coordinator builds from a reservation and an observed
  job (\<open>coordinator.py\<close>), signs, and the ledger finalizes (\<open>runner_jit.py\<close>, \<open>crypto.py\<close>).
\<close>

section \<open>Signing and verifying an allocation\<close>

lemma sign_allocationD:
  assumes "sign_allocation H fromiso signers public_of payload key now = Inr envelope"
  obtains sig where "validate_allocation_payload H fromiso (PDict payload) now = Inr ()"
    "sign_detached signers (PDict payload) key (ALLOCATION_DOMAINS (pget payload ''runner_allocation_version'')) = Inr sig"
    "envelope = [(''payload'', PDict payload), (''signer_fingerprint'', PStr (spki_fingerprint H (public_of key))),
       (''signature'', PStr sig)]"
  using assms by (auto simp: sign_allocation_def bindE_eq_Inr)

section \<open>Equality of dictionaries\<close>

lemma py_eq_dict_iff: "py_eq_dict d e \<longleftrightarrow> (\<forall>(k, v) \<in> set d. \<exists>w. map_of e k = Some w \<and> py_eq v w)"
  by (induction d) (auto split: option.splits)

lemma pset_distinct: "distinct (pkeys d) \<Longrightarrow> distinct (pkeys (pset k v d))"
  by (induction d) (auto simp: pkeys_def image_iff dest: map_of_SomeD)

lemma pmerge_distinct: "distinct (pkeys d) \<Longrightarrow> distinct (pkeys (pmerge d e))"
  unfolding pmerge_def
proof (induction e arbitrary: d)
  case (Cons p e)
  then show ?case by (cases p) (simp add: pset_distinct)
qed simp

lemma without_distinct: "distinct (pkeys d) \<Longrightarrow> distinct (pkeys (without ks d))"
  by (simp add: pkeys_def without_def distinct_map_filter)

lemma same_length:
  assumes "distinct (pkeys d)" and "distinct (pkeys e)" and "fst ` set d = fst ` set e"
  shows "length d = length e"
  using assms distinct_card [of "pkeys d"] distinct_card [of "pkeys e"] by (simp add: pkeys_def)

text \<open>Dictionaries with the same keys are equal when their values are.\<close>

lemma py_eq_dicts:
  assumes "distinct (pkeys d)" and "distinct (pkeys e)" and "fst ` set d = fst ` set e"
  shows "py_eq (PDict d) (PDict e) \<longleftrightarrow> (\<forall>k \<in> fst ` set d. py_eq (pget d k) (pget e k))"
proof -
  have get: "pget x k = v" if "distinct (pkeys x)" "(k, v) \<in> set x" for x k v
    using that by (rule pget_member)
  have "(\<exists>w. map_of e k = Some w \<and> py_eq v w) \<longleftrightarrow> py_eq (pget d k) (pget e k)" if "(k, v) \<in> set d" for k v
  proof -
    have "k \<in> fst ` set e" using that assms(3) by force
    then obtain w where "map_of e k = Some w" by (metis map_of_eq_None_iff not_None_eq)
    then show ?thesis using get [OF assms(1) that] by (simp add: pget_def)
  qed
  then have "py_eq_dict d e \<longleftrightarrow> (\<forall>(k, v) \<in> set d. py_eq (pget d k) (pget e k))"
    unfolding py_eq_dict_iff by blast
  with same_length [OF assms] show ?thesis by auto
qed

section \<open>What the coordinator signs\<close>

lemma pget_without: "pget (without ks d) k = (if k \<in> set ks then PNone else pget d k)"
  by (induction d) (auto simp: without_def pget_def split: option.splits)

lemma pget_pmerge: "pget (pmerge d e) k = (case map_of (rev e) k of None \<Rightarrow> pget d k | Some v \<Rightarrow> v)"
  by (simp add: pget_def map_of_pmerge split: option.splits)

lemma without_keys: "fst ` set (without ks d) = fst ` set d - set ks"
  by (force simp: without_def)

definition versioned :: "pydict \<Rightarrow> bool" where
  "versioned reservation =
     ((pget reservation ''allocation_reservation_version'' = PInt 1 \<and> keys_exact reservation LEGACY_RESERVATION_FIELDS)
      \<or> (pget reservation ''allocation_reservation_version'' = PInt 2 \<and> keys_exact reservation RESERVATION_V2_FIELDS))"

lemma payload_base: "filter (\<lambda>(k, _). k \<noteq> ''allocation_reservation_version'') d = without [''allocation_reservation_version''] d"
  by (simp add: without_def)

definition OBSERVED_FIELDS :: "string list" where
  "OBSERVED_FIELDS = [''runner_allocation_version'', ''run_id'', ''run_attempt'', ''job_id'', ''job_name'', ''dispatch_sha'', ''tested_sha'']"

lemma field_sets:
  "insert ''allocation_reservation_version'' ((set LEGACY_RESERVATION_FIELDS - {''allocation_reservation_version''}) \<union> set OBSERVED_FIELDS
     - set PROJECTION_DYNAMIC) = set LEGACY_RESERVATION_FIELDS"
  "insert ''allocation_reservation_version'' (((set RESERVATION_V2_FIELDS - {''allocation_reservation_version''}) \<union> set OBSERVED_FIELDS
     \<union> {''issued_at'', ''claim_deadline''}) - set (PROJECTION_DYNAMIC @ [''issued_at''])) = set RESERVATION_V2_FIELDS"
  "set LEGACY_RESERVATION_FIELDS \<inter> set PROJECTION_DYNAMIC = {}"
  "set RESERVATION_V2_FIELDS \<inter> set (PROJECTION_DYNAMIC @ [''issued_at'']) = {}"
  by code_simp+

lemma observed_keys:
  "fst ` set [(''runner_allocation_version'', a), (''run_id'', b), (''run_attempt'', c), (''job_id'', d), (''job_name'', e),
     (''dispatch_sha'', f), (''tested_sha'', g)] = set OBSERVED_FIELDS"
  by (simp add: OBSERVED_FIELDS_def)

lemma projection_of_v1:
  assumes "pget reservation ''allocation_reservation_version'' = PInt 1"
  shows "reservation_projection (allocation_payload reservation protocol observed window) =
    pset ''allocation_reservation_version'' (PInt 1) (without PROJECTION_DYNAMIC
      (pmerge (without [''allocation_reservation_version''] reservation)
        [(''runner_allocation_version'', PInt 1), (''run_id'', PStr (fmt (oj_run_id observed))),
         (''run_attempt'', oj_run_attempt observed), (''job_id'', PStr (fmt (oj_job_id observed))),
         (''job_name'', oj_job_name observed), (''dispatch_sha'', oj_dispatch_sha observed),
         (''tested_sha'', pget protocol ''tested_sha'')]))"
  by (simp add: reservation_projection_def allocation_payload_def Let_def assms payload_base pget_pmerge)

lemma projection_of_v2:
  assumes "pget reservation ''allocation_reservation_version'' = PInt 2"
  shows "reservation_projection (allocation_payload reservation protocol observed window) =
    pset ''allocation_reservation_version'' (PInt 2) (without (PROJECTION_DYNAMIC @ [''issued_at''])
      (pmerge (pmerge (without [''allocation_reservation_version''] reservation)
        [(''runner_allocation_version'', PInt 2), (''run_id'', PStr (fmt (oj_run_id observed))),
         (''run_attempt'', oj_run_attempt observed), (''job_id'', PStr (fmt (oj_job_id observed))),
         (''job_name'', oj_job_name observed), (''dispatch_sha'', oj_dispatch_sha observed),
         (''tested_sha'', pget protocol ''tested_sha'')])
        [(''issued_at'', fst window), (''claim_deadline'', snd window)]))"
  by (simp add: reservation_projection_def allocation_payload_def Let_def assms payload_base pget_pmerge)

lemma projection_keys:
  assumes "versioned reservation"
  shows "fst ` set (reservation_projection (allocation_payload reservation protocol observed window)) = fst ` set reservation"
  using assms unfolding versioned_def keys_exact_iff
proof (elim disjE conjE)
  assume v: "pget reservation ''allocation_reservation_version'' = PInt 1" "fst ` set reservation = set LEGACY_RESERVATION_FIELDS"
  show ?thesis
    unfolding projection_of_v1 [OF v(1)] pset_keys without_keys pmerge_keys observed_keys v(2)
    using field_sets(1) by simp
next
  assume v: "pget reservation ''allocation_reservation_version'' = PInt 2" "fst ` set reservation = set RESERVATION_V2_FIELDS"
  have "fst ` set [(''issued_at'', fst window), (''claim_deadline'', snd window)] = {''issued_at'', ''claim_deadline''}" by simp
  then show ?thesis
    unfolding projection_of_v2 [OF v(1)] pset_keys without_keys pmerge_keys observed_keys v(2)
    using field_sets(2) by simp
qed

lemma projection_get:
  assumes "versioned reservation" and "k \<in> fst ` set reservation"
  shows "pget (reservation_projection (allocation_payload reservation protocol observed window)) k =
    (if k = ''job_name'' then oj_job_name observed else pget reservation k)"
  using assms(1) unfolding versioned_def keys_exact_iff
proof (elim disjE conjE)
  assume v: "pget reservation ''allocation_reservation_version'' = PInt 1" "fst ` set reservation = set LEGACY_RESERVATION_FIELDS"
  have "k \<notin> set PROJECTION_DYNAMIC" using assms(2) field_sets(3) unfolding v(2) by blast
  then show ?thesis
    unfolding projection_of_v1 [OF v(1)] pget_pset pget_without pget_pmerge
    using v(1) by (auto simp: PROJECTION_DYNAMIC_def)
next
  assume v: "pget reservation ''allocation_reservation_version'' = PInt 2" "fst ` set reservation = set RESERVATION_V2_FIELDS"
  have "k \<notin> set (PROJECTION_DYNAMIC @ [''issued_at''])" using assms(2) field_sets(4) unfolding v(2) by blast
  then show ?thesis
    unfolding projection_of_v2 [OF v(1)] pget_pset pget_without pget_pmerge
    using v(1) by (auto simp: PROJECTION_DYNAMIC_def)
qed

lemma projection_distinct:
  "distinct (pkeys reservation) \<Longrightarrow> distinct (pkeys (reservation_projection (allocation_payload reservation protocol observed window)))"
  by (simp add: reservation_projection_def allocation_payload_def Let_def payload_base pset_distinct without_distinct pmerge_distinct)

lemma job_name_field: "versioned reservation \<Longrightarrow> ''job_name'' \<in> fst ` set reservation"
proof -
  have "''job_name'' \<in> set LEGACY_RESERVATION_FIELDS" "''job_name'' \<in> set RESERVATION_V2_FIELDS" by code_simp+
  then show "versioned reservation \<Longrightarrow> ?thesis" by (auto simp: versioned_def keys_exact_iff)
qed

text \<open>The first key pair check of a verifier: the envelope names the pinned key.\<close>

lemma signed_verifies:
  assumes "sign_allocation H fromiso signers public_of payload sk now = Inr envelope" and "key_pair signers prims sk (public_of sk)"
    and "sha256hex (spki_fingerprint H (public_of sk))"
  shows "verify_allocation H fromiso prims (PDict envelope) (public_of sk) (spki_fingerprint H (public_of sk)) now = Inr payload"
  using assms(1)
proof (rule sign_allocationD)
  fix sig
  assume valid: "validate_allocation_payload H fromiso (PDict payload) now = Inr ()"
    and sig: "sign_detached signers (PDict payload) sk (ALLOCATION_DOMAINS (pget payload ''runner_allocation_version'')) = Inr sig"
    and e: "envelope = [(''payload'', PDict payload), (''signer_fingerprint'', PStr (spki_fingerprint H (public_of sk))),
       (''signature'', PStr sig)]"
  have fields: "keys_exact envelope [''payload'', ''signer_fingerprint'', ''signature'']"
    "pget envelope ''payload'' = PDict payload" "pget envelope ''signature'' = PStr sig"
    "pget envelope ''signer_fingerprint'' = PStr (spki_fingerprint H (public_of sk))"
    by (simp_all add: e dict_eval)
  from sign_verify [OF assms(2) sig] valid assms(3) fields show ?thesis
    by (simp add: verify_allocation_def)
qed

lemma sample_signed:
  "sign_allocation (\<lambda>_. sample_hash) sample_time \<lparr>ed25519_sign = (\<lambda>_ _. replicate 64 (CHR ''0'')), p256_sign = (\<lambda>_ _. (1, 1))\<rparr>
     (\<lambda>_. Ed25519Key ''der'') (sample_allocation id_a) (Ed25519Private ''k'') (Aware 2000000)
   = Inr [(''payload'', PDict (sample_allocation id_a)), (''signer_fingerprint'', PStr sample_hash), (''signature'', PStr sample_signature)]"
proof -
  have "ALLOCATION_DOMAINS (PInt 1) \<noteq> [] \<and> \<not> List.member (ALLOCATION_DOMAINS (PInt 1)) (CHR 0x00)
      \<and> list_all (\<lambda>c. code c < 128) (ALLOCATION_DOMAINS (PInt 1))" by code_simp
  then show ?thesis
    using sample_allocation_safe(1) [of id_a] sample_allocation_valid [OF sample_ids(1)]
    by (simp add: sign_allocation_def sign_detached_def domain_separated_payload_def canonicalize_jcs_def sample_allocation_get
        encode_base64url_raw64_def sample_signature_def spki_fingerprint_def del: jcs_safe.simps replicate.simps)
qed

lemma coordinator_payload_matches_reservation_aux:
  assumes "versioned reservation" and "distinct (pkeys reservation)"
    and "\<forall>k \<in> fst ` set reservation. py_eq (pget reservation k) (pget reservation k)"
  shows "py_eq (PDict (reservation_projection (allocation_payload reservation protocol observed window))) (PDict reservation)
    \<longleftrightarrow> py_eq (oj_job_name observed) (pget reservation ''job_name'')"
proof -
  have "(\<forall>k \<in> fst ` set reservation. py_eq (pget (reservation_projection (allocation_payload reservation protocol observed window)) k)
      (pget reservation k))
    \<longleftrightarrow> (\<forall>k \<in> fst ` set reservation. py_eq (if k = ''job_name'' then oj_job_name observed else pget reservation k) (pget reservation k))"
    by (intro ball_cong refl) (simp only: projection_get [OF assms(1)])
  also have "\<dots> \<longleftrightarrow> py_eq (oj_job_name observed) (pget reservation ''job_name'')"
  proof
    assume "\<forall>k \<in> fst ` set reservation. py_eq (if k = ''job_name'' then oj_job_name observed else pget reservation k) (pget reservation k)"
    from bspec [OF this job_name_field [OF assms(1)]] show "py_eq (oj_job_name observed) (pget reservation ''job_name'')" by simp
  next
    assume "py_eq (oj_job_name observed) (pget reservation ''job_name'')"
    with assms(3) show "\<forall>k \<in> fst ` set reservation. py_eq (if k = ''job_name'' then oj_job_name observed else pget reservation k)
        (pget reservation k)" by simp
  qed
  finally show ?thesis
    unfolding py_eq_dicts [OF projection_distinct [OF assms(2)] assms(2) projection_keys [OF assms(1)]] projection_keys [OF assms(1)] .
qed

section \<open>Properties\<close>

text \<open>C15. A signed allocation verifies: the envelope produced for a key passes verification under its public key and
  fingerprint at the same instant and returns the payload, for Ed25519 and for P-256 with the low-S rewriting.\<close>

theorem signed_allocation_verifies:
  assumes "sign_allocation H fromiso signers public_of payload sk now = Inr envelope" and "key_pair signers prims sk (public_of sk)"
    and "sha256hex (spki_fingerprint H (public_of sk))"
  shows "verify_allocation H fromiso prims (PDict envelope) (public_of sk) (spki_fingerprint H (public_of sk)) now = Inr payload"
  by (rule signed_verifies [OF assms])

theorem signed_allocation_verifies_witness:
  "verify_allocation (\<lambda>_. sample_hash) sample_time sample_prims (PDict [(''payload'', PDict (sample_allocation id_a)),
     (''signer_fingerprint'', PStr sample_hash), (''signature'', PStr sample_signature)]) (Ed25519Key ''der'') sample_hash (Aware 2000000)
   = Inr (sample_allocation id_a)"
  using signed_allocation_verifies [OF sample_signed, of sample_prims] by (simp add: spki_fingerprint_def sample_prims_def)

text \<open>C16. An accepted allocation is for exactly one ephemeral job on the label derived from its id and nonce, and is
  accepted only from thirty seconds before its issue until strictly before a deadline at most fifteen minutes
  after it.\<close>

theorem accepted_allocation_bounded:
  assumes "validate_allocation_payload H fromiso (PDict payload) now = Inr ()"
  shows "\<exists>n issued deadline name. now = Aware n \<and> rj_parse_time fromiso (pget payload ''issued_at'') ''issued_at'' = Inr issued
    \<and> issued - seconds 30 \<le> n \<and> n < deadline \<and> issued < deadline \<and> deadline - issued \<le> minutes 15
    \<and> allocation_scale_set_name H payload = Inr name \<and> pget payload ''scale_set_name'' = PStr name
    \<and> py_eq (pget payload ''labels'') (PList [PStr name])
    \<and> py_eq (pget payload ''max_jobs'') (PInt 1) \<and> pget payload ''ephemeral'' = PBool True"
proof -
  have checks: "check_labels H payload = Inr ()" "check_limits payload = Inr ()" "check_window fromiso payload now = Inr ()"
    using assms by (auto simp: validate_allocation_payload_def bindE_eq_Inr)
  obtain n issued deadline where "now = Aware n" "rj_parse_time fromiso (pget payload ''issued_at'') ''issued_at'' = Inr issued"
    "issued - seconds 30 \<le> n" "n < deadline" "issued < deadline" "deadline - issued \<le> minutes 15"
    using checks(3) unfolding check_window_def
    by (cases now) (auto simp: bindE_eq_Inr check_lifetime_def MAX_APPROVAL_TTL_def MAX_ALLOCATION_CLAIM_TTL_def split: if_splits)
  moreover obtain name where "allocation_scale_set_name H payload = Inr name" "pget payload ''scale_set_name'' = PStr name"
    "py_eq (pget payload ''labels'') (PList [PStr name])"
    using checks(1) by (auto simp: check_labels_def bindE_eq_Inr)
  moreover have "py_eq (pget payload ''max_jobs'') (PInt 1)" "pget payload ''ephemeral'' = PBool True"
    using checks(2) by (auto simp: check_limits_def bindE_eq_Inr)
  ultimately show ?thesis by blast
qed

theorem accepted_allocation_bounded_witness:
  "\<exists>name. allocation_scale_set_name (\<lambda>_. sample_hash) (sample_allocation id_a) = Inr name"
  using accepted_allocation_bounded [OF sample_allocation_valid [OF sample_ids(1)]] by blast

text \<open>What the coordinator signs stays inside its reservation: for a reservation of either version the ledger's
  projection of the coordinator's payload equals the reservation exactly when the observed job carries the
  reserved job name, whatever the run, attempt, dispatch and window.\<close>

theorem coordinator_payload_matches_reservation:
  assumes "versioned reservation" and "distinct (pkeys reservation)"
    and "\<forall>k \<in> fst ` set reservation. py_eq (pget reservation k) (pget reservation k)"
  shows "py_eq (PDict (reservation_projection (allocation_payload reservation protocol observed window))) (PDict reservation)
    \<longleftrightarrow> py_eq (oj_job_name observed) (pget reservation ''job_name'')"
  by (rule coordinator_payload_matches_reservation_aux [OF assms])

definition observed_ci :: ObservedWorkflowJob where
  "observed_ci = \<lparr>oj_run_id = PInt 1, oj_run_attempt = PInt 1, oj_job_id = PInt 1, oj_job_name = PStr ''ci'',
     oj_dispatch_sha = PStr (replicate 40 (CHR ''a''))\<rparr>"

lemma sample_versioned: "versioned (sample_offer i)" "distinct (pkeys (sample_offer i))"
  "\<forall>k \<in> fst ` set (sample_offer i). py_eq (pget (sample_offer i) k) (pget (sample_offer i) k)"
proof -
  have "pget (sample_offer i) ''allocation_reservation_version'' = PInt 1" by (simp add: sample_offer_def pget_def)
  then show "versioned (sample_offer i)" by (simp add: versioned_def sample_allocation_fields)
qed (simp_all add: sample_offer_def sample_bound_def pkeys_def pget_def)

theorem coordinator_payload_matches_reservation_witness:
  "py_eq (PDict (reservation_projection (allocation_payload (sample_offer id_a) [] observed_ci (PNone, PNone))))
     (PDict (sample_offer id_a))"
proof -
  have "pget (sample_offer id_a) ''job_name'' = PStr ''ci''" by (simp add: sample_offer_def sample_bound_def pget_def)
  then show ?thesis
    using coordinator_payload_matches_reservation [OF sample_versioned [of id_a], of "[]" observed_ci "(PNone, PNone)"]
    by (simp add: observed_ci_def)
qed

text \<open>The coordinator's signed allocation is never refused by the ledger that reserved it: if the reservation is still
  only reserved and the observed job has the reserved name, finalizing the envelope the coordinator signed with
  the pinned key issues the allocation.\<close>

theorem signed_reservation_is_issued:
  assumes "ledger_reservation L i = Inr d" and "phase i L = Some ''reserved''" and "ledger_inv L"
    and "versioned d" and "distinct (pkeys d)" and "\<forall>k \<in> fst ` set d. py_eq (pget d k) (pget d k)"
    and "pget d ''allocation_id'' = PStr i" and "py_eq (oj_job_name observed) (pget d ''job_name'')"
    and "sign_allocation H fromiso signers public_of (allocation_payload d protocol observed window) sk now = Inr envelope"
    and "key_pair signers prims sk (public_of sk)" and "sha256hex (spki_fingerprint H (public_of sk))"
  shows "\<exists>L'. finalize H fromiso prims (PDict envelope) (public_of sk) (spki_fingerprint H (public_of sk)) now L = (Inr ''issued'', L')"
proof -
  define payload where "payload = allocation_payload d protocol observed window"
  obtain r where r: "select_row i (lg_rows L) = Some r" "al_state r = ''reserved''" "al_reservation r = Some d"
    using assms(1,2) by (auto simp: ledger_reservation_def phase_def split: option.splits)
  have "row_ok r" using selected_ok [OF _ r(1)] assms(3) by (simp add: ledger_inv_def)
  then have none: "al_payload r = None" using r(2) by (simp add: row_ok_def)
  have projection: "py_eq (PDict (reservation_projection payload)) (PDict d)"
    unfolding payload_def coordinator_payload_matches_reservation_aux [OF assms(4-6)] by (rule assms(8))
  have verified: "verify_allocation H fromiso prims (PDict envelope) (public_of sk) (spki_fingerprint H (public_of sk)) now = Inr payload"
    unfolding payload_def by (rule signed_verifies [OF assms(9-11)])
  then obtain body where body: "canonicalize_jcs (PDict payload) = Inr body"
    using verify_allocationD(1) by (fastforce simp: validate_allocation_payload_def bindE_eq_Inr)
  have "''allocation_id'' \<in> fst ` set d" using assms(7) pget_in_keys [of d "''allocation_id''"] by simp
  with projection_get [OF assms(4) this, of protocol observed window] assms(7)
  have "pget (reservation_projection payload) ''allocation_id'' = PStr i" by (simp add: payload_def)
  then have "pget payload ''allocation_id'' = PStr i"
    by (simp add: reservation_projection_def Let_def pget_without PROJECTION_DYNAMIC_def split: if_splits)
  with r none projection body show ?thesis
    by (simp add: finalize_def verified finalize_body_def Let_def commit_def del: py_eq.simps)
qed

lemma sample_flow: "allocation_payload (sample_offer id_a) [(''tested_sha'', PStr (replicate 40 (CHR ''a'')))] observed_ci (PNone, PNone)
  = sample_allocation id_a"
proof -
  have "fmt (PInt 1) = ''1''" by (simp add: int_str_def nat_str.simps) code_simp
  then show ?thesis
    by (simp add: allocation_payload_def Let_def sample_offer_def sample_bound_def sample_allocation_def observed_ci_def pmerge_def pget_def
        del: fmt.simps replicate.simps)
qed

theorem signed_reservation_is_issued_witness:
  "\<exists>L'. finalize (\<lambda>_. sample_hash) sample_time sample_prims (sample_envelope id_a) (Ed25519Key ''der'') sample_hash (Aware 2000000)
     sample_ledger = (Inr ''issued'', L')"
proof -
  have r: "ledger_reservation sample_ledger id_a = Inr (sample_offer id_a)" "phase id_a sample_ledger = Some ''reserved''"
    by (simp_all add: ledger_reservation_def phase_def sample_ledger_row(2) select_key_Cons)
  have inv: "ledger_inv sample_ledger"
    using lgm.inv_reachable [of "\<lambda>_. sample_hash" sample_time "[CReserve (sample_offer id_a) (Aware 2000000)]"]
    by (simp add: sample_ledger_def)
  have get: "pget (sample_offer id_a) ''allocation_id'' = PStr id_a" "py_eq (oj_job_name observed_ci) (pget (sample_offer id_a) ''job_name'')"
    by (simp_all add: sample_offer_def sample_bound_def pget_def observed_ci_def)
  show ?thesis
    using signed_reservation_is_issued [OF r inv sample_versioned [of id_a] get sample_signed [folded sample_flow], of sample_prims]
    by (simp add: sample_prims_def sample_envelope_def spki_fingerprint_def sample_flow)
qed

end
