(* ===== verification/Check_Delivery.thy ===== *)
theory Check_Delivery
  imports Github_Contracts
begin

text \<open>
  \<open>check_delivery.py\<close>: one PATCH of an exact Check Run, and the read-back that settles a PATCH
  whose answer was lost. The transport is a pair of state transformers; the one of the repository,
  \<open>GitHubCheckTransport\<close>, is in \<open>Check_Transport\<close>, with what a delivery over it leaves behind.
  An exception is a value: those of this module, those of the transport (an HTTP status or an answer
  that cannot be trusted, a refusal of the authority) and any other as \<open>TransportFault\<close>.
\<close>

section \<open>Types\<close>

datatype delivery_error =
    CheckDeliveryError string
  | CheckEvidenceConflict string
  | AmbiguousCheckWrite string
  | GitHubAdapterError string
  | GitHubHTTPError int
  | AuthorityRefusal gh_error
  | TransportFault string

record CheckDelivery =
  check_run_id :: int
  evidence_digest :: string
  conclusion :: string
  target_sha :: string

definition marker :: "CheckDelivery \<Rightarrow> string" where
  "marker d = ''github-automation-evidence:'' @ evidence_digest d"

definition delivery_payload :: "CheckDelivery \<Rightarrow> pydict" where
  "delivery_payload d =
     [(''conclusion'', PStr (conclusion d)), (''head_sha'', PStr (target_sha d)),
      (''external_id'', PStr (marker d))]"

record 's check_transport =
  patch_exact :: "int \<Rightarrow> pydict \<Rightarrow> 's \<Rightarrow> (delivery_error + unit) \<times> 's"
  get_exact :: "int \<Rightarrow> 's \<Rightarrow> (delivery_error + pydict) \<times> 's"

section \<open>Delivery\<close>

text \<open>The read-back; \<open>raise\<close> without an argument re-raises the ambiguous write.\<close>

definition reconcile_write :: "CheckDelivery \<Rightarrow> string \<Rightarrow> pydict \<Rightarrow> delivery_error + string" where
  "reconcile_write d lost observed =
     (if \<not> py_eq (pget observed ''id'') (PInt (check_run_id d))
      then Inl (CheckDeliveryError ''read-back did not return the exact Check Run'')
      else if py_eq (pget observed ''external_id'') (PStr (marker d)) then
        (if \<not> py_eq (pget observed ''head_sha'') (PStr (target_sha d))
            \<or> \<not> py_eq (pget observed ''conclusion'') (PStr (conclusion d))
         then Inl (CheckEvidenceConflict ''evidence marker matched but Check fields conflict'')
         else Inr ''reconciled'')
      else if py_truthy (pget observed ''external_id'')
      then Inl (CheckEvidenceConflict ''exact Check Run contains different evidence'')
      else Inl (AmbiguousCheckWrite lost))"

definition deliver_exact ::
    "CheckDelivery \<Rightarrow> 's check_transport \<Rightarrow> 's \<Rightarrow> (delivery_error + string) \<times> 's" where
  "deliver_exact d transport s =
     (case patch_exact transport (check_run_id d) (delivery_payload d) s of
        (Inr _, s1) \<Rightarrow> (Inr ''delivered'', s1)
      | (Inl (AmbiguousCheckWrite lost), s1) \<Rightarrow>
          (case get_exact transport (check_run_id d) s1 of
             (Inl e, s2) \<Rightarrow> (Inl e, s2)
           | (Inr observed, s2) \<Rightarrow> (reconcile_write d lost observed, s2))
      | (Inl e, s1) \<Rightarrow> (Inl e, s1))"

section \<open>Delivered evidence\<close>

definition carries :: "pydict \<Rightarrow> CheckDelivery \<Rightarrow> bool" where
  "carries r d =
     (pget r ''external_id'' = PStr (marker d) \<and> pget r ''head_sha'' = PStr (target_sha d)
      \<and> pget r ''conclusion'' = PStr (conclusion d))"

lemma reconcile_write_Inr:
  "reconcile_write d lost obs = Inr out \<longleftrightarrow>
     out = ''reconciled'' \<and> py_num (pget obs ''id'') = Some (check_run_id d) \<and> carries obs d"
  by (auto simp: reconcile_write_def carries_def)

text \<open>
  The five ways a delivery ends, as a table over the answers of the transport.
\<close>

lemma deliver_exact_cases:
  obtains
    (delivered) u s1 where
      "patch_exact transport (check_run_id d) (delivery_payload d) s = (Inr u, s1)"
      "deliver_exact d transport s = (Inr ''delivered'', s1)"
  | (refused) e s1 where
      "patch_exact transport (check_run_id d) (delivery_payload d) s = (Inl e, s1)"
      "deliver_exact d transport s = (Inl e, s1)" "\<And>x. e \<noteq> AmbiguousCheckWrite x"
  | (unread) x s1 e s2 where
      "patch_exact transport (check_run_id d) (delivery_payload d) s = (Inl (AmbiguousCheckWrite x), s1)"
      "get_exact transport (check_run_id d) s1 = (Inl e, s2)"
      "deliver_exact d transport s = (Inl e, s2)"
  | (read) x s1 v s2 where
      "patch_exact transport (check_run_id d) (delivery_payload d) s = (Inl (AmbiguousCheckWrite x), s1)"
      "get_exact transport (check_run_id d) s1 = (Inr v, s2)"
      "deliver_exact d transport s = (reconcile_write d x v, s2)"
proof -
  obtain r s1 where p: "patch_exact transport (check_run_id d) (delivery_payload d) s = (r, s1)"
    by fastforce
  show thesis
  proof (cases r)
    case (Inr u)
    then show thesis using p by (intro delivered) (auto simp: deliver_exact_def)
  next
    case (Inl e)
    show thesis
    proof (cases "\<exists>x. e = AmbiguousCheckWrite x")
      case True
      then obtain x where e: "e = AmbiguousCheckWrite x" by blast
      obtain g s2 where "get_exact transport (check_run_id d) s1 = (g, s2)" by fastforce
      then show thesis
        using p Inl e by (cases g) (auto simp: deliver_exact_def intro: unread read)
    next
      case False
      then show thesis
        using p Inl by (intro refused [of e s1]) (auto simp: deliver_exact_def split: delivery_error.splits)
    qed
  qed
qed

end
