(* ===== verification/Check_Transport.thy ===== *)
theory Check_Transport
  imports Check_Delivery Py_Effects
begin

text \<open>
  \<open>GitHubCheckTransport\<close> of \<open>github_adapter.py\<close>: the Check Run requests of the checks-only App, every
  one of them preceded by a fresh check of the token against the authority. The HTTP transport, the
  clock and \<open>json.loads\<close> (with the hook that refuses duplicate keys; \<open>None\<close> is a body it refuses) are
  parameters. A delivery over this transport is then a program over the HTTP interface of GitHub,
  whose documented behaviour is \<open>check_runs_api\<close>.
\<close>

section \<open>Token\<close>

record InstallationToken =
  it_value :: string
  it_expires_at :: pydatetime
  it_repository :: pyval
  it_repository_id :: pyval
  it_installation_id :: pyval
  it_permissions :: pydict

text \<open>\<open>isinstance(v, bool) or v < 1\<close>, negated; the comparison raises on what is no number.\<close>

fun at_least_one :: "pyval \<Rightarrow> gh_error + bool" where
  "at_least_one (PBool b) = Inr False"
| "at_least_one (PInt i) = Inr (1 \<le> i)"
| "at_least_one _ = Inl (GhTypeError ''unorderable types'')"

definition installation_token :: "InstallationToken \<Rightarrow> gh_error + InstallationToken" where
  "installation_token t =
     bindE (requireE (it_value t \<noteq> [] \<and> \<not> list_ex is_space (it_value t))
       (ControlFailure ''installation token is empty or malformed'')) (\<lambda>_.
     bindE (aware (it_expires_at t) (ControlFailure ''installation token expiry must be timezone-aware'')) (\<lambda>_.
     bindE (requireE (py_eq (PDict (it_permissions t)) (PDict MINIMUM_APP_PERMISSIONS))
       (ControlFailure ''installation token permissions are not exactly checks-only'')) (\<lambda>_.
     bindE (at_least_one (it_repository_id t)) (\<lambda>ok.
     bindE (requireE ok (ControlFailure ''installation token repository_id must be positive'')) (\<lambda>_.
     bindE (at_least_one (it_installation_id t)) (\<lambda>ok.
     bindE (requireE ok (ControlFailure ''installation token installation_id must be positive'')) (\<lambda>_.
     Inr t)))))))"

definition token_current :: "InstallationToken \<Rightarrow> AppAuthorityV1 \<Rightarrow> pydatetime \<Rightarrow> gh_error + unit" where
  "token_current t a now =
     bindE (aware now (ControlFailure ''current time must be timezone-aware'')) (\<lambda>_.
     bindE (time_le (it_expires_at t) now) (\<lambda>expired.
     requireE (\<not> expired
         \<and> py_eq (it_repository t) (aa_repository a)
         \<and> py_eq (it_repository_id t) (aa_repository_id a)
         \<and> py_eq (it_installation_id t) (aa_installation_id a)
         \<and> py_eq (PDict (it_permissions t)) (PDict (aa_permissions a))
         \<and> aa_key_state a = ''active'')
       (ControlFailure ''installation token is expired or outside exact authority'')))"

section \<open>Answers\<close>

record HTTPResponse =
  status_of :: int
  body_of :: string

definition GITHUB_API :: string where
  "GITHUB_API = ''https://api.github.com''"

definition json_mapping :: "(string \<Rightarrow> pyval option) \<Rightarrow> string \<Rightarrow> delivery_error + pydict" where
  "json_mapping loads raw =
     (case loads raw of
        None \<Rightarrow> Inl (GitHubAdapterError ''GitHub API response is not unambiguous JSON'')
      | Some v \<Rightarrow>
          (case v of PDict d \<Rightarrow> Inr d
           | _ \<Rightarrow> Inl (GitHubAdapterError ''GitHub API response must be a JSON object'')))"

definition expected_json :: "(string \<Rightarrow> pyval option) \<Rightarrow> HTTPResponse \<Rightarrow> int \<Rightarrow> delivery_error + pydict" where
  "expected_json loads response status =
     (if status_of response \<noteq> status then Inl (GitHubHTTPError (status_of response))
      else json_mapping loads (body_of response))"

definition check_id :: "pyval \<Rightarrow> delivery_error + pyval" where
  "check_id v =
     (if positive_int v then Inr v
      else Inl (AuthorityRefusal (ControlFailure ''check_run_id must be a positive integer'')))"

text \<open>\<open>GitHubHTTPError\<close> is a \<open>GitHubAdapterError\<close>.\<close>

fun adapter_error :: "delivery_error \<Rightarrow> bool" where
  "adapter_error (GitHubAdapterError m) = True"
| "adapter_error (GitHubHTTPError n) = True"
| "adapter_error _ = False"

section \<open>The transport\<close>

record 's check_adapter =
  ca_token :: InstallationToken
  ca_authority :: AppAuthorityV1
  ca_http :: "string \<Rightarrow> string \<Rightarrow> (string \<times> string) list \<Rightarrow> pydict option \<Rightarrow> 's \<Rightarrow> (delivery_error + HTTPResponse) \<times> 's"
  ca_clock :: "'s \<Rightarrow> pydatetime \<times> 's"
  ca_loads :: "string \<Rightarrow> pyval option"

type_synonym ('s, 'a) cio = "('s, delivery_error, 'a) io"

definition refusalC :: "gh_error + 'a \<Rightarrow> ('s, 'a) cio" where
  "refusalC r = pure_io (map_sum AuthorityRefusal id r)"

definition current_tokenC :: "'s check_adapter \<Rightarrow> ('s, unit) cio" where
  "current_tokenC a =
     bindI (\<lambda>s. case ca_clock a s of (now, s1) \<Rightarrow> (Inr now, s1)) (\<lambda>now.
       refusalC (token_current (ca_token a) (ca_authority a) now))"

text \<open>\<open>__init__\<close>.\<close>

definition github_check_transport :: "string \<Rightarrow> 's check_adapter \<Rightarrow> ('s, 's check_adapter) cio" where
  "github_check_transport api_url a =
     bindI (requireI (api_url = GITHUB_API)
       (AuthorityRefusal (ControlFailure ''GitHub API URL must be exactly https://api.github.com''))) (\<lambda>_.
     bindI (current_tokenC a) (\<lambda>_. ret a))"

definition authorizeC :: "'s check_adapter \<Rightarrow> string \<Rightarrow> ('s, unit) cio" where
  "authorizeC a operation =
     bindI (current_tokenC a) (\<lambda>_.
       requireI (permits (ca_authority a) operation (it_repository (ca_token a)) (it_installation_id (ca_token a)))
         (AuthorityRefusal (ControlFailure ''GitHub App operation is outside exact authority'')))"

definition check_url :: "'s check_adapter \<Rightarrow> string \<Rightarrow> string" where
  "check_url a path = GITHUB_API @ ''/repos/'' @ fmt (aa_repository (ca_authority a)) @ path"

definition check_headers :: "'s check_adapter \<Rightarrow> (string \<times> string) list" where
  "check_headers a =
     [(''Accept'', ''application/vnd.github+json''),
      (''Authorization'', ''Bearer '' @ it_value (ca_token a)),
      (''X-GitHub-Api-Version'', PINNED_GITHUB_API_VERSION)]"

definition run_path :: "int \<Rightarrow> string" where
  "run_path n = ''/check-runs/'' @ int_str n"

definition write_check :: "'s check_adapter \<Rightarrow> string \<Rightarrow> string \<Rightarrow> pydict \<Rightarrow> int \<Rightarrow> ('s, pydict) cio" where
  "write_check a verb path payload expected_status =
     bindI (authorizeC a (if verb = ''POST'' then ''checks:create'' else ''checks:update'')) (\<lambda>_.
     bindI (ca_http a verb (check_url a path) (check_headers a) (Some payload)) (\<lambda>response.
     pure_io (expected_json (ca_loads a) response expected_status)))"

definition create_check :: "'s check_adapter \<Rightarrow> pydict \<Rightarrow> ('s, pydict) cio" where
  "create_check a payload =
     bindI (write_check a ''POST'' ''/check-runs'' payload 201) (\<lambda>observed.
     bindI (pure_io (check_id (pget observed ''id''))) (\<lambda>_. ret observed))"

text \<open>The commit is compared with the answer; it is not sent.\<close>

definition wire_payload :: "pydict \<Rightarrow> pydict" where
  "wire_payload payload =
     [(''external_id'', pget payload ''external_id''), (''conclusion'', pget payload ''conclusion'')]"

definition expected_fields :: "int \<Rightarrow> pydict \<Rightarrow> pydict" where
  "expected_fields n payload =
     [(''id'', PInt n), (''head_sha'', pget payload ''head_sha''), (''external_id'', pget payload ''external_id''),
      (''conclusion'', pget payload ''conclusion'')]"

definition patch_check :: "'s check_adapter \<Rightarrow> int \<Rightarrow> pydict \<Rightarrow> ('s, unit) cio" where
  "patch_check a n payload =
     bindI (requireI (keys_exact payload [''conclusion'', ''head_sha'', ''external_id''])
       (AuthorityRefusal (ControlFailure ''Check Run update payload fields are not exact''))) (\<lambda>_.
     bindI (pure_io (check_id (PInt n))) (\<lambda>_.
     bindI (tryI (write_check a ''PATCH'' (run_path n) (wire_payload payload) 200)
       (\<lambda>e. throw (if adapter_error e then AmbiguousCheckWrite ''Check Run update outcome is ambiguous'' else e))) (\<lambda>observed.
     requireI (list_all (\<lambda>(f, v). py_eq (pget observed f) v) (expected_fields n payload))
       (AmbiguousCheckWrite ''Check Run update response did not match exact evidence''))))"

definition get_check :: "'s check_adapter \<Rightarrow> int \<Rightarrow> ('s, pydict) cio" where
  "get_check a n =
     bindI (authorizeC a ''metadata:read'') (\<lambda>_.
     bindI (pure_io (check_id (PInt n))) (\<lambda>_.
     bindI (ca_http a ''GET'' (check_url a (run_path n)) (check_headers a) None) (\<lambda>response.
     bindI (pure_io (expected_json (ca_loads a) response 200)) (\<lambda>observed.
     bindI (requireI (py_eq (pget observed ''id'') (PInt n)) (GitHubAdapterError ''Check Run read returned a different ID'')) (\<lambda>_.
     ret observed)))))"

definition check_transport_of :: "'s check_adapter \<Rightarrow> 's check_transport" where
  "check_transport_of a = \<lparr>patch_exact = patch_check a, get_exact = get_check a\<rparr>"

section \<open>The HTTP interface relied on\<close>

text \<open>
  \<open>run s n\<close> is the record GitHub holds of Check Run \<open>n\<close> of the repository, of which four fields
  matter. The documentation of the Check Runs interface gives: an update of a run sets the fields
  sent or, refused or lost, none of them; neither it nor a reading touches another run; and an answer
  200 with a JSON object shows the record as it then stands. An answer with another status, an
  unreadable body or an exception tells nothing.
\<close>

definition shown :: "pydict \<Rightarrow> pyval list" where
  "shown r = map (pget r) [''id'', ''head_sha'', ''external_id'', ''conclusion'']"

definition shows_record :: "'s check_adapter \<Rightarrow> delivery_error + HTTPResponse \<Rightarrow> pydict \<Rightarrow> bool" where
  "shows_record a r record_now =
     (case r of
        Inl e \<Rightarrow> True
      | Inr response \<Rightarrow>
          status_of response = 200 \<longrightarrow>
            (case ca_loads a (body_of response) of Some (PDict d) \<Rightarrow> shown d = shown record_now | _ \<Rightarrow> True))"

definition check_runs_api :: "'s check_adapter \<Rightarrow> ('s \<Rightarrow> int \<Rightarrow> pydict) \<Rightarrow> bool" where
  "check_runs_api a run =
     ((\<forall>s n hs x c. case ca_http a ''PATCH'' (check_url a (run_path n)) hs (Some [(''external_id'', x), (''conclusion'', c)]) s of
         (r, s1) \<Rightarrow>
           (\<forall>m. m \<noteq> n \<longrightarrow> shown (run s1 m) = shown (run s m))
           \<and> (shown (run s1 n) = shown (run s n)
              \<or> shown (run s1 n) = shown (pmerge (run s n) [(''external_id'', x), (''conclusion'', c)]))
           \<and> shows_record a r (run s1 n))
      \<and> (\<forall>s n hs. case ca_http a ''GET'' (check_url a (run_path n)) hs None s of
           (r, s1) \<Rightarrow> (\<forall>m. shown (run s1 m) = shown (run s m)) \<and> shows_record a r (run s1 n))
      \<and> (\<forall>s m. shown (run (snd (ca_clock a s)) m) = shown (run s m)))"

lemma check_runs_api_clock: "check_runs_api a run \<Longrightarrow> shown (run (snd (ca_clock a s)) m) = shown (run s m)"
  by (simp add: check_runs_api_def)

lemma check_runs_api_get:
  assumes "check_runs_api a run" and "ca_http a ''GET'' (check_url a (run_path n)) hs None s = (r, s1)"
  shows "shown (run s1 m) = shown (run s m)" and "shows_record a r (run s1 n)"
proof -
  have "case ca_http a ''GET'' (check_url a (run_path n)) hs None s of
      (r, s1) \<Rightarrow> (\<forall>m. shown (run s1 m) = shown (run s m)) \<and> shows_record a r (run s1 n)"
    by (rule assms(1) [unfolded check_runs_api_def, THEN conjunct2, THEN conjunct1, THEN spec [of _ s], THEN spec [of _ n], THEN spec [of _ hs]])
  then show "shown (run s1 m) = shown (run s m)" and "shows_record a r (run s1 n)" by (simp_all add: assms(2))
qed

lemma check_runs_api_patch:
  assumes "check_runs_api a run"
    and "ca_http a ''PATCH'' (check_url a (run_path n)) hs (Some [(''external_id'', x), (''conclusion'', c)]) s = (r, s1)"
  shows "m \<noteq> n \<Longrightarrow> shown (run s1 m) = shown (run s m)"
    and "shown (run s1 n) = shown (run s n) \<or> shown (run s1 n) = shown (pmerge (run s n) [(''external_id'', x), (''conclusion'', c)])"
    and "shows_record a r (run s1 n)"
proof -
  have "case ca_http a ''PATCH'' (check_url a (run_path n)) hs (Some [(''external_id'', x), (''conclusion'', c)]) s of
      (r, s1) \<Rightarrow> (\<forall>m. m \<noteq> n \<longrightarrow> shown (run s1 m) = shown (run s m))
         \<and> (shown (run s1 n) = shown (run s n)
            \<or> shown (run s1 n) = shown (pmerge (run s n) [(''external_id'', x), (''conclusion'', c)]))
         \<and> shows_record a r (run s1 n)"
    by (rule assms(1) [unfolded check_runs_api_def, THEN conjunct1, THEN spec [of _ s], THEN spec [of _ n], THEN spec [of _ hs],
      THEN spec [of _ x], THEN spec [of _ c]])
  then show "m \<noteq> n \<Longrightarrow> shown (run s1 m) = shown (run s m)"
    and "shown (run s1 n) = shown (run s n) \<or> shown (run s1 n) = shown (pmerge (run s n) [(''external_id'', x), (''conclusion'', c)])"
    and "shows_record a r (run s1 n)" by (simp_all add: assms(2))
qed

lemma shows_recordD:
  "shows_record a (Inr response) v \<Longrightarrow> expected_json (ca_loads a) response 200 = Inr d \<Longrightarrow> shown d = shown v"
  by (auto simp: shows_record_def expected_json_def json_mapping_def split: if_splits option.splits pyval.splits)

lemma carries_shown: "shown r = shown r' \<Longrightarrow> carries r d = carries r' d"
  by (simp add: shown_def carries_def)

section \<open>What a delivery leaves behind\<close>

definition sent_fields :: "CheckDelivery \<Rightarrow> pydict" where
  "sent_fields d = [(''external_id'', PStr (marker d)), (''conclusion'', PStr (conclusion d))]"

lemma wire_delivery: "wire_payload (delivery_payload d) = sent_fields d"
  by (simp add: wire_payload_def delivery_payload_def sent_fields_def pget_def)

lemma shown_sent:
  "shown (pmerge r (sent_fields d)) = [pget r ''id'', pget r ''head_sha'', PStr (marker d), PStr (conclusion d)]"
  by (simp add: shown_def pget_def map_of_pmerge sent_fields_def)

lemma shown_pmerge_cong: "shown r = shown r' \<Longrightarrow> shown (pmerge r (sent_fields d)) = shown (pmerge r' (sent_fields d))"
  by (simp add: shown_sent) (simp add: shown_def)

lemma carries_sent: "carries r d \<Longrightarrow> shown (pmerge r (sent_fields d)) = shown r"
  by (simp add: shown_sent) (simp add: shown_def carries_def)

text \<open>From \<open>s\<close> to \<open>s'\<close> no other run changed, and this one not at all or by what a delivery sends.\<close>

definition sent_at_most :: "('s \<Rightarrow> int \<Rightarrow> pydict) \<Rightarrow> CheckDelivery \<Rightarrow> 's \<Rightarrow> 's \<Rightarrow> bool" where
  "sent_at_most run d s s' =
     ((\<forall>m. m \<noteq> check_run_id d \<longrightarrow> shown (run s' m) = shown (run s m))
      \<and> shown (run s' (check_run_id d)) \<in>
          {shown (run s (check_run_id d)), shown (pmerge (run s (check_run_id d)) (sent_fields d))})"

definition unchanged :: "('s \<Rightarrow> int \<Rightarrow> pydict) \<Rightarrow> 's \<Rightarrow> 's \<Rightarrow> bool" where
  "unchanged run s s' = (\<forall>m. shown (run s' m) = shown (run s m))"

lemma sent_at_most_unchanged:
  "sent_at_most run d s s1 \<Longrightarrow> unchanged run s1 s2 \<Longrightarrow> sent_at_most run d s s2"
  "unchanged run s s1 \<Longrightarrow> sent_at_most run d s1 s2 \<Longrightarrow> sent_at_most run d s s2"
  "unchanged run s s1 \<Longrightarrow> sent_at_most run d s s1"
proof -
  let ?n = "check_run_id d"
  show "sent_at_most run d s s2" if "sent_at_most run d s s1" "unchanged run s1 s2"
    using that by (simp add: sent_at_most_def unchanged_def)
  show "sent_at_most run d s s2" if u: "unchanged run s s1" and w: "sent_at_most run d s1 s2"
  proof -
    have "shown (run s1 m) = shown (run s m)" for m using u by (simp add: unchanged_def)
    with w shown_pmerge_cong [OF this [of ?n], of d] show ?thesis by (simp add: sent_at_most_def)
  qed
  show "sent_at_most run d s s1" if "unchanged run s s1"
    using that by (simp add: sent_at_most_def unchanged_def)
qed

lemma sent_at_most_carried:
  "sent_at_most run d s s' \<Longrightarrow> carries (run s (check_run_id d)) d \<Longrightarrow> carries (run s' (check_run_id d)) d"
proof -
  assume w: "sent_at_most run d s s'" and c: "carries (run s (check_run_id d)) d"
  from w carries_sent [OF c] have "shown (run s' (check_run_id d)) = shown (run s (check_run_id d))"
    by (simp add: sent_at_most_def)
  from carries_shown [OF this] c show ?thesis by simp
qed

lemma unchanged_trans: "unchanged run s s1 \<Longrightarrow> unchanged run s1 s2 \<Longrightarrow> unchanged run s s2"
  by (simp add: unchanged_def)

lemma wp_authorize:
  assumes "check_runs_api a run" and "\<And>s1. unchanged run s s1 \<Longrightarrow> Q () s1 \<and> (\<forall>e. R (AuthorityRefusal e) s1)"
  shows "wp (authorizeC a operation) Q R s"
proof -
  obtain now s1 where c: "ca_clock a s = (now, s1)" by fastforce
  have "unchanged run s s1" using check_runs_api_clock [OF assms(1), of s] by (simp add: unchanged_def c)
  from assms(2) [OF this] show ?thesis
    by (cases "token_current (ca_token a) (ca_authority a) now")
      (simp_all add: wp_def authorizeC_def current_tokenC_def refusalC_def io_defs c)
qed

lemma wp_patch_check:
  assumes "check_runs_api a run"
  shows "wp (patch_check a (check_run_id d) (delivery_payload d))
      (\<lambda>_ s'. sent_at_most run d s s' \<and> carries (run s' (check_run_id d)) d) (\<lambda>_ s'. sent_at_most run d s s') s"
proof -
  let ?n = "check_run_id d" and ?p = "delivery_payload d"
  have http: "wp (ca_http a ''PATCH'' (check_url a (run_path ?n)) (check_headers a) (Some (sent_fields d)))
      (\<lambda>response s'. sent_at_most run d s s' \<and> shows_record a (Inr response) (run s' ?n)) (\<lambda>_ s'. sent_at_most run d s s') s1"
    if "unchanged run s s1" for s1
  proof (rule wpI)
    fix x s2 assume "ca_http a ''PATCH'' (check_url a (run_path ?n)) (check_headers a) (Some (sent_fields d)) s1 = (Inr x, s2)"
    note p = check_runs_api_patch [OF assms this [unfolded sent_fields_def], folded sent_fields_def]
    then have "sent_at_most run d s1 s2" by (auto simp: sent_at_most_def)
    then show "sent_at_most run d s s2 \<and> shows_record a (Inr x) (run s2 ?n)"
      using p(3) sent_at_most_unchanged(2) [OF that] by blast
  next
    fix e s2 assume "ca_http a ''PATCH'' (check_url a (run_path ?n)) (check_headers a) (Some (sent_fields d)) s1 = (Inl e, s2)"
    note p = check_runs_api_patch [OF assms this [unfolded sent_fields_def], folded sent_fields_def]
    then have "sent_at_most run d s1 s2" by (auto simp: sent_at_most_def)
    then show "sent_at_most run d s s2" using sent_at_most_unchanged(2) [OF that] by blast
  qed
  have answered: "shown x = shown v \<Longrightarrow> list_all (\<lambda>(f, v). py_eq (pget x f) v) (expected_fields ?n ?p) \<Longrightarrow> carries v d" for x v
    by (simp add: expected_fields_def shown_def carries_def delivery_payload_def pget_def)
  have start: "sent_at_most run d s s" by (rule sent_at_most_unchanged(3)) (simp add: unchanged_def)
  have sent: "wp (write_check a ''PATCH'' (run_path ?n) (sent_fields d) 200)
      (\<lambda>observed s'. sent_at_most run d s s' \<and> shown observed = shown (run s' ?n)) (\<lambda>_ s'. sent_at_most run d s s') s"
    unfolding write_check_def wp_bind
  proof (rule wp_authorize [OF assms], intro conjI allI)
    fix s1 assume u: "unchanged run s s1"
    show "wp (ca_http a ''PATCH'' (check_url a (run_path ?n)) (check_headers a) (Some (sent_fields d)))
        (\<lambda>x. wp (pure_io (expected_json (ca_loads a) x 200))
          (\<lambda>observed s'. sent_at_most run d s s' \<and> shown observed = shown (run s' ?n)) (\<lambda>_ s'. sent_at_most run d s s'))
        (\<lambda>_ s'. sent_at_most run d s s') s1"
      by (rule wp_mono [OF http [OF u]]) (auto dest: shows_recordD split: sum.splits)
    show "sent_at_most run d s s1" by (rule sent_at_most_unchanged(3) [OF u])
  qed
  show ?thesis
  proof (cases "check_id (PInt ?n)")
    case (Inr v)
    then show ?thesis
      unfolding patch_check_def wire_delivery
      by (simp add: start Inr) (intro impI wp_mono [OF sent], auto intro: answered split: if_splits)
  qed (simp add: patch_check_def start)
qed

lemma wp_get_check:
  assumes "check_runs_api a run"
  shows "wp (get_check a n) (\<lambda>observed s'. unchanged run s s' \<and> shown observed = shown (run s' n)) (\<lambda>_ s'. unchanged run s s') s"
  unfolding get_check_def wp_bind
proof (rule wp_authorize [OF assms], intro conjI allI)
  fix s1 assume u: "unchanged run s s1"
  have http: "wp (ca_http a ''GET'' (check_url a (run_path n)) (check_headers a) None)
      (\<lambda>response s'. unchanged run s s' \<and> shows_record a (Inr response) (run s' n)) (\<lambda>_ s'. unchanged run s s') s1"
    using check_runs_api_get [OF assms] u by (intro wpI) (fastforce simp: unchanged_def)+
  show "wp (pure_io (check_id (PInt n)))
      (\<lambda>_. wp (ca_http a ''GET'' (check_url a (run_path n)) (check_headers a) None)
        (\<lambda>response. wp (pure_io (expected_json (ca_loads a) response 200))
          (\<lambda>observed. wp (requireI (py_eq (pget observed ''id'') (PInt n)) (GitHubAdapterError ''Check Run read returned a different ID''))
            (\<lambda>_. wp (ret observed) (\<lambda>observed s'. unchanged run s s' \<and> shown observed = shown (run s' n)) (\<lambda>_ s'. unchanged run s s'))
            (\<lambda>_ s'. unchanged run s s')) (\<lambda>_ s'. unchanged run s s')) (\<lambda>_ s'. unchanged run s s'))
      (\<lambda>_ s'. unchanged run s s') s1"
  proof (cases "check_id (PInt n)")
    case (Inr v)
    show ?thesis by (simp add: Inr) (rule wp_mono [OF http], auto dest: shows_recordD split: sum.splits if_splits)
  qed (simp add: u)
  show "unchanged run s s1" by (rule u)
qed

lemma deliver_leaves:
  assumes "check_runs_api a run" and "deliver_exact d (check_transport_of a) s = (r, s')"
  shows "sent_at_most run d s s'" and "r = Inr out \<Longrightarrow> carries (run s' (check_run_id d)) d"
proof -
  let ?n = "check_run_id d"
  have p: "sent_at_most run d s s1 \<and> (x = Inr () \<longrightarrow> carries (run s1 ?n) d)"
    if "patch_exact (check_transport_of a) ?n (delivery_payload d) s = (x, s1)" for x s1
    using wp_patch_check [OF assms(1), of d s] that by (cases x) (auto simp: check_transport_of_def dest: wp_resultD)
  have g: "unchanged run s1 s2 \<and> (x = Inr v \<longrightarrow> shown v = shown (run s2 ?n))"
    if "get_exact (check_transport_of a) ?n s1 = (x, s2)" for x v s1 s2
    using wp_get_check [OF assms(1), of ?n s1] that by (cases x) (auto simp: check_transport_of_def dest: wp_resultD)
  have "sent_at_most run d s s' \<and> (r = Inr out \<longrightarrow> carries (run s' ?n) d)"
  proof (cases rule: deliver_exact_cases [of "check_transport_of a" d s])
    case (read x s1 v s2)
    then have w: "sent_at_most run d s s'" using p g sent_at_most_unchanged(1) assms(2) by (metis prod.inject)
    have "carries (run s2 ?n) d" if "r = Inr out"
    proof -
      have "reconcile_write d x v = Inr out" using read(3) assms(2) that by simp
      then have "carries v d" by (simp only: reconcile_write_Inr)
      then show ?thesis using g [OF read(2), of v] carries_shown [of v "run s2 ?n" d] by simp
    qed
    with w read(3) assms(2) show ?thesis by simp
  next
    case (unread x s1 e s2)
    then show ?thesis using p g sent_at_most_unchanged(1) assms(2) by (metis prod.inject sum.distinct(1))
  qed (use p assms(2) in \<open>auto\<close>)
  then show "sent_at_most run d s s'" and "r = Inr out \<Longrightarrow> carries (run s' ?n) d" by simp_all
qed

definition redelivered :: "CheckDelivery \<Rightarrow> 's check_adapter \<Rightarrow> nat \<Rightarrow> 's \<Rightarrow> 's" where
  "redelivered d a k = (\<lambda>s. snd (deliver_exact d (check_transport_of a) s)) ^^ k"

text \<open>C25. Over the HTTP interface of GitHub, with answers that can be lost, unreadable or refused at any request: a
  delivery that returns has left the marker, the commit and the conclusion of its evidence on its
  Check Run, and they stay there through any number of redeliveries, whatever these return or raise.
  A delivery that raises has written either nothing or both of its fields, and none ever touches
  another Check Run.\<close>

theorem delivery_lands_exactly_once:
  assumes "check_runs_api a run" and "deliver_exact d (check_transport_of a) s = (r, s')"
  shows "(r = Inr out \<longrightarrow> carries (run (redelivered d a k s') (check_run_id d)) d)
    \<and> (shown (run s' (check_run_id d)) = shown (run s (check_run_id d))
       \<or> shown (run s' (check_run_id d)) = [pget (run s (check_run_id d)) ''id'', pget (run s (check_run_id d)) ''head_sha'',
           PStr (marker d), PStr (conclusion d)])
    \<and> (m \<noteq> check_run_id d \<longrightarrow> shown (run s' m) = shown (run s m))"
proof -
  have "carries (run (redelivered d a k s') (check_run_id d)) d" if "r = Inr out"
  proof (induction k)
    case 0
    show ?case using deliver_leaves(2) [OF assms that] by (simp add: redelivered_def)
  next
    case (Suc k)
    have "deliver_exact d (check_transport_of a) (redelivered d a k s') =
        (fst (deliver_exact d (check_transport_of a) (redelivered d a k s')), redelivered d a (Suc k) s')"
      by (simp add: redelivered_def)
    then have "sent_at_most run d (redelivered d a k s') (redelivered d a (Suc k) s')"
      by (rule deliver_leaves(1) [OF assms(1)])
    from sent_at_most_carried [OF this Suc] show ?case .
  qed
  with deliver_leaves(1) [OF assms] show ?thesis by (simp add: sent_at_most_def shown_sent)
qed

text \<open>
  A host of one Check Run: its external identity and its conclusion, and a script of what happens to
  the next updates; one without an entry is answered.
\<close>

datatype patch_fate = LostApplied | LostUnapplied

type_synonym sample_host = "patch_fate list \<times> string \<times> string"

definition sample_run :: "sample_host \<Rightarrow> int \<Rightarrow> pydict" where
  "sample_run s n =
     (if n = 91 then [(''id'', PInt 91), (''head_sha'', PStr ''cd''), (''external_id'', PStr (fst (snd s))),
        (''conclusion'', PStr (snd (snd s)))] else [])"

definition sample_body :: "string \<Rightarrow> string \<Rightarrow> HTTPResponse" where
  "sample_body x c =
     (if List.member c (CHR 0x0A) then \<lparr>status_of = 500, body_of = []\<rparr> else \<lparr>status_of = 200, body_of = c @ CHR 0x0A # x\<rparr>)"

definition sample_loads :: "string \<Rightarrow> pyval option" where
  "sample_loads b =
     Some (PDict (sample_run ([], tl (dropWhile (\<lambda>ch. ch \<noteq> CHR 0x0A) b), takeWhile (\<lambda>ch. ch \<noteq> CHR 0x0A) b) 91))"

fun text_fields :: "pydict option \<Rightarrow> (string \<times> string) option" where
  "text_fields (Some [(_, PStr x), (_, PStr c)]) = (if List.member c (CHR 0x0A) then None else Some (x, c))"
| "text_fields _ = None"

definition sample_update :: "pydict option \<Rightarrow> sample_host \<Rightarrow> (delivery_error + HTTPResponse) \<times> sample_host" where
  "sample_update body s =
     (case text_fields body of
        None \<Rightarrow> (Inr \<lparr>status_of = 422, body_of = []\<rparr>, s)
      | Some (x, c) \<Rightarrow>
          (case fst s of
             [] \<Rightarrow> (Inr (sample_body x c), [], x, c)
           | LostApplied # fs \<Rightarrow> (Inl (GitHubAdapterError ''timeout''), fs, x, c)
           | LostUnapplied # fs \<Rightarrow> (Inl (GitHubAdapterError ''timeout''), fs, snd s)))"

definition sample_adapter :: "sample_host check_adapter" where
  "sample_adapter =
     \<lparr>ca_token = \<lparr>it_value = ''ghs'', it_expires_at = Aware 10, it_repository = aa_repository sample_app,
        it_repository_id = aa_repository_id sample_app, it_installation_id = aa_installation_id sample_app,
        it_permissions = MINIMUM_APP_PERMISSIONS\<rparr>,
      ca_authority = sample_app,
      ca_http = (\<lambda>verb url hs body s.
        if url \<noteq> GITHUB_API @ ''/repos/'' @ fmt (aa_repository sample_app) @ ''/check-runs/91''
        then (Inr \<lparr>status_of = 404, body_of = []\<rparr>, s)
        else if verb = ''GET'' then (Inr (sample_body (fst (snd s)) (snd (snd s))), s) else sample_update body s),
      ca_clock = (\<lambda>s. (Aware 5, s)), ca_loads = sample_loads\<rparr>"

definition sample_delivery :: CheckDelivery where
  "sample_delivery =
     \<lparr>check_run_id = 91, evidence_digest = ''ab'', conclusion = ''success'', target_sha = ''cd''\<rparr>"

lemma sample_loads_body:
  assumes "\<not> List.member c (CHR 0x0A)"
  shows "sample_loads (c @ CHR 0x0A # x) = Some (PDict (sample_run (fs, x, c) 91))"
proof -
  have "\<forall>ch\<in>set c. ch \<noteq> CHR 0x0A" using assms by auto
  then show ?thesis by (simp add: sample_loads_def sample_run_def takeWhile_tail dropWhile_append3)
qed

lemma sample_url: "check_url sample_adapter (run_path n) = GITHUB_API @ ''/repos/'' @ fmt (aa_repository sample_app) @ ''/check-runs/91'' \<longleftrightarrow> n = 91"
proof -
  have "int_str 91 = ''91''" by (simp add: int_str_def nat_str.simps) code_simp
  then have "int_str n = ''91'' \<longleftrightarrow> n = 91" using int_str_inj by metis
  then show ?thesis by (simp add: check_url_def run_path_def sample_adapter_def)
qed

lemma sample_shows: "shows_record sample_adapter (Inr (sample_body x c)) (sample_run (fs, x, c) 91)"
  by (cases "List.member c (CHR 0x0A)")
    (simp_all add: shows_record_def sample_body_def sample_loads_body [of c x fs] sample_adapter_def)

lemma text_fields_pair:
  "text_fields (Some [(''external_id'', x), (''conclusion'', c)]) =
     (case (x, c) of (PStr x', PStr c') \<Rightarrow> (if List.member c' (CHR 0x0A) then None else Some (x', c')) | _ \<Rightarrow> None)"
  by (cases x; cases c) simp_all

lemma sample_update_api:
  assumes "sample_update (Some [(''external_id'', x), (''conclusion'', c)]) s = (r, s1)"
  shows "(shown (sample_run s1 91) = shown (sample_run s 91)
      \<or> shown (sample_run s1 91) = shown (pmerge (sample_run s 91) [(''external_id'', x), (''conclusion'', c)]))
    \<and> shows_record sample_adapter r (sample_run s1 91)"
proof -
  have refused: "shows_record sample_adapter (Inr \<lparr>status_of = 422, body_of = []\<rparr>) v"
    and lost: "shows_record sample_adapter (Inl e) v" for v e by (simp_all add: shows_record_def)
  have set: "shown (sample_run (fs, x', c') 91) = shown (pmerge (sample_run s 91) [(''external_id'', PStr x'), (''conclusion'', PStr c')])" for fs x' c'
    by (simp add: shown_def sample_run_def pmerge_def pget_def)
  have kept: "shown (sample_run (fs, snd s) 91) = shown (sample_run s 91)" for fs by (simp add: sample_run_def)
  show ?thesis using assms sample_shows set kept refused lost
    by (auto simp: sample_update_def text_fields_pair split: option.splits pyval.splits if_splits list.splits patch_fate.splits)
qed

lemma sample_run_other: "m \<noteq> 91 \<Longrightarrow> sample_run s m = sample_run s' m"
  by (simp add: sample_run_def)

lemma sample_api: "check_runs_api sample_adapter sample_run"
proof -
  have h: "ca_http sample_adapter verb (check_url sample_adapter (run_path n)) hs body s =
      (if n \<noteq> 91 then (Inr \<lparr>status_of = 404, body_of = []\<rparr>, s)
       else if verb = ''GET'' then (Inr (sample_body (fst (snd s)) (snd (snd s))), s) else sample_update body s)" for verb n hs body s
    unfolding sample_url [symmetric] by (simp add: sample_adapter_def)
  have missing: "shows_record sample_adapter (Inr \<lparr>status_of = 404, body_of = []\<rparr>) v" for v
    by (simp add: shows_record_def)
  have read: "shows_record sample_adapter (Inr (sample_body (fst (snd s)) (snd (snd s)))) (sample_run s 91)" for s
    using sample_shows [of "fst (snd s)" "snd (snd s)" "fst s"] by simp
  have clock: "snd (ca_clock sample_adapter s) = s" for s by (simp add: sample_adapter_def)
  show ?thesis
    unfolding check_runs_api_def h clock
    by (intro conjI allI) (auto simp: missing read dest: sample_update_api sample_run_other [THEN arg_cong] split: prod.splits)
qed

theorem delivery_lands_exactly_once_witness:
  "\<exists>s'. deliver_exact sample_delivery (check_transport_of sample_adapter) ([LostApplied, LostUnapplied], [], []) = (Inr ''reconciled'', s')
     \<and> carries (sample_run (redelivered sample_delivery sample_adapter 5 s') 91) sample_delivery
     \<and> shown (sample_run s' 92) = shown (sample_run ([], [], []) 92)"
proof -
  let ?r = "deliver_exact sample_delivery (check_transport_of sample_adapter) ([LostApplied, LostUnapplied], [], [])"
  have "fst ?r = Inr ''reconciled''" by code_simp
  then have e: "?r = (Inr ''reconciled'', snd ?r)" by (metis prod.collapse)
  from delivery_lands_exactly_once [OF sample_api e, of "''reconciled''" 5 92]
  have "carries (sample_run (redelivered sample_delivery sample_adapter 5 (snd ?r)) 91) sample_delivery"
    "shown (sample_run (snd ?r) 92) = shown (sample_run ([], [], []) 92)"
    by (simp_all add: sample_delivery_def sample_run_def)
  with e show ?thesis by blast
qed

end
