(* ===== verification/Autodispatch.thy ===== *)
theory Autodispatch
  imports Py_Prelude
begin

text \<open>
  \<open>pr_autodispatch.py\<close>: from the open pull requests GitHub reports and the rows of the approval
  store, the list of revocations and approvals to apply. Dictionaries keyed by a number are
  association lists in insertion order; \<open>sorted\<close> over their keys is \<open>sort\<close>.
\<close>

section \<open>Types\<close>

datatype dispatch_error = AutoDispatchError string

definition ACTIVE_STATES :: "string list" where
  "ACTIVE_STATES = [''pending'', ''claimed'']"

definition SETTLED_STATES :: "string list" where
  "SETTLED_STATES = [''completed'', ''failed'', ''revoked'', ''expired'']"

record OpenPullRequest =
  number :: pyval
  head_sha :: pyval

text \<open>
  An entry of the sequence: a pull request as its constructor left it, or any other object.
\<close>

datatype pull_entry = Pull int string | OtherEntry

text \<open>\<open>OpenPullRequest.__post_init__\<close>.\<close>

definition open_pull_request :: "OpenPullRequest \<Rightarrow> dispatch_error + pull_entry" where
  "open_pull_request p =
     (case number p of
        PInt n \<Rightarrow>
          (if n < 1 then Inl (AutoDispatchError ''pull request number must be positive'')
           else (case head_sha p of
                   PStr h \<Rightarrow>
                     (if sha40 h then Inr (Pull n h)
                      else Inl (AutoDispatchError ''pull request head must be a full commit SHA''))
                 | _ \<Rightarrow> Inl (AutoDispatchError ''pull request head must be a full commit SHA'')))
      | _ \<Rightarrow> Inl (AutoDispatchError ''pull request number must be positive''))"

datatype action_kind = Revoke | Approve

record Action =
  kind :: action_kind
  pr_number :: int
  action_head :: string
  reason :: string

section \<open>The three loops\<close>

fun collect_heads :: "(int \<times> string) list \<Rightarrow> pull_entry list \<Rightarrow> dispatch_error + (int \<times> string) list" where
  "collect_heads heads [] = Inr heads"
| "collect_heads heads (OtherEntry # ps) =
     Inl (AutoDispatchError ''open pull request entries must be exact'')"
| "collect_heads heads (Pull n h # ps) =
     (if n \<in> set (map fst heads) then Inl (AutoDispatchError ''GitHub reported one pull request twice'')
      else collect_heads (heads @ [(n, h)]) ps)"

text \<open>\<open>active.setdefault(number, []).append(head)\<close>.\<close>

fun push_active :: "int \<Rightarrow> string \<Rightarrow> (int \<times> string list) list \<Rightarrow> (int \<times> string list) list" where
  "push_active n h [] = [(n, [h])]"
| "push_active n h ((m, hs) # act) =
     (if m = n then (m, hs @ [h]) # act else (m, hs) # push_active n h act)"

definition approval_entry :: "pydict \<Rightarrow> dispatch_error + int \<times> string \<times> string" where
  "approval_entry a =
     (case (pget a ''pr_number'', pget a ''head_sha'', pget a ''state'') of
        (PInt n, PStr h, PStr st) \<Rightarrow>
          (if 1 \<le> n \<and> sha40 h then Inr (n, h, st)
           else Inl (AutoDispatchError ''stored approval row is not exact''))
      | _ \<Rightarrow> Inl (AutoDispatchError ''stored approval row is not exact''))"

fun collect_approvals ::
    "(int \<times> string list) list \<Rightarrow> (int \<times> string) list \<Rightarrow> pydict list
     \<Rightarrow> dispatch_error + (int \<times> string list) list \<times> (int \<times> string) list" where
  "collect_approvals active settled [] = Inr (active, settled)"
| "collect_approvals active settled (a # rows) =
     bindE (approval_entry a) (\<lambda>(n, h, st).
       if st \<in> set ACTIVE_STATES then collect_approvals (push_active n h active) settled rows
       else if st \<in> set SETTLED_STATES then collect_approvals active ((n, h) # settled) rows
       else collect_approvals active settled rows)"

definition active_heads :: "(int \<times> string list) list \<Rightarrow> int \<Rightarrow> string list" where
  "active_heads active n = (case map_of active n of None \<Rightarrow> [] | Some hs \<Rightarrow> hs)"

definition revocation :: "(int \<times> string) list \<Rightarrow> (int \<times> string list) list \<Rightarrow> int \<Rightarrow> Action list" where
  "revocation heads active n =
     (case filter (\<lambda>h. map_of heads n \<noteq> Some h) (active_heads active n) of
        [] \<Rightarrow> []
      | h # _ \<Rightarrow>
          [\<lparr>kind = Revoke, pr_number = n, action_head = h,
            reason = (if map_of heads n = None then ''closed'' else ''superseded by a newer commit'')\<rparr>])"

definition approval ::
    "(int \<times> string) list \<Rightarrow> (int \<times> string list) list \<Rightarrow> (int \<times> string) list \<Rightarrow> int \<Rightarrow> Action list" where
  "approval heads active settled n =
     (case map_of heads n of
        None \<Rightarrow> []
      | Some h \<Rightarrow>
          (if h \<in> set (active_heads active n) \<or> (n, h) \<in> set settled then []
           else [\<lparr>kind = Approve, pr_number = n, action_head = h, reason = ''new pull request head''\<rparr>]))"

definition plan :: "pull_entry list \<Rightarrow> pydict list \<Rightarrow> dispatch_error + Action list" where
  "plan open_pull_requests approvals =
     bindE (collect_heads [] open_pull_requests) (\<lambda>heads.
     bindE (collect_approvals [] [] approvals) (\<lambda>(active, settled).
       Inr (concat (map (revocation heads active) (sort (map fst active)))
            @ concat (map (approval heads active settled) (sort (map fst heads))))))"

section \<open>What the loops collect\<close>

definition pulls :: "pull_entry list \<Rightarrow> (int \<times> string) list" where
  "pulls ps = [(n, h). Pull n h \<leftarrow> ps]"

lemma pulls_simps [simp]: "pulls [] = []" "pulls (Pull n h # ps) = (n, h) # pulls ps"
  by (simp_all add: pulls_def)

lemma pulls_iff [simp]: "(n, h) \<in> set (pulls ps) \<longleftrightarrow> Pull n h \<in> set ps"
  unfolding pulls_def by (force split: pull_entry.splits)

lemma collect_heads_Inr:
  "collect_heads heads ps = Inr hs \<Longrightarrow>
     OtherEntry \<notin> set ps \<and> hs = heads @ pulls ps
     \<and> (distinct (map fst heads) \<longrightarrow> distinct (map fst hs))"
  by (induction heads ps arbitrary: hs rule: collect_heads.induct) (auto split: if_splits)

lemma collect_heads_spec:
  assumes "collect_heads [] ps = Inr hs"
  shows "distinct (map fst hs)" and "map_of hs n = Some h \<longleftrightarrow> Pull n h \<in> set ps"
proof -
  have d: "distinct (map fst hs)" and s: "hs = pulls ps"
    using collect_heads_Inr [OF assms] by auto
  show "distinct (map fst hs)" by (rule d)
  show "map_of hs n = Some h \<longleftrightarrow> Pull n h \<in> set ps"
    using d by (simp add: s)
qed

lemma push_active_heads [simp]:
  "active_heads (push_active n h act) m = active_heads act m @ (if m = n then [h] else [])"
  by (induction act) (auto simp: active_heads_def)

lemma push_active_keys [simp]:
  "fst ` set (push_active n h act) = insert n (fst ` set act)"
  by (induction n h act rule: push_active.induct) auto

lemma push_active_set_keys [simp]:
  "set (map fst (push_active n h act)) = insert n (set (map fst act))"
  using push_active_keys by (simp only: set_map)

lemma push_active_distinct:
  "distinct (map fst act) \<Longrightarrow> distinct (map fst (push_active n h act))"
  by (induction n h act rule: push_active.induct) (auto simp del: set_map)

text \<open>The rows of one state class, as pairs of pull request and head in store order.\<close>

definition rows_in :: "string list \<Rightarrow> pydict list \<Rightarrow> (int \<times> string) list" where
  "rows_in states approvals =
     [(n, h). Inr (n, h, st) \<leftarrow> map approval_entry approvals, st \<in> set states]"

lemma rows_in_Nil [simp]: "rows_in ss [] = []"
  by (simp add: rows_in_def)

lemma rows_in_Cons:
  "approval_entry a = Inr (n, h, st) \<Longrightarrow>
     rows_in ss (a # rows) = (if st \<in> set ss then [(n, h)] else []) @ rows_in ss rows"
  by (simp add: rows_in_def)

lemma states_disjoint: "st \<in> set ACTIVE_STATES \<Longrightarrow> st \<notin> set SETTLED_STATES"
  by (auto simp: ACTIVE_STATES_def SETTLED_STATES_def)

lemma collect_approvals_Inr:
  "collect_approvals act stl rows = Inr (act', stl') \<Longrightarrow>
     active_heads act' n = active_heads act n @ [h. (m, h) \<leftarrow> rows_in ACTIVE_STATES rows, m = n]
     \<and> set stl' = set stl \<union> set (rows_in SETTLED_STATES rows)
     \<and> fst ` set act' = fst ` set act \<union> fst ` set (rows_in ACTIVE_STATES rows)
     \<and> (distinct (map fst act) \<longrightarrow> distinct (map fst act'))
     \<and> (\<forall>a \<in> set rows. \<exists>r. approval_entry a = Inr r)"
proof (induction rows arbitrary: act stl)
  case (Cons a rows)
  from Cons.prems obtain k g st where r: "approval_entry a = Inr (k, g, st)"
    by (auto simp: bindE_eq_Inr)
  show ?case
    using Cons.prems Cons.IH [of "push_active k g act" stl] Cons.IH [of act "(k, g) # stl"]
      Cons.IH [of act stl] states_disjoint [of st]
    by (auto simp: r rows_in_Cons [OF r] push_active_distinct split: if_splits)
qed simp

section \<open>What a plan decides\<close>

abbreviation active_row :: "pydict list \<Rightarrow> int \<Rightarrow> string \<Rightarrow> bool" where
  "active_row approvals n h \<equiv> (n, h) \<in> set (rows_in ACTIVE_STATES approvals)"

abbreviation settled_row :: "pydict list \<Rightarrow> int \<Rightarrow> string \<Rightarrow> bool" where
  "settled_row approvals n h \<equiv> (n, h) \<in> set (rows_in SETTLED_STATES approvals)"

text \<open>The active heads of one pull request that are not its current head, in store order.\<close>

definition stale_heads :: "pull_entry list \<Rightarrow> pydict list \<Rightarrow> int \<Rightarrow> string list" where
  "stale_heads prs approvals n =
     [h. (m, h) \<leftarrow> rows_in ACTIVE_STATES approvals, m = n \<and> Pull n h \<notin> set prs]"

lemma stale_heads_iff:
  "h \<in> set (stale_heads prs approvals n) \<longleftrightarrow> active_row approvals n h \<and> Pull n h \<notin> set prs"
  by (auto simp: stale_heads_def)

text \<open>The plan over what the loops collect, with the collections named.\<close>

lemma plan_cases:
  assumes "plan prs approvals = Inr acts"
  obtains heads active settled where
    "acts = concat (map (revocation heads active) (sort (map fst active)))
            @ concat (map (approval heads active settled) (sort (map fst heads)))"
    "distinct (map fst heads)" "distinct (map fst active)"
    "\<And>n h. map_of heads n = Some h \<longleftrightarrow> Pull n h \<in> set prs"
    "\<And>n. active_heads active n = [h. (m, h) \<leftarrow> rows_in ACTIVE_STATES approvals, m = n]"
    "\<And>n. n \<in> fst ` set active \<longleftrightarrow> (\<exists>h. active_row approvals n h)"
    "set settled = set (rows_in SETTLED_STATES approvals)"
proof -
  from assms obtain heads active settled where
    h: "collect_heads [] prs = Inr heads" and
    c: "collect_approvals [] [] approvals = Inr (active, settled)" and
    e: "acts = concat (map (revocation heads active) (sort (map fst active)))
            @ concat (map (approval heads active settled) (sort (map fst heads)))"
    unfolding plan_def by (auto simp: bindE_eq_Inr)
  note c' = collect_approvals_Inr [OF c]
  show thesis
  proof (rule that [OF e])
    show "distinct (map fst heads)" "\<And>n h. map_of heads n = Some h \<longleftrightarrow> Pull n h \<in> set prs"
      using collect_heads_spec [OF h] by blast+
    show "distinct (map fst active)" "set settled = set (rows_in SETTLED_STATES approvals)"
      using c' [of 0] by simp_all
    show "active_heads active n = [h. (m, h) \<leftarrow> rows_in ACTIVE_STATES approvals, m = n]" for n
      using conjunct1 [OF c' [of n]] by (simp add: active_heads_def)
    have "fst ` set active = fst ` set (rows_in ACTIVE_STATES approvals)"
      using c' [of 0] by simp
    then show "n \<in> fst ` set active \<longleftrightarrow> (\<exists>h. active_row approvals n h)" for n
      by (simp add: image_iff Bex_def)
  qed
qed

lemma stale_filter:
  assumes "\<And>n h. map_of heads n = Some h \<longleftrightarrow> Pull n h \<in> set prs"
    and "\<And>n. active_heads active n = [h. (m, h) \<leftarrow> rows_in ACTIVE_STATES approvals, m = n]"
  shows "filter (\<lambda>h. map_of heads n \<noteq> Some h) (active_heads active n) = stale_heads prs approvals n"
proof -
  have "filter P [h. (m, h) \<leftarrow> xs, m = n] = [h. (m, h) \<leftarrow> xs, m = n \<and> P h]"
    for P and xs :: "(int \<times> string) list"
    by (induction xs) auto
  then show ?thesis by (simp add: assms stale_heads_def)
qed

lemma revocation_mem:
  "a \<in> set (revocation heads active n) \<longleftrightarrow>
     (\<exists>h hs. filter (\<lambda>h. map_of heads n \<noteq> Some h) (active_heads active n) = h # hs
       \<and> a = \<lparr>kind = Revoke, pr_number = n, action_head = h,
               reason = (if map_of heads n = None then ''closed'' else ''superseded by a newer commit'')\<rparr>)"
  unfolding revocation_def
  by (cases "filter (\<lambda>h. map_of heads n \<noteq> Some h) (active_heads active n)") (simp_all del: filter.simps)

lemma approval_mem:
  "a \<in> set (approval heads active settled n) \<longleftrightarrow>
     (\<exists>h. map_of heads n = Some h \<and> h \<notin> set (active_heads active n) \<and> (n, h) \<notin> set settled
       \<and> a = \<lparr>kind = Approve, pr_number = n, action_head = h, reason = ''new pull request head''\<rparr>)"
  by (auto simp: approval_def split: option.split)

lemma stale_needs_active:
  "stale_heads prs approvals n \<noteq> [] \<Longrightarrow> \<exists>h. active_row approvals n h"
  by (metis list.set_intros(1) neq_Nil_conv stale_heads_iff)

definition approve_action :: "int \<Rightarrow> string \<Rightarrow> Action" where
  "approve_action n h =
     \<lparr>kind = Approve, pr_number = n, action_head = h, reason = ''new pull request head''\<rparr>"

definition revoke_action :: "pull_entry list \<Rightarrow> int \<Rightarrow> string \<Rightarrow> Action" where
  "revoke_action prs n h =
     \<lparr>kind = Revoke, pr_number = n, action_head = h,
      reason = (if list_ex (\<lambda>(m, g). m = n) (pulls prs) then ''superseded by a newer commit'' else ''closed'')\<rparr>"

lemma bex_range: "(\<And>n. P n \<Longrightarrow> n \<in> N) \<Longrightarrow> (\<exists>n\<in>N. P n) \<longleftrightarrow> (\<exists>n. P n)"
  by blast

text \<open>C24. What a plan contains, exactly: an approval for each open head that is neither active nor
  settled, and one revocation for each pull request with an active approval of another head,
  naming the first such head in store order and the reason. Nothing else.
\<close>

theorem plan_exact:
  assumes "plan prs approvals = Inr acts"
  shows "a \<in> set acts \<longleftrightarrow>
     (\<exists>n h. Pull n h \<in> set prs \<and> \<not> active_row approvals n h \<and> \<not> settled_row approvals n h
        \<and> a = approve_action n h)
     \<or> (\<exists>n h hs. stale_heads prs approvals n = h # hs \<and> a = revoke_action prs n h)"
proof (cases rule: plan_cases [OF assms])
  case (1 heads active settled)
  have known: "list_ex (\<lambda>(m, g). m = n) (pulls prs) \<longleftrightarrow> map_of heads n \<noteq> None" for n
    using 1(4) [of n] by (cases "map_of heads n") (auto simp: list_ex_iff simp flip: pulls_iff)
  have rev: "\<lparr>kind = Revoke, pr_number = n, action_head = h,
      reason = (if map_of heads n = None then ''closed'' else ''superseded by a newer commit'')\<rparr>
      = revoke_action prs n h" for n h
    by (simp add: revoke_action_def known)
  have "(\<exists>n \<in> fst ` set active. a \<in> set (revocation heads active n)) \<longleftrightarrow>
      (\<exists>n. \<exists>h hs. stale_heads prs approvals n = h # hs \<and> a = revoke_action prs n h)"
    unfolding revocation_mem stale_filter [OF 1(4,5)] rev
    by (rule bex_range, rule 1(6) [THEN iffD2], rule stale_needs_active [of prs]) force
  moreover have act: "h \<in> set (active_heads active n) \<longleftrightarrow> active_row approvals n h" for n h
    by (auto simp: 1(5))
  have "(\<exists>n \<in> fst ` set heads. a \<in> set (approval heads active settled n)) \<longleftrightarrow>
      (\<exists>n. \<exists>h. Pull n h \<in> set prs \<and> \<not> active_row approvals n h \<and> \<not> settled_row approvals n h
        \<and> a = approve_action n h)"
    unfolding approval_mem act 1(7) approve_action_def [symmetric]
    unfolding 1(4)
    by (rule bex_range, elim exE conjE, drule 1(4) [THEN iffD2], drule map_of_SomeD) force
  ultimately show ?thesis
    unfolding 1(1) by (simp add: disj_commute)
qed

definition head_text :: "char \<Rightarrow> string" where
  "head_text c = replicate 40 c"

definition sample_row :: "int \<Rightarrow> char \<Rightarrow> string \<Rightarrow> pydict" where
  "sample_row n c st =
     [(''pr_number'', PInt n), (''head_sha'', PStr (head_text c)), (''state'', PStr st)]"

definition sample_pulls :: "pull_entry list" where
  "sample_pulls = [Pull 7 (head_text CHR ''b''), Pull 3 (head_text CHR ''c'')]"

definition sample_approvals :: "pydict list" where
  "sample_approvals =
     [sample_row 7 CHR ''a'' ''pending'', sample_row 9 CHR ''d'' ''claimed'',
      sample_row 3 CHR ''c'' ''failed'']"

lemma sample_plan:
  "plan sample_pulls sample_approvals =
     Inr [revoke_action sample_pulls 7 (head_text CHR ''a''), revoke_action sample_pulls 9 (head_text CHR ''d''),
          approve_action 7 (head_text CHR ''b'')]"
  by code_simp

theorem plan_exact_witness:
  "approve_action 7 (head_text CHR ''b'') \<in> set
     [revoke_action sample_pulls 7 (head_text CHR ''a''), revoke_action sample_pulls 9 (head_text CHR ''d''),
      approve_action 7 (head_text CHR ''b'')]
   \<and> \<not> settled_row sample_approvals 7 (head_text CHR ''b'')"
  using plan_exact [OF sample_plan, of "approve_action 7 (head_text CHR ''b'')"]
  by (auto simp: approve_action_def revoke_action_def)

text \<open>A plan is orderly: every revocation comes before every approval, each group is in the order of
  the pull request numbers, and no pull request gets two revocations or two approvals.
\<close>

theorem plan_orderly:
  assumes "plan prs approvals = Inr acts"
  obtains revs apps where "acts = revs @ apps"
    and "\<forall>a \<in> set revs. kind a = Revoke" and "\<forall>a \<in> set apps. kind a = Approve"
    and "sorted_wrt (<) (map pr_number revs)" and "sorted_wrt (<) (map pr_number apps)"
proof (cases rule: plan_cases [OF assms])
  case (1 heads active settled)
  have strict: "sorted_wrt (<) (map pr_number (concat (map f (sort ns))))"
    if "distinct ns" and "\<And>n. length (f n) \<le> 1" and "\<And>n a. a \<in> set (f n) \<Longrightarrow> pr_number a = n"
    for f :: "int \<Rightarrow> Action list" and ns
  proof -
    have "sorted_wrt (<) (map pr_number (concat (map f ms)))" if "sorted_wrt (<) ms" for ms
      using that
    proof (induction ms)
      case (Cons m ms)
      have one: "f m = [] \<or> (\<exists>a. f m = [a] \<and> pr_number a = m)"
        using \<open>\<And>n. length (f n) \<le> 1\<close> [of m] \<open>\<And>n a. a \<in> set (f n) \<Longrightarrow> pr_number a = n\<close> [of _ m]
        by (cases "f m") auto
      have "m < pr_number a" if "a \<in> set (concat (map f ms))" for a
        using that Cons.prems \<open>\<And>n a. a \<in> set (f n) \<Longrightarrow> pr_number a = n\<close> by auto
      with Cons one show ?case by auto
    qed simp
    moreover have "sorted_wrt (<) (sort ns)"
      using that(1) by (simp add: strict_sorted_iff)
    ultimately show ?thesis by blast
  qed
  show thesis
    by (rule that [OF 1(1)])
      (auto simp: revocation_def approval_def intro!: strict 1(2,3)
        split: list.splits option.splits if_splits)
qed

theorem plan_orderly_witness:
  "\<exists>revs apps. [revoke_action sample_pulls 7 (head_text CHR ''a''), revoke_action sample_pulls 9 (head_text CHR ''d''),
          approve_action 7 (head_text CHR ''b'')] = revs @ apps
     \<and> sorted_wrt (<) (map pr_number revs)"
  by (rule plan_orderly [OF sample_plan]) blast

text \<open>Planning fails exactly when an entry is not a pull request, a number is reported twice, or a
  stored row is not exact, whatever the row's state: one bad row stops every pull request.
\<close>

theorem plan_refuses:
  "(\<exists>acts. plan prs approvals = Inr acts) \<longleftrightarrow>
     OtherEntry \<notin> set prs \<and> distinct (map fst (pulls prs))
     \<and> (\<forall>a \<in> set approvals. \<exists>r. approval_entry a = Inr r)"
proof -
  have heads: "(\<exists>hs. collect_heads acc ps = Inr hs) \<longleftrightarrow>
      OtherEntry \<notin> set ps \<and> distinct (map fst (pulls ps))
      \<and> set (map fst acc) \<inter> set (map fst (pulls ps)) = {}" for acc ps
    by (induction acc ps rule: collect_heads.induct) auto
  have rows: "(\<exists>r. collect_approvals act stl as = Inr r) \<longleftrightarrow> (\<forall>a \<in> set as. \<exists>r. approval_entry a = Inr r)"
    for act stl as
  proof (induction as arbitrary: act stl)
    case (Cons a as)
    then show ?case by (cases "approval_entry a") (auto split: prod.splits)
  qed simp
  have "(\<exists>acts. plan prs approvals = Inr acts) \<longleftrightarrow>
      (\<exists>hs. collect_heads [] prs = Inr hs) \<and> (\<exists>r. collect_approvals [] [] approvals = Inr r)"
    unfolding plan_def by (auto simp: bindE_eq_Inr split: prod.splits)
  then show ?thesis by (simp only: heads rows) simp
qed

end
