(* ===== verification/Jit_Pilot.thy ===== *)
theory Jit_Pilot
  imports Attestation_Authority Allocation Worker_Errors
begin

text \<open>
  \<open>jit_pilot.py\<close>: the package that carries one pilot run, its revalidation against the live
  repository, the monitor that turns the observed run into one terminal outcome of the allocation,
  and the entry point of the workflow's validation step. Exceptions keep their class; the texts of
  \<open>JitPilotError\<close> are not kept, since every caller only tests the class. The monitor's collaborators
  (GitHub, broker, clock, sleeper) are functions on an abstract state, so that their answers may
  depend on all earlier calls; clock readings are integers in one unit.
\<close>

section \<open>The package\<close>

datatype jp_error = JitPilotError | PilotTypeError | PilotAttributeError | PilotOSError | PilotFault wk_exc

record JitPilotPackageV1 =
  pp_repository :: pyval
  pp_repository_id :: pyval
  pp_pr_number :: pyval
  pp_base_branch :: pyval
  pp_base_sha :: pyval
  pp_head_sha :: pyval
  pp_tested_merge_sha :: pyval
  pp_workflow_ref :: pyval
  pp_backend :: pyval
  pp_allocation_id :: pyval
  pp_runner_label :: pyval
  pp_issued_at :: pyval
  pp_expires_at :: pyval
  pp_version :: pyval

definition PILOT_FIELDS :: "string list" where
  "PILOT_FIELDS = [''repository'', ''repository_id'', ''pr_number'', ''base_branch'', ''base_sha'', ''head_sha'',
     ''tested_merge_sha'', ''workflow_ref'', ''backend'', ''allocation_id'', ''runner_label'', ''issued_at'',
     ''expires_at'', ''jit_pilot_package_version'']"

definition pilot_package_of :: "pydict \<Rightarrow> JitPilotPackageV1" where
  "pilot_package_of v =
     \<lparr>pp_repository = pget v ''repository'', pp_repository_id = pget v ''repository_id'',
      pp_pr_number = pget v ''pr_number'', pp_base_branch = pget v ''base_branch'',
      pp_base_sha = pget v ''base_sha'', pp_head_sha = pget v ''head_sha'',
      pp_tested_merge_sha = pget v ''tested_merge_sha'', pp_workflow_ref = pget v ''workflow_ref'',
      pp_backend = pget v ''backend'', pp_allocation_id = pget v ''allocation_id'',
      pp_runner_label = pget v ''runner_label'', pp_issued_at = pget v ''issued_at'',
      pp_expires_at = pget v ''expires_at'', pp_version = pget v ''jit_pilot_package_version''\<rparr>"

text \<open>\<open>_time\<close>: the text must be the canonical stamp of the instant it denotes.\<close>

fun pilot_time :: "(string \<Rightarrow> pydatetime option) \<Rightarrow> pyval \<Rightarrow> jp_error + instant" where
  "pilot_time iso8601 (PStr s) =
     (if s = [] \<or> last s \<noteq> CHR ''Z'' then Inl JitPilotError
      else case iso8601 (utc_offset s) of
          Some (Aware t) \<Rightarrow> if stamp t = s then Inr t else Inl JitPilotError
        | _ \<Rightarrow> Inl JitPilotError)"
| "pilot_time iso8601 _ = Inl JitPilotError"

text \<open>\<open>pattern.fullmatch(v)\<close> without a type test before it.\<close>

fun fullmatch :: "(string \<Rightarrow> bool) \<Rightarrow> pyval \<Rightarrow> jp_error + bool" where
  "fullmatch p (PStr s) = Inr (p s)"
| "fullmatch p _ = Inl PilotTypeError"

text \<open>\<open>v or ""\<close>.\<close>

definition or_empty :: "pyval \<Rightarrow> pyval" where
  "or_empty v = (if py_truthy v then v else PStr [])"

text \<open>
  \<open>UUID(v)\<close> followed by \<open>str(allocation) != v\<close>: both refusals raise the same class. A value that
  is not text fails inside \<open>UUID\<close>.
\<close>

fun exact_uuid :: "pyval \<Rightarrow> jp_error + unit" where
  "exact_uuid (PStr s) = (if canonical_uuid s then Inr () else Inl JitPilotError)"
| "exact_uuid (PTime t) = Inl PilotTypeError"
| "exact_uuid _ = Inl PilotAttributeError"

definition branch_text :: "string \<Rightarrow> bool" where
  "branch_text s = (s \<noteq> [] \<and> list_all (\<lambda>c. is_name_char c \<or> c = CHR ''/'') s)"

text \<open>
  The workflow pattern has two groups, the repository and the branch. No class of the first group
  has a second slash, so the groups equal the package's fields exactly when the text is this one.
\<close>

definition pilot_workflow_ref :: "string \<Rightarrow> string \<Rightarrow> string" where
  "pilot_workflow_ref repo branch =
     repo @ ''/.github/workflows/ci-jit-pilot-child.yml@refs/heads/'' @ branch"

definition check_pilot_identity :: "JitPilotPackageV1 \<Rightarrow> jp_error + unit" where
  "check_pilot_identity p =
     bindE (requireE (py_eq (pp_version p) (PInt 1)) JitPilotError) (\<lambda>_.
     bindE (fullmatch loose_repository_name (pp_repository p)) (\<lambda>ok.
     bindE (requireE ok JitPilotError) (\<lambda>_.
     bindE (requireE (positive_int (pp_repository_id p) \<and> positive_int (pp_pr_number p)) JitPilotError) (\<lambda>_.
     bindE (requireE (str_matches branch_text (pp_base_branch p)) JitPilotError) (\<lambda>_.
     requireE (str_matches sha40 (pp_base_sha p) \<and> str_matches sha40 (pp_head_sha p)
       \<and> str_matches sha40 (pp_tested_merge_sha p)) JitPilotError)))))"

definition check_pilot_workflow :: "JitPilotPackageV1 \<Rightarrow> jp_error + unit" where
  "check_pilot_workflow p =
     requireE (case (pp_repository p, pp_base_branch p) of
         (PStr repo, PStr branch) \<Rightarrow> pp_workflow_ref p = PStr (pilot_workflow_ref repo branch)
       | _ \<Rightarrow> False) JitPilotError"

definition check_pilot_backend :: "JitPilotPackageV1 \<Rightarrow> jp_error + unit" where
  "check_pilot_backend p =
     (if py_eq (pp_backend p) (PStr ''local'') then
        bindE (exact_uuid (or_empty (pp_allocation_id p))) (\<lambda>_.
        bindE (fullmatch transient_label_text (or_empty (pp_runner_label p))) (\<lambda>ok.
        requireE ok JitPilotError))
      else if py_eq (pp_backend p) (PStr ''github'') then
        requireE (pp_allocation_id p = PNone \<and> pp_runner_label p = PNone) JitPilotError
      else Inl JitPilotError)"

definition check_pilot_lifetime ::
    "(string \<Rightarrow> pydatetime option) \<Rightarrow> JitPilotPackageV1 \<Rightarrow> pydatetime \<Rightarrow> jp_error + unit" where
  "check_pilot_lifetime iso8601 p now =
     bindE (pilot_time iso8601 (pp_issued_at p)) (\<lambda>issued.
     bindE (pilot_time iso8601 (pp_expires_at p)) (\<lambda>expires.
     case now of
       Naive t \<Rightarrow> Inl JitPilotError
     | Aware t \<Rightarrow> requireE (issued \<le> t \<and> t < expires \<and> \<not> seconds 900 < expires - issued) JitPilotError))"

definition validate_pilot_package ::
    "(string \<Rightarrow> pydatetime option) \<Rightarrow> JitPilotPackageV1 \<Rightarrow> pydatetime \<Rightarrow> jp_error + unit" where
  "validate_pilot_package iso8601 p now =
     bindE (check_pilot_identity p) (\<lambda>_.
     bindE (check_pilot_workflow p) (\<lambda>_.
     bindE (check_pilot_backend p) (\<lambda>_. check_pilot_lifetime iso8601 p now)))"

definition pilot_package ::
    "(string \<Rightarrow> pydatetime option) \<Rightarrow> pyval \<Rightarrow> pydatetime \<Rightarrow> jp_error + JitPilotPackageV1" where
  "pilot_package iso8601 value now =
     (case value of
        PDict v \<Rightarrow>
          bindE (requireE (keys_exact v PILOT_FIELDS) JitPilotError) (\<lambda>_.
          bindE (validate_pilot_package iso8601 (pilot_package_of v) now) (\<lambda>_.
          Inr (pilot_package_of v)))
      | _ \<Rightarrow> Inl JitPilotError)"

section \<open>Revalidation against GitHub\<close>

record pilot_reader =
  rd_repository :: "jp_error + pydict"
  rd_branch :: "pyval \<Rightarrow> jp_error + pydict"
  rd_pull_request :: "pyval \<Rightarrow> jp_error + pydict"
  rd_workflow :: "jp_error + pydict"

definition revalidate_package :: "JitPilotPackageV1 \<Rightarrow> pilot_reader \<Rightarrow> jp_error + unit" where
  "revalidate_package p github =
     bindE (rd_repository github) (\<lambda>repository.
     bindE (requireE (py_eq (pget repository ''id'') (pp_repository_id p)
         \<and> py_eq (pget repository ''full_name'') (pp_repository p)
         \<and> py_eq (pget repository ''default_branch'') (pp_base_branch p)) JitPilotError) (\<lambda>_.
     bindE (rd_branch github (pp_base_branch p)) (\<lambda>branch.
     bindE (requireE (py_eq (pget branch ''name'') (pp_base_branch p) \<and> is_dict (pget branch ''commit'')
         \<and> py_eq (pget (dict_of (pget branch ''commit'')) ''sha'') (pp_base_sha p)) JitPilotError) (\<lambda>_.
     bindE (rd_pull_request github (pp_pr_number p)) (\<lambda>pull.
     bindE (requireE (py_eq (pget pull ''number'') (pp_pr_number p) \<and> py_eq (pget pull ''state'') (PStr ''open'')
         \<and> is_dict (pget pull ''head'') \<and> py_eq (pget (dict_of (pget pull ''head'')) ''sha'') (pp_head_sha p)
         \<and> is_dict (pget pull ''base'')
         \<and> py_eq (pget (dict_of (pget pull ''base'')) ''ref'') (pp_base_branch p)
         \<and> is_dict (pget (dict_of (pget pull ''base'')) ''repo'')
         \<and> py_eq (pget (dict_of (pget (dict_of (pget pull ''base'')) ''repo'')) ''id'') (pp_repository_id p))
         JitPilotError) (\<lambda>_.
     bindE (rd_workflow github) (\<lambda>workflow.
     requireE (py_eq (pget workflow ''path'') (PStr ''.github/workflows/ci-jit-pilot-child.yml'')
         \<and> py_eq (pget workflow ''state'') (PStr ''active'')) JitPilotError)))))))"

section \<open>The terminal monitor\<close>

definition TERMINAL_CONCLUSIONS :: "(string \<times> string) list" where
  "TERMINAL_CONCLUSIONS = [(''success'', ''success''), (''failure'', ''failure''), (''cancelled'', ''cancel''),
     (''timed_out'', ''timeout'')]"

text \<open>\<open>label in v\<close>: an element of a list, a key of a dictionary, a part of a text.\<close>

fun occurs_in :: "string \<Rightarrow> string \<Rightarrow> bool" where
  "occurs_in p [] = (p = [])"
| "occurs_in p (c # s) = (take (length p) (c # s) = p \<or> occurs_in p s)"

fun label_in :: "string \<Rightarrow> pyval \<Rightarrow> jp_error + bool" where
  "label_in l (PList vs) = Inr (list_ex (\<lambda>v. py_eq v (PStr l)) vs)"
| "label_in l (PStr s) = Inr (occurs_in l s)"
| "label_in l (PDict d) = Inr (List.member (pkeys d) l)"
| "label_in l _ = Inl PilotTypeError"

definition labels_of :: "pydict \<Rightarrow> pyval" where
  "labels_of j = (case map_of j ''labels'' of None \<Rightarrow> PList [] | Some v \<Rightarrow> v)"

definition exact_job :: "string \<Rightarrow> int \<Rightarrow> int \<Rightarrow> pyval \<Rightarrow> jp_error + bool" where
  "exact_job label run_id job_id job =
     (case job of
        PDict j \<Rightarrow>
          if py_eq (pget j ''id'') (PInt job_id) \<and> py_eq (pget j ''run_id'') (PInt run_id)
             \<and> py_eq (pget j ''name'') (PStr ''local-quality'')
          then label_in label (labels_of j) else Inr False
      | _ \<Rightarrow> Inr False)"

fun exact_jobs :: "string \<Rightarrow> int \<Rightarrow> int \<Rightarrow> pyval list \<Rightarrow> jp_error + pydict list" where
  "exact_jobs label run_id job_id [] = Inr []"
| "exact_jobs label run_id job_id (v # vs) =
     bindE (exact_job label run_id job_id v) (\<lambda>ok.
     bindE (exact_jobs label run_id job_id vs) (\<lambda>js. Inr (if ok then dict_of v # js else js)))"

text \<open>\<open>v not in {"queued", "in_progress"} or c is not None\<close> over one dictionary.\<close>

definition unsettled :: "pydict \<Rightarrow> jp_error + unit" where
  "unsettled d =
     bindE (requireE (hashable (pget d ''status'')) PilotTypeError) (\<lambda>_.
     requireE (one_of (pget d ''status'') [''queued'', ''in_progress''] \<and> pget d ''conclusion'' = PNone) JitPilotError)"

text \<open>What one pair of answers says: a conclusion, a run still closing, or a job still running.\<close>

datatype verdict = Conclusive string bool | AwaitRun | JobRunning

fun terminal_conclusion :: "pyval \<Rightarrow> jp_error + verdict" where
  "terminal_conclusion (PStr s) =
     Inr (case map_of TERMINAL_CONCLUSIONS s of Some c \<Rightarrow> Conclusive c False | None \<Rightarrow> Conclusive ''failure'' True)"
| "terminal_conclusion v =
     (if hashable v then Inr (Conclusive ''failure'' True) else Inl PilotTypeError)"

definition judge :: "string \<Rightarrow> int \<Rightarrow> int \<Rightarrow> pydict \<Rightarrow> pydict \<Rightarrow> jp_error + verdict" where
  "judge label run_id job_id run jobs =
     bindE (requireE (py_eq (pget run ''id'') (PInt run_id) \<and> is_list (pget jobs ''jobs'')) JitPilotError) (\<lambda>_.
     bindE (exact_jobs label run_id job_id (list_of (pget jobs ''jobs''))) (\<lambda>matches.
     bindE (requireE (length matches = 1) JitPilotError) (\<lambda>_.
     let job = hd matches in
     if py_eq (pget job ''status'') (PStr ''completed'') then
       (if \<not> py_eq (pget run ''status'') (PStr ''completed'') then
          bindE (unsettled run) (\<lambda>_. Inr AwaitRun)
        else
          bindE (requireE (py_eq (pget run ''conclusion'') (pget job ''conclusion'')) JitPilotError) (\<lambda>_.
          terminal_conclusion (pget job ''conclusion'')))
     else
       bindE (unsettled job) (\<lambda>_. bindE (unsettled run) (\<lambda>_. Inr JobRunning)))))"

record 's pilot_env =
  pe_run :: "int \<Rightarrow> 's \<Rightarrow> (jp_error + pydict) \<times> 's"
  pe_jobs :: "int \<Rightarrow> 's \<Rightarrow> (jp_error + pydict) \<times> 's"
  pe_sleep :: "int \<Rightarrow> 's \<Rightarrow> 's"
  pe_monotonic :: "'s \<Rightarrow> int \<times> 's"
  pe_supersession :: "('s \<Rightarrow> (jp_error + string option) \<times> 's) option"
  pe_cancel_run :: "(int \<Rightarrow> 's \<Rightarrow> (jp_error + bool option) \<times> 's) option"
  pe_before_finish :: "(string \<Rightarrow> 's \<Rightarrow> (jp_error + unit) \<times> 's) option"
  pe_finish :: "string \<Rightarrow> string \<Rightarrow> 's \<Rightarrow> (jp_error + unit) \<times> 's"
  pe_prove_clean :: "string \<Rightarrow> string \<Rightarrow> 's \<Rightarrow> (jp_error + pydict) \<times> 's"

record pilot_ids =
  id_allocation :: string
  id_label :: string
  id_run :: int
  id_job :: int

datatype round_end =
    Raised jp_error
  | Concluded string bool
  | Discarded string
  | Again

text \<open>\<open>if self.monotonic() >= deadline\<close> and, when it is not reached, the sleep.\<close>

definition wait_or_timeout :: "'s pilot_env \<Rightarrow> int \<Rightarrow> int \<Rightarrow> 's \<Rightarrow> round_end \<times> 's" where
  "wait_or_timeout env poll deadline s =
     (case pe_monotonic env s of (t, s1) \<Rightarrow>
        if deadline \<le> t then (Concluded ''timeout'' False, s1) else (Again, pe_sleep env poll s1))"

text \<open>
  The supersession question; \<open>None\<close> goes on to the deadline. A cancellation answered with
  \<open>False\<close> starts the next round at once.
\<close>

definition ask_supersession :: "'s pilot_env \<Rightarrow> int \<Rightarrow> 's \<Rightarrow> round_end option \<times> 's" where
  "ask_supersession env run_id s =
     (case pe_supersession env of
        None \<Rightarrow> (None, s)
      | Some ask \<Rightarrow>
          (case ask s of
             (Inl e, s1) \<Rightarrow> (Some (Raised e), s1)
           | (Inr None, s1) \<Rightarrow> (None, s1)
           | (Inr (Some reason), s1) \<Rightarrow>
               (case pe_cancel_run env of
                  None \<Rightarrow> (Some (Raised JitPilotError), s1)
                | Some cancel \<Rightarrow>
                    (case cancel run_id s1 of
                       (Inl e, s2) \<Rightarrow> (Some (Raised e), s2)
                     | (Inr answer, s2) \<Rightarrow>
                         (Some (if answer = Some False then Again else Discarded reason), s2)))))"

text \<open>
  One round of the loop: two reads, the verdict, and what it leads to. The monitor is used once per
  run, with \<open>supersession_reason\<close> still unset.
\<close>

definition after_verdict ::
    "'s pilot_env \<Rightarrow> pilot_ids \<Rightarrow> int \<Rightarrow> int \<Rightarrow> verdict \<Rightarrow> 's \<Rightarrow> round_end \<times> 's" where
  "after_verdict env ids poll deadline v s =
     (case v of
        Conclusive c unexpected \<Rightarrow> (Concluded c unexpected, s)
      | AwaitRun \<Rightarrow> wait_or_timeout env poll deadline s
      | JobRunning \<Rightarrow>
          (case ask_supersession env (id_run ids) s of
             (Some r, s1) \<Rightarrow> (r, s1)
           | (None, s1) \<Rightarrow> wait_or_timeout env poll deadline s1))"

definition monitor_round :: "'s pilot_env \<Rightarrow> pilot_ids \<Rightarrow> int \<Rightarrow> int \<Rightarrow> 's \<Rightarrow> round_end \<times> 's" where
  "monitor_round env ids poll deadline s =
     (case pe_run env (id_run ids) s of
        (Inl e, s1) \<Rightarrow> (Raised e, s1)
      | (Inr run, s1) \<Rightarrow>
          (case pe_jobs env (id_run ids) s1 of
             (Inl e, s2) \<Rightarrow> (Raised e, s2)
           | (Inr jobs, s2) \<Rightarrow>
               (case judge (id_label ids) (id_run ids) (id_job ids) run jobs of
                  Inl e \<Rightarrow> (Raised e, s2)
                | Inr v \<Rightarrow> after_verdict env ids poll deadline v s2)))"

text \<open>\<open>while conclusion is None\<close>, with fuel; \<open>None\<close> is a loop that has not stopped yet.\<close>

fun monitor_loop ::
    "nat \<Rightarrow> 's pilot_env \<Rightarrow> pilot_ids \<Rightarrow> int \<Rightarrow> int \<Rightarrow> 's \<Rightarrow> (round_end \<times> 's) option" where
  "monitor_loop 0 env ids poll deadline s = None"
| "monitor_loop (Suc n) env ids poll deadline s =
     (case monitor_round env ids poll deadline s of
        (Again, s1) \<Rightarrow> monitor_loop n env ids poll deadline s1
      | (r, s1) \<Rightarrow> Some (r, s1))"

definition clean_proof :: "string \<Rightarrow> string \<Rightarrow> pydict" where
  "clean_proof allocation_id label =
     [(''allocation_id'', PStr allocation_id), (''runner_label'', PStr label), (''state'', PStr ''cleaned''),
      (''scale_set_absent'', PBool True), (''runtime_empty'', PBool True)]"

definition finish_run ::
    "'s pilot_env \<Rightarrow> pilot_ids \<Rightarrow> string \<Rightarrow> bool \<Rightarrow> 's \<Rightarrow> (jp_error + string option) \<times> 's" where
  "finish_run env ids c unexpected s =
     (case (case pe_before_finish env of None \<Rightarrow> (Inr (), s) | Some f \<Rightarrow> f c s) of
        (Inl e, s1) \<Rightarrow> (Inl e, s1)
      | (Inr _, s1) \<Rightarrow>
          (case pe_finish env (id_allocation ids) c s1 of
             (Inl e, s2) \<Rightarrow> (Inl e, s2)
           | (Inr _, s2) \<Rightarrow>
               (case pe_prove_clean env (id_allocation ids) (id_label ids) s2 of
                  (Inl e, s3) \<Rightarrow> (Inl e, s3)
                | (Inr cleanup, s3) \<Rightarrow>
                    (if \<not> py_eq (PDict cleanup) (PDict (clean_proof (id_allocation ids) (id_label ids)))
                        \<or> unexpected
                     then (Inl JitPilotError, s3) else (Inr (Some c), s3)))))"

text \<open>\<open>PilotTerminalMonitor.monitor\<close>; the outer \<open>None\<close> is a run that has not returned.\<close>

definition monitor ::
    "nat \<Rightarrow> 's pilot_env \<Rightarrow> pilot_ids \<Rightarrow> int \<Rightarrow> int \<Rightarrow> 's \<Rightarrow> ((jp_error + string option) \<times> 's) option" where
  "monitor fuel env ids timeout poll s =
     (if \<not> canonical_uuid (id_allocation ids) \<or> \<not> transient_label_text (id_label ids)
         \<or> id_run ids < 1 \<or> id_job ids < 1
      then Some (Inl JitPilotError, s)
      else case pe_monotonic env s of (t, s1) \<Rightarrow>
        (case monitor_loop fuel env ids poll (t + timeout) s1 of
           None \<Rightarrow> None
         | Some (Raised e, s2) \<Rightarrow> Some (Inl e, s2)
         | Some (Discarded reason, s2) \<Rightarrow> Some (Inr None, s2)
         | Some (Concluded c unexpected, s2) \<Rightarrow> Some (finish_run env ids c unexpected s2)
         | Some (Again, s2) \<Rightarrow> None))"

section \<open>The loop\<close>

lemma monitor_loop_stop:
  "monitor_loop n env ids poll deadline s = Some (r, s') \<Longrightarrow> r \<noteq> Again"
  by (induction n arbitrary: s) (auto split: prod.splits round_end.splits)

lemma monitor_loop_last_round:
  "monitor_loop n env ids poll deadline s = Some (r, s') \<Longrightarrow>
     \<exists>s0. monitor_round env ids poll deadline s0 = (r, s')"
  by (induction n arbitrary: s) (auto split: prod.splits round_end.splits)

lemma monitor_loop_more:
  "monitor_loop n env ids poll deadline s = Some x \<Longrightarrow> n \<le> m \<Longrightarrow> monitor_loop m env ids poll deadline s = Some x"
proof (induction n arbitrary: s m)
  case (Suc n)
  then obtain k where "m = Suc k" "n \<le> k" by (cases m) auto
  with Suc show ?case by (auto split: prod.splits round_end.splits)
qed simp

text \<open>
  The monotonic clock: \<open>now s\<close> is what the next reading returns. No call moves it back, a sleep of
  \<open>poll\<close> advances it by at least \<open>poll\<close>.
\<close>

definition clock_laws :: "'s pilot_env \<Rightarrow> ('s \<Rightarrow> int) \<Rightarrow> int \<Rightarrow> bool" where
  "clock_laws env now poll =
     ((\<forall>s t s1. pe_monotonic env s = (t, s1) \<longrightarrow> t = now s \<and> now s \<le> now s1)
      \<and> (\<forall>s. now s + poll \<le> now (pe_sleep env poll s))
      \<and> (\<forall>i s r s1. pe_run env i s = (r, s1) \<longrightarrow> now s \<le> now s1)
      \<and> (\<forall>i s r s1. pe_jobs env i s = (r, s1) \<longrightarrow> now s \<le> now s1)
      \<and> (\<forall>f s r s1. pe_supersession env = Some f \<longrightarrow> f s = (r, s1) \<longrightarrow> now s \<le> now s1))"

definition never_refuses :: "'s pilot_env \<Rightarrow> bool" where
  "never_refuses env =
     (\<forall>f i s s1. pe_cancel_run env = Some f \<longrightarrow> f i s \<noteq> (Inr (Some False), s1))"

lemma wait_again:
  assumes "clock_laws env now poll" and "wait_or_timeout env poll deadline s = (Again, s')"
  shows "now s < deadline \<and> now s + poll \<le> now s'"
proof -
  obtain t s1 where t: "pe_monotonic env s = (t, s1)" by fastforce
  have "t = now s" "now s \<le> now s1" "now s1 + poll \<le> now (pe_sleep env poll s1)"
    using assms(1) t unfolding clock_laws_def by blast+
  with assms(2) show ?thesis
    unfolding wait_or_timeout_def t by (auto split: if_splits)
qed

lemma ask_clock:
  assumes "clock_laws env now poll" and "never_refuses env" and "ask_supersession env i s = (r, s')"
  shows "r \<noteq> Some Again" and "r = None \<Longrightarrow> now s \<le> now s'"
proof -
  show "r \<noteq> Some Again"
    using assms(2,3) unfolding ask_supersession_def never_refuses_def
    by (auto split: option.splits prod.splits sum.splits if_splits)
  show "now s \<le> now s'" if "r = None"
    using assms(1,3) that unfolding ask_supersession_def clock_laws_def
    by (auto split: option.splits prod.splits sum.splits if_splits)
qed

lemma round_again:
  assumes "clock_laws env now poll" and "never_refuses env"
    and "monitor_round env ids poll deadline s = (Again, s')"
  shows "now s < deadline \<and> now s + poll \<le> now s'"
proof -
  from assms(3) obtain run s1 jobs s2 v where
    run: "pe_run env (id_run ids) s = (Inr run, s1)" and
    jobs: "pe_jobs env (id_run ids) s1 = (Inr jobs, s2)" and
    v: "after_verdict env ids poll deadline v s2 = (Again, s')"
    unfolding monitor_round_def by (auto split: prod.splits sum.splits)
  have le: "now s \<le> now s1" "now s1 \<le> now s2"
    using assms(1) run jobs unfolding clock_laws_def by blast+
  obtain r s3 where ask: "ask_supersession env (id_run ids) s2 = (r, s3)" by fastforce
  note ask_clock [OF assms(1,2) ask]
  then show ?thesis
    using v le wait_again [OF assms(1), of deadline s2 s'] wait_again [OF assms(1), of deadline s3 s']
    unfolding after_verdict_def ask by (cases v; cases r) auto
qed

section \<open>The monitor returns, and reports only what it proved\<close>

lemma loop_returns:
  assumes "clock_laws env now poll" and "never_refuses env" and "0 < poll"
  shows "deadline - now s \<le> int n * poll \<Longrightarrow> \<exists>r s'. monitor_loop (Suc n) env ids poll deadline s = Some (r, s')"
proof (induction n arbitrary: s)
  case 0
  obtain r s1 where r: "monitor_round env ids poll deadline s = (r, s1)" by fastforce
  with 0 round_again [OF assms(1,2)] have "r \<noteq> Again" by fastforce
  with r show ?case by (cases r) auto
next
  case (Suc n)
  obtain r s1 where r: "monitor_round env ids poll deadline s = (r, s1)" by fastforce
  show ?case
  proof (cases "r = Again")
    case True
    with round_again [OF assms(1,2), of ids deadline s s1] r
    have "now s + poll \<le> now s1" by simp
    with Suc.prems have "deadline - now s1 \<le> int n * poll" by (simp add: algebra_simps)
    from Suc.IH [OF this] True r show ?thesis by (simp only: monitor_loop.simps(2) prod.case round_end.case)
  next
    case False
    with r show ?thesis by (cases r) auto
  qed
qed

text \<open>C20. The monitor always returns. With a clock that does not run backwards, a sleep that lasts, and a
  cancellation that is never answered with a refusal, at most one round per poll interval of the
  timeout, and one more, is needed: whatever GitHub answers, the loop ends in a conclusion, a
  discard or an exception.
\<close>

theorem monitor_returns:
  assumes "clock_laws env now poll" and "never_refuses env" and "0 < poll"
    and "timeout \<le> int n * poll"
  shows "\<exists>r s'. monitor (Suc n) env ids timeout poll s = Some (r, s')"
proof -
  obtain t s1 where t: "pe_monotonic env s = (t, s1)" by fastforce
  have "t = now s" "now s \<le> now s1" using assms(1) t unfolding clock_laws_def by blast+
  then have "t + timeout - now s1 \<le> int n * poll" using assms(4) by simp
  from loop_returns [OF assms(1-3) this] obtain r s2 where
    l: "monitor_loop (Suc n) env ids poll (t + timeout) s1 = Some (r, s2)" by blast
  from monitor_loop_stop [OF l] show ?thesis
    unfolding monitor_def t by (cases r) (auto simp: l simp del: monitor_loop.simps)
qed

text \<open>The evidence for a conclusion taken from GitHub.\<close>

definition reports :: "pilot_ids \<Rightarrow> pydict \<Rightarrow> pydict \<Rightarrow> string \<Rightarrow> bool" where
  "reports ids run jobs c =
     (case exact_jobs (id_label ids) (id_run ids) (id_job ids) (list_of (pget jobs ''jobs'')) of
        Inr [job] \<Rightarrow>
          py_eq (pget run ''id'') (PInt (id_run ids))
          \<and> pget run ''status'' = PStr ''completed'' \<and> pget job ''status'' = PStr ''completed''
          \<and> (case pget job ''conclusion'' of
                PStr raw \<Rightarrow> pget run ''conclusion'' = PStr raw \<and> map_of TERMINAL_CONCLUSIONS raw = Some c
              | _ \<Rightarrow> False)
      | _ \<Rightarrow> False)"

lemma terminal_conclusion_exact:
  "terminal_conclusion v = Inr (Conclusive c False) \<Longrightarrow> \<exists>raw. v = PStr raw \<and> map_of TERMINAL_CONCLUSIONS raw = Some c"
  by (cases v) (auto split: option.splits if_splits)

lemma judge_conclusive:
  assumes "judge (id_label ids) (id_run ids) (id_job ids) run jobs = Inr (Conclusive c False)"
  shows "reports ids run jobs c"
proof -
  from assms obtain matches where
    m: "exact_jobs (id_label ids) (id_run ids) (id_job ids) (list_of (pget jobs ''jobs'')) = Inr matches"
    "length matches = 1" and
    i: "py_eq (pget run ''id'') (PInt (id_run ids))" and
    b: "py_eq (pget (hd matches) ''status'') (PStr ''completed'')"
       "py_eq (pget run ''status'') (PStr ''completed'')"
       "py_eq (pget run ''conclusion'') (pget (hd matches) ''conclusion'')"
       "terminal_conclusion (pget (hd matches) ''conclusion'') = Inr (Conclusive c False)"
    unfolding judge_def Let_def by (auto simp: bindE_eq_Inr split: if_splits simp del: py_eq.simps)
  from m(2) obtain job where "matches = [job]" by (cases matches) auto
  with m(1) i b terminal_conclusion_exact [OF b(4)] show ?thesis
    by (auto simp: reports_def)
qed

lemma round_concluded:
  assumes "monitor_round env ids poll deadline s = (Concluded c False, s')"
  shows "(\<exists>run s1 jobs. pe_run env (id_run ids) s = (Inr run, s1)
            \<and> pe_jobs env (id_run ids) s1 = (Inr jobs, s') \<and> reports ids run jobs c)
    \<or> c = ''timeout'' \<and> (\<exists>s1 t. pe_monotonic env s1 = (t, s') \<and> deadline \<le> t)"
proof -
  from assms obtain run s1 jobs s2 v where
    run: "pe_run env (id_run ids) s = (Inr run, s1)" and
    jobs: "pe_jobs env (id_run ids) s1 = (Inr jobs, s2)" and
    j: "judge (id_label ids) (id_run ids) (id_job ids) run jobs = Inr v" and
    v: "after_verdict env ids poll deadline v s2 = (Concluded c False, s')"
    unfolding monitor_round_def by (auto split: prod.splits sum.splits)
  have wait: "c = ''timeout'' \<and> (\<exists>s1 t. pe_monotonic env s1 = (t, s') \<and> deadline \<le> t)"
    if "wait_or_timeout env poll deadline x = (Concluded c False, s')" for x
    using that unfolding wait_or_timeout_def by (auto split: prod.splits if_splits)
  have ask: "q \<noteq> Some (Concluded c False)" if "ask_supersession env (id_run ids) x = (q, y)" for x q y
    using that unfolding ask_supersession_def
    by (auto split: option.splits prod.splits sum.splits if_splits)
  show ?thesis
  proof (cases v)
    case (Conclusive c' u)
    with v have "v = Conclusive c False" "s2 = s'" by (simp_all add: after_verdict_def)
    with run jobs j judge_conclusive show ?thesis by blast
  next
    case AwaitRun
    with v wait show ?thesis by (simp add: after_verdict_def)
  next
    case JobRunning
    obtain q y where q: "ask_supersession env (id_run ids) s2 = (q, y)" by fastforce
    from v JobRunning q ask [OF q] have "wait_or_timeout env poll deadline y = (Concluded c False, s')"
      by (cases q) (simp_all add: after_verdict_def)
    with wait show ?thesis by blast
  qed
qed

lemma finish_run_Inr:
  assumes "finish_run env ids c unexpected s = (Inr r, s')"
  shows "r = Some c \<and> \<not> unexpected
    \<and> (\<exists>s1 s2 cleanup. pe_finish env (id_allocation ids) c s1 = (Inr (), s2)
        \<and> pe_prove_clean env (id_allocation ids) (id_label ids) s2 = (Inr cleanup, s')
        \<and> py_eq (PDict cleanup) (PDict (clean_proof (id_allocation ids) (id_label ids))))"
  using assms unfolding finish_run_def
  by (auto split: prod.splits sum.splits if_splits option.splits simp del: py_eq.simps)

text \<open>C21. A monitor that returns a conclusion has proved it. Either GitHub reported the exact run and the
  exact job completed with the same conclusion, which is the one returned under the published
  table, or the clock stood at or past the deadline and the conclusion is the timeout; and in both
  cases the broker finished the allocation with that conclusion and its cleanup proof is the exact
  one.
\<close>

theorem monitor_reports_only_proven:
  assumes "monitor fuel env ids timeout poll s = Some (Inr (Some c), s')"
    and "pe_monotonic env s = (t0, s0)"
  shows "((\<exists>sa run sb jobs sc. pe_run env (id_run ids) sa = (Inr run, sb)
            \<and> pe_jobs env (id_run ids) sb = (Inr jobs, sc) \<and> reports ids run jobs c)
      \<or> c = ''timeout'' \<and> (\<exists>sa t sb. pe_monotonic env sa = (t, sb) \<and> t0 + timeout \<le> t))
    \<and> (\<exists>s1 s2 cleanup. pe_finish env (id_allocation ids) c s1 = (Inr (), s2)
        \<and> pe_prove_clean env (id_allocation ids) (id_label ids) s2 = (Inr cleanup, s')
        \<and> py_eq (PDict cleanup) (PDict (clean_proof (id_allocation ids) (id_label ids))))"
proof -
  from assms obtain u s2 c' where
    l: "monitor_loop fuel env ids poll (t0 + timeout) s0 = Some (Concluded c' u, s2)" and
    f: "finish_run env ids c' u s2 = (Inr (Some c), s')"
    unfolding monitor_def by (auto split: if_splits option.splits round_end.splits prod.splits)
  from finish_run_Inr [OF f] have "c' = c" "\<not> u" and clean: "\<exists>s1 s2 cleanup.
      pe_finish env (id_allocation ids) c s1 = (Inr (), s2)
        \<and> pe_prove_clean env (id_allocation ids) (id_label ids) s2 = (Inr cleanup, s')
        \<and> py_eq (PDict cleanup) (PDict (clean_proof (id_allocation ids) (id_label ids)))"
    by (auto simp del: py_eq.simps)
  with l monitor_loop_last_round obtain s3 where
    "monitor_round env ids poll (t0 + timeout) s3 = (Concluded c False, s2)" by fastforce
  from round_concluded [OF this] clean show ?thesis by blast
qed

text \<open>
  A sample world: the state is the clock and the number of reads so far; the job is completed after
  \<open>k\<close> reads, every call but the sleep takes no time, and the cancellation answers as told.
\<close>

definition pilot_label :: string where
  "pilot_label = ''wsl-jit-'' @ replicate 32 CHR ''0''"

definition pilot_ids_sample :: pilot_ids where
  "pilot_ids_sample =
     \<lparr>id_allocation = ''01234567-89ab-7def-8123-456789abcdef'', id_label = pilot_label, id_run = 7, id_job = 8\<rparr>"

definition run_answer :: "bool \<Rightarrow> pydict" where
  "run_answer done =
     [(''id'', PInt 7), (''status'', PStr (if done then ''completed'' else ''in_progress'')),
      (''conclusion'', if done then PStr ''success'' else PNone)]"

definition jobs_answer :: "bool \<Rightarrow> pydict" where
  "jobs_answer done =
     [(''jobs'', PList [PDict [(''id'', PInt 8), (''run_id'', PInt 7), (''name'', PStr ''local-quality''),
        (''labels'', PList [PStr pilot_label]),
        (''status'', PStr (if done then ''completed'' else ''in_progress'')),
        (''conclusion'', if done then PStr ''success'' else PNone)]])]"

definition sample_env :: "nat \<Rightarrow> (int \<times> nat \<Rightarrow> string option) \<Rightarrow> bool option \<Rightarrow> (int \<times> nat) pilot_env" where
  "sample_env k reason answer =
     \<lparr>pe_run = (\<lambda>i (t, n). (Inr (run_answer (k \<le> n)), (t, n))),
      pe_jobs = (\<lambda>i (t, n). (Inr (jobs_answer (k \<le> n)), (t, Suc n))),
      pe_sleep = (\<lambda>d (t, n). (t + d, n)),
      pe_monotonic = (\<lambda>(t, n). (t, (t, n))),
      pe_supersession = Some (\<lambda>s. (Inr (reason s), s)),
      pe_cancel_run = Some (\<lambda>i s. (Inr answer, s)),
      pe_before_finish = None,
      pe_finish = (\<lambda>a c s. (Inr (), s)),
      pe_prove_clean = (\<lambda>a l s. (Inr (clean_proof a l), s))\<rparr>"

lemma sample_env_laws:
  "clock_laws (sample_env k reason answer) fst poll"
  "answer \<noteq> Some False \<Longrightarrow> never_refuses (sample_env k reason answer)"
  by (auto simp: clock_laws_def never_refuses_def sample_env_def split: prod.splits)

theorem monitor_returns_witness:
  "\<exists>r s'. monitor 721 (sample_env 1000 (\<lambda>_. None) None) pilot_ids_sample 3600 5 (0, 0) = Some (r, s')"
  using monitor_returns [OF sample_env_laws(1) sample_env_laws(2), of None 5 3600 720 1000 "\<lambda>_. None"]
  by simp

lemma sample_monitor:
  "monitor 3 (sample_env 1 (\<lambda>_. None) None) pilot_ids_sample 3600 5 (0, 0) = Some (Inr (Some ''success''), (5, 2))"
  by code_simp

theorem monitor_reports_only_proven_witness:
  "\<exists>s1 s2 cleanup. pe_finish (sample_env 1 (\<lambda>_. None) None) (id_allocation pilot_ids_sample) ''success'' s1 = (Inr (), s2)
     \<and> pe_prove_clean (sample_env 1 (\<lambda>_. None) None) (id_allocation pilot_ids_sample) (id_label pilot_ids_sample) s2
         = (Inr cleanup, (5, 2))"
proof -
  have "pe_monotonic (sample_env 1 (\<lambda>_. None) None) (0, 0) = (0, (0, 0))"
    by (simp add: sample_env_def)
  from monitor_reports_only_proven [OF sample_monitor this] show ?thesis by blast
qed

text \<open>
  The refused cancellation. When a run that is superseded is still in progress and its cancellation
  is answered with \<open>False\<close>, the loop starts over without looking at the deadline and without
  sleeping; while the refusal lasts it polls GitHub without a pause, past any deadline.
\<close>

definition in_progress :: "pydict \<Rightarrow> bool" where
  "in_progress d = (pget d ''status'' \<in> {PStr ''queued'', PStr ''in_progress''} \<and> pget d ''conclusion'' = PNone)"

text \<open>What GitHub reports of a run whose exact local job has not ended, among any other jobs.\<close>

definition job_in_progress :: "pilot_ids \<Rightarrow> pydict \<Rightarrow> pydict \<Rightarrow> bool" where
  "job_in_progress ids run jobs =
     (py_eq (pget run ''id'') (PInt (id_run ids)) \<and> in_progress run
      \<and> (\<exists>js job. pget jobs ''jobs'' = PList js \<and> in_progress job
           \<and> exact_jobs (id_label ids) (id_run ids) (id_job ids) js = Inr [job]))"

text \<open>\<open>I\<close> are the states of the world in which the run goes on, is superseded, and cannot be cancelled.\<close>

definition keeps_refusing :: "'s pilot_env \<Rightarrow> pilot_ids \<Rightarrow> ('s \<Rightarrow> bool) \<Rightarrow> bool" where
  "keeps_refusing env ids I =
     (\<exists>ask cancel. pe_supersession env = Some ask \<and> pe_cancel_run env = Some cancel
      \<and> (\<forall>s. I s \<longrightarrow> (\<exists>run s1 jobs s2 reason s3 s4.
           pe_run env (id_run ids) s = (Inr run, s1) \<and> pe_jobs env (id_run ids) s1 = (Inr jobs, s2)
           \<and> job_in_progress ids run jobs \<and> ask s2 = (Inr (Some reason), s3)
           \<and> cancel (id_run ids) s3 = (Inr (Some False), s4) \<and> I s4)))"

lemma in_progress_unsettled: "in_progress d \<Longrightarrow> unsettled d = Inr () \<and> pget d ''status'' \<noteq> PStr ''completed''"
  by (auto simp: in_progress_def unsettled_def requireE_def one_of_def bindE_def)

lemma job_in_progress_judge:
  "job_in_progress ids run jobs \<Longrightarrow> judge (id_label ids) (id_run ids) (id_job ids) run jobs = Inr JobRunning"
  by (auto simp: job_in_progress_def judge_def bindE_def requireE_def dest!: in_progress_unsettled)

lemma refused_round:
  assumes "keeps_refusing env ids I" and "I s"
  shows "\<exists>s'. monitor_round env ids poll deadline s = (Again, s') \<and> I s'"
proof -
  obtain ask cancel run s1 jobs s2 reason s3 s4 where
    "pe_supersession env = Some ask" "pe_cancel_run env = Some cancel" "pe_run env (id_run ids) s = (Inr run, s1)"
    "pe_jobs env (id_run ids) s1 = (Inr jobs, s2)" "job_in_progress ids run jobs" "ask s2 = (Inr (Some reason), s3)"
    "cancel (id_run ids) s3 = (Inr (Some False), s4)" "I s4"
    using assms unfolding keeps_refusing_def by blast
  then show ?thesis
    by (simp add: monitor_round_def after_verdict_def ask_supersession_def job_in_progress_judge)
qed

lemma refused_loop:
  assumes "keeps_refusing env ids I"
  shows "I s \<Longrightarrow> monitor_loop fuel env ids poll deadline s = None"
proof (induction fuel arbitrary: s)
  case (Suc n)
  obtain s' where "monitor_round env ids poll deadline s = (Again, s')" "I s'"
    using refused_round [OF assms Suc.prems] by blast
  then show ?case using Suc.IH by simp
qed simp

text \<open>C22. As long as the exact job of a superseded run goes on and its cancellation is answered with \<open>False\<close>, the
  monitor does not return, whatever its timeout, its pause and the clock: every round starts the next one at once,
  without testing the deadline, so no number of rounds ends the loop.
\<close>

theorem refused_cancellation_never_stops:
  assumes "canonical_uuid (id_allocation ids)" and "transient_label_text (id_label ids)"
    and "1 \<le> id_run ids" and "1 \<le> id_job ids"
    and "keeps_refusing env ids I" and "I (snd (pe_monotonic env s))"
  shows "monitor fuel env ids timeout poll s = None"
  using assms(1-4,6) refused_loop [OF assms(5)] by (auto simp: monitor_def split: prod.split)

definition refusing_env :: "(int \<times> nat) pilot_env" where
  "refusing_env = sample_env 0 (\<lambda>_. Some ''a newer commit superseded this pull request head'') (Some False)
     \<lparr>pe_run := (\<lambda>i (t, n). (Inr (run_answer False), (t + 10, n))),
      pe_jobs := (\<lambda>i (t, n). (Inr (jobs_answer False), (t, Suc n)))\<rparr>"

lemma refusing_job: "job_in_progress pilot_ids_sample (run_answer False) (jobs_answer False)"
proof -
  let ?job = "[(''id'', PInt 8), (''run_id'', PInt 7), (''name'', PStr ''local-quality''), (''labels'', PList [PStr pilot_label]),
    (''status'', PStr ''in_progress''), (''conclusion'', PNone)]"
  have "exact_jobs pilot_label 7 8 [PDict ?job] = Inr [?job]"
    by code_simp
  then show ?thesis
    by (auto simp: job_in_progress_def in_progress_def run_answer_def jobs_answer_def pilot_ids_sample_def pget_def
        intro!: exI [of _ "[PDict ?job]"])
qed

theorem refused_cancellation_never_stops_witness:
  "monitor 100000 refusing_env pilot_ids_sample 3600 5 (0, 0) = None"
proof (rule refused_cancellation_never_stops [where I = "\<lambda>_. True"])
  show "canonical_uuid (id_allocation pilot_ids_sample)" "transient_label_text (id_label pilot_ids_sample)"
    "1 \<le> id_run pilot_ids_sample" "1 \<le> id_job pilot_ids_sample"
    by code_simp+
  show "keeps_refusing refusing_env pilot_ids_sample (\<lambda>_. True)"
    using refusing_job by (auto simp: keeps_refusing_def refusing_env_def sample_env_def)
qed simp

section \<open>Accepted packages\<close>

text \<open>The types and bounds of a package that passed \<open>from_mapping\<close>.\<close>

definition pilot_binding :: "JitPilotPackageV1 \<Rightarrow> bool" where
  "pilot_binding p =
     ((pp_backend p = PStr ''local'' \<and> str_matches canonical_uuid (pp_allocation_id p)
         \<and> str_matches transient_label_text (pp_runner_label p))
      \<or> (pp_backend p = PStr ''github'' \<and> pp_allocation_id p = PNone \<and> pp_runner_label p = PNone))"

lemma or_empty_str: "or_empty v = PStr s \<Longrightarrow> v = PStr s \<or> s = []"
  by (auto simp: or_empty_def split: if_splits)

lemma exact_uuid_Inr: "exact_uuid v = Inr u \<longleftrightarrow> str_matches canonical_uuid v"
  by (cases v) auto

lemma fullmatch_Inr: "fullmatch p v = Inr True \<longleftrightarrow> str_matches p v"
  by (cases v) auto

lemma backend_Inr: "check_pilot_backend p = Inr u \<Longrightarrow> pilot_binding p"
proof -
  assume a: "check_pilot_backend p = Inr u"
  have "\<not> canonical_uuid []" "\<not> transient_label_text []"
    by (simp_all add: canonical_uuid_def transient_label_text_def has_prefix_def)
  then have uuid: "str_matches canonical_uuid v" if "str_matches canonical_uuid (or_empty v)" for v
    using that by (auto simp: str_matches_iff dest!: or_empty_str)
  from \<open>\<not> transient_label_text []\<close>
  have label: "str_matches transient_label_text v" if "fullmatch transient_label_text (or_empty v) = Inr True" for v
    using that by (auto simp: fullmatch_Inr str_matches_iff dest!: or_empty_str)
  show ?thesis
    using a uuid label unfolding check_pilot_backend_def pilot_binding_def
    by (auto simp: bindE_eq_Inr exact_uuid_Inr split: if_splits)
qed

lemma pilot_time_Inr:
  "pilot_time iso8601 v = Inr t \<Longrightarrow> v = PStr (stamp t) \<and> iso8601 (utc_offset (stamp t)) = Some (Aware t)"
  by (cases v) (auto split: if_splits option.splits pydatetime.splits)

text \<open>C23. The type of an accepted package: a repository name, positive numbers, a branch name, three full
  commit hashes, a workflow reference that names this very repository and branch, an allocation
  identity and label exactly when the backend is local, and two canonical stamps whose instants
  enclose the present and lie at most fifteen minutes apart.
\<close>

theorem accepted_package_typed:
  assumes "pilot_package iso8601 value now = Inr p"
  shows "str_matches loose_repository_name (pp_repository p)
    \<and> positive_int (pp_repository_id p) \<and> positive_int (pp_pr_number p)
    \<and> (\<forall>v \<in> {pp_base_sha p, pp_head_sha p, pp_tested_merge_sha p}. str_matches sha40 v)
    \<and> (\<exists>repo branch. pp_repository p = PStr repo \<and> pp_base_branch p = PStr branch \<and> branch_text branch
         \<and> pp_workflow_ref p = PStr (pilot_workflow_ref repo branch))
    \<and> pilot_binding p
    \<and> (\<exists>issued expires t. pp_issued_at p = PStr (stamp issued) \<and> pp_expires_at p = PStr (stamp expires)
         \<and> now = Aware t \<and> issued \<le> t \<and> t < expires \<and> expires - issued \<le> seconds 900)"
proof -
  from assms obtain v where v: "value = PDict v" "p = pilot_package_of v" and
    ok: "validate_pilot_package iso8601 p now = Inr ()"
    by (auto simp: pilot_package_def bindE_eq_Inr split: pyval.splits)
  from ok have "check_pilot_identity p = Inr ()" "check_pilot_workflow p = Inr ()"
    and b: "check_pilot_backend p = Inr ()" and l: "check_pilot_lifetime iso8601 p now = Inr ()"
    by (auto simp: validate_pilot_package_def bindE_eq_Inr)
  then have "str_matches loose_repository_name (pp_repository p)
      \<and> positive_int (pp_repository_id p) \<and> positive_int (pp_pr_number p)
      \<and> (\<forall>v \<in> {pp_base_sha p, pp_head_sha p, pp_tested_merge_sha p}. str_matches sha40 v)
      \<and> str_matches branch_text (pp_base_branch p)"
    and w: "check_pilot_workflow p = Inr ()"
    by (auto simp: check_pilot_identity_def bindE_eq_Inr fullmatch_Inr [symmetric])
  moreover from w have "\<exists>repo branch. pp_repository p = PStr repo \<and> pp_base_branch p = PStr branch
      \<and> pp_workflow_ref p = PStr (pilot_workflow_ref repo branch)"
    by (auto simp: check_pilot_workflow_def split: pyval.splits)
  moreover from l have "\<exists>issued expires t. pp_issued_at p = PStr (stamp issued) \<and> pp_expires_at p = PStr (stamp expires)
         \<and> now = Aware t \<and> issued \<le> t \<and> t < expires \<and> expires - issued \<le> seconds 900"
  proof -
    from l obtain issued expires where
      "pilot_time iso8601 (pp_issued_at p) = Inr issued" "pilot_time iso8601 (pp_expires_at p) = Inr expires" and
      n: "(case now of Naive t \<Rightarrow> Inl JitPilotError
        | Aware t \<Rightarrow> requireE (issued \<le> t \<and> t < expires \<and> \<not> seconds 900 < expires - issued) JitPilotError) = Inr ()"
      unfolding check_pilot_lifetime_def by (auto simp only: bindE_eq_Inr)
    then have "pp_issued_at p = PStr (stamp issued)" "pp_expires_at p = PStr (stamp expires)"
      using pilot_time_Inr by blast+
    moreover from n obtain t where "now = Aware t" "issued \<le> t" "t < expires" "expires - issued \<le> seconds 900"
      by (cases now) (simp_all add: not_less)
    ultimately show ?thesis by blast
  qed
  ultimately show ?thesis using backend_Inr [OF b] by (auto simp: str_matches_iff)
qed

definition pilot_sample :: "pyval \<Rightarrow> pydict" where
  "pilot_sample repository =
     [(''repository'', repository), (''repository_id'', PInt 9), (''pr_number'', PInt 3),
      (''base_branch'', PStr ''main''), (''base_sha'', PStr (replicate 40 CHR ''a'')),
      (''head_sha'', PStr (replicate 40 CHR ''b'')), (''tested_merge_sha'', PStr (replicate 40 CHR ''c'')),
      (''workflow_ref'', PStr ''o/r/.github/workflows/ci-jit-pilot-child.yml@refs/heads/main''),
      (''backend'', PStr ''local''), (''allocation_id'', PStr (id_allocation pilot_ids_sample)),
      (''runner_label'', PStr pilot_label), (''issued_at'', PStr ''1970-01-01T00:00:00Z''),
      (''expires_at'', PStr ''1970-01-01T00:04:00Z''), (''jit_pilot_package_version'', PInt 1)]"

lemma pilot_sample_checks:
  "keys_exact (pilot_sample r) PILOT_FIELDS"
  "check_pilot_identity (pilot_package_of (pilot_sample (PStr ''o/r''))) = Inr ()"
  "check_pilot_workflow (pilot_package_of (pilot_sample (PStr ''o/r''))) = Inr ()"
  "check_pilot_backend (pilot_package_of (pilot_sample (PStr ''o/r''))) = Inr ()"
  "check_pilot_lifetime read_iso (pilot_package_of (pilot_sample (PStr ''o/r''))) (Aware 2000000) = Inr ()"
proof -
  show "keys_exact (pilot_sample r) PILOT_FIELDS"
    by (simp add: dict_eval pilot_sample_def PILOT_FIELDS_def)
qed code_simp+

lemma pilot_sample_accepted:
  "pilot_package read_iso (PDict (pilot_sample (PStr ''o/r''))) (Aware 2000000)
   = Inr (pilot_package_of (pilot_sample (PStr ''o/r'')))"
  by (simp add: pilot_package_def validate_pilot_package_def pilot_sample_checks)

theorem accepted_package_typed_witness:
  "pilot_binding (pilot_package_of (pilot_sample (PStr ''o/r'')))"
  using accepted_package_typed [OF pilot_sample_accepted] by blast

section \<open>The validation step of the workflow\<close>

text \<open>
  \<open>validation_main\<close>: \<open>env\<close> is the process environment, \<open>parse\<close> the duplicate-free JSON parser,
  \<open>github\<close> the reader over the token, \<open>writable\<close> whether the output file can be opened. The result
  is the exit code, the lines appended and whether the step slept; an exception other than the two
  it catches is \<open>Inl\<close>.
\<close>

definition reader_token :: "string option \<Rightarrow> bool" where
  "reader_token token = (case token of None \<Rightarrow> False | Some s \<Rightarrow> s \<noteq> [] \<and> list_all (\<lambda>c. \<not> is_space c) s)"

fun output_lines :: "(string \<times> string) list \<Rightarrow> string list \<Rightarrow> jp_error option \<times> string list" where
  "output_lines [] done = (None, done)"
| "output_lines ((k, v) # kvs) done =
     (if list_ex (\<lambda>c. code c = 10 \<or> code c = 13) v then (Some JitPilotError, done)
      else output_lines kvs (done @ [k @ ''='' @ v @ [char_of (10::nat)]]))"

definition pilot_outputs :: "JitPilotPackageV1 \<Rightarrow> (string \<times> string) list" where
  "pilot_outputs p =
     [(''backend'', fmt (pp_backend p)), (''repository'', fmt (pp_repository p)),
      (''pr_number'', fmt (pp_pr_number p)), (''base_sha'', fmt (pp_base_sha p)),
      (''head_sha'', fmt (pp_head_sha p)), (''tested_merge_sha'', fmt (pp_tested_merge_sha p)),
      (''runner_label'', fmt (or_empty (pp_runner_label p)))]"

definition validated_package ::
    "(string \<Rightarrow> pydatetime option) \<Rightarrow> (string \<Rightarrow> jp_error + pyval) \<Rightarrow> (string \<Rightarrow> pilot_reader) \<Rightarrow> bool
     \<Rightarrow> (string \<Rightarrow> string option) \<Rightarrow> pydatetime \<Rightarrow> jp_error + JitPilotPackageV1" where
  "validated_package iso8601 parse github writable env now =
     (let raw = (case env ''JIT_PILOT_PACKAGE'' of None \<Rightarrow> [] | Some r \<Rightarrow> r) in
      bindE (requireE (raw \<noteq> [] \<and> length (utf8 raw) \<le> 65536) JitPilotError) (\<lambda>_.
      bindE (parse raw) (\<lambda>value.
      bindE (pilot_package iso8601 value now) (\<lambda>p.
      bindE (requireE (map_option PStr (env ''GITHUB_REPOSITORY'') = Some (pp_repository p)
         \<and> env ''GITHUB_REPOSITORY_ID'' = Some (fmt (pp_repository_id p))) JitPilotError) (\<lambda>_.
      bindE (requireE (reader_token (env ''GITHUB_TOKEN'')) JitPilotError) (\<lambda>_.
      bindE (revalidate_package p (github (the (env ''GITHUB_TOKEN'')))) (\<lambda>_.
      bindE (requireE (env ''GITHUB_OUTPUT'' \<noteq> None \<and> env ''GITHUB_OUTPUT'' \<noteq> Some []) JitPilotError) (\<lambda>_.
      bindE (requireE writable PilotOSError) (\<lambda>_. Inr p)))))))))"

definition validation_body ::
    "(string \<Rightarrow> pydatetime option) \<Rightarrow> (string \<Rightarrow> jp_error + pyval) \<Rightarrow> (string \<Rightarrow> pilot_reader) \<Rightarrow> bool
     \<Rightarrow> (string \<Rightarrow> string option) \<Rightarrow> pydatetime \<Rightarrow> (jp_error + unit) \<times> string list" where
  "validation_body iso8601 parse github writable env now =
     (case validated_package iso8601 parse github writable env now of
        Inl e \<Rightarrow> (Inl e, [])
      | Inr p \<Rightarrow>
          (case output_lines (pilot_outputs p) [] of
             (None, ls) \<Rightarrow> (Inr (), ls)
           | (Some e, ls) \<Rightarrow> (Inl e, ls)))"

record validation_result =
  v_exit :: int
  v_lines :: "string list"
  v_slept :: bool

definition validation_main ::
    "(string \<Rightarrow> pydatetime option) \<Rightarrow> (string \<Rightarrow> jp_error + pyval) \<Rightarrow> (string \<Rightarrow> pilot_reader) \<Rightarrow> bool
     \<Rightarrow> (string \<Rightarrow> string option) \<Rightarrow> pydatetime \<Rightarrow> jp_error + validation_result" where
  "validation_main iso8601 parse github writable env now =
     (case validation_body iso8601 parse github writable env now of
        (Inr _, ls) \<Rightarrow> Inr \<lparr>v_exit = 0, v_lines = ls, v_slept = False\<rparr>
      | (Inl e, ls) \<Rightarrow>
          (if e = JitPilotError \<or> e = PilotOSError then
             Inr \<lparr>v_exit = 1, v_lines = ls,
                  v_slept = (env ''GITHUB_ACTIONS'' = Some ''true''
                    \<and> (case env ''GITHUB_RUN_ID'' of None \<Rightarrow> False | Some r \<Rightarrow> canonical_positive r))\<rparr>
           else Inl e))"

definition one_line :: "string \<Rightarrow> bool" where
  "one_line v = list_all (\<lambda>c. code c \<noteq> 10 \<and> code c \<noteq> 13) v"

lemma one_line_append [simp]: "one_line (v @ w) \<longleftrightarrow> one_line v \<and> one_line w"
  by (simp add: one_line_def)

lemma one_line_hex: "hex_of_length n v \<Longrightarrow> one_line v"
  by (auto simp: one_line_def hex_of_length_def list_all_iff is_hex_def is_digit_def)

lemma one_line_names: "list_all is_name_char v \<Longrightarrow> one_line v"
  by (auto simp: one_line_def list_all_iff is_name_char_def is_alnum_def is_digit_def code_def)

lemma split_at_slash:
  "List.member s CHR ''/'' \<Longrightarrow> s = before_slash s @ CHR ''/'' # after_slash s"
proof (induction s)
  case (Cons c s)
  then show ?case by (cases "c = CHR ''/''") (auto simp: before_slash_def after_slash_def)
qed simp

lemma one_line_repository: "loose_repository_name v \<Longrightarrow> one_line v"
proof -
  assume a: "loose_repository_name v"
  then have "v = before_slash v @ ''/'' @ after_slash v"
    using split_at_slash by (simp add: loose_repository_name_def)
  moreover have "one_line (before_slash v @ ''/'' @ after_slash v)"
    using a one_line_names by (simp add: loose_repository_name_def) (simp add: one_line_def code_def)
  ultimately show ?thesis by simp
qed

lemma one_line_int: "one_line (int_str i)"
proof -
  have "one_line (nat_str n)" for n
    using nat_str_digits [of n] by (auto simp: one_line_def list_all_iff is_digit_def)
  then show ?thesis by (simp add: int_str_def one_line_def code_def)
qed

lemma one_line_label:
  assumes "transient_label_text v"
  shows "one_line v"
proof -
  have "take 8 v = ''wsl-jit-''" "one_line (drop 8 v)"
    using assms one_line_hex by (auto simp: transient_label_text_def has_prefix_def eval_nat_numeral)
  then have "one_line (take 8 v @ drop 8 v)"
    by (simp only: one_line_append) (simp add: one_line_def code_def)
  then show ?thesis by simp
qed

lemma output_lines_one_line:
  "\<forall>(k, v) \<in> set kvs. one_line v \<Longrightarrow>
     output_lines kvs ls = (None, ls @ map (\<lambda>(k, v). k @ ''='' @ v @ [char_of (10::nat)]) kvs)"
proof (induction kvs ls rule: output_lines.induct)
  case (2 k v kvs ls)
  then have "\<not> list_ex (\<lambda>c. code c = 10 \<or> code c = 13) v"
    by (auto simp: one_line_def list_all_iff list_ex_iff)
  with 2 show ?case by simp
qed simp

lemma fmt_one_line:
  "str_matches loose_repository_name v \<Longrightarrow> one_line (fmt v)"
  "str_matches sha40 v \<Longrightarrow> one_line (fmt v)"
  "str_matches transient_label_text v \<Longrightarrow> one_line (fmt v)"
  "positive_int v \<Longrightarrow> one_line (fmt v)"
  by (auto simp: str_matches_iff positive_int_iff one_line_repository one_line_hex one_line_label one_line_int)

lemma binding_one_line: "pilot_binding p \<Longrightarrow> one_line (fmt (pp_backend p)) \<and> one_line (fmt (or_empty (pp_runner_label p)))"
proof -
  assume "pilot_binding p"
  moreover have "one_line ''local''" "one_line ''github''" "one_line []"
    by (simp_all add: one_line_def code_def)
  moreover have "transient_label_text l \<Longrightarrow> l \<noteq> []" for l
    by (auto simp: transient_label_text_def has_prefix_def)
  ultimately show ?thesis
    by (auto simp: pilot_binding_def str_matches_iff or_empty_def one_line_label)
qed

lemma accepted_outputs_one_line:
  assumes "pilot_package iso8601 value now = Inr p"
  shows "\<forall>(k, v) \<in> set (pilot_outputs p). one_line v"
  using accepted_package_typed [OF assms] binding_one_line [of p] fmt_one_line
  by (auto simp: pilot_outputs_def)

lemma validated_package_Inr:
  assumes "validated_package iso8601 parse github writable env now = Inr p"
  shows "\<exists>raw value repo. env ''JIT_PILOT_PACKAGE'' = Some raw \<and> parse raw = Inr value
    \<and> pilot_package iso8601 value now = Inr p
    \<and> env ''GITHUB_REPOSITORY'' = Some repo \<and> pp_repository p = PStr repo
    \<and> env ''GITHUB_REPOSITORY_ID'' = Some (fmt (pp_repository_id p))
    \<and> revalidate_package p (github (the (env ''GITHUB_TOKEN''))) = Inr ()"
proof -
  let ?raw = "case env ''JIT_PILOT_PACKAGE'' of None \<Rightarrow> [] | Some r \<Rightarrow> r"
  from assms obtain val where *: "?raw \<noteq> []" "parse ?raw = Inr val" "pilot_package iso8601 val now = Inr p"
    "map_option PStr (env ''GITHUB_REPOSITORY'') = Some (pp_repository p)"
    "env ''GITHUB_REPOSITORY_ID'' = Some (fmt (pp_repository_id p))"
    "revalidate_package p (github (the (env ''GITHUB_TOKEN''))) = Inr ()"
    unfolding validated_package_def Let_def
    by (auto simp: bindE_eq_Inr)
  moreover from *(1) obtain raw where "env ''JIT_PILOT_PACKAGE'' = Some raw" "?raw = raw"
    by (auto split: option.splits)
  moreover from *(4) obtain repo where "env ''GITHUB_REPOSITORY'' = Some repo" "pp_repository p = PStr repo"
    by auto
  ultimately show ?thesis by auto
qed

lemma validation_body_cases:
  assumes "validation_body iso8601 parse github writable env now = (r, ls)"
  shows "(r = Inr () \<and> (\<exists>raw value p. env ''JIT_PILOT_PACKAGE'' = Some raw \<and> parse raw = Inr value
           \<and> pilot_package iso8601 value now = Inr p
           \<and> env ''GITHUB_REPOSITORY'' = Some (fmt (pp_repository p))
           \<and> env ''GITHUB_REPOSITORY_ID'' = Some (fmt (pp_repository_id p))
           \<and> revalidate_package p (github (the (env ''GITHUB_TOKEN''))) = Inr ()
           \<and> ls = map (\<lambda>(k, v). k @ ''='' @ v @ [char_of (10::nat)]) (pilot_outputs p)))
    \<or> (\<exists>e. r = Inl e) \<and> ls = []"
proof (cases "validated_package iso8601 parse github writable env now")
  case (Inl e)
  with assms show ?thesis by (auto simp: validation_body_def)
next
  case (Inr p)
  from validated_package_Inr [OF Inr] obtain raw val repo where
    *: "env ''JIT_PILOT_PACKAGE'' = Some raw" "parse raw = Inr val" "pilot_package iso8601 val now = Inr p"
      "env ''GITHUB_REPOSITORY'' = Some repo" "pp_repository p = PStr repo"
      "env ''GITHUB_REPOSITORY_ID'' = Some (fmt (pp_repository_id p))"
      "revalidate_package p (github (the (env ''GITHUB_TOKEN''))) = Inr ()" by blast
  have "output_lines (pilot_outputs p) [] =
      (None, map (\<lambda>(k, v). k @ ''='' @ v @ [char_of (10::nat)]) (pilot_outputs p))"
    using output_lines_one_line [OF accepted_outputs_one_line [OF *(3)], of "[]"] by simp
  with assms Inr have "r = Inr ()" "ls = map (\<lambda>(k, v). k @ ''='' @ v @ [char_of (10::nat)]) (pilot_outputs p)"
    by (simp_all add: validation_body_def)
  with * show ?thesis by auto
qed

text \<open>The validation step is all or nothing. It exits with 0 exactly when it appended the seven outputs
  of an accepted package that names the event's own repository and agreed with the live one; in
  every other case it wrote nothing, so a later step can never read a partial or unvalidated output.
\<close>

theorem validation_all_or_nothing:
  assumes "validation_main iso8601 parse github writable env now = Inr v"
  shows "(v_exit v = 0 \<and> (\<exists>raw value p. env ''JIT_PILOT_PACKAGE'' = Some raw \<and> parse raw = Inr value
           \<and> pilot_package iso8601 value now = Inr p
           \<and> env ''GITHUB_REPOSITORY'' = Some (fmt (pp_repository p))
           \<and> env ''GITHUB_REPOSITORY_ID'' = Some (fmt (pp_repository_id p))
           \<and> revalidate_package p (github (the (env ''GITHUB_TOKEN''))) = Inr ()
           \<and> v_lines v = map (\<lambda>(k, v). k @ ''='' @ v @ [char_of (10::nat)]) (pilot_outputs p)))
    \<or> v_exit v = 1 \<and> v_lines v = []"
proof -
  obtain r ls where b: "validation_body iso8601 parse github writable env now = (r, ls)" by fastforce
  from assms have v: "v_lines v = ls" "v_exit v = (case r of Inr _ \<Rightarrow> 0 | Inl _ \<Rightarrow> 1)"
    unfolding validation_main_def b by (auto split: sum.splits if_splits)
  from validation_body_cases [OF b] show ?thesis
    by (elim disjE conjE exE) (simp_all add: v)
qed

definition pilot_reader_sample :: pilot_reader where
  "pilot_reader_sample =
     \<lparr>rd_repository = Inr [(''id'', PInt 9), (''full_name'', PStr ''o/r''), (''default_branch'', PStr ''main'')],
      rd_branch = (\<lambda>n. Inr [(''name'', n), (''commit'', PDict [(''sha'', PStr (replicate 40 CHR ''a''))])]),
      rd_pull_request = (\<lambda>n. Inr [(''number'', n), (''state'', PStr ''open''),
        (''head'', PDict [(''sha'', PStr (replicate 40 CHR ''b''))]),
        (''base'', PDict [(''ref'', PStr ''main''), (''repo'', PDict [(''id'', PInt 9)])])]),
      rd_workflow = Inr [(''path'', PStr ''.github/workflows/ci-jit-pilot-child.yml''), (''state'', PStr ''active'')]\<rparr>"

definition pilot_environment :: "string \<Rightarrow> string option" where
  "pilot_environment =
     map_of [(''JIT_PILOT_PACKAGE'', ''x''), (''GITHUB_REPOSITORY'', ''o/r''), (''GITHUB_REPOSITORY_ID'', ''9''),
       (''GITHUB_TOKEN'', ''t''), (''GITHUB_OUTPUT'', ''f''), (''GITHUB_ACTIONS'', ''true''), (''GITHUB_RUN_ID'', ''7'')]"

definition pilot_validation :: "pyval \<Rightarrow> jp_error + validation_result" where
  "pilot_validation repository =
     validation_main read_iso (\<lambda>_. Inr (PDict (pilot_sample repository))) (\<lambda>_. pilot_reader_sample) True
       pilot_environment (Aware 2000000)"

lemma pilot_validation_ok:
  "\<exists>v. pilot_validation (PStr ''o/r'') = Inr v \<and> v_exit v = 0 \<and> length (v_lines v) = 7"
proof -
  have "revalidate_package (pilot_package_of (pilot_sample (PStr ''o/r''))) pilot_reader_sample = Inr ()"
    by code_simp
  moreover have "length (utf8 ''x'') \<le> 65536 \<and> reader_token (Some ''t'')"
    by (simp add: utf8_def utf8_char_def reader_token_def is_space_def code_def)
  moreover have "pp_repository (pilot_package_of (pilot_sample (PStr ''o/r''))) = PStr ''o/r''"
    "fmt (pp_repository_id (pilot_package_of (pilot_sample (PStr ''o/r'')))) = ''9''"
    by code_simp+
  moreover note output_lines_one_line [OF accepted_outputs_one_line [OF pilot_sample_accepted], of "[]"]
  ultimately show ?thesis
    unfolding pilot_validation_def validation_main_def validation_body_def validated_package_def Let_def
    by (simp add: pilot_sample_accepted pilot_environment_def pilot_outputs_def)
qed

theorem validation_all_or_nothing_witness:
  "\<exists>v. pilot_validation (PStr ''o/r'') = Inr v
     \<and> revalidate_package (pilot_package_of (pilot_sample (PStr ''o/r''))) pilot_reader_sample = Inr ()"
proof -
  from pilot_validation_ok obtain v where v: "pilot_validation (PStr ''o/r'') = Inr v" "v_exit v = 0" by blast
  from validation_all_or_nothing [OF v(1) [unfolded pilot_validation_def]] v(2)
  show ?thesis using v(1) pilot_sample_accepted by auto
qed

text \<open>
  A package whose repository is not text leaves \<open>validate\<close> as a \<open>TypeError\<close>, which the entry point
  does not catch: the step fails without its bounded wait.
\<close>

lemma untyped_repository_escapes: "pilot_validation (PInt 5) = Inl PilotTypeError"
proof -
  have "pilot_package read_iso (PDict (pilot_sample (PInt 5))) (Aware 2000000) = Inl PilotTypeError"
    by code_simp
  moreover have "length (utf8 ''x'') \<le> 65536"
    by (simp add: utf8_def utf8_char_def code_def)
  ultimately show ?thesis
    by (simp add: pilot_validation_def validation_main_def validation_body_def validated_package_def
        pilot_environment_def Let_def)
qed

end
