(* ===== verification/Local_Approval.thy ===== *)
theory Local_Approval
  imports Jit_Pilot Gatestore
begin

text \<open>
  \<open>local_approval.py\<close>: the durable source of explicitly approved pull request heads. Three tables
  (approvals, preflight blocks, discard publications) over one GateStore; the resolver, the builder
  and the classification of drift are parameters, answered by GitHub. TEXT timestamps are kept as
  the text the store writes: the comparisons of \<open>recover_claims\<close> are comparisons of text.

  Each SQL transaction is one function on the store. An operation that leaves its transaction to ask
  GitHub and comes back is cut into the transactions, and composed again; that is the shape in which
  other operations can come between.
\<close>

section \<open>Types\<close>

datatype la_error =
    LocalApprovalError string
  | LaValueError
  | LaTypeError
  | LaKeyError
  | LaAttributeError
  | LaJsonError
  | LaGateStore gs_error
  | LaReservation rj_error
  | LaPilot jp_error
  | LaProtocol gh_error
  | LaResolver string

record approval_row =
  ap_request_id :: string
  ap_repository :: string
  ap_pr_number :: int
  ap_head_sha :: string
  ap_head_generation :: int
  ap_state :: string
  ap_request_json :: string
  ap_request :: "pyval option"
  ap_result_json :: "string option"
  ap_reason :: "string option"
  ap_created_at :: string
  ap_expires_at :: string
  ap_claim_until :: "string option"
  ap_active_key :: "string option"
  ap_durable :: int

text \<open>\<open>ap_request\<close> is what \<open>json.loads\<close> reads back from \<open>request_json\<close>; \<open>None\<close> is a text it refuses.\<close>

record block_row =
  pb_repository :: string
  pb_pr_number :: int
  pb_head_sha :: string
  pb_reason :: string
  pb_created_at :: string

record discard_row =
  dc_scope :: string
  dc_check_name :: string
  dc_check_run_id :: "int option"
  dc_state :: string

record approval_store =
  la_approvals :: "approval_row list"
  la_blocks :: "block_row list"
  la_discards :: "discard_row list"
  la_current :: "pyval option"

text \<open>\<open>la_current\<close> is the attribute \<open>current_request\<close> of the process that polls.\<close>

definition empty_approvals :: approval_store where
  "empty_approvals = \<lparr>la_approvals = [], la_blocks = [], la_discards = [], la_current = None\<rparr>"

record approval_target =
  rt_repository_id :: string
  rt_repository :: string
  rt_pr_number :: int
  rt_head_sha :: string
  rt_default_branch :: string
  rt_workflow_ref :: string
  rt_base_sha :: string
  rt_tested_merge_sha :: string

definition LIVE_STATES :: "string list" where
  "LIVE_STATES = [''pending'', ''claimed'']"

definition live :: "approval_row \<Rightarrow> bool" where
  "live r = (ap_state r \<in> set LIVE_STATES)"

text \<open>\<open>f"{repository}:{pr_number}:{head_sha}"\<close>.\<close>

definition active_key_of :: "string \<Rightarrow> int \<Rightarrow> string \<Rightarrow> string" where
  "active_key_of repo pr head = repo @ '':'' @ int_str pr @ '':'' @ head"

text \<open>\<open>UPDATE approvals SET ... WHERE ...\<close> and its \<open>rowcount\<close>.\<close>

definition update_rows ::
    "(approval_row \<Rightarrow> bool) \<Rightarrow> (approval_row \<Rightarrow> approval_row) \<Rightarrow> approval_store \<Rightarrow> approval_store \<times> nat" where
  "update_rows c f st =
     (st\<lparr>la_approvals := map (\<lambda>r. if c r then f r else r) (la_approvals st)\<rparr>,
      length (filter c (la_approvals st)))"

text \<open>
  \<open>json.dumps(value, sort_keys=True, separators=(",", ":"))\<close>: the ASCII form of the canonical text.
\<close>

definition ascii_char :: "char \<Rightarrow> string" where
  "ascii_char c =
     (if code c < 127 then [c]
      else [CHR 0x5C, CHR ''u'', CHR ''0'', CHR ''0'', hex_digit (code c div 16), hex_digit (code c mod 16)])"

definition dumps :: "pyval \<Rightarrow> la_error + string" where
  "dumps v = (if json_safe v then Inr (concat (map ascii_char (json_text v))) else Inl LaTypeError)"

text \<open>\<open>_parse\<close>.\<close>

definition la_parse :: "(string \<Rightarrow> pydatetime option) \<Rightarrow> string \<Rightarrow> la_error + instant" where
  "la_parse iso8601 s =
     (case iso8601 (replace_zulu s) of
        Some (Aware t) \<Rightarrow> Inr t
      | Some (Naive t) \<Rightarrow> Inl LaTypeError
      | None \<Rightarrow> Inl LaValueError)"

section \<open>Requests and targets\<close>

text \<open>\<open>str(v) == s\<close> for the values a repository identity can have.\<close>

fun text_is :: "pyval \<Rightarrow> string \<Rightarrow> bool" where
  "text_is (PList vs) s = False"
| "text_is (PDict d) s = False"
| "text_is (PTime t) s = False"
| "text_is v s = (fmt v = s)"

definition package_of_request :: "pydict \<Rightarrow> pyval" where
  "package_of_request req =
     (if py_truthy (pget req ''pilot_package'') then pget req ''pilot_package''
      else pget req ''protocol_package'')"

text \<open>\<open>package.get("base_branch", package.get("default_branch"))\<close>.\<close>

definition package_branch :: "pydict \<Rightarrow> pyval" where
  "package_branch d = (case map_of d ''base_branch'' of Some v \<Rightarrow> v | None \<Rightarrow> pget d ''default_branch'')"

definition request_matches_target :: "pyval \<Rightarrow> approval_target \<Rightarrow> bool" where
  "request_matches_target request target =
     (case request of
        PDict req \<Rightarrow>
          (case (package_of_request req, pget req ''reservation'') of
             (PDict package, PDict reservation) \<Rightarrow>
               text_is (pget package ''repository_id'') (rt_repository_id target)
               \<and> py_eq (pget package ''repository'') (PStr (rt_repository target))
               \<and> py_eq (pget package ''pr_number'') (PInt (rt_pr_number target))
               \<and> py_eq (pget package ''head_sha'') (PStr (rt_head_sha target))
               \<and> py_eq (package_branch package) (PStr (rt_default_branch target))
               \<and> py_eq (pget reservation ''workflow_ref'') (PStr (rt_workflow_ref target))
               \<and> py_eq (pget package ''base_sha'') (PStr (rt_base_sha target))
               \<and> py_eq (pget package ''tested_merge_sha'') (PStr (rt_tested_merge_sha target))
           | _ \<Rightarrow> False)
      | _ \<Rightarrow> False)"

text \<open>\<open>int(target.repository_id)\<close> on the decimal text the resolver made of an integer.\<close>

definition int_text :: "string \<Rightarrow> int option" where
  "int_text s = (if s \<noteq> [] \<and> list_all is_digit s then Some (int (digits_value s)) else None)"

definition REQUEST_FIELDS :: "string \<Rightarrow> string list" where
  "REQUEST_FIELDS kind = [''request_id'', kind, ''reservation'']"

text \<open>The reservation against the resolved target: \<open>any(reservation.get(key) != value ...)\<close>.\<close>

definition reservation_expected :: "approval_target \<Rightarrow> string \<Rightarrow> pydict \<Rightarrow> pydict" where
  "reservation_expected target nonce reservation =
     [(''repository_id'', PStr (rt_repository_id target)), (''repository'', PStr (rt_repository target)),
      (''head_sha'', PStr (rt_head_sha target)), (''workflow_ref'', PStr (rt_workflow_ref target)),
      (''nonce'', PStr nonce)]
     @ (if py_eq (pget reservation ''allocation_reservation_version'') (PInt 2)
        then [(''pr_number'', PInt (rt_pr_number target)), (''base_sha'', PStr (rt_base_sha target))] else [])"

definition check_reservation_target :: "approval_target \<Rightarrow> string \<Rightarrow> pydict \<Rightarrow> la_error + unit" where
  "check_reservation_target target nonce reservation =
     requireE (list_all (\<lambda>(k, v). py_eq (pget reservation k) v) (reservation_expected target nonce reservation))
       (LocalApprovalError ''reservation crossed resolved GitHub authority'')"

definition check_pilot_target ::
    "(string \<Rightarrow> pydatetime option) \<Rightarrow> pyval \<Rightarrow> pydict \<Rightarrow> approval_target \<Rightarrow> instant \<Rightarrow> la_error + unit" where
  "check_pilot_target iso8601 raw_package reservation target now =
     (case pilot_package iso8601 raw_package (Aware now) of
        Inl e \<Rightarrow> Inl (LaPilot e)
      | Inr p \<Rightarrow>
          (case int_text (rt_repository_id target) of
             None \<Rightarrow> Inl LaValueError
           | Some n \<Rightarrow>
               bindE (requireE (py_eq (pp_repository_id p) (PInt n)
                   \<and> py_eq (pp_repository p) (PStr (rt_repository target))
                   \<and> py_eq (pp_pr_number p) (PInt (rt_pr_number target))
                   \<and> py_eq (pp_head_sha p) (PStr (rt_head_sha target))
                   \<and> py_eq (pp_base_sha p) (PStr (rt_base_sha target))
                   \<and> py_eq (pp_tested_merge_sha p) (PStr (rt_tested_merge_sha target)))
                 (LocalApprovalError ''pilot package crossed resolved GitHub target'')) (\<lambda>_.
               requireE (py_eq (pp_allocation_id p) (pget reservation ''allocation_id'')
                   \<and> py_eq (pp_runner_label p) (pget reservation ''scale_set_name''))
                 (LocalApprovalError ''pilot package crossed reservation identity''))))"

definition check_protocol_target ::
    "(string \<Rightarrow> pydatetime option) \<Rightarrow> pyval \<Rightarrow> pydict \<Rightarrow> approval_target \<Rightarrow> int \<Rightarrow> string \<Rightarrow> la_error + pydict" where
  "check_protocol_target iso8601 raw_package reservation target generation nonce =
     (case protocol_package iso8601 raw_package of
        Inl e \<Rightarrow> Inl (LaProtocol e)
      | Inr d \<Rightarrow>
          (case int_text (rt_repository_id target) of
             None \<Rightarrow> Inl LaValueError
           | Some n \<Rightarrow>
               bindE (requireE (py_eq (pget d ''repository_id'') (PInt n)
                   \<and> py_eq (pget d ''repository'') (PStr (rt_repository target))
                   \<and> py_eq (pget d ''pr_number'') (PInt (rt_pr_number target))
                   \<and> py_eq (pget d ''head_sha'') (PStr (rt_head_sha target))
                   \<and> py_eq (pget d ''generation'') (PInt generation))
                 (LocalApprovalError ''protocol package crossed resolved GateStore target'')) (\<lambda>_.
               bindE (requireE (py_eq (pget d ''allocation_id'') (pget reservation ''allocation_id'')
                   \<and> py_eq (pget d ''allocation_nonce'') (PStr nonce)
                   \<and> py_eq (pget d ''runner_label'') (pget reservation ''scale_set_name''))
                 (LocalApprovalError ''protocol package crossed reservation identity'')) (\<lambda>_. Inr d))))"

text \<open>\<open>_validate_request\<close>.\<close>

definition validate_request ::
    "(string \<Rightarrow> string) \<Rightarrow> (string \<Rightarrow> pydatetime option) \<Rightarrow> pyval \<Rightarrow> approval_target \<Rightarrow> int \<Rightarrow> string \<Rightarrow> string
     \<Rightarrow> instant \<Rightarrow> la_error + pyval" where
  "validate_request H iso8601 raw target generation request_id nonce now =
     (case raw of
        PDict req \<Rightarrow>
          bindE (requireE (keys_exact req (REQUEST_FIELDS ''protocol_package'')
              \<or> keys_exact req (REQUEST_FIELDS ''pilot_package''))
            (LocalApprovalError ''request builder must return one exact work request'')) (\<lambda>_.
          bindE (requireE (py_eq (pget req ''request_id'') (PStr request_id))
            (LocalApprovalError ''authority helper crossed request identity'')) (\<lambda>_.
          case validate_allocation_reservation H iso8601 (pget req ''reservation'') (Aware now) of
            Inl e \<Rightarrow> Inl (LaReservation e)
          | Inr _ \<Rightarrow>
              bindE (check_reservation_target target nonce (dict_of (pget req ''reservation''))) (\<lambda>_.
              if List.member (pkeys req) ''pilot_package'' then
                bindE (check_pilot_target iso8601 (pget req ''pilot_package'') (dict_of (pget req ''reservation''))
                  target now) (\<lambda>_.
                Inr (PDict [(''request_id'', PStr request_id), (''pilot_package'', pget req ''pilot_package''),
                       (''reservation'', pget req ''reservation'')]))
              else
                bindE (check_protocol_target iso8601 (pget req ''protocol_package'')
                  (dict_of (pget req ''reservation'')) target generation nonce) (\<lambda>d.
                Inr (PDict [(''request_id'', PStr request_id), (''protocol_package'', PDict d),
                       (''reservation'', pget req ''reservation'')])))))
      | _ \<Rightarrow> Inl (LocalApprovalError ''request builder must return one exact work request''))"

section \<open>Approving a head\<close>

text \<open>
  \<open>ORDER BY created_at DESC LIMIT 1\<close>; rows with the same stamp are left in an order SQLite does not
  fix, here the earliest insertion. \<open>ORDER BY created_at,request_id LIMIT 1\<close> is a total order.
\<close>

fun newest :: "approval_row list \<Rightarrow> approval_row option" where
  "newest [] = None"
| "newest (r # rs) =
     (case newest rs of
        None \<Rightarrow> Some r
      | Some q \<Rightarrow> if ap_created_at r < ap_created_at q then Some q else Some r)"

definition row_before :: "approval_row \<Rightarrow> approval_row \<Rightarrow> bool" where
  "row_before r q =
     (ap_created_at r < ap_created_at q
      \<or> ap_created_at r = ap_created_at q \<and> ap_request_id r \<le> ap_request_id q)"

fun oldest :: "approval_row list \<Rightarrow> approval_row option" where
  "oldest [] = None"
| "oldest (r # rs) =
     (case oldest rs of None \<Rightarrow> Some r | Some q \<Rightarrow> if row_before r q then Some r else Some q)"

definition live_for :: "string \<Rightarrow> int \<Rightarrow> string \<Rightarrow> approval_row \<Rightarrow> bool" where
  "live_for repo pr head r =
     (ap_repository r = repo \<and> ap_pr_number r = pr \<and> ap_head_sha r = head \<and> live r)"

definition settle :: "string \<Rightarrow> string \<Rightarrow> approval_row \<Rightarrow> approval_row" where
  "settle state reason r = r\<lparr>ap_state := state, ap_reason := Some reason, ap_active_key := None\<rparr>"

record approve_result =
  ar_request_id :: string
  ar_state :: string
  ar_idempotent :: bool

text \<open>The first transaction of \<open>approve\<close>: \<open>Some\<close> is its early return.\<close>

definition expire_row ::
    "(approval_row \<Rightarrow> bool) \<Rightarrow> string \<Rightarrow> string \<Rightarrow> approval_store
     \<Rightarrow> (la_error + approve_result option) \<times> approval_store" where
  "expire_row c reason msg st =
     (case update_rows c (settle ''expired'' reason) st of
        (st1, changed) \<Rightarrow>
          if changed \<noteq> 1 then (Inl (LocalApprovalError msg), st) else (Inr None, st1))"

definition found_live ::
    "(string \<Rightarrow> pydatetime option) \<Rightarrow> approval_target \<Rightarrow> instant \<Rightarrow> approval_row \<Rightarrow> approval_store
     \<Rightarrow> (la_error + approve_result option) \<times> approval_store" where
  "found_live iso8601 target now row st =
     (case ap_request row of
        None \<Rightarrow> (Inl (LocalApprovalError ''stored active approval is invalid''), st)
      | Some request \<Rightarrow>
          let matches = request_matches_target request target;
              same = Some \<lparr>ar_request_id = ap_request_id row, ar_state = ap_state row, ar_idempotent = True\<rparr>
          in if ap_durable row = 1 then
               (if \<not> matches
                then (Inl (LocalApprovalError ''durable approval no longer matches the resolved target''), st)
                else (Inr same, st))
             else case la_parse iso8601 (ap_expires_at row) of
                 Inl e \<Rightarrow> (Inl e, st)
               | Inr expires \<Rightarrow>
                   if expires \<le> now then
                     expire_row (\<lambda>r. ap_request_id r = ap_request_id row \<and> live r \<and> ap_durable r = 0) ''ttl-expired''
                       ''approval changed while reconciling its TTL'' st
                   else if matches then (Inr same, st)
                   else if ap_state row = ''claimed''
                   then (Inl (LocalApprovalError ''claimed approval no longer matches the resolved target''), st)
                   else
                     expire_row (\<lambda>r. ap_request_id r = ap_request_id row \<and> ap_state r = ''pending'' \<and> ap_durable r = 0)
                       ''resolved-target-changed'' ''pending approval changed while reconciling its target'' st)"

definition approve_lookup ::
    "(string \<Rightarrow> pydatetime option) \<Rightarrow> string \<Rightarrow> int \<Rightarrow> approval_target \<Rightarrow> instant \<Rightarrow> approval_store
     \<Rightarrow> (la_error + approve_result option) \<times> approval_store" where
  "approve_lookup iso8601 repository pr target now st =
     (case newest (filter (live_for repository pr (rt_head_sha target)) (la_approvals st)) of
        None \<Rightarrow> (Inr None, st)
      | Some row \<Rightarrow> found_live iso8601 target now row st)"

text \<open>The second transaction: INSERT, or what another process inserted meanwhile.\<close>

definition new_row ::
    "string \<Rightarrow> int \<Rightarrow> approval_target \<Rightarrow> int \<Rightarrow> string \<Rightarrow> pyval \<Rightarrow> string \<Rightarrow> instant \<Rightarrow> int \<Rightarrow> approval_row" where
  "new_row repository pr target generation request_id request encoded now ttl =
     \<lparr>ap_request_id = request_id, ap_repository = repository, ap_pr_number = pr,
      ap_head_sha = rt_head_sha target, ap_head_generation = generation, ap_state = ''pending'',
      ap_request_json = encoded, ap_request = Some request, ap_result_json = None, ap_reason = None,
      ap_created_at = stamp now, ap_expires_at = stamp (now + ttl), ap_claim_until = None,
      ap_active_key = Some (active_key_of repository pr (rt_head_sha target)), ap_durable = 0\<rparr>"

definition unique_violation :: "approval_row \<Rightarrow> approval_store \<Rightarrow> bool" where
  "unique_violation row st =
     list_ex (\<lambda>r. ap_request_id r = ap_request_id row
       \<or> ap_active_key r \<noteq> None \<and> ap_active_key r = ap_active_key row) (la_approvals st)"

definition approve_insert ::
    "approval_row \<Rightarrow> approval_target \<Rightarrow> approval_store \<Rightarrow> (la_error + approve_result) \<times> approval_store" where
  "approve_insert row target st =
     (if unique_violation row st then
        (case newest (filter (live_for (ap_repository row) (ap_pr_number row) (ap_head_sha row)) (la_approvals st)) of
           None \<Rightarrow> (Inl (LocalApprovalError ''concurrent approval no longer matches the resolved target''), st)
         | Some q \<Rightarrow>
             (case ap_request q of
                None \<Rightarrow> (Inl LaJsonError, st)
              | Some request \<Rightarrow>
                  if request_matches_target request target
                  then (Inr \<lparr>ar_request_id = ap_request_id q, ar_state = ap_state q, ar_idempotent = True\<rparr>, st)
                  else (Inl (LocalApprovalError ''concurrent approval no longer matches the resolved target''), st)))
      else
        (Inr \<lparr>ar_request_id = ap_request_id row, ar_state = ''pending'', ar_idempotent = False\<rparr>,
         st\<lparr>la_approvals := la_approvals st @ [row]\<rparr>))"

text \<open>
  \<open>approve\<close>: \<open>request_id\<close> and \<open>nonce\<close> are the fresh UUID and token, \<open>resolve\<close> and \<open>build\<close> the
  collaborators. The state is the pair of the store and the GateStore.
\<close>

record approval_env =
  ae_hash :: "string \<Rightarrow> string"
  ae_iso :: "string \<Rightarrow> pydatetime option"
  ae_resolve :: "string \<Rightarrow> int \<Rightarrow> la_error + approval_target"
  ae_build :: "approval_target \<Rightarrow> int \<Rightarrow> string \<Rightarrow> string \<Rightarrow> instant \<Rightarrow> int \<Rightarrow> la_error + pyval"
  ae_ttl :: int

definition build_row ::
    "approval_env \<Rightarrow> string \<Rightarrow> int \<Rightarrow> approval_target \<Rightarrow> int \<Rightarrow> string \<Rightarrow> string \<Rightarrow> instant \<Rightarrow> la_error + approval_row" where
  "build_row env repository pr target generation request_id nonce now =
     bindE (requireE (length nonce = 43) (LocalApprovalError ''internal nonce generation failed'')) (\<lambda>_.
     bindE (ae_build env target generation request_id nonce now (ae_ttl env)) (\<lambda>raw.
     bindE (validate_request (ae_hash env) (ae_iso env) raw target generation request_id nonce now) (\<lambda>request.
     bindE (dumps request) (\<lambda>encoded.
     Inr (new_row repository pr target generation request_id request encoded now (ae_ttl env))))))"

definition approve ::
    "approval_env \<Rightarrow> pyval \<Rightarrow> pyval \<Rightarrow> string \<Rightarrow> string \<Rightarrow> instant \<Rightarrow> approval_store \<times> gate_store
     \<Rightarrow> (la_error + approve_result) \<times> approval_store \<times> gate_store" where
  "approve env repository_arg pr_arg request_id nonce now = (\<lambda>(st, gs).
     (case repository_arg of
        PStr repository \<Rightarrow>
          if \<not> loose_repository_name repository
          then (Inl (LocalApprovalError ''repository must be one exact owner/repo''), st, gs)
          else (case pr_arg of
             PInt pr \<Rightarrow>
               if pr < 1 then (Inl (LocalApprovalError ''PR number must be positive''), st, gs)
               else (case ae_resolve env repository pr of
                  Inl e \<Rightarrow> (Inl e, st, gs)
                | Inr target \<Rightarrow>
                    (case observe_head (rt_repository_id target) pr (rt_head_sha target) gs of
                       (Inl e, gs1) \<Rightarrow> (Inl (LaGateStore e), st, gs1)
                     | (Inr generation, gs1) \<Rightarrow>
                         (case approve_lookup (ae_iso env) repository pr target now st of
                            (Inl e, st1) \<Rightarrow> (Inl e, st1, gs1)
                          | (Inr (Some same), st1) \<Rightarrow> (Inr same, st1, gs1)
                          | (Inr None, st1) \<Rightarrow>
                              (case build_row env repository pr target generation request_id nonce now of
                                 Inl e \<Rightarrow> (Inl e, st1, gs1)
                               | Inr row \<Rightarrow>
                                   (case approve_insert row target st1 of (r, st2) \<Rightarrow> (r, st2, gs1))))))
           | _ \<Rightarrow> (Inl (LocalApprovalError ''PR number must be positive''), st, gs))
      | _ \<Rightarrow> (Inl (LocalApprovalError ''repository must be one exact owner/repo''), st, gs)))"

section \<open>Taking work\<close>

text \<open>\<open>_set\<close>: the one exit from the live states, besides the expiries and the revocation.\<close>

definition set_state ::
    "string \<Rightarrow> string \<Rightarrow> string option \<Rightarrow> pyval \<Rightarrow> approval_store \<Rightarrow> (la_error + unit) \<times> approval_store" where
  "set_state request_id state reason result st =
     (case (if result = PNone then Inr None else map_sum id Some (dumps result)) of
        Inl e \<Rightarrow> (Inl e, st)
      | Inr encoded \<Rightarrow>
          (case update_rows (\<lambda>r. ap_request_id r = request_id \<and> live r)
                  (\<lambda>r. r\<lparr>ap_state := state, ap_reason := reason, ap_result_json := encoded,
                         ap_claim_until := None, ap_active_key := None\<rparr>) st of
             (st1, changed) \<Rightarrow>
               (if changed \<noteq> 1 then Inl (LocalApprovalError ''approval is no longer claimable'') else Inr (), st1)))"

definition complete_approval :: "string \<Rightarrow> pyval \<Rightarrow> approval_store \<Rightarrow> (la_error + unit) \<times> approval_store" where
  "complete_approval request_id result st =
     (case dumps result of
        Inl e \<Rightarrow> (Inl e, st)
      | Inr encoded \<Rightarrow>
          (case select_key ap_request_id request_id (la_approvals st) of
             Some row \<Rightarrow>
               if ap_state row = ''completed'' then
                 (if ap_result_json row \<noteq> Some encoded
                  then Inl (LocalApprovalError ''completed approval result identity crossed'') else Inr (), st)
               else set_state request_id ''completed'' None result st
           | None \<Rightarrow> set_state request_id ''completed'' None result st))"

definition fail_approval :: "string \<Rightarrow> string \<Rightarrow> approval_store \<Rightarrow> (la_error + unit) \<times> approval_store" where
  "fail_approval request_id reason st = set_state request_id ''failed'' (Some reason) PNone st"

text \<open>\<open>revoke\<close> returns the number of rows; it stops every live approval of the pull request.\<close>

definition revoke_approvals :: "string \<Rightarrow> int \<Rightarrow> approval_store \<Rightarrow> nat \<times> approval_store" where
  "revoke_approvals repository pr st =
     (case update_rows (\<lambda>r. ap_repository r = repository \<and> ap_pr_number r = pr \<and> live r)
             (\<lambda>r. r\<lparr>ap_state := ''revoked'', ap_reason := Some ''operator-revoked'', ap_claim_until := None,
                    ap_active_key := None\<rparr>) st of
        (st1, changed) \<Rightarrow> (changed, st1))"

text \<open>One transaction of \<open>poll\<close>: the oldest pending row is expired or claimed for at most a minute.\<close>

datatype poll_step = PollEmpty | PollExpired | PollTook approval_row

definition claim_window :: "instant \<Rightarrow> instant \<Rightarrow> instant" where
  "claim_window now expires = min (now + minutes 1) expires"

definition poll_take ::
    "(string \<Rightarrow> pydatetime option) \<Rightarrow> instant \<Rightarrow> approval_store \<Rightarrow> (la_error + poll_step) \<times> approval_store" where
  "poll_take iso8601 now st =
     (case oldest (filter (\<lambda>r. ap_state r = ''pending'') (la_approvals st)) of
        None \<Rightarrow> (Inr PollEmpty, st)
      | Some row \<Rightarrow>
          (case la_parse iso8601 (ap_expires_at row) of
             Inl e \<Rightarrow> (Inl e, st)
           | Inr expires \<Rightarrow>
               if expires \<le> now then
                 (Inr PollExpired,
                  fst (update_rows (\<lambda>r. ap_request_id r = ap_request_id row) (settle ''expired'' ''ttl-expired'') st))
               else
                 (Inr (PollTook row),
                  fst (update_rows (\<lambda>r. ap_request_id r = ap_request_id row)
                    (\<lambda>r. r\<lparr>ap_state := ''claimed'', ap_claim_until := Some (stamp (claim_window now expires))\<rparr>) st))))"

text \<open>\<open>"pilot_package" in request\<close>.\<close>

fun mentions_pilot :: "pyval \<Rightarrow> la_error + bool" where
  "mentions_pilot (PDict d) = Inr (List.member (pkeys d) ''pilot_package'')"
| "mentions_pilot (PList vs) = Inr (list_ex (\<lambda>v. py_eq v (PStr ''pilot_package'')) vs)"
| "mentions_pilot (PStr s) = Inr (occurs_in ''pilot_package'' s)"
| "mentions_pilot _ = Inl LaTypeError"

text \<open>
  The rest of one iteration: \<open>Some\<close> request is returned, \<open>None\<close> goes on with the next row.
\<close>

definition drop_changed ::
    "string \<Rightarrow> approval_store \<times> gate_store \<Rightarrow> (la_error + pyval option) \<times> approval_store \<times> gate_store" where
  "drop_changed request_id = (\<lambda>(st, gs).
     (case set_state request_id ''expired'' (Some ''resolved-target-or-generation-changed'') PNone st of
        (Inl e, st1) \<Rightarrow> (Inl e, st1, gs)
      | (Inr _, st1) \<Rightarrow> (Inr None, st1, gs)))"

definition hand_out :: "pyval \<Rightarrow> approval_store \<Rightarrow> approval_store" where
  "hand_out request st = st\<lparr>la_current := Some request\<rparr>"

definition poll_protocol ::
    "approval_env \<Rightarrow> approval_row \<Rightarrow> pyval \<Rightarrow> approval_store \<times> gate_store
     \<Rightarrow> (la_error + pyval option) \<times> approval_store \<times> gate_store" where
  "poll_protocol env row request = (\<lambda>(st, gs).
     (case ae_resolve env (ap_repository row) (ap_pr_number row) of
        Inl e \<Rightarrow>
          (case fail_approval (ap_request_id row) ''authority-reresolution-failed'' st of
             (Inl e', st1) \<Rightarrow> (Inl e', st1, gs)
           | (Inr _, st1) \<Rightarrow> (Inr None, st1, gs))
      | Inr current \<Rightarrow>
          if \<not> request_matches_target request current \<or> rt_head_sha current \<noteq> ap_head_sha row
          then drop_changed (ap_request_id row) (st, gs)
          else (case observe_head (rt_repository_id current) (rt_pr_number current) (rt_head_sha current) gs of
             (Inl e, gs1) \<Rightarrow> (Inl (LaGateStore e), st, gs1)
           | (Inr generation, gs1) \<Rightarrow>
               if generation \<noteq> ap_head_generation row then drop_changed (ap_request_id row) (st, gs1)
               else (Inr (Some request), hand_out request st, gs1))))"

definition poll_settle ::
    "approval_env \<Rightarrow> approval_row \<Rightarrow> approval_store \<times> gate_store
     \<Rightarrow> (la_error + pyval option) \<times> approval_store \<times> gate_store" where
  "poll_settle env row = (\<lambda>(st, gs).
     (case ap_request row of
        None \<Rightarrow> (Inl LaJsonError, st, gs)
      | Some request \<Rightarrow>
          (case mentions_pilot request of
             Inl e \<Rightarrow> (Inl e, st, gs)
           | Inr True \<Rightarrow> (Inr (Some request), hand_out request st, gs)
           | Inr False \<Rightarrow> poll_protocol env row request (st, gs))))"

text \<open>
  The \<open>while True\<close> of \<open>poll\<close>, with fuel; \<open>envs i\<close> is what the collaborators answer in iteration
  \<open>i\<close>, the clock is read once.
\<close>

fun poll_loop ::
    "nat \<Rightarrow> (nat \<Rightarrow> approval_env) \<Rightarrow> instant \<Rightarrow> approval_store \<times> gate_store
     \<Rightarrow> ((la_error + pyval option) \<times> approval_store \<times> gate_store) option" where
  "poll_loop 0 envs now s = None"
| "poll_loop (Suc n) envs now s =
     (case poll_take (ae_iso (envs 0)) now (fst s) of
        (Inl e, st) \<Rightarrow> Some (Inl e, st, snd s)
      | (Inr PollEmpty, st) \<Rightarrow> Some (Inr None, st, snd s)
      | (Inr PollExpired, st) \<Rightarrow> poll_loop n (\<lambda>i. envs (Suc i)) now (st, snd s)
      | (Inr (PollTook row), st) \<Rightarrow>
          (case poll_settle (envs 0) row (st, snd s) of
             (Inl e, s1) \<Rightarrow> Some (Inl e, s1)
           | (Inr (Some request), s1) \<Rightarrow> Some (Inr (Some request), s1)
           | (Inr None, s1) \<Rightarrow> poll_loop n (\<lambda>i. envs (Suc i)) now s1))"

definition poll ::
    "nat \<Rightarrow> (nat \<Rightarrow> approval_env) \<Rightarrow> instant \<Rightarrow> approval_store \<times> gate_store
     \<Rightarrow> ((la_error + pyval option) \<times> approval_store \<times> gate_store) option" where
  "poll fuel envs now s = poll_loop fuel envs now ((fst s)\<lparr>la_current := None\<rparr>, snd s)"

section \<open>Leases\<close>

definition claim_approval ::
    "string \<Rightarrow> pyval \<Rightarrow> pyval \<Rightarrow> instant \<Rightarrow> approval_store \<Rightarrow> (la_error + unit) \<times> approval_store" where
  "claim_approval request_id request lease_seconds now st =
     (case lease_seconds of
        PInt lease \<Rightarrow>
          if lease < 1 \<or> 7200 < lease then (Inl (LocalApprovalError ''work-source lease is invalid''), st)
          else (case dumps request of
             Inl e \<Rightarrow> (Inl e, st)
           | Inr encoded \<Rightarrow>
               (case update_rows
                    (\<lambda>r. ap_request_id r = request_id \<and> ap_state r = ''claimed'' \<and> ap_request_json r = encoded)
                    (\<lambda>r. r\<lparr>ap_durable := 1, ap_claim_until := Some (stamp (now + seconds lease)), ap_reason := None\<rparr>)
                    st of
                  (st1, changed) \<Rightarrow>
                    if changed \<noteq> 1 then (Inl (LocalApprovalError ''approval claim identity is not durable''), st1)
                    else (Inr (), hand_out request st1)))
      | _ \<Rightarrow> (Inl (LocalApprovalError ''work-source lease is invalid''), st))"

definition resume_approval ::
    "string \<Rightarrow> pyval \<Rightarrow> pyval \<Rightarrow> instant \<Rightarrow> approval_store \<Rightarrow> (la_error + pyval) \<times> approval_store" where
  "resume_approval request_id request lease_seconds now st =
     (case dumps request of
        Inl e \<Rightarrow> (Inl e, st)
      | Inr encoded \<Rightarrow>
          (case select_key ap_request_id request_id (la_approvals st) of
             None \<Rightarrow> (Inl (LocalApprovalError ''durable approval cannot be resumed''), st)
           | Some row \<Rightarrow>
               if ap_request_json row \<noteq> encoded \<or> ap_state row \<noteq> ''claimed'' \<or> ap_durable row \<noteq> 1
               then (Inl (LocalApprovalError ''durable approval cannot be resumed''), st)
               else (case claim_approval request_id request lease_seconds now st of
                  (Inl e, st1) \<Rightarrow> (Inl e, st1)
                | (Inr _, st1) \<Rightarrow> (Inr request, st1))))"

definition retry_approval ::
    "string \<Rightarrow> pyval \<Rightarrow> instant \<Rightarrow> approval_store \<Rightarrow> (la_error + unit) \<times> approval_store" where
  "retry_approval request_id reason now st =
     (case reason of
        PStr text \<Rightarrow>
          if text = [] then (Inl (LocalApprovalError ''retry reason is invalid''), st)
          else (case update_rows (\<lambda>r. ap_request_id r = request_id \<and> ap_state r = ''claimed'' \<and> ap_durable r = 1)
                  (\<lambda>r. r\<lparr>ap_reason := Some text, ap_claim_until := Some (stamp now)\<rparr>) st of
             (st1, changed) \<Rightarrow>
               (if changed \<noteq> 1 then Inl (LocalApprovalError ''durable approval cannot be retried'') else Inr (), st1))
      | _ \<Rightarrow> (Inl (LocalApprovalError ''retry reason is invalid''), st))"

text \<open>
  \<open>recover_claims\<close>: two statements, each its own transaction. The comparisons are between texts; a
  NULL \<open>claim_until\<close> compares as false.
\<close>

definition ttl_lapsed :: "string \<Rightarrow> approval_row \<Rightarrow> bool" where
  "ttl_lapsed now_text r = (ap_state r = ''claimed'' \<and> ap_durable r = 0 \<and> ap_expires_at r \<le> now_text)"

definition lease_lapsed :: "string \<Rightarrow> approval_row \<Rightarrow> bool" where
  "lease_lapsed now_text r =
     (ap_state r = ''claimed'' \<and> ap_durable r = 0
      \<and> (case ap_claim_until r of None \<Rightarrow> False | Some u \<Rightarrow> u \<le> now_text) \<and> now_text < ap_expires_at r)"

definition recover_claims :: "instant \<Rightarrow> approval_store \<Rightarrow> nat \<times> approval_store" where
  "recover_claims now st =
     (let st1 = fst (update_rows (ttl_lapsed (stamp now))
                (\<lambda>r. (settle ''expired'' ''ttl-expired'' r)\<lparr>ap_claim_until := None\<rparr>) st)
      in case update_rows (lease_lapsed (stamp now))
           (\<lambda>r. r\<lparr>ap_state := ''pending'', ap_claim_until := None\<rparr>) st1 of
         (st2, changed) \<Rightarrow> (changed, st2))"

section \<open>Drift of a stored request\<close>

text \<open>
  \<open>supersession_reason\<close>: the resolver's own classification when it has one, else a fresh resolution.
  The fallback reads the package's repository and number with \<open>[]\<close>.
\<close>

definition supersession_fallback :: "approval_env \<Rightarrow> pydict \<Rightarrow> la_error + string option" where
  "supersession_fallback env req =
     (case package_of_request req of
        PDict package \<Rightarrow>
          (case (map_of package ''repository'', map_of package ''pr_number'') of
             (Some (PStr repository), Some (PInt pr)) \<Rightarrow>
               bindE (ae_resolve env repository pr) (\<lambda>current.
               if request_matches_target (PDict req) current then Inr None
               else if \<not> py_eq (PStr (rt_head_sha current)) (pget package ''head_sha'')
               then Inr (Some ''a newer commit superseded this pull request head'')
               else Inr (Some ''the default branch moved before this run was admitted''))
           | (Some _, Some _) \<Rightarrow> Inl (LaResolver ''resolver arguments'')
           | _ \<Rightarrow> Inl LaKeyError)
      | _ \<Rightarrow> Inl LaTypeError)"

definition supersession_reason ::
    "approval_env \<Rightarrow> (pydict \<Rightarrow> la_error + string option) option \<Rightarrow> string \<Rightarrow> pydict \<Rightarrow> approval_store
     \<Rightarrow> la_error + string option" where
  "supersession_reason env classify request_id req st =
     bindE (dumps (PDict req)) (\<lambda>encoded.
     bindE (requireE (map_option ap_request_json (select_key ap_request_id request_id (la_approvals st)) = Some encoded)
       (LocalApprovalError ''approval revalidation crossed request identity'')) (\<lambda>_.
     case classify of Some f \<Rightarrow> f req | None \<Rightarrow> supersession_fallback env req))"

section \<open>Preflight blocks and discard publications\<close>

definition block_key :: "block_row \<Rightarrow> string \<times> int \<times> string" where
  "block_key b = (pb_repository b, pb_pr_number b, pb_head_sha b)"

definition record_preflight_block ::
    "pyval \<Rightarrow> pyval \<Rightarrow> pyval \<Rightarrow> pyval \<Rightarrow> instant \<Rightarrow> approval_store \<Rightarrow> (la_error + bool) \<times> approval_store" where
  "record_preflight_block repository pr head reason now st =
     (case (repository, pr, head, reason) of
        (PStr repo, PInt n, PStr h, PStr why) \<Rightarrow>
          if \<not> loose_repository_name repo \<or> n < 1 \<or> \<not> sha40 h \<or> why = []
          then (Inl (LocalApprovalError ''preflight block identity is invalid''), st)
          else if select_key block_key (repo, n, h) (la_blocks st) \<noteq> None then (Inr False, st)
          else (Inr True, st\<lparr>la_blocks := la_blocks st
                 @ [\<lparr>pb_repository = repo, pb_pr_number = n, pb_head_sha = h, pb_reason = why, pb_created_at = stamp now\<rparr>]\<rparr>)
      | _ \<Rightarrow> (Inl (LocalApprovalError ''preflight block identity is invalid''), st))"

definition has_preflight_block :: "string \<Rightarrow> int \<Rightarrow> string \<Rightarrow> approval_store \<Rightarrow> bool" where
  "has_preflight_block repository pr head st = (select_key block_key (repository, pr, head) (la_blocks st) \<noteq> None)"

definition DISCARD_CHECKS :: "string list" where
  "DISCARD_CHECKS = [''backend lint + test'', ''frontend lint + test'']"

definition scope_ok :: "pyval \<Rightarrow> bool" where
  "scope_ok scope = str_matches (\<lambda>s. s \<noteq> [] \<and> length s \<le> 512) scope"

definition discard_identity :: "pyval \<Rightarrow> pyval \<Rightarrow> la_error + unit" where
  "discard_identity scope check_name =
     (if \<not> scope_ok scope then Inl (LocalApprovalError ''discard Check Run identity is invalid'')
      else if \<not> hashable check_name then Inl LaTypeError
      else requireE (one_of check_name DISCARD_CHECKS) (LocalApprovalError ''discard Check Run identity is invalid''))"

definition discard_key :: "discard_row \<Rightarrow> string \<times> string" where
  "discard_key d = (dc_scope d, dc_check_name d)"

definition discard_check_progress ::
    "pyval \<Rightarrow> approval_store \<Rightarrow> la_error + (string \<times> int) list \<times> string list" where
  "discard_check_progress scope st =
     (case scope of
        PStr s \<Rightarrow>
          if \<not> scope_ok scope then Inl (LocalApprovalError ''discard Check Run scope is invalid'')
          else let rows = filter (\<lambda>d. dc_scope d = s) (la_discards st) in
            Inr (concat (map (\<lambda>d. case dc_check_run_id d of None \<Rightarrow> [] | Some n \<Rightarrow> [(dc_check_name d, n)]) rows),
                 map dc_check_name (filter (\<lambda>d. dc_state d = ''completed'') rows))
      | _ \<Rightarrow> Inl (LocalApprovalError ''discard Check Run scope is invalid''))"

definition begin_discard_check :: "pyval \<Rightarrow> pyval \<Rightarrow> approval_store \<Rightarrow> (la_error + unit) \<times> approval_store" where
  "begin_discard_check scope check_name st =
     (case discard_identity scope check_name of
        Inl e \<Rightarrow> (Inl e, st)
      | Inr _ \<Rightarrow>
          (case (scope, check_name) of
             (PStr s, PStr c) \<Rightarrow>
               (Inr (),
                if select_key discard_key (s, c) (la_discards st) \<noteq> None then st
                else st\<lparr>la_discards := la_discards st
                       @ [\<lparr>dc_scope = s, dc_check_name = c, dc_check_run_id = None, dc_state = ''pending''\<rparr>]\<rparr>)
           | _ \<Rightarrow> (Inl LaTypeError, st)))"

definition set_discard_created :: "int \<Rightarrow> discard_row \<Rightarrow> discard_row" where
  "set_discard_created n d = d\<lparr>dc_check_run_id := Some n, dc_state := ''created''\<rparr>"

definition record_discard_check ::
    "pyval \<Rightarrow> pyval \<Rightarrow> pyval \<Rightarrow> approval_store \<Rightarrow> (la_error + unit) \<times> approval_store" where
  "record_discard_check scope check_name check_run_id st =
     (case discard_identity scope check_name of
        Inl e \<Rightarrow> (Inl e, st)
      | Inr _ \<Rightarrow>
          (case (scope, check_name, check_run_id) of
             (PStr s, PStr c, PInt n) \<Rightarrow>
               if n < 1 then (Inl (LocalApprovalError ''discard Check Run id is invalid''), st)
               else (case select_key discard_key (s, c) (la_discards st) of
                  None \<Rightarrow> (Inl (LocalApprovalError ''discard Check Run was not begun''), st)
                | Some d \<Rightarrow>
                    if dc_check_run_id d \<noteq> None \<and> dc_check_run_id d \<noteq> Some n
                    then (Inl (LocalApprovalError ''discard Check Run id changed''), st)
                    else (Inr (), st\<lparr>la_discards := update_key discard_key (set_discard_created n) (s, c) (la_discards st)\<rparr>))
           | _ \<Rightarrow> (Inl (LocalApprovalError ''discard Check Run id is invalid''), st)))"

definition set_discard_completed :: "discard_row \<Rightarrow> discard_row" where
  "set_discard_completed d =
     (if dc_check_run_id d \<noteq> None \<and> dc_state d \<in> set [''created'', ''completed''] then d\<lparr>dc_state := ''completed''\<rparr> else d)"

definition complete_discard_check :: "pyval \<Rightarrow> pyval \<Rightarrow> approval_store \<Rightarrow> (la_error + unit) \<times> approval_store" where
  "complete_discard_check scope check_name st =
     (case discard_identity scope check_name of
        Inl e \<Rightarrow> (Inl e, st)
      | Inr _ \<Rightarrow>
          (case (scope, check_name) of
             (PStr s, PStr c) \<Rightarrow>
               (case select_key discard_key (s, c) (la_discards st) of
                  Some d \<Rightarrow>
                    if dc_check_run_id d \<noteq> None \<and> dc_state d \<in> set [''created'', ''completed''] then
                      (Inr (), st\<lparr>la_discards := update_key discard_key set_discard_completed (s, c) (la_discards st)\<rparr>)
                    else (Inl (LocalApprovalError ''discard Check Run completion lost its identity''), st)
                | None \<Rightarrow> (Inl (LocalApprovalError ''discard Check Run completion lost its identity''), st))
           | _ \<Rightarrow> (Inl LaTypeError, st)))"

section \<open>Status\<close>

definition text_or_none :: "string option \<Rightarrow> pyval" where
  "text_or_none v = (case v of None \<Rightarrow> PNone | Some s \<Rightarrow> PStr s)"

definition status_row :: "approval_row \<Rightarrow> pydict" where
  "status_row r =
     [(''request_id'', PStr (ap_request_id r)), (''repository'', PStr (ap_repository r)),
      (''pr_number'', PInt (ap_pr_number r)), (''head_sha'', PStr (ap_head_sha r)),
      (''head_generation'', PInt (ap_head_generation r)), (''state'', PStr (ap_state r)),
      (''created_at'', PStr (ap_created_at r)), (''expires_at'', PStr (ap_expires_at r)),
      (''reason'', text_or_none (ap_reason r))]"

definition status_block :: "block_row \<Rightarrow> pydict" where
  "status_block b =
     [(''request_id'', PStr (''preflight:'' @ active_key_of (pb_repository b) (pb_pr_number b) (pb_head_sha b))),
      (''repository'', PStr (pb_repository b)), (''pr_number'', PInt (pb_pr_number b)),
      (''head_sha'', PStr (pb_head_sha b)), (''reason'', PStr (pb_reason b)),
      (''created_at'', PStr (pb_created_at b)), (''head_generation'', PInt 0), (''state'', PStr ''failed''),
      (''expires_at'', PStr (pb_created_at b))]"

text \<open>\<open>ORDER BY created_at DESC\<close>, and the two optional conditions.\<close>

definition newest_first :: "('a \<Rightarrow> string) \<Rightarrow> 'a list \<Rightarrow> 'a list" where
  "newest_first created rows = rev (sort_key created (rev rows))"

definition selected :: "string option \<Rightarrow> int option \<Rightarrow> string \<Rightarrow> int \<Rightarrow> bool" where
  "selected repository pr r n = ((case repository of None \<Rightarrow> True | Some x \<Rightarrow> r = x) \<and> (case pr of None \<Rightarrow> True | Some m \<Rightarrow> n = m))"

definition approval_status :: "string option \<Rightarrow> int option \<Rightarrow> approval_store \<Rightarrow> pydict list" where
  "approval_status repository pr st =
     map status_row (newest_first ap_created_at
       (filter (\<lambda>r. selected repository pr (ap_repository r) (ap_pr_number r)) (la_approvals st)))
     @ map status_block (newest_first pb_created_at
       (filter (\<lambda>b. selected repository pr (pb_repository b) (pb_pr_number b)) (la_blocks st)))"

section \<open>The pilot builder\<close>

record pilot_builder =
  pb_image_fingerprint :: string
  pb_authority_kind :: string
  pb_runner_group :: pyval

definition pilot_builder_of :: "string \<Rightarrow> string \<Rightarrow> pyval \<Rightarrow> la_error + pilot_builder" where
  "pilot_builder_of fingerprint kind runner_group =
     (if \<not> sha256hex fingerprint then Inl (LocalApprovalError ''pilot image fingerprint must be lowercase SHA-256'')
      else if kind = ''personal-repository'' then
        (if runner_group \<noteq> PNone then Inl (LocalApprovalError ''personal pilot authority cannot name a runner group'')
         else Inr \<lparr>pb_image_fingerprint = fingerprint, pb_authority_kind = kind, pb_runner_group = runner_group\<rparr>)
      else if kind = ''organization-runner-group'' then
        (if \<not> str_matches (\<lambda>s. s = strip s \<and> runner_group_text s) runner_group
         then Inl (LocalApprovalError ''organization pilot authority requires an exact runner group'')
         else Inr \<lparr>pb_image_fingerprint = fingerprint, pb_authority_kind = kind, pb_runner_group = runner_group\<rparr>)
      else Inl (LocalApprovalError ''pilot authority kind is invalid''))"

definition pilot_reservation ::
    "pilot_builder \<Rightarrow> string \<Rightarrow> approval_target \<Rightarrow> string \<Rightarrow> instant \<Rightarrow> int \<Rightarrow> pyval \<Rightarrow> pyval \<Rightarrow> pydict" where
  "pilot_reservation b allocation_id target nonce now ttl name labels =
     [(''allocation_reservation_version'', PInt 2), (''allocation_id'', PStr allocation_id),
      (''repository_id'', PStr (rt_repository_id target)), (''repository'', PStr (rt_repository target)),
      (''pr_number'', PInt (rt_pr_number target)), (''head_sha'', PStr (rt_head_sha target)),
      (''base_sha'', PStr (rt_base_sha target)), (''workflow_ref'', PStr (rt_workflow_ref target)),
      (''job_name'', PStr ''local-quality''), (''authority_kind'', PStr (pb_authority_kind b)),
      (''runner_group'', pb_runner_group b), (''scale_set_name'', name), (''labels'', labels),
      (''image_fingerprint'', PStr (pb_image_fingerprint b)), (''nonce'', PStr nonce),
      (''approval_issued_at'', PStr (stamp now)), (''approval_expires_at'', PStr (stamp (now + ttl))),
      (''max_jobs'', PInt 1), (''ephemeral'', PBool True)]"

definition pilot_request_package ::
    "string \<Rightarrow> approval_target \<Rightarrow> int \<Rightarrow> instant \<Rightarrow> int \<Rightarrow> string \<Rightarrow> pydict" where
  "pilot_request_package allocation_id target repository_number now ttl label =
     [(''jit_pilot_package_version'', PInt 1), (''repository'', PStr (rt_repository target)),
      (''repository_id'', PInt repository_number), (''pr_number'', PInt (rt_pr_number target)),
      (''base_branch'', PStr (rt_default_branch target)), (''base_sha'', PStr (rt_base_sha target)),
      (''head_sha'', PStr (rt_head_sha target)), (''tested_merge_sha'', PStr (rt_tested_merge_sha target)),
      (''workflow_ref'', PStr (rt_workflow_ref target)), (''backend'', PStr ''local''),
      (''allocation_id'', PStr allocation_id), (''runner_label'', PStr label),
      (''issued_at'', PStr (stamp now)), (''expires_at'', PStr (stamp (now + ttl)))]"

text \<open>\<open>PilotWorkRequestBuilder.build\<close>; \<open>allocation_id\<close> is the fresh UUID.\<close>

definition pilot_build ::
    "(string \<Rightarrow> string) \<Rightarrow> (string \<Rightarrow> pydatetime option) \<Rightarrow> pilot_builder \<Rightarrow> string \<Rightarrow> approval_target \<Rightarrow> int
     \<Rightarrow> string \<Rightarrow> string \<Rightarrow> instant \<Rightarrow> int \<Rightarrow> la_error + pyval" where
  "pilot_build H iso8601 b allocation_id target generation request_id nonce now ttl =
     (case allocation_scale_set_name H (pilot_reservation b allocation_id target nonce now ttl (PStr []) (PList [])) of
        Inl e \<Rightarrow> Inl (LaReservation e)
      | Inr name \<Rightarrow>
          (case int_text (rt_repository_id target) of
             None \<Rightarrow> Inl LaValueError
           | Some n \<Rightarrow>
               let package = PDict (pilot_request_package allocation_id target n now ttl name) in
               (case pilot_package iso8601 package (Aware now) of
                  Inl e \<Rightarrow> Inl (LaPilot e)
                | Inr _ \<Rightarrow>
                    Inr (PDict [(''request_id'', PStr request_id), (''pilot_package'', package),
                      (''reservation'', PDict (pilot_reservation b allocation_id target nonce now ttl
                         (PStr name) (PList [PStr name])))]))))"

section \<open>The GitHub resolver\<close>

text \<open>
  \<open>WorkerAuthorityResolver\<close> over the worker's client: each field is one answer of GitHub, or the
  exception the client raises instead.
\<close>

record worker_client =
  wc_repository_id :: int
  wc_repository :: string
  wc_default_branch :: string
  wc_workflow_path :: string
  wc_token :: "la_error + string"
  wc_repository_ok :: "string \<Rightarrow> la_error + unit"
  wc_default_branch_head :: "string \<Rightarrow> la_error + string"
  wc_pull_request :: "int \<Rightarrow> string \<Rightarrow> la_error + pydict"
  wc_workflow_ok :: "string \<Rightarrow> la_error + unit"
  wc_merge_commit :: "int \<Rightarrow> string \<Rightarrow> la_error + pyval"
  wc_merge_parents :: "string \<Rightarrow> string \<Rightarrow> la_error + string \<times> string"
  wc_snapshot :: "int \<Rightarrow> string \<Rightarrow> la_error + pydict"

text \<open>\<open>pr["head"]["sha"]\<close>.\<close>

definition head_of :: "pydict \<Rightarrow> la_error + pyval" where
  "head_of pr =
     (case map_of pr ''head'' of
        None \<Rightarrow> Inl LaKeyError
      | Some (PDict h) \<Rightarrow> (case map_of h ''sha'' of None \<Rightarrow> Inl LaKeyError | Some v \<Rightarrow> Inr v)
      | Some _ \<Rightarrow> Inl LaTypeError)"

definition merge_of :: "worker_client \<Rightarrow> int \<Rightarrow> string \<Rightarrow> pydict \<Rightarrow> la_error + pyval" where
  "merge_of c pr token answer =
     (if str_matches sha40 (pget answer ''merge_commit_sha'') then Inr (pget answer ''merge_commit_sha'')
      else wc_merge_commit c pr token)"

definition resolve_target :: "worker_client \<Rightarrow> string \<Rightarrow> int \<Rightarrow> la_error + approval_target" where
  "resolve_target c repository pr =
     bindE (requireE (repository = wc_repository c)
       (LocalApprovalError ''repository is not the exact selected GitHub App repository'')) (\<lambda>_.
     bindE (wc_token c) (\<lambda>token.
     bindE (wc_repository_ok c token) (\<lambda>_.
     bindE (wc_default_branch_head c token) (\<lambda>base.
     bindE (wc_pull_request c pr token) (\<lambda>answer.
     bindE (wc_workflow_ok c token) (\<lambda>_.
     bindE (merge_of c pr token answer) (\<lambda>m.
     bindE (case m of PStr s \<Rightarrow> requireE (sha40 s) (LocalApprovalError ''pull request lacks exact base or tested merge SHA'')
            | _ \<Rightarrow> Inl (LocalApprovalError ''pull request lacks exact base or tested merge SHA'')) (\<lambda>_.
     case m of
       PStr merge \<Rightarrow>
         bindE (wc_merge_parents c merge token) (\<lambda>(p1, p2).
         bindE (head_of answer) (\<lambda>head.
         case head of
           PStr h \<Rightarrow>
             (if (p1, p2) \<noteq> (base, h)
              then Inl (LocalApprovalError ''GitHub merge ref is stale relative to the live default branch; update the pull request branch before retrying'')
              else Inr \<lparr>rt_repository_id = int_str (wc_repository_id c), rt_repository = wc_repository c,
                rt_pr_number = pr, rt_head_sha = h, rt_default_branch = wc_default_branch c,
                rt_workflow_ref = wc_repository c @ ''/'' @ wc_workflow_path c @ ''@refs/heads/'' @ wc_default_branch c,
                rt_base_sha = base, rt_tested_merge_sha = merge\<rparr>)
         | _ \<Rightarrow> Inl (LocalApprovalError ''GitHub merge ref is stale relative to the live default branch; update the pull request branch before retrying'')))
     | _ \<Rightarrow> Inl LaTypeError))))))))"

definition classify_drift :: "worker_client \<Rightarrow> pydict \<Rightarrow> la_error + string option" where
  "classify_drift c req =
     (case package_of_request req of
        PDict package \<Rightarrow>
          (case (pget package ''repository'', pget package ''pr_number'') of
             (PStr repository, PInt pr) \<Rightarrow>
               bindE (requireE (repository = wc_repository c)
                 (LocalApprovalError ''approval crossed repository identity'')) (\<lambda>_.
               bindE (wc_token c) (\<lambda>token.
               bindE (wc_repository_ok c token) (\<lambda>_.
               bindE (wc_default_branch_head c token) (\<lambda>base.
               bindE (wc_snapshot c pr token) (\<lambda>answer.
               if \<not> py_eq (pget answer ''state'') (PStr ''open'')
               then Inr (Some ''the pull request was closed before this run was admitted'')
               else bindE (head_of answer) (\<lambda>head.
                 if \<not> py_eq head (pget package ''head_sha'')
                 then Inr (Some ''a newer commit superseded this pull request head'')
                 else if \<not> py_eq (PStr base) (pget package ''base_sha'')
                 then Inr (Some ''the default branch moved before this run was admitted'')
                 else bindE (merge_of c pr token answer) (\<lambda>m.
                   if \<not> py_eq m (pget package ''tested_merge_sha'')
                   then Inr (Some ''the pull request merge ref changed before this run was admitted'')
                   else Inr None)))))))
           | _ \<Rightarrow> Inl (LocalApprovalError ''approval crossed repository identity''))
      | _ \<Rightarrow> Inl (LocalApprovalError ''approval package is absent during revalidation''))"

end
