(* ===== verification/Approval_Safety.thy ===== *)
theory Approval_Safety
  imports Local_Approval
begin

text \<open>
  The life of an approval. Each transaction of the store moves every row along at most one edge of
  one small machine (pending, claimed, durably claimed, settled) and appends at most one fresh row;
  from that shape follow the invariant of the table, the finality of settled rows, and that a durable
  claim outlives every clock. The composite operations are sequences of the transactions, so all of
  it holds for them and for any interleaving of several processes.
\<close>

section \<open>The abstract life of a row\<close>

definition SETTLED :: "string list" where
  "SETTLED = [''completed'', ''failed'', ''revoked'', ''expired'']"

text \<open>The columns an UPDATE never names.\<close>

definition frozen :: "approval_row \<Rightarrow> string \<times> string \<times> int \<times> string \<times> int \<times> string \<times> pyval option \<times> string \<times> string" where
  "frozen r = (ap_request_id r, ap_repository r, ap_pr_number r, ap_head_sha r, ap_head_generation r,
     ap_request_json r, ap_request r, ap_created_at r, ap_expires_at r)"

definition approval_row_ok :: "approval_row \<Rightarrow> bool" where
  "approval_row_ok r =
     (if live r
      then ap_active_key r = Some (active_key_of (ap_repository r) (ap_pr_number r) (ap_head_sha r))
        \<and> (ap_durable r = 0 \<or> ap_durable r = 1 \<and> ap_state r = ''claimed'')
      else ap_state r \<in> set SETTLED \<and> ap_active_key r = None)"

definition evolves :: "approval_row \<Rightarrow> approval_row \<Rightarrow> bool" where
  "evolves r r' =
     (r' = r \<or>
      frozen r' = frozen r \<and> live r
      \<and> (if live r' then ap_active_key r' = ap_active_key r
           \<and> (if ap_durable r = 1 then ap_durable r' = 1 \<and> ap_state r' = ap_state r
              else ap_durable r' = 0 \<or> ap_durable r' = 1 \<and> ap_state r' = ''claimed'')
         else ap_state r' \<in> set SETTLED \<and> ap_active_key r' = None))"

lemma evolves_refl [simp]: "evolves r r"
  by (simp add: evolves_def)

lemma evolves_frozen: "evolves r r' \<Longrightarrow> frozen r' = frozen r"
  by (auto simp: evolves_def)

lemma evolves_id: "evolves r r' \<Longrightarrow> ap_request_id r' = ap_request_id r"
  by (auto simp: evolves_def frozen_def)

lemma evolves_ok: "approval_row_ok r \<Longrightarrow> evolves r r' \<Longrightarrow> approval_row_ok r'"
  by (auto simp: evolves_def approval_row_ok_def frozen_def split: if_splits)

lemma evolves_live: "evolves r r' \<Longrightarrow> live r' \<Longrightarrow> live r \<and> ap_active_key r' = ap_active_key r"
  by (auto simp: evolves_def split: if_splits)

lemma evolves_settled: "evolves r r' \<Longrightarrow> \<not> live r \<Longrightarrow> r' = r"
  by (auto simp: evolves_def)

lemma settled_not_live [simp]: "s \<in> set SETTLED \<Longrightarrow> ap_state r = s \<Longrightarrow> \<not> live r"
  by (auto simp: SETTLED_def live_def LIVE_STATES_def)

definition approvals_ok :: "approval_store \<Rightarrow> bool" where
  "approvals_ok st =
     (distinct (map ap_request_id (la_approvals st))
      \<and> (\<forall>r \<in> set (la_approvals st). approval_row_ok r)
      \<and> (\<forall>r \<in> set (la_approvals st). \<forall>q \<in> set (la_approvals st).
           live r \<longrightarrow> live q \<longrightarrow> ap_active_key r = ap_active_key q \<longrightarrow> r = q))"

text \<open>The shape of every transaction.\<close>

definition fresh_approval :: "approval_row \<Rightarrow> bool" where
  "fresh_approval r = (approval_row_ok r \<and> ap_state r = ''pending'' \<and> ap_durable r = 0)"

definition advances :: "approval_store \<Rightarrow> approval_store \<Rightarrow> bool" where
  "advances st st' =
     (\<exists>g new. la_approvals st' = map g (la_approvals st) @ new
        \<and> (\<forall>r \<in> set (la_approvals st). evolves r (g r))
        \<and> (new = [] \<or> (\<exists>row. new = [row] \<and> fresh_approval row \<and> \<not> unique_violation row st)))"

lemma advances_same: "la_approvals st' = la_approvals st \<Longrightarrow> advances st st'"
  unfolding advances_def by (intro exI [of _ id] exI [of _ "[]"]) simp

lemma advances_refl [simp]: "advances st st"
  by (rule advances_same) simp

lemma advances_update:
  assumes "\<And>r. r \<in> set (la_approvals st) \<Longrightarrow> c r \<Longrightarrow> evolves r (f r)"
  shows "advances st (fst (update_rows c f st))"
  unfolding advances_def update_rows_def
  by (rule exI [of _ "\<lambda>r. if c r then f r else r"], rule exI [of _ "[]"]) (simp add: assms)

lemma advances_hand_out: "advances st st' \<Longrightarrow> advances st (hand_out q st')"
  by (simp add: advances_def hand_out_def)

lemma advances_ok:
  assumes "approvals_ok st" and "advances st st'"
  shows "approvals_ok st'"
proof -
  from assms(2) obtain g new where
    rows: "la_approvals st' = map g (la_approvals st) @ new" and
    ev: "\<And>r. r \<in> set (la_approvals st) \<Longrightarrow> evolves r (g r)" and
    new: "new = [] \<or> (\<exists>row. new = [row] \<and> fresh_approval row \<and> \<not> unique_violation row st)"
    unfolding advances_def by blast
  have ids: "distinct (map ap_request_id (map g (la_approvals st)))"
    using assms(1) evolves_id [OF ev] by (simp add: approvals_ok_def distinct_map inj_on_def)
  have ok: "approval_row_ok (g r)" if "r \<in> set (la_approvals st)" for r
    using assms(1) that evolves_ok [OF _ ev [OF that]] by (simp add: approvals_ok_def)
  have old: "g r = g q" if "r \<in> set (la_approvals st)" "q \<in> set (la_approvals st)" "live (g r)" "live (g q)"
    "ap_active_key (g r) = ap_active_key (g q)" for r q
    using that assms(1) evolves_live [OF ev [OF that(1)]] evolves_live [OF ev [OF that(2)]]
    by (auto simp: approvals_ok_def)
  from new show ?thesis
  proof
    assume "new = []"
    with rows have "la_approvals st' = map g (la_approvals st)" by simp
    with ids ok old show ?thesis by (simp only: approvals_ok_def set_map ball_simps) blast
  next
    assume "\<exists>row. new = [row] \<and> fresh_approval row \<and> \<not> unique_violation row st"
    then obtain row where row: "new = [row]" "fresh_approval row" "\<not> unique_violation row st" by blast
    then have r: "approval_row_ok row" "live row" "ap_active_key row \<noteq> None"
      by (auto simp: fresh_approval_def approval_row_ok_def live_def LIVE_STATES_def)
    have "ap_request_id row \<notin> set (map ap_request_id (map g (la_approvals st)))"
      using row(3) evolves_id [OF ev] by (auto simp: unique_violation_def list_ex_iff)
    moreover have "ap_active_key (g q) \<noteq> ap_active_key row" if "q \<in> set (la_approvals st)" "live (g q)" for q
      using row(3) r(3) that evolves_live [OF ev [OF that(1)] that(2)]
      by (auto simp: unique_violation_def list_ex_iff)
    moreover have "la_approvals st' = map g (la_approvals st) @ [row]"
      using rows row(1) by simp
    ultimately show ?thesis
      using ids ok old r unfolding approvals_ok_def
      by (simp only: set_append list.set map_append list.map distinct_append ball_Un) auto
  qed
qed

section \<open>Every transaction has the shape\<close>

lemma same_id:
  "approvals_ok st \<Longrightarrow> r \<in> set (la_approvals st) \<Longrightarrow> q \<in> set (la_approvals st) \<Longrightarrow>
     ap_request_id r = ap_request_id q \<Longrightarrow> r = q"
  unfolding approvals_ok_def by (meson distinct_map inj_on_def)

lemma evolves_settle:
  assumes "live r" and "frozen r' = frozen r" and "ap_state r' \<in> set SETTLED" and "ap_active_key r' = None"
  shows "evolves r r'"
  using assms settled_not_live by (auto simp: evolves_def)

lemma frozen_settle [simp]: "frozen (settle s why r) = frozen r"
  by (simp add: frozen_def settle_def)

lemma expire_evolves: "live r \<Longrightarrow> evolves r (settle ''expired'' why r)"
  by (rule evolves_settle) (simp_all, simp_all add: settle_def SETTLED_def)

lemma newest_mem: "newest rs = Some r \<Longrightarrow> r \<in> set rs"
  by (induction rs arbitrary: r) (auto split: option.splits if_splits)

lemma newest_None: "newest rs = None \<longleftrightarrow> rs = []"
  by (cases rs) (auto split: option.splits)

lemma oldest_mem: "oldest rs = Some r \<Longrightarrow> r \<in> set rs"
  by (induction rs arbitrary: r) (auto split: option.splits if_splits)

lemma oldest_None: "oldest rs = None \<longleftrightarrow> rs = []"
  by (cases rs) (auto split: option.splits)

lemma expire_row_advances:
  assumes "\<And>r. c r \<Longrightarrow> live r"
  shows "advances st (snd (expire_row c reason msg st))"
  using advances_update [of st c "settle ''expired'' reason"] assms expire_evolves
  by (simp add: expire_row_def split_beta)

lemma found_live_advances: "advances st (snd (found_live iso8601 target now row st))"
  unfolding found_live_def Let_def
  by (auto split: option.splits sum.splits intro!: expire_row_advances simp: live_def LIVE_STATES_def)

lemma lookup_advances: "advances st (snd (approve_lookup iso8601 repository pr target now st))"
  unfolding approve_lookup_def by (auto split: option.splits intro: found_live_advances)

lemma new_row_fresh: "fresh_approval (new_row repository pr target generation request_id request encoded now ttl)"
  by (simp add: fresh_approval_def approval_row_ok_def new_row_def live_def LIVE_STATES_def)

lemma insert_advances:
  assumes "fresh_approval row"
  shows "advances st (snd (approve_insert row target st))"
proof (cases "unique_violation row st")
  case True
  then show ?thesis by (simp add: approve_insert_def split: option.split)
next
  case False
  with assms show ?thesis
    unfolding advances_def
    by (intro exI [of _ id] exI [of _ "[row]"]) (simp add: approve_insert_def)
qed

lemma set_state_advances:
  assumes "state \<in> set SETTLED"
  shows "advances st (snd (set_state request_id state reason result st))"
proof -
  have "advances st (fst (update_rows (\<lambda>r. ap_request_id r = request_id \<and> live r)
      (\<lambda>r. r\<lparr>ap_state := state, ap_reason := reason, ap_result_json := encoded,
             ap_claim_until := None, ap_active_key := None\<rparr>) st))" for encoded
    using assms by (intro advances_update) (auto intro!: evolves_settle simp: frozen_def)
  then show ?thesis
    unfolding set_state_def by (simp add: split_beta split: sum.split)
qed

lemmas settled_words = SETTLED_def

lemma complete_advances: "advances st (snd (complete_approval request_id result st))"
  unfolding complete_approval_def
  by (auto split: sum.split option.split intro!: set_state_advances simp: settled_words)

lemma fail_advances: "advances st (snd (fail_approval request_id reason st))"
  unfolding fail_approval_def by (rule set_state_advances) (simp add: settled_words)

lemma revoke_advances: "advances st (snd (revoke_approvals repository pr st))"
proof -
  have "advances st (fst (update_rows (\<lambda>r. ap_repository r = repository \<and> ap_pr_number r = pr \<and> live r)
      (\<lambda>r. r\<lparr>ap_state := ''revoked'', ap_reason := Some ''operator-revoked'', ap_claim_until := None,
             ap_active_key := None\<rparr>) st))"
    by (intro advances_update) (auto intro!: evolves_settle simp: frozen_def settled_words)
  then show ?thesis by (simp add: revoke_approvals_def split_beta)
qed

lemma take_advances:
  assumes "approvals_ok st"
  shows "advances st (snd (poll_take iso8601 now st))"
proof (cases "oldest (filter (\<lambda>r. ap_state r = ''pending'') (la_approvals st))")
  case (Some row)
  then have row: "row \<in> set (la_approvals st)" "ap_state row = ''pending''"
    using oldest_mem by fastforce+
  then have "live row" by (simp add: live_def LIVE_STATES_def)
  then have d: "ap_durable row = 0"
    using assms row unfolding approvals_ok_def approval_row_ok_def by fastforce
  have "evolves r (r\<lparr>ap_state := ''claimed'', ap_claim_until := u\<rparr>)"
    if "r \<in> set (la_approvals st)" "ap_request_id r = ap_request_id row" for r u
    using same_id [OF assms that(1) row(1) that(2)] \<open>live row\<close> d
    by (auto simp: evolves_def frozen_def live_def LIVE_STATES_def)
  moreover have "evolves r (settle ''expired'' why r)"
    if "r \<in> set (la_approvals st)" "ap_request_id r = ap_request_id row" for r why
    using same_id [OF assms that(1) row(1) that(2)] \<open>live row\<close> by (simp add: expire_evolves)
  ultimately show ?thesis
    unfolding poll_take_def Some by (auto split: sum.split intro!: advances_update)
qed (simp add: poll_take_def)

lemma claim_advances: "advances st (snd (claim_approval request_id request lease now st))"
proof -
  have "advances st (fst (update_rows
      (\<lambda>r. ap_request_id r = request_id \<and> ap_state r = ''claimed'' \<and> ap_request_json r = encoded)
      (\<lambda>r. r\<lparr>ap_durable := 1, ap_claim_until := u, ap_reason := None\<rparr>) st))" for encoded u
    by (intro advances_update) (auto simp: evolves_def frozen_def live_def LIVE_STATES_def)
  then show ?thesis
    unfolding claim_approval_def
    by (simp add: split_beta advances_hand_out split: pyval.split sum.split)
qed

lemma resume_advances: "advances st (snd (resume_approval request_id request lease now st))"
  using claim_advances [of st request_id request lease now]
  unfolding resume_approval_def by (auto split: sum.split option.split prod.split)

lemma retry_advances: "advances st (snd (retry_approval request_id reason now st))"
proof -
  have "advances st (fst (update_rows (\<lambda>r. ap_request_id r = request_id \<and> ap_state r = ''claimed'' \<and> ap_durable r = 1)
      (\<lambda>r. r\<lparr>ap_reason := why, ap_claim_until := u\<rparr>) st))" for why u
    by (intro advances_update) (auto simp: evolves_def frozen_def live_def LIVE_STATES_def)
  then show ?thesis
    unfolding retry_approval_def by (simp add: split_beta split: pyval.split)
qed

definition expire_lapsed :: "instant \<Rightarrow> approval_store \<Rightarrow> approval_store" where
  "expire_lapsed now st =
     fst (update_rows (ttl_lapsed (stamp now)) (\<lambda>r. (settle ''expired'' ''ttl-expired'' r)\<lparr>ap_claim_until := None\<rparr>) st)"

definition return_lapsed :: "instant \<Rightarrow> approval_store \<Rightarrow> approval_store" where
  "return_lapsed now st =
     fst (update_rows (lease_lapsed (stamp now)) (\<lambda>r. r\<lparr>ap_state := ''pending'', ap_claim_until := None\<rparr>) st)"

lemma recover_split: "snd (recover_claims now st) = return_lapsed now (expire_lapsed now st)"
  by (simp add: recover_claims_def return_lapsed_def expire_lapsed_def Let_def split_beta)

lemma expire_lapsed_advances: "advances st (expire_lapsed now st)"
  unfolding expire_lapsed_def
  by (intro advances_update evolves_settle)
    (auto simp: ttl_lapsed_def live_def LIVE_STATES_def frozen_def settle_def settled_words)

lemma return_lapsed_advances: "advances st (return_lapsed now st)"
  unfolding return_lapsed_def
  by (intro advances_update) (auto simp: evolves_def lease_lapsed_def live_def LIVE_STATES_def frozen_def)

section \<open>Runs of the store\<close>

text \<open>
  A call is one transaction of one of the processes that share the file; \<open>HandOut\<close> and \<open>Forget\<close> are
  the writes to the poller's own attribute.
\<close>

datatype approval_call =
    Lookup "string \<Rightarrow> pydatetime option" string int approval_target instant
  | Insert string int approval_target int string pyval string instant int
  | Take "string \<Rightarrow> pydatetime option" instant
  | CompleteCall string pyval
  | FailCall string string
  | DropCall string
  | RevokeCall string int
  | ClaimCall string pyval pyval instant
  | ResumeCall string pyval pyval instant
  | RetryCall string pyval instant
  | ExpireLapsed instant
  | ReturnLapsed instant
  | BlockCall pyval pyval pyval pyval instant
  | BeginCheck pyval pyval
  | RecordCheck pyval pyval pyval
  | CompleteCheck pyval pyval
  | HandOut pyval
  | Forget

fun approval_step :: "approval_call \<Rightarrow> approval_store \<Rightarrow> approval_store" where
  "approval_step (Lookup iso8601 repo pr target now) st = snd (approve_lookup iso8601 repo pr target now st)"
| "approval_step (Insert repo pr target generation request_id request encoded now ttl) st =
     snd (approve_insert (new_row repo pr target generation request_id request encoded now ttl) target st)"
| "approval_step (Take iso8601 now) st = snd (poll_take iso8601 now st)"
| "approval_step (CompleteCall i result) st = snd (complete_approval i result st)"
| "approval_step (FailCall i why) st = snd (fail_approval i why st)"
| "approval_step (DropCall i) st =
     snd (set_state i ''expired'' (Some ''resolved-target-or-generation-changed'') PNone st)"
| "approval_step (RevokeCall repo pr) st = snd (revoke_approvals repo pr st)"
| "approval_step (ClaimCall i request lease now) st = snd (claim_approval i request lease now st)"
| "approval_step (ResumeCall i request lease now) st = snd (resume_approval i request lease now st)"
| "approval_step (RetryCall i why now) st = snd (retry_approval i why now st)"
| "approval_step (ExpireLapsed now) st = expire_lapsed now st"
| "approval_step (ReturnLapsed now) st = return_lapsed now st"
| "approval_step (BlockCall repo pr head why now) st = snd (record_preflight_block repo pr head why now st)"
| "approval_step (BeginCheck scope name) st = snd (begin_discard_check scope name st)"
| "approval_step (RecordCheck scope name n) st = snd (record_discard_check scope name n st)"
| "approval_step (CompleteCheck scope name) st = snd (complete_discard_check scope name st)"
| "approval_step (HandOut request) st = hand_out request st"
| "approval_step Forget st = st\<lparr>la_current := None\<rparr>"

lemma side_tables:
  "la_approvals (snd (record_preflight_block repo pr head why now st)) = la_approvals st"
  "la_approvals (snd (begin_discard_check scope name st)) = la_approvals st"
  "la_approvals (snd (record_discard_check scope name n st)) = la_approvals st"
  "la_approvals (snd (complete_discard_check scope name st)) = la_approvals st"
  by (simp_all add: record_preflight_block_def begin_discard_check_def record_discard_check_def
      complete_discard_check_def split: pyval.split sum.split option.split)

lemma step_advances: "approvals_ok st \<Longrightarrow> advances st (approval_step c st)"
  by (cases c) (simp_all add: lookup_advances insert_advances new_row_fresh take_advances complete_advances
      fail_advances set_state_advances settled_words revoke_advances claim_advances resume_advances
      retry_advances expire_lapsed_advances return_lapsed_advances advances_same side_tables advances_hand_out)

lemma empty_approvals_ok: "approvals_ok empty_approvals"
  by (simp add: approvals_ok_def empty_approvals_def)

lemma step_ok: "approvals_ok st \<Longrightarrow> approvals_ok (approval_step c st)"
  using advances_ok step_advances by blast

definition settled_in :: "approval_row \<Rightarrow> approval_store \<Rightarrow> bool" where
  "settled_in r st = (r \<in> set (la_approvals st) \<and> \<not> live r)"

lemma settled_step:
  assumes "approvals_ok st" and "settled_in r st"
  shows "settled_in r (approval_step c st)"
proof -
  obtain g new where "la_approvals (approval_step c st) = map g (la_approvals st) @ new"
    and "\<forall>r \<in> set (la_approvals st). evolves r (g r)"
    using step_advances [OF assms(1), of c] unfolding advances_def by blast
  moreover from this(2) have "g r = r"
    using assms(2) evolves_settled by (auto simp: settled_in_def)
  ultimately show ?thesis
    using assms(2) by (auto simp: settled_in_def intro: rev_image_eqI)
qed

interpretation approvals: stable_machine approval_step approvals_ok empty_approvals settled_in
  by unfold_locales (use empty_approvals_ok step_ok settled_step in auto)

section \<open>Properties of every run\<close>

text \<open>C17. After any sequence of transactions, from any number of processes, there is at most one live
  approval for a repository, pull request and head; request identities are unique; every row is in a
  state of its machine, a live row holds the key of its head, a settled one holds none, and only a
  claimed row is durable.
\<close>

theorem approvals_always_consistent:
  "let st = fold approval_step cs empty_approvals in
     distinct (map ap_request_id (la_approvals st))
     \<and> (\<forall>r \<in> set (la_approvals st). approval_row_ok r)
     \<and> (\<forall>r \<in> set (la_approvals st). \<forall>q \<in> set (la_approvals st).
          live r \<and> live q \<and> ap_repository r = ap_repository q \<and> ap_pr_number r = ap_pr_number q
          \<and> ap_head_sha r = ap_head_sha q \<longrightarrow> r = q)"
proof -
  have ok: "approvals_ok (fold approval_step cs empty_approvals)"
    by (rule approvals.inv_reachable)
  show ?thesis
    unfolding Let_def
  proof (intro conjI ballI impI)
    fix r q
    assume "r \<in> set (la_approvals (fold approval_step cs empty_approvals))"
      "q \<in> set (la_approvals (fold approval_step cs empty_approvals))"
      "live r \<and> live q \<and> ap_repository r = ap_repository q \<and> ap_pr_number r = ap_pr_number q
        \<and> ap_head_sha r = ap_head_sha q"
    with ok show "r = q" unfolding approvals_ok_def approval_row_ok_def by metis
  qed (use ok in \<open>simp_all add: approvals_ok_def\<close>)
qed

text \<open>C18. A settled approval is final: once a row is completed, failed, revoked or expired, no later
  transaction changes any of its columns, nor removes it.
\<close>

theorem settled_approval_final:
  assumes "r \<in> set (la_approvals (fold approval_step cs empty_approvals))"
    and "ap_state r \<in> set SETTLED"
  shows "r \<in> set (la_approvals (fold approval_step (cs @ ds) empty_approvals))"
  using approvals.fact_later [of r cs ds] assms by (simp add: settled_in_def)

text \<open>The calls that are meant to end one approval.\<close>

fun ends :: "approval_call \<Rightarrow> approval_row \<Rightarrow> bool" where
  "ends (CompleteCall i result) r = (ap_request_id r = i)"
| "ends (FailCall i why) r = (ap_request_id r = i)"
| "ends (DropCall i) r = (ap_request_id r = i)"
| "ends (RevokeCall repo pr) r = (ap_repository r = repo \<and> ap_pr_number r = pr)"
| "ends _ r = False"

definition durable :: "approval_row \<Rightarrow> bool" where
  "durable r = (ap_state r = ''claimed'' \<and> ap_durable r = 1)"

definition survives :: "approval_row \<Rightarrow> approval_store \<Rightarrow> bool" where
  "survives r st = (\<exists>r' \<in> set (la_approvals st). frozen r' = frozen r \<and> durable r')"

lemma survives_same: "la_approvals st' = la_approvals st \<Longrightarrow> survives r st \<Longrightarrow> survives r st'"
  by (simp add: survives_def)

lemma survives_update:
  assumes "survives r st"
    and "\<And>q. frozen q = frozen r \<Longrightarrow> durable q \<Longrightarrow> c q \<Longrightarrow> frozen (f q) = frozen q \<and> durable (f q)"
  shows "survives r (fst (update_rows c f st))"
proof -
  obtain q where q: "q \<in> set (la_approvals st)" "frozen q = frozen r" "durable q"
    using assms(1) by (auto simp: survives_def)
  have "(if c q then f q else q) \<in> set (la_approvals (fst (update_rows c f st)))"
    using q(1) by (simp add: update_rows_def)
  moreover have "frozen (if c q then f q else q) = frozen r \<and> durable (if c q then f q else q)"
    using q assms(2) by simp
  ultimately show ?thesis unfolding survives_def by blast
qed

lemma durable_live: "durable r \<Longrightarrow> live r"
  by (simp add: durable_def live_def LIVE_STATES_def)

lemma survives_expire_row:
  assumes "survives r st" and "\<And>q. c q \<Longrightarrow> \<not> durable q"
  shows "survives r (snd (expire_row c reason msg st))"
proof -
  have "survives r (fst (update_rows c (settle ''expired'' reason) st))"
    by (rule survives_update [OF assms(1)]) (use assms(2) in blast)
  with assms(1) show ?thesis by (simp add: expire_row_def split_beta)
qed

lemma survives_lookup: "survives r st \<Longrightarrow> survives r (snd (approve_lookup iso8601 repo pr target now st))"
  unfolding approve_lookup_def found_live_def Let_def
  by (auto split: option.split sum.split intro!: survives_expire_row simp: durable_def)

lemma survives_insert: "survives r st \<Longrightarrow> survives r (snd (approve_insert row target st))"
  unfolding approve_insert_def by (auto split: option.split simp: survives_def)

lemma survives_take:
  assumes "approvals_ok st" and "survives r st"
  shows "survives r (snd (poll_take iso8601 now st))"
proof (cases "oldest (filter (\<lambda>r. ap_state r = ''pending'') (la_approvals st))")
  case (Some row)
  then have row: "row \<in> set (la_approvals st)" "ap_state row = ''pending''"
    using oldest_mem by fastforce+
  obtain q where q: "q \<in> set (la_approvals st)" "frozen q = frozen r" "durable q"
    using assms(2) by (auto simp: survives_def)
  have "ap_request_id q \<noteq> ap_request_id row"
    using same_id [OF assms(1) q(1) row(1)] row(2) q(3) by (auto simp: durable_def)
  then have *: "survives r (fst (update_rows (\<lambda>r. ap_request_id r = ap_request_id row) f st))" for f
    using q unfolding survives_def update_rows_def by (auto intro!: bexI [of _ q] rev_image_eqI [of q])
  then show ?thesis
    using assms(2) unfolding poll_take_def Some by (auto split: sum.split)
qed (use assms(2) in \<open>simp add: poll_take_def\<close>)

lemma survives_set_state:
  assumes "survives r st" and "ap_request_id r \<noteq> i"
  shows "survives r (snd (set_state i state reason result st))"
proof -
  have "survives r (fst (update_rows (\<lambda>r. ap_request_id r = i \<and> live r) f st))" for f
    by (rule survives_update [OF assms(1)]) (use assms(2) in \<open>auto simp: frozen_def\<close>)
  then show ?thesis using assms(1) by (simp add: set_state_def split_beta split: sum.split)
qed

lemma survives_complete:
  "survives r st \<Longrightarrow> ap_request_id r \<noteq> i \<Longrightarrow> survives r (snd (complete_approval i result st))"
  using survives_set_state by (auto simp: complete_approval_def split: sum.split option.split)

lemma survives_revoke:
  assumes "survives r st" and "\<not> (ap_repository r = repo \<and> ap_pr_number r = pr)"
  shows "survives r (snd (revoke_approvals repo pr st))"
proof -
  have "survives r (fst (update_rows (\<lambda>r. ap_repository r = repo \<and> ap_pr_number r = pr \<and> live r) f st))" for f
    by (rule survives_update [OF assms(1)]) (use assms(2) in \<open>auto simp: frozen_def\<close>)
  then show ?thesis by (simp add: revoke_approvals_def split_beta)
qed

lemma survives_hand_out [simp]: "survives r (hand_out q st) = survives r st"
  by (simp add: survives_def hand_out_def)

lemma survives_claim:
  assumes "survives r st"
  shows "survives r (snd (claim_approval i request lease now st))"
proof -
  have "survives r (fst (update_rows
      (\<lambda>r. ap_request_id r = i \<and> ap_state r = ''claimed'' \<and> ap_request_json r = encoded)
      (\<lambda>r. r\<lparr>ap_durable := 1, ap_claim_until := u, ap_reason := None\<rparr>) st))" for encoded u
    by (rule survives_update [OF assms]) (auto simp: durable_def frozen_def)
  then show ?thesis
    using assms by (simp add: claim_approval_def split_beta split: pyval.split sum.split)
qed

lemma survives_resume:
  "survives r st \<Longrightarrow> survives r (snd (resume_approval i request lease now st))"
  using survives_claim by (simp add: resume_approval_def split_beta split: sum.split option.split)

lemma survives_retry:
  assumes "survives r st"
  shows "survives r (snd (retry_approval i why now st))"
proof -
  have "survives r (fst (update_rows (\<lambda>r. ap_request_id r = i \<and> ap_state r = ''claimed'' \<and> ap_durable r = 1)
      (\<lambda>r. r\<lparr>ap_reason := w, ap_claim_until := u\<rparr>) st))" for w u
    by (rule survives_update [OF assms]) (auto simp: durable_def frozen_def)
  then show ?thesis using assms by (simp add: retry_approval_def split_beta split: pyval.split)
qed

lemma survives_lapses:
  assumes "survives r st"
  shows "survives r (expire_lapsed now st)" and "survives r (return_lapsed now st)"
  unfolding expire_lapsed_def return_lapsed_def
  by (rule survives_update [OF assms], simp add: durable_def ttl_lapsed_def lease_lapsed_def)+

lemma step_survives:
  assumes "approvals_ok st" and "survives r st" and "\<not> ends c r"
  shows "survives r (approval_step c st)"
  using assms
  by (cases c) (simp_all add: survives_lookup survives_insert survives_take survives_complete fail_approval_def
      survives_set_state survives_revoke survives_claim survives_resume survives_retry survives_lapses
      survives_same side_tables)

text \<open>A durable claim outlives every clock: as long as nobody completes, fails, drops or revokes it, no
  sequence of transactions, whatever times they read, takes the claimed approval away, returns it to
  the queue, loses its durability or changes its request.
\<close>

theorem durable_claim_survives:
  assumes "approvals_ok st" and "r \<in> set (la_approvals st)" and "durable r"
    and "\<forall>c \<in> set cs. \<not> ends c r"
  shows "\<exists>r' \<in> set (la_approvals (fold approval_step cs st)). frozen r' = frozen r \<and> durable r'"
proof -
  have "survives r (fold approval_step cs st)" if "survives r st" "approvals_ok st"
    using that assms(4) by (induction cs arbitrary: st) (simp_all add: step_survives step_ok)
  then show ?thesis using assms by (auto simp: survives_def)
qed

section \<open>Time\<close>

text \<open>
  What \<open>recover_claims\<close> means in time: the columns are stamps of the instants \<open>te\<close> and \<open>tu\<close>.
\<close>

definition stamped :: "(approval_row \<Rightarrow> instant) \<Rightarrow> (approval_row \<Rightarrow> instant) \<Rightarrow> approval_row \<Rightarrow> bool" where
  "stamped te tu r =
     (ap_expires_at r = stamp (te r) \<and> representable (te r)
      \<and> (ap_claim_until r = None \<or> ap_claim_until r = Some (stamp (tu r)) \<and> representable (tu r)))"

definition recovered :: "(approval_row \<Rightarrow> instant) \<Rightarrow> (approval_row \<Rightarrow> instant) \<Rightarrow> instant \<Rightarrow> approval_row \<Rightarrow> approval_row" where
  "recovered te tu now r =
     (if ap_state r \<noteq> ''claimed'' \<or> ap_durable r \<noteq> 0 then r
      else if second_of (te r) \<le> second_of now then (settle ''expired'' ''ttl-expired'' r)\<lparr>ap_claim_until := None\<rparr>
      else if ap_claim_until r \<noteq> None \<and> second_of (tu r) \<le> second_of now
      then r\<lparr>ap_state := ''pending'', ap_claim_until := None\<rparr>
      else r)"

lemma ttl_lapsed_time:
  "stamped te tu r \<Longrightarrow> representable now \<Longrightarrow> ttl_lapsed (stamp now) r \<longleftrightarrow>
     ap_state r = ''claimed'' \<and> ap_durable r = 0 \<and> second_of (te r) \<le> second_of now"
  by (auto simp: ttl_lapsed_def stamped_def stamp_le_iff)

lemma lease_lapsed_time:
  "stamped te tu r \<Longrightarrow> representable now \<Longrightarrow> lease_lapsed (stamp now) r \<longleftrightarrow>
     ap_state r = ''claimed'' \<and> ap_durable r = 0 \<and> ap_claim_until r \<noteq> None
     \<and> second_of (tu r) \<le> second_of now \<and> second_of now < second_of (te r)"
  by (auto simp: lease_lapsed_def stamped_def stamp_le_iff stamp_less_iff)

text \<open>Recovering claims by comparing texts is recovering them by time: a claim that is not durable
  expires exactly when its second of expiry has come, goes back to the queue exactly when only its
  lease has run out, and every other row, durable claims included, is left alone.
\<close>

theorem recovery_is_by_time:
  assumes "\<forall>r \<in> set (la_approvals st). stamped te tu r" and "representable now"
  shows "la_approvals (snd (recover_claims now st)) = map (recovered te tu now) (la_approvals st)"
proof -
  let ?e = "\<lambda>r. (settle ''expired'' ''ttl-expired'' r)\<lparr>ap_claim_until := None\<rparr>"
  let ?p = "\<lambda>r. r\<lparr>ap_state := ''pending'', ap_claim_until := None\<rparr>"
  have "(if lease_lapsed (stamp now) q then ?p q else q) = recovered te tu now r"
    if "r \<in> set (la_approvals st)" and q: "q = (if ttl_lapsed (stamp now) r then ?e r else r)" for r q
  proof -
    have r: "stamped te tu r" using assms(1) that(1) by blast
    have "\<not> lease_lapsed (stamp now) (?e r)"
      by (simp add: lease_lapsed_def settle_def)
    then show ?thesis
      using ttl_lapsed_time [OF r assms(2)] lease_lapsed_time [OF r assms(2)]
      by (auto simp: q recovered_def not_le)
  qed
  then show ?thesis
    by (simp add: recover_split return_lapsed_def expire_lapsed_def update_rows_def)
qed

definition sample_approval_target :: approval_target where
  "sample_approval_target =
     \<lparr>rt_repository_id = ''9'', rt_repository = ''o/r'', rt_pr_number = 3, rt_head_sha = replicate 40 CHR ''b'',
      rt_default_branch = ''main'', rt_workflow_ref = ''o/r/.github/workflows/ci-jit-pilot-child.yml@refs/heads/main'',
      rt_base_sha = replicate 40 CHR ''a'', rt_tested_merge_sha = replicate 40 CHR ''c''\<rparr>"

definition sample_request :: pyval where
  "sample_request = PDict [(''request_id'', PStr ''q''), (''pilot_package'', PDict (pilot_sample (PStr ''o/r''))),
     (''reservation'', PDict [])]"

definition sample_insert :: "string \<Rightarrow> approval_call" where
  "sample_insert i = Insert ''o/r'' 3 sample_approval_target 1 i sample_request ''text'' 0 (minutes 4)"

definition sample_claimed :: "approval_call list" where
  "sample_claimed = [sample_insert ''q'', Take read_iso 1000000]"

definition sample_claimed_row :: approval_row where
  "sample_claimed_row =
     (new_row ''o/r'' 3 sample_approval_target 1 ''q'' sample_request ''text'' 0 (minutes 4))
       \<lparr>ap_state := ''claimed'', ap_claim_until := Some (stamp (minutes 1 + 1000000))\<rparr>"

lemma sample_claimed_run:
  "fold approval_step sample_claimed empty_approvals = \<lparr>la_approvals = [sample_claimed_row], la_blocks = [],
     la_discards = [], la_current = None\<rparr>"
proof -
  have "read_iso (replace_zulu (stamp (minutes 4))) = Some (Aware (minutes 4))"
    by code_simp
  then show ?thesis
    by (simp add: sample_claimed_def sample_insert_def empty_approvals_def approve_insert_def unique_violation_def
        poll_take_def new_row_def la_parse_def update_rows_def claim_window_def sample_claimed_row_def)
qed

theorem recovery_is_by_time_witness:
  "la_approvals (snd (recover_claims (minutes 2) (fold approval_step sample_claimed empty_approvals)))
   = [recovered (\<lambda>_. minutes 4) (\<lambda>_. minutes 1 + 1000000) (minutes 2) sample_claimed_row]
   \<and> ap_state (recovered (\<lambda>_. minutes 4) (\<lambda>_. minutes 1 + 1000000) (minutes 2) sample_claimed_row) = ''pending''"
proof -
  have "representable (minutes 4)" "representable (minutes 1 + 1000000)" "representable (minutes 2)"
    by (simp_all add: representable_def second_of_def EPOCH_ORDINAL_def)
  then show ?thesis
    using recovery_is_by_time [of "fold approval_step sample_claimed empty_approvals" "\<lambda>_. minutes 4"
        "\<lambda>_. minutes 1 + 1000000" "minutes 2"]
    by (simp add: sample_claimed_run stamped_def sample_claimed_row_def new_row_def recovered_def second_of_def)
qed

theorem settled_approval_final_witness:
  "\<exists>r. r \<in> set (la_approvals (fold approval_step (sample_claimed @ [FailCall ''q'' ''x''] @ [Take read_iso 0]) empty_approvals))
     \<and> ap_state r = ''failed''"
proof -
  let ?r = "sample_claimed_row\<lparr>ap_state := ''failed'', ap_reason := Some ''x'', ap_result_json := None,
     ap_claim_until := None, ap_active_key := None\<rparr>"
  have "?r \<in> set (la_approvals (fold approval_step (sample_claimed @ [FailCall ''q'' ''x'']) empty_approvals))"
    by (simp add: sample_claimed_run fail_approval_def set_state_def update_rows_def live_def LIVE_STATES_def
        sample_claimed_row_def new_row_def)
  from settled_approval_final [OF this, of "[Take read_iso 0]"] show ?thesis
    by (intro exI [of _ ?r]) (simp add: settled_words)
qed

theorem approvals_always_consistent_witness:
  "la_approvals (fold approval_step sample_claimed empty_approvals) = [sample_claimed_row] \<and> approval_row_ok sample_claimed_row"
  using approvals_always_consistent [of sample_claimed] by (simp add: Let_def sample_claimed_run)

definition sample_durable_row :: approval_row where
  "sample_durable_row =
     sample_claimed_row\<lparr>ap_durable := 1, ap_claim_until := Some (stamp (minutes 11)), ap_reason := None\<rparr>"

theorem durable_claim_survives_witness:
  "\<exists>r' \<in> set (la_approvals (fold approval_step [ExpireLapsed (minutes 600), ReturnLapsed (minutes 600), FailCall ''other'' ''x'']
      \<lparr>la_approvals = [sample_durable_row], la_blocks = [], la_discards = [], la_current = None\<rparr>)).
     frozen r' = frozen sample_durable_row \<and> durable r'"
  by (rule durable_claim_survives)
    (simp_all add: approvals_ok_def approval_row_ok_def durable_def live_def LIVE_STATES_def sample_durable_row_def
      sample_claimed_row_def new_row_def)

section \<open>Polling\<close>

text \<open>The composite operations are sequences of transactions.\<close>

definition reached :: "approval_store \<Rightarrow> approval_store \<Rightarrow> bool" where
  "reached st st' = (\<exists>cs. st' = fold approval_step cs st)"

lemma reached_refl [simp]: "reached st st"
  unfolding reached_def by (rule exI [of _ "[]"]) simp

lemma reached_trans: "reached a b \<Longrightarrow> reached b c \<Longrightarrow> reached a c"
  unfolding reached_def by (metis fold_append comp_apply)

lemma reached_step: "reached st (approval_step c st)"
  unfolding reached_def by (rule exI [of _ "[c]"]) simp

lemma reached_take: "reached st (snd (poll_take iso8601 now st))"
  using reached_step [of st "Take iso8601 now"] by simp

lemma reached_fail: "reached st (snd (fail_approval i why st))"
  using reached_step [of st "FailCall i why"] by simp

lemma reached_drop:
  "reached st (snd (set_state i ''expired'' (Some ''resolved-target-or-generation-changed'') PNone st))"
  using reached_step [of st "DropCall i"] by simp

lemma reached_hand_out: "reached st (hand_out q st)"
  using reached_step [of st "HandOut q"] by simp

lemma drop_changed_state:
  "fst (snd (drop_changed i (st, gs)))
   = snd (set_state i ''expired'' (Some ''resolved-target-or-generation-changed'') PNone st)"
  by (simp add: drop_changed_def split_beta split: sum.split)

lemma reached_settle: "reached st (fst (snd (poll_settle env row (st, gs))))"
  unfolding poll_settle_def poll_protocol_def
  by (auto simp: split_beta drop_changed_state reached_fail reached_drop reached_hand_out
      split: option.split sum.split bool.split)

lemma reached_recover: "reached st (snd (recover_claims now st))"
  unfolding recover_split
  using reached_step [of st "ExpireLapsed now"] reached_step [of _ "ReturnLapsed now"] reached_trans
  by (metis approval_step.simps(11,12))

lemma reached_poll_loop: "poll_loop n envs now s = Some (r, s') \<Longrightarrow> reached (fst s) (fst s')"
proof (induction n envs now s arbitrary: r s' rule: poll_loop.induct)
  case (2 n envs now s)
  obtain t st where t: "poll_take (ae_iso (envs 0)) now (fst s) = (t, st)" by fastforce
  have st: "reached (fst s) st" using reached_take [of "fst s" "ae_iso (envs 0)" now] by (simp add: t)
  show ?case
  proof (cases t)
    case (Inl e)
    with 2(3) t st show ?thesis by auto
  next
    case (Inr p)
    show ?thesis
    proof (cases p)
      case PollEmpty
      with 2(3) t Inr st show ?thesis by auto
    next
      case PollExpired
      with 2(3) t Inr have "poll_loop n (\<lambda>i. envs (Suc i)) now (st, snd s) = Some (r, s')" by simp
      from 2(1) [OF t [symmetric] Inr PollExpired this] st show ?thesis using reached_trans by simp
    next
      case (PollTook row)
      obtain u s1 where u: "poll_settle (envs 0) row (st, snd s) = (u, s1)" by (metis prod.exhaust)
      have s1: "reached (fst s) (fst s1)"
        using reached_settle [of st "envs 0" row "snd s"] reached_trans [OF st] by (simp add: u)
      show ?thesis
      proof (cases "u = Inr None")
        case True
        with 2(3) t Inr PollTook u have "poll_loop n (\<lambda>i. envs (Suc i)) now s1 = Some (r, s')" by simp
        from 2(2) [OF t [symmetric] Inr PollTook u [symmetric] True refl this] s1 show ?thesis
          using reached_trans by blast
      next
        case False
        with 2(3) t Inr PollTook u s1 show ?thesis by (auto split: sum.splits option.splits)
      qed
    qed
  qed
qed simp

text \<open>Each iteration that goes on has taken one row out of the queue.\<close>

definition queue :: "approval_store \<Rightarrow> nat" where
  "queue st = length (filter (\<lambda>r. ap_state r = ''pending'') (la_approvals st))"

lemma queue_update:
  assumes "\<And>r. r \<in> set (la_approvals st) \<Longrightarrow> c r \<Longrightarrow> ap_state (f r) \<noteq> ''pending''"
  shows "queue (fst (update_rows c f st)) \<le> queue st"
    and "r \<in> set (la_approvals st) \<Longrightarrow> c r \<Longrightarrow> ap_state r = ''pending'' \<Longrightarrow> queue (fst (update_rows c f st)) < queue st"
proof -
  have le: "length (filter (\<lambda>r. ap_state r = ''pending'') (map (\<lambda>r. if c r then f r else r) rs))
      \<le> length (filter (\<lambda>r. ap_state r = ''pending'') rs)"
    if "\<forall>r \<in> set rs. c r \<longrightarrow> ap_state (f r) \<noteq> ''pending''" for rs
    using that by (induction rs) auto
  show "queue (fst (update_rows c f st)) \<le> queue st"
    using le [of "la_approvals st"] assms by (simp add: queue_def update_rows_def)
  have less: "length (filter (\<lambda>r. ap_state r = ''pending'') (map (\<lambda>r. if c r then f r else r) rs))
      < length (filter (\<lambda>r. ap_state r = ''pending'') rs)"
    if "\<forall>r \<in> set rs. c r \<longrightarrow> ap_state (f r) \<noteq> ''pending''" "r \<in> set rs" "c r" "ap_state r = ''pending''" for rs r
    using that
  proof (induction rs)
    case (Cons q rs)
    then show ?case using le [of rs] by (cases "r = q") (auto simp: less_Suc_eq_le)
  qed simp
  show "queue (fst (update_rows c f st)) < queue st"
    if "r \<in> set (la_approvals st)" "c r" "ap_state r = ''pending''"
    using less [of "la_approvals st" r] assms that by (simp add: queue_def update_rows_def)
qed

lemma queue_take:
  assumes "poll_take iso8601 now st = (Inr p, st')" and "p \<noteq> PollEmpty"
  shows "queue st' < queue st"
proof -
  from assms obtain row where row: "oldest (filter (\<lambda>r. ap_state r = ''pending'') (la_approvals st)) = Some row"
    unfolding poll_take_def by (auto split: option.splits)
  then have m: "row \<in> set (la_approvals st)" "ap_state row = ''pending''"
    using oldest_mem by fastforce+
  have "queue (fst (update_rows (\<lambda>r. ap_request_id r = ap_request_id row) f st)) < queue st"
    if "\<And>r. ap_state (f r) \<noteq> ''pending''" for f
    using queue_update(2) [OF _ m(1) _ m(2)] that by simp
  then show ?thesis
    using assms unfolding poll_take_def row
    by (auto split: sum.splits if_splits simp: settle_def)
qed

lemma queue_set_state:
  "state \<noteq> ''pending'' \<Longrightarrow> queue (snd (set_state i state reason result st)) \<le> queue st"
  unfolding set_state_def by (simp add: split_beta queue_update(1) split: sum.split)

lemma queue_hand_out [simp]: "queue (hand_out q st) = queue st"
  by (simp add: queue_def hand_out_def)

lemma queue_settle: "queue (fst (snd (poll_settle env row (st, gs)))) \<le> queue st"
  unfolding poll_settle_def poll_protocol_def fail_approval_def
  by (auto simp: split_beta drop_changed_state queue_set_state split: option.split sum.split bool.split)

text \<open>C19. Polling always returns: one iteration per pending row and one more are enough, whatever the
  resolver and the GateStore answer in each of them.
\<close>

theorem poll_returns: "\<exists>r s'. poll (Suc (queue (fst s))) envs now s = Some (r, s')"
proof -
  have "\<exists>r s'. poll_loop n envs now s = Some (r, s')" if "queue (fst s) < n" for n envs s
    using that
  proof (induction n envs now s rule: poll_loop.induct)
    case (2 n envs now s)
    obtain t st where t: "poll_take (ae_iso (envs 0)) now (fst s) = (t, st)" by fastforce
    show ?case
    proof (cases t)
      case (Inl e)
      with t show ?thesis by simp
    next
      case (Inr p)
      note less = queue_take [OF t [unfolded Inr]]
      show ?thesis
      proof (cases p)
        case PollEmpty
        with t Inr show ?thesis by simp
      next
        case PollExpired
        with less 2(3) have "queue (fst (st, snd s)) < n" by simp
        from 2(1) [OF t [symmetric] Inr PollExpired this] t Inr PollExpired show ?thesis by simp
      next
        case (PollTook row)
        obtain u s1 where u: "poll_settle (envs 0) row (st, snd s) = (u, s1)" by (metis prod.exhaust)
        with queue_settle [of "envs 0" row st "snd s"] less PollTook 2(3) have q: "queue (fst s1) < n"
          by simp
        show ?thesis
        proof (cases "u = Inr None")
          case True
          from 2(2) [OF t [symmetric] Inr PollTook u [symmetric] True refl q] t Inr PollTook u True
          show ?thesis by simp
        next
          case False
          with t Inr PollTook u show ?thesis by (auto split: sum.splits option.splits)
        qed
      qed
    qed
  qed simp
  moreover have "queue (fst ((fst s)\<lparr>la_current := None\<rparr>, snd s)) < Suc (queue (fst s))"
    by (simp add: queue_def)
  ultimately show ?thesis unfolding poll_def by blast
qed

text \<open>What a request that is handed out has behind it.\<close>

lemma poll_loop_request:
  assumes "poll_loop n envs now s = Some (Inr (Some request), s')"
  shows "\<exists>(env :: approval_env) st row gs st1. reached (fst s) st \<and> poll_take (ae_iso env) now st = (Inr (PollTook row), st1)
    \<and> poll_settle env row (st1, gs) = (Inr (Some request), s')"
  using assms
proof (induction n envs now s rule: poll_loop.induct)
  case (2 n envs now s)
  obtain t st where t: "poll_take (ae_iso (envs 0)) now (fst s) = (t, st)" by fastforce
  have st: "reached (fst s) st" using reached_take [of "fst s" "ae_iso (envs 0)" now] by (simp add: t)
  obtain p where p: "t = Inr p" using 2(3) t by (cases t) auto
  show ?case
  proof (cases p)
    case PollEmpty
    with 2(3) t p show ?thesis by simp
  next
    case PollExpired
    with 2(3) t p have "poll_loop n (\<lambda>i. envs (Suc i)) now (st, snd s) = Some (Inr (Some request), s')" by simp
    from 2(1) [OF t [symmetric] p PollExpired this] st show ?thesis using reached_trans by fastforce
  next
    case (PollTook row)
    obtain u s1 where u: "poll_settle (envs 0) row (st, snd s) = (u, s1)" by (metis prod.exhaust)
    have s1: "reached (fst s) (fst s1)"
      using reached_settle [of st "envs 0" row "snd s"] reached_trans [OF st] by (simp add: u)
    show ?thesis
    proof (cases "u = Inr None")
      case True
      with 2(3) t p PollTook u have "poll_loop n (\<lambda>i. envs (Suc i)) now s1 = Some (Inr (Some request), s')" by simp
      from 2(2) [OF t [symmetric] p PollTook u [symmetric] True refl this] s1 show ?thesis
        using reached_trans by blast
    next
      case False
      with 2(3) t p PollTook u have "u = Inr (Some request)" "s1 = s'" by (auto split: sum.splits option.splits)
      with t p PollTook u show ?thesis using reached_refl by blast
    qed
  qed
qed simp

lemma settle_hands_out:
  assumes "poll_settle env row (st, gs) = (Inr (Some request), s')"
  shows "ap_request row = Some request \<and> fst s' = hand_out request st"
    and "mentions_pilot request = Inr False \<Longrightarrow> \<exists>current. ae_resolve env (ap_repository row) (ap_pr_number row) = Inr current
      \<and> request_matches_target request current \<and> rt_head_sha current = ap_head_sha row
      \<and> observe_head (rt_repository_id current) (rt_pr_number current) (rt_head_sha current) gs
          = (Inr (ap_head_generation row), snd s')"
proof -
  from assms obtain q where q: "ap_request row = Some q" and
    m: "(case mentions_pilot q of Inl e \<Rightarrow> (Inl e, st, gs) | Inr True \<Rightarrow> (Inr (Some q), hand_out q st, gs)
       | Inr False \<Rightarrow> poll_protocol env row q (st, gs)) = (Inr (Some request), s')"
    unfolding poll_settle_def by (auto split: option.splits)
  have drop: "drop_changed i (st, x) \<noteq> (Inr (Some y), z)" for i x y z
    by (auto simp: drop_changed_def split: prod.split sum.split)
  have prot: "q = request \<and> fst s' = hand_out q st
      \<and> (\<exists>current. ae_resolve env (ap_repository row) (ap_pr_number row) = Inr current
      \<and> request_matches_target q current \<and> rt_head_sha current = ap_head_sha row
      \<and> observe_head (rt_repository_id current) (rt_pr_number current) (rt_head_sha current) gs
          = (Inr (ap_head_generation row), snd s'))"
    if "poll_protocol env row q (st, gs) = (Inr (Some request), s')"
  proof -
    from that obtain current where c: "ae_resolve env (ap_repository row) (ap_pr_number row) = Inr current"
      unfolding poll_protocol_def by (auto split: sum.splits prod.splits)
    with that drop have ok: "request_matches_target q current" "rt_head_sha current = ap_head_sha row"
      unfolding poll_protocol_def by (auto split: if_splits)
    obtain g gs1 where g: "observe_head (rt_repository_id current) (rt_pr_number current) (rt_head_sha current) gs = (g, gs1)"
      by (metis prod.exhaust)
    with that c ok drop show ?thesis
      unfolding poll_protocol_def by (auto split: sum.splits if_splits)
  qed
  show "ap_request row = Some request \<and> fst s' = hand_out request st"
    using m q prot by (auto split: sum.splits bool.splits)
  show "\<exists>current. ae_resolve env (ap_repository row) (ap_pr_number row) = Inr current
      \<and> request_matches_target request current \<and> rt_head_sha current = ap_head_sha row
      \<and> observe_head (rt_repository_id current) (rt_pr_number current) (rt_head_sha current) gs
          = (Inr (ap_head_generation row), snd s')" if "mentions_pilot request = Inr False"
    using m q prot that by (auto split: sum.splits bool.splits)
qed

text \<open>A request that polling hands out is a live claim of the store that had not expired when the clock
  was read: its row is claimed under the very request, the poller remembers it, and a protocol
  request was moreover resolved again just before, to the same target, head and head generation.
\<close>

theorem poll_hands_out_claimed:
  assumes "poll fuel envs now (st, gs) = Some (Inr (Some request), st', gs')"
  shows "\<exists>r \<in> set (la_approvals st'). \<exists>(env :: approval_env) expires. ap_state r = ''claimed'' \<and> ap_request r = Some request
    \<and> la_parse (ae_iso env) (ap_expires_at r) = Inr expires \<and> now < expires
    \<and> la_current st' = Some request
    \<and> (mentions_pilot request = Inr False \<longrightarrow>
         (\<exists>current gs0. ae_resolve env (ap_repository r) (ap_pr_number r) = Inr current
            \<and> request_matches_target request current \<and> rt_head_sha current = ap_head_sha r
            \<and> fst (observe_head (rt_repository_id current) (rt_pr_number current) (rt_head_sha current) gs0)
                = Inr (ap_head_generation r)))"
proof -
  from poll_loop_request [OF assms [unfolded poll_def]] obtain env q row gs0 q1 where
    q: "reached (st\<lparr>la_current := None\<rparr>) q" and
    t: "poll_take (ae_iso env) now q = (Inr (PollTook row), q1)" and
    h: "poll_settle env row (q1, gs0) = (Inr (Some request), st', gs')" by auto
  from t have o: "oldest (filter (\<lambda>r. ap_state r = ''pending'') (la_approvals q)) = Some row"
    unfolding poll_take_def by (auto split: option.splits sum.splits if_splits)
  then have row: "row \<in> set (la_approvals q)" using oldest_mem by fastforce
  from t o obtain expires u where e: "la_parse (ae_iso env) (ap_expires_at row) = Inr expires" "now < expires"
    and q1: "q1 = fst (update_rows (\<lambda>r. ap_request_id r = ap_request_id row)
      (\<lambda>r. r\<lparr>ap_state := ''claimed'', ap_claim_until := Some u\<rparr>) q)"
    unfolding poll_take_def by (auto split: sum.splits if_splits)
  let ?r = "row\<lparr>ap_state := ''claimed'', ap_claim_until := Some u\<rparr>"
  have "?r \<in> set (la_approvals st')"
    using row settle_hands_out(1) [OF h] by (auto simp: hand_out_def q1 update_rows_def intro: rev_image_eqI)
  moreover have "la_current st' = Some request"
    using settle_hands_out(1) [OF h] by (simp add: hand_out_def)
  moreover have "mentions_pilot request = Inr False \<longrightarrow>
      (\<exists>current gs0. ae_resolve env (ap_repository row) (ap_pr_number row) = Inr current
        \<and> request_matches_target request current \<and> rt_head_sha current = ap_head_sha row
        \<and> fst (observe_head (rt_repository_id current) (rt_pr_number current) (rt_head_sha current) gs0)
            = Inr (ap_head_generation row))"
    using settle_hands_out(2) [OF h] by (metis fst_conv)
  ultimately have
    r: "?r \<in> set (la_approvals st') \<and> ap_state ?r = ''claimed'' \<and> ap_request ?r = Some request
        \<and> la_parse (ae_iso env) (ap_expires_at ?r) = Inr expires \<and> now < expires \<and> la_current st' = Some request
        \<and> (mentions_pilot request = Inr False \<longrightarrow>
            (\<exists>current gs0. ae_resolve env (ap_repository ?r) (ap_pr_number ?r) = Inr current
              \<and> request_matches_target request current \<and> rt_head_sha current = ap_head_sha ?r
              \<and> fst (observe_head (rt_repository_id current) (rt_pr_number current) (rt_head_sha current) gs0)
                  = Inr (ap_head_generation ?r)))"
    using e settle_hands_out(1) [OF h] by simp
  then show ?thesis by blast
qed

definition sample_approval_env :: approval_env where
  "sample_approval_env =
     \<lparr>ae_hash = (\<lambda>_. sample_hash), ae_iso = read_iso, ae_resolve = (\<lambda>repo pr. Inr sample_approval_target),
      ae_build = (\<lambda>target generation i nonce now ttl. Inr PNone), ae_ttl = minutes 4\<rparr>"

lemma sample_poll:
  "poll 1 (\<lambda>_. sample_approval_env) 1000000 (fold approval_step [sample_insert ''q''] empty_approvals, empty_store)
   = Some (Inr (Some sample_request),
       \<lparr>la_approvals = [sample_claimed_row], la_blocks = [], la_discards = [], la_current = Some sample_request\<rparr>, empty_store)"
proof -
  have "read_iso (replace_zulu (stamp (minutes 4))) = Some (Aware (minutes 4))"
    by code_simp
  moreover have "mentions_pilot sample_request = Inr True"
    by (simp add: sample_request_def pkeys_def)
  ultimately show ?thesis
    by (simp add: poll_def sample_insert_def empty_approvals_def approve_insert_def unique_violation_def poll_settle_def
        hand_out_def poll_take_def new_row_def la_parse_def update_rows_def claim_window_def sample_claimed_row_def
        sample_approval_env_def)
qed

theorem poll_hands_out_claimed_witness:
  "\<exists>r \<in> {sample_claimed_row}. \<exists>(env :: approval_env) expires. ap_request r = Some sample_request
     \<and> la_parse (ae_iso env) (ap_expires_at r) = Inr expires \<and> 1000000 < expires"
  using poll_hands_out_claimed [OF sample_poll] by auto

section \<open>Claims\<close>

lemma updated_exists:
  assumes "snd (update_rows c f st) = 1"
  shows "\<exists>r. r \<in> set (la_approvals st) \<and> c r"
proof (rule ccontr)
  assume "\<not> ?thesis"
  then have "filter c (la_approvals st) = []" by (simp add: filter_empty_conv)
  with assms show False by (simp add: update_rows_def)
qed

lemma returned_only_if:
  "(if c then (Inl e, s) else (Inr u, t)) = (Inr u, v) \<Longrightarrow> \<not> c \<and> v = t"
  by (cases c) simp_all

text \<open>A successful durable claim is a claim of the stored request: the row was claimed, its stored text is
  the canonical text of the request presented, and afterwards it is durable until the end of the
  lease asked for, which is between one second and two hours.
\<close>

theorem claim_binds_request:
  assumes "claim_approval i request lease now st = (Inr (), st')"
  shows "\<exists>n r. lease = PInt n \<and> 1 \<le> n \<and> n \<le> 7200 \<and> r \<in> set (la_approvals st) \<and> ap_request_id r = i
    \<and> ap_state r = ''claimed'' \<and> dumps request = Inr (ap_request_json r)
    \<and> r\<lparr>ap_durable := 1, ap_claim_until := Some (stamp (now + seconds n)), ap_reason := None\<rparr> \<in> set (la_approvals st')
    \<and> la_current st' = Some request"
proof -
  from assms obtain n encoded where n: "lease = PInt n" "1 \<le> n" "n \<le> 7200" "dumps request = Inr encoded"
    unfolding claim_approval_def by (auto split: pyval.splits if_splits sum.splits)
  let ?c = "\<lambda>r. ap_request_id r = i \<and> ap_state r = ''claimed'' \<and> ap_request_json r = encoded"
  let ?f = "\<lambda>r. r\<lparr>ap_durable := 1, ap_claim_until := Some (stamp (now + seconds n)), ap_reason := None\<rparr>"
  have "(if snd (update_rows ?c ?f st) \<noteq> 1
      then (Inl (LocalApprovalError ''approval claim identity is not durable''), fst (update_rows ?c ?f st))
      else (Inr (), hand_out request (fst (update_rows ?c ?f st)))) = (Inr (), st')"
    using assms n by (simp add: claim_approval_def split_beta)
  from returned_only_if [OF this] have one: "snd (update_rows ?c ?f st) = 1"
    and st': "st' = hand_out request (fst (update_rows ?c ?f st))"
    by simp_all
  from updated_exists [OF one] obtain r where r: "r \<in> set (la_approvals st)" "?c r"
    by blast
  have "?f r = (if ?c r then ?f r else r)" using r(2) by auto
  then have "?f r \<in> (\<lambda>r. if ?c r then ?f r else r) ` set (la_approvals st)" using r(1) by (rule image_eqI)
  then have "?f r \<in> set (la_approvals st')"
    unfolding st' hand_out_def update_rows_def by simp
  moreover have "la_current st' = Some request" by (simp add: st' hand_out_def)
  ultimately show ?thesis
    using n r by (intro exI [of _ n] exI [of _ r]) simp
qed

definition sample_small_row :: approval_row where
  "sample_small_row =
     (new_row ''o/r'' 3 sample_approval_target 1 ''q'' (PInt 7) ''7'' 0 (minutes 4))\<lparr>ap_state := ''claimed''\<rparr>"

theorem claim_binds_request_witness:
  "\<exists>r \<in> {sample_small_row}. ap_state r = ''claimed'' \<and> dumps (PInt 7) = Inr (ap_request_json r)"
proof -
  let ?st = "\<lparr>la_approvals = [sample_small_row], la_blocks = [], la_discards = [], la_current = None\<rparr>"
  have encoded: "dumps (PInt 7) = Inr ''7''" by code_simp
  have "claim_approval ''q'' (PInt 7) (PInt 60) 0 ?st = (Inr (), snd (claim_approval ''q'' (PInt 7) (PInt 60) 0 ?st))"
    by (simp add: claim_approval_def encoded update_rows_def sample_small_row_def new_row_def)
  from claim_binds_request [OF this] show ?thesis by auto
qed

end
