(* ===== verification/Runner_Broker.thy ===== *)
theory Runner_Broker
  imports Py_Effects Ledger_Safety Jit_Pilot
begin

text \<open>
  \<open>runner_jit_broker.py\<close>, the class \<open>AllocationBroker\<close>: the lifecycle of one scale set per allocation
  over the ledger. The GARM driver, the verifier of the live job and the clock are arguments; each
  answers from the state of the outside world and leaves a new one. Every call of the driver is
  logged with its arguments, so that the theorems can speak of what was asked of GARM.

  Times on the monotonic clock are microseconds. \<open>H\<close> is the SHA-256 hex digest, \<open>fromiso\<close> is
  \<open>datetime.fromisoformat\<close>.
\<close>

section \<open>Exceptions\<close>

text \<open>
  \<open>BrLedger\<close> carries a ledger exception, also a \<open>RunnerJitError\<close> of the broker or the driver itself.
  \<open>BrHalt\<close> is a process that stops there; no handler sees it. \<open>BrWaiting\<close> is a wait whose fuel ran
  out.
\<close>

datatype br_error =
    BrLedger rj_error
  | ReservePartial pyval
  | Denied string string "string list"
  | BrReadOnly
  | BrOSError
  | BrValueError
  | BrTimeoutExpired
  | BrOther string
  | BrHalt
  | BrWaiting

abbreviation br_fail :: "string \<Rightarrow> br_error" where
  "br_fail msg \<equiv> BrLedger (RunnerJitError msg)"

text \<open>The classes \<open>RunnerJitError\<close>, \<open>(OSError, ValueError)\<close> and \<open>Exception\<close>.\<close>

fun is_runner_jit :: "br_error \<Rightarrow> bool" where
  "is_runner_jit (BrLedger (RjCrypto c)) = False"
| "is_runner_jit (BrLedger RjTypeError) = False"
| "is_runner_jit (BrLedger RjOverflowError) = False"
| "is_runner_jit (BrLedger e) = True"
| "is_runner_jit (Denied ph why fs) = True"
| "is_runner_jit BrReadOnly = True"
| "is_runner_jit e = False"

fun is_os_or_value :: "br_error \<Rightarrow> bool" where
  "is_os_or_value (BrLedger (RjCrypto c)) = True"
| "is_os_or_value BrOSError = True"
| "is_os_or_value BrValueError = True"
| "is_os_or_value e = is_runner_jit e"

fun is_exception :: "br_error \<Rightarrow> bool" where
  "is_exception BrHalt = False"
| "is_exception BrWaiting = False"
| "is_exception e = True"

section \<open>The driver\<close>

text \<open>\<open>GarmAllocationDriver\<close>, \<open>LiveWorkflowJobVerifier\<close> and the clock.\<close>

record 'w garm_driver =
  gd_no_persistent :: "'w \<Rightarrow> (br_error + unit) \<times> 'w"
  gd_ensure_disabled :: "pydict \<Rightarrow> 'w \<Rightarrow> (br_error + string) \<times> 'w"
  gd_bind_signed :: "string \<Rightarrow> pydict \<Rightarrow> pyval \<Rightarrow> 'w \<Rightarrow> (br_error + unit) \<times> 'w"
  gd_find :: "pyval \<Rightarrow> 'w \<Rightarrow> (br_error + string option) \<times> 'w"
  gd_enable :: "string \<Rightarrow> pyval \<Rightarrow> 'w \<Rightarrow> (br_error + unit) \<times> 'w"
  gd_runner_claim :: "string \<Rightarrow> pyval \<Rightarrow> pyval \<Rightarrow> pydict \<Rightarrow> int \<Rightarrow> 'w \<Rightarrow> (br_error + unit) \<times> 'w"
  gd_disable :: "string \<Rightarrow> pyval \<Rightarrow> int option \<Rightarrow> 'w \<Rightarrow> (br_error + unit) \<times> 'w"
  gd_drain :: "string \<Rightarrow> pyval \<Rightarrow> 'w \<Rightarrow> (br_error + unit) \<times> 'w"
  gd_delete :: "string \<Rightarrow> pyval \<Rightarrow> 'w \<Rightarrow> (br_error + unit) \<times> 'w"
  gd_assert_absent :: "pyval \<Rightarrow> 'w \<Rightarrow> (br_error + unit) \<times> 'w"
  gd_measure :: "string \<Rightarrow> pyval \<Rightarrow> 'w \<Rightarrow> (br_error + pydict) \<times> 'w"
  gd_runtime_empty :: "'w \<Rightarrow> (br_error + unit) \<times> 'w"
  gd_live_job :: "pydict \<Rightarrow> pydict \<Rightarrow> int \<Rightarrow> 'w \<Rightarrow> (br_error + unit) \<times> 'w"
  gd_monotonic :: "'w \<Rightarrow> int \<times> 'w"
  gd_sleep :: "int \<Rightarrow> 'w \<Rightarrow> 'w"

datatype driver_call =
    NoPersistent
  | EnsureDisabled pydict
  | BindSigned string pydict pyval
  | FindScaleSet pyval
  | EnableScaleSet string pyval
  | RunnerClaim string pyval pyval
  | LiveJob pydict
  | DisableScaleSet string pyval
  | DrainScaleSet string pyval
  | DeleteScaleSet string pyval
  | AssertAbsent pyval
  | MeasureCleanup string pyval
  | RuntimeEmpty

record 'w broker_state =
  bk_ledger :: ledger
  bk_world :: 'w
  bk_calls :: "driver_call list"

record 'w broker =
  br_hash :: "string \<Rightarrow> string"
  br_iso :: "string \<Rightarrow> pydatetime option"
  br_driver :: "'w garm_driver"
  br_prims :: sig_prims
  br_public_key :: public_key
  br_fingerprint :: string
  br_timeout :: int
  br_poll :: int
  br_fuel :: nat

type_synonym ('w, 'a) bio = "('w broker_state, br_error, 'a) io"

definition callB :: "driver_call \<Rightarrow> ('w \<Rightarrow> (br_error + 'a) \<times> 'w) \<Rightarrow> ('w, 'a) bio" where
  "callB c f = (\<lambda>s. case f (bk_world s) of
     (r, w) \<Rightarrow> (r, s\<lparr>bk_world := w, bk_calls := bk_calls s @ [c]\<rparr>))"

definition clockB :: "('w \<Rightarrow> 'a \<times> 'w) \<Rightarrow> ('w, 'a) bio" where
  "clockB f = (\<lambda>s. case f (bk_world s) of (r, w) \<Rightarrow> (Inr r, s\<lparr>bk_world := w\<rparr>))"

definition ledgerB :: "(ledger \<Rightarrow> (rj_error + 'a) \<times> ledger) \<Rightarrow> ('w, 'a) bio" where
  "ledgerB f = (\<lambda>s. case f (bk_ledger s) of (r, l) \<Rightarrow> (map_sum BrLedger id r, s\<lparr>bk_ledger := l\<rparr>))"

definition lookupB :: "(ledger \<Rightarrow> rj_error + 'a) \<Rightarrow> ('w, 'a) bio" where
  "lookupB f = readI (\<lambda>s. map_sum BrLedger id (f (bk_ledger s)))"

text \<open>\<open>d[field]\<close>.\<close>

definition itemB :: "pydict \<Rightarrow> string \<Rightarrow> ('w, pyval) bio" where
  "itemB d f = pure_io (case map_of d f of None \<Rightarrow> Inl (BrOther ''KeyError'') | Some v \<Rightarrow> Inr v)"

abbreviation driverB where
  "driverB b \<equiv> br_driver b"

section \<open>Reservation and finalization\<close>

definition scale_set_id_text :: "string \<Rightarrow> string \<Rightarrow> pyval \<Rightarrow> string \<Rightarrow> pydict" where
  "scale_set_id_text allocation_id scale_set_id label state =
     [(''allocation_id'', PStr allocation_id), (''scale_set_id'', PStr scale_set_id), (''runner_label'', label),
      (''state'', PStr state)]"

text \<open>
  \<open>reserve\<close>. The ledger has validated the reservation before the two names are used as texts, so a
  value of another type does not get that far.
\<close>

definition broker_reserve :: "'w broker \<Rightarrow> pydict \<Rightarrow> pydatetime \<Rightarrow> ('w, pydict) bio" where
  "broker_reserve b reservation now =
     bindI (callB NoPersistent (gd_no_persistent (driverB b))) (\<lambda>_.
     bindI (itemB reservation ''allocation_id'') (\<lambda>allocation_id.
     bindI (itemB reservation ''scale_set_name'') (\<lambda>scale_set_name.
     bindI (ledgerB (reserve (br_hash b) (br_iso b) reservation now)) (\<lambda>_.
     bindI (tryI
       (bindI (callB (EnsureDisabled reservation) (gd_ensure_disabled (driverB b) reservation)) (\<lambda>scale_set_id.
        bindI (ledgerB (bind_scale_set (fmt allocation_id) scale_set_id (fmt scale_set_name))) (\<lambda>_.
        ret scale_set_id)))
       (\<lambda>e. throw (if is_exception e then ReservePartial allocation_id else e))) (\<lambda>scale_set_id.
     ret (scale_set_id_text (fmt allocation_id) scale_set_id scale_set_name ''reserved-disabled''))))))"

definition broker_finalize :: "'w broker \<Rightarrow> pyval \<Rightarrow> pydatetime \<Rightarrow> ('w, pydict) bio" where
  "broker_finalize b envelope now =
     bindI (ledgerB (finalize (br_hash b) (br_iso b) (br_prims b) envelope (br_public_key b) (br_fingerprint b) now)) (\<lambda>_.
     (let payload = dict_of (pget (dict_of envelope) ''payload'');
          allocation_id = fmt (pget payload ''allocation_id'')
      in bindI (lookupB (\<lambda>l. scale_set_binding l allocation_id)) (\<lambda>(scale_set_name, scale_set_id).
         bindI (callB (BindSigned scale_set_id payload envelope)
           (gd_bind_signed (driverB b) scale_set_id payload envelope)) (\<lambda>_.
         bindI (callB (EnableScaleSet scale_set_id scale_set_name)
           (gd_enable (driverB b) scale_set_id scale_set_name)) (\<lambda>_.
         ret (scale_set_id_text allocation_id scale_set_id scale_set_name ''enabled-awaiting-claim''))))))"

section \<open>The job-started hook\<close>

definition CONTEXT_FIELDS :: "string list" where
  "CONTEXT_FIELDS = [''repository_id'', ''repository'', ''dispatch_sha'', ''tested_sha'', ''workflow_ref'', ''run_id'',
     ''run_attempt'', ''job_name'', ''runner_name'', ''scale_set_name'']"

definition SIGNED_CONTEXT_FIELDS :: "string list" where
  "SIGNED_CONTEXT_FIELDS = [''repository_id'', ''repository'', ''dispatch_sha'', ''tested_sha'', ''workflow_ref'',
     ''run_id'', ''run_attempt'', ''job_name'', ''scale_set_name'']"

definition JOB_STARTED_ERROR_CODES :: "(string \<times> string list) list" where
  "JOB_STARTED_ERROR_CODES =
     [(''request'', [''invalid-context'']), (''allocation'', [''binding-unavailable'']),
      (''signed-context'', [''context-mismatch'']), (''runner-claim'', [''claim-not-observed'']),
      (''live-job'', [''job-not-verified'']), (''ledger-claim'', [''claim-expired'', ''claim-state-conflict'']),
      (''runner-disable'', [''disable-failed''])]"

text \<open>\<open>JobStartedDenial(phase, code, mismatched_fields=...)\<close>.\<close>

definition job_started_denial :: "string \<Rightarrow> string \<Rightarrow> string list \<Rightarrow> br_error" where
  "job_started_denial ph why fs =
     (if \<not> List.member (case map_of JOB_STARTED_ERROR_CODES ph of None \<Rightarrow> [] | Some cs \<Rightarrow> cs) why then BrValueError
      else if \<not> list_all (List.member SIGNED_CONTEXT_FIELDS) fs then BrValueError
      else Denied ph why (sort (remdups fs)))"

text \<open>A context is raw (a mapping) or an instance of the dataclass, here its fields.\<close>

datatype job_context = RawContext pydict | CheckedContext pydict

definition job_context_of :: "pydict \<Rightarrow> br_error + pydict" where
  "job_context_of v =
     (if \<not> keys_exact v CONTEXT_FIELDS then Inl (br_fail ''job-started context requires exact fields'')
      else if (case pget v ''run_attempt'' of PInt n \<Rightarrow> False | _ \<Rightarrow> True)
      then Inl (br_fail ''job-started run_attempt must be an integer'')
      else if \<not> list_all (\<lambda>f. str_matches (\<lambda>s. s \<noteq> []) (pget v f)) (removeAll ''run_attempt'' CONTEXT_FIELDS)
      then Inl (br_fail ''job-started string fields must be non-empty'')
      else Inr v)"

text \<open>
  \<open>_wait_for_observation\<close>: an observation that fails with \<open>OSError\<close> or \<open>ValueError\<close> is retried until
  the deadline; one that succeeds counts only before it.
\<close>

fun wait_for_observation :: "nat \<Rightarrow> 'w broker \<Rightarrow> (int \<Rightarrow> ('w, unit) bio) \<Rightarrow> int \<Rightarrow> ('w, unit) bio" where
  "wait_for_observation 0 b observe deadline = throw BrWaiting"
| "wait_for_observation (Suc n) b observe deadline =
     bindI (clockB (gd_monotonic (driverB b))) (\<lambda>t.
     if deadline - t \<le> 0 then throw (br_fail ''job-started observation deadline expired'')
     else tryElseI (observe (deadline - t))
       (\<lambda>e. if is_os_or_value e then
           bindI (clockB (gd_monotonic (driverB b))) (\<lambda>t1.
           bindI (if deadline - t1 > 0
                  then clockB (\<lambda>w. ((), gd_sleep (driverB b) (min (br_poll b) (deadline - t1)) w))
                  else ret ()) (\<lambda>_.
           wait_for_observation n b observe deadline))
         else throw e)
       (\<lambda>_. bindI (clockB (gd_monotonic (driverB b))) (\<lambda>t1.
         if t1 < deadline then ret () else throw (br_fail ''job-started observation deadline expired''))))"

text \<open>\<open>except RunnerJitError as exc: raise JobStartedDenial(...) from exc\<close>, for a class of exceptions.\<close>

definition denyI :: "(br_error \<Rightarrow> bool) \<Rightarrow> string \<Rightarrow> string \<Rightarrow> ('w, 'a) bio \<Rightarrow> ('w, 'a) bio" where
  "denyI c ph why m = tryI m (\<lambda>e. throw (if c e then job_started_denial ph why [] else e))"

definition checked_context :: "job_context \<Rightarrow> ('w, pydict) bio" where
  "checked_context context =
     (case context of
        RawContext v \<Rightarrow> denyI is_runner_jit ''request'' ''invalid-context'' (pure_io (job_context_of v))
      | CheckedContext v \<Rightarrow> ret v)"

definition mismatched_fields :: "pydict \<Rightarrow> pydict \<Rightarrow> string list" where
  "mismatched_fields payload context =
     filter (\<lambda>f. \<not> py_eq (pget context f) (pget payload f)) SIGNED_CONTEXT_FIELDS"

definition shifted :: "pydatetime \<Rightarrow> int \<Rightarrow> pydatetime" where
  "shifted now d = (case now of Aware t \<Rightarrow> Aware (t + d) | Naive t \<Rightarrow> Naive (t + d))"

definition admit_args :: "pydatetime \<Rightarrow> transition_args" where
  "admit_args now = no_args\<lparr>ta_now := Some now\<rparr>"

definition RUNNER_HOOK_BUDGET :: int where
  "RUNNER_HOOK_BUDGET = seconds (60 - 5)"

definition observe_claim :: "'w broker \<Rightarrow> string \<Rightarrow> pyval \<Rightarrow> pydict \<Rightarrow> pydict \<Rightarrow> int \<Rightarrow> ('w, unit) bio" where
  "observe_claim b scale_set_id scale_set_name payload context remaining =
     callB (RunnerClaim scale_set_id scale_set_name (pget context ''runner_name''))
       (gd_runner_claim (driverB b) scale_set_id scale_set_name (pget context ''runner_name'') payload remaining)"

definition observe_live_job :: "'w broker \<Rightarrow> pydict \<Rightarrow> pydict \<Rightarrow> int \<Rightarrow> ('w, unit) bio" where
  "observe_live_job b payload context remaining =
     callB (LiveJob payload) (gd_live_job (driverB b) payload context remaining)"

definition disable_for_job :: "'w broker \<Rightarrow> string \<Rightarrow> pyval \<Rightarrow> int \<Rightarrow> ('w, unit) bio" where
  "disable_for_job b scale_set_id scale_set_name hook_deadline =
     bindI (clockB (gd_monotonic (driverB b))) (\<lambda>t.
     bindI (callB (DisableScaleSet scale_set_id scale_set_name)
       (gd_disable (driverB b) scale_set_id scale_set_name (Some (hook_deadline - t)))) (\<lambda>_.
     bindI (clockB (gd_monotonic (driverB b))) (\<lambda>t1.
     if hook_deadline \<le> t1 then throw (br_fail ''job-started hook deadline expired'') else ret ())))"

definition admit_started :: "'w broker \<Rightarrow> string \<Rightarrow> pydatetime \<Rightarrow> int \<Rightarrow> ('w, unit) bio" where
  "admit_started b allocation_id now started_at =
     bindI (clockB (gd_monotonic (driverB b))) (\<lambda>t.
     tryI (bindI (ledgerB (transition (br_hash b) (br_iso b) allocation_id ''admit-job''
             (admit_args (shifted now (t - started_at))))) (\<lambda>_. ret ()))
       (\<lambda>e. throw (case e of
            BrLedger (AllocationClaimExpired m) \<Rightarrow> job_started_denial ''ledger-claim'' ''claim-expired'' []
          | BrLedger (InvalidLifecycleTransition m) \<Rightarrow> job_started_denial ''ledger-claim'' ''claim-state-conflict'' []
          | _ \<Rightarrow> e)))"

definition observe_and_admit ::
    "'w broker \<Rightarrow> string \<Rightarrow> pydatetime \<Rightarrow> pydict \<Rightarrow> pydict \<Rightarrow> pyval \<Rightarrow> string \<Rightarrow> ('w, unit) bio" where
  "observe_and_admit b allocation_id now payload context scale_set_name scale_set_id =
     bindI (clockB (gd_monotonic (driverB b))) (\<lambda>started_at.
     bindI (denyI is_runner_jit ''runner-claim'' ''claim-not-observed''
       (wait_for_observation (br_fuel b) b (observe_claim b scale_set_id scale_set_name payload context)
          (started_at + br_timeout b))) (\<lambda>_.
     bindI (denyI is_os_or_value ''live-job'' ''job-not-verified''
       (wait_for_observation (br_fuel b) b (observe_live_job b payload context) (started_at + br_timeout b))) (\<lambda>_.
     bindI (denyI is_os_or_value ''runner-disable'' ''disable-failed''
       (disable_for_job b scale_set_id scale_set_name (started_at + RUNNER_HOOK_BUDGET))) (\<lambda>_.
     admit_started b allocation_id now started_at))))"

definition job_started :: "'w broker \<Rightarrow> string \<Rightarrow> job_context \<Rightarrow> pydatetime \<Rightarrow> ('w, unit) bio" where
  "job_started b allocation_id raw now =
     bindI (checked_context raw) (\<lambda>context.
     bindI (denyI is_runner_jit ''allocation'' ''binding-unavailable'' (lookupB (\<lambda>l. ledger_payload l allocation_id)))
       (\<lambda>payload.
     if \<not> list_all (\<lambda>f. f \<in> set (pkeys payload)) SIGNED_CONTEXT_FIELDS then throw (BrOther ''KeyError'')
     else if mismatched_fields payload context \<noteq> []
     then throw (job_started_denial ''signed-context'' ''context-mismatch'' (mismatched_fields payload context))
     else
       bindI (denyI is_runner_jit ''allocation'' ''binding-unavailable''
         (lookupB (\<lambda>l. scale_set_binding l allocation_id)))
         (\<lambda>(scale_set_name, scale_set_id).
       observe_and_admit b allocation_id now payload context scale_set_name scale_set_id)))"

section \<open>Cleanup and recovery\<close>

definition delete_exact :: "'w broker \<Rightarrow> string \<Rightarrow> pyval \<Rightarrow> ('w, unit) bio" where
  "delete_exact b scale_set_id scale_set_name =
     bindI (callB (FindScaleSet scale_set_name) (gd_find (driverB b) scale_set_name)) (\<lambda>found.
     case found of
       None \<Rightarrow> callB (AssertAbsent scale_set_name) (gd_assert_absent (driverB b) scale_set_name)
     | Some _ \<Rightarrow>
         bindI (callB (DisableScaleSet scale_set_id scale_set_name)
           (gd_disable (driverB b) scale_set_id scale_set_name None)) (\<lambda>_.
         bindI (callB (DrainScaleSet scale_set_id scale_set_name) (gd_drain (driverB b) scale_set_id scale_set_name)) (\<lambda>_.
         bindI (callB (DeleteScaleSet scale_set_id scale_set_name) (gd_delete (driverB b) scale_set_id scale_set_name)) (\<lambda>_.
         callB (AssertAbsent scale_set_name) (gd_assert_absent (driverB b) scale_set_name)))))"

text \<open>\<open>self.ledger.payload(id)\<close>, or the reservation when it is absent.\<close>

definition identity_of :: "string \<Rightarrow> ledger \<Rightarrow> rj_error + pydict" where
  "identity_of allocation_id l =
     (case ledger_payload l allocation_id of Inr p \<Rightarrow> Inr p | Inl e \<Rightarrow> ledger_reservation l allocation_id)"

definition MEASUREMENTS :: "string list" where
  "MEASUREMENTS = EVIDENCE_REMOVED @ [''orphan_registrations'']"

definition cleanup_evidence :: "string \<Rightarrow> AllocationRecord \<Rightarrow> pydict \<Rightarrow> pydict" where
  "cleanup_evidence allocation_id pending measured =
     pmerge [(''allocation_id'', PStr allocation_id), (''cleanup_idempotency_key'', optional (rec_cleanup_key pending)),
       (''jobs_started'', PInt (rec_jobs_started pending))] measured"

text \<open>The ledger part of \<open>recover\<close>, by the state read at its start.\<close>

definition settle_record :: "'w broker \<Rightarrow> string \<Rightarrow> pyval \<Rightarrow> string \<Rightarrow> ('w, unit) bio" where
  "settle_record b allocation_id scale_set_name state =
     (if state = ''terminal'' then
        bindI (ledgerB (transition (br_hash b) (br_iso b) allocation_id ''cleanup'' no_args)) (\<lambda>_. ret ())
      else if state \<noteq> ''cleaned'' then
        bindI (ledgerB (transition (br_hash b) (br_iso b) allocation_id ''recover'' no_args)) (\<lambda>pending.
        bindI (callB (MeasureCleanup allocation_id scale_set_name)
          (gd_measure (driverB b) allocation_id scale_set_name)) (\<lambda>measured.
        bindI (requireI (keys_exact measured MEASUREMENTS) (br_fail ''driver cleanup measurements are not exact'')) (\<lambda>_.
        bindI (ledgerB (transition (br_hash b) (br_iso b) allocation_id ''ack-recovery-cleanup''
          (no_args\<lparr>ta_cleanup_key := rec_cleanup_key pending,
             ta_evidence := PDict (cleanup_evidence allocation_id pending measured)\<rparr>))) (\<lambda>_. ret ()))))
      else ret ())"

text \<open>The scale set of the allocation: bound in the ledger, or found by its name and bound now.\<close>

definition locate_scale_set :: "'w broker \<Rightarrow> string \<Rightarrow> pyval \<Rightarrow> ('w, string option) bio" where
  "locate_scale_set b allocation_id scale_set_name =
     tryElseI (lookupB (\<lambda>l. scale_set_binding l allocation_id))
       (\<lambda>e. if \<not> is_runner_jit e then throw e else
          bindI (callB (FindScaleSet scale_set_name) (gd_find (driverB b) scale_set_name)) (\<lambda>found.
          case found of
            None \<Rightarrow> ret None
          | Some scale_set_id \<Rightarrow>
              bindI (ledgerB (bind_scale_set allocation_id scale_set_id (fmt scale_set_name))) (\<lambda>_.
              ret (Some scale_set_id))))
       (\<lambda>(_, scale_set_id). ret (Some scale_set_id))"

definition absent_proof :: "string \<Rightarrow> pydict" where
  "absent_proof allocation_id = [(''allocation_id'', PStr allocation_id), (''state'', PStr ''absent'')]"

definition broker_recover :: "'w broker \<Rightarrow> string \<Rightarrow> ('w, pydict) bio" where
  "broker_recover b allocation_id =
     bindI (lookupB (\<lambda>l. ledger_get (br_iso b) l allocation_id)) (\<lambda>known.
     bindI (lookupB (identity_of allocation_id)) (\<lambda>binding.
     bindI (itemB binding ''scale_set_name'') (\<lambda>scale_set_name.
     bindI (locate_scale_set b allocation_id scale_set_name) (\<lambda>located.
     bindI (case located of
         Some scale_set_id \<Rightarrow> delete_exact b scale_set_id scale_set_name
       | None \<Rightarrow> callB (AssertAbsent scale_set_name) (gd_assert_absent (driverB b) scale_set_name)) (\<lambda>_.
     bindI (settle_record b allocation_id scale_set_name (rec_state known)) (\<lambda>_.
     bindI (callB (AssertAbsent scale_set_name) (gd_assert_absent (driverB b) scale_set_name)) (\<lambda>_.
     ret (absent_proof allocation_id))))))))"

fun recover_each :: "'w broker \<Rightarrow> string list \<Rightarrow> ('w, unit) bio" where
  "recover_each b [] = ret ()"
| "recover_each b (i # rest) = bindI (broker_recover b i) (\<lambda>_. recover_each b rest)"

definition recover_all :: "'w broker \<Rightarrow> ('w, string list) bio" where
  "recover_all b =
     bindI (callB NoPersistent (gd_no_persistent (driverB b))) (\<lambda>_.
     bindI (readI (\<lambda>s. Inr (recoverable_allocation_ids (bk_ledger s)))) (\<lambda>ids.
     bindI (recover_each b ids) (\<lambda>_.
     bindI (callB RuntimeEmpty (gd_runtime_empty (driverB b))) (\<lambda>_.
     ret ids))))"

definition GARM_CLEANUP_CONVERGENCE :: int where
  "GARM_CLEANUP_CONVERGENCE = seconds 600"

fun wait_for_cleanup :: "nat \<Rightarrow> 'w broker \<Rightarrow> string \<Rightarrow> pyval \<Rightarrow> int \<Rightarrow> ('w, unit) bio" where
  "wait_for_cleanup 0 b allocation_id scale_set_name deadline = throw BrWaiting"
| "wait_for_cleanup (Suc n) b allocation_id scale_set_name deadline =
     tryElseI (callB (MeasureCleanup allocation_id scale_set_name) (gd_measure (driverB b) allocation_id scale_set_name))
       (\<lambda>e. if \<not> is_runner_jit e then throw e else
          bindI (clockB (gd_monotonic (driverB b))) (\<lambda>t.
          if deadline \<le> t then throw e else
          bindI (clockB (\<lambda>w. ((), gd_sleep (driverB b) (seconds 2) w))) (\<lambda>_.
          wait_for_cleanup n b allocation_id scale_set_name deadline)))
       (\<lambda>_. ret ())"

definition cleaned_proof :: "string \<Rightarrow> pyval \<Rightarrow> pydict" where
  "cleaned_proof allocation_id label =
     [(''allocation_id'', PStr allocation_id), (''runner_label'', label), (''state'', PStr ''cleaned'')]"

definition finish_args :: "string \<Rightarrow> bool \<Rightarrow> transition_args" where
  "finish_args outcome normal_cancel = no_args\<lparr>ta_outcome := Some outcome, ta_normal_cancel := normal_cancel\<rparr>"

definition broker_finish :: "'w broker \<Rightarrow> string \<Rightarrow> string \<Rightarrow> bool \<Rightarrow> ('w, pydict) bio" where
  "broker_finish b allocation_id outcome normal_cancel =
     bindI (lookupB (\<lambda>l. ledger_get (br_iso b) l allocation_id)) (\<lambda>known.
     if rec_state known \<noteq> ''running'' \<or> rec_jobs_started known \<noteq> 1 then
       bindI (lookupB (identity_of allocation_id)) (\<lambda>binding.
       bindI (itemB binding ''scale_set_name'') (\<lambda>scale_set_name.
       bindI (broker_recover b allocation_id) (\<lambda>_.
       ret (cleaned_proof allocation_id scale_set_name))))
     else
       bindI (ledgerB (transition (br_hash b) (br_iso b) allocation_id ''finish'' (finish_args outcome normal_cancel))) (\<lambda>_.
       bindI (lookupB (\<lambda>l. scale_set_binding l allocation_id)) (\<lambda>(scale_set_name, scale_set_id).
       bindI (delete_exact b scale_set_id scale_set_name) (\<lambda>_.
       bindI (clockB (gd_monotonic (driverB b))) (\<lambda>t.
       bindI (wait_for_cleanup (br_fuel b) b allocation_id scale_set_name (t + GARM_CLEANUP_CONVERGENCE)) (\<lambda>_.
       bindI (ledgerB (transition (br_hash b) (br_iso b) allocation_id ''cleanup'' no_args)) (\<lambda>_.
       ret (cleaned_proof allocation_id scale_set_name))))))))"

definition broker_prove_clean :: "'w broker \<Rightarrow> string \<Rightarrow> string \<Rightarrow> ('w, pydict) bio" where
  "broker_prove_clean b allocation_id runner_label =
     bindI (lookupB (\<lambda>l. scale_set_binding l allocation_id)) (\<lambda>(scale_set_name, _).
     bindI (requireI (py_eq scale_set_name (PStr runner_label))
       (br_fail ''cleanup proof runner label crossed allocation binding'')) (\<lambda>_.
     bindI (lookupB (\<lambda>l. ledger_get (br_iso b) l allocation_id)) (\<lambda>known.
     bindI (requireI (rec_state known = ''cleaned'' \<and> rec_cleanup_complete known)
       (br_fail ''cleanup proof requires a cleaned allocation ledger record'')) (\<lambda>_.
     bindI (callB (AssertAbsent scale_set_name) (gd_assert_absent (driverB b) scale_set_name)) (\<lambda>_.
     bindI (callB RuntimeEmpty (gd_runtime_empty (driverB b))) (\<lambda>_.
     ret [(''allocation_id'', PStr allocation_id), (''runner_label'', PStr runner_label), (''state'', PStr ''cleaned''),
          (''scale_set_absent'', PBool True), (''runtime_empty'', PBool True)]))))))"

section \<open>Outcome events\<close>

text \<open>
  \<open>record_outcome\<close>. What the caller does not say is taken from the allocation: its record, and the
  signed payload or the reservation. A claim denial that was already recorded for the allocation
  silences a later job outcome.
\<close>

record outcome_args =
  oa_event_key :: pyval
  oa_cause_code :: string
  oa_allocation_id :: "string option"
  oa_run_id :: pyval
  oa_job_id :: pyval
  oa_repository :: pyval
  oa_pr_number :: pyval
  oa_head_sha :: pyval
  oa_executed :: pyval
  oa_success :: pyval
  oa_prior_state :: pyval

definition value_or :: "pyval \<Rightarrow> pyval \<Rightarrow> pyval" where
  "value_or v w = (if py_truthy v then v else w)"

definition CLAIM_DENIALS :: "string list" where
  "CLAIM_DENIALS =
     [''claim-expired'', ''claim-state-conflict'', ''claim-not-observed'', ''garm-timeout'', ''garm-runtime-erofs'']"

definition known_outcome :: "outcome_args \<Rightarrow> AllocationRecord \<Rightarrow> pydict \<Rightarrow> outcome_args" where
  "known_outcome a known identity =
     a\<lparr>oa_prior_state := value_or (oa_prior_state a) (PStr (rec_state known)),
       oa_repository := value_or (oa_repository a) (pget identity ''repository''),
       oa_pr_number := value_or (oa_pr_number a) (pget identity ''pr_number''),
       oa_head_sha := value_or (oa_head_sha a) (pget identity ''head_sha''),
       oa_run_id := value_or (oa_run_id a) (pget identity ''run_id''),
       oa_job_id := value_or (oa_job_id a) (pget identity ''job_id''),
       oa_executed := (if oa_executed a = PNone then PBool (rec_jobs_started known = 1) else oa_executed a)\<rparr>"

definition outcome_id :: "pyval \<Rightarrow> pyval" where
  "outcome_id v = (if v = PNone then PNone else PStr (fmt v))"

definition outcome_delay :: "(string \<Rightarrow> pydatetime option) \<Rightarrow> pyval \<Rightarrow> pydatetime \<Rightarrow> rj_error + string" where
  "outcome_delay fromiso claim_deadline now =
     (case now of
        Aware t \<Rightarrow> delay_bucket fromiso claim_deadline t
      | Naive t \<Rightarrow>
          if claim_deadline = PNone then Inr ''unknown''
          else bindE (rj_parse_time fromiso claim_deadline ''claim_deadline'') (\<lambda>_. Inl RjTypeError))"

definition outcome_event :: "outcome_args \<Rightarrow> pyval \<Rightarrow> pyval \<Rightarrow> pydatetime \<Rightarrow> string \<Rightarrow> pydict" where
  "outcome_event a issued_at claim_deadline now bucket =
     [(''event_key'', oa_event_key a), (''cause_code'', PStr (oa_cause_code a)),
      (''allocation_id'', optional (oa_allocation_id a)), (''run_id'', outcome_id (oa_run_id a)),
      (''job_id'', outcome_id (oa_job_id a)), (''repository'', oa_repository a), (''pr_number'', oa_pr_number a),
      (''head_sha'', oa_head_sha a),
      (''prior_ledger_state'', if oa_allocation_id a = None then PNone else oa_prior_state a),
      (''issued_at'', issued_at), (''claim_deadline'', claim_deadline), (''now'', PTime now),
      (''delay_bucket'', PStr bucket), (''executed'', oa_executed a), (''success'', oa_success a)]"

definition append_event :: "'w broker \<Rightarrow> outcome_args \<Rightarrow> pyval \<Rightarrow> pyval \<Rightarrow> pydatetime \<Rightarrow> ('w, bool) bio" where
  "append_event b a issued_at claim_deadline now =
     bindI (pure_io (map_sum BrLedger id (outcome_delay (br_iso b) claim_deadline now))) (\<lambda>bucket.
     ledgerB (append_outcome (br_iso b)
       (outcome_event (a\<lparr>oa_executed := if oa_executed a = PNone then PBool False else oa_executed a\<rparr>)
          issued_at claim_deadline now bucket)))"

definition record_outcome :: "'w broker \<Rightarrow> outcome_args \<Rightarrow> pydatetime \<Rightarrow> ('w, bool) bio" where
  "record_outcome b a now =
     (case oa_allocation_id a of
        None \<Rightarrow> append_event b a PNone PNone now
      | Some allocation_id \<Rightarrow>
          bindI (lookupB (\<lambda>l. ledger_get (br_iso b) l allocation_id)) (\<lambda>known.
          bindI (lookupB (identity_of allocation_id)) (\<lambda>identity.
          bindI (readI (\<lambda>s. Inr (take 4 (oa_cause_code a) = ''job-''
            \<and> has_outcome_cause (bk_ledger s) allocation_id CLAIM_DENIALS))) (\<lambda>silenced.
          if silenced then ret False
          else append_event b (known_outcome a known identity)
            (PStr (stamp (rec_issued_at known))) (PStr (stamp (rec_claim_deadline known))) now))))"

end
