(* ===== verification/Broker_Safety.thy ===== *)
theory Broker_Safety
  imports Runner_Broker
begin

text \<open>
  What the broker promises over its ledger and its driver: it moves the ledger only by ledger calls,
  so the ledger's theorems hold across every run of the broker; a job is admitted only behind both
  observations and with its scale set disabled; recovery ends with a clean ledger and a proof of
  absence; the waits end.
\<close>

section \<open>The ledger moves by ledger calls\<close>

definition ledger_runs :: "'w broker \<Rightarrow> ledger \<Rightarrow> ledger \<Rightarrow> bool" where
  "ledger_runs b l l' = (\<exists>cs. l' = fold (ledger_step (br_hash b) (br_iso b)) cs l)"

lemma ledger_runs_refl [simp]: "ledger_runs b l l"
  unfolding ledger_runs_def by (rule exI [of _ "[]"]) simp

lemma ledger_runs_trans: "ledger_runs b l m \<Longrightarrow> ledger_runs b m n \<Longrightarrow> ledger_runs b l n"
  unfolding ledger_runs_def by (metis fold_append comp_apply)

lemma ledger_runs_step: "ledger_runs b l (ledger_step (br_hash b) (br_iso b) c l)"
  unfolding ledger_runs_def by (rule exI [of _ "[c]"]) simp

lemma ledger_runs_inv: "ledger_runs b l l' \<Longrightarrow> ledger_inv l \<Longrightarrow> ledger_inv l'"
proof -
  have "ledger_inv l \<Longrightarrow> ledger_inv (fold (ledger_step (br_hash b) (br_iso b)) cs l)" for cs
    by (induction cs arbitrary: l) (simp_all add: step_inv)
  then show "ledger_runs b l l' \<Longrightarrow> ledger_inv l \<Longrightarrow> ledger_inv l'"
    unfolding ledger_runs_def by blast
qed

abbreviation follows :: "'w broker \<Rightarrow> ledger \<Rightarrow> 'w broker_state \<Rightarrow> bool" where
  "follows b l \<equiv> (\<lambda>s. ledger_runs b l (bk_ledger s))"

lemma follows_ledger:
  assumes "\<And>m. ledger_runs b m (snd (f m))"
  shows "keeps (follows b l) (ledgerB f)"
  using assms ledger_runs_trans by (fastforce simp: keeps_def ledgerB_def split_beta)

lemma follows_calls [keeps_rules]:
  "keeps (follows b l) (ledgerB (reserve (br_hash b) (br_iso b) d now))"
  "keeps (follows b l) (ledgerB (finalize (br_hash b) (br_iso b) prims v key pinned now))"
  "keeps (follows b l) (ledgerB (bind_scale_set i sid name))"
  "keeps (follows b l) (ledgerB (transition (br_hash b) (br_iso b) i action args))"
  by (rule follows_ledger, use ledger_runs_step [of b _ "CReserve d now"] in simp)
    (rule follows_ledger, use ledger_runs_step [of b _ "CFinalize prims v key pinned now"] in simp,
     rule follows_ledger, use ledger_runs_step [of b _ "CBind i sid name"] in simp,
     rule follows_ledger, use ledger_runs_step [of b _ "CTransition i action args"] in simp)

lemma follows_outside [keeps_rules]:
  "keeps (follows b l) (callB c f)"
  "keeps (follows b l) (clockB g)"
  "keeps (follows b l) (lookupB h)"
  "keeps (follows b l) (itemB d x)"
  by (simp_all add: keeps_def callB_def clockB_def lookupB_def readI_def itemB_def pure_io_def split_beta)

lemma follows_deny [keeps_rules]: "keeps I m \<Longrightarrow> keeps I (denyI c ph why m)"
  unfolding denyI_def by (intro keeps_rules)

lemma follows_wait [keeps_rules]:
  assumes "\<And>d. keeps (follows b l) (observe d)"
  shows "keeps (follows b l) (wait_for_observation n b observe deadline)"
  by (induction n) (auto intro!: keeps_rules assms)

lemma follows_cleanup_wait [keeps_rules]: "keeps (follows b l) (wait_for_cleanup n b i name deadline)"
  by (induction n) (auto intro!: keeps_rules)

lemma follows_parts [keeps_rules]:
  "keeps (follows b l) (observe_claim b sid name payload context d)"
  "keeps (follows b l) (observe_live_job b payload context d)"
  "keeps (follows b l) (disable_for_job b sid name d)"
  "keeps (follows b l) (admit_started b i now t)"
  "keeps (follows b l) (observe_and_admit b i now payload context name sid)"
  "keeps (follows b l) (checked_context raw)"
  "keeps (follows b l) (delete_exact b sid name)"
  "keeps (follows b l) (settle_record b i name st)"
  "keeps (follows b l) (locate_scale_set b i name)"
  unfolding observe_and_admit_def observe_claim_def observe_live_job_def disable_for_job_def admit_started_def checked_context_def
    delete_exact_def settle_record_def locate_scale_set_def
  by (cases raw; auto intro!: keeps_rules)+

lemma follows_operations [keeps_rules]:
  "keeps (follows b l) (broker_reserve b d now)"
  "keeps (follows b l) (broker_finalize b v now)"
  "keeps (follows b l) (job_started b i raw now)"
  "keeps (follows b l) (broker_recover b i)"
  "keeps (follows b l) (broker_prove_clean b i label)"
  unfolding broker_reserve_def broker_finalize_def job_started_def broker_recover_def broker_prove_clean_def
  by (auto intro!: keeps_rules split: option.splits)

lemma follows_recover_each [keeps_rules]: "keeps (follows b l) (recover_each b ids)"
  by (induction ids) (auto intro!: keeps_rules)

lemma follows_composites [keeps_rules]:
  "keeps (follows b l) (recover_all b)"
  "keeps (follows b l) (broker_finish b i outcome cancel)"
  unfolding recover_all_def broker_finish_def by (auto intro!: keeps_rules)

lemma follows_outcome [keeps_rules]: "keeps (follows b l) (record_outcome b a now)"
proof -
  have append: "keeps (follows b l) (ledgerB (append_outcome (br_iso b) event))" for event
    by (rule follows_ledger) (use ledger_runs_step [of b _ "COutcome event"] in simp)
  show ?thesis
    unfolding record_outcome_def append_event_def by (auto intro!: keeps_rules append split: option.splits)
qed

section \<open>Admission of a job\<close>

lemma wp_callB:
  assumes "\<And>x w. Q x (s\<lparr>bk_world := w, bk_calls := bk_calls s @ [c]\<rparr>)"
    and "\<And>e w. R e (s\<lparr>bk_world := w, bk_calls := bk_calls s @ [c]\<rparr>)"
  shows "wp (callB c f) Q R s"
  using assms by (auto simp: wp_def callB_def split: prod.splits sum.splits)

lemma wp_clockB:
  assumes "\<And>x w. Q x (s\<lparr>bk_world := w\<rparr>)"
  shows "wp (clockB g) Q R s"
  using assms by (auto simp: wp_def clockB_def split: prod.splits)

text \<open>The wait, for a pair of assertions that only speak of the ledger and the calls.\<close>

definition blind :: "('w broker_state \<Rightarrow> bool) \<Rightarrow> bool" where
  "blind P = (\<forall>s w. P (s\<lparr>bk_world := w\<rparr>) = P s)"

lemma blindD: "blind P \<Longrightarrow> P (s\<lparr>bk_world := w\<rparr>) = P s"
  by (simp add: blind_def)

lemma wp_wait:
  assumes obs: "\<And>d s. I s \<Longrightarrow> wp (observe d) (\<lambda>_. Q) (\<lambda>_. I) s"
    and blind: "blind I" "blind Q" and QI: "\<And>s. Q s \<Longrightarrow> I s"
  shows "I s \<Longrightarrow> wp (wait_for_observation n b observe deadline) (\<lambda>_. Q) (\<lambda>_. I) s"
proof (induction n arbitrary: s)
  case (Suc n)
  have again: "wp (bindI (clockB (gd_monotonic (driverB b))) (\<lambda>t1.
      bindI (if deadline - t1 > 0 then clockB (\<lambda>w. ((), gd_sleep (driverB b) (min (br_poll b) (deadline - t1)) w))
             else ret ()) (\<lambda>_. wait_for_observation n b observe deadline))) (\<lambda>_. Q) (\<lambda>_. I) u" if "I u" for u
    unfolding wp_bind
    by (rule wp_clockB) (auto intro!: wp_clockB Suc.IH simp: that blindD [OF blind(1)] simp del: wp_bind)
  have settled: "wp (bindI (clockB (gd_monotonic (driverB b))) (\<lambda>t1. if t1 < deadline then ret ()
      else throw (br_fail ''job-started observation deadline expired''))) (\<lambda>_. Q) (\<lambda>_. I) u" if "Q u" for u
    unfolding wp_bind using that QI [OF that] by (intro wp_clockB) (simp add: blindD [OF blind(1)] blindD [OF blind(2)])
  show ?case
    unfolding wait_for_observation.simps wp_bind [of "clockB _"]
  proof (rule wp_clockB)
    fix t w
    have I: "I (s\<lparr>bk_world := w\<rparr>)" using Suc.prems by (simp add: blindD [OF blind(1)])
    from wp_mono [OF obs [OF I]] show "wp (if deadline - t \<le> 0 then throw (br_fail ''job-started observation deadline expired'')
        else tryElseI (observe (deadline - t))
          (\<lambda>e. if is_os_or_value e then bindI (clockB (gd_monotonic (driverB b))) (\<lambda>t1.
                 bindI (if deadline - t1 > 0
                        then clockB (\<lambda>w. ((), gd_sleep (driverB b) (min (br_poll b) (deadline - t1)) w)) else ret ())
                   (\<lambda>_. wait_for_observation n b observe deadline)) else throw e)
          (\<lambda>_. bindI (clockB (gd_monotonic (driverB b))) (\<lambda>t1. if t1 < deadline then ret ()
             else throw (br_fail ''job-started observation deadline expired''))))
        (\<lambda>_. Q) (\<lambda>_. I) (s\<lparr>bk_world := w\<rparr>)"
      using I again settled by (auto simp del: wp_bind)
  qed
qed simp

text \<open>Nothing but the driver was used, and the calls \<open>X\<close> are among those made.\<close>

definition asked :: "ledger \<Rightarrow> driver_call list \<Rightarrow> driver_call set \<Rightarrow> 'w broker_state \<Rightarrow> bool" where
  "asked l c0 X s = (bk_ledger s = l \<and> (\<exists>cs. bk_calls s = c0 @ cs \<and> X \<subseteq> set cs))"

lemma blind_asked: "blind (asked l c0 X)"
  by (simp add: blind_def asked_def)

lemma asked_clock: "asked l c0 X s \<Longrightarrow> asked l c0 X (s\<lparr>bk_world := w\<rparr>)"
  by (simp add: asked_def)

lemma asked_mono: "asked l c0 X s \<Longrightarrow> Y \<subseteq> X \<Longrightarrow> asked l c0 Y s"
  unfolding asked_def by blast

lemma asked_call: "asked l c0 X s \<Longrightarrow> asked l c0 (insert c X) (s\<lparr>bk_world := w, bk_calls := bk_calls s @ [c]\<rparr>)"
  by (auto simp: asked_def)

lemma wp_wait_call:
  assumes "asked l c0 X s"
  shows "wp (wait_for_observation n b (\<lambda>d. callB c (f d)) deadline)
    (\<lambda>_. asked l c0 (insert c X)) (\<lambda>_. asked l c0 X) s"
proof (rule wp_wait [OF _ blind_asked blind_asked _ assms])
  show "wp (callB c (f d)) (\<lambda>_. asked l c0 (insert c X)) (\<lambda>_. asked l c0 X) u" if "asked l c0 X u" for d u
    using asked_call [OF that, of c] by (intro wp_callB) (blast intro: asked_mono)+
qed (blast intro: asked_mono)

lemma denial_kept: "wp m Q (\<lambda>_. P) s \<Longrightarrow> wp (denyI c ph why m) Q (\<lambda>_. P) s"
  by (auto simp: denyI_def wp_def tryI_def throw_def split: prod.splits sum.splits)

lemma wp_disable_for_job:
  assumes "asked l c0 X s"
  shows "wp (disable_for_job b sid name d)
    (\<lambda>_ t. bk_ledger t = l \<and> (\<exists>cs. bk_calls t = c0 @ cs @ [DisableScaleSet sid name] \<and> X \<subseteq> set cs))
    (\<lambda>_. asked l c0 X) s"
proof -
  have "wp (bindI (callB (DisableScaleSet sid name) (gd_disable (driverB b) sid name (Some (d - t)))) (\<lambda>_.
      bindI (clockB (gd_monotonic (driverB b))) (\<lambda>t1.
      if d \<le> t1 then throw (br_fail ''job-started hook deadline expired'') else ret ())))
    (\<lambda>_ t. bk_ledger t = l \<and> (\<exists>cs. bk_calls t = c0 @ cs @ [DisableScaleSet sid name] \<and> X \<subseteq> set cs))
    (\<lambda>_. asked l c0 X) u" if u: "asked l c0 X u" for t u
    unfolding wp_bind
  proof (rule wp_callB)
    fix w
    show "asked l c0 X (u\<lparr>bk_world := w, bk_calls := bk_calls u @ [DisableScaleSet sid name]\<rparr>)"
      using asked_call [OF u] by (blast intro: asked_mono)
    moreover have "\<exists>cs. bk_calls u @ [DisableScaleSet sid name] = c0 @ cs @ [DisableScaleSet sid name] \<and> X \<subseteq> set cs"
      "bk_ledger u = l"
      using u by (auto simp: asked_def)
    ultimately show "wp (clockB (gd_monotonic (driverB b)))
      (\<lambda>x. wp (if d \<le> x then throw (br_fail ''job-started hook deadline expired'') else ret ())
        (\<lambda>_ t. bk_ledger t = l \<and> (\<exists>cs. bk_calls t = c0 @ cs @ [DisableScaleSet sid name] \<and> X \<subseteq> set cs))
        (\<lambda>_. asked l c0 X)) (\<lambda>_. asked l c0 X)
      (u\<lparr>bk_world := w, bk_calls := bk_calls u @ [DisableScaleSet sid name]\<rparr>)"
      by (intro wp_clockB) (simp add: asked_def)
  qed
  then show ?thesis
    unfolding disable_for_job_def wp_bind [of "clockB _"]
    by (intro wp_clockB) (simp add: asked_clock [OF assms] del: wp_bind)
qed

lemma transition_raises: "transition H fromiso i action args l = (Inl e, l') \<Longrightarrow> l' = l"
  by (auto simp: transition_def commit_def split: sum.splits)

text \<open>The one place where \<open>job_started\<close> writes: the ledger admits an issued allocation.\<close>

lemma admit_transition_phases:
  assumes "transition H fromiso i ''admit-job'' args l = (Inr r, l')"
  shows "phase i l = Some ''issued'' \<and> phase i l' = Some ''running''"
proof -
  obtain row lease n where row: "select_row i (lg_rows l) = Some row" "lease_times fromiso row = Inr lease"
      "next_row H ''admit-job'' args lease row = Inr n"
    and l': "l' = l\<lparr>lg_rows := update_key al_allocation_id (set_lifecycle n) i (lg_rows l)\<rparr>"
    using assms by (auto simp: transition_def transition_body_def commit_def bindE_eq_Inr split: sum.splits option.splits)
  have "al_state row = ''issued''" "al_state n = ''running''"
    using row(3) by (auto simp: next_row_def admit_job_def split: option.splits pydatetime.splits if_splits)
  then show ?thesis
    using row(1) by (simp add: phase_def l' lifecycle_upd.select_update set_lifecycle_def)
qed

lemma wp_admit_started:
  assumes "bk_ledger s = l" and "bk_calls s = calls"
  shows "wp (admit_started b i now t0)
    (\<lambda>_ t. phase i l = Some ''issued'' \<and> phase i (bk_ledger t) = Some ''running'' \<and> bk_calls t = calls)
    (\<lambda>_ t. bk_ledger t = l) s"
proof -
  have "wp (ledgerB (transition (br_hash b) (br_iso b) i ''admit-job'' args))
      (\<lambda>_ t. phase i l = Some ''issued'' \<and> phase i (bk_ledger t) = Some ''running'' \<and> bk_calls t = calls)
      (\<lambda>_ t. bk_ledger t = l) u" if "bk_ledger u = l" "bk_calls u = calls" for args u
  proof -
    obtain r l' where T: "transition (br_hash b) (br_iso b) i ''admit-job'' args l = (r, l')" by fastforce
    show ?thesis
    proof (cases r)
      case (Inl e)
      with T have "l' = l" by (simp add: transition_raises)
      with T Inl that show ?thesis by (simp add: wp_def ledgerB_def)
    next
      case (Inr x)
      with T have "phase i l = Some ''issued'' \<and> phase i l' = Some ''running''"
        by (simp add: admit_transition_phases)
      with T Inr that show ?thesis by (simp add: wp_def ledgerB_def)
    qed
  qed
  note transits = this
  show ?thesis
    unfolding admit_started_def wp_bind [of "clockB _"]
    by (intro wp_clockB) (simp, rule transits, simp_all add: assms)
qed

text \<open>The fields of a context that the signed payload fixes.\<close>

definition BOUND_CONTEXT :: "string list" where
  "BOUND_CONTEXT = [''repository_id'', ''repository'', ''dispatch_sha'', ''tested_sha'', ''workflow_ref'', ''run_id'',
     ''run_attempt'', ''job_name'', ''scale_set_name'']"

definition admitted_as :: "string \<Rightarrow> 'w broker_state \<Rightarrow> 'w broker_state \<Rightarrow> pydict \<Rightarrow> bool" where
  "admitted_as i s t context =
     (phase i (bk_ledger s) = Some ''issued'' \<and> phase i (bk_ledger t) = Some ''running''
      \<and> (\<exists>payload name sid cs. ledger_payload (bk_ledger s) i = Inr payload
           \<and> scale_set_binding (bk_ledger s) i = Inr (name, sid)
           \<and> list_all (\<lambda>f. py_eq (pget context f) (pget payload f)) BOUND_CONTEXT
           \<and> bk_calls t = bk_calls s @ cs @ [DisableScaleSet sid name]
           \<and> {RunnerClaim sid name (pget context ''runner_name''), LiveJob payload} \<subseteq> set cs))"

lemma no_mismatch:
  "mismatched_fields payload context = [] \<Longrightarrow> list_all (\<lambda>f. py_eq (pget context f) (pget payload f)) BOUND_CONTEXT"
  unfolding BOUND_CONTEXT_def SIGNED_CONTEXT_FIELDS_def [symmetric]
  by (simp add: mismatched_fields_def filter_empty_conv list_all_iff)

lemma wp_started_tail:
  fixes s :: "'w broker_state"
  assumes "ledger_payload (bk_ledger s) i = Inr payload" and "mismatched_fields payload context = []"
    and "scale_set_binding (bk_ledger s) i = Inr (name, sid)"
  shows "wp (observe_and_admit b i now payload context name sid)
    (\<lambda>_ t. admitted_as i s t context) (\<lambda>_ t. bk_ledger t = bk_ledger s) s"
proof -
  let ?l = "bk_ledger s" and ?c = "bk_calls s"
  let ?claim = "RunnerClaim sid name (pget context ''runner_name'')"
  have bad: "asked ?l ?c X u \<Longrightarrow> bk_ledger u = ?l" for X and u :: "'a broker_state"
    by (simp add: asked_def)
  have start: "asked ?l ?c {} (s\<lparr>bk_world := w\<rparr>)" for w by (simp add: asked_def)
  have claim: "wp (denyI is_runner_jit ''runner-claim'' ''claim-not-observed''
      (wait_for_observation (br_fuel b) b (observe_claim b sid name payload context) d))
      (\<lambda>_. asked ?l ?c {?claim}) (\<lambda>_ t. bk_ledger t = ?l) u" if "asked ?l ?c {} u" for d u
    unfolding observe_claim_def [abs_def]
    by (intro denial_kept, rule wp_mono [OF wp_wait_call [OF that]]) (auto dest: bad)
  have live: "wp (denyI is_os_or_value ''live-job'' ''job-not-verified''
      (wait_for_observation (br_fuel b) b (observe_live_job b payload context) d))
      (\<lambda>_. asked ?l ?c {LiveJob payload, ?claim}) (\<lambda>_ t. bk_ledger t = ?l) u" if "asked ?l ?c {?claim} u" for d u
    unfolding observe_live_job_def [abs_def]
    by (intro denial_kept, rule wp_mono [OF wp_wait_call [OF that]]) (auto dest: bad)
  let ?disabled = "\<lambda>t. bk_ledger t = ?l \<and> (\<exists>cs. bk_calls t = ?c @ cs @ [DisableScaleSet sid name]
      \<and> {LiveJob payload, ?claim} \<subseteq> set cs)"
  have disable: "wp (denyI is_os_or_value ''runner-disable'' ''disable-failed'' (disable_for_job b sid name d))
      (\<lambda>_. ?disabled) (\<lambda>_ t. bk_ledger t = ?l) u" if "asked ?l ?c {LiveJob payload, ?claim} u" for d u
    using bad by (intro denial_kept wp_mono [OF wp_disable_for_job [OF that]]) auto
  have admit: "wp (admit_started b i now t0) (\<lambda>_ t. admitted_as i s t context) (\<lambda>_ t. bk_ledger t = ?l) u"
    if u: "?disabled u" for t0 u
  proof (rule wp_mono [OF wp_admit_started [of u ?l "bk_calls u"]])
    fix x and t :: "'w broker_state"
    assume "phase i ?l = Some ''issued'' \<and> phase i (bk_ledger t) = Some ''running'' \<and> bk_calls t = bk_calls u"
    with u assms no_mismatch [OF assms(2)] show "admitted_as i s t context" unfolding admitted_as_def by auto
  qed (use u in auto)
  show ?thesis
    unfolding observe_and_admit_def wp_bind
    by (intro wp_clockB wp_mono [OF claim [OF start]] wp_mono [OF live] wp_mono [OF disable] admit) assumption+
qed

text \<open>The hook behind the check of its context \<open>cx\<close>.\<close>

lemma wp_hook_tail:
  fixes s :: "'w broker_state"
  shows "wp (bindI (denyI is_runner_jit ''allocation'' ''binding-unavailable'' (lookupB (\<lambda>l. ledger_payload l i))) (\<lambda>payload.
     if \<not> list_all (\<lambda>f. f \<in> set (pkeys payload)) SIGNED_CONTEXT_FIELDS then throw (BrOther ''KeyError'')
     else if mismatched_fields payload cx \<noteq> []
     then throw (job_started_denial ''signed-context'' ''context-mismatch'' (mismatched_fields payload cx))
     else
       bindI (denyI is_runner_jit ''allocation'' ''binding-unavailable'' (lookupB (\<lambda>l. scale_set_binding l i)))
         (\<lambda>(name, sid). observe_and_admit b i now payload cx name sid)))
    (\<lambda>_ t. admitted_as i s t cx) (\<lambda>_ t. bk_ledger t = bk_ledger s) s"
    (is "wp (bindI ?look ?then) ?Q ?R s")
proof -
  have found: "wp (denyI is_runner_jit ph why (lookupB f)) (\<lambda>x t. t = s \<and> f (bk_ledger s) = Inr x)
      (\<lambda>_ t. bk_ledger t = bk_ledger s) s"
    for ph why and f :: "ledger \<Rightarrow> rj_error + 'b"
    by (cases "f (bk_ledger s)") (simp_all add: denyI_def lookupB_def)
  have "wp (?then payload) ?Q ?R s" if payload: "ledger_payload (bk_ledger s) i = Inr payload" for payload
  proof -
    have "wp (bindI (denyI is_runner_jit ''allocation'' ''binding-unavailable'' (lookupB (\<lambda>l. scale_set_binding l i)))
         (\<lambda>(name, sid). observe_and_admit b i now payload cx name sid)) ?Q ?R s"
      if same: "mismatched_fields payload cx = []"
      unfolding wp_bind
    proof (rule wp_mono [OF found])
      fix x u
      assume u: "u = s \<and> scale_set_binding (bk_ledger s) i = Inr x"
      obtain name sid where x: "x = (name, sid)" by (cases x)
      show "wp (case x of (name, sid) \<Rightarrow> observe_and_admit b i now payload cx name sid) ?Q ?R u"
        using wp_started_tail [OF payload same, of name sid] u unfolding x by (elim conjE) (simp only: prod.case)
    qed
    then show ?thesis by simp
  qed
  then show ?thesis
    unfolding wp_bind by (intro wp_mono [OF found]) simp_all
qed

text \<open>The fields of the context that the hook was called with.\<close>

definition context_fields :: "job_context \<Rightarrow> pydict" where
  "context_fields raw = (case raw of RawContext v \<Rightarrow> v | CheckedContext v \<Rightarrow> v)"

lemma job_context_same: "job_context_of v = Inr cx \<Longrightarrow> cx = v"
  by (simp add: job_context_of_def split: if_splits)

lemma job_started_admits:
  "case job_started b i raw now s of
     (Inr _, t) \<Rightarrow> (case raw of RawContext v \<Rightarrow> job_context_of v = Inr v | CheckedContext v \<Rightarrow> True)
       \<and> admitted_as i s t (context_fields raw)
   | (Inl _, t) \<Rightarrow> bk_ledger t = bk_ledger s"
proof -
  let ?ok = "case raw of RawContext v \<Rightarrow> job_context_of v = Inr v | CheckedContext v \<Rightarrow> True"
  have checked: "wp (checked_context raw) (\<lambda>cx t. t = s \<and> cx = context_fields raw \<and> ?ok) (\<lambda>_ t. t = s) s"
    by (cases raw) (auto simp: checked_context_def denyI_def context_fields_def dest: job_context_same split: sum.splits)
  have "wp (job_started b i raw now) (\<lambda>_ t. ?ok \<and> admitted_as i s t (context_fields raw)) (\<lambda>_ t. bk_ledger t = bk_ledger s) s"
    unfolding job_started_def
    by (subst wp_bind, rule wp_mono [OF checked], clarify, rule wp_mono [OF wp_hook_tail]) simp_all
  then show ?thesis
    by (auto simp: wp_def split: prod.splits sum.splits)
qed


section \<open>Recovery\<close>

lemma keeps_ledger_only:
  "keeps (\<lambda>s. P (bk_ledger s)) (callB c f)"
  "keeps (\<lambda>s. P (bk_ledger s)) (clockB g)"
  "keeps (\<lambda>s. P (bk_ledger s)) (lookupB h)"
  by (simp_all add: keeps_def callB_def clockB_def lookupB_def readI_def split_beta)

lemma keeps_ledger_call:
  assumes "\<And>l. P l \<Longrightarrow> P (snd (f l))"
  shows "keeps (\<lambda>s. P (bk_ledger s)) (ledgerB f)"
  using assms by (simp add: keeps_def ledgerB_def split_beta)

definition ledger_ids :: "ledger \<Rightarrow> string list" where
  "ledger_ids l = map al_allocation_id (lg_rows l)"

lemma bind_scale_set_keeps:
  "phase i (snd (bind_scale_set j sid name l)) = phase i l"
  "ledger_ids (snd (bind_scale_set j sid name l)) = ledger_ids l"
proof -
  have "commit l (bind_body j sid name (lg_rows l)) = (r, l') \<Longrightarrow>
      phase i l' = phase i l \<and> ledger_ids l' = ledger_ids l" for r l'
    by (auto simp: bind_body_def commit_def phase_def ledger_ids_def scale_set_upd.select_update scale_set_upd.update_keys
        set_scale_set_def option.map_comp comp_def split: sum.splits option.splits if_splits)
  then show "phase i (snd (bind_scale_set j sid name l)) = phase i l"
    "ledger_ids (snd (bind_scale_set j sid name l)) = ledger_ids l"
    by (metis bind_scale_set_def prod.collapse)+
qed

lemma transition_ids: "ledger_ids (snd (transition H fromiso i action args l)) = ledger_ids l"
proof (cases "transition H fromiso i action args l")
  case (Pair r l')
  then show ?thesis
  proof (cases r)
    case (Inr x)
    with Pair show ?thesis by (auto elim!: transition_rows simp: ledger_ids_def lifecycle_upd.update_keys)
  next
    case (Inl e)
    with Pair transition_raises show ?thesis by fastforce
  qed
qed

lemma wp_ledgerB:
  assumes "\<And>x l. f (bk_ledger s) = (Inr x, l) \<Longrightarrow> Q x (s\<lparr>bk_ledger := l\<rparr>)"
    and "\<And>e l. f (bk_ledger s) = (Inl e, l) \<Longrightarrow> R (BrLedger e) (s\<lparr>bk_ledger := l\<rparr>)"
  shows "wp (ledgerB f) Q R s"
proof (cases "f (bk_ledger s)")
  case (Pair r l)
  with assms show ?thesis by (cases r) (simp_all add: wp_def ledgerB_def)
qed

lemma transition_cleans:
  assumes "transition H fromiso i action args l = (Inr r, l')" and "action \<in> {''cleanup'', ''ack-recovery-cleanup''}"
  shows "phase i l' = Some ''cleaned''"
proof -
  from assms(1) obtain row lease n where "select_row i (lg_rows l) = Some row" "next_row H action args lease row = Inr n"
    and l': "l' = l\<lparr>lg_rows := update_key al_allocation_id (set_lifecycle n) i (lg_rows l)\<rparr>"
    by (rule transition_rows)
  moreover have "al_state n = ''cleaned''"
    using assms(2) \<open>next_row H action args lease row = Inr n\<close>
    by (auto simp: next_row_def cleanup_job_def ack_cleanup_def bindE_eq_Inr split: if_splits)
  ultimately show ?thesis by (simp add: phase_update)
qed

lemma wp_transition_cleans:
  assumes "action \<in> {''cleanup'', ''ack-recovery-cleanup''}"
  shows "wp (ledgerB (transition H fromiso i action args)) (\<lambda>_ t. phase i (bk_ledger t) = Some ''cleaned'') (\<lambda>_ _. True) s"
  using transition_cleans [OF _ assms] by (intro wp_ledgerB) auto

lemma wp_settle_record:
  assumes "phase i (bk_ledger s) = Some st"
  shows "wp (settle_record b i name st) (\<lambda>_ t. phase i (bk_ledger t) = Some ''cleaned'') (\<lambda>_ _. True) s"
proof -
  let ?ok = "\<lambda>_ t. phase i (bk_ledger t) = Some ''cleaned''" and ?any = "\<lambda>_ _. True"
  have acknowledged: "wp (bindI (requireI (keys_exact measured MEASUREMENTS) (br_fail m)) (\<lambda>_.
      bindI (ledgerB (transition (br_hash b) (br_iso b) i ''ack-recovery-cleanup'' args)) (\<lambda>_. ret ()))) ?ok ?any u"
    for measured m args and u :: "'a broker_state"
    by (simp add: wp_mono [OF wp_transition_cleans])
  consider "st = ''terminal''" | "st = ''cleaned''" | "st \<noteq> ''terminal''" "st \<noteq> ''cleaned''" by blast
  then show ?thesis
  proof cases
    case 1
    then show ?thesis by (simp add: settle_record_def wp_mono [OF wp_transition_cleans])
  next
    case 2
    with assms show ?thesis by (simp add: settle_record_def)
  next
    case 3
    then show ?thesis
      unfolding settle_record_def
      by (simp del: wp_bind add: wp_bind [of "ledgerB _"] wp_bind [of "callB _ _"])
        (intro wp_ledgerB wp_callB acknowledged TrueI)
  qed
qed

lemma wp_lookupB:
  assumes "\<And>x. f (bk_ledger s) = Inr x \<Longrightarrow> Q x s" and "\<And>e. f (bk_ledger s) = Inl e \<Longrightarrow> R (BrLedger e) s"
  shows "wp (lookupB f) Q R s"
  using assms by (cases "f (bk_ledger s)") (simp_all add: lookupB_def)

lemma phase_get: "ledger_get fromiso l i = Inr r \<Longrightarrow> phase i l = Some (rec_state r)"
  by (auto simp: ledger_get_def phase_def bindE_eq_Inr record_of_def split: option.splits)

lemma locate_keeps_phase: "keeps (\<lambda>s. phase i (bk_ledger s) = p) (locate_scale_set b j name)"
  unfolding locate_scale_set_def
  by (auto intro!: keeps_rules keeps_ledger_only(1) [where P = "\<lambda>l. phase i l = p"]
      keeps_ledger_only(3) [where P = "\<lambda>l. phase i l = p"] keeps_ledger_call [where P = "\<lambda>l. phase i l = p"]
      simp: bind_scale_set_keeps)

lemma delete_keeps_phase: "keeps (\<lambda>s. phase i (bk_ledger s) = p) (delete_exact b sid name)"
  unfolding delete_exact_def
  by (auto intro!: keeps_rules keeps_ledger_only(1) [where P = "\<lambda>l. phase i l = p"])

lemma wp_keeps_True: "keeps I m \<Longrightarrow> I s \<Longrightarrow> wp m (\<lambda>_. I) (\<lambda>_ _. True) s"
  by (rule wp_mono [OF wp_keeps]) auto

lemma recovery_cleans:
  "case broker_recover b i s of
     (Inr receipt, t) \<Rightarrow> receipt = absent_proof i \<and> phase i (bk_ledger t) = Some ''cleaned''
       \<and> (\<exists>d name. identity_of i (bk_ledger s) = Inr d \<and> map_of d ''scale_set_name'' = Some name
            \<and> last (bk_calls t) = AssertAbsent name)
   | (Inl _, _) \<Rightarrow> True"
proof -
  define ok where "ok = (\<lambda>receipt (t :: 'a broker_state). receipt = absent_proof i \<and> phase i (bk_ledger t) = Some ''cleaned''
       \<and> (\<exists>d name. identity_of i (bk_ledger s) = Inr d \<and> map_of d ''scale_set_name'' = Some name
            \<and> last (bk_calls t) = AssertAbsent name))"
  let ?any = "\<lambda>(_ :: br_error) (_ :: 'a broker_state). True"
  have finish: "wp (callB (AssertAbsent name) (gd_assert_absent (driverB b) name)) (\<lambda>_. ok (absent_proof i)) ?any u"
    if "phase i (bk_ledger u) = Some ''cleaned''" "identity_of i (bk_ledger s) = Inr d" "map_of d ''scale_set_name'' = Some name"
    for name d u
    using that by (intro wp_callB) (auto simp: ok_def)
  have from_delete: "wp (bindI (case located of Some sid \<Rightarrow> delete_exact b sid name
        | None \<Rightarrow> callB (AssertAbsent name) (gd_assert_absent (driverB b) name)) (\<lambda>_.
      bindI (settle_record b i name st) (\<lambda>_.
      bindI (callB (AssertAbsent name) (gd_assert_absent (driverB b) name)) (\<lambda>_. ret (absent_proof i))))) ok ?any u"
    if "phase i (bk_ledger u) = Some st" "identity_of i (bk_ledger s) = Inr d" "map_of d ''scale_set_name'' = Some name"
    for located name d u st
  proof -
    have "keeps (\<lambda>s. phase i (bk_ledger s) = Some st) (case located of Some sid \<Rightarrow> delete_exact b sid name
        | None \<Rightarrow> callB (AssertAbsent name) (gd_assert_absent (driverB b) name))"
      by (cases located) (simp_all add: delete_keeps_phase keeps_ledger_only(1) [where P = "\<lambda>l. phase i l = Some st"])
    from wp_keeps_True [OF this, of u] that(1)
    have "wp (case located of Some sid \<Rightarrow> delete_exact b sid name
        | None \<Rightarrow> callB (AssertAbsent name) (gd_assert_absent (driverB b) name))
        (\<lambda>_ t. phase i (bk_ledger t) = Some st) ?any u"
      by blast
    then show ?thesis
      unfolding wp_bind
      by (rule wp_mono)
        (auto intro!: wp_mono [OF wp_settle_record] finish [OF _ that(2,3)])
  qed
  have "wp (broker_recover b i) ok ?any s"
    unfolding broker_recover_def wp_bind [of "lookupB _"]
  proof (intro wp_lookupB TrueI)
    fix known d
    assume known: "ledger_get (br_iso b) (bk_ledger s) i = Inr known" and d: "identity_of i (bk_ledger s) = Inr d"
    show "wp (bindI (itemB d ''scale_set_name'') (\<lambda>name. bindI (locate_scale_set b i name) (\<lambda>located.
        bindI (case located of Some sid \<Rightarrow> delete_exact b sid name
          | None \<Rightarrow> callB (AssertAbsent name) (gd_assert_absent (driverB b) name)) (\<lambda>_.
        bindI (settle_record b i name (rec_state known)) (\<lambda>_.
        bindI (callB (AssertAbsent name) (gd_assert_absent (driverB b) name)) (\<lambda>_. ret (absent_proof i))))))) ok ?any s"
    proof (cases "map_of d ''scale_set_name''")
      case (Some name)
      have "wp (locate_scale_set b i name) (\<lambda>_ t. phase i (bk_ledger t) = Some (rec_state known)) ?any s"
        using phase_get [OF known] by (intro wp_keeps_True [OF locate_keeps_phase]) simp
      note located = this
      show ?thesis
        unfolding itemB_def Some option.case wp_bind wp_pure sum.case
        by (rule wp_mono [OF located]) (simp_all only: from_delete [OF _ d Some, unfolded wp_bind])
    qed (simp add: itemB_def)
  qed
  then show ?thesis
    by (auto simp: wp_def ok_def split: prod.splits sum.splits)
qed

text \<open>C27. A recovery that returns left the allocation cleaned in the ledger, and the last thing it asked of GARM was
  that the scale set of the allocation's own name is absent; its receipt is the exact proof of absence.\<close>

theorem recovery_cleans_and_proves_absence:
  "case broker_recover b i s of
     (Inr receipt, t) \<Rightarrow> receipt = absent_proof i \<and> phase i (bk_ledger t) = Some ''cleaned''
       \<and> (\<exists>d name. identity_of i (bk_ledger s) = Inr d \<and> map_of d ''scale_set_name'' = Some name
            \<and> last (bk_calls t) = AssertAbsent name)
   | (Inl _, _) \<Rightarrow> True"
  by (rule recovery_cleans)

lemma cleaned_final:
  assumes "ledger_runs b l l'" and "ledger_inv l" and "phase i l = Some ''cleaned''"
  shows "phase i l' = Some ''cleaned''"
proof -
  have step: "ledger_inv l \<Longrightarrow> phase i l = Some ''cleaned'' \<Longrightarrow>
      phase i (ledger_step (br_hash b) (br_iso b) c l) = Some ''cleaned''" for c l
    using step_lifecycle [of l i "br_hash b" "br_iso b" c] by (auto elim: from_cleanedE)
  have "ledger_inv l \<Longrightarrow> phase i l = Some ''cleaned'' \<Longrightarrow>
      phase i (fold (ledger_step (br_hash b) (br_iso b)) cs l) = Some ''cleaned''" for cs
    by (induction cs arbitrary: l) (simp_all add: step_inv step)
  with assms show ?thesis unfolding ledger_runs_def by blast
qed

text \<open>Recovery changes no set of allocations.\<close>

lemma keeps_ids [keeps_rules]:
  "keeps (\<lambda>s. ledger_ids (bk_ledger s) = known) (callB c f)"
  "keeps (\<lambda>s. ledger_ids (bk_ledger s) = known) (clockB g)"
  "keeps (\<lambda>s. ledger_ids (bk_ledger s) = known) (lookupB h)"
  "keeps (\<lambda>s. ledger_ids (bk_ledger s) = known) (itemB d x)"
  "keeps (\<lambda>s. ledger_ids (bk_ledger s) = known) (ledgerB (transition H fromiso i action args))"
  "keeps (\<lambda>s. ledger_ids (bk_ledger s) = known) (ledgerB (bind_scale_set i sid name))"
  by (simp_all add: keeps_ledger_only [where P = "\<lambda>l. ledger_ids l = known"] itemB_def keeps_pure
      keeps_ledger_call [where P = "\<lambda>l. ledger_ids l = known"] transition_ids bind_scale_set_keeps)

lemma recover_keeps_ids: "keeps (\<lambda>s. ledger_ids (bk_ledger s) = known) (broker_recover b i)"
  unfolding broker_recover_def locate_scale_set_def delete_exact_def settle_record_def
  by (auto intro!: keeps_rules)

lemma recover_each_cleans:
  assumes "recover_each b ids s = (Inr (), t)" and "ledger_inv (bk_ledger s)"
  shows "ledger_ids (bk_ledger t) = ledger_ids (bk_ledger s) \<and> (\<forall>i \<in> set ids. phase i (bk_ledger t) = Some ''cleaned'')
    \<and> ledger_runs b (bk_ledger s) (bk_ledger t)"
  using assms
proof (induction ids arbitrary: s)
  case (Cons i ids)
  from Cons.prems(1) obtain receipt u where first: "broker_recover b i s = (Inr receipt, u)" "recover_each b ids u = (Inr (), t)"
    by (auto simp: bindI_def split: prod.splits sum.splits)
  have runs: "ledger_runs b (bk_ledger s) (bk_ledger u)"
    using keepsD [OF follows_operations(4) [of b "bk_ledger s" i], of s] first(1) by simp
  have clean: "phase i (bk_ledger u) = Some ''cleaned''"
    using recovery_cleans [where b = b and i = i and s = s] first(1) by simp
  have ids: "ledger_ids (bk_ledger u) = ledger_ids (bk_ledger s)"
    using keepsD [OF recover_keeps_ids [where b = b and i = i and known = "ledger_ids (bk_ledger s)"], of s] first(1)
    by simp
  have inv: "ledger_inv (bk_ledger u)" using ledger_runs_inv [OF runs Cons.prems(2)] .
  from Cons.IH [OF first(2) inv] ids cleaned_final [OF _ inv clean] ledger_runs_trans [OF runs] show ?case by auto
qed (simp add: ret_def)

text \<open>After a start-up recovery that returns, no allocation of the ledger is left to recover, and the runtime was measured
  empty after the last of them.\<close>

theorem recover_all_leaves_nothing:
  assumes "recover_all b s = (Inr ids, t)" and "ledger_inv (bk_ledger s)"
  shows "recoverable_allocation_ids (bk_ledger t) = [] \<and> last (bk_calls t) = RuntimeEmpty
    \<and> ids = recoverable_allocation_ids (bk_ledger s)"
proof -
  obtain w1 w3 u where fst: "gd_no_persistent (driverB b) (bk_world s) = (Inr (), w1)"
    and each: "recover_each b (recoverable_allocation_ids (bk_ledger s))
        (s\<lparr>bk_world := w1, bk_calls := bk_calls s @ [NoPersistent]\<rparr>) = (Inr (), u)"
    and t: "gd_runtime_empty (driverB b) (bk_world u) = (Inr (), w3)"
      "t = u\<lparr>bk_world := w3, bk_calls := bk_calls u @ [RuntimeEmpty]\<rparr>"
    and ids: "ids = recoverable_allocation_ids (bk_ledger s)"
    using assms(1) by (auto simp: recover_all_def bindI_def callB_def readI_def ret_def split: prod.splits sum.splits)
  have inv: "ledger_inv (bk_ledger (s\<lparr>bk_world := w1, bk_calls := bk_calls s @ [NoPersistent]\<rparr>))"
    using assms(2) by simp
  from recover_each_cleans [OF each inv] have
    same: "ledger_ids (bk_ledger u) = ledger_ids (bk_ledger s)" and
    clean: "\<forall>i \<in> set (recoverable_allocation_ids (bk_ledger s)). phase i (bk_ledger u) = Some ''cleaned''" and
    runs: "ledger_runs b (bk_ledger s) (bk_ledger u)"
    by simp_all
  have inv_u: "ledger_inv (bk_ledger u)" using ledger_runs_inv [OF runs assms(2)] .
  have "al_cleanup_complete r" if r: "r \<in> set (lg_rows (bk_ledger u))" for r
  proof -
    let ?i = "al_allocation_id r"
    have dist: "distinct (map al_allocation_id (lg_rows (bk_ledger u)))" and "row_ok r"
      using inv_u r by (auto simp: ledger_inv_def rows_inv_def list_all_iff)
    then have sel: "select_row ?i (lg_rows (bk_ledger u)) = Some r" using r by (simp add: select_key_unique)
    have "?i \<in> set (ledger_ids (bk_ledger s))" using r unfolding same [symmetric] by (simp add: ledger_ids_def)
    then obtain r0 where r0: "r0 \<in> set (lg_rows (bk_ledger s))" "al_allocation_id r0 = ?i"
      by (auto simp: ledger_ids_def)
    have "phase ?i (bk_ledger u) = Some ''cleaned''"
    proof (cases "al_cleanup_complete r0")
      case False
      then have "?i \<in> set (recoverable_allocation_ids (bk_ledger s))"
        using r0 by (auto simp: recoverable_allocation_ids_def intro: rev_image_eqI)
      with clean show ?thesis by blast
    next
      case True
      have "distinct (map al_allocation_id (lg_rows (bk_ledger s)))" "row_ok r0"
        using assms(2) r0(1) by (auto simp: ledger_inv_def rows_inv_def list_all_iff)
      then have "phase ?i (bk_ledger s) = Some ''cleaned''"
        using r0 True by (simp add: phase_def row_ok_def select_key_unique flip: r0(2))
      with cleaned_final [OF runs assms(2)] show ?thesis by blast
    qed
    with sel \<open>row_ok r\<close> show ?thesis by (simp add: phase_def row_ok_def)
  qed
  then have "recoverable_allocation_ids (bk_ledger u) = []"
    by (auto simp: recoverable_allocation_ids_def filter_empty_conv)
  with t(2) ids show ?thesis by simp
qed

section \<open>The proof the monitor accepts\<close>

text \<open>C28. A cleanup proof of the broker is exactly the mapping the terminal monitor compares with, its allocation is cleaned
  in the ledger, and the absence of its scale set and an empty runtime were just measured.\<close>

theorem cleanup_proof_is_the_monitors:
  assumes "broker_prove_clean b i label s = (Inr proof, t)"
  shows "py_eq (PDict proof) (PDict (clean_proof i label)) \<and> phase i (bk_ledger t) = Some ''cleaned''
    \<and> (\<exists>name. py_eq name (PStr label) \<and> bk_calls t = bk_calls s @ [AssertAbsent name, RuntimeEmpty])"
proof -
  obtain name sid known w w' where
    "scale_set_binding (bk_ledger s) i = Inr (name, sid)" "py_eq name (PStr label)" and
    get: "ledger_get (br_iso b) (bk_ledger s) i = Inr known" "rec_state known = ''cleaned''" and
    "gd_assert_absent (driverB b) name (bk_world s) = (Inr (), w)"
    "gd_runtime_empty (driverB b) w = (Inr (), w')" and
    outcome: "proof = clean_proof i label"
      "t = s\<lparr>bk_world := w', bk_calls := bk_calls s @ [AssertAbsent name, RuntimeEmpty]\<rparr>"
    using assms unfolding broker_prove_clean_def
    by (auto simp: bindI_def lookupB_def readI_def callB_def requireI_def ret_def throw_def clean_proof_def
        map_sum_def split: prod.splits sum.splits if_splits)
  then show ?thesis using phase_get [OF get(1)] by (auto simp: clean_proof_def)
qed

section \<open>Runs of the broker\<close>

datatype broker_call =
    DoReserve pydict pydatetime
  | DoFinalize pyval pydatetime
  | DoStarted string job_context pydatetime
  | DoFinish string string bool
  | DoProveClean string string
  | DoRecover string
  | DoRecoverAll
  | DoRecord outcome_args pydatetime

fun broker_step :: "'w broker \<Rightarrow> broker_call \<Rightarrow> 'w broker_state \<Rightarrow> 'w broker_state" where
  "broker_step b (DoReserve d now) s = snd (broker_reserve b d now s)"
| "broker_step b (DoFinalize v now) s = snd (broker_finalize b v now s)"
| "broker_step b (DoStarted i raw now) s = snd (job_started b i raw now s)"
| "broker_step b (DoFinish i outcome cancel) s = snd (broker_finish b i outcome cancel s)"
| "broker_step b (DoProveClean i label) s = snd (broker_prove_clean b i label s)"
| "broker_step b (DoRecover i) s = snd (broker_recover b i s)"
| "broker_step b DoRecoverAll s = snd (recover_all b s)"
| "broker_step b (DoRecord a now) s = snd (record_outcome b a now s)"

lemma broker_step_runs: "ledger_runs b (bk_ledger s) (bk_ledger (broker_step b c s))"
  by (cases c)
    (simp_all add: keepsD [OF follows_operations(1)] keepsD [OF follows_operations(2)] keepsD [OF follows_operations(3)]
      keepsD [OF follows_operations(4)] keepsD [OF follows_operations(5)] keepsD [OF follows_composites(1)]
      keepsD [OF follows_composites(2)] keepsD [OF follows_outcome])

definition opened :: "'w \<Rightarrow> 'w broker_state" where
  "opened w = \<lparr>bk_ledger = empty_ledger, bk_world = w, bk_calls = []\<rparr>"

lemma started_runs: "ledger_runs b l l' \<Longrightarrow> ledger_inv l \<Longrightarrow> started i l \<Longrightarrow> started i l'"
proof -
  have "ledger_inv l \<Longrightarrow> started i l \<Longrightarrow> started i (fold (ledger_step (br_hash b) (br_iso b)) cs l)" for cs
    by (induction cs arbitrary: l) (simp_all add: step_inv started_step)
  then show "ledger_runs b l l' \<Longrightarrow> ledger_inv l \<Longrightarrow> started i l \<Longrightarrow> started i l'"
    unfolding ledger_runs_def by blast
qed

interpretation broker_machine:
  stable_machine "broker_step b" "\<lambda>s. ledger_inv (bk_ledger s)" "opened w" "\<lambda>i s. started i (bk_ledger s)" for b w
proof
  show "ledger_inv (bk_ledger (opened w))" by (simp add: opened_def lgm.inv_init)
  show "ledger_inv (bk_ledger (broker_step b c s))" if "ledger_inv (bk_ledger s)" for s c
    using ledger_runs_inv [OF broker_step_runs that] .
  show "started i (bk_ledger (broker_step b c s))" if "ledger_inv (bk_ledger s)" "started i (bk_ledger s)" for s i c
    using started_runs [OF broker_step_runs that] .
qed

definition admits_now :: "'w broker \<Rightarrow> string \<Rightarrow> broker_call \<Rightarrow> 'w broker_state \<Rightarrow> bool" where
  "admits_now b i c s = (case c of DoStarted j raw now \<Rightarrow> j = i \<and> \<not> isl (fst (job_started b j raw now s)) | _ \<Rightarrow> False)"

fun jobs_admitted :: "'w broker \<Rightarrow> string \<Rightarrow> broker_call list \<Rightarrow> 'w broker_state \<Rightarrow> nat" where
  "jobs_admitted b i [] s = 0"
| "jobs_admitted b i (c # cs) s = (if admits_now b i c s then 1 else 0) + jobs_admitted b i cs (broker_step b c s)"

lemma admits_now_starts:
  assumes "admits_now b i c s"
  shows "\<not> started i (bk_ledger s)" and "started i (bk_ledger (broker_step b c s))"
proof -
  obtain raw now where c: "c = DoStarted i raw now" and ok: "\<not> isl (fst (job_started b i raw now s))"
    using assms by (auto simp: admits_now_def split: broker_call.splits)
  then obtain t where "job_started b i raw now s = (Inr (), t)"
    by (cases "job_started b i raw now s"; cases "fst (job_started b i raw now s)") auto
  with job_started_admits [where b = b and i = i and raw = raw and now = now and s = s] obtain cx where "admitted_as i s t cx" by auto
  then show "\<not> started i (bk_ledger s)" "started i (bk_ledger (broker_step b c s))"
    using \<open>job_started b i raw now s = (Inr (), t)\<close> by (simp_all add: c admitted_as_def started_def)
qed

lemma jobs_admitted_bound:
  "ledger_inv (bk_ledger s) \<Longrightarrow> jobs_admitted b i cs s \<le> (if started i (bk_ledger s) then 0 else 1)"
proof (induction cs arbitrary: s)
  case (Cons c cs)
  have inv: "ledger_inv (bk_ledger (broker_step b c s))" using Cons.prems by (rule broker_machine.inv_step)
  note IH = Cons.IH [OF inv]
  show ?case
  proof (cases "admits_now b i c s")
    case True
    with IH admits_now_starts [OF True] show ?thesis by simp
  next
    case False
    with IH broker_machine.fact_step [OF Cons.prems, of i b c] show ?thesis by (auto split: if_splits)
  qed
qed simp

text \<open>C29. Whatever sequence of broker operations runs, with whatever answers of GARM, the runner hook and GitHub, the ledger
  stays consistent and at most one job-started hook ever succeeds for an allocation.\<close>

theorem broker_admits_one_job:
  "ledger_inv (bk_ledger (fold (broker_step b) cs (opened w))) \<and> jobs_admitted b i cs (opened w) \<le> 1"
proof
  show "ledger_inv (bk_ledger (fold (broker_step b) cs (opened w)))" by (rule broker_machine.inv_reachable)
  show "jobs_admitted b i cs (opened w) \<le> 1"
    using jobs_admitted_bound [OF broker_machine.inv_init [of w], of b i cs] by (simp split: if_splits)
qed

section \<open>The waits end\<close>

text \<open>
  The clock: \<open>now w\<close> is the next reading; no call moves it back, a sleep lasts.
\<close>

definition broker_clock :: "'w broker \<Rightarrow> ('w \<Rightarrow> int) \<Rightarrow> bool" where
  "broker_clock b now =
     ((\<forall>w t w1. gd_monotonic (driverB b) w = (t, w1) \<longrightarrow> t = now w \<and> now w \<le> now w1)
      \<and> (\<forall>d w. now w + d \<le> now (gd_sleep (driverB b) d w)))"

definition observes_in_time :: "('w \<Rightarrow> int) \<Rightarrow> (int \<Rightarrow> ('w, unit) bio) \<Rightarrow> bool" where
  "observes_in_time now observe =
     (\<forall>d s r s1. observe d s = (r, s1) \<longrightarrow> now (bk_world s) \<le> now (bk_world s1) \<and> r \<noteq> Inl BrWaiting)"

lemma clockB_read:
  assumes "broker_clock b now"
  shows "\<exists>w1. clockB (gd_monotonic (driverB b)) s = (Inr (now (bk_world s)), s\<lparr>bk_world := w1\<rparr>) \<and> now (bk_world s) \<le> now w1"
proof -
  obtain t w1 where "gd_monotonic (driverB b) (bk_world s) = (t, w1)" by fastforce
  with assms show ?thesis unfolding broker_clock_def clockB_def by fastforce
qed

lemma wait_returns_from:
  assumes clock: "broker_clock b now" and obs: "observes_in_time now observe" and poll: "0 < br_poll b"
  shows "deadline - now (bk_world s) \<le> int n * br_poll b \<Longrightarrow>
    fst (wait_for_observation (Suc (Suc n)) b observe deadline s) \<noteq> Inl BrWaiting"
proof (induction n arbitrary: s)
  case 0
  obtain w1 where r: "clockB (gd_monotonic (driverB b)) s = (Inr (now (bk_world s)), s\<lparr>bk_world := w1\<rparr>)"
    using clockB_read [OF clock] by blast
  show ?case using 0 by (simp add: bindI_def r throw_def)
next
  case (Suc n)
  obtain w1 where r: "clockB (gd_monotonic (driverB b)) s = (Inr (now (bk_world s)), s\<lparr>bk_world := w1\<rparr>)"
    and w1: "now (bk_world s) \<le> now w1"
    using clockB_read [OF clock] by blast
  let ?s1 = "s\<lparr>bk_world := w1\<rparr>" and ?d = "deadline - now (bk_world s)"
  obtain out s2 where out: "observe ?d ?s1 = (out, s2)" by fastforce
  have s2: "now w1 \<le> now (bk_world s2)" "out \<noteq> Inl BrWaiting"
    using obs out unfolding observes_in_time_def by fastforce+
  obtain w3 where r3: "clockB (gd_monotonic (driverB b)) s2 = (Inr (now (bk_world s2)), s2\<lparr>bk_world := w3\<rparr>)"
    and w3: "now (bk_world s2) \<le> now w3"
    using clockB_read [OF clock] by blast
  let ?r = "deadline - now (bk_world s2)"
  let ?u = "if ?r > 0 then s2\<lparr>bk_world := gd_sleep (driverB b) (min (br_poll b) ?r) w3\<rparr> else s2\<lparr>bk_world := w3\<rparr>"
  have "now w3 + min (br_poll b) ?r \<le> now (gd_sleep (driverB b) (min (br_poll b) ?r) w3)"
    using clock unfolding broker_clock_def by blast
  then have "deadline - now (bk_world ?u) \<le> int n * br_poll b"
  proof -
    assume slept: "now w3 + min (br_poll b) ?r \<le> now (gd_sleep (driverB b) (min (br_poll b) ?r) w3)"
    have long: "deadline - now (bk_world s) \<le> int n * br_poll b + br_poll b" "0 \<le> int n * br_poll b"
      using Suc.prems poll by (simp_all add: algebra_simps)
    show ?thesis
    proof (cases "?r > 0")
      case True
      have "deadline - now (gd_sleep (driverB b) (min (br_poll b) ?r) w3) \<le> int n * br_poll b"
        using slept long w1 s2(1) w3 by (cases "br_poll b \<le> ?r") (simp_all add: min_def)
      with True show ?thesis by simp
    next
      case False
      with long w3 show ?thesis by simp
    qed
  qed
  note IH = Suc.IH [OF this]
  have step: "wait_for_observation (Suc (Suc (Suc n))) b observe deadline s =
      (if ?d \<le> 0 then (Inl (br_fail ''job-started observation deadline expired''), ?s1)
       else case out of
           Inl e \<Rightarrow> if is_os_or_value e then wait_for_observation (Suc (Suc n)) b observe deadline ?u else (Inl e, s2)
         | Inr _ \<Rightarrow> if now (bk_world s2) < deadline then (Inr (), s2\<lparr>bk_world := w3\<rparr>)
             else (Inl (br_fail ''job-started observation deadline expired''), s2\<lparr>bk_world := w3\<rparr>))"
    unfolding wait_for_observation.simps(2) [of "Suc (Suc n)"] bindI_def [of "clockB (gd_monotonic (driverB b))"] r tryElseI_def
    by (simp add: out throw_def ret_def r3 bindI_def clockB_def [of "\<lambda>w. ((), _ w)"] del: wait_for_observation.simps split: sum.splits)
  show ?case
    unfolding step using IH s2(2) by (auto split: sum.splits)
qed

definition answers_in_time :: "'w broker \<Rightarrow> ('w \<Rightarrow> int) \<Rightarrow> bool" where
  "answers_in_time b now =
     ((\<forall>sid name payload cx. observes_in_time now (observe_claim b sid name payload cx))
      \<and> (\<forall>payload cx. observes_in_time now (observe_live_job b payload cx))
      \<and> (\<forall>sid name d w w1. gd_disable (driverB b) sid name d w \<noteq> (Inl BrWaiting, w1)))"

lemma wait_moves_on:
  assumes clock: "broker_clock b now" and obs: "observes_in_time now observe" and poll: "0 < br_poll b"
  shows "keeps (\<lambda>s. t0 \<le> now (bk_world s)) (wait_for_observation n b observe deadline)"
proof (induction n)
  case (Suc n)
  have read: "keeps (\<lambda>s. t0 \<le> now (bk_world s)) (clockB (gd_monotonic (driverB b)))"
  proof (rule keepsI)
    fix s :: "'a broker_state"
    assume "t0 \<le> now (bk_world s)"
    with clockB_read [OF clock, of s] show "t0 \<le> now (bk_world (snd (clockB (gd_monotonic (driverB b)) s)))" by auto
  qed
  have sleep: "keeps (\<lambda>s. t0 \<le> now (bk_world s)) (clockB (\<lambda>w. ((), gd_sleep (driverB b) (min (br_poll b) r) w)))"
    if "r > 0" for r
  proof (rule keepsI)
    fix s :: "'a broker_state"
    assume "t0 \<le> now (bk_world s)"
    moreover have "now (bk_world s) + min (br_poll b) r \<le> now (gd_sleep (driverB b) (min (br_poll b) r) (bk_world s))"
      using clock unfolding broker_clock_def by blast
    ultimately show "t0 \<le> now (bk_world (snd (clockB (\<lambda>w. ((), gd_sleep (driverB b) (min (br_poll b) r) w)) s)))"
      using that poll by (simp add: clockB_def min_def split: if_splits)
  qed
  have seen: "keeps (\<lambda>s. t0 \<le> now (bk_world s)) (observe d)" for d
  proof (rule keepsI)
    fix s :: "'a broker_state"
    assume "t0 \<le> now (bk_world s)"
    then show "t0 \<le> now (bk_world (snd (observe d s)))"
      using obs [unfolded observes_in_time_def, rule_format, of d s "fst (observe d s)" "snd (observe d s)"] by simp
  qed
  show ?case
    unfolding wait_for_observation.simps by (intro keeps_rules read seen Suc.IH) (auto intro!: keeps_rules sleep)
qed (simp add: keeps_rules)

lemma wp_wait_in_time:
  assumes "broker_clock b now" and "observes_in_time now observe" and "0 < br_poll b"
    and "br_fuel b = Suc (Suc n)" and "br_timeout b \<le> int n * br_poll b" and "t0 \<le> now (bk_world s)"
  shows "wp (wait_for_observation (br_fuel b) b observe (t0 + br_timeout b))
    (\<lambda>_ t. t0 \<le> now (bk_world t)) (\<lambda>e _. e \<noteq> BrWaiting) s"
proof -
  have "fst (wait_for_observation (br_fuel b) b observe (t0 + br_timeout b) s) \<noteq> Inl BrWaiting"
    unfolding assms(4) by (rule wait_returns_from [OF assms(1-3)]) (use assms(5,6) in simp)
  moreover have "t0 \<le> now (bk_world (snd (wait_for_observation (br_fuel b) b observe (t0 + br_timeout b) s)))"
    using keepsD [OF wait_moves_on [OF assms(1-3)] assms(6)] .
  ultimately show ?thesis by (auto simp: wp_def split: prod.splits sum.splits)
qed

lemma denial_not_waiting: "job_started_denial ph why fs \<noteq> BrWaiting"
  by (simp add: job_started_denial_def)

lemma wp_deny_waiting:
  "wp m Q (\<lambda>e _. e \<noteq> BrWaiting) s \<Longrightarrow> wp (denyI c ph why m) Q (\<lambda>e _. e \<noteq> BrWaiting) s"
  by (auto simp: denyI_def denial_not_waiting elim!: wp_mono split: if_splits)

text \<open>C30. The job-started hook returns. With a clock that does not run backwards, sleeps that last, and one round per poll
  interval of the observation timeout and two more, neither wait is still going on: the hook ends in an
  admission or an exception, however often the observations fail.\<close>

theorem job_started_returns:
  assumes clock: "broker_clock b now" and answers: "answers_in_time b now" and poll: "0 < br_poll b"
    and fuel: "br_fuel b = Suc (Suc n)" and timeout: "br_timeout b \<le> int n * br_poll b"
  shows "fst (job_started b i raw at s) \<noteq> Inl BrWaiting"
proof -
  let ?ok = "\<lambda>_ _. True" and ?r = "\<lambda>e (_ :: 'a broker_state). e \<noteq> BrWaiting"
  have read: "wp (clockB g) Q R u" if "\<And>x w. Q x (u\<lparr>bk_world := w\<rparr>)" for g Q R and u :: "'a broker_state"
    using that by (rule wp_clockB)
  have disable: "wp (disable_for_job b sid name d) ?ok ?r u" for sid name d u
    using answers unfolding disable_for_job_def answers_in_time_def
    by (auto intro!: read simp: wp_def callB_def clockB_def split: prod.splits sum.splits)
  have admit: "wp (admit_started b i at t0) ?ok ?r u" for t0 u
    unfolding admit_started_def
    by (auto intro!: read wp_ledgerB simp: denial_not_waiting split: br_error.splits rj_error.splits)
  have tail: "wp (observe_and_admit b i at payload cx name sid) ?ok ?r u" for payload cx name sid u
  proof -
    obtain w1 where first: "clockB (gd_monotonic (driverB b)) u = (Inr (now (bk_world u)), u\<lparr>bk_world := w1\<rparr>)"
      and w1: "now (bk_world u) \<le> now w1"
      using clockB_read [OF clock] by blast
    have obs: "observes_in_time now (observe_claim b sid name payload cx)" "observes_in_time now (observe_live_job b payload cx)"
      using answers unfolding answers_in_time_def by blast+
    note wait1 = wp_wait_in_time [OF clock obs(1) poll fuel timeout]
      and wait2 = wp_wait_in_time [OF clock obs(2) poll fuel timeout]
    have "wp (bindI (denyI is_runner_jit ''runner-claim'' ''claim-not-observed''
        (wait_for_observation (br_fuel b) b (observe_claim b sid name payload cx) (now (bk_world u) + br_timeout b))) (\<lambda>_.
      bindI (denyI is_os_or_value ''live-job'' ''job-not-verified''
        (wait_for_observation (br_fuel b) b (observe_live_job b payload cx) (now (bk_world u) + br_timeout b))) (\<lambda>_.
      bindI (denyI is_os_or_value ''runner-disable'' ''disable-failed''
        (disable_for_job b sid name (now (bk_world u) + RUNNER_HOOK_BUDGET))) (\<lambda>_.
      admit_started b i at (now (bk_world u)))))) ?ok ?r (u\<lparr>bk_world := w1\<rparr>)"
      unfolding wp_bind
    proof (rule wp_mono [OF wp_deny_waiting [OF wait1]])
      show "now (bk_world u) \<le> now (bk_world (u\<lparr>bk_world := w1\<rparr>))" using w1 by simp
      fix x and t :: "'a broker_state"
      assume "now (bk_world u) \<le> now (bk_world t)"
      then show "wp (denyI is_os_or_value ''live-job'' ''job-not-verified''
          (wait_for_observation (br_fuel b) b (observe_live_job b payload cx) (now (bk_world u) + br_timeout b)))
          (\<lambda>_. wp (denyI is_os_or_value ''runner-disable'' ''disable-failed''
             (disable_for_job b sid name (now (bk_world u) + RUNNER_HOOK_BUDGET)))
            (\<lambda>_. wp (admit_started b i at (now (bk_world u))) ?ok ?r) ?r) ?r t"
        by (rule wp_mono [OF wp_deny_waiting [OF wait2]])
          (auto intro!: wp_mono [OF wp_deny_waiting [OF disable]] wp_mono [OF admit])
    qed
    then show ?thesis unfolding observe_and_admit_def bindI_def [of "clockB _"] wp_def first by simp
  qed
  have checked: "wp (checked_context raw) ?ok ?r s"
    by (cases raw) (auto simp: checked_context_def denyI_def job_context_of_def denial_not_waiting split: pyval.splits)
  have found: "wp (denyI is_runner_jit ph why (lookupB f)) ?ok ?r u" for ph why u and f :: "ledger \<Rightarrow> rj_error + 'b"
    by (rule wp_deny_waiting, rule wp_lookupB) simp_all
  have "wp (job_started b i raw at) ?ok ?r s"
    unfolding job_started_def wp_bind
  proof (rule wp_mono [OF checked], rule wp_mono [OF found])
  qed (auto simp: denial_not_waiting intro!: wp_mono [OF found] tail)
  then show ?thesis by (auto simp: wp_def split: prod.splits sum.splits)
qed

section \<open>A replayed finalization\<close>

lemma transition_keeps_binding:
  "ledger_payload (snd (transition H fromiso j action args l)) i = ledger_payload l i
   \<and> scale_set_binding (snd (transition H fromiso j action args l)) i = scale_set_binding l i"
proof (cases "transition H fromiso j action args l")
  case (Pair r l')
  then show ?thesis
  proof (cases r)
    case (Inr x)
    with Pair obtain n where "l' = l\<lparr>lg_rows := update_key al_allocation_id (set_lifecycle n) j (lg_rows l)\<rparr>"
      by (auto elim: transition_rows)
    then have "select_row i (lg_rows l') = map_option (if i = j then set_lifecycle n else id) (select_row i (lg_rows l))"
      by (simp add: lifecycle_upd.select_update option.map_id)
    with Pair show ?thesis
      by (cases "select_row i (lg_rows l)") (simp_all add: ledger_payload_def scale_set_binding_def set_lifecycle_def Let_def split: option.split)
  next
    case (Inl e)
    with Pair transition_raises show ?thesis by fastforce
  qed
qed

lemma job_started_keeps_binding:
  "keeps (\<lambda>s. ledger_payload (bk_ledger s) i = p \<and> scale_set_binding (bk_ledger s) i = x) (job_started b j raw now)"
proof -
  let ?P = "\<lambda>l. ledger_payload l i = p \<and> scale_set_binding l i = x"
  note only = keeps_ledger_only [where P = ?P]
  have moves: "keeps (\<lambda>s. ?P (bk_ledger s)) (ledgerB (transition H fromiso k action args))" for H fromiso k action args
    by (rule keeps_ledger_call) (use transition_keeps_binding in simp)
  have wait: "keeps (\<lambda>s. ?P (bk_ledger s)) (wait_for_observation n b observe deadline)"
    if "\<And>t. keeps (\<lambda>s. ?P (bk_ledger s)) (observe t)" for n observe deadline
    by (induction n) (auto intro!: keeps_rules only that)
  show ?thesis
    unfolding job_started_def checked_context_def denyI_def observe_and_admit_def disable_for_job_def admit_started_def
    by (auto intro!: keeps_rules only moves wait simp: observe_claim_def observe_live_job_def split: job_context.split)
qed

text \<open>What a finalization that returns leaves behind, and what the same envelope meets there.\<close>

lemma finalize_leaves:
  assumes "finalize H fromiso prims envelope key pinned now l = (Inr out, l')"
  shows "\<exists>payload p body. verify_allocation H fromiso prims envelope key pinned now = Inr payload
    \<and> canonicalize_jcs (PDict payload) = Inr body
    \<and> ledger_payload l' (fmt (pget payload ''allocation_id'')) = Inr p \<and> json_text (PDict p) = json_text (PDict payload)"
proof -
  obtain payload rows' where v: "verify_allocation H fromiso prims envelope key pinned now = Inr payload"
    and body: "finalize_body H payload (lg_rows l) = Inr (out, rows')" and l': "l' = l\<lparr>lg_rows := rows'\<rparr>"
    using assms by (auto simp: finalize_def commit_def bindE_eq_Inr split: sum.splits prod.splits)
  from body obtain j where j: "canonicalize_jcs (PDict payload) = Inr j"
    by (cases "canonicalize_jcs (PDict payload)") (auto simp: finalize_body_def Let_def liftR_def bindE_eq_Inr)
  have "\<exists>p. ledger_payload l' (fmt (pget payload ''allocation_id'')) = Inr p \<and> json_text (PDict p) = json_text (PDict payload)"
    using body j
    by (auto simp: finalize_body_def Let_def l' ledger_payload_def finalized_upd.select_update set_finalized_def
        simp del: json_text.simps py_eq.simps split: option.splits if_splits)
  with v j show ?thesis by blast
qed

lemma finalize_replayed:
  assumes "verify_allocation H fromiso prims envelope key pinned now = Inr payload" and "canonicalize_jcs (PDict payload) = Inr body"
    and "ledger_payload l (fmt (pget payload ''allocation_id'')) = Inr p" and "json_text (PDict p) = json_text (PDict payload)"
  shows "finalize H fromiso prims envelope key pinned now l = (Inr ''idempotent'', l)"
  using assms
  by (auto simp: finalize_def finalize_body_def Let_def ledger_payload_def commit_def simp del: json_text.simps split: option.splits)

lemma verified_payload:
  "verify_allocation H fromiso prims envelope key pinned now = Inr payload \<Longrightarrow> payload = dict_of (pget (dict_of envelope) ''payload'')"
  by (auto simp: verify_allocation_def bindE_eq_Inr split: pyval.splits)

lemma broker_finalize_leaves:
  fixes s :: "'w broker_state" and envelope :: pyval
  assumes "broker_finalize b envelope now s = (Inr r, t)"
  defines "payload \<equiv> dict_of (pget (dict_of envelope) ''payload'')"
  shows "\<exists>p body name sid. canonicalize_jcs (PDict payload) = Inr body
    \<and> ledger_payload (bk_ledger t) (fmt (pget payload ''allocation_id'')) = Inr p \<and> json_text (PDict p) = json_text (PDict payload)
    \<and> scale_set_binding (bk_ledger t) (fmt (pget payload ''allocation_id'')) = Inr (name, sid)"
proof -
  let ?f = "finalize (br_hash b) (br_iso b) (br_prims b) envelope (br_public_key b) (br_fingerprint b) now"
  obtain out l where f: "?f (bk_ledger s) = (Inr out, l)"
    using assms(1) by (cases "?f (bk_ledger s)"; cases "fst (?f (bk_ledger s))") (auto simp: broker_finalize_def bindI_def ledgerB_def)
  with assms(1) obtain name sid where "scale_set_binding l (fmt (pget payload ''allocation_id'')) = Inr (name, sid)" "bk_ledger t = l"
    by (cases "scale_set_binding l (fmt (pget payload ''allocation_id''))")
      (auto simp: broker_finalize_def bindI_def ledgerB_def lookupB_def readI_def callB_def ret_def Let_def payload_def
        split: sum.splits prod.splits)
  moreover from finalize_leaves [OF f] verified_payload have "\<exists>p body. canonicalize_jcs (PDict payload) = Inr body
    \<and> ledger_payload l (fmt (pget payload ''allocation_id'')) = Inr p \<and> json_text (PDict p) = json_text (PDict payload)"
    unfolding payload_def by metis
  ultimately show ?thesis by auto
qed

text \<open>C31. When an allocation was finalized by an envelope and its job was admitted by the hook, which asked GARM last to
  disable the scale set, the same envelope is accepted again as long as it verifies at the time it is presented: the
  ledger stays as it is, with the job running, and GARM is asked to bind and to enable the very scale set that the hook
  disabled.\<close>

theorem replayed_finalization_enables_again:
  fixes s0 :: "'w broker_state" and envelope :: pyval
  defines "payload \<equiv> dict_of (pget (dict_of envelope) ''payload'')"
  defines "i \<equiv> fmt (pget payload ''allocation_id'')"
  assumes "broker_finalize b envelope now0 s0 = (Inr r0, s1)"
    and "job_started b i raw now1 s1 = (Inr (), s2)"
    and "verify_allocation (br_hash b) (br_iso b) (br_prims b) envelope (br_public_key b) (br_fingerprint b) now2 = Inr payload"
    and "\<And>sid w. fst (gd_bind_signed (driverB b) sid payload envelope w) = Inr ()"
    and "\<And>sid name w. fst (gd_enable (driverB b) sid name w) = Inr ()"
  shows "\<exists>sid name s3. last (bk_calls s2) = DisableScaleSet sid name \<and> phase i (bk_ledger s2) = Some ''running''
    \<and> broker_finalize b envelope now2 s2 = (Inr (scale_set_id_text i sid name ''enabled-awaiting-claim''), s3)
    \<and> bk_ledger s3 = bk_ledger s2
    \<and> bk_calls s3 = bk_calls s2 @ [BindSigned sid payload envelope, EnableScaleSet sid name]"
proof -
  obtain p body name sid where canon: "canonicalize_jcs (PDict payload) = Inr body" and p: "ledger_payload (bk_ledger s1) i = Inr p"
    and same: "json_text (PDict p) = json_text (PDict payload)" and bound: "scale_set_binding (bk_ledger s1) i = Inr (name, sid)"
    using broker_finalize_leaves [OF assms(3)] unfolding payload_def i_def by blast
  from keepsD [OF job_started_keeps_binding, of s1 i "Inr p" "Inr (name, sid)"] p bound assms(4)
  have after: "ledger_payload (bk_ledger s2) i = Inr p" "scale_set_binding (bk_ledger s2) i = Inr (name, sid)"
    by (metis snd_conv)+
  have "admitted_as i s1 s2 (context_fields raw)"
    using job_started_admits [where b = b and i = i and raw = raw and now = now1 and s = s1] assms(4) by simp
  then have disabled: "last (bk_calls s2) = DisableScaleSet sid name" "phase i (bk_ledger s2) = Some ''running''"
    using bound by (auto simp: admitted_as_def)
  have final: "finalize (br_hash b) (br_iso b) (br_prims b) envelope (br_public_key b) (br_fingerprint b) now2 (bk_ledger s2)
      = (Inr ''idempotent'', bk_ledger s2)"
    using finalize_replayed [OF assms(5) canon] after(1) same by (simp add: i_def)
  obtain w1 where w1: "gd_bind_signed (driverB b) sid payload envelope (bk_world s2) = (Inr (), w1)"
    using assms(6) by (metis prod.collapse)
  obtain w2 where w2: "gd_enable (driverB b) sid name w1 = (Inr (), w2)"
    using assms(7) by (metis prod.collapse)
  define s3 where "s3 = s2\<lparr>bk_world := w2,
    bk_calls := bk_calls s2 @ [BindSigned sid payload envelope, EnableScaleSet sid name]\<rparr>"
  have "broker_finalize b envelope now2 s2 = (Inr (scale_set_id_text i sid name ''enabled-awaiting-claim''), s3)"
    using final w1 w2 after(2)
    by (simp add: broker_finalize_def bindI_def ledgerB_def lookupB_def readI_def callB_def ret_def Let_def s3_def
        payload_def [symmetric] i_def [symmetric])
  then show ?thesis
    using disabled by (intro exI [of _ sid] exI [of _ name] exI [of _ s3]) (simp add: s3_def)
qed

end
