(* ===== verification/Broker_Samples.thy ===== *)
theory Broker_Samples
  imports Broker_Safety
begin

section \<open>A runtime for the witnesses\<close>

text \<open>A GARM that does what it is asked, with the clock as its world, and the broker over it.\<close>

definition sample_measurements :: pydict where
  "sample_measurements = (''orphan_registrations'', PInt 0) # map (\<lambda>f. (f, PBool True)) EVIDENCE_REMOVED"

definition sample_driver :: "int garm_driver" where
  "sample_driver =
     \<lparr>gd_no_persistent = (\<lambda>w. (Inr (), w)), gd_ensure_disabled = (\<lambda>d w. (Inr ''7'', w)),
      gd_bind_signed = (\<lambda>i d v w. (Inr (), w)), gd_find = (\<lambda>n w. (Inr None, w)), gd_enable = (\<lambda>i n w. (Inr (), w)),
      gd_runner_claim = (\<lambda>i n r d t w. (Inr (), w)), gd_disable = (\<lambda>i n t w. (Inr (), w)),
      gd_drain = (\<lambda>i n w. (Inr (), w)), gd_delete = (\<lambda>i n w. (Inr (), w)), gd_assert_absent = (\<lambda>n w. (Inr (), w)),
      gd_measure = (\<lambda>i n w. (Inr sample_measurements, w)), gd_runtime_empty = (\<lambda>w. (Inr (), w)),
      gd_live_job = (\<lambda>p c t w. (Inr (), w)), gd_monotonic = (\<lambda>w. (w, w)), gd_sleep = (\<lambda>d w. w + d)\<rparr>"

definition sample_broker :: "int broker" where
  "sample_broker =
     \<lparr>br_hash = (\<lambda>_. sample_hash), br_iso = sample_time, br_driver = sample_driver, br_prims = sample_prims,
      br_public_key = Ed25519Key ''der'', br_fingerprint = sample_hash, br_timeout = seconds 45, br_poll = seconds 1,
      br_fuel = 47\<rparr>"

definition broker_at :: "ledger \<Rightarrow> int broker_state" where
  "broker_at l = \<lparr>bk_ledger = l, bk_world = 0, bk_calls = []\<rparr>"

lemma sample_ledger_inv: "ledger_inv sample_ledger"
  using lgm.inv_reachable [of "\<lambda>_. sample_hash" sample_time "[CReserve (sample_offer id_a) (Aware 2000000)]"]
  by (simp add: sample_ledger_def)

lemma sample_measured: "keys_exact sample_measurements MEASUREMENTS"
  by (auto simp: keys_exact_iff sample_measurements_def MEASUREMENTS_def EVIDENCE_REMOVED_def)

lemma sample_evidence:
  "no_args\<lparr>ta_cleanup_key := rec_cleanup_key r, ta_evidence := PDict (cleanup_evidence (rec_allocation_id r) r sample_measurements)\<rparr>
     = ack_args r"
  by (simp add: ack_args_def cleanup_evidence_def sample_measurements_def EVIDENCE_REMOVED_def pmerge_def)

lemma sample_ledger_facts:
  "phase id_a sample_ledger = Some ''reserved''"
  "\<exists>known. ledger_get sample_time sample_ledger id_a = Inr known \<and> rec_state known = ''reserved''"
  "recoverable_allocation_ids sample_ledger = [id_a]"
  "identity_of id_a sample_ledger = Inr (sample_offer id_a)"
  "\<exists>e. scale_set_binding sample_ledger id_a = Inl (RunnerJitError e)"
  by (simp_all add: phase_def ledger_get_def sample_ledger_row(2) select_key_Cons lease_times_def fresh_row_def sample_alloc_texts
      record_of_def recoverable_allocation_ids_def identity_of_def ledger_payload_def ledger_reservation_def scale_set_binding_def Let_def)

lemma sample_driver_calls:
  "gd_no_persistent (driverB sample_broker) w = (Inr (), w)" "gd_find (driverB sample_broker) n w = (Inr None, w)"
  "gd_assert_absent (driverB sample_broker) n w = (Inr (), w)" "gd_measure (driverB sample_broker) i n w = (Inr sample_measurements, w)"
  "gd_runtime_empty (driverB sample_broker) w = (Inr (), w)" "gd_monotonic (driverB sample_broker) w = (w, w)"
  "gd_sleep (driverB sample_broker) d w = w + d" "br_hash sample_broker = (\<lambda>_. sample_hash)" "br_iso sample_broker = sample_time"
  by (simp_all add: sample_broker_def sample_driver_def)

lemma transition_record_id:
  assumes "transition H fromiso i action args l = (Inr r, l')" and "ledger_inv l"
  shows "rec_allocation_id r = i"
proof -
  obtain row lease n where row: "select_row i (lg_rows l) = Some row" and n: "next_row H action args lease row = Inr n"
    and r: "r = record_of n lease"
    using assms(1) by (rule transition_rows)
  have "row_ok row" "al_allocation_id row = i" using selected_ok [OF _ row] assms(2) by (simp_all add: ledger_inv_def)
  moreover from this n have "set_lifecycle n row = n" by (blast dest: next_row_ok)
  then have "al_allocation_id n = al_allocation_id row" by (metis lifecycle_upd.keeps_key)
  ultimately show ?thesis by (simp add: r record_of_def split: prod.splits)
qed

lemma sample_recovery:
  fixes s :: "int broker_state"
  shows "\<exists>t. broker_recover sample_broker id_a (s\<lparr>bk_ledger := sample_ledger\<rparr>) = (Inr (absent_proof id_a), t)"
proof -
  obtain known where known: "ledger_get sample_time sample_ledger id_a = Inr known" "rec_state known = ''reserved''"
    using sample_ledger_facts(2) by blast
  obtain e where e: "scale_set_binding sample_ledger id_a = Inl (RunnerJitError e)" using sample_ledger_facts(5) by blast
  obtain r L1 r' L2 where steps: "transition (\<lambda>_. sample_hash) sample_time id_a ''recover'' no_args sample_ledger = (Inr r, L1)"
    "transition (\<lambda>_. sample_hash) sample_time id_a ''ack-recovery-cleanup'' (ack_args r) L1 = (Inr r', L2)"
    by (rule recover_then_acknowledge [OF sample_ledger_inv sample_ledger_facts(1) _ known(1)]) simp_all
  note steps' = steps(2) [folded sample_evidence, unfolded transition_record_id [OF steps(1) sample_ledger_inv]]
  have located: "locate_scale_set sample_broker id_a n (s\<lparr>bk_ledger := sample_ledger\<rparr>)
      = (Inr None, s\<lparr>bk_ledger := sample_ledger, bk_calls := bk_calls s @ [FindScaleSet n]\<rparr>)" for n
    by (simp add: locate_scale_set_def tryElseI_def lookupB_def readI_def e bindI_def callB_def sample_driver_calls ret_def)
  have settled: "\<exists>t. settle_record sample_broker id_a n ''reserved'' u = (Inr (), t)" if "bk_ledger u = sample_ledger"
    for n and u :: "int broker_state"
    using that
    by (simp add: settle_record_def bindI_def ledgerB_def sample_driver_calls steps(1) callB_def requireI_def sample_measured steps' ret_def)
  have item: "itemB (sample_offer id_a) ''scale_set_name'' u = (Inr (PStr sample_scale_label), u)" for u :: "int broker_state"
    by (simp add: itemB_def pure_io_def sample_offer_def sample_bound_def)
  let ?n = "PStr sample_scale_label"
  let ?u = "s\<lparr>bk_ledger := sample_ledger, bk_calls := bk_calls s @ [FindScaleSet ?n, AssertAbsent ?n]\<rparr>"
  obtain t where t: "settle_record sample_broker id_a (PStr sample_scale_label) ''reserved'' ?u = (Inr (), t)"
    using settled [of ?u] by auto
  show ?thesis
    by (simp add: broker_recover_def bindI_def lookupB_def readI_def known sample_ledger_facts(4) item located sample_driver_calls
        callB_def t ret_def)
qed

theorem recover_all_leaves_nothing_witness:
  "\<exists>t. recover_all sample_broker (broker_at sample_ledger) = (Inr [id_a], t)
     \<and> recoverable_allocation_ids (bk_ledger t) = [] \<and> last (bk_calls t) = RuntimeEmpty"
proof -
  obtain t where t: "broker_recover sample_broker id_a ((broker_at sample_ledger)\<lparr>bk_calls := [NoPersistent]\<rparr>) = (Inr (absent_proof id_a), t)"
    using sample_recovery [of "\<lparr>bk_ledger = sample_ledger, bk_world = 0, bk_calls = [NoPersistent]\<rparr>"] by (auto simp: broker_at_def)
  have run: "recover_all sample_broker (broker_at sample_ledger) = (Inr [id_a], t\<lparr>bk_calls := bk_calls t @ [RuntimeEmpty]\<rparr>)"
    using t by (simp add: recover_all_def bindI_def callB_def readI_def sample_driver_calls sample_ledger_facts(3) ret_def broker_at_def)
  show ?thesis
    using recover_all_leaves_nothing [OF run] sample_ledger_inv run by (simp add: broker_at_def)
qed

text \<open>A ledger whose only allocation is cleaned.\<close>

definition sample_cleaned :: ledger where
  "sample_cleaned = empty_ledger\<lparr>lg_rows := [(fresh_row id_a sample_hash sample_hash ''cleaned'')
     \<lparr>al_issued_at := PStr ''1000000Z'', al_expires_at := PStr ''9000000Z'', al_cleanup_complete := True,
       al_scale_set_name := PStr sample_scale_label, al_garm_scale_set_id := Some ''7''\<rparr>]\<rparr>"

theorem cleanup_proof_is_the_monitors_witness:
  "\<exists>pf t. broker_prove_clean sample_broker id_a sample_scale_label (broker_at sample_cleaned) = (Inr pf, t)
     \<and> py_eq (PDict pf) (PDict (clean_proof id_a sample_scale_label))"
proof -
  have label: "sample_scale_label \<noteq> []" by (simp add: sample_scale_label_def)
  have lookups: "scale_set_binding sample_cleaned id_a = Inr (PStr sample_scale_label, ''7'')"
    "\<exists>known. ledger_get sample_time sample_cleaned id_a = Inr known \<and> rec_state known = ''cleaned'' \<and> rec_cleanup_complete known"
    using label
    by (simp_all add: scale_set_binding_def ledger_get_def sample_cleaned_def empty_ledger_def fresh_row_def select_key_Cons
        lease_times_def sample_alloc_texts record_of_def Let_def)
  then obtain known where known: "ledger_get sample_time sample_cleaned id_a = Inr known" "rec_state known = ''cleaned''"
    "rec_cleanup_complete known" by blast
  obtain pf t where run: "broker_prove_clean sample_broker id_a sample_scale_label (broker_at sample_cleaned) = (Inr pf, t)"
    by (simp add: broker_prove_clean_def bindI_def lookupB_def readI_def broker_at_def lookups(1) requireI_def ret_def callB_def
        sample_driver_calls known)
  with cleanup_proof_is_the_monitors [OF run] show ?thesis by auto
qed

lemma sample_clock: "broker_clock sample_broker id"
  by (auto simp: broker_clock_def sample_driver_calls)

lemma sample_answers: "answers_in_time sample_broker id"
  by (auto simp: answers_in_time_def observes_in_time_def observe_claim_def observe_live_job_def callB_def sample_broker_def
      sample_driver_def)

theorem job_started_returns_witness:
  "fst (job_started sample_broker id_a (RawContext []) (Aware 2000000) (broker_at sample_ledger)) \<noteq> Inl BrWaiting"
  using job_started_returns [OF sample_clock sample_answers, of 45]
  by (simp add: sample_broker_def)

section \<open>A replayed finalization\<close>

text \<open>The allocation reserved with its scale set, then finalized.\<close>

definition sample_bound_row :: alloc_row where
  "sample_bound_row = (fresh_row id_a sample_hash sample_hash ''reserved'')\<lparr>al_issued_at := PStr ''1000000Z'',
     al_expires_at := PStr ''9000000Z'', al_scale_set_name := PStr sample_scale_label, al_reservation := Some (sample_offer id_a),
     al_garm_scale_set_id := Some ''7''\<rparr>"

definition sample_issued :: ledger where
  "sample_issued = sample_ledger\<lparr>lg_rows := [set_finalized (sample_allocation id_a) sample_hash sample_bound_row]\<rparr>"

definition sample_reserved_state :: "int broker_state" where
  "sample_reserved_state = \<lparr>bk_ledger = sample_ledger\<lparr>lg_rows := [sample_bound_row]\<rparr>, bk_world = 0,
     bk_calls = [NoPersistent, EnsureDisabled (sample_offer id_a)]\<rparr>"

lemma sample_reserve:
  "broker_reserve sample_broker (sample_offer id_a) (Aware 2000000) (broker_at empty_ledger) =
     (Inr (scale_set_id_text id_a ''7'' (PStr sample_scale_label) ''reserved-disabled''), sample_reserved_state)"
proof -
  have get: "itemB (sample_offer id_a) ''allocation_id'' s = (Inr (PStr id_a), s)"
    "itemB (sample_offer id_a) ''scale_set_name'' s = (Inr (PStr sample_scale_label), s)" for s :: "int broker_state"
    by (simp_all add: itemB_def pure_io_def sample_offer_def sample_bound_def)
  have "bind_scale_set id_a ''7'' sample_scale_label sample_ledger = (Inr ''bound'', sample_ledger\<lparr>lg_rows := [sample_bound_row]\<rparr>)"
  proof -
    have "canonical_positive ''7''" by code_simp
    then show ?thesis
      by (simp add: bind_scale_set_def bind_body_def sample_ledger_row(2) select_key_Cons commit_def sample_bound_row_def fresh_row_def
          set_scale_set_def update_key_def)
  qed
  then show ?thesis
    by (simp add: broker_reserve_def bindI_def callB_def ledgerB_def tryI_def ret_def get broker_at_def sample_driver_calls
        sample_ledger_row(1) sample_reserved_state_def sample_broker_def sample_driver_def)
qed

lemma sample_finalize:
  "broker_finalize sample_broker (sample_envelope id_a) (Aware 2000000) sample_reserved_state =
     (Inr (scale_set_id_text id_a ''7'' (PStr sample_scale_label) ''enabled-awaiting-claim''),
      sample_reserved_state\<lparr>bk_ledger := sample_issued, bk_calls := bk_calls sample_reserved_state
        @ [BindSigned ''7'' (sample_allocation id_a) (sample_envelope id_a), EnableScaleSet ''7'' (PStr sample_scale_label)]\<rparr>)"
proof -
  have projection: "py_eq (PDict (reservation_projection (sample_allocation id_a))) (PDict (sample_offer id_a))"
    by (simp add: reservation_projection_def sample_allocation_def sample_offer_def sample_bound_def PROJECTION_DYNAMIC_def
        without_def pget_def Let_def)
  have "finalize_body (\<lambda>_. sample_hash) (sample_allocation id_a) [sample_bound_row] =
      Inr (''issued'', [set_finalized (sample_allocation id_a) sample_hash sample_bound_row])"
    using projection sample_allocation_safe(1) [of id_a]
    by (simp add: finalize_body_def Let_def sample_allocation_get canonicalize_jcs_def sample_bound_row_def select_key_Cons fresh_row_def
        update_key_def del: py_eq.simps jcs_safe.simps)
  then have final: "finalize (\<lambda>_. sample_hash) sample_time sample_prims (sample_envelope id_a) (Ed25519Key ''der'') sample_hash
      (Aware 2000000) (sample_ledger\<lparr>lg_rows := [sample_bound_row]\<rparr>) = (Inr ''issued'', sample_issued)"
    by (simp add: finalize_def sample_envelope_verifies [OF sample_ids(1)] commit_def sample_issued_def)
  have label: "sample_scale_label \<noteq> []" by (simp add: sample_scale_label_def)
  then have "scale_set_binding sample_issued id_a = Inr (PStr sample_scale_label, ''7'')"
    by (simp add: scale_set_binding_def sample_issued_def set_finalized_def sample_bound_row_def fresh_row_def select_key_Cons Let_def
        sample_allocation_get)
  moreover have "dict_of (pget (dict_of (sample_envelope id_a)) ''payload'') = sample_allocation id_a"
    "fmt (pget (sample_allocation id_a) ''allocation_id'') = id_a"
    by (simp_all add: sample_envelope_def pget_def sample_allocation_get [unfolded pget_def])
  moreover have "br_prims sample_broker = sample_prims" "br_public_key sample_broker = Ed25519Key ''der''"
    "br_fingerprint sample_broker = sample_hash"
    "gd_bind_signed (driverB sample_broker) i d v w = (Inr (), w)" "gd_enable (driverB sample_broker) i n w = (Inr (), w)" for i d v n w
    by (simp_all add: sample_broker_def sample_driver_def)
  ultimately show ?thesis
    by (simp add: broker_finalize_def bindI_def ledgerB_def sample_driver_calls final Let_def lookupB_def readI_def
        callB_def ret_def sample_reserved_state_def)
qed

definition sample_context :: pydict where
  "sample_context = [(''repository_id'', PStr ''9''), (''repository'', PStr ''o/r''), (''dispatch_sha'', PStr (replicate 40 (CHR ''a''))),
     (''tested_sha'', PStr (replicate 40 (CHR ''a''))), (''workflow_ref'', PStr ''o/r/.github/workflows/ci.yml@refs/heads/main''),
     (''run_id'', PStr ''1''), (''run_attempt'', PInt 1), (''job_name'', PStr ''ci''), (''runner_name'', PStr ''r''),
     (''scale_set_name'', PStr sample_scale_label)]"

lemma sample_context_get:
  "map (pget sample_context) SIGNED_CONTEXT_FIELDS = map (pget (sample_allocation id_a)) SIGNED_CONTEXT_FIELDS"
  by (simp add: SIGNED_CONTEXT_FIELDS_def sample_allocation_get) (simp add: pget_def sample_context_def)

lemma sample_started:
  "br_timeout sample_broker = seconds 45"
  "gd_disable (driverB sample_broker) i n u w = (Inr (), w)"
  "observe_claim sample_broker sid name p cx t = callB (RunnerClaim sid name (pget cx ''runner_name'')) (\<lambda>w. (Inr (), w))"
  "observe_live_job sample_broker p cx t = callB (LiveJob p) (\<lambda>w. (Inr (), w))"
  by (simp_all add: sample_broker_def sample_driver_def observe_claim_def observe_live_job_def)

lemma observed_at_once:
  assumes "\<And>t. observe t = callB c (\<lambda>w. (Inr (), w))" and "bk_world s < deadline"
  shows "wait_for_observation (Suc n) sample_broker observe deadline s = (Inr (), s\<lparr>bk_calls := bk_calls s @ [c]\<rparr>)"
  using assms(2) by (simp add: bindI_def clockB_def sample_driver_calls tryElseI_def assms(1) callB_def ret_def)

lemma sample_waits:
  assumes "bk_world s < d"
  shows "wait_for_observation (br_fuel sample_broker) sample_broker (observe_claim sample_broker sid name p cx) d s =
      (Inr (), s\<lparr>bk_calls := bk_calls s @ [RunnerClaim sid name (pget cx ''runner_name'')]\<rparr>)"
    and "wait_for_observation (br_fuel sample_broker) sample_broker (observe_live_job sample_broker p cx) d s =
      (Inr (), s\<lparr>bk_calls := bk_calls s @ [LiveJob p]\<rparr>)"
proof -
  have fuel: "br_fuel sample_broker = Suc 46" by (simp add: sample_broker_def)
  show "wait_for_observation (br_fuel sample_broker) sample_broker (observe_claim sample_broker sid name p cx) d s =
      (Inr (), s\<lparr>bk_calls := bk_calls s @ [RunnerClaim sid name (pget cx ''runner_name'')]\<rparr>)"
    unfolding fuel by (rule observed_at_once [OF sample_started(3) assms])
  show "wait_for_observation (br_fuel sample_broker) sample_broker (observe_live_job sample_broker p cx) d s =
      (Inr (), s\<lparr>bk_calls := bk_calls s @ [LiveJob p]\<rparr>)"
    unfolding fuel by (rule observed_at_once [OF sample_started(4) assms])
qed

lemma sample_admitted:
  assumes "bk_ledger s = sample_issued" and "bk_world s = 0"
  shows "\<exists>t. job_started sample_broker id_a (RawContext sample_context) (Aware 2000000) s = (Inr (), t)"
proof -
  have exact: "job_context_of sample_context = Inr sample_context"
    by (simp add: job_context_of_def sample_context_def CONTEXT_FIELDS_def pget_def dict_eval sample_scale_label_def)
  have self: "py_eq (pget (sample_allocation id_a) f) (pget (sample_allocation id_a) f)" if "f \<in> set SIGNED_CONTEXT_FIELDS" for f
    using that by (auto simp: SIGNED_CONTEXT_FIELDS_def sample_allocation_get)
  have same: "mismatched_fields (sample_allocation id_a) sample_context = []"
    using self sample_context_get by (simp add: mismatched_fields_def filter_empty_conv)
  have found: "ledger_payload sample_issued id_a = Inr (sample_allocation id_a)"
    "scale_set_binding sample_issued id_a = Inr (PStr sample_scale_label, ''7'')"
    by (simp_all add: ledger_payload_def scale_set_binding_def sample_issued_def set_finalized_def sample_bound_row_def fresh_row_def
        select_key_Cons Let_def sample_scale_label_def)
  have keys: "list_all (\<lambda>f. f \<in> set (pkeys (sample_allocation id_a))) SIGNED_CONTEXT_FIELDS"
    by (simp add: SIGNED_CONTEXT_FIELDS_def sample_allocation_def sample_bound_def pkeys_def)
  have deadline: "map_of (sample_allocation id_a) ''claim_deadline'' = None"
    by (simp add: sample_allocation_def sample_bound_def)
  have "\<exists>r l. transition (\<lambda>_. sample_hash) sample_time id_a ''admit-job'' (admit_args (Aware 2000000)) sample_issued = (Inr r, l)"
    by (simp add: transition_def transition_body_def ALLOWED_ACTIONS_def aware_now_def admit_args_def no_args_def sample_issued_def
        set_finalized_def sample_bound_row_def fresh_row_def select_key_Cons lease_times_def sample_allocation_get pget_or_def
        sample_alloc_texts deadline next_row_def admit_job_def commit_def)
  then obtain r l where "transition (\<lambda>_. sample_hash) sample_time id_a ''admit-job'' (admit_args (Aware 2000000)) sample_issued = (Inr r, l)"
    by blast
  then show ?thesis
    using assms
    by (simp add: job_started_def checked_context_def denyI_def tryI_def pure_io_def exact bindI_def lookupB_def readI_def found keys same
        observe_and_admit_def clockB_def sample_driver_calls sample_started(1,2) sample_waits disable_for_job_def admit_started_def shifted_def
        callB_def ledgerB_def RUNNER_HOOK_BUDGET_def ret_def)
qed
theorem replayed_finalization_enables_again_witness:
  "\<exists>a s0 r s1 s2 sid name s3.
       broker_reserve sample_broker (sample_offer id_a) (Aware 2000000) (broker_at empty_ledger) = (Inr a, s0)
     \<and> broker_finalize sample_broker (sample_envelope id_a) (Aware 2000000) s0 = (Inr r, s1)
     \<and> job_started sample_broker id_a (RawContext sample_context) (Aware 2000000) s1 = (Inr (), s2)
     \<and> last (bk_calls s2) = DisableScaleSet sid name \<and> phase id_a (bk_ledger s2) = Some ''running''
     \<and> broker_finalize sample_broker (sample_envelope id_a) (Aware 2000000) s2
         = (Inr (scale_set_id_text id_a sid name ''enabled-awaiting-claim''), s3)
     \<and> last (bk_calls s3) = EnableScaleSet sid name"
proof -
  have parts: "dict_of (pget (dict_of (sample_envelope id_a)) ''payload'') = sample_allocation id_a"
    "fmt (pget (sample_allocation id_a) ''allocation_id'') = id_a"
    by (simp_all add: sample_envelope_def pget_def sample_allocation_get [unfolded pget_def])
  obtain s1 r where issued: "broker_finalize sample_broker (sample_envelope id_a) (Aware 2000000) sample_reserved_state = (Inr r, s1)"
    and s1: "bk_ledger s1 = sample_issued" "bk_world s1 = 0"
    using sample_finalize by (simp add: sample_reserved_state_def)
  obtain s2 where started: "job_started sample_broker id_a (RawContext sample_context) (Aware 2000000) s1 = (Inr (), s2)"
    using sample_admitted [OF s1] by blast
  have verifies: "verify_allocation (br_hash sample_broker) (br_iso sample_broker) (br_prims sample_broker) (sample_envelope id_a)
      (br_public_key sample_broker) (br_fingerprint sample_broker) (Aware 2000000) = Inr (sample_allocation id_a)"
    using sample_envelope_verifies [OF sample_ids(1)] by (simp add: sample_broker_def)
  have "fst (gd_bind_signed (driverB sample_broker) sid p v w) = Inr ()" "fst (gd_enable (driverB sample_broker) sid name w) = Inr ()"
    for sid p v name w
    by (simp_all add: sample_broker_def sample_driver_def)
  from replayed_finalization_enables_again [OF issued, unfolded parts, OF started verifies this]
  obtain sid name s3 where "last (bk_calls s2) = DisableScaleSet sid name" "phase id_a (bk_ledger s2) = Some ''running''"
    "broker_finalize sample_broker (sample_envelope id_a) (Aware 2000000) s2
      = (Inr (scale_set_id_text id_a sid name ''enabled-awaiting-claim''), s3)"
    "bk_calls s3 = bk_calls s2 @ [BindSigned sid (sample_allocation id_a) (sample_envelope id_a), EnableScaleSet sid name]"
    by blast
  then have "last (bk_calls s3) = EnableScaleSet sid name" by simp
  show ?thesis
    by (intro exI conjI) (rule sample_reserve issued started | fact)+
qed

end
