(* ===== verification/Worker_State.thy ===== *)
theory Worker_State
  imports Worker_Errors Py_Effects Canonical_Json
begin

text \<open>
  \<open>outbound_worker.py\<close>, the class \<open>WorkerState\<close>: one durable row per request in SQLite. The TEXT
  columns hold the JSON texts that the class writes itself; they are kept as the dictionaries they
  denote, and two requests are compared by their texts, as the code does. Times are microseconds.
\<close>

section \<open>The table\<close>

record work_row =
  wk_id :: string
  wk_state :: string
  wk_result :: "pydict option"
  wk_request :: "pydict option"
  wk_progress :: pydict
  wk_lease :: "int option"

type_synonym 'a wdb = "(work_row list, wk_exc, 'a) io"

abbreviation wk_find :: "string \<Rightarrow> work_row list \<Rightarrow> work_row option" where
  "wk_find \<equiv> select_key wk_id"

definition encoded :: "pydict \<Rightarrow> string" where
  "encoded d = json_text (PDict d)"

text \<open>\<open>json.dumps\<close> of a value that is not JSON raises \<open>TypeError\<close>.\<close>

definition encode :: "pydict \<Rightarrow> 'a wdb \<Rightarrow> 'a wdb" where
  "encode d m = (if json_safe (PDict d) then m else throw PyTypeError)"

text \<open>\<open>UPDATE ... WHERE id=? AND c\<close>, and whether \<open>changes()\<close> is 1.\<close>

definition wk_update :: "string \<Rightarrow> (work_row \<Rightarrow> bool) \<Rightarrow> (work_row \<Rightarrow> work_row) \<Rightarrow> bool wdb" where
  "wk_update key c f rows =
     (case wk_find key rows of
        Some r \<Rightarrow> if c r then (Inr True, update_key wk_id f key rows) else (Inr False, rows)
      | None \<Rightarrow> (Inr False, rows))"

definition changed_one :: "bool wdb \<Rightarrow> unit wdb" where
  "changed_one m = bindI m (\<lambda>b. requireI b WorkerError)"

abbreviation in_state :: "string \<Rightarrow> work_row \<Rightarrow> bool" where
  "in_state st r \<equiv> wk_state r = st"

section \<open>Operations\<close>

definition wk_done :: "string \<Rightarrow> pydict option wdb" where
  "wk_done key = readI (\<lambda>rows.
     case wk_find key rows of
       Some r \<Rightarrow>
         if wk_state r = ''completing'' \<or> wk_state r = ''done'' then
           (case wk_result r of None \<Rightarrow> Inl PyTypeError | Some d \<Rightarrow> Inr (Some d))
         else Inr None
     | None \<Rightarrow> Inr None)"

text \<open>The oldest completing row, or else the oldest row to retry.\<close>

definition first_recoverable :: "work_row list \<Rightarrow> work_row option" where
  "first_recoverable rows =
     (case filter (in_state ''completing'') rows of
        r # _ \<Rightarrow> Some r
      | [] \<Rightarrow> (case filter (in_state ''retry'') rows of r # _ \<Rightarrow> Some r | [] \<Rightarrow> None))"

definition wk_recoverable :: "pydict option wdb" where
  "wk_recoverable = readI (\<lambda>rows.
     case first_recoverable rows of
       None \<Rightarrow> Inr None
     | Some r \<Rightarrow> (case wk_request r of None \<Rightarrow> Inl PyTypeError | Some d \<Rightarrow> Inr (Some d)))"

definition wk_recover_running :: "int wdb" where
  "wk_recover_running = (\<lambda>rows.
     (Inr (int (length (filter (in_state ''running'') rows))),
      map (\<lambda>r. if wk_state r = ''running'' then r\<lparr>wk_state := ''retry'', wk_lease := None\<rparr> else r) rows))"

definition new_work :: "string \<Rightarrow> pydict \<Rightarrow> int \<Rightarrow> work_row" where
  "new_work key request lease =
     \<lparr>wk_id = key, wk_state = ''running'', wk_result = None, wk_request = Some request, wk_progress = [], wk_lease = Some lease\<rparr>"

definition leased :: "work_row \<Rightarrow> int \<Rightarrow> bool" where
  "leased r now = (case wk_lease r of None \<Rightarrow> False | Some t \<Rightarrow> now < t)"

definition claim_running :: "pydict \<Rightarrow> int \<Rightarrow> work_row \<Rightarrow> work_row" where
  "claim_running request lease r = r\<lparr>wk_state := ''running'', wk_request := Some request, wk_lease := Some lease\<rparr>"

definition wk_claim :: "string \<Rightarrow> pydict \<Rightarrow> int \<Rightarrow> int \<Rightarrow> string wdb" where
  "wk_claim key request now lease =
     encode request (\<lambda>rows.
       case wk_find key rows of
         None \<Rightarrow> (Inr ''acquired'', rows @ [new_work key request (now + lease)])
       | Some r \<Rightarrow>
           if wk_state r = ''failed'' then (Inr ''failed'', rows)
           else if wk_state r = ''done'' then (Inr ''done'', rows)
           else if wk_state r = ''completing'' then (Inr ''completing'', rows)
           else if (case wk_request r of None \<Rightarrow> False | Some d \<Rightarrow> encoded d \<noteq> encoded request) then (Inl WorkerError, rows)
           else if wk_state r = ''running'' \<and> leased r now then (Inr ''busy'', rows)
           else (Inr ''acquired'', update_key wk_id (claim_running request (now + lease)) key rows))"

definition wk_get_progress :: "string \<Rightarrow> pydict wdb" where
  "wk_get_progress key = readI (\<lambda>rows.
     case wk_find key rows of None \<Rightarrow> Inl WorkerError | Some r \<Rightarrow> Inr (wk_progress r))"

definition set_progress :: "pydict \<Rightarrow> int \<Rightarrow> work_row \<Rightarrow> work_row" where
  "set_progress d lease r = r\<lparr>wk_progress := d, wk_lease := Some lease\<rparr>"

definition RECORD_LEASE :: int where
  "RECORD_LEASE = seconds 300"

definition wk_record :: "string \<Rightarrow> pyval \<Rightarrow> pydict \<Rightarrow> int \<Rightarrow> unit wdb" where
  "wk_record key ph values now =
     bindI (wk_get_progress key) (\<lambda>current.
     let d = pset ''phase'' ph (pmerge current values)
     in encode d (changed_one (wk_update key (in_state ''running'') (set_progress d (now + RECORD_LEASE)))))"

definition wk_finish :: "string \<Rightarrow> pydict \<Rightarrow> unit wdb" where
  "wk_finish key result =
     encode result (changed_one (wk_update key (in_state ''running'')
       (\<lambda>r. r\<lparr>wk_state := ''completing'', wk_result := Some result, wk_lease := None\<rparr>)))"

definition wk_delivered :: "string \<Rightarrow> unit wdb" where
  "wk_delivered key = changed_one (wk_update key (in_state ''completing'') (\<lambda>r. r\<lparr>wk_state := ''done''\<rparr>))"

definition wk_fail :: "string \<Rightarrow> unit wdb" where
  "wk_fail key =
     bindI (wk_update key (in_state ''running'') (\<lambda>r. r\<lparr>wk_state := ''retry'', wk_lease := None\<rparr>)) (\<lambda>_. ret ())"

definition failure :: "string \<Rightarrow> pydict" where
  "failure reason = [(''status'', PStr ''failed''), (''reason'', PStr reason)]"

text \<open>\<open>terminal\<close> has no condition on the state.\<close>

definition wk_terminal :: "string \<Rightarrow> string \<Rightarrow> string \<Rightarrow> unit wdb" where
  "wk_terminal key ph reason =
     bindI (wk_get_progress key) (\<lambda>progress.
     let d = pset ''failure_reason'' (PStr reason) (pset ''phase'' (PStr ph) progress)
     in encode d (bindI (wk_update key (\<lambda>_. True)
          (\<lambda>r. r\<lparr>wk_state := ''failed'', wk_progress := d, wk_result := Some (failure reason), wk_lease := None\<rparr>)) (\<lambda>_. ret ())))"

definition terminal_view :: "work_row \<Rightarrow> wk_exc + pydict" where
  "terminal_view r =
     (case wk_result r of
        None \<Rightarrow> Inl PyTypeError
      | Some d \<Rightarrow> Inr (pset ''phase'' (pget (wk_progress r) ''phase'') (pmerge [(''request_id'', PStr (wk_id r))] d)))"

fun collect :: "('a \<Rightarrow> 'e + 'b) \<Rightarrow> 'a list \<Rightarrow> 'e + 'b list" where
  "collect f [] = Inr []"
| "collect f (x # xs) = bindE (f x) (\<lambda>y. bindE (collect f xs) (\<lambda>ys. Inr (y # ys)))"

definition wk_terminals :: "pydict list wdb" where
  "wk_terminals = readI (\<lambda>rows. collect terminal_view (filter (in_state ''failed'') rows))"

definition wk_abort :: "string \<Rightarrow> string \<Rightarrow> unit wdb" where
  "wk_abort key reason =
     changed_one (wk_update key (in_state ''running'')
       (\<lambda>r. r\<lparr>wk_state := ''failed'', wk_result := Some (failure reason), wk_lease := None\<rparr>))"

end
