(* ===== verification/Pilot_Worker.thy ===== *)
theory Pilot_Worker
  imports Worker_State Pilot_Checks Jit_Pilot Allocation Github_Contracts
begin

text \<open>
  \<open>outbound_worker.py\<close>, the class \<open>PilotWorker\<close> with the containment of \<open>_AssignmentWorker\<close>: one
  cycle takes one request through reservation, dispatch, observation, finalization, the terminal
  monitor and the report, and records each step durably before and after it acts. The source of
  requests, the broker, GitHub, the signer and the clocks are ports on the state of the outside
  world; a port may raise, and may stop the process (\<open>Halt\<close>) at any call. Calls that act outside are
  logged.
\<close>

section \<open>Ports and state\<close>

record 'w worker_ports =
  pw_poll :: "'w \<Rightarrow> (wk_exc + pydict option) \<times> 'w"
  pw_claim :: "string \<Rightarrow> pydict \<Rightarrow> int \<Rightarrow> 'w \<Rightarrow> (wk_exc + unit) \<times> 'w"
  pw_resume :: "string \<Rightarrow> pydict \<Rightarrow> int \<Rightarrow> 'w \<Rightarrow> (wk_exc + pydict) \<times> 'w"
  pw_retry :: "string \<Rightarrow> string \<Rightarrow> 'w \<Rightarrow> (wk_exc + unit) \<times> 'w"
  pw_complete :: "string \<Rightarrow> pydict \<Rightarrow> 'w \<Rightarrow> (wk_exc + unit) \<times> 'w"
  pw_fail :: "string \<Rightarrow> string \<Rightarrow> 'w \<Rightarrow> (wk_exc + unit) \<times> 'w"
  pw_supersession :: "(string \<Rightarrow> pydict \<Rightarrow> 'w \<Rightarrow> (wk_exc + pyval) \<times> 'w) option"
  pw_clock :: "'w \<Rightarrow> instant \<times> 'w"
  pw_time :: "'w \<Rightarrow> int \<times> 'w"
  pw_reserve :: "pydict \<Rightarrow> 'w \<Rightarrow> (wk_exc + pydict) \<times> 'w"
  pw_finalize :: "pydict \<Rightarrow> 'w \<Rightarrow> (wk_exc + pydict) \<times> 'w"
  pw_recover :: "string \<Rightarrow> 'w \<Rightarrow> (wk_exc + pyval) \<times> 'w"
  pw_finish :: "string \<Rightarrow> string \<Rightarrow> 'w \<Rightarrow> (wk_exc + unit) \<times> 'w"
  pw_prove_clean :: "string \<Rightarrow> string \<Rightarrow> 'w \<Rightarrow> (wk_exc + pydict) \<times> 'w"
  pw_record_outcome :: "(pydict \<Rightarrow> 'w \<Rightarrow> (wk_exc + pyval) \<times> 'w) option"
  pw_dispatch :: "pydict \<Rightarrow> 'w \<Rightarrow> (wk_exc + pyval) \<times> 'w"
  pw_observe :: "pyval \<Rightarrow> pyval \<Rightarrow> 'w \<Rightarrow> (wk_exc + ObservedWorkflowJob) \<times> 'w"
  pw_cancel :: "pyval \<Rightarrow> 'w \<Rightarrow> (wk_exc + pyval) \<times> 'w"
  pw_run :: "pyval \<Rightarrow> 'w \<Rightarrow> (wk_exc + pydict) \<times> 'w"
  pw_jobs :: "pyval \<Rightarrow> 'w \<Rightarrow> (wk_exc + pydict) \<times> 'w"
  pw_sign :: "pydict \<Rightarrow> 'w \<Rightarrow> (wk_exc + pydict) \<times> 'w"
  pw_sleep :: "int \<Rightarrow> 'w \<Rightarrow> 'w"
  pw_monotonic :: "'w \<Rightarrow> int \<times> 'w"
  pw_checks :: "'w publisher option"
  pw_repository :: "string option"
  pw_claim_ttl :: int
  pw_cancel_timeout :: int
  pw_cancel_poll :: int
  pw_iso :: "string \<Rightarrow> pydatetime option"
  pw_hash :: "string \<Rightarrow> string"
  pw_fuel :: nat

text \<open>The checks of \<open>__init__\<close> on the three durations.\<close>

definition worker_durations :: "int \<Rightarrow> int \<Rightarrow> int \<Rightarrow> wk_exc + unit" where
  "worker_durations claim_ttl cancel_timeout cancel_poll =
     bindE (requireE (0 < claim_ttl \<and> claim_ttl \<le> minutes 15) PyValueError) (\<lambda>_.
     bindE (requireE (0 < cancel_timeout) PyValueError) (\<lambda>_.
     requireE (0 < cancel_poll \<and> cancel_poll \<le> cancel_timeout) PyValueError))"

datatype worker_call =
    CallReserve pydict
  | CallDispatch string pydict
  | CallFinalize pydict
  | CallRecover string
  | CallFinish string string
  | CallCancel pyval
  | CallDiscard string
  | CallComplete string pydict
  | CallFail string string
  | CallRetry string string

text \<open>\<open>ws_reason\<close> is the cell through which the monitor's question hands its answer to the cancellation.\<close>

record 'w worker =
  ws_db :: "work_row list"
  ws_world :: 'w
  ws_calls :: "worker_call list"
  ws_reason :: "string option"

type_synonym ('w, 'a) wio = "('w worker, wk_exc, 'a) io"

definition portW :: "('w \<Rightarrow> (wk_exc + 'a) \<times> 'w) \<Rightarrow> ('w, 'a) wio" where
  "portW f = (\<lambda>s. case f (ws_world s) of (r, w) \<Rightarrow> (r, s\<lparr>ws_world := w\<rparr>))"

definition callW :: "worker_call \<Rightarrow> ('w \<Rightarrow> (wk_exc + 'a) \<times> 'w) \<Rightarrow> ('w, 'a) wio" where
  "callW c f = (\<lambda>s. case f (ws_world s) of (r, w) \<Rightarrow> (r, s\<lparr>ws_world := w, ws_calls := ws_calls s @ [c]\<rparr>))"

definition logW :: "worker_call \<Rightarrow> ('w, unit) wio" where
  "logW c = modifyI (\<lambda>s. s\<lparr>ws_calls := ws_calls s @ [c]\<rparr>)"

definition tickW :: "('w \<Rightarrow> 'a \<times> 'w) \<Rightarrow> ('w, 'a) wio" where
  "tickW f = (\<lambda>s. case f (ws_world s) of (r, w) \<Rightarrow> (Inr r, s\<lparr>ws_world := w\<rparr>))"

definition dbW :: "'a wdb \<Rightarrow> ('w, 'a) wio" where
  "dbW m = (\<lambda>s. case m (ws_db s) of (r, rows) \<Rightarrow> (r, s\<lparr>ws_db := rows\<rparr>))"

abbreviation progressW :: "string \<Rightarrow> ('w, pydict) wio" where
  "progressW key \<equiv> dbW (wk_get_progress key)"

definition recordW :: "'w worker_ports \<Rightarrow> string \<Rightarrow> pyval \<Rightarrow> pydict \<Rightarrow> ('w, unit) wio" where
  "recordW p key ph values = bindI (tickW (pw_time p)) (\<lambda>now. dbW (wk_record key ph values now))"

text \<open>\<open>_record\<close>: after the record the source's claim is renewed for the request of this cycle.\<close>

definition recordclaimW :: "'w worker_ports \<Rightarrow> pydict \<Rightarrow> string \<Rightarrow> string \<Rightarrow> pydict \<Rightarrow> ('w, unit) wio" where
  "recordclaimW p request key ph values =
     bindI (recordW p key (PStr ph) values) (\<lambda>_. portW (pw_claim p key request 7200))"

text \<open>\<open>self.source.clock().replace(microsecond=0)\<close>.\<close>

definition nowW :: "'w worker_ports \<Rightarrow> ('w, instant) wio" where
  "nowW p = bindI (tickW (pw_clock p)) (\<lambda>t. ret (whole_second t))"

definition or_value :: "pyval \<Rightarrow> pyval \<Rightarrow> pyval" where
  "or_value v w = (if py_truthy v then v else w)"

definition worker_errors :: "wk_exc \<Rightarrow> bool" where
  "worker_errors e = (isa e ''WorkerError'' \<or> isa e ''RunnerJitError'' \<or> isa e ''OSError'')"

definition contained_errors :: "wk_exc \<Rightarrow> bool" where
  "contained_errors e = (worker_errors e \<or> isa e ''GateCheckError'')"

definition github_errors :: "wk_exc \<Rightarrow> bool" where
  "github_errors e = (isa e ''LocalApprovalError'' \<or> isa e ''WorkerAuthorityError'' \<or> isa e ''OSError'')"

text \<open>\<open>v[k]\<close> on a JSON value that is not checked before.\<close>

definition index_of :: "pyval \<Rightarrow> string \<Rightarrow> wk_exc + pyval" where
  "index_of v k =
     (case v of
        PDict d \<Rightarrow> (case map_of d k of None \<Rightarrow> Inl PyKeyError | Some w \<Rightarrow> Inr w)
      | _ \<Rightarrow> Inl PyTypeError)"

definition indexW :: "pyval \<Rightarrow> string \<Rightarrow> ('w, pyval) wio" where
  "indexW v k = pure_io (index_of v k)"

section \<open>Exceptions of the contracts\<close>

fun exc_of_pilot :: "jp_error \<Rightarrow> wk_exc" where
  "exc_of_pilot JitPilotError = Exc ''JitPilotError'' [''ValueError'']"
| "exc_of_pilot PilotTypeError = PyTypeError"
| "exc_of_pilot PilotAttributeError = PyAttributeError"
| "exc_of_pilot PilotOSError = Exc ''OSError'' []"
| "exc_of_pilot (PilotFault e) = e"

fun exc_of_crypto :: "crypto_error \<Rightarrow> wk_exc" where
  "exc_of_crypto (CryptoContractError s) = Exc ''CryptoContractError'' [''ValueError'']"
| "exc_of_crypto (CanonicalizationError s) = Exc ''CanonicalizationError'' [''CryptoContractError'', ''ValueError'']"
| "exc_of_crypto (SignatureContractError s) = Exc ''SignatureContractError'' [''CryptoContractError'', ''ValueError'']"
| "exc_of_crypto (ManifestContractError s) = Exc ''ManifestContractError'' [''CryptoContractError'', ''ValueError'']"
| "exc_of_crypto (AttestationContractError s) = Exc ''AttestationContractError'' [''CryptoContractError'', ''ValueError'']"
| "exc_of_crypto (CrTypeError s) = PyTypeError"
| "exc_of_crypto CrStopIteration = Exc ''StopIteration'' []"

fun exc_of_runner :: "rj_error \<Rightarrow> wk_exc" where
  "exc_of_runner (RunnerJitError s) = Exc ''RunnerJitError'' [''ValueError'']"
| "exc_of_runner (RunnerJitTemporalError s) = Exc ''RunnerJitTemporalError'' [''RunnerJitError'', ''ValueError'']"
| "exc_of_runner (ApprovalExpired s) = Exc ''ApprovalExpired'' [''RunnerJitTemporalError'', ''RunnerJitError'', ''ValueError'']"
| "exc_of_runner (AllocationClaimExpired s) =
     Exc ''AllocationClaimExpired'' [''RunnerJitTemporalError'', ''RunnerJitError'', ''ValueError'']"
| "exc_of_runner (InvalidLifecycleTransition s) = Exc ''InvalidLifecycleTransition'' [''RunnerJitError'', ''ValueError'']"
| "exc_of_runner (RjCrypto c) = exc_of_crypto c"
| "exc_of_runner RjTypeError = PyTypeError"
| "exc_of_runner RjOverflowError = Exc ''OverflowError'' []"

definition liftP :: "jp_error + 'a \<Rightarrow> ('w, 'a) wio" where
  "liftP r = pure_io (map_sum exc_of_pilot id r)"

definition liftA :: "rj_error + 'a \<Rightarrow> ('w, 'a) wio" where
  "liftA r = pure_io (map_sum exc_of_runner id r)"

section \<open>Check Runs\<close>

text \<open>The publisher of the outside world, seen from the worker's state.\<close>

definition checks_client :: "'w gate_client \<Rightarrow> 'w worker gate_client" where
  "checks_client g =
     \<lparr>gc_authority = gc_authority g,
      gc_clock = (\<lambda>s. case gc_clock g (ws_world s) of (t, w) \<Rightarrow> (t, s\<lparr>ws_world := w\<rparr>)),
      gc_sign = gc_sign g, gc_http = (\<lambda>m url bearer body. portW (gc_http g m url bearer body)), gc_iso = gc_iso g,
      gc_digest = gc_digest g\<rparr>"

definition checks_publisher :: "'w publisher \<Rightarrow> 'w worker publisher" where
  "checks_publisher pub =
     \<lparr>pu_client = checks_client (pu_client pub), pu_job_log = (\<lambda>i. portW (pu_job_log pub i))\<rparr>"

definition repository_text :: "'w worker_ports \<Rightarrow> string" where
  "repository_text p = (case pw_repository p of None \<Rightarrow> ''None'' | Some r \<Rightarrow> r)"

definition details_url :: "'w worker_ports \<Rightarrow> pyval \<Rightarrow> pyval \<Rightarrow> string" where
  "details_url p run_id job_id =
     ''https://github.com/'' @ repository_text p @ ''/actions/runs/'' @ fmt run_id @ ''/job/'' @ fmt job_id"

definition nonempty_dict :: "pyval \<Rightarrow> bool" where
  "nonempty_dict v = (case v of PDict d \<Rightarrow> d \<noteq> [] | _ \<Rightarrow> False)"

definition open_checks ::
    "'w worker_ports \<Rightarrow> pydict \<Rightarrow> string \<Rightarrow> pydict \<Rightarrow> JitPilotPackageV1 \<Rightarrow> pyval \<Rightarrow> pyval \<Rightarrow> ('w, unit) wio" where
  "open_checks p request key progress package run_id job_id =
     (if nonempty_dict (pget progress ''checks'') then ret ()
      else case (pw_checks p, pw_repository p) of
        (Some pub, Some _) \<Rightarrow>
          tryElseI (start_checks (checks_publisher pub) (pp_head_sha package) (details_url p run_id job_id))
            (\<lambda>e. if gate_or_os e then ret () else throw e)
            (\<lambda>opened. recordclaimW p request key ''checks-open'' [(''checks'', PDict opened)])
      | _ \<Rightarrow> ret ())"

text \<open>How an assignment ended, for its Check Runs.\<close>

datatype closing =
    CloseDiscarded string
  | CloseConcluded pyval string
  | CloseAbandoned string

definition close_with :: "'w worker publisher \<Rightarrow> closing \<Rightarrow> pydict \<Rightarrow> string \<Rightarrow> ('w, unit) wio" where
  "close_with pub how checks details =
     (case how of
        CloseDiscarded reason \<Rightarrow> bindI (discard_checks pub checks reason details) (\<lambda>_. ret ())
      | CloseConcluded job_id conclusion \<Rightarrow>
          (case job_id of
             PInt i \<Rightarrow> bindI (conclude_checks pub checks i conclusion details) (\<lambda>_. ret ())
           | _ \<Rightarrow> throw PyTypeError)
      | CloseAbandoned reason \<Rightarrow> bindI (abandon_checks pub checks reason details) (\<lambda>_. ret ()))"

definition closing_job :: "closing \<Rightarrow> pyval" where
  "closing_job how = (case how of CloseConcluded job_id _ \<Rightarrow> job_id | _ \<Rightarrow> PNone)"

definition close_checks :: "'w worker_ports \<Rightarrow> string \<Rightarrow> closing \<Rightarrow> ('w, bool) wio" where
  "close_checks p key how =
     (case pw_checks p of
        None \<Rightarrow> ret True
      | Some pub \<Rightarrow>
          tryElseI (progressW key) (\<lambda>e. if isa e ''WorkerError'' then ret False else throw e) (\<lambda>progress.
          if \<not> nonempty_dict (pget progress ''checks'') \<or> py_truthy (pget progress ''checks_closed'') then ret True
          else
            let observed = dict_of (pget progress ''observed'');
                details = details_url p (pget progress ''run_id'')
                  (or_value (or_value (pget observed ''job_id'') (closing_job how)) (PInt 0))
            in tryElseI (close_with (checks_publisher pub) how (dict_of (pget progress ''checks'')) details)
              (\<lambda>e. if gate_or_os e then
                  bindI (tryI (recordW p key (or_value (pget progress ''phase'') (PStr ''checks-close-failed''))
                      [(''checks_close_failed'', PStr (type_name e))])
                    (\<lambda>e1. if isa e1 ''WorkerError'' then ret () else throw e1)) (\<lambda>_. ret False)
                else throw e)
              (\<lambda>_. tryElseI (recordW p key (or_value (pget progress ''phase'') (PStr ''checks-closed''))
                    [(''checks_closed'', PBool True)])
                (\<lambda>e. if isa e ''WorkerError'' then ret False else throw e) (\<lambda>_. ret True))))"

section \<open>Supersession and outcomes\<close>

definition supersession :: "'w worker_ports \<Rightarrow> string \<Rightarrow> pydict \<Rightarrow> ('w, string option) wio" where
  "supersession p key request =
     (case pw_supersession p of
        None \<Rightarrow> ret None
      | Some f \<Rightarrow> bindI (portW (f key request)) (\<lambda>v.
          case v of
            PNone \<Rightarrow> ret None
          | PStr reason \<Rightarrow> if reason = [] then throw WorkerError else ret (Some reason)
          | _ \<Rightarrow> throw WorkerError))"

definition REASON_CAUSES :: "(string \<times> string) list" where
  "REASON_CAUSES =
     [(''a newer commit superseded this pull request head'', ''superseded-head''),
      (''the default branch moved before this run was admitted'', ''superseded-base''),
      (''the pull request merge ref changed before this run was admitted'', ''superseded-merge''),
      (''the pull request was closed before this run was admitted'', ''pr-closed'')]"

definition cause_for_reason :: "string \<Rightarrow> string" where
  "cause_for_reason reason = (case map_of REASON_CAUSES reason of None \<Rightarrow> ''worker-error'' | Some c \<Rightarrow> c)"

definition outcome_report ::
    "string \<Rightarrow> pyval \<Rightarrow> pyval list \<Rightarrow> pydict \<Rightarrow> string \<Rightarrow> instant \<Rightarrow> pyval \<Rightarrow> pyval \<Rightarrow> pyval \<Rightarrow> bool \<Rightarrow> pydict" where
  "outcome_report key allocation_id identity progress cause occurred run_id job_id executed success =
     [(''event_key'', PStr (''request:'' @ key @ '':'' @ cause)), (''cause_code'', PStr cause), (''occurred_at'', PStr (stamp occurred)),
      (''allocation_id'', allocation_id), (''run_id'', or_value run_id (pget progress ''run_id'')),
      (''job_id'', or_value job_id (pget (dict_of (pget progress ''observed'')) ''job_id''))]
     @ zip [''repository'', ''pr_number'', ''head_sha''] identity
     @ [(''executed'', executed), (''success'', PBool success), (''prior_ledger_state'', PNone)]"

definition recorded_receipt :: "pyval \<Rightarrow> bool" where
  "recorded_receipt receipt =
     (case receipt of
        PDict d \<Rightarrow> keys_exact d [''recorded''] \<and> (case pget d ''recorded'' of PBool b \<Rightarrow> True | _ \<Rightarrow> False)
      | _ \<Rightarrow> False)"

definition record_outcomeW ::
    "'w worker_ports \<Rightarrow> string \<Rightarrow> pydict \<Rightarrow> string \<Rightarrow> pyval \<Rightarrow> pyval \<Rightarrow> pyval \<Rightarrow> bool \<Rightarrow> ('w, unit) wio" where
  "record_outcomeW p key request cause run_id job_id executed success =
     (let package = pget request ''pilot_package''
      in bindI (progressW key) (\<lambda>progress.
         bindI (if pget progress ''reserved'' = PNone then ret PNone else indexW package ''allocation_id'') (\<lambda>allocation_id.
         bindI (nowW p) (\<lambda>occurred.
         case pw_record_outcome p of
           None \<Rightarrow> ret ()
         | Some recorder \<Rightarrow>
             bindI (indexW package ''repository'') (\<lambda>repository.
             bindI (indexW package ''pr_number'') (\<lambda>pr_number.
             bindI (indexW package ''head_sha'') (\<lambda>head_sha.
             bindI (portW (recorder (outcome_report key allocation_id [repository, pr_number, head_sha] progress cause
               occurred run_id job_id executed success))) (\<lambda>receipt.
             requireI (recorded_receipt receipt) WorkerError))))))))"

definition recover_exact :: "'w worker_ports \<Rightarrow> string \<Rightarrow> ('w, unit) wio" where
  "recover_exact p allocation_id =
     bindI (callW (CallRecover allocation_id) (pw_recover p allocation_id)) (\<lambda>receipt.
     requireI (py_eq receipt (PDict [(''allocation_id'', PStr allocation_id), (''state'', PStr ''absent'')])) WorkerError)"

definition without_z :: "string \<Rightarrow> string" where
  "without_z s = (if s \<noteq> [] \<and> last s = CHR ''Z'' then butlast s else s)"

definition parse_issued :: "(string \<Rightarrow> pydatetime option) \<Rightarrow> string \<Rightarrow> pydatetime option" where
  "parse_issued reader s = reader (without_z s @ ''+00:00'')"

text \<open>\<open>_recovery_allocation_id\<close>: the two identities must agree, whatever has expired.\<close>

definition recovery_check :: "'w worker_ports \<Rightarrow> pydict \<Rightarrow> pydict \<Rightarrow> ('w, JitPilotPackageV1) wio" where
  "recovery_check p package_value reservation =
     (case (parse_issued (pw_iso p) (fmt (pget_or package_value ''issued_at'' (PStr []))),
            parse_issued (pw_iso p)
              (fmt (pget_or reservation ''approval_issued_at'' (pget_or reservation ''issued_at'' (PStr []))))) of
        (Some package_issued, Some reservation_issued) \<Rightarrow>
          bindI (liftP (pilot_package (pw_iso p) (PDict package_value) package_issued)) (\<lambda>package.
          bindI (liftA (validate_allocation_reservation (pw_hash p) (pw_iso p) (PDict reservation) reservation_issued)) (\<lambda>_.
          ret package))
      | _ \<Rightarrow> throw PyValueError)"

definition recovery_allocation_id :: "'w worker_ports \<Rightarrow> pydict \<Rightarrow> ('w, string) wio" where
  "recovery_allocation_id p request =
     (case (pget request ''pilot_package'', pget request ''reservation'') of
        (PDict package_value, PDict reservation) \<Rightarrow>
          bindI (tryI (recovery_check p package_value reservation)
            (\<lambda>e. throw (if isa e ''TypeError'' \<or> isa e ''ValueError'' then WorkerError else e))) (\<lambda>package.
          if py_eq (pp_backend package) (PStr ''local'')
             \<and> py_eq (pp_allocation_id package) (pget reservation ''allocation_id'')
             \<and> py_eq (pp_runner_label package) (pget reservation ''scale_set_name'')
          then ret (fmt (pp_allocation_id package)) else throw WorkerError)
      | _ \<Rightarrow> throw WorkerError)"

section \<open>Cancellation of a superseded run\<close>

text \<open>The name of what the cancellation call raised, and whether GitHub accepted it.\<close>

definition ask_cancel :: "'w worker_ports \<Rightarrow> pyval \<Rightarrow> ('w, bool \<times> pyval) wio" where
  "ask_cancel p run_id =
     tryI (bindI (callW (CallCancel run_id) (pw_cancel p run_id)) (\<lambda>v. ret (v \<noteq> PBool False, PNone)))
       (\<lambda>e. if github_errors e then ret (False, PStr (type_name e)) else throw e)"

definition cancel_answer :: "'w worker_ports \<Rightarrow> instant \<Rightarrow> bool \<Rightarrow> pyval \<Rightarrow> pydict" where
  "cancel_answer p now accepted error =
     [(''cancel_accepted'', PBool accepted), (''cancel_last_error'', error), (''cancel_next_poll_at'', PStr (stamp (now + pw_cancel_poll p)))]"

definition request_superseded_cancel :: "'w worker_ports \<Rightarrow> string \<Rightarrow> string \<Rightarrow> pyval \<Rightarrow> pyval \<Rightarrow> ('w, unit) wio" where
  "request_superseded_cancel p key reason run_id job_id =
     bindI (nowW p) (\<lambda>now.
     bindI (recordW p key (PStr ''cancel-requesting'')
       [(''run_id'', run_id), (''job_id'', job_id), (''cancel_reason'', PStr reason), (''cancel_requested_at'', PStr (stamp now)),
        (''cancel_deadline'', PStr (stamp (now + pw_cancel_timeout p)))]) (\<lambda>_.
     bindI (ask_cancel p run_id) (\<lambda>(accepted, error).
     recordW p key (PStr ''cancel-requested'') (cancel_answer p now accepted error))))"

definition pilot_status :: "string \<Rightarrow> pyval \<Rightarrow> string \<Rightarrow> pydict" where
  "pilot_status status run_id reason =
     [(''status'', PStr status), (''mode'', PStr ''ci-jit-pilot''), (''run_id'', run_id), (''reason'', PStr reason)]"

definition yieldW :: "string \<Rightarrow> pydict \<Rightarrow> ('w, pydict) wio" where
  "yieldW key status = bindI (dbW (wk_fail key)) (\<lambda>_. ret status)"

definition cancel_pending :: "'w worker_ports \<Rightarrow> string \<Rightarrow> pyval \<Rightarrow> bool \<Rightarrow> pyval \<Rightarrow> ('w, pydict) wio" where
  "cancel_pending p key run_id accepted error =
     bindI (nowW p) (\<lambda>now.
     bindI (recordW p key (PStr ''cancel-requested'') (cancel_answer p now accepted error)) (\<lambda>_.
     yieldW key (pilot_status ''pending'' run_id ''exact run cancellation is converging'')))"

definition TIMEOUT_REASON :: string where
  "TIMEOUT_REASON = ''exact workflow run cancellation exceeded its total timeout''"

definition ignore_refusal :: "('w, unit) wio \<Rightarrow> ('w, unit) wio" where
  "ignore_refusal m = tryI m (\<lambda>e. if isa e ''LocalApprovalError'' then ret () else throw e)"

definition sourcefailW :: "'w worker_ports \<Rightarrow> string \<Rightarrow> string \<Rightarrow> ('w, unit) wio" where
  "sourcefailW p key reason = callW (CallFail key reason) (pw_fail p key reason)"

definition sourceretryW :: "'w worker_ports \<Rightarrow> string \<Rightarrow> string \<Rightarrow> ('w, unit) wio" where
  "sourceretryW p key reason = callW (CallRetry key reason) (pw_retry p key reason)"

definition sourcecompleteW :: "'w worker_ports \<Rightarrow> string \<Rightarrow> pydict \<Rightarrow> ('w, unit) wio" where
  "sourcecompleteW p key result = callW (CallComplete key result) (pw_complete p key result)"

text \<open>The end of \<open>_continue_cancel_recovery\<close>, behind the recovery.\<close>

definition finish_cancel_recovery :: "'w worker_ports \<Rightarrow> string \<Rightarrow> pyval \<Rightarrow> ('w, pydict) wio" where
  "finish_cancel_recovery p key run_id =
     bindI (close_checks p key (CloseAbandoned TIMEOUT_REASON)) (\<lambda>closed.
     if \<not> closed then yieldW key (pilot_status ''retry'' run_id ''cancel timeout Check Run closure remains pending'')
     else
       bindI (ignore_refusal (sourcefailW p key TIMEOUT_REASON)) (\<lambda>_.
       bindI (dbW (wk_abort key TIMEOUT_REASON)) (\<lambda>_.
       ret (pilot_status ''failed'' run_id TIMEOUT_REASON))))"

definition continue_cancel_recovery :: "'w worker_ports \<Rightarrow> string \<Rightarrow> pydict \<Rightarrow> pydict \<Rightarrow> ('w, pydict) wio" where
  "continue_cancel_recovery p key request progress =
     (let run_id = pget progress ''run_id''
      in if py_truthy (pget progress ''cancel_recovery_complete'') then finish_cancel_recovery p key run_id
         else tryElseI (bindI (recovery_allocation_id p request) (recover_exact p))
           (\<lambda>e. if worker_errors e then
               bindI (recordW p key (PStr ''cancel-recovery-pending'') [(''cancel_last_error'', PStr (type_name e))]) (\<lambda>_.
               yieldW key (pilot_status ''retry'' run_id ''cancel timeout recovery remains pending''))
             else throw e)
           (\<lambda>_. bindI (recordW p key (PStr ''cancel-recovery-pending'')
               [(''cancel_recovery_complete'', PBool True), (''cancel_last_error'', PNone)]) (\<lambda>_.
             finish_cancel_recovery p key run_id)))"

definition cancel_not_converged :: "'w worker_ports \<Rightarrow> string \<Rightarrow> pydict \<Rightarrow> pydict \<Rightarrow> ('w, pydict) wio" where
  "cancel_not_converged p key request progress =
     bindI (indexW (PDict progress) ''run_id'') (\<lambda>run_id.
         bindI (recordW p key (PStr ''cancel-timeout-recording'') []) (\<lambda>_.
         tryElseI (record_outcomeW p key request ''cancel-not-converged'' run_id (pget progress ''job_id'') (PBool False) False)
           (\<lambda>e. if worker_errors e then
               bindI (recordW p key (PStr ''cancel-timeout-recording'') [(''cancel_last_error'', PStr (type_name e))]) (\<lambda>_.
               yieldW key (pilot_status ''retry'' run_id ''cancel timeout outcome recording remains pending''))
             else throw e)
           (\<lambda>_. bindI (recordW p key (PStr ''cancel-recovery-pending'') []) (\<lambda>_.
             bindI (progressW key) (\<lambda>latest. continue_cancel_recovery p key request latest)))))"

text \<open>\<open>_cancel_time\<close>: the texts are stamps of the worker itself; \<open>pw_iso\<close> reads no other offset than UTC.\<close>

definition cancel_time :: "'w worker_ports \<Rightarrow> pyval \<Rightarrow> wk_exc + instant" where
  "cancel_time p v =
     (case v of
        PStr s \<Rightarrow>
          (case pw_iso p (concat (map (\<lambda>c. if c = CHR ''Z'' then ''+00:00'' else [c]) s)) of
             Some (Aware t) \<Rightarrow> Inr t | _ \<Rightarrow> Inl WorkerError)
      | _ \<Rightarrow> Inl WorkerError)"

definition durable_cancel :: "pydict \<Rightarrow> bool" where
  "durable_cancel progress =
     (positive_id (pget progress ''run_id'')
      \<and> (pget progress ''job_id'' = PNone \<or> positive_id (pget progress ''job_id''))
      \<and> str_matches (\<lambda>s. s \<noteq> []) (pget progress ''cancel_reason''))"

definition int_of_value :: "pyval \<Rightarrow> int" where
  "int_of_value v = (case v of PInt i \<Rightarrow> i | _ \<Rightarrow> 0)"

text \<open>The rows of the exact local job; without a job identity none is looked for.\<close>

definition cancel_matches :: "pyval \<Rightarrow> pyval \<Rightarrow> pyval \<Rightarrow> pyval list \<Rightarrow> wk_exc + pydict list" where
  "cancel_matches label run_id job_id jobs =
     (if job_id = PNone then Inr []
      else map_sum exc_of_pilot id (exact_jobs (fmt label) (int_of_value run_id) (int_of_value job_id) jobs))"

definition live_status :: "pydict \<Rightarrow> wk_exc + unit" where
  "live_status d =
     bindE (requireE (hashable (pget d ''status'')) PyTypeError) (\<lambda>_.
     requireE (one_of (pget d ''status'') [''queued'', ''in_progress'', ''completed'']) WorkerError)"

definition is_completed :: "pydict \<Rightarrow> bool" where
  "is_completed d = py_eq (pget d ''status'') (PStr ''completed'')"

section \<open>The terminal monitor over the worker\<close>

definition to_pilot :: "('w, 'a) wio \<Rightarrow> 'w worker \<Rightarrow> (jp_error + 'a) \<times> 'w worker" where
  "to_pilot m s = (case m s of (Inl e, s1) \<Rightarrow> (Inl (PilotFault e), s1) | (Inr x, s1) \<Rightarrow> (Inr x, s1))"

text \<open>The supersession question and what follows a positive answer; the request never answers \<open>False\<close>.\<close>

definition monitor_env ::
    "'w worker_ports \<Rightarrow> (('w, string option) wio \<times> (int \<Rightarrow> ('w, unit) wio)) option \<Rightarrow> (string \<Rightarrow> ('w, unit) wio)
     \<Rightarrow> 'w worker pilot_env" where
  "monitor_env p superseding before =
     \<lparr>pe_run = (\<lambda>run_id. to_pilot (portW (pw_run p (PInt run_id)))),
      pe_jobs = (\<lambda>run_id. to_pilot (portW (pw_jobs p (PInt run_id)))),
      pe_sleep = (\<lambda>d s. s\<lparr>ws_world := pw_sleep p d (ws_world s)\<rparr>),
      pe_monotonic = (\<lambda>s. case pw_monotonic p (ws_world s) of (t, w) \<Rightarrow> (t, s\<lparr>ws_world := w\<rparr>)),
      pe_supersession = map_option (\<lambda>(ask, _). to_pilot ask) superseding,
      pe_cancel_run = map_option (\<lambda>(_, cancel) run_id. to_pilot (bindI (cancel run_id) (\<lambda>_. ret (Some True)))) superseding,
      pe_before_finish = Some (\<lambda>c. to_pilot (before c)),
      pe_finish = (\<lambda>a c. to_pilot (callW (CallFinish a c) (pw_finish p a c))),
      pe_prove_clean = (\<lambda>a l. to_pilot (portW (pw_prove_clean p a l)))\<rparr>"

definition MONITOR_TIMEOUT :: int where
  "MONITOR_TIMEOUT = seconds 3600"

definition MONITOR_POLL :: int where
  "MONITOR_POLL = seconds 5"

definition monitorW :: "'w worker_ports \<Rightarrow> 'w worker pilot_env \<Rightarrow> pyval \<Rightarrow> pyval \<Rightarrow> pyval \<Rightarrow> pyval \<Rightarrow> ('w, string option) wio" where
  "monitorW p env allocation_id label run_id job_id =
     (case (allocation_id, label, run_id, job_id) of
        (PStr a, PStr l, PInt r, PInt j) \<Rightarrow>
          (\<lambda>s. case monitor (pw_fuel p) env \<lparr>id_allocation = a, id_label = l, id_run = r, id_job = j\<rparr>
                 MONITOR_TIMEOUT MONITOR_POLL s of
             None \<Rightarrow> (Inl Waiting, s)
           | Some (r, s1) \<Rightarrow> (map_sum exc_of_pilot id r, s1))
      | (PStr a, PStr l, _, _) \<Rightarrow> throw (exc_of_pilot JitPilotError)
      | _ \<Rightarrow> throw PyTypeError)"

definition cancelled_result :: "pyval \<Rightarrow> pyval \<Rightarrow> string \<Rightarrow> string \<Rightarrow> pydict" where
  "cancelled_result run_id job_id outcome reason =
     [(''status'', PStr ''cancelled''), (''mode'', PStr ''ci-jit-pilot''), (''run_id'', run_id), (''job_id'', job_id),
      (''outcome'', PStr outcome), (''reason'', PStr reason)]"

text \<open>\<open>finish\<close>, the delivery at the source, which a revoked approval may refuse, and \<open>delivered\<close>.\<close>

definition deliver_result :: "'w worker_ports \<Rightarrow> bool \<Rightarrow> string \<Rightarrow> pydict \<Rightarrow> ('w, pydict) wio" where
  "deliver_result p refusable key result =
     bindI (dbW (wk_finish key result)) (\<lambda>_.
     bindI (if refusable then ignore_refusal (sourcecompleteW p key result) else sourcecompleteW p key result) (\<lambda>_.
     bindI (dbW (wk_delivered key)) (\<lambda>_. ret result)))"

definition finish_cancelled :: "'w worker_ports \<Rightarrow> string \<Rightarrow> pydict \<Rightarrow> string \<Rightarrow> pyval \<Rightarrow> pyval \<Rightarrow> ('w, pydict) wio" where
  "finish_cancelled p key request reason run_id job_id =
     bindI (if job_id = PNone then
         bindI (record_outcomeW p key request (cause_for_reason reason) run_id PNone (PBool False) False) (\<lambda>_.
         bindI (recovery_allocation_id p request) (\<lambda>allocation_id.
         bindI (recover_exact p allocation_id) (\<lambda>_. ret ''cancel'')))
       else
         bindI (recovery_allocation_id p request) (\<lambda>allocation_id.
         bindI (monitorW p (monitor_env p None (\<lambda>_. record_outcomeW p key request (cause_for_reason reason) run_id job_id (PBool False) False))
           (PStr allocation_id) (pget (dict_of (pget request ''pilot_package'')) ''runner_label'') run_id job_id) (\<lambda>outcome.
         case outcome of None \<Rightarrow> throw WorkerError | Some c \<Rightarrow> ret c))) (\<lambda>outcome.
     bindI (close_checks p key (CloseDiscarded reason)) (\<lambda>closed.
     if \<not> closed then yieldW key (pilot_status ''retry'' run_id ''supersession Check Run publication remains pending'')
     else deliver_result p True key (cancelled_result run_id job_id outcome reason)))"

text \<open>What the two reads of a converging cancellation lead to.\<close>

definition judge_cancel ::
    "'w worker_ports \<Rightarrow> string \<Rightarrow> pydict \<Rightarrow> pydict \<Rightarrow> instant \<Rightarrow> instant \<Rightarrow> pydict \<Rightarrow> pydict \<Rightarrow> ('w, pydict) wio" where
  "judge_cancel p key request progress now deadline run jobs =
     (let run_id = pget progress ''run_id''; job_id = pget progress ''job_id''
      in bindI (requireI (py_eq (pget run ''id'') run_id \<and> is_list (pget jobs ''jobs'')) WorkerError) (\<lambda>_.
         bindI (indexW (pget request ''pilot_package'') ''runner_label'') (\<lambda>label.
         bindI (pure_io (cancel_matches label run_id job_id (list_of (pget jobs ''jobs'')))) (\<lambda>matches.
         bindI (requireI (job_id = PNone \<or> length matches = 1) WorkerError) (\<lambda>_.
         let job = (case matches of [] \<Rightarrow> None | j # _ \<Rightarrow> Some j)
         in if is_completed run \<and> (case job of None \<Rightarrow> True | Some j \<Rightarrow> is_completed j)
            then finish_cancelled p key request (fmt (pget progress ''cancel_reason'')) run_id job_id
            else
              bindI (pure_io (live_status run)) (\<lambda>_.
              bindI (case job of None \<Rightarrow> ret () | Some j \<Rightarrow> pure_io (live_status j)) (\<lambda>_.
              if deadline \<le> now then cancel_not_converged p key request progress
              else
                bindI (if py_truthy (pget progress ''cancel_accepted'') then ret (True, PNone) else ask_cancel p run_id)
                  (\<lambda>(accepted, error). cancel_pending p key run_id accepted error))))))))"

definition continue_cancel_requested :: "'w worker_ports \<Rightarrow> string \<Rightarrow> pydict \<Rightarrow> pydict \<Rightarrow> ('w, pydict) wio" where
  "continue_cancel_requested p key request progress =
     (let run_id = pget progress ''run_id''
      in bindI (requireI (durable_cancel progress) WorkerError) (\<lambda>_.
         bindI (nowW p) (\<lambda>now.
         bindI (pure_io (cancel_time p (pget progress ''cancel_deadline''))) (\<lambda>deadline.
         bindI (pure_io (cancel_time p (pget progress ''cancel_next_poll_at''))) (\<lambda>next_poll.
         if now < next_poll \<and> now < deadline
         then yieldW key (pilot_status ''pending'' run_id ''exact run cancellation poll is not due'')
         else tryElseI (bindI (portW (pw_run p run_id)) (\<lambda>run. bindI (portW (pw_jobs p run_id)) (\<lambda>jobs. ret (run, jobs))))
           (\<lambda>e. if github_errors e then
               (if deadline \<le> now then cancel_not_converged p key request progress
                else cancel_pending p key run_id (py_truthy (pget progress ''cancel_accepted'')) (PStr (type_name e)))
             else throw e)
           (\<lambda>(run, jobs). judge_cancel p key request progress now deadline run jobs))))))"

section \<open>A superseded assignment without a run\<close>

definition remember :: "pyval \<Rightarrow> string \<Rightarrow> pyval" where
  "remember v name = (if List.member (list_of v) (PStr name) then PList (list_of v) else PList (list_of v @ [PStr name]))"

text \<open>The three callbacks of the discard publication; each reads the durable progress again.\<close>

definition discard_recorders :: "'w worker_ports \<Rightarrow> string \<Rightarrow> 'w worker recorders" where
  "discard_recorders p key =
     \<lparr>rc_pending = (\<lambda>name. bindI (progressW key) (\<lambda>d.
        recordW p key (PStr ''discard-reporting'') [(''discard_pending'', remember (pget d ''discard_pending'') name)])),
      rc_created = (\<lambda>name i. bindI (progressW key) (\<lambda>d.
        recordW p key (PStr ''discard-reporting'')
          [(''discard_checks'', PDict (pset name (PInt i) (dict_of (pget d ''discard_checks''))))])),
      rc_completed = (\<lambda>name. bindI (progressW key) (\<lambda>d.
        recordW p key (PStr ''discard-reporting'') [(''discard_completed'', remember (pget d ''discard_completed'') name)]))\<rparr>"

text \<open>Whether the publication remains pending.\<close>

definition report_discard :: "'w worker_ports \<Rightarrow> string \<Rightarrow> pydict \<Rightarrow> pydict \<Rightarrow> string \<Rightarrow> ('w, bool) wio" where
  "report_discard p key request progress reason =
     (if nonempty_dict (pget progress ''checks'')
      then bindI (close_checks p key (CloseDiscarded reason)) (\<lambda>closed. ret (\<not> closed))
      else case (pw_checks p, pw_repository p, pget request ''pilot_package'') of
        (Some pub, Some repository, PDict package) \<Rightarrow>
          tryElseI
            (bindI (indexW (PDict package) ''head_sha'') (\<lambda>head_sha.
             bindI (indexW (PDict package) ''pr_number'') (\<lambda>pr_number.
             bindI (logW (CallDiscard key)) (\<lambda>_.
             publish_discarded (checks_publisher pub) (discard_recorders p key) head_sha reason
              (''https://github.com/'' @ repository @ ''/pull/'' @ fmt pr_number) (''request:'' @ key)
              (dict_of (pget progress ''discard_checks'')) (map text_of (list_of (pget progress ''discard_completed'')))))))
            (\<lambda>e. if gate_or_os e then ret True else throw e) (\<lambda>_. ret False)
      | _ \<Rightarrow> ret False)"

definition discard_unrun :: "'w worker_ports \<Rightarrow> string \<Rightarrow> pydict \<Rightarrow> pydict \<Rightarrow> string \<Rightarrow> ('w, pydict) wio" where
  "discard_unrun p key request progress reason =
     bindI (report_discard p key request progress reason) (\<lambda>pending.
     bindI (record_outcomeW p key request (cause_for_reason reason) PNone PNone (PBool False) False) (\<lambda>_.
     bindI (if pget progress ''reserved'' = PNone then ret ()
            else bindI (recovery_allocation_id p request) (recover_exact p)) (\<lambda>_.
     if pending then yieldW key (pilot_status ''retry'' PNone ''supersession Check Run publication remains pending'')
     else deliver_result p True key (pilot_status ''cancelled'' PNone reason))))"

definition complete_superseded :: "'w worker_ports \<Rightarrow> string \<Rightarrow> pydict \<Rightarrow> string \<Rightarrow> pyval \<Rightarrow> ('w, pydict) wio" where
  "complete_superseded p key request reason known_run =
     bindI (progressW key) (\<lambda>progress.
     let exact_run = (if known_run = PNone then pget progress ''run_id'' else known_run);
         observed = dict_of (pget progress ''observed'')
     in if exact_run \<noteq> PNone then
          bindI (request_superseded_cancel p key reason exact_run (or_value (pget observed ''job_id'') (pget progress ''job_id''))) (\<lambda>_.
          yieldW key (pilot_status ''pending'' exact_run ''exact run cancellation was requested''))
        else discard_unrun p key request progress reason)"

section \<open>One assignment\<close>

definition issued_now :: "'w worker_ports \<Rightarrow> pyval \<Rightarrow> ('w, pydatetime) wio" where
  "issued_now p v =
     (case v of
        PStr s \<Rightarrow> (case parse_issued (pw_iso p) s of
            Some t \<Rightarrow> ret t | None \<Rightarrow> throw (exc_of_pilot JitPilotError))
      | _ \<Rightarrow> throw (exc_of_pilot JitPilotError))"

text \<open>\<open>_package\<close>: after a durable dispatch the package is judged at its own issue time.\<close>

definition assigned_package :: "'w worker_ports \<Rightarrow> pydict \<Rightarrow> pydict \<Rightarrow> ('w, JitPilotPackageV1) wio" where
  "assigned_package p request progress =
     (let package_value = pget_or progress ''dispatch_package'' (pget request ''pilot_package'');
          reservation = pget request ''reservation'';
          dispatched = (case pget progress ''dispatch_package'' of PDict _ \<Rightarrow> True | _ \<Rightarrow> False)
      in bindI (tickW (pw_clock p)) (\<lambda>clock.
         bindI (if pget progress ''run_id'' = PNone then ret (Aware clock, Aware clock)
                else
                  bindI (issued_now p (pget (dict_of package_value) ''issued_at'')) (\<lambda>package_now.
                  bindI (if dispatched
                         then issued_now p (PStr (fmt (pget_or (dict_of reservation) ''approval_issued_at''
                       (pget (dict_of reservation) ''issued_at''))))
                         else ret (Aware clock)) (\<lambda>reservation_now.
                  ret (package_now, reservation_now)))) (\<lambda>(package_now, reservation_now).
         bindI (case pget progress ''finalized'' of
             PDict _ \<Rightarrow> ret ()
           | _ \<Rightarrow> liftA (validate_allocation_reservation (pw_hash p) (pw_iso p) reservation reservation_now)) (\<lambda>_.
         liftP (pilot_package (pw_iso p) package_value package_now)))))"

definition terminal_reconcile :: "'w worker_ports \<Rightarrow> string \<Rightarrow> pydict \<Rightarrow> pydict \<Rightarrow> string \<Rightarrow> ('w, pydict) wio" where
  "terminal_reconcile p key request progress reason =
     bindI (recovery_allocation_id p request) (\<lambda>allocation_id.
     bindI (recordW p key (PStr ''cleanup-required'') [(''failure_reason'', PStr reason)]) (\<lambda>_.
     bindI (close_checks p key (CloseAbandoned (''the local assignment was terminated ('' @ reason @ '')''))) (\<lambda>_.
     bindI (if progress = [] then ret ()
            else tryI (recover_exact p allocation_id)
              (\<lambda>e. if caught e then bindI (dbW (wk_fail key)) (\<lambda>_. throw e) else throw e)) (\<lambda>_.
     bindI (tryI (sourcefailW p key reason)
        (\<lambda>e. if isa e ''LocalApprovalError'' then ret ()
           else if caught e then bindI (dbW (wk_fail key)) (\<lambda>_. throw e) else throw e)) (\<lambda>_.
     bindI (dbW (wk_abort key reason)) (\<lambda>_.
     bindI (record_outcomeW p key request ''worker-error'' PNone PNone (PBool False) False) (\<lambda>_.
     ret (failure reason))))))))"

text \<open>The package of this dispatch is issued once, durably.\<close>

definition issue_package :: "'w worker_ports \<Rightarrow> string \<Rightarrow> pydict \<Rightarrow> ('w, pydict \<times> JitPilotPackageV1) wio" where
  "issue_package p key request =
     bindI (progressW key) (\<lambda>progress.
     bindI (if (case pget progress ''dispatch_package'' of PDict _ \<Rightarrow> True | _ \<Rightarrow> False) \<or> pget progress ''run_id'' \<noteq> PNone
            then ret progress
            else
              bindI (nowW p) (\<lambda>now.
              bindI (case pget request ''pilot_package'' of PDict d \<Rightarrow> ret d | _ \<Rightarrow> throw PyTypeError) (\<lambda>given.
              let dispatch_package = pset ''expires_at'' (PStr (stamp (now + minutes 15))) (pset ''issued_at'' (PStr (stamp now)) given)
              in bindI (liftP (pilot_package (pw_iso p) (PDict dispatch_package) (Aware now))) (\<lambda>_.
                 bindI (recordW p key (PStr ''package-issued'') [(''dispatch_package'', PDict dispatch_package)]) (\<lambda>_.
                 progressW key))))) (\<lambda>progress.
     bindI (assigned_package p request progress) (\<lambda>package. ret (progress, package))))"

definition reserved_response :: "JitPilotPackageV1 \<Rightarrow> pyval \<Rightarrow> pydict" where
  "reserved_response package scale_set_id =
     [(''allocation_id'', pp_allocation_id package), (''scale_set_id'', scale_set_id),
      (''runner_label'', pp_runner_label package), (''state'', PStr ''reserved-disabled'')]"

definition reserve_assignment :: "'w worker_ports \<Rightarrow> pydict \<Rightarrow> string \<Rightarrow> pydict \<Rightarrow> JitPilotPackageV1 \<Rightarrow> ('w, unit) wio" where
  "reserve_assignment p request key progress package =
     (let reservation = dict_of (pget request ''reservation'')
      in bindI (if py_truthy (pget progress ''reserved'') then ret (dict_of (pget progress ''reserved''))
                else callW (CallReserve reservation) (pw_reserve p reservation)) (\<lambda>reserved.
         bindI (if List.member (pkeys progress) ''reserved'' then ret ()
                else recordclaimW p request key ''reserved'' [(''reserved'', PDict reserved)]) (\<lambda>_.
         requireI (py_eq (PDict reserved) (PDict (reserved_response package (pget reserved ''scale_set_id'')))) WorkerError)))"

text \<open>
  The dispatch: \<open>dispatching\<close> is recorded before the call and the receipt after it; a receipt that is
  missing is never asked for again.
\<close>

definition dispatch_assignment :: "'w worker_ports \<Rightarrow> pydict \<Rightarrow> string \<Rightarrow> pydict \<Rightarrow> ('w, pyval) wio" where
  "dispatch_assignment p request key progress =
     (if pget progress ''run_id'' \<noteq> PNone then ret (pget progress ''run_id'')
      else if py_eq (pget progress ''phase'') (PStr ''dispatching'') \<or> py_truthy (pget progress ''dispatch_ambiguous'')
      then throw WorkerError
      else
        let dispatch_package = dict_of (pget progress ''dispatch_package'')
        in bindI (recordclaimW p request key ''dispatching'' []) (\<lambda>_.
           bindI (callW (CallDispatch key dispatch_package) (pw_dispatch p dispatch_package)) (\<lambda>run_id.
           bindI (requireI (positive_id run_id) WorkerError) (\<lambda>_.
           bindI (recordclaimW p request key ''dispatched'' [(''run_id'', run_id)]) (\<lambda>_.
           ret run_id)))))"

definition observed_data :: "ObservedWorkflowJob \<Rightarrow> pydict" where
  "observed_data seen = [(''run_id'', oj_run_id seen), (''run_attempt'', oj_run_attempt seen), (''job_id'', oj_job_id seen),
     (''job_name'', oj_job_name seen), (''dispatch_sha'', oj_dispatch_sha seen)]"

definition observed_of :: "pydict \<Rightarrow> wk_exc + ObservedWorkflowJob" where
  "observed_of d =
     (if list_all (List.member (pkeys d)) [''run_id'', ''run_attempt'', ''job_id'', ''job_name'', ''dispatch_sha''] then
        Inr \<lparr>oj_run_id = pget d ''run_id'', oj_run_attempt = pget d ''run_attempt'', oj_job_id = pget d ''job_id'',
             oj_job_name = pget d ''job_name'', oj_dispatch_sha = pget d ''dispatch_sha''\<rparr>
      else Inl PyKeyError)"

definition observe_assignment ::
    "'w worker_ports \<Rightarrow> pydict \<Rightarrow> string \<Rightarrow> pydict \<Rightarrow> JitPilotPackageV1 \<Rightarrow> pyval \<Rightarrow> ('w, ObservedWorkflowJob) wio" where
  "observe_assignment p request key progress package run_id =
     bindI (case pget progress ''observed'' of
         PDict d \<Rightarrow> pure_io (observed_of d)
       | _ \<Rightarrow>
           bindI (portW (pw_observe p run_id (pp_runner_label package))) (\<lambda>seen.
           bindI (recordclaimW p request key ''observed''
             [(''run_id'', run_id), (''job_id'', oj_job_id seen), (''observed'', PDict (observed_data seen))]) (\<lambda>_.
           ret seen))) (\<lambda>seen.
     bindI (requireI (py_eq (oj_run_id seen) run_id \<and> py_eq (oj_job_name seen) (PStr ''local-quality'')) WorkerError) (\<lambda>_.
     ret seen))"

definition is_text :: "pyval \<Rightarrow> bool" where
  "is_text v = (case v of PStr s \<Rightarrow> True | _ \<Rightarrow> False)"

definition version_two :: "pydict \<Rightarrow> bool" where
  "version_two reservation = py_eq (pget reservation ''allocation_reservation_version'') (PInt 2)"

definition window_assignment :: "'w worker_ports \<Rightarrow> pydict \<Rightarrow> string \<Rightarrow> ('w, pydict) wio" where
  "window_assignment p request key =
     bindI (progressW key) (\<lambda>progress.
     if version_two (dict_of (pget request ''reservation''))
        \<and> \<not> (is_text (pget progress ''allocation_issued_at'') \<and> is_text (pget progress ''claim_deadline'')) then
       bindI (nowW p) (\<lambda>now.
       bindI (recordclaimW p request key ''allocation-window''
         [(''allocation_issued_at'', PStr (stamp now)), (''claim_deadline'', PStr (stamp (now + pw_claim_ttl p)))]) (\<lambda>_.
       progressW key))
     else ret progress)"

definition worker_payload :: "pydict \<Rightarrow> pydict \<Rightarrow> JitPilotPackageV1 \<Rightarrow> pyval \<Rightarrow> ObservedWorkflowJob \<Rightarrow> pydict" where
  "worker_payload reservation progress package run_id seen =
     (let payload = pmerge (filter (\<lambda>(k, _). k \<noteq> ''allocation_reservation_version'') reservation)
            [(''runner_allocation_version'', pget reservation ''allocation_reservation_version''),
             (''run_id'', PStr (fmt run_id)), (''run_attempt'', oj_run_attempt seen), (''job_id'', PStr (fmt (oj_job_id seen))),
             (''dispatch_sha'', oj_dispatch_sha seen), (''tested_sha'', pp_tested_merge_sha package)]
      in if version_two reservation
         then pmerge payload [(''issued_at'', pget progress ''allocation_issued_at''), (''claim_deadline'', pget progress ''claim_deadline'')]
         else payload)"

definition finalize_assignment ::
    "'w worker_ports \<Rightarrow> pydict \<Rightarrow> string \<Rightarrow> pydict \<Rightarrow> JitPilotPackageV1 \<Rightarrow> pyval \<Rightarrow> ObservedWorkflowJob \<Rightarrow> ('w, unit) wio" where
  "finalize_assignment p request key progress package run_id seen =
     (let reservation = dict_of (pget request ''reservation'')
      in bindI (requireI (List.member (pkeys reservation) ''allocation_reservation_version'') PyKeyError) (\<lambda>_.
         case pget progress ''finalized'' of
           PDict _ \<Rightarrow> ret ()
         | _ \<Rightarrow>
             bindI (portW (pw_sign p (worker_payload reservation progress package run_id seen))) (\<lambda>envelope.
             bindI (callW (CallFinalize envelope) (pw_finalize p envelope)) (\<lambda>finalized.
             bindI (requireI (py_eq (pget finalized ''allocation_id'') (pp_allocation_id package)
                 \<and> py_eq (pget finalized ''state'') (PStr ''enabled-awaiting-claim'')) WorkerError) (\<lambda>_.
             recordclaimW p request key ''finalized''
               [(''run_id'', run_id), (''job_id'', oj_job_id seen), (''observed'', PDict (observed_data seen)),
                (''finalized'', PDict finalized)])))))"

definition CONCLUSION_CAUSES :: "(string \<times> string) list" where
  "CONCLUSION_CAUSES = [(''success'', ''success''), (''failure'', ''job-failure''), (''cancelled'', ''job-cancelled''),
     (''cancel'', ''job-cancelled''), (''timeout'', ''job-timeout'')]"

definition conclusion_cause :: "string \<Rightarrow> string" where
  "conclusion_cause c = (case map_of CONCLUSION_CAUSES c of None \<Rightarrow> ''worker-error'' | Some cause \<Rightarrow> cause)"

definition completed_result :: "pyval \<Rightarrow> pyval \<Rightarrow> string \<Rightarrow> pydict" where
  "completed_result run_id job_id outcome =
     [(''status'', PStr ''completed''), (''mode'', PStr ''ci-jit-pilot''), (''run_id'', run_id), (''job_id'', job_id),
      (''outcome'', PStr outcome)]"

text \<open>
  The monitored run. \<open>supersession_reason\<close> of a monitor is set only where \<open>monitor\<close> returns
  \<open>None\<close>, so behind a conclusion it is always unset and the branches on it are not taken.
\<close>

definition ask_current :: "'w worker_ports \<Rightarrow> string \<Rightarrow> pydict \<Rightarrow> ('w, string option) wio" where
  "ask_current p key request =
     bindI (supersession p key request) (\<lambda>current.
     bindI (modifyI (\<lambda>s. s\<lparr>ws_reason := current\<rparr>)) (\<lambda>_. ret current))"

definition cancel_current :: "'w worker_ports \<Rightarrow> string \<Rightarrow> pyval \<Rightarrow> int \<Rightarrow> ('w, unit) wio" where
  "cancel_current p key job_id exact_run =
     bindI (readI (\<lambda>s. Inr (case ws_reason s of None \<Rightarrow> ''the local run was superseded'' | Some r \<Rightarrow> r))) (\<lambda>reason.
     request_superseded_cancel p key reason (PInt exact_run) job_id)"

definition monitor_assignment ::
    "'w worker_ports \<Rightarrow> pydict \<Rightarrow> string \<Rightarrow> JitPilotPackageV1 \<Rightarrow> pyval \<Rightarrow> pyval \<Rightarrow> ('w, string option) wio" where
  "monitor_assignment p request key package run_id job_id =
     bindI (modifyI (\<lambda>s. s\<lparr>ws_reason := None\<rparr>)) (\<lambda>_.
     monitorW p
       (monitor_env p (Some (ask_current p key request, cancel_current p key job_id))
         (\<lambda>c. record_outcomeW p key request (conclusion_cause c) run_id job_id PNone (c = ''success'')))
       (pp_allocation_id package) (pp_runner_label package) run_id job_id)"

definition conclude_assignment :: "'w worker_ports \<Rightarrow> string \<Rightarrow> pyval \<Rightarrow> pyval \<Rightarrow> string option \<Rightarrow> ('w, pydict) wio" where
  "conclude_assignment p key run_id job_id outcome =
     (case outcome of
        None \<Rightarrow> yieldW key (pilot_status ''pending'' run_id ''exact run cancellation was requested'')
      | Some c \<Rightarrow>
          bindI (close_checks p key (CloseConcluded job_id c)) (\<lambda>closed.
          if \<not> closed then yieldW key (pilot_status ''retry'' run_id ''terminal Check Run publication remains pending'')
          else deliver_result p False key (completed_result run_id job_id c)))"

text \<open>From the run on that was dispatched in this cycle or before.\<close>

definition behind_dispatch ::
    "'w worker_ports \<Rightarrow> pydict \<Rightarrow> string \<Rightarrow> pydict \<Rightarrow> JitPilotPackageV1 \<Rightarrow> pyval \<Rightarrow> ('w, pydict) wio" where
  "behind_dispatch p request key progress package run_id =
     bindI (observe_assignment p request key progress package run_id) (\<lambda>seen.
     bindI (window_assignment p request key) (\<lambda>latest.
     bindI (bindI (progressW key) (\<lambda>d. open_checks p request key d package run_id (oj_job_id seen))) (\<lambda>_.
     bindI (supersession p key request) (\<lambda>superseded.
     case superseded of
       Some reason \<Rightarrow> complete_superseded p key request reason run_id
     | None \<Rightarrow>
         bindI (finalize_assignment p request key latest package run_id seen) (\<lambda>_.
         tryElseI (monitor_assignment p request key package run_id (oj_job_id seen))
           (\<lambda>e. if isa e ''WorkerTransportError''
              then yieldW key (pilot_status ''retry'' run_id ''terminal GitHub observation remains pending'') else throw e)
           (conclude_assignment p key run_id (oj_job_id seen)))))))"

definition assignment_body ::
    "'w worker_ports \<Rightarrow> pydict \<Rightarrow> string \<Rightarrow> pydict \<Rightarrow> JitPilotPackageV1 \<Rightarrow> ('w, pydict) wio" where
  "assignment_body p request key progress package =
     bindI (reserve_assignment p request key progress package) (\<lambda>_.
     bindI (dispatch_assignment p request key progress) (\<lambda>run_id.
     behind_dispatch p request key progress package run_id))"

text \<open>\<open>except Exception\<close> around the body: what is left to do depends on how far the dispatch got.\<close>

definition dispatch_lost :: "'w worker_ports \<Rightarrow> pydict \<Rightarrow> string \<Rightarrow> string \<Rightarrow> wk_exc \<Rightarrow> ('w, pydict) wio" where
  "dispatch_lost p request key allocation_id e =
     bindI (tryI (bindI (recover_exact p allocation_id) (\<lambda>_. ret None)) (\<lambda>e1. if caught e1 then ret (Some e1) else throw e1)) (\<lambda>recovery_failure.
     bindI (recordclaimW p request key ''dispatch-ambiguous'' [(''dispatch_ambiguous'', PBool True)]) (\<lambda>_.
     bindI (sourceretryW p key ''dispatch-ambiguous'') (\<lambda>_.
     bindI (dbW (wk_fail key)) (\<lambda>_.
     throw (case recovery_failure of None \<Rightarrow> e | Some e1 \<Rightarrow> e1)))))"

definition never_dispatched :: "'w worker_ports \<Rightarrow> pydict \<Rightarrow> string \<Rightarrow> string \<Rightarrow> wk_exc \<Rightarrow> ('w, pydict) wio" where
  "never_dispatched p request key allocation_id e =
     bindI (recordclaimW p request key ''cleanup-required'' [(''failure_reason'', PStr (type_name e))]) (\<lambda>_.
     bindI (tryI (recover_exact p allocation_id)
       (\<lambda>e1. if caught e1 then bindI (sourceretryW p key ''cleanup-required'') (\<lambda>_. bindI (dbW (wk_fail key)) (\<lambda>_. throw e1))
          else throw e1)) (\<lambda>_.
     bindI (sourcefailW p key (type_name e)) (\<lambda>_.
     bindI (dbW (wk_abort key (type_name e))) (\<lambda>_.
     throw e))))"

definition assignment_failed ::
    "'w worker_ports \<Rightarrow> pydict \<Rightarrow> string \<Rightarrow> JitPilotPackageV1 \<Rightarrow> wk_exc \<Rightarrow> ('w, pydict) wio" where
  "assignment_failed p request key package e =
     bindI (progressW key) (\<lambda>latest.
     bindI (close_checks p key (CloseAbandoned (''the self-hosted runner stopped owning this run ('' @ type_name e @ '')''))) (\<lambda>_.
     bindI (record_outcomeW p key request ''worker-error'' (pget latest ''run_id'')
       (pget (dict_of (pget latest ''observed'')) ''job_id'') (PBool False) False) (\<lambda>_.
     if pget latest ''run_id'' \<noteq> PNone then
       bindI (sourceretryW p key (type_name e)) (\<lambda>_. bindI (dbW (wk_fail key)) (\<lambda>_. throw e))
     else if py_eq (pget latest ''phase'') (PStr ''dispatching'')
     then dispatch_lost p request key (fmt (pp_allocation_id package)) e
     else never_dispatched p request key (fmt (pp_allocation_id package)) e)))"

definition guarded_body ::
    "'w worker_ports \<Rightarrow> pydict \<Rightarrow> string \<Rightarrow> pydict \<Rightarrow> JitPilotPackageV1 \<Rightarrow> ('w, pydict) wio" where
  "guarded_body p request key progress package =
     tryI (assignment_body p request key progress package)
       (\<lambda>e. if contained_errors e \<or> \<not> caught e then throw e else assignment_failed p request key package e)"

text \<open>From a claim that was acquired on, behind the phases that only converge.\<close>

definition advance_assignment :: "'w worker_ports \<Rightarrow> pydict \<Rightarrow> string \<Rightarrow> pydict \<Rightarrow> ('w, pydict) wio" where
  "advance_assignment p request key progress =
     tryElseI (if progress \<noteq> [] then portW (pw_resume p key request 7200)
               else bindI (portW (pw_claim p key request 7200)) (\<lambda>_. ret request))
       (\<lambda>e. if isa e ''LocalApprovalError'' then terminal_reconcile p key request progress (type_name e) else throw e)
       (\<lambda>resumed.
         tryElseI (issue_package p key resumed)
           (\<lambda>e. if isa e ''JitPilotError''
              then bindI (progressW key) (\<lambda>latest. terminal_reconcile p key resumed latest (type_name e)) else throw e)
           (\<lambda>(latest, package). guarded_body p resumed key latest package))"

definition run_acquired :: "'w worker_ports \<Rightarrow> pydict \<Rightarrow> string \<Rightarrow> ('w, pydict) wio" where
  "run_acquired p request key =
     bindI (progressW key) (\<lambda>progress.
     let at = (\<lambda>ph. py_eq (pget progress ''phase'') (PStr ph))
     in if at ''cancel-requesting'' then
          bindI (indexW (PDict progress) ''run_id'') (\<lambda>run_id.
          bindI (ask_cancel p run_id) (\<lambda>(accepted, error). cancel_pending p key run_id accepted error))
        else if at ''cancel-timeout-recording'' then cancel_not_converged p key request progress
        else if at ''cancel-recovery-pending'' then continue_cancel_recovery p key request progress
        else if at ''cancel-requested'' then continue_cancel_requested p key request progress
        else if at ''cleanup-required'' then
          terminal_reconcile p key request progress
            (fmt (or_value (pget progress ''failure_reason'') (PStr ''pre-dispatch-failure'')))
        else
          bindI (supersession p key request) (\<lambda>superseded.
          case superseded of
            Some reason \<Rightarrow> complete_superseded p key request reason PNone
          | None \<Rightarrow> advance_assignment p request key progress))"

text \<open>A request whose result is already fixed: only its delivery is repeated.\<close>

definition redeliver :: "'w worker_ports \<Rightarrow> string \<Rightarrow> bool \<Rightarrow> ('w, pydict) wio" where
  "redeliver p key completing =
     bindI (dbW (wk_done key)) (\<lambda>prior.
     case prior of
       None \<Rightarrow> throw WorkerError
     | Some result \<Rightarrow>
         bindI (sourcecompleteW p key result) (\<lambda>_.
         bindI (if completing then dbW (wk_delivered key) else ret ()) (\<lambda>_. ret result)))"

definition run_assignment :: "'w worker_ports \<Rightarrow> pydict \<Rightarrow> ('w, pydict) wio" where
  "run_assignment p request =
     (case pget request ''request_id'' of
        PStr key \<Rightarrow>
          if \<not> keys_exact request [''request_id'', ''pilot_package'', ''reservation''] then throw WorkerError
          else
            bindI (tickW (pw_time p)) (\<lambda>now.
            bindI (dbW (wk_claim key request now (seconds 7200))) (\<lambda>claim.
            if claim = ''done'' then redeliver p key False
            else if claim = ''completing'' then redeliver p key True
            else if claim = ''failed'' then
              bindI (progressW key) (\<lambda>d. ret [(''status'', PStr ''failed''), (''reason'', pget d ''failure_reason'')])
            else if claim = ''busy'' then ret [(''status'', PStr ''busy''), (''request_id'', PStr key)]
            else run_acquired p request key))
      | _ \<Rightarrow> throw WorkerError)"

section \<open>Containment\<close>

definition cleanup_errors :: "wk_exc \<Rightarrow> bool" where
  "cleanup_errors e = (contained_errors e \<or> isa e ''JitPilotError'')"

definition retire_cleanup :: "'w worker_ports \<Rightarrow> string \<Rightarrow> pydict \<Rightarrow> pydict \<Rightarrow> string \<Rightarrow> ('w, unit) wio" where
  "retire_cleanup p key request progress reason =
     bindI (close_checks p key (CloseAbandoned (takeWhile (\<lambda>c. c \<noteq> CHR '';'') reason))) (\<lambda>_.
     if progress = [] then ret () else bindI (recovery_allocation_id p request) (recover_exact p))"

definition retire_assignment :: "'w worker_ports \<Rightarrow> string \<Rightarrow> pydict \<Rightarrow> pydict \<Rightarrow> string \<Rightarrow> ('w, string) wio" where
  "retire_assignment p key request progress reason =
     bindI (tryI (bindI (retire_cleanup p key request progress reason) (\<lambda>_. ret reason))
       (\<lambda>e. if cleanup_errors e
          then ret (reason @ ''; cleanup failed: '' @ type_name e @ '' (manual reconciliation required)'')
          else if caught e then bindI (sourcefailW p key reason) (\<lambda>_. throw e) else throw e)) (\<lambda>told.
     bindI (sourcefailW p key told) (\<lambda>_. ret told))"

definition known_request :: "'w worker_ports \<Rightarrow> string \<Rightarrow> pydict \<Rightarrow> ('w, unit) wio" where
  "known_request p key request =
     bindI (readI (\<lambda>s. Inr (wk_find key (ws_db s)))) (\<lambda>row.
     case row of
       None \<Rightarrow> bindI (tickW (pw_time p)) (\<lambda>now. bindI (dbW (wk_claim key request now (seconds 300))) (\<lambda>_. ret ()))
     | Some r \<Rightarrow>
         (case wk_request r of
            None \<Rightarrow> throw PyTypeError
          | Some d \<Rightarrow> requireI (py_eq (PDict d) (PDict request)) WorkerAuthorityError))"

definition quarantine_reason :: "wk_exc \<Rightarrow> pydict \<Rightarrow> string" where
  "quarantine_reason e progress =
     (if isa e ''RunnerJitTemporalError'' then ''the local allocation expired before the run started''
      else ''assignment failed: '' @ type_name e)
     @ (if pget progress ''run_id'' = PNone then []
        else ''; GitHub run cancellation is unavailable in this worker; manual cancellation may be required'')"

definition quarantine :: "'w worker_ports \<Rightarrow> pydict \<Rightarrow> wk_exc \<Rightarrow> ('w, pydict) wio" where
  "quarantine p request e =
     (case pget request ''request_id'' of
        PStr key \<Rightarrow>
          bindI (known_request p key request) (\<lambda>_.
          bindI (progressW key) (\<lambda>progress.
          let reason = quarantine_reason e progress; expired = isa e ''RunnerJitTemporalError'';
              ph = (if expired then ''allocation-expired'' else ''assignment-failed'')
          in bindI (tryI (retire_assignment p key request progress reason)
               (\<lambda>e1. if caught e1 then bindI (dbW (wk_terminal key ph reason)) (\<lambda>_. throw e1) else throw e1)) (\<lambda>told.
             bindI (dbW (wk_terminal key ph told)) (\<lambda>_.
             if expired then ret (failure told) else throw e))))
      | _ \<Rightarrow> throw e)"

definition next_request :: "'w worker_ports \<Rightarrow> ('w, pydict option) wio" where
  "next_request p =
     bindI (dbW wk_recoverable) (\<lambda>known.
     case known of
       Some (item # rest) \<Rightarrow> ret (Some (item # rest))
     | _ \<Rightarrow> portW (pw_poll p))"

definition run_once :: "'w worker_ports \<Rightarrow> ('w, pydict) wio" where
  "run_once p =
     bindI (next_request p) (\<lambda>request.
     case request of
       None \<Rightarrow> ret [(''status'', PStr ''idle'')]
     | Some d \<Rightarrow> tryI (run_assignment p d) (\<lambda>e. if contained_errors e then quarantine p d e else throw e))"

end
