(* ===== verification/Checks_Safety.thy ===== *)
theory Checks_Safety
  imports Pilot_Checks
begin

text \<open>
  The evidence read from a log does not depend on how the log is cut into chunks; the published
  verdicts are those the lines of the log and the job's conclusion allow; a discarded request gets one Check Run per phase however often its
  publication is repeated.
\<close>

section \<open>Chunks\<close>

lemma starts_with_append: "starts_with p (p @ r)"
  by (simp add: starts_with_def)

lemma starts_withE: "starts_with p s \<Longrightarrow> s = p @ drop (length p) s"
  unfolding starts_with_def by (metis append_take_drop_id)

lemma mark_chars:
  "CHR 0x7B \<notin> set MARK_CLOSE" "MARK_OPEN = CHR 0x7B # tl MARK_OPEN" "CHR 0x7B \<notin> set (tl MARK_OPEN)"
  "\<not> is_phase_char (CHR 0x22)" "\<not> is_phase_char (CHR 0x7B)" "MARK_CLOSE = CHR 0x22 # tl MARK_CLOSE"
  "length MARK_OPEN = 10" "length MARK_CLOSE = 22"
  by (simp_all add: MARK_OPEN_def MARK_CLOSE_def is_phase_char_def is_digit_def code_def)

definition mark :: "string \<Rightarrow> string" where
  "mark name = MARK_OPEN @ name @ MARK_CLOSE"

definition phase_name :: "string \<Rightarrow> bool" where
  "phase_name n = (list_all is_phase_char n \<and> 1 \<le> length n \<and> length n \<le> 32)"

lemma phase_line_iff: "phase_line s = Some (n, r) \<longleftrightarrow> phase_name n \<and> s = mark n @ r"
proof
  assume "phase_line s = Some (n, r)"
  then have "starts_with MARK_OPEN s" and n: "n = takeWhile is_phase_char (drop (length MARK_OPEN) s)"
    and "1 \<le> length n" "length n \<le> 32" and m: "starts_with MARK_CLOSE (drop (length n) (drop (length MARK_OPEN) s))"
    and r: "r = drop (length MARK_CLOSE) (drop (length n) (drop (length MARK_OPEN) s))"
    unfolding phase_line_def by (auto simp: Let_def split: if_splits)
  moreover have "list_all is_phase_char n" unfolding n by (auto simp: list_all_iff dest: set_takeWhileD)
  moreover have "drop (length MARK_OPEN) s = n @ drop (length n) (drop (length MARK_OPEN) s)"
    unfolding n by (metis takeWhile_eq_take append_take_drop_id)
  ultimately show "phase_name n \<and> s = mark n @ r"
    using starts_withE [of MARK_OPEN s] starts_withE [OF m] by (simp add: phase_name_def mark_def)
next
  assume a: "phase_name n \<and> s = mark n @ r"
  then have n: "\<forall>c\<in>set n. is_phase_char c" by (simp add: phase_name_def list_all_iff)
  have "takeWhile is_phase_char (n @ MARK_CLOSE @ r) = n"
    using n mark_chars(4) by (subst mark_chars(6)) (simp add: takeWhile_tail)
  with a show "phase_line s = Some (n, r)"
    by (simp add: phase_line_def mark_def Let_def phase_name_def starts_with_append)
qed

lemma mark_cons: "mark n = CHR 0x7B # tl MARK_OPEN @ n @ MARK_CLOSE"
  unfolding mark_def by (subst mark_chars(2)) simp

lemma phase_line_open: "phase_line s = Some x \<Longrightarrow> \<exists>cs. s = CHR 0x7B # cs"
  by (cases x) (auto simp: phase_line_iff mark_cons)

lemma mark_open_once: "phase_name n \<Longrightarrow> mark n = CHR 0x7B # m \<Longrightarrow> CHR 0x7B \<notin> set m"
proof -
  assume n: "phase_name n" and m: "mark n = CHR 0x7B # m"
  have "CHR 0x7B \<notin> set n" using n mark_chars(5) unfolding phase_name_def list_all_iff by blast
  then have "CHR 0x7B \<notin> set (tl MARK_OPEN @ n @ MARK_CLOSE)" using mark_chars(1,3) unfolding set_append by blast
  moreover have "tl MARK_OPEN @ n @ MARK_CLOSE = m" using m unfolding mark_cons by (rule list.inject [THEN iffD1, THEN conjunct2])
  ultimately show ?thesis by simp
qed

lemma mark_length: "phase_name n \<Longrightarrow> length (mark n) \<le> 64"
  by (simp add: mark_def mark_chars(7,8) phase_name_def)

text \<open>All positions at which a line starts.\<close>

fun all_lines :: "string \<Rightarrow> string list" where
  "all_lines [] = []"
| "all_lines (c # cs) = (case phase_line (c # cs) of None \<Rightarrow> all_lines cs | Some (n, _) \<Rightarrow> n # all_lines cs)"

lemma all_lines_skip: "CHR 0x7B \<notin> set u \<Longrightarrow> all_lines (u @ r) = all_lines r"
proof (induction u)
  case (Cons c u)
  then have "phase_line (c # u @ r) = None" by (cases "phase_line (c # u @ r)") (auto dest: phase_line_open)
  with Cons show ?case by simp
qed simp

lemma phase_lines_all: "phase_lines s = all_lines s"
proof (induction s rule: phase_lines.induct)
  case (1 s)
  show ?case
  proof (cases s)
    case (Cons c cs)
    show ?thesis
    proof (cases "phase_line s")
      case None
      with 1(1) [OF Cons None] Cons show ?thesis by (simp add: phase_lines.simps [of "c # cs"])
    next
      case (Some x)
      obtain n r where x: "x = (n, r)" by (cases x)
      with Some have n: "phase_name n" "s = mark n @ r" by (simp_all add: phase_line_iff)
      obtain m where m: "mark n = CHR 0x7B # m" using mark_chars(2) unfolding mark_def by (metis append_Cons)
      with n Cons have cs: "cs = m @ r" by simp
      have "all_lines cs = all_lines r" unfolding cs by (rule all_lines_skip [OF mark_open_once [OF n(1) m]])
      with 1(2) [OF Cons Some x [symmetric]] Some x Cons show ?thesis by (simp add: phase_lines.simps [of "c # cs"])
    qed
  qed (simp add: phase_lines.simps)
qed

lemma phase_line_more: "phase_line s = Some (n, r) \<Longrightarrow> phase_line (s @ y) = Some (n, r @ y)"
  by (simp add: phase_line_iff)

lemma phase_line_long:
  assumes "64 \<le> length s"
  shows "map_option fst (phase_line (s @ y)) = map_option fst (phase_line s)"
proof (cases "phase_line (s @ y)")
  case None
  then show ?thesis using phase_line_more [of s _ _ y] by (cases "phase_line s") auto
next
  case (Some x)
  obtain n r where x: "x = (n, r)" by (cases x)
  with Some have n: "phase_name n" "s @ y = mark n @ r" by (simp_all add: phase_line_iff)
  then have "length (mark n) \<le> length s" using mark_length assms by fastforce
  with arg_cong [OF n(2), of "take (length (mark n))"] have "take (length (mark n)) s = mark n" by simp
  then obtain t where "s = mark n @ t" by (metis append_take_drop_id)
  with n(1) have "phase_line s = Some (n, t)" by (simp add: phase_line_iff)
  with Some x show ?thesis by simp
qed

lemma all_lines_cons:
  "all_lines (c # cs) = (case map_option fst (phase_line (c # cs)) of None \<Rightarrow> all_lines cs | Some n \<Rightarrow> n # all_lines cs)"
  by (cases "phase_line (c # cs)") auto

lemma all_lines_far:
  assumes "64 \<le> length t"
  shows "\<exists>A. \<forall>y. all_lines (x @ t @ y) = A @ all_lines (t @ y)"
proof (induction x)
  case (Cons c x)
  then obtain A where A: "all_lines (x @ t @ y) = A @ all_lines (t @ y)" for y by blast
  have "map_option fst (phase_line (c # x @ t @ y)) = map_option fst (phase_line (c # x @ t))" for y
    using phase_line_long [of "c # x @ t" y] assms by simp
  then have "all_lines ((c # x) @ t @ y) =
      (case map_option fst (phase_line (c # x @ t)) of None \<Rightarrow> A | Some n \<Rightarrow> n # A) @ all_lines (t @ y)" for y
    by (simp add: all_lines_cons A del: all_lines.simps split: option.splits)
  then show ?case by blast
qed (rule exI [of _ "[]"], simp)

lemma all_lines_prefix: "\<exists>N. all_lines (t @ y) = all_lines t @ N"
proof (induction t)
  case (Cons c cs)
  then obtain N where N: "all_lines (cs @ y) = all_lines cs @ N" by blast
  show ?case
  proof (cases "phase_line (c # cs)")
    case (Some x)
    then have "phase_line (c # cs @ y) = Some (fst x, snd x @ y)" using phase_line_more [of "c # cs"] by (cases x) simp
    with Some N show ?thesis by (cases x) simp
  next
    case None
    show ?thesis
    proof (cases "phase_line (c # cs @ y)")
      case (Some x)
      obtain n r where x: "x = (n, r)" by (cases x)
      with Some have n: "phase_name n" "c # cs @ y = mark n @ r" by (simp_all add: phase_line_iff)
      obtain m where m: "mark n = CHR 0x7B # m" using mark_chars(2) unfolding mark_def by (metis append_Cons)
      have "\<nexists>t. c # cs = mark n @ t" using None n(1) phase_line_iff [of "c # cs"] by auto
      with n(2) obtain u where "mark n = (c # cs) @ u"
        by (metis append_Cons append_eq_append_conv2)
      with m have "CHR 0x7B \<notin> set cs" using mark_open_once [OF n(1) m] by auto
      then have "all_lines cs = []" using all_lines_skip [of cs "[]"] by simp
      with None show ?thesis by simp
    next
      case None2: None
      with None N show ?thesis by simp
    qed
  qed
qed simp

lemma note_known: "List.member observed p \<or> \<not> List.member PROFILE_PHASES p \<Longrightarrow> note_phase p observed = observed"
  by (auto simp: note_phase_def)

lemma note_keeps: "q \<in> set observed \<Longrightarrow> q \<in> set (note_phase p observed)"
  by (simp add: note_phase_def)

lemma notes_keep: "q \<in> set observed \<Longrightarrow> q \<in> set (fold note_phase ps observed)"
  by (induction ps arbitrary: observed) (simp_all add: note_keeps)

lemma notes_hold: "p \<in> set ps \<Longrightarrow> List.member (fold note_phase ps observed) p \<or> \<not> List.member PROFILE_PHASES p"
proof (induction ps arbitrary: observed)
  case (Cons q ps)
  show ?case
  proof (cases "p = q")
    case True
    have "List.member (note_phase q observed) q \<or> \<not> List.member PROFILE_PHASES q" by (auto simp: note_phase_def)
    with True notes_keep show ?thesis by fastforce
  qed (use Cons in simp)
qed simp

lemma notes_again:
  assumes "\<forall>p\<in>set ps. List.member observed p \<or> \<not> List.member PROFILE_PHASES p"
  shows "fold note_phase ps observed = observed"
  using assms by (induction ps) (simp_all add: note_known)

abbreviation evidence_of :: "string \<Rightarrow> string list" where
  "evidence_of s \<equiv> fold note_phase (phase_lines s) []"

abbreviation last64 :: "string \<Rightarrow> string" where
  "last64 s \<equiv> drop (length s - 64) s"

lemma evidence_append: "fold note_phase (phase_lines (last64 x @ c)) (evidence_of x) = evidence_of (x @ c)"
proof -
  define t x1 where t: "t = last64 x" and x1: "x1 = take (length x - 64) x"
  have x: "x = x1 @ t" by (simp add: t x1)
  obtain A where A: "all_lines (x1 @ t @ y) = A @ all_lines (t @ y)" for y
  proof (cases "x1 = []")
    case True
    then show ?thesis using that [of "[]"] by simp
  next
    case False
    then have "64 \<le> length t" by (simp add: t x1)
    from all_lines_far [OF this] show ?thesis using that by blast
  qed
  obtain N where N: "all_lines (t @ c) = all_lines t @ N" using all_lines_prefix by blast
  have "fold note_phase (all_lines t) (fold note_phase (A @ all_lines t) []) = fold note_phase (A @ all_lines t) []"
    by (rule notes_again) (use notes_hold [of _ "A @ all_lines t" "[]"] in auto)
  then have "fold note_phase (all_lines (t @ c)) (fold note_phase (A @ all_lines t) []) = fold note_phase (A @ all_lines (t @ c)) []"
    by (simp add: N)
  moreover have "phase_lines x = A @ all_lines t" "phase_lines (x @ c) = A @ all_lines (t @ c)"
    using A [of c] A [of "[]"] by (simp_all add: phase_lines_all x)
  ultimately show ?thesis by (simp only: t [symmetric] phase_lines_all [of "t @ c"])
qed

lemma last64_append: "last64 (last64 x @ c) = last64 (x @ c)"
  by (cases "64 \<le> length x") (simp_all add: add.commute)

lemma scan_from:
  "length x \<le> MAX_LOG_BYTES \<Longrightarrow> scan_chunks (map Chunk cs) (last64 x) (length x) (evidence_of x) =
     (if MAX_LOG_BYTES < length (x @ concat cs) then Inl GateCheckError else Inr (evidence_of (x @ concat cs)))"
proof (induction cs arbitrary: x)
  case (Cons c cs)
  show ?case
  proof (cases "MAX_LOG_BYTES < length x + length c")
    case False
    then have "scan_chunks (map Chunk (c # cs)) (last64 x) (length x) (evidence_of x) =
        scan_chunks (map Chunk cs) (last64 (x @ c)) (length (x @ c)) (evidence_of (x @ c))"
      by (simp add: Let_def evidence_append last64_append del: length_append drop_append) (simp add: last64_append)
    with Cons.IH [of "x @ c"] False show ?thesis by simp
  qed simp
qed simp

lemma scan_whole:
  "scan_chunks (map Chunk cs) [] 0 [] =
     (if MAX_LOG_BYTES < length (concat cs) then Inl GateCheckError else Inr (evidence_of (concat cs)))"
proof -
  have "phase_lines [] = []" by (simp add: phase_lines.simps)
  then show ?thesis using scan_from [of "[]" cs] by simp
qed

text \<open>C32. The phases read from a job log do not depend on how the transport cuts it: chunk by chunk, with a tail of 64 bytes
  kept, the parser finds exactly the phases of the whole text, in the same order, and refuses exactly the logs
  beyond the readable bound.\<close>

theorem evidence_ignores_chunks:
  "parse_phase_evidence (map Chunk cs, None) =
     (if MAX_LOG_BYTES < length (concat cs) then Inl GateCheckError
      else Inr (fold note_phase (phase_lines (concat cs)) []))"
  by (simp add: parse_phase_evidence_def scan_whole)

section \<open>Verdicts\<close>

definition conclusion_for :: "string \<Rightarrow> (string \<times> PhaseVerdict) list \<Rightarrow> string option" where
  "conclusion_for p vs = map_option conclusion_of (map_of vs p)"

text \<open>The conclusion of the phase at which the job is taken to have stopped.\<close>

definition stopped_as :: "string \<Rightarrow> string" where
  "stopped_as job_conclusion =
     (if job_conclusion = ''cancelled'' \<or> job_conclusion = ''cancel'' then ''cancelled''
      else if job_conclusion = ''timed_out'' \<or> job_conclusion = ''timeout'' then ''timed_out'' else ''failure'')"

text \<open>The lines count with multiplicity, in any order and at any place; the evidence is their set.\<close>

lemma note_set: "set (note_phase p observed) = set observed \<union> ({p} \<inter> set PROFILE_PHASES)"
  by (auto simp: note_phase_def)

lemma notes_set: "set (fold note_phase ps observed) = set observed \<union> (set ps \<inter> set PROFILE_PHASES)"
  by (induction ps arbitrary: observed) (auto simp: note_set)

lemma evidence_member: "List.member (evidence_of s) p = (p \<in> set (phase_lines s) \<and> p \<in> set PROFILE_PHASES)"
  by (simp add: notes_set)

lemma evidence_accepted: "list_all (List.member PROFILE_PHASES) (evidence_of s)"
  by (simp add: list_all_iff notes_set)

text \<open>C33. What the two published Check Runs say of a finished job, for every log and every way it is cut
  into chunks. A log beyond the readable bound is refused. Otherwise the backend is a success
  exactly when the job succeeded or a frontend line is in the log, the frontend exactly when the
  job succeeded or an e2e line is in the log; a frontend that is no success is skipped exactly when
  its own line is missing, too; and everything else has the cancellation, the timeout or the
  failure of the job. Lines of other names, repetitions and the order of the lines play no part.\<close>

theorem verdicts_tell_the_log:
  "if MAX_LOG_BYTES < length (concat cs) then parse_phase_evidence (map Chunk cs, None) = Inl GateCheckError
   else (\<exists>observed vs. parse_phase_evidence (map Chunk cs, None) = Inr observed
     \<and> phase_verdicts c observed PROFILE_PHASES url = Inr vs
     \<and> map fst vs = [''backend'', ''frontend'']
     \<and> conclusion_for ''backend'' vs = Some
         (if c = ''success'' \<or> ''frontend'' \<in> set (phase_lines (concat cs)) then ''success'' else stopped_as c)
     \<and> conclusion_for ''frontend'' vs = Some
         (if c = ''success'' \<or> ''e2e'' \<in> set (phase_lines (concat cs)) then ''success''
          else if ''frontend'' \<in> set (phase_lines (concat cs)) then stopped_as c else ''skipped''))"
proof (cases "MAX_LOG_BYTES < length (concat cs)")
  case False
  let ?e = "evidence_of (concat cs)" and ?l = "set (phase_lines (concat cs))"
  let ?vs = "verdict_loop c ?e url False PROFILE_PHASES"
  have m: "List.member ?e ''frontend'' = (''frontend'' \<in> ?l)" "List.member ?e ''e2e'' = (''e2e'' \<in> ?l)"
    by (simp_all only: evidence_member) (simp_all add: PROFILE_PHASES_def)
  have v: "?vs = [(''backend'', phase_verdict c (phase_passed c ?e [''frontend'', ''e2e'']) False url ''backend''),
       (''frontend'', phase_verdict c (phase_passed c ?e [''e2e'']) (\<not> phase_passed c ?e [''frontend'', ''e2e'']) url ''frontend'')]"
    by (simp add: PROFILE_PHASES_def PHASE_CHECK_NAMES_def Let_def)
  have "parse_phase_evidence (map Chunk cs, None) = Inr ?e" using False by (simp add: parse_phase_evidence_def scan_whole)
  moreover have "phase_verdicts c ?e PROFILE_PHASES url = Inr ?vs"
    by (simp only: phase_verdicts_def evidence_accepted) simp
  moreover have "conclusion_for ''backend'' ?vs = Some (if c = ''success'' \<or> ''frontend'' \<in> ?l then ''success'' else stopped_as c)"
    using m by (auto simp: v conclusion_for_def phase_verdict_def phase_passed_def verdict_of_def stopped_as_def)
  moreover have "conclusion_for ''frontend'' ?vs = Some (if c = ''success'' \<or> ''e2e'' \<in> ?l then ''success''
      else if ''frontend'' \<in> ?l then stopped_as c else ''skipped'')"
    using m by (auto simp: v conclusion_for_def phase_verdict_def phase_passed_def verdict_of_def stopped_as_def)
  ultimately show ?thesis using False by (simp only: if_False) (intro exI conjI, simp_all add: v)
qed (simp add: parse_phase_evidence_def scan_whole)

section \<open>One Check Run per discarded phase\<close>

text \<open>
  What is relied on of the Check Runs of the host, seen as rows: only a creation adds a row, at most
  one, with the name, the commit and the external identity asked for; nothing else changes what
  identifies a row; the listing of a commit holds every row that the search looks for.
\<close>

definition identity :: "pydict \<Rightarrow> pydict" where
  "identity row =
     [(''name'', pget row ''name''), (''head_sha'', pget row ''head_sha''), (''external_id'', pget row ''external_id''),
      (''app'', pget row ''app'')]"

definition creation_url :: "'s gate_client \<Rightarrow> string" where
  "creation_url g = API_ROOT @ ''/repos/'' @ ga_repository (gc_authority g) @ ''/check-runs''"

definition asked_for :: "pyval \<Rightarrow> pydict \<Rightarrow> bool" where
  "asked_for body row =
     list_all (\<lambda>f. pget row f = pget (dict_of body) f) [''name'', ''head_sha'', ''external_id'']"

definition rows_of :: "('s \<Rightarrow> pydict list) \<Rightarrow> 's \<Rightarrow> pydict list" where
  "rows_of runs s = map identity (runs s)"

definition serves_checks :: "'s gate_client \<Rightarrow> ('s \<Rightarrow> pydict list) \<Rightarrow> bool" where
  "serves_checks g runs =
     ((\<forall>s. rows_of runs (snd (gc_clock g s)) = rows_of runs s)
      \<and> (\<forall>m url bearer body s. rows_of runs (snd (gc_http g m url bearer body s)) = rows_of runs s
           \<or> m = ''POST'' \<and> url = creation_url g
             \<and> (\<exists>row. asked_for body row \<and> rows_of runs (snd (gc_http g m url bearer body s)) = rows_of runs s @ [identity row]))
      \<and> (\<forall>name head_sha x bearer r v rows s s1.
           gc_http g ''GET'' (API_ROOT @ ''/repos/'' @ ga_repository (gc_authority g) @ ''/commits/'' @ fmt head_sha
             @ ''/check-runs?check_name='' @ concat (map quote_char name) @ ''&filter=all&per_page=100'') bearer PNone s = (Inr r, s1)
           \<and> gate_json r 200 = Inr v \<and> pget v ''check_runs'' = PList rows
           \<longrightarrow> list_all (\<lambda>row. own_row g name head_sha x row \<longrightarrow> (\<exists>row'. PDict row' \<in> set rows \<and> own_row g name head_sha x row'))
                 (runs s)))"

definition recorders_apart :: "'s recorders \<Rightarrow> ('s \<Rightarrow> pydict list) \<Rightarrow> bool" where
  "recorders_apart rc runs =
     (\<forall>name i s. rows_of runs (snd (rc_pending rc name s)) = rows_of runs s
        \<and> rows_of runs (snd (rc_created rc name i s)) = rows_of runs s
        \<and> rows_of runs (snd (rc_completed rc name s)) = rows_of runs s)"

definition created_once :: "'s gate_client \<Rightarrow> pydict list \<Rightarrow> bool" where
  "created_once g rows = (\<forall>name head_sha x. length (filter (own_row g name head_sha x) rows) \<le> 1)"

lemma own_identity: "own_row g name head_sha x (identity row) = own_row g name head_sha x row"
  by (simp add: own_row_def identity_def pget_def)

abbreviation same :: "('s \<Rightarrow> pydict list) \<Rightarrow> pydict list \<Rightarrow> 's \<Rightarrow> bool" where
  "same runs rows \<equiv> (\<lambda>s. rows_of runs s = rows)"

lemma keeps_datetime [keeps_rules]:
  assumes "\<And>t. keeps I (f t)" and "\<And>t. keeps I (h t)"
  shows "keeps I (case v of Aware t \<Rightarrow> f t | Naive t \<Rightarrow> h t)"
  using assms by (cases v) simp_all

lemma keeps_text_pair [keeps_rules]:
  assumes "\<And>u v. keeps I (f u v)" and "keeps I m"
  shows "keeps I (case p of (PStr u, PStr v) \<Rightarrow> f u v | _ \<Rightarrow> m)"
  using assms by (cases p; cases "fst p"; cases "snd p") simp_all

lemma keeps_int_case [keeps_rules]:
  assumes "\<And>i. keeps I (f i)" and "keeps I m"
  shows "keeps I (case v of PInt i \<Rightarrow> f i | _ \<Rightarrow> m)"
  using assms by (cases v) simp_all

lemma keeps_list_case [keeps_rules]:
  assumes "\<And>i. keeps I (f i)" and "keeps I m"
  shows "keeps I (case v of PList i \<Rightarrow> f i | _ \<Rightarrow> m)"
  using assms by (cases v) simp_all

lemma serves_clock: "serves_checks g runs \<Longrightarrow> rows_of runs (snd (gc_clock g s)) = rows_of runs s"
  by (simp add: serves_checks_def)

lemma serves_http:
  "serves_checks g runs \<Longrightarrow> rows_of runs (snd (gc_http g m url bearer body s)) = rows_of runs s
     \<or> m = ''POST'' \<and> url = creation_url g
       \<and> (\<exists>row. asked_for body row \<and> rows_of runs (snd (gc_http g m url bearer body s)) = rows_of runs s @ [identity row])"
  unfolding serves_checks_def by blast

lemma same_clock [keeps_rules]: "serves_checks g runs \<Longrightarrow> keeps (same runs rows) (clockG g)"
  using serves_clock [of g runs] by (auto simp: keeps_def clockG_def split_beta)

lemma same_http:
  assumes "serves_checks g runs" and "m \<noteq> ''POST'' \<or> url \<noteq> creation_url g"
  shows "keeps (same runs rows) (gc_http g m url bearer body)"
  using serves_http [OF assms(1), of m url bearer body] assms(2) by (auto simp: keeps_def)

lemma same_request [keeps_rules]:
  assumes "serves_checks g runs" and "m \<noteq> ''POST'' \<or> API_ROOT @ path \<noteq> creation_url g"
  shows "keeps (same runs rows) (gate_request g m path bearer body)"
  unfolding gate_request_def by (intro keeps_rules same_http assms)

lemma same_lift [keeps_rules]: "keeps I (liftG r)"
  by (simp add: liftG_def keeps_rules)

lemma same_json [keeps_rules]:
  assumes "serves_checks g runs" and "m \<noteq> ''POST'' \<or> path \<noteq> ''/check-runs''"
  shows "keeps (same runs rows) (token_json g m path token status body)"
proof -
  have "m \<noteq> ''POST'' \<or> API_ROOT @ ''/repos/'' @ ga_repository (gc_authority g) @ path \<noteq> creation_url g"
    using assms(2) by (simp add: creation_url_def)
  then show ?thesis
    unfolding token_json_def by (intro keeps_rules assms(1))
qed

lemma same_authenticate [keeps_rules]:
  assumes "serves_checks g runs"
  shows "keeps (same runs rows) (authenticate g)"
proof -
  have "API_ROOT @ (''/app/installations/'' @ x) \<noteq> creation_url g" for x
    by (simp add: creation_url_def)
  with same_request [OF assms] show ?thesis
    unfolding authenticate_def Let_def by (intro keeps_rules assms same_request) simp_all
qed

lemma same_conclude [keeps_rules]:
  assumes "serves_checks g runs"
  shows "keeps (same runs rows) (conclude_check g i v details_url token)"
  unfolding conclude_check_def by (intro keeps_rules assms) simp

lemma same_find:
  assumes "serves_checks g runs"
  shows "keeps (same runs rows) (find_by_external_id g name head_sha x token)"
  unfolding find_by_external_id_def by (intro keeps_rules assms) simp

lemma wp_snd: "P (snd (m s)) \<Longrightarrow> wp m (\<lambda>_. P) (\<lambda>_. P) s"
  by (cases "m s"; cases "fst (m s)") (simp_all add: wp_def)

lemma snd_bind:
  assumes "wp m Q (\<lambda>_. P) s" and "\<And>x t. Q x t \<Longrightarrow> P (snd (f x t))"
  shows "P (snd (bindI m f s))"
  using assms by (auto simp: wp_def bindI_def split: prod.splits sum.splits)

lemma wp_same:
  assumes "keeps (same runs rows) m" and "rows_of runs s = rows"
  shows "wp m (\<lambda>_ t. rows_of runs t = rows) (\<lambda>_ t. rows_of runs t = rows) s"
  using wp_keeps [OF assms] .

text \<open>A creation adds at most one row, and that row is what was asked for.\<close>

fun external_value :: "string option \<Rightarrow> pyval" where
  "external_value None = PNone"
| "external_value (Some x) = PStr x"

definition grown :: "('s \<Rightarrow> pydict list) \<Rightarrow> pydict list \<Rightarrow> (pydict \<Rightarrow> bool) \<Rightarrow> 's \<Rightarrow> bool" where
  "grown runs rows P s = (rows_of runs s = rows \<or> (\<exists>row. P row \<and> rows_of runs s = rows @ [row]))"

lemma grown_refl [simp]: "grown runs (rows_of runs t) P t"
  by (simp add: grown_def)

lemma wp_create:
  assumes "serves_checks g runs" and "rows_of runs s = rows"
  shows "wp (create_in_progress g name head_sha details_url summary token external_id)
    (\<lambda>_. grown runs rows (\<lambda>row. pget row ''name'' = PStr name \<and> pget row ''head_sha'' = head_sha \<and> pget row ''external_id'' = external_value external_id))
    (\<lambda>_. grown runs rows (\<lambda>row. pget row ''name'' = PStr name \<and> pget row ''head_sha'' = head_sha \<and> pget row ''external_id'' = external_value external_id)) s"
    (is "wp ?m (\<lambda>_. ?G) (\<lambda>_. ?G) s")
proof -
  have old: "?G t" if "rows_of runs t = rows" for t using that by (simp add: grown_def)
  have body: "asked_for (creation_body name head_sha details_url at summary external_id) row \<Longrightarrow>
      pget (identity row) ''name'' = PStr name \<and> pget (identity row) ''head_sha'' = head_sha
      \<and> pget (identity row) ''external_id'' = external_value external_id" for at row
    by (cases external_id) (simp_all add: asked_for_def creation_body_def identity_def pget_def)
  have http: "?G (snd (gc_http g ''POST'' url bearer (creation_body name head_sha details_url at summary external_id) t))"
    if "rows_of runs t = rows" for url bearer at t
    using serves_http [OF assms(1), of "''POST''" url bearer "creation_body name head_sha details_url at summary external_id" t] that body
    by (auto simp: grown_def)
  have request: "wp (gate_request g ''POST'' path bearer (creation_body name head_sha details_url at summary external_id)) (\<lambda>_. ?G) (\<lambda>_. ?G) t"
    if "rows_of runs t = rows" for path bearer at t
    using old [OF that] by (simp add: gate_request_def) (intro impI wp_snd http that)
  have json: "wp (token_json g ''POST'' path token status (creation_body name head_sha details_url at summary external_id)) (\<lambda>_. ?G) (\<lambda>_. ?G) t"
    if "rows_of runs t = rows" for path status at t
    unfolding token_json_def wp_bind
    by (rule wp_mono [OF wp_same [OF same_clock [OF assms(1)] that]])
      (auto simp: liftG_def old split: pydatetime.splits intro!: wp_mono [OF request])
  show ?thesis
    unfolding create_in_progress_def wp_bind wp_require
    by (auto simp: liftG_def old assms(2) intro!: wp_mono [OF wp_same [OF same_clock [OF assms(1)] assms(2)]] wp_mono [OF json]
        split: sum.splits pyval.splits)
qed

lemma own_matches_none:
  "own_matches g name head_sha x rows = Inr [] \<Longrightarrow> PDict row \<in> set rows \<Longrightarrow> \<not> own_row g name head_sha x row"
proof (induction rows)
  case (Cons v rows)
  then show ?case
    by (cases v) (auto simp: bindE_eq_Inr split: if_splits pyval.splits)
qed simp

lemma serves_listing:
  assumes "serves_checks g runs"
    and "gc_http g ''GET'' (API_ROOT @ ''/repos/'' @ ga_repository (gc_authority g) @ ''/commits/'' @ fmt head_sha
      @ ''/check-runs?check_name='' @ concat (map quote_char name) @ ''&filter=all&per_page=100'') bearer PNone s = (Inr r, s1)"
    and "gate_json r 200 = Inr v" and "pget v ''check_runs'' = PList rows"
    and "own_matches g name head_sha x rows = Inr []"
  shows "filter (own_row g name head_sha x) (runs s) = []"
proof -
  have "list_all (\<lambda>row. own_row g name head_sha x row \<longrightarrow> (\<exists>row'. PDict row' \<in> set rows \<and> own_row g name head_sha x row')) (runs s)"
    using assms(1-4) unfolding serves_checks_def by blast
  with own_matches_none [OF assms(5)] show ?thesis by (auto simp: list_all_iff filter_empty_conv)
qed

lemma filter_identity: "filter (own_row g name head_sha x) (rows_of runs s) = [] \<longleftrightarrow> filter (own_row g name head_sha x) (runs s) = []"
  by (auto simp: rows_of_def filter_empty_conv own_identity)

lemma wp_find:
  assumes "serves_checks g runs" and "rows_of runs s = rows"
  shows "wp (find_by_external_id g name head_sha x token)
    (\<lambda>found t. rows_of runs t = rows \<and> (found = None \<longrightarrow> filter (own_row g name head_sha x) rows = []))
    (\<lambda>_ t. rows_of runs t = rows) s"
proof (rule wpI)
  fix found t
  assume run: "find_by_external_id g name head_sha x token s = (Inr found, t)"
  have "rows_of runs t = rows"
    using keepsD [OF same_find [OF assms(1)] assms(2), of name head_sha x token] run by simp
  moreover have "filter (own_row g name head_sha x) rows = []" if "found = None"
  proof -
    from run that obtain c s1 now where c: "gc_clock g s = (c, s1)" "c = Aware now" "\<not> gt_expires token \<le> now" and
      tail: "\<exists>v s2 vs. bindI (gate_request g ''GET'' (''/repos/'' @ ga_repository (gc_authority g) @ ''/commits/'' @ fmt head_sha
          @ ''/check-runs?check_name='' @ concat (map quote_char name) @ ''&filter=all&per_page=100'') (gt_value token) PNone)
          (\<lambda>r. liftG (gate_json r 200)) s1 = (Inr v, s2) \<and> pget v ''check_runs'' = PList vs
          \<and> own_matches g name head_sha x vs = Inr []"
      unfolding find_by_external_id_def token_json_def
      by (simp add: bindI_def requireI_def ret_def throw_def clockG_def liftG_def pure_io_def
          split: if_splits prod.splits sum.splits pydatetime.splits pyval.splits list.splits)
    from tail obtain v s2 vs r where http: "gc_http g ''GET'' (API_ROOT @ ''/repos/'' @ ga_repository (gc_authority g) @ ''/commits/'' @ fmt head_sha
          @ ''/check-runs?check_name='' @ concat (map quote_char name) @ ''&filter=all&per_page=100'') (gt_value token) PNone s1 = (Inr r, s2)"
      "gate_json r 200 = Inr v" "pget v ''check_runs'' = PList vs" "own_matches g name head_sha x vs = Inr []"
      by (auto simp: bindI_def gate_request_def liftG_def pure_io_def throw_def split: if_splits prod.splits sum.splits)
    have "rows_of runs s1 = rows" using serves_clock [OF assms(1), of s] c(1) assms(2) by simp
    with serves_listing [OF assms(1) http] filter_identity show ?thesis by metis
  qed
  ultimately show "rows_of runs t = rows \<and> (found = None \<longrightarrow> filter (own_row g name head_sha x) rows = [])" by blast
next
  fix e t
  assume "find_by_external_id g name head_sha x token s = (Inl e, t)"
  then show "rows_of runs t = rows"
    using keepsD [OF same_find [OF assms(1)] assms(2), of name head_sha x token] by simp
qed

lemma own_row_fields:
  "own_row g name head_sha x row \<Longrightarrow> pget row ''name'' = PStr n \<Longrightarrow> pget row ''external_id'' = PStr e \<Longrightarrow> name = n \<and> x = e"
  by (simp add: own_row_def)

lemma once_grown:
  assumes "created_once g rows" and "filter (own_row g name head_sha x) rows = []"
    and "grown runs rows (\<lambda>row. pget row ''name'' = PStr name \<and> pget row ''head_sha'' = head_sha
      \<and> pget row ''external_id'' = external_value (Some x)) s" and "str_matches sha40 head_sha"
  shows "created_once g (rows_of runs s)"
proof (cases "rows_of runs s = rows")
  case False
  then obtain row where row: "pget row ''name'' = PStr name" "pget row ''head_sha'' = head_sha" "pget row ''external_id'' = PStr x"
    "rows_of runs s = rows @ [row]"
    using assms(3) by (auto simp: grown_def)
  obtain h where h: "head_sha = PStr h" using assms(4) by (cases head_sha) simp_all
  show ?thesis
    unfolding created_once_def row(4)
  proof (intro allI)
    fix n k e
    show "length (filter (own_row g n k e) (rows @ [row])) \<le> 1"
    proof (cases "own_row g n k e row")
      case True
      then have "n = name" "e = x" and k: "py_eq head_sha k"
        using row by (auto simp: own_row_def h)
      moreover from k have "k = head_sha" by (cases k) (simp_all add: h)
      ultimately show ?thesis using assms(2) by simp
    next
      case other: False
      with assms(1) show ?thesis by (simp add: created_once_def)
    qed
  qed
qed (use assms(1) in simp)

abbreviation once_now :: "'s gate_client \<Rightarrow> ('s \<Rightarrow> pydict list) \<Rightarrow> 's \<Rightarrow> bool" where
  "once_now g runs \<equiv> (\<lambda>s. created_once g (rows_of runs s))"

lemma keeps_once:
  assumes "\<And>rows. keeps (same runs rows) m"
  shows "keeps (once_now g runs) m"
  using assms by (simp add: keeps_def)

lemma recorder_keeps:
  assumes "recorders_apart rc runs"
  shows "keeps (once_now g runs) (rc_pending rc name)" "keeps (once_now g runs) (rc_created rc name i)"
    "keeps (once_now g runs) (rc_completed rc name)"
  using assms by (simp_all add: keeps_def recorders_apart_def)

lemma discard_identity_once:
  assumes host: "serves_checks (pu_client p) runs" and rc: "recorders_apart rc runs"
  shows "keeps (once_now (pu_client p) runs) (discard_identity_of p rc head_sha details_url scope token ph name)"
proof (rule keepsI)
  let ?g = "pu_client p" and ?x = "discard_external_id (gc_digest (pu_client p)) scope name"
  fix s
  assume once: "once_now ?g runs s"
  have created: "wp (create_in_progress ?g name head_sha details_url summary token (Some ?x))
      (\<lambda>_. once_now ?g runs) (\<lambda>_. once_now ?g runs) t"
    if t: "rows_of runs t = rows" "created_once ?g rows" "filter (own_row ?g name head_sha ?x) rows = []" for rows summary t
  proof (cases "str_matches sha40 head_sha")
    case True
    show ?thesis by (rule wp_mono [OF wp_create [OF host t(1)]]) (use once_grown [OF t(2,3) _ True] in auto)
  next
    case False
    then show ?thesis using t by (simp add: create_in_progress_def del: wp_bind add: wp_bind [of "requireI _ _"])
  qed
  have recorded: "once_now ?g runs (snd (bindI (rc_created rc name i) (\<lambda>_. ret i) t))" if "once_now ?g runs t" for i t
    using keepsD [OF keeps_bind [OF recorder_keeps(2) [OF rc] keeps_ret] that] .
  show "once_now ?g runs (snd (discard_identity_of p rc head_sha details_url scope token ph name s))"
    unfolding discard_identity_of_def Let_def
  proof (rule snd_bind [OF wp_keeps [OF recorder_keeps(1) [OF rc] once]], rule snd_bind [OF wp_mono [OF wp_find [OF host refl]]])
    fix t v and found :: "int option"
    assume t: "once_now ?g runs t"
      and v: "rows_of runs v = rows_of runs t \<and> (found = None \<longrightarrow> filter (own_row ?g name head_sha ?x) (rows_of runs t) = [])"
    show "once_now ?g runs (snd (bindI (case found of Some i \<Rightarrow> ret i
            | None \<Rightarrow> create_in_progress ?g name head_sha details_url (''The `'' @ ph @ ''` phase was discarded before allocation.'') token (Some ?x))
          (\<lambda>i. bindI (rc_created rc name i) (\<lambda>_. ret i)) v))"
    proof (cases found)
      case None
      then show ?thesis by (simp, intro snd_bind [OF created [OF conjunct1 [OF v]]] recorded) (use t v in auto)
    next
      case (Some i)
      with v t recorded show ?thesis by (simp add: bindI_ret)
    qed
  qed simp_all
qed

lemma publish_each_once:
  assumes host: "serves_checks (pu_client p) runs" and rc: "recorders_apart rc runs"
  shows "keeps (once_now (pu_client p) runs) (publish_each p rc head_sha details_url scope token verdicts known completed names)"
proof (induction names)
  case (Cons x names)
  obtain ph name where x: "x = (ph, name)" by (cases x)
  have found: "keeps (once_now (pu_client p) runs) (case pget known name of
      PNone \<Rightarrow> bindI (discard_identity_of p rc head_sha details_url scope token ph name) (\<lambda>i. ret (PInt i)) | i \<Rightarrow> ret i)"
    by (cases "pget known name") (auto intro!: keeps_rules discard_identity_once host rc)
  show ?case
    unfolding x publish_each.simps
    by (intro keeps_rules found recorder_keeps [OF rc] Cons.IH keeps_once same_conclude [OF host])
qed (simp add: keeps_rules)

text \<open>C34. However often a discard is published, from whatever point it is resumed and wherever an attempt stops, the host
  holds at most one Check Run of the App per published name, commit and external identity; what is relied on of
  the host is that its listing shows every matching row and that only a creation adds one.\<close>

theorem discard_creates_each_check_once:
  assumes "serves_checks (pu_client p) runs" and "recorders_apart rc runs" and "created_once (pu_client p) (rows_of runs s)"
  shows "created_once (pu_client p) (rows_of runs (snd (publish_discarded p rc head_sha reason details_url scope checks completed s)))"
proof -
  have "keeps (once_now (pu_client p) runs) (publish_discarded p rc head_sha reason details_url scope checks completed)"
    unfolding publish_discarded_def
    by (intro keeps_rules publish_each_once assms keeps_once same_authenticate [OF assms(1)])
  from keepsD [OF this] assms(3) show ?thesis by simp
qed

text \<open>A host that keeps its rows in a list, and a client of the App that talks to it.\<close>

definition sample_gate :: gate_authority where
  "sample_gate = \<lparr>ga_app_id = PInt 1, ga_app_slug = ''gate'', ga_installation_id = PInt 2, ga_repository = ''o/r'',
     ga_repository_id = PInt 3, ga_selection = ''selected'', ga_permissions = dict_of gate_permissions\<rparr>"

definition sample_row :: "pyval \<Rightarrow> pydict list \<Rightarrow> pydict" where
  "sample_row body rows =
     [(''id'', PInt (int (length rows) + 1)), (''name'', pget (dict_of body) ''name''),
      (''head_sha'', pget (dict_of body) ''head_sha''), (''external_id'', pget (dict_of body) ''external_id''),
      (''app'', PDict [(''id'', PInt 1)])]"

definition answer :: "int \<Rightarrow> pydict \<Rightarrow> wk_exc + http_response" where
  "answer status d = Inr \<lparr>hr_status = status, hr_body = Json (PDict d)\<rparr>"

definition sample_http :: "string \<Rightarrow> string \<Rightarrow> string \<Rightarrow> pyval \<Rightarrow> pydict list \<Rightarrow> (wk_exc + http_response) \<times> pydict list" where
  "sample_http m url bearer body rows =
     (if m = ''POST'' \<and> url = API_ROOT @ ''/repos/o/r/check-runs'' then (answer 201 (sample_row body rows), rows @ [sample_row body rows])
      else if m = ''POST'' then (answer 201 [(''token'', PStr ''t''), (''expires_at'', PStr ''9Z'')], rows)
      else if m = ''PATCH'' then (answer 200 [(''id'', PInt 1), (''conclusion'', pget (dict_of body) ''conclusion'')], rows)
      else if url = API_ROOT @ ''/app'' then (answer 200 [(''id'', PInt 1), (''slug'', PStr ''gate'')], rows)
      else if url = API_ROOT @ ''/repos/o/r/installation'' then
        (answer 200 [(''id'', PInt 2), (''app_id'', PInt 1), (''repository_selection'', PStr ''selected''), (''permissions'', gate_permissions)], rows)
      else (answer 200 [(''check_runs'', PList (map PDict rows))], rows))"

definition sample_publisher :: "pydict list publisher" where
  "sample_publisher =
     \<lparr>pu_client = \<lparr>gc_authority = sample_gate, gc_clock = (\<lambda>rows. (Aware 5, rows)), gc_sign = (\<lambda>s. ''s''), gc_http = sample_http,
        gc_iso = (\<lambda>s. Some (Aware 9)), gc_digest = (\<lambda>s. replicate 64 (CHR ''0''))\<rparr>,
      pu_job_log = (\<lambda>i rows. (Inr ([], None), rows))\<rparr>"

definition no_recorders :: "pydict list recorders" where
  "no_recorders = \<lparr>rc_pending = (\<lambda>n. ret ()), rc_created = (\<lambda>n i. ret ()), rc_completed = (\<lambda>n. ret ())\<rparr>"

lemma sample_rows_listed:
  assumes "own_row g name head_sha x row" and "row \<in> set rows"
  shows "\<exists>row'. PDict row' \<in> set (map PDict rows) \<and> own_row g name head_sha x row'"
  using assms by auto

lemma sample_serves: "serves_checks (pu_client sample_publisher) (\<lambda>rows. rows)"
proof -
  let ?g = "pu_client sample_publisher"
  have g: "gc_clock ?g s = (Aware 5, s)" "gc_http ?g = sample_http" "ga_repository (gc_authority ?g) = ''o/r''" for s
    by (simp_all add: sample_publisher_def sample_gate_def)
  have created: "asked_for body (sample_row body rows)" for body rows
    by (simp add: asked_for_def sample_row_def pget_def)
  have http: "rows_of (\<lambda>rows. rows) (snd (sample_http m url bearer body s)) = rows_of (\<lambda>rows. rows) s
     \<or> m = ''POST'' \<and> url = creation_url ?g
       \<and> (\<exists>row. asked_for body row
            \<and> rows_of (\<lambda>rows. rows) (snd (sample_http m url bearer body s)) = rows_of (\<lambda>rows. rows) s @ [identity row])" for m url bearer body s
  proof (cases "m = ''POST'' \<and> url = API_ROOT @ ''/repos/o/r/check-runs''")
    case True
    moreover have "creation_url ?g = API_ROOT @ ''/repos/o/r/check-runs''" by (simp add: creation_url_def g)
    ultimately show ?thesis using created [of body s] by (auto simp: sample_http_def rows_of_def)
  next
    case False
    then have "snd (sample_http m url bearer body s) = s" unfolding sample_http_def by (simp only: if_False snd_conv if_distrib [of snd]) simp
    then show ?thesis by simp
  qed
  have listed: "list_all (\<lambda>row. own_row ?g name head_sha x row \<longrightarrow> (\<exists>row'. PDict row' \<in> set rows \<and> own_row ?g name head_sha x row')) s"
    if "sample_http ''GET'' (API_ROOT @ ''/repos/'' @ ''o/r'' @ ''/commits/'' @ path) bearer PNone s = (Inr r, s1)"
      "gate_json r 200 = Inr v" "pget v ''check_runs'' = PList rows" for name head_sha x path bearer r v rows s s1
  proof -
    have "API_ROOT @ ''/repos/'' @ ''o/r'' @ ''/commits/'' @ path \<noteq> API_ROOT @ ''/app''"
      "API_ROOT @ ''/repos/'' @ ''o/r'' @ ''/commits/'' @ path \<noteq> API_ROOT @ ''/repos/o/r/installation''" by simp_all
    then have "sample_http ''GET'' (API_ROOT @ ''/repos/'' @ ''o/r'' @ ''/commits/'' @ path) bearer PNone s
        = (answer 200 [(''check_runs'', PList (map PDict s))], s)"
      unfolding sample_http_def by (simp only: if_False if_True) simp
    with that have "rows = map PDict s" by (simp add: answer_def gate_json_def pget_def del: append.simps) auto
    then show ?thesis using sample_rows_listed by (auto simp: list_all_iff)
  qed
  show ?thesis
    unfolding serves_checks_def g
    by (intro conjI allI impI http; (elim conjE)?) (simp, rule listed)
qed

theorem discard_creates_each_check_once_witness:
  "created_once (pu_client sample_publisher) (rows_of (\<lambda>rows. rows)
     (snd (publish_discarded sample_publisher no_recorders (PStr (replicate 40 (CHR ''a''))) ''superseded'' ''url'' ''request:1'' [] []
       (snd (publish_discarded sample_publisher no_recorders (PStr (replicate 40 (CHR ''a''))) ''superseded'' ''url'' ''request:1'' [] [] [])))))"
proof -
  have rc: "recorders_apart no_recorders (\<lambda>rows. rows)" by (simp add: recorders_apart_def no_recorders_def ret_def)
  have "created_once (pu_client sample_publisher) (rows_of (\<lambda>rows. rows) [])" by (simp add: created_once_def rows_of_def)
  from discard_creates_each_check_once [OF sample_serves rc this] show ?thesis
    by (rule discard_creates_each_check_once [OF sample_serves rc])
qed

end
