(* ===== verification/Worker_Steady.thy ===== *)
theory Worker_Steady
  imports Pilot_Worker Checks_Safety
begin

text \<open>
  What every operation of the pilot worker leaves alone. \<open>steady\<close> is the contract of an invariant of
  the worker's state: the outside world, the log of the calls that are harmless and the operations
  of the durable table keep it. Inside it every step of an assignment but the dispatch is shown once
  to keep the invariant; the safety theorems interpret it.
\<close>

section \<open>Case rules\<close>

lemma keeps_pair_dict [keeps_rules]:
  assumes "\<And>d e. keeps I (f d e)" and "keeps I m"
  shows "keeps I (case v of (PDict d, PDict e) \<Rightarrow> f d e | _ \<Rightarrow> m)"
  using assms by (cases v; cases "fst v"; cases "snd v") simp_all

lemma keeps_pair_option [keeps_rules]:
  assumes "\<And>a b. keeps I (f a b)" and "keeps I m"
  shows "keeps I (case v of (Some a, Some b) \<Rightarrow> f a b | _ \<Rightarrow> m)"
  using assms by (cases v; cases "fst v"; cases "snd v") simp_all

lemma keeps_publication [keeps_rules]:
  assumes "\<And>a b d. keeps I (f a b d)" and "keeps I m"
  shows "keeps I (case v of (Some a, Some b, PDict d) \<Rightarrow> f a b d | _ \<Rightarrow> m)"
proof (cases v)
  case (fields a b x)
  then show ?thesis using assms by (cases a; cases b; cases x) simp_all
qed

lemma keeps_text_case [keeps_rules]:
  assumes "\<And>t. keeps I (f t)" and "keeps I m"
  shows "keeps I (case v of PStr t \<Rightarrow> f t | _ \<Rightarrow> m)"
  using assms by (cases v) simp_all

lemma keeps_answer [keeps_rules]:
  assumes "keeps I n" and "\<And>t. keeps I (f t)" and "keeps I m"
  shows "keeps I (case v of PNone \<Rightarrow> n | PStr t \<Rightarrow> f t | _ \<Rightarrow> m)"
  using assms by (cases v) simp_all

lemma keeps_closing [keeps_rules]:
  assumes "\<And>r. keeps I (f r)" and "\<And>j c. keeps I (g j c)" and "\<And>r. keeps I (h r)"
  shows "keeps I (case how of CloseDiscarded r \<Rightarrow> f r | CloseConcluded j c \<Rightarrow> g j c | CloseAbandoned r \<Rightarrow> h r)"
  using assms by (cases how) simp_all

lemma keeps_items [keeps_rules]:
  assumes "\<And>x xs. keeps I (f x xs)" and "keeps I m"
  shows "keeps I (case v of [] \<Rightarrow> m | x # xs \<Rightarrow> f x xs)"
  using assms by (cases v) simp_all

lemma keeps_modify: "(\<And>s. I s \<Longrightarrow> I (f s)) \<Longrightarrow> keeps I (modifyI f)"
  by (simp add: keeps_def modifyI_def)

lemma keeps_require_bind:
  "(c \<Longrightarrow> keeps I m) \<Longrightarrow> keeps I (bindI (requireI c e) (\<lambda>_. m))"
  by (auto simp: requireI_def bindI_ret keeps_def io_defs)

lemma keeps_tuple:
  assumes "\<And>a b. keeps I (f a b)"
  shows "keeps I (case_prod f v)"
  using assms by (cases v) simp

section \<open>The Check Run publisher\<close>

definition quiet_publisher :: "('s \<Rightarrow> bool) \<Rightarrow> 's publisher \<Rightarrow> bool" where
  "quiet_publisher I pub =
     ((\<forall>m url bearer body. keeps I (gc_http (pu_client pub) m url bearer body)) \<and> keeps I (clockG (pu_client pub))
      \<and> (\<forall>i. keeps I (pu_job_log pub i)))"

lemma quiet_parts [keeps_rules]:
  assumes "quiet_publisher I pub"
  shows "keeps I (gc_http (pu_client pub) m url bearer body)" and "keeps I (clockG (pu_client pub))"
    and "keeps I (pu_job_log pub i)"
  using assms by (simp_all add: quiet_publisher_def)

lemma quiet_request [keeps_rules]:
  assumes "quiet_publisher I pub"
  shows "keeps I (gate_request (pu_client pub) m path bearer body)"
  unfolding gate_request_def by (intro keeps_rules assms)

lemma quiet_json [keeps_rules]:
  assumes "quiet_publisher I pub"
  shows "keeps I (token_json (pu_client pub) m path token status body)"
  unfolding token_json_def by (intro keeps_rules assms)

lemma quiet_authenticate [keeps_rules]:
  assumes "quiet_publisher I pub"
  shows "keeps I (authenticate (pu_client pub))"
  unfolding authenticate_def Let_def by (intro keeps_rules quiet_request assms)

lemma quiet_create [keeps_rules]:
  assumes "quiet_publisher I pub"
  shows "keeps I (create_in_progress (pu_client pub) name head_sha link summary token x)"
  unfolding create_in_progress_def by (intro keeps_rules quiet_json assms)

lemma quiet_find [keeps_rules]:
  assumes "quiet_publisher I pub"
  shows "keeps I (find_by_external_id (pu_client pub) name head_sha x token)"
  unfolding find_by_external_id_def by (intro keeps_rules quiet_json assms)

lemma quiet_conclude [keeps_rules]:
  assumes "quiet_publisher I pub"
  shows "keeps I (conclude_check (pu_client pub) i v link token)"
  unfolding conclude_check_def by (intro keeps_rules quiet_json assms)

lemma quiet_start [keeps_rules]:
  assumes "quiet_publisher I pub"
  shows "keeps I (start_checks pub head_sha link)"
proof -
  have "keeps I (start_each pub head_sha link token names)" for token names
  proof (induction names)
    case (Cons n names)
    then show ?case by (cases n) (auto intro!: keeps_rules quiet_create assms)
  qed (simp add: keeps_rules)
  then show ?thesis unfolding start_checks_def by (intro keeps_rules quiet_authenticate assms)
qed

lemma quiet_apply [keeps_rules]:
  assumes "quiet_publisher I pub"
  shows "keeps I (apply_verdicts pub checks verdicts link)"
proof -
  have "keeps I (apply_each pub checks verdicts link token names)" for token names
  proof (induction names)
    case (Cons n names)
    then show ?case
      by (cases n; cases "pget checks (snd n)"; cases "map_of verdicts (fst n)")
        (auto intro!: keeps_rules quiet_conclude assms)
  qed (simp add: keeps_rules)
  then show ?thesis unfolding apply_verdicts_def by (intro keeps_rules quiet_authenticate assms)
qed

lemma quiet_discard [keeps_rules]:
  assumes "quiet_publisher I pub"
  shows "keeps I (discard_checks pub checks reason link)"
proof -
  have "keeps I (discard_each pub checks verdicts link token names)" for verdicts token names
  proof (induction names)
    case (Cons n names)
    then show ?case
      by (cases n; cases "pget checks (snd n)"; cases "map_of verdicts (fst n)")
        (auto intro!: keeps_rules quiet_conclude assms)
  qed (simp add: keeps_rules)
  then show ?thesis unfolding discard_checks_def by (intro keeps_rules quiet_authenticate assms)
qed

lemma quiet_closes [keeps_rules]:
  assumes "quiet_publisher I pub"
  shows "keeps I (close_with pub how checks details)"
  unfolding close_with_def conclude_checks_def abandon_checks_def
  by (intro keeps_rules same_lift quiet_apply quiet_discard quiet_parts assms)

lemma quiet_publishes:
  assumes "quiet_publisher I pub" and rc: "\<And>n. keeps I (rc_pending rc n)" "\<And>n i. keeps I (rc_created rc n i)"
    "\<And>n. keeps I (rc_completed rc n)"
  shows "keeps I (publish_discarded pub rc head_sha reason link scope checks completed)"
proof -
  have identity: "keeps I (discard_identity_of pub rc head_sha link scope token ph name)" for token ph name
    unfolding discard_identity_of_def Let_def
    by (intro keeps_rules quiet_find quiet_create rc assms(1))
  have "keeps I (publish_each pub rc head_sha link scope token verdicts checks completed names)" for token verdicts names
  proof (induction names)
    case (Cons n names)
    obtain ph name where n: "n = (ph, name)" by fastforce
    have first: "keeps I (case pget checks name of
        PNone \<Rightarrow> bindI (discard_identity_of pub rc head_sha link scope token ph name) (\<lambda>i. ret (PInt i))
      | i \<Rightarrow> ret i)"
      by (cases "pget checks name") (simp_all add: keeps_rules identity)
    have second: "keeps I (case map_of verdicts ph of None \<Rightarrow> throw PyKeyError
        | Some v \<Rightarrow> conclude_check (pu_client pub) i v link token)" for i
      by (intro keeps_rules quiet_conclude assms(1))
    show ?case
      unfolding n publish_each.simps by (intro keeps_if Cons.IH keeps_bind first second rc)
  qed (simp add: keeps_rules)
  then show ?thesis
    unfolding publish_discarded_def by (intro keeps_rules quiet_authenticate assms(1))
qed

section \<open>The terminal monitor\<close>

definition quiet_env :: "('s \<Rightarrow> bool) \<Rightarrow> 's pilot_env \<Rightarrow> bool" where
  "quiet_env I env =
     ((\<forall>i. keeps I (pe_run env i)) \<and> (\<forall>i. keeps I (pe_jobs env i)) \<and> (\<forall>d s. I s \<longrightarrow> I (pe_sleep env d s))
      \<and> (\<forall>s. I s \<longrightarrow> I (snd (pe_monotonic env s))) \<and> (\<forall>f. pe_supersession env = Some f \<longrightarrow> keeps I f)
      \<and> (\<forall>f i. pe_cancel_run env = Some f \<longrightarrow> keeps I (f i)) \<and> (\<forall>f c. pe_before_finish env = Some f \<longrightarrow> keeps I (f c))
      \<and> (\<forall>a c. keeps I (pe_finish env a c)) \<and> (\<forall>a l. keeps I (pe_prove_clean env a l)))"

lemma quiet_env_step:
  assumes "quiet_env I env" and "I s"
  shows "pe_run env i s = (r, t) \<Longrightarrow> I t" and "pe_jobs env i s = (r, t) \<Longrightarrow> I t" and "I (pe_sleep env d s)"
    and "pe_monotonic env s = (x, t) \<Longrightarrow> I t" and "pe_supersession env = Some f \<Longrightarrow> f s = (q, t) \<Longrightarrow> I t"
    and "pe_cancel_run env = Some g \<Longrightarrow> g i s = (y, t) \<Longrightarrow> I t"
    and "pe_before_finish env = Some h \<Longrightarrow> h c s = (u, t) \<Longrightarrow> I t"
    and "pe_finish env a c s = (u, t) \<Longrightarrow> I t" and "pe_prove_clean env a l s = (r, t) \<Longrightarrow> I t"
  using assms unfolding quiet_env_def keeps_def by (metis snd_conv)+

lemma quiet_wait: "quiet_env I env \<Longrightarrow> I s \<Longrightarrow> wait_or_timeout env poll deadline s = (r, t) \<Longrightarrow> I t"
  unfolding wait_or_timeout_def by (auto split: prod.splits if_splits dest: quiet_env_step(4) intro: quiet_env_step(3))

lemma quiet_ask: "quiet_env I env \<Longrightarrow> I s \<Longrightarrow> ask_supersession env run_id s = (r, t) \<Longrightarrow> I t"
  unfolding ask_supersession_def
  by (auto split: prod.splits option.splits sum.splits dest: quiet_env_step(5,6))

lemma quiet_verdict: "quiet_env I env \<Longrightarrow> I s \<Longrightarrow> after_verdict env ids poll deadline v s = (r, t) \<Longrightarrow> I t"
  unfolding after_verdict_def
  by (auto split: verdict.splits prod.splits option.splits dest: quiet_wait quiet_ask)

lemma quiet_round: "quiet_env I env \<Longrightarrow> I s \<Longrightarrow> monitor_round env ids poll deadline s = (r, t) \<Longrightarrow> I t"
  unfolding monitor_round_def
  by (auto split: prod.splits sum.splits dest: quiet_env_step(1,2) quiet_verdict)

lemma quiet_loop: "quiet_env I env \<Longrightarrow> I s \<Longrightarrow> monitor_loop n env ids poll deadline s = Some (r, t) \<Longrightarrow> I t"
proof (induction n arbitrary: s)
  case (Suc n)
  obtain r1 s1 where r1: "monitor_round env ids poll deadline s = (r1, s1)" by fastforce
  with Suc.prems have "I s1" by (blast dest: quiet_round)
  with r1 Suc show ?case by (cases r1) auto
qed simp

lemma quiet_finish: "quiet_env I env \<Longrightarrow> I s \<Longrightarrow> finish_run env ids c u s = (r, t) \<Longrightarrow> I t"
  unfolding finish_run_def
  by (cases "pe_before_finish env")
    (auto split: prod.splits sum.splits if_splits dest: quiet_env_step(7,8,9))

lemma quiet_monitor:
  assumes "quiet_env I env" and "I s" and "monitor fuel env ids timeout poll s = Some (r, t)"
  shows "I t"
proof -
  obtain x s1 where s1: "pe_monotonic env s = (x, s1)" by fastforce
  with assms have "I s1" by (blast dest: quiet_env_step(4))
  with assms s1 show ?thesis
    unfolding monitor_def
    by (auto split: if_splits option.splits prod.splits round_end.splits dest: quiet_loop quiet_finish)
qed

section \<open>The contract of an invariant\<close>

definition quiet_call :: "worker_call \<Rightarrow> bool" where
  "quiet_call c = (case c of CallDispatch _ _ \<Rightarrow> False | CallComplete _ _ \<Rightarrow> False | _ \<Rightarrow> True)"

text \<open>No record forgets a run, a lost receipt or the issued package.\<close>

definition keeping :: "pydict \<Rightarrow> bool" where
  "keeping values =
     list_all (\<lambda>(k, v). (k = ''run_id'' \<longrightarrow> v \<noteq> PNone) \<and> (k = ''dispatch_ambiguous'' \<longrightarrow> py_truthy v)
       \<and> (k = ''dispatch_package'' \<longrightarrow> (\<exists>d. v = PDict d))) values"

lemma keeping_simps [simp]:
  "keeping []"
  "keeping ((k, v) # values) \<longleftrightarrow>
     (k = ''run_id'' \<longrightarrow> v \<noteq> PNone) \<and> (k = ''dispatch_ambiguous'' \<longrightarrow> py_truthy v)
     \<and> (k = ''dispatch_package'' \<longrightarrow> (\<exists>d. v = PDict d)) \<and> keeping values"
  by (simp_all add: keeping_def)

lemma keeping_cancel [simp]: "keeping (cancel_answer p now accepted error)"
  by (simp add: cancel_answer_def)

lemma quiet_checks:
  fixes I :: "'w worker \<Rightarrow> bool"
  assumes "\<And>s w. I s \<Longrightarrow> I (s\<lparr>ws_world := w\<rparr>)"
  shows "quiet_publisher I (checks_publisher pub)"
proof -
  have "keeps I (portW f)" for f :: "'w \<Rightarrow> (wk_exc + http_response) \<times> 'w"
    by (auto simp: keeps_def portW_def split_beta intro: assms)
  moreover have "keeps I (portW f)" for f :: "'w \<Rightarrow> (wk_exc + job_log) \<times> 'w"
    by (auto simp: keeps_def portW_def split_beta intro: assms)
  moreover have "keeps I (clockG (pu_client (checks_publisher pub)))"
    by (auto simp: keeps_def clockG_def checks_publisher_def checks_client_def split_beta intro: assms)
  ultimately show ?thesis
    by (simp add: quiet_publisher_def checks_publisher_def checks_client_def)
qed

locale worldly =
  fixes I :: "'w worker \<Rightarrow> bool"
  assumes world: "I s \<Longrightarrow> I (s\<lparr>ws_world := w\<rparr>)"
    and reason: "I s \<Longrightarrow> I (s\<lparr>ws_reason := r\<rparr>)"
    and calls: "I s \<Longrightarrow> quiet_call c \<Longrightarrow> I (s\<lparr>ws_calls := ws_calls s @ [c]\<rparr>)"
begin

lemma port [keeps_rules]: "keeps I (portW f)"
  and tick [keeps_rules]: "keeps I (tickW g)"
  by (auto simp: keeps_def portW_def tickW_def split_beta intro: world)

lemma call: "quiet_call c \<Longrightarrow> keeps I (callW c f)"
proof (rule keepsI)
  fix s assume "quiet_call c" "I s"
  from calls [OF world [OF this(2), of "snd (f (ws_world s))"] this(1)]
  show "I (snd (callW c f s))" by (simp add: callW_def split_beta)
qed

lemma logs: "quiet_call c \<Longrightarrow> keeps I (logW c)"
  unfolding logW_def by (rule keeps_modify) (rule calls)

lemma progress [keeps_rules]: "keeps I (progressW key)"
  by (simp add: keeps_def dbW_def wk_get_progress_def readI_def split: option.splits)

lemma unchanged_db [keeps_rules]: "keeps I (dbW wk_recoverable)" "keeps I (dbW (wk_done key))"
  by (simp_all add: keeps_def dbW_def wk_recoverable_def wk_done_def readI_def)

lemma now [keeps_rules]: "keeps I (nowW p)"
  unfolding nowW_def by (intro keeps_rules)

lemma lifted [keeps_rules]: "keeps I (liftP r)" "keeps I (liftA q)" "keeps I (indexW v k)"
  by (simp_all add: liftP_def liftA_def indexW_def keeps_rules)

lemma publisher: "quiet_publisher I (checks_publisher pub)"
  by (rule quiet_checks) (rule world)

lemma supersedes [keeps_rules]: "keeps I (supersession p key d)"
  unfolding supersession_def by (intro keeps_rules)

lemma outcome [keeps_rules]: "keeps I (record_outcomeW p key d cause run_id job_id executed success)"
  unfolding record_outcomeW_def Let_def by (intro keeps_rules)

lemma recovers [keeps_rules]: "keeps I (recover_exact p a)"
  unfolding recover_exact_def by (intro keeps_rules call) (simp add: quiet_call_def)

lemma recovery_id [keeps_rules]: "keeps I (recovery_allocation_id p d)"
  unfolding recovery_allocation_id_def recovery_check_def by (intro keeps_rules)

lemma source_calls [keeps_rules]: "keeps I (sourcefailW p key why)" "keeps I (sourceretryW p key why)"
  unfolding sourcefailW_def sourceretryW_def by (auto intro!: call simp: quiet_call_def)

lemma ignored [keeps_rules]: "keeps I m \<Longrightarrow> keeps I (ignore_refusal m)"
  unfolding ignore_refusal_def by (intro keeps_rules)

lemma asks [keeps_rules]: "keeps I (ask_cancel p run_id)"
  unfolding ask_cancel_def by (intro keeps_rules call) (simp add: quiet_call_def)

lemma monitors:
  assumes "quiet_env I env"
  shows "keeps I (monitorW p env a l r j)"
proof (rule keepsI)
  fix s assume "I s"
  with quiet_monitor [OF assms] show "I (snd (monitorW p env a l r j s))"
    unfolding monitorW_def by (auto simp: throw_def split: pyval.splits option.splits prod.splits)
qed

lemma env_quiet:
  assumes "\<And>f g. superseding = Some (f, g) \<Longrightarrow> keeps I f \<and> (\<forall>i. keeps I (g i))" and "\<And>c. keeps I (before c)"
  shows "quiet_env I (monitor_env p superseding before)"
proof -
  have pilot: "keeps I m \<Longrightarrow> keeps I (to_pilot m)" for m :: "('w, 'b) wio"
    by (auto simp: keeps_def to_pilot_def split: prod.splits sum.splits)
  have "I (s\<lparr>ws_world := w\<rparr>)" if "I s" for s w using world that by blast
  moreover have "keeps I (bindI (g i) (\<lambda>_. ret (Some True)))" if "superseding = Some (f, g)" for f g i
    using assms(1) [OF that] by (intro keeps_rules) blast
  moreover have "keeps I (callW (CallFinish a c) (pw_finish p a c))" for a c
    by (rule call) (simp add: quiet_call_def)
  ultimately show ?thesis
    using assms unfolding quiet_env_def monitor_env_def
    by (auto simp: split_beta intro!: pilot port split: option.splits)
qed

lemma chooses: "keeps I (next_request p)"
  unfolding next_request_def by (intro keeps_rules)

lemma packages [keeps_rules]: "keeps I (assigned_package p d progress)"
  unfolding assigned_package_def issued_now_def Let_def by (intro keeps_rules keeps_tuple)

end

locale outer = worldly +
  assumes fail: "keeps I (dbW (wk_fail key))"
    and abort: "keeps I (dbW (wk_abort key why))"
    and terminal: "keeps I (dbW (wk_terminal key st why))"
    and claim: "keeps I (dbW (wk_claim key d now lease))"
begin

lemma yields [keeps_rules]: "keeps I (yieldW key status)"
  unfolding yieldW_def by (intro keeps_rules fail)

lemma knows: "keeps I (known_request p key d)"
  unfolding known_request_def by (intro keeps_rules claim)

end

text \<open>With closed Check Runs a failure is contained.\<close>

locale contained = outer +
  fixes key :: string
  assumes closes [keeps_rules]: "keeps I (close_checks p key how)"
begin

lemma retires: "keeps I (retire_assignment p key d progress why)"
  unfolding retire_assignment_def retire_cleanup_def by (intro keeps_rules)

lemma quarantines:
  assumes "pget d ''request_id'' = PStr key"
  shows "keeps I (quarantine p d e)"
  unfolding quarantine_def Let_def assms pyval.case by (intro keeps_rules knows retires terminal)

end

locale steady = outer +
  fixes key :: string
  assumes recording: "keeping values \<Longrightarrow> keeps I (dbW (wk_record key ph values now))"
    and deliver: "keeps I (deliver_result p refusable key result)"
    and redeliver: "keeps I (redeliver p key completing)"
begin

lemma records: "keeping values \<Longrightarrow> keeps I (recordW p key ph values)"
  unfolding recordW_def by (intro keeps_rules recording)

lemma records_claim: "keeping values \<Longrightarrow> keeps I (recordclaimW p d key ph values)"
  unfolding recordclaimW_def by (intro keeps_rules records)

lemma opens [keeps_rules]: "keeps I (open_checks p d key progress package run_id job_id)"
  unfolding open_checks_def by (intro keeps_rules publisher records_claim) simp

lemma steady_closes: "keeps I (close_checks p key how)"
  unfolding close_checks_def Let_def by (intro keeps_rules publisher records) simp_all

end

sublocale steady \<subseteq> contained
  by unfold_locales (rule steady_closes)

context steady
begin

lemma cancels:
  "run_id \<noteq> PNone \<Longrightarrow> keeps I (request_superseded_cancel p key why run_id job_id)"
  unfolding request_superseded_cancel_def by (intro keeps_rules keeps_tuple records) simp_all

lemma cancel_pends [keeps_rules]: "keeps I (cancel_pending p key run_id accepted error)"
  unfolding cancel_pending_def by (intro keeps_rules records) simp_all

lemma cancel_recovers [keeps_rules]: "keeps I (continue_cancel_recovery p key d progress)"
  unfolding continue_cancel_recovery_def finish_cancel_recovery_def Let_def
  by (intro keeps_rules records) (auto intro: abort)

lemma cancel_escalates [keeps_rules]: "keeps I (cancel_not_converged p key d progress)"
  unfolding cancel_not_converged_def by (intro keeps_rules records) simp_all

lemma cancel_finishes: "keeps I (finish_cancelled p key d why run_id job_id)"
  unfolding finish_cancelled_def
  by (intro keeps_rules monitors env_quiet deliver) simp_all

lemma cancel_judged: "keeps I (judge_cancel p key d progress now deadline run jobs)"
  unfolding judge_cancel_def Let_def
  by (intro keeps_rules keeps_tuple cancel_finishes)

lemma cancel_continues [keeps_rules]: "keeps I (continue_cancel_requested p key d progress)"
  unfolding continue_cancel_requested_def Let_def
  by (intro keeps_rules keeps_tuple cancel_judged)

lemma discards [keeps_rules]: "keeps I (report_discard p key d progress why)"
  unfolding report_discard_def discard_recorders_def
  by (intro keeps_rules quiet_publishes publisher logs) (simp_all add: quiet_call_def keeps_rules records)

lemma unrun: "keeps I (discard_unrun p key d progress why)"
  unfolding discard_unrun_def by (intro keeps_rules deliver)

lemma superseding [keeps_rules]: "keeps I (complete_superseded p key d why known_run)"
  unfolding complete_superseded_def Let_def by (intro keeps_rules cancels unrun) assumption+

lemma reconciles [keeps_rules]: "keeps I (terminal_reconcile p key d progress why)"
  unfolding terminal_reconcile_def by (intro keeps_rules records fail abort) simp

lemma issues [keeps_rules]: "keeps I (issue_package p key d)"
  unfolding issue_package_def Let_def by (intro keeps_rules records) simp_all

lemma reserves [keeps_rules]: "keeps I (reserve_assignment p d key progress package)"
  unfolding reserve_assignment_def Let_def
  by (intro keeps_rules records_claim call) (simp_all add: quiet_call_def)

lemma dispatching:
  assumes "\<And>d f. keeps I (callW (CallDispatch key d) (f :: _ \<Rightarrow> (wk_exc + pyval) \<times> _))"
  shows "keeps I (dispatch_assignment p d key progress)"
  unfolding dispatch_assignment_def Let_def
  by (intro keeps_if keeps_bind keeps_require_bind keeps_ret keeps_throw records_claim assms)
    (auto simp: positive_id_def split: pyval.splits)

lemma observes:
  "run_id \<noteq> PNone \<Longrightarrow> keeps I (observe_assignment p d key progress package run_id)"
  unfolding observe_assignment_def by (intro keeps_rules records_claim) simp_all

lemma windows [keeps_rules]: "keeps I (window_assignment p d key)"
  unfolding window_assignment_def Let_def by (intro keeps_rules records_claim) simp

lemma finalizes:
  "run_id \<noteq> PNone \<Longrightarrow> keeps I (finalize_assignment p d key progress package run_id seen)"
  unfolding finalize_assignment_def Let_def
  by (intro keeps_rules records_claim call) (simp_all add: quiet_call_def)

lemma monitors_assignment: "keeps I (monitor_assignment p d key package run_id job_id)"
  unfolding monitor_assignment_def ask_current_def cancel_current_def
  by (intro keeps_rules monitors env_quiet keeps_modify reason)
    (auto intro!: keeps_rules keeps_modify reason cancels)

lemma concludes: "keeps I (conclude_assignment p key run_id job_id outcome)"
  unfolding conclude_assignment_def by (intro keeps_rules deliver)

lemma behind [keeps_rules]:
  "run_id \<noteq> PNone \<Longrightarrow> keeps I (behind_dispatch p d key progress package run_id)"
  unfolding behind_dispatch_def
  by (intro keeps_rules observes finalizes monitors_assignment concludes) simp_all

lemma fails_assignment: "keeps I (assignment_failed p d key package e)"
  unfolding assignment_failed_def dispatch_lost_def never_dispatched_def
  by (intro keeps_rules records_claim fail abort) simp_all

lemma acquires:
  assumes "\<And>progress. keeps I (advance_assignment p d key progress)"
  shows "keeps I (run_acquired p d key)"
  unfolding run_acquired_def Let_def by (intro keeps_rules keeps_tuple assms)

end

lemma dispatch_yields:
  "wp (dispatch_assignment p d key progress) (\<lambda>run_id _. run_id \<noteq> PNone) (\<lambda>_ _. True) s"
  unfolding dispatch_assignment_def Let_def
  by (auto simp: wp_def io_defs positive_id_def split: prod.splits sum.splits)

lemma keeps_bind_yields:
  assumes "keeps I m" and "\<And>s. wp m (\<lambda>x _. Q x) (\<lambda>_ _. True) s" and "\<And>x. Q x \<Longrightarrow> keeps I (f x)"
  shows "keeps I (bindI m f)"
proof (rule keepsI)
  fix s assume "I s"
  then show "I (snd (bindI m f s))"
    using assms(1,3) assms(2) [of s] unfolding keeps_def bindI_def wp_def
    by (auto split: prod.splits sum.splits)
qed

text \<open>An invariant that the dispatch keeps as well is one of the whole cycle.\<close>

locale steady_dispatch = steady +
  assumes dispatch: "keeps I (dispatch_assignment p d key progress)"
begin

lemma advances: "keeps I (advance_assignment p d key progress)"
proof -
  have "keeps I (assignment_body p d key progress package)" for d progress package
    unfolding assignment_body_def
    by (intro keeps_rules keeps_bind_yields [where Q = "\<lambda>run_id. run_id \<noteq> PNone"] dispatch dispatch_yields behind)
  then show ?thesis
    unfolding advance_assignment_def guarded_body_def
    by (intro keeps_rules keeps_tuple fails_assignment)
qed

lemma acquired: "keeps I (run_acquired p d key)"
  by (intro acquires advances)

end

context outer
begin

text \<open>A cycle works on the request of one key, whichever it is.\<close>

lemma runs:
  assumes "\<And>d key. keeps I (run_acquired p d key)" and "\<And>key c. keeps I (redeliver p key c)"
    and "\<And>key. contained I key"
  shows "keeps I (run_once p)"
proof -
  have "keeps I (quarantine p d e)" for d e
  proof (cases "pget d ''request_id''")
    case (PStr key)
    then show ?thesis by (rule contained.quarantines [OF assms(3)])
  qed (simp_all add: quarantine_def keeps_rules)
  then show ?thesis
    unfolding run_once_def run_assignment_def
    by (intro keeps_rules chooses claim assms(1,2))
qed

end

lemma steady_cycles:
  assumes "\<And>key. steady_dispatch I key"
  shows "keeps I (run_once p)"
proof -
  have s: "steady I key" for key using assms by (simp add: steady_dispatch_def)
  then have "contained I key" for key by (simp add: contained_def contained_axioms_def steady.axioms(1) steady.steady_closes)
  with assms s show ?thesis
    using outer.runs [OF steady.axioms(1) [OF s]] steady_dispatch.acquired [OF assms] steady.redeliver [OF s] by blast
qed

end
