(* ===== verification/Worker_Rows.thy ===== *)
theory Worker_Rows
  imports Worker_Steady
begin

text \<open>
  Invariants of the pilot worker that speak of the durable row of one request and of the logged
  calls: what each statement on the table must keep of them is a locale, and the operations of the
  worker follow by \<open>steady\<close>, or by \<open>contained\<close> where the invariant pins the phase of the row.
\<close>

section \<open>Invariants of one row and the log\<close>

definition row_inv :: "string \<Rightarrow> (work_row option \<Rightarrow> worker_call list \<Rightarrow> bool) \<Rightarrow> 'w worker \<Rightarrow> bool" where
  "row_inv k P s = P (wk_find k (ws_db s)) (ws_calls s)"

abbreviation running :: "work_row \<Rightarrow> bool" where
  "running r \<equiv> wk_state r = ''running''"

definition settled :: "work_row \<Rightarrow> bool" where
  "settled r = List.member [''failed'', ''done'', ''completing''] (wk_state r)"

abbreviation released :: "work_row \<Rightarrow> work_row" where
  "released r \<equiv> r\<lparr>wk_state := ''retry'', wk_lease := None\<rparr>"

abbreviation aborted :: "string \<Rightarrow> work_row \<Rightarrow> work_row" where
  "aborted why r \<equiv> r\<lparr>wk_state := ''failed'', wk_result := Some (failure why), wk_lease := None\<rparr>"

definition ended :: "string \<Rightarrow> string \<Rightarrow> work_row \<Rightarrow> work_row" where
  "ended ph why r =
     r\<lparr>wk_state := ''failed'', wk_progress := pset ''failure_reason'' (PStr why) (pset ''phase'' (PStr ph) (wk_progress r)),
       wk_result := Some (failure why), wk_lease := None\<rparr>"

definition recorded :: "pyval \<Rightarrow> pydict \<Rightarrow> int \<Rightarrow> work_row \<Rightarrow> work_row" where
  "recorded ph values t r = set_progress (pset ''phase'' ph (pmerge (wk_progress r) values)) t r"

abbreviation completing :: "pydict \<Rightarrow> work_row \<Rightarrow> work_row" where
  "completing result r \<equiv> r\<lparr>wk_state := ''completing'', wk_result := Some result, wk_lease := None\<rparr>"

lemma find_updated:
  assumes "\<And>r. wk_id (f r) = wk_id r"
  shows "wk_find k (update_key wk_id f key rows) =
     (if k = key then map_option f (wk_find key rows) else wk_find k rows)"
  using assms by (induction rows) (auto simp: update_key_def select_key_Cons)

lemma keeps_update:
  assumes "\<And>r c. P (Some r) c \<Longrightarrow> cond r \<Longrightarrow> key = k \<Longrightarrow> P (Some (f r)) c" and "\<And>r. wk_id (f r) = wk_id r"
  shows "keeps (row_inv k P) (dbW (wk_update key cond f))"
proof (rule keepsI)
  fix s assume "row_inv k P s"
  with assms show "row_inv k P (snd (dbW (wk_update key cond f) s))"
    by (cases "wk_find key (ws_db s)") (auto simp: row_inv_def dbW_def wk_update_def find_updated)
qed

lemma dbW_bind: "dbW (bindI m f) = bindI (dbW m) (\<lambda>x. dbW (f x))"
  by (rule ext) (simp add: dbW_def bindI_def split: prod.splits sum.splits)

lemma dbW_pure [simp]: "dbW (ret x) = ret x" "dbW (throw e) = throw e" "dbW (requireI b e) = requireI b e"
  by (auto simp: fun_eq_iff dbW_def io_defs)

lemma dbW_encode: "dbW (encode d m) = (if json_safe (PDict d) then dbW m else throw PyTypeError)"
  by (simp add: encode_def)

lemmas dbW_parts = changed_one_def dbW_bind dbW_encode

lemma progress_bind:
  "bindI (progressW key) g s =
     (case wk_find key (ws_db s) of None \<Rightarrow> (Inl WorkerError, s) | Some r \<Rightarrow> g (wk_progress r) s)"
  by (simp add: dbW_def bindI_def wk_get_progress_def readI_def split: option.splits)

lemma row_inv_update:
  assumes "row_inv k P s" and "\<And>r. wk_id (f r) = wk_id r"
    and "\<And>r. wk_find k (ws_db s) = Some r \<Longrightarrow> key = k \<Longrightarrow> P (Some r) (ws_calls s) \<Longrightarrow> cond r \<Longrightarrow> P (Some (f r)) (ws_calls s)"
  shows "row_inv k P (snd (dbW (wk_update key cond f) s))"
  using assms by (cases "wk_find key (ws_db s)") (auto simp: row_inv_def dbW_def wk_update_def find_updated)

lemma snd_bind_ret: "snd (bindI m (\<lambda>_. ret x) s) = snd (m s)" "snd (bindI m (\<lambda>b. requireI (c b) e) s) = snd (m s)"
  by (auto simp: bindI_def requireI_def io_defs split: prod.splits sum.splits)

locale row_outer =
  fixes k :: string and P :: "work_row option \<Rightarrow> worker_call list \<Rightarrow> bool"
  assumes quiet: "P v c \<Longrightarrow> quiet_call x \<Longrightarrow> P v (c @ [x])"
    and release: "P (Some r) c \<Longrightarrow> running r \<Longrightarrow> P (Some (released r)) c"
    and aborting: "P (Some r) c \<Longrightarrow> running r \<Longrightarrow> P (Some (aborted why r)) c"
    and ending: "P (Some r) c \<Longrightarrow> P (Some (ended ph why r)) c"
    and fresh: "P None c \<Longrightarrow> P (Some (new_work k d t)) c"
    and take: "P (Some r) c \<Longrightarrow> \<not> settled r \<Longrightarrow> P (Some (claim_running d t r)) c"
begin

lemma claims: "keeps (row_inv k P) (dbW (wk_claim key d now lease))"
proof (rule keepsI)
  fix s :: "'w worker" assume I: "row_inv k P s"
  show "row_inv k P (snd (dbW (wk_claim key d now lease) s))"
  proof (cases "wk_find key (ws_db s)")
    case None
    with I fresh [of "ws_calls s" d "now + lease"] show ?thesis
      by (auto simp: row_inv_def dbW_def wk_claim_def encode_def throw_def select_key_append select_key_Cons new_work_def
          split: option.splits)
  next
    case (Some r)
    have "wk_id (claim_running d t r) = wk_id r" for t r by (simp add: claim_running_def)
    with I Some take [of r "ws_calls s" d "now + lease"] show ?thesis
      by (auto simp: row_inv_def dbW_def wk_claim_def encode_def throw_def settled_def find_updated)
  qed
qed

lemma ends: "keeps (row_inv k P) (dbW (wk_terminal key ph why))"
proof (rule keepsI)
  fix s :: "'w worker" assume I: "row_inv k P s"
  show "row_inv k P (snd (dbW (wk_terminal key ph why) s))"
  proof (cases "wk_find key (ws_db s)")
    case (Some r)
    with I show ?thesis
      unfolding wk_terminal_def Let_def dbW_parts progress_bind
      by (auto simp: snd_bind_ret throw_def intro!: row_inv_update) (auto dest: ending simp: ended_def)
  qed (use I in \<open>simp add: wk_terminal_def dbW_bind progress_bind\<close>)
qed

end

sublocale row_outer \<subseteq> outer "row_inv k P"
proof
  show "row_inv k P s \<Longrightarrow> row_inv k P (s\<lparr>ws_world := w\<rparr>)" for s :: "'w worker" and w
    by (simp add: row_inv_def)
  show "row_inv k P s \<Longrightarrow> row_inv k P (s\<lparr>ws_reason := r\<rparr>)" for s :: "'w worker" and r
    by (simp add: row_inv_def)
  show "row_inv k P s \<Longrightarrow> quiet_call c \<Longrightarrow> row_inv k P (s\<lparr>ws_calls := ws_calls s @ [c]\<rparr>)" for s :: "'w worker" and c
    by (simp add: row_inv_def quiet)
  show "keeps (row_inv k P) (dbW (wk_fail key) :: ('w, unit) wio)" for key
    unfolding wk_fail_def dbW_bind dbW_pure by (intro keeps_rules keeps_update) (simp_all add: release)
  show "keeps (row_inv k P) (dbW (wk_abort key why) :: ('w, unit) wio)" for key why
    unfolding wk_abort_def dbW_parts dbW_pure by (intro keeps_rules keeps_update) (simp_all add: aborting)
qed (fact ends claims)+

text \<open>An invariant that a result keeps when it is fixed, told and delivered.\<close>

definition result_fixed :: "string \<Rightarrow> string \<Rightarrow> pydict \<Rightarrow> 'w worker \<Rightarrow> bool" where
  "result_fixed k key result s =
     (key = k \<longrightarrow> (\<exists>r. wk_find k (ws_db s) = Some r \<and> List.member [''completing'', ''done''] (wk_state r) \<and> wk_result r = Some result))"

locale row_delivering = row_outer +
  assumes complete: "P (Some r) c \<Longrightarrow> running r \<Longrightarrow> P (Some (completing result r)) c"
    and tell: "P (Some r) c \<Longrightarrow> List.member [''completing'', ''done''] (wk_state r) \<Longrightarrow> wk_result r = Some result \<Longrightarrow>
        P (Some r) (c @ [CallComplete k result])"
    and other: "key \<noteq> k \<Longrightarrow> P v c \<Longrightarrow> P v (c @ [CallComplete key result])"
    and handed: "P (Some r) c \<Longrightarrow> wk_state r = ''completing'' \<Longrightarrow> P (Some (r\<lparr>wk_state := ''done''\<rparr>)) c"
begin

lemma finished:
  "row_inv k P s \<Longrightarrow>
     wp (dbW (wk_finish key result)) (\<lambda>_ t. row_inv k P t \<and> result_fixed k key result t) (\<lambda>_. row_inv k P) s"
  by (cases "wk_find key (ws_db s)")
    (auto simp: wp_def row_inv_def result_fixed_def wk_finish_def changed_one_def dbW_def encode_def io_defs wk_update_def
       find_updated complete)

lemma tells:
  assumes "row_inv k P s" and "result_fixed k key result s"
  shows "row_inv k P (snd (sourcecompleteW p key result s))"
  using assms tell other
  by (cases "key = k") (auto simp: sourcecompleteW_def callW_def split_beta row_inv_def result_fixed_def)

lemma hands: "keeps (row_inv k P) (dbW (wk_delivered key))"
  unfolding wk_delivered_def dbW_parts dbW_pure by (intro keeps_rules keeps_update) (simp_all add: handed)

lemma delivers: "keeps (row_inv k P) (deliver_result (p :: 'w worker_ports) refusable key result)"
proof (rule keepsI)
  fix s :: "'w worker" assume I: "row_inv k P s"
  have told: "row_inv k P (snd (ignore_refusal (sourcecompleteW p key result) t))"
    if "row_inv k P t" "result_fixed k key result t" for t :: "'w worker"
    using tells [OF that, of p] by (auto simp: ignore_refusal_def tryI_def io_defs split: prod.splits sum.splits)
  have rest: "keeps (row_inv k P) (bindI (dbW (wk_delivered key)) (\<lambda>_. ret result) :: ('w, pydict) wio)"
    by (intro keeps_rules hands)
  show "row_inv k P (snd (deliver_result p refusable key result s))"
    unfolding deliver_result_def
    by (rule snd_bind [OF finished [OF I]], rule snd_bind [OF wp_snd])
      (use told tells in \<open>auto intro: keepsD [OF rest]\<close>)
qed

lemma redelivers: "keeps (row_inv k P) (redeliver (p :: 'w worker_ports) key is_completing)"
proof (rule keepsI)
  fix s :: "'w worker" assume I: "row_inv k P s"
  have prior: "wp (dbW (wk_done key))
      (\<lambda>prior t. row_inv k P t \<and> (\<forall>result. prior = Some result \<longrightarrow> result_fixed k key result t)) (\<lambda>_. row_inv k P) s"
    using I by (cases "wk_find key (ws_db s)")
      (auto simp: wp_def dbW_def wk_done_def readI_def result_fixed_def split: option.splits)
  have rest: "keeps (row_inv k P) (bindI (if is_completing then dbW (wk_delivered key) else ret ()) (\<lambda>_. ret result) :: ('w, pydict) wio)"
    for result by (intro keeps_rules hands)
  have "row_inv k P (snd (bindI (sourcecompleteW p key result)
      (\<lambda>_. bindI (if is_completing then dbW (wk_delivered key) else ret ()) (\<lambda>_. ret result)) t))"
    if "row_inv k P t" "result_fixed k key result t" for result and t :: "'w worker"
    by (rule snd_bind, rule wp_snd, rule tells [OF that]) (rule keepsD [OF rest])
  then show "row_inv k P (snd (redeliver p key is_completing s))"
    unfolding redeliver_def by (intro snd_bind [OF prior]) (auto simp: throw_def split: option.splits)
qed

end

text \<open>An invariant that every record keeps.\<close>

locale row_steady = row_delivering +
  assumes recordings: "P (Some r) c \<Longrightarrow> running r \<Longrightarrow> keeping values \<Longrightarrow> P (Some (recorded ph values t r)) c"
begin

lemma record_row: "keeping values \<Longrightarrow> keeps (row_inv k P) (dbW (wk_record key ph values now))"
proof (rule keepsI)
  fix s :: "'w worker" assume v: "keeping values" and I: "row_inv k P s"
  show "row_inv k P (snd (dbW (wk_record key ph values now) s))"
  proof (cases "wk_find key (ws_db s)")
    case (Some r)
    with I v show ?thesis
      unfolding wk_record_def Let_def dbW_parts progress_bind
      by (auto simp: snd_bind_ret throw_def set_progress_def intro!: row_inv_update)
        (auto dest: recordings [of _ _ "values" ph "now + RECORD_LEASE"] simp: recorded_def set_progress_def)
  qed (use I in \<open>simp add: wk_record_def dbW_bind progress_bind\<close>)
qed

end

sublocale row_steady \<subseteq> steady "row_inv k P" key for key
  by unfold_locales (fact record_row delivers redelivers)+

lemma worldly_row:
  assumes "\<And>v c x. P v c \<Longrightarrow> quiet_call x \<Longrightarrow> P v (c @ [x])"
  shows "worldly (row_inv k P)"
  using assms by unfold_locales (auto simp: row_inv_def)

lemma wp_sndD: "wp m (\<lambda>_. I) (\<lambda>_. I) s \<Longrightarrow> I (snd (m s))"
  by (auto simp: wp_def split: prod.splits sum.splits)

text \<open>An invariant that pins the phase of the row: a record keeps the phase or sets one of \<open>F\<close>.\<close>

locale row_locked = row_outer +
  fixes F :: "pyval \<Rightarrow> bool"
  assumes relabel: "P (Some r) c \<Longrightarrow> running r \<Longrightarrow> keeping values \<Longrightarrow>
      F ph \<or> (\<exists>z. ph = or_value (pget (wk_progress r) ''phase'') z) \<Longrightarrow> P (Some (recorded ph values t r)) c"
begin

lemma relabelled:
  assumes "row_inv k P s" and "keeping values"
    and "F ph \<or> (\<exists>r z. wk_find key (ws_db s) = Some r \<and> ph = or_value (pget (wk_progress r) ''phase'') z)"
  shows "row_inv k P (snd (dbW (wk_record key ph values now) s))"
proof (cases "wk_find key (ws_db s)")
  case (Some r)
  with assms show ?thesis
    unfolding wk_record_def Let_def dbW_parts progress_bind
    by (auto simp: snd_bind_ret throw_def set_progress_def intro!: row_inv_update)
      (auto dest: relabel [of _ _ "values" ph "now + RECORD_LEASE"] simp: recorded_def set_progress_def)
qed (use assms in \<open>simp add: wk_record_def dbW_bind progress_bind\<close>)

lemma relabels:
  assumes "row_inv k P s" and "keeping values"
    and "F ph \<or> (\<exists>r z. wk_find key (ws_db s) = Some r \<and> ph = or_value (pget (wk_progress r) ''phase'') z)"
  shows "row_inv k P (snd (recordW p key ph values s))"
proof -
  have "wp (tickW (pw_time p)) (\<lambda>_ t. row_inv k P t \<and> ws_db t = ws_db s) (\<lambda>_. row_inv k P) s"
    using assms(1) by (auto simp: wp_def tickW_def row_inv_def split: prod.splits)
  then show ?thesis
    unfolding recordW_def by (rule snd_bind) (use assms in \<open>auto intro!: relabelled\<close>)
qed

lemma locked_records: "keeping values \<Longrightarrow> F ph \<Longrightarrow> keeps (row_inv k P) (recordW p key ph values)"
  by (rule keepsI) (auto intro: relabels)

lemma closing:
  assumes "row_inv k P s" and "wk_find key (ws_db s) = Some r"
  shows "row_inv k P (snd (tryElseI (close_with (checks_publisher pub) how checks details)
      (\<lambda>e. if gate_or_os e then
          bindI (tryI (recordW p key (or_value (pget (wk_progress r) ''phase'') (PStr ''checks-close-failed''))
              [(''checks_close_failed'', PStr (type_name e))])
            (\<lambda>e1. if isa e1 ''WorkerError'' then ret () else throw e1)) (\<lambda>_. ret False)
        else throw e)
      (\<lambda>_. tryElseI (recordW p key (or_value (pget (wk_progress r) ''phase'') (PStr ''checks-closed'')) [(''checks_closed'', PBool True)])
        (\<lambda>e. if isa e ''WorkerError'' then ret False else throw e) (\<lambda>_. ret True)) s))"
proof -
  let ?J = "\<lambda>s. row_inv k P s \<and> wk_find key (ws_db s) = Some r"
  have "keeps ?J (close_with (checks_publisher pub) how checks details)"
    by (intro keeps_rules quiet_checks) (simp add: row_inv_def)
  with assms have close: "wp (close_with (checks_publisher pub) how checks details) (\<lambda>_. ?J) (\<lambda>_. ?J) s"
    by (intro wp_keeps) simp_all
  have rec: "wp (recordW p key (or_value (pget (wk_progress r) ''phase'') z) values) (\<lambda>_. row_inv k P) (\<lambda>_. row_inv k P) t"
    if "?J t" "keeping values" for t z "values"
    using that by (intro wp_snd relabels) auto
  show ?thesis
    by (rule wp_sndD) (simp, rule wp_mono [OF close]; auto intro!: wp_mono [OF rec])
qed

lemma locked_closes: "keeps (row_inv k P) (close_checks (p :: 'w worker_ports) key how)"
proof (rule keepsI)
  fix s :: "'w worker" assume I: "row_inv k P s"
  show "row_inv k P (snd (close_checks p key how s))"
  proof (cases "wk_find key (ws_db s)")
    case None
    with I show ?thesis
      by (auto simp: close_checks_def tryElseI_def dbW_def wk_get_progress_def readI_def io_defs split: option.splits)
  next
    case (Some r)
    then have "progressW key s = (Inr (wk_progress r), s)"
      by (simp add: dbW_def wk_get_progress_def readI_def)
    with I closing [OF I Some] show ?thesis
      by (simp add: close_checks_def tryElseI_def [of "progressW key"] ret_def Let_def split: option.splits)
  qed
qed

end

sublocale row_locked \<subseteq> contained "row_inv k P" key for key
  by unfold_locales (rule locked_closes)

text \<open>The requests of other keys leave the row and its calls alone.\<close>

locale row_elsewhere = row_outer +
  fixes key :: string
  assumes apart: "key \<noteq> k" and told: "P v c \<Longrightarrow> P v (c @ [CallComplete key result])"
    and asked: "P v c \<Longrightarrow> P v (c @ [CallDispatch key d])"
begin

lemma others: "keeps (row_inv k P) (dbW (wk_update key cond f))" if "\<And>r. wk_id (f r) = wk_id r"
  by (rule keeps_update) (use apart that in simp_all)

lemma records_other: "keeps (row_inv k P) (dbW (wk_record key ph values now))"
  unfolding wk_record_def dbW_bind dbW_parts dbW_pure Let_def
  by (intro keeps_rules others) (simp add: set_progress_def)

lemma finishes_other: "keeps (row_inv k P) (dbW (wk_finish key result))"
  and delivers_other: "keeps (row_inv k P) (dbW (wk_delivered key))"
  unfolding wk_finish_def wk_delivered_def dbW_parts dbW_pure by (intro keeps_rules others; simp)+

lemma tells_other: "keeps (row_inv k P) (sourcecompleteW p key result)"
  by (auto simp: keeps_def sourcecompleteW_def callW_def split_beta row_inv_def told)

end

sublocale row_elsewhere \<subseteq> steady "row_inv k P" key
proof
  show "keeps (row_inv k P) (deliver_result p refusable key result)" for p :: "'w worker_ports" and refusable result
    unfolding deliver_result_def by (intro keeps_rules finishes_other delivers_other tells_other)
  show "keeps (row_inv k P) (redeliver p key c)" for p :: "'w worker_ports" and c
    unfolding redeliver_def by (intro keeps_rules delivers_other tells_other)
qed (rule records_other)

sublocale row_elsewhere \<subseteq> steady_dispatch "row_inv k P" key
proof
  show "keeps (row_inv k P) (dispatch_assignment p d key progress)" for p :: "'w worker_ports" and d progress
    by (rule dispatching) (auto simp: keeps_def callW_def split_beta row_inv_def asked)
qed

context row_elsewhere
begin

lemma elsewhere_acquired: "keeps (row_inv k P) (run_acquired p d key)"
  by (rule acquired)

lemma elsewhere_redelivers: "keeps (row_inv k P) (redeliver p key c)"
  by (rule redeliver)

lemma elsewhere_contained: "contained (row_inv k P) key"
  by unfold_locales

end

end
