(* ===== verification/Worker_Safety.thy ===== *)
theory Worker_Safety
  imports Worker_Rows
begin

text \<open>
  The safety of the pilot worker over any number of service cycles, restarts and crashes: results are
  fixed once, a run is dispatched at most once unless a discard report intervened, and an escalated
  cancellation is never taken back.
\<close>

section \<open>The service\<close>

text \<open>
  \<open>serve\<close> of the host script: cycles with whatever the ports answer, a stop of the process at any call
  (\<open>Halt\<close>), restarts, and changes of the world in between.
\<close>

inductive serves :: "'w worker \<Rightarrow> 'w worker \<Rightarrow> bool" where
  serves_start: "serves s s"
| serves_cycle: "serves s t \<Longrightarrow> serves s (snd (run_once p t))"
| serves_restart: "serves s t \<Longrightarrow> serves s (snd (dbW wk_recover_running t))"
| serves_world: "serves s t \<Longrightarrow> serves s (t\<lparr>ws_world := w\<rparr>)"

lemma serves_keeps:
  fixes s t :: "'w worker"
  assumes "serves s t" and "row_inv k P s" and "\<And>p :: 'w worker_ports. keeps (row_inv k P) (run_once p)"
    and "\<And>r c. P (Some r) c \<Longrightarrow> running r \<Longrightarrow> P (Some (released r)) c"
  shows "row_inv k P t"
  using assms(1,2)
proof (induction rule: serves.induct)
  case (serves_restart s t)
  have "wk_find k (map (\<lambda>r. if running r then released r else r) rows) =
      map_option (\<lambda>r. if running r then released r else r) (wk_find k rows)" for rows
    by (induction rows) (auto simp: select_key_Cons)
  with serves_restart assms(4) show ?case
    by (cases "wk_find k (ws_db t)") (auto simp: row_inv_def dbW_def wk_recover_running_def)
next
  case (serves_cycle s t p)
  with keepsD [OF assms(3)] show ?case by blast
qed (auto simp: row_inv_def)

section \<open>One result\<close>

definition completions :: "string \<Rightarrow> worker_call list \<Rightarrow> pydict list" where
  "completions k calls = concat (map (\<lambda>c. case c of CallComplete j x \<Rightarrow> if j = k then [x] else [] | _ \<Rightarrow> []) calls)"

lemma completions_simps [simp]:
  "completions k [] = []"
  "completions k (c @ [CallComplete j x]) = (if j = k then completions k c @ [x] else completions k c)"
  "quiet_call x' \<Longrightarrow> completions k (c @ [x']) = completions k c"
  "completions k (c @ [CallDispatch j d]) = completions k c"
  by (auto simp: completions_def quiet_call_def split: worker_call.splits)

lemma completions_set: "x \<in> set (completions k c) \<longleftrightarrow> CallComplete k x \<in> set c"
  by (auto simp: completions_def split: worker_call.splits if_splits)

definition single :: "string \<Rightarrow> work_row option \<Rightarrow> worker_call list \<Rightarrow> bool" where
  "single k v c =
     (completions k c = [] \<or>
        (\<exists>r x. v = Some r \<and> (wk_state r = ''failed'' \<or> List.member [''completing'', ''done''] (wk_state r) \<and> wk_result r = Some x)
           \<and> set (completions k c) \<subseteq> {x}))"

lemma single_row:
  "single k (Some r) c \<Longrightarrow> running r \<or> wk_state r = ''retry'' \<Longrightarrow> completions k c = []"
  by (auto simp: single_def)

interpretation single: row_steady k "single k"
proof
  show "single k (Some r) c \<Longrightarrow> \<not> settled r \<Longrightarrow> single k (Some (claim_running d t r)) c" for r c d t
    by (auto simp: single_def settled_def)
  show "single k (Some r) c \<Longrightarrow> List.member [''completing'', ''done''] (wk_state r) \<Longrightarrow> wk_result r = Some result \<Longrightarrow>
      single k (Some r) (c @ [CallComplete k result])" for r c result
    by (fastforce simp: single_def)
qed (auto simp: single_def ended_def dest: single_row)

lemma single_dispatch: "keeps (row_inv k (single k)) (dispatch_assignment p d key progress)"
  by (rule single.dispatching) (auto simp: keeps_def callW_def split_beta row_inv_def single_def)

interpretation single_cycle: steady_dispatch "row_inv k (single k)" key for k key
  by unfold_locales (rule single_dispatch)

lemma single_cycles: "keeps (row_inv k (single k)) (run_once p)"
  by (rule steady_cycles) (rule single_cycle.steady_dispatch_axioms)

text \<open>C36. Whatever the source, GitHub and the broker answer and wherever the process stops, all
  completions the worker ever reports for one request carry the same result.\<close>

theorem one_result_per_request:
  assumes "serves s t" and "ws_calls s = []" and "CallComplete k x \<in> set (ws_calls t)" and "CallComplete k y \<in> set (ws_calls t)"
  shows "x = y"
proof -
  have "row_inv k (single k) s"
    using assms(2) by (simp add: row_inv_def single_def)
  with assms(1) have "row_inv k (single k) t"
    by (rule serves_keeps) (auto intro: single_cycles single.release)
  with assms(3,4) show ?thesis
    by (auto simp: row_inv_def single_def simp flip: completions_set)
qed

end
