(* ===== verification/Worker_Dispatch.thy ===== *)
theory Worker_Dispatch
  imports Worker_Safety
begin

text \<open>
  A run is dispatched at most once per request, and once more per discard report: the record of a
  dispatch stands before the call, and only the recorders of a discard report overwrite it.
\<close>

section \<open>The invariant\<close>

definition is_run_dispatch :: "string \<Rightarrow> worker_call \<Rightarrow> bool" where
  "is_run_dispatch k c = (case c of CallDispatch j _ \<Rightarrow> j = k | _ \<Rightarrow> False)"

definition run_dispatches :: "string \<Rightarrow> worker_call list \<Rightarrow> nat" where
  "run_dispatches k calls = length (filter (is_run_dispatch k) calls)"

definition discards :: "string \<Rightarrow> worker_call list \<Rightarrow> nat" where
  "discards k calls = length (filter (\<lambda>c. c = CallDiscard k) calls)"

lemma run_dispatches_simps [simp]:
  "run_dispatches k [] = 0"
  "quiet_call x \<Longrightarrow> run_dispatches k (c @ [x]) = run_dispatches k c"
  "run_dispatches k (c @ [CallDispatch j d]) = (if j = k then Suc (run_dispatches k c) else run_dispatches k c)"
  "run_dispatches k (c @ [CallComplete j y]) = run_dispatches k c"
  by (auto simp: run_dispatches_def is_run_dispatch_def quiet_call_def split: worker_call.splits)

lemma discards_simps [simp]:
  "discards k (c @ [CallDiscard k]) = Suc (discards k c)"
  "discards k (c @ [CallDispatch j d]) = discards k c"
  "discards k (c @ [CallComplete j y]) = discards k c"
  by (auto simp: discards_def)

lemma discards_grows: "discards k c \<le> discards k (c @ [x])"
  by (simp add: discards_def)

text \<open>What a dispatch leaves in the progress before it.\<close>

definition prepared :: "work_row \<Rightarrow> bool" where
  "prepared r \<longleftrightarrow> (\<exists>d. pget (wk_progress r) ''dispatch_package'' = PDict d) \<and> List.member (pkeys (wk_progress r)) ''reserved''"

definition known :: "work_row \<Rightarrow> bool" where
  "known r \<longleftrightarrow> pget (wk_progress r) ''run_id'' \<noteq> PNone \<or> py_truthy (pget (wk_progress r) ''dispatch_ambiguous'')"

definition pinned :: "work_row \<Rightarrow> bool" where
  "pinned r \<longleftrightarrow> pget (wk_progress r) ''phase'' = PStr ''dispatching'' \<or> pget (wk_progress r) ''phase'' = PStr ''cleanup-required''"

definition within :: "string \<Rightarrow> worker_call list \<Rightarrow> bool" where
  "within k c \<longleftrightarrow> run_dispatches k c \<le> Suc (discards k c)"

text \<open>Another dispatch is impossible whatever the phase, or not yet a second one.\<close>

definition soft :: "string \<Rightarrow> work_row option \<Rightarrow> worker_call list \<Rightarrow> bool" where
  "soft k v c \<longleftrightarrow> run_dispatches k c = 0
     \<or> (\<exists>r. v = Some r \<and> prepared r \<and> within k c \<and> (run_dispatches k c \<le> discards k c \<or> settled r \<or> known r))"

definition once :: "string \<Rightarrow> work_row option \<Rightarrow> worker_call list \<Rightarrow> bool" where
  "once k v c \<longleftrightarrow> soft k v c \<or> (\<exists>r. v = Some r \<and> prepared r \<and> within k c \<and> pinned r)"

lemma keeping_pget:
  assumes "keeping e"
  shows "pget (pmerge d e) ''run_id'' = PNone \<Longrightarrow> pget d ''run_id'' = PNone"
    and "py_truthy (pget d ''dispatch_ambiguous'') \<Longrightarrow> py_truthy (pget (pmerge d e) ''dispatch_ambiguous'')"
    and "pget d ''dispatch_package'' = PDict x \<Longrightarrow> \<exists>y. pget (pmerge d e) ''dispatch_package'' = PDict y"
proof -
  have v: "(k = ''run_id'' \<longrightarrow> v \<noteq> PNone) \<and> (k = ''dispatch_ambiguous'' \<longrightarrow> py_truthy v)
      \<and> (k = ''dispatch_package'' \<longrightarrow> (\<exists>d. v = PDict d))" if "map_of (rev e) k = Some v" for k v
    using assms map_of_SomeD [OF that] by (auto simp: keeping_def list_all_iff)
  show "pget (pmerge d e) ''run_id'' = PNone \<Longrightarrow> pget d ''run_id'' = PNone"
    using v [of "''run_id''"] by (simp add: pget_def map_of_pmerge split: option.splits)
  show "py_truthy (pget d ''dispatch_ambiguous'') \<Longrightarrow> py_truthy (pget (pmerge d e) ''dispatch_ambiguous'')"
    using v [of "''dispatch_ambiguous''"] by (simp add: pget_def map_of_pmerge split: option.splits)
  show "pget d ''dispatch_package'' = PDict x \<Longrightarrow> \<exists>y. pget (pmerge d e) ''dispatch_package'' = PDict y"
    using v [of "''dispatch_package''"] by (simp add: pget_def map_of_pmerge split: option.splits)
qed

lemma keys_pmerge [simp]: "set (pkeys (pmerge d e)) = set (pkeys d) \<union> set (pkeys e)"
  using pmerge_keys [of d e] by (auto simp: pkeys_def)

lemma keys_pset [simp]: "set (pkeys (pset j v d)) = insert j (set (pkeys d))"
  using pset_keys [of j v d] by (auto simp: pkeys_def)

lemma recorded_keeps:
  assumes "keeping values"
  shows "prepared r \<Longrightarrow> prepared (recorded ph values t r)" and "known r \<Longrightarrow> known (recorded ph values t r)"
    and "wk_state (recorded ph values t r) = wk_state r"
  using keeping_pget [OF assms] by (auto simp: prepared_def known_def recorded_def set_progress_def)

lemma row_facts [simp]:
  "prepared (released r) = prepared r" "prepared (aborted why r) = prepared r" "prepared (ended ph why r) = prepared r"
  "prepared (claim_running d t r) = prepared r" "prepared (completing x r) = prepared r" "prepared (r\<lparr>wk_state := st\<rparr>) = prepared r"
  "known (released r) = known r" "known (claim_running d t r) = known r"
  "settled (aborted why r)" "settled (ended ph why r)" "settled (completing x r)" "settled (r\<lparr>wk_state := ''done''\<rparr>)"
  "pinned (released r) = pinned r" "pinned (claim_running d t r) = pinned r"
  by (auto simp: prepared_def known_def pinned_def settled_def ended_def claim_running_def)

lemma running_open: "running r \<Longrightarrow> \<not> settled r" and completing_settled: "wk_state r = ''completing'' \<Longrightarrow> settled r"
  by (simp_all add: settled_def)

lemma quiet_within: "within k c \<Longrightarrow> quiet_call x \<Longrightarrow> within k (c @ [x])"
  using discards_grows [of k c x] by (simp add: within_def)

lemma soft_quiet: "soft k v c \<Longrightarrow> quiet_call x \<Longrightarrow> soft k v (c @ [x])"
  using discards_grows [of k c x] by (auto simp: soft_def quiet_within)

interpretation soft: row_steady k "soft k"
proof
  show "soft k v c \<Longrightarrow> quiet_call x \<Longrightarrow> soft k v (c @ [x])" for v c x
    by (rule soft_quiet)
  show "soft k (Some r) c \<Longrightarrow> running r \<Longrightarrow> keeping values \<Longrightarrow> soft k (Some (recorded ph values t r)) c"
    for r c "values" ph t
    by (auto simp: soft_def recorded_keeps settled_def)
qed (auto simp: soft_def within_def dest: running_open completing_settled)

interpretation once: row_delivering k "once k"
proof
  show "once k v c \<Longrightarrow> quiet_call x \<Longrightarrow> once k v (c @ [x])" for v c x
    by (auto simp: once_def soft_quiet quiet_within)
qed (auto simp: once_def soft_def within_def dest: running_open completing_settled)

interpretation pin: row_locked k "once k" "\<lambda>ph. ph = PStr ''cleanup-required''"
proof
  show "once k (Some (recorded ph values t r)) c"
    if "once k (Some r) c" "running r" "keeping values"
      and "ph = PStr ''cleanup-required'' \<or> (\<exists>z. ph = or_value (pget (wk_progress r) ''phase'') z)" for r c "values" ph t
  proof -
    have "pinned (recorded ph values t r)" if "pinned r"
      using that \<open>ph = _ \<or> _\<close> by (auto simp: pinned_def recorded_def set_progress_def or_value_def)
    with that show ?thesis
      using soft.recordings [of k r c "values" ph t] by (auto simp: once_def recorded_keeps)
  qed
qed

interpretation same: worldly "row_inv k (\<lambda>v c. v = v0)" for v0
  by (rule worldly_row) simp

lemma soft_once: "row_inv k (soft k) s \<Longrightarrow> row_inv k (once k) s"
  by (simp add: row_inv_def once_def)

lemma elsewhere: "key \<noteq> k \<Longrightarrow> row_elsewhere k (once k) key"
  by unfold_locales (auto simp: once_def soft_def within_def)

text \<open>A record of the run or of a lost receipt pins the row for good.\<close>

definition marking :: "pydict \<Rightarrow> bool" where
  "marking values \<longleftrightarrow> (\<forall>r ph t. known (recorded ph values t r))"

lemma marking_simps [simp]:
  "marking [(''dispatch_ambiguous'', PBool True)]"
  "v \<noteq> PNone \<Longrightarrow> marking [(''run_id'', v)]"
  "v \<noteq> PNone \<Longrightarrow> marking [(''run_id'', v), (''job_id'', j), (''cancel_reason'', x), (''cancel_requested_at'', y), (''cancel_deadline'', z)]"
  by (simp_all add: marking_def known_def recorded_def set_progress_def pget_def map_of_pmerge)

lemma record_outcomes:
  assumes "row_inv k P s"
    and "\<And>r t. wk_find k (ws_db s) = Some r \<Longrightarrow> running r \<Longrightarrow> Q (Some (recorded ph values t r)) (ws_calls s)"
  shows "wp (recordW p k ph values) (\<lambda>_. row_inv k Q) (\<lambda>_. row_inv k P) s"
proof (cases "wk_find k (ws_db s)")
  case None
  with assms(1) show ?thesis
    by (auto simp: wp_def recordW_def tickW_def bindI_def wk_record_def dbW_def wk_get_progress_def readI_def row_inv_def
        split: prod.splits)
next
  case (Some r)
  with assms show ?thesis
    by (cases "running r")
      (auto simp: wp_def recordW_def tickW_def bindI_def wk_record_def dbW_def wk_get_progress_def readI_def row_inv_def
        Let_def encode_def changed_one_def requireI_def io_defs wk_update_def find_updated recorded_def set_progress_def
        split: prod.splits)
qed

lemma marked:
  assumes "row_inv k (once k) s" and "keeping values" and "marking values"
  shows "wp (recordW p k ph values) (\<lambda>_. row_inv k (soft k)) (\<lambda>_. row_inv k (once k)) s"
proof (rule record_outcomes [OF assms(1)])
  fix r t assume "wk_find k (ws_db s) = Some r" "running r"
  with assms show "soft k (Some (recorded ph values t r)) (ws_calls s)"
    by (auto simp: row_inv_def once_def soft_def within_def marking_def recorded_keeps)
qed

section \<open>Operations that keep the row pinned\<close>

abbreviation Soft :: "string \<Rightarrow> 'w worker \<Rightarrow> bool" where
  "Soft k \<equiv> row_inv k (soft k)"

abbreviation Once :: "string \<Rightarrow> 'w worker \<Rightarrow> bool" where
  "Once k \<equiv> row_inv k (once k)"

definition leads :: "('s \<Rightarrow> bool) \<Rightarrow> ('s \<Rightarrow> bool) \<Rightarrow> ('s, 'e, 'a) io \<Rightarrow> bool" where
  "leads I J m = (\<forall>s. I s \<longrightarrow> J (snd (m s)))"

lemma leads_keeps: "keeps (Soft k) m \<Longrightarrow> leads (Soft k) (Once k) m" "keeps I m \<Longrightarrow> leads I I m" "leads I I m \<Longrightarrow> keeps I m"
  by (auto simp: leads_def keeps_def intro: soft_once)

lemma leads_bind:
  assumes "\<And>s. I s \<Longrightarrow> wp m J (\<lambda>_. K) s" and "\<And>x. leads (J x) K (f x)"
  shows "leads I K (bindI m f)"
  unfolding leads_def
proof (intro allI impI)
  fix s assume "I s"
  show "K (snd (bindI m f s))"
    by (rule snd_bind [OF assms(1) [OF \<open>I s\<close>]]) (use assms(2) in \<open>auto simp: leads_def\<close>)
qed

lemma leads_mark:
  assumes "keeping values" and "marking values" and "leads (Soft k) (Once k) m"
  shows "keeps (Once k) (bindI (recordW p k ph values) (\<lambda>_. m))"
  by (rule leads_keeps(3), rule leads_bind, rule marked) (use assms in simp_all)

lemma bindI_assoc: "bindI (bindI m f) g = bindI m (\<lambda>x. bindI (f x) g)"
  by (rule ext) (simp add: bindI_def split: prod.splits sum.splits)

lemma leads_mark_claim:
  assumes "keeping values" and "marking values" and "leads (Soft k) (Once k) m"
  shows "keeps (Once k) (bindI (recordclaimW p d k ph values) (\<lambda>_. m))"
  unfolding recordclaimW_def bindI_assoc
  by (intro leads_mark assms(1,2), rule leads_bind, rule wp_mono [OF wp_keeps [OF soft.port]])
    (use assms(3) in \<open>auto intro: soft_once\<close>)

lemma once_reconciles: "keeps (Once k) (terminal_reconcile p k d progress why)"
  unfolding terminal_reconcile_def
  by (intro keeps_rules pin.locked_records pin.locked_closes once.fail once.abort) simp_all

lemma once_cancels:
  assumes "run_id \<noteq> PNone"
  shows "keeps (Once k) (bindI (request_superseded_cancel p k why run_id job_id) (\<lambda>_. yieldW k status))"
  unfolding request_superseded_cancel_def bindI_assoc
  by (intro keeps_bind once.now leads_mark leads_keeps(1) soft.asks keeps_tuple keeps_prod soft.records soft.yields)
    (use assms in simp_all)

text \<open>The report of a discard is counted before it overwrites the record of the dispatch.\<close>

lemma discard_logged: "Once k s \<Longrightarrow> wp (logW (CallDiscard k)) (\<lambda>_. Soft k) (\<lambda>_. Once k) s"
  by (auto simp: logW_def row_inv_def once_def soft_def within_def quiet_call_def)

lemma once_reports: "keeps (Once k) (report_discard p k d progress why)"
proof -
  have pub: "keeps (Once k) (bindI (logW (CallDiscard k)) (\<lambda>_. publish_discarded (checks_publisher pub) (discard_recorders p k)
      head_sha why link scope checks completed))" for pub head_sha link scope checks completed
    by (rule leads_keeps(3), rule leads_bind, erule discard_logged, rule leads_keeps(1))
      (auto simp: discard_recorders_def intro!: quiet_publishes soft.publisher soft.records keeps_bind soft.progress)
  then show ?thesis
    unfolding report_discard_def
    by (intro pub keeps_rules pin.locked_closes)
qed

lemma once_supersedes: "keeps (Once k) (complete_superseded p k d why run_id)"
  unfolding complete_superseded_def discard_unrun_def Let_def
  by (intro keeps_bind keeps_if once.progress once_cancels once_reports once.outcome keeps_ret once.recovery_id once.recovers
      once.yields once.delivers)

lemma once_fails: "keeps (Once k) (assignment_failed p d k package e)"
proof -
  have lost: "keeps (Once k) (dispatch_lost p d k a e)" for a
    unfolding dispatch_lost_def
    by (intro keeps_bind keeps_try keeps_if keeps_ret keeps_throw once.recovers leads_mark_claim leads_keeps(1)
        soft.source_calls soft.fail) simp_all
  have never: "keeps (Once k) (never_dispatched p d k a e)" for a
    unfolding never_dispatched_def recordclaimW_def
    by (intro keeps_bind keeps_try keeps_if keeps_ret keeps_throw once.port pin.locked_records once.recovers
        once.source_calls once.fail once.abort) simp_all
  show ?thesis
    unfolding assignment_failed_def
    by (intro keeps_bind keeps_if keeps_throw once.progress pin.locked_closes once.outcome once.source_calls once.fail lost never)
qed

section \<open>The dispatch\<close>

text \<open>The progress in hand is the one of the row, as far as the dispatch looks at it.\<close>

definition issued :: "pydict \<Rightarrow> work_row option \<Rightarrow> worker_call list \<Rightarrow> bool" where
  "issued progress v c \<longleftrightarrow> (\<exists>r. v = Some r \<and> wk_progress r = progress
     \<and> (pget progress ''run_id'' \<noteq> PNone \<or> (\<exists>d. pget progress ''dispatch_package'' = PDict d)))"

definition staged :: "pydict \<Rightarrow> work_row option \<Rightarrow> worker_call list \<Rightarrow> bool" where
  "staged progress v c \<longleftrightarrow> (\<exists>r. v = Some r \<and> pget (wk_progress r) ''run_id'' = pget progress ''run_id''
     \<and> pget (wk_progress r) ''dispatch_ambiguous'' = pget progress ''dispatch_ambiguous''
     \<and> (pget progress ''run_id'' \<noteq> PNone \<or> prepared r))"

interpretation issued: worldly "row_inv k (issued progress)"
  by (rule worldly_row) (simp add: issued_def)

interpretation staged: worldly "row_inv k (staged progress)"
  by (rule worldly_row) (simp add: staged_def)

lemma progress_wp:
  "wp (progressW k) (\<lambda>d t. t = s \<and> (\<exists>r. wk_find k (ws_db s) = Some r \<and> wk_progress r = d)) (\<lambda>_ t. t = s) s"
  by (auto simp: wp_def dbW_def wk_get_progress_def readI_def split: option.splits)

lemma wp_true: "wp m (\<lambda>_ _. True) (\<lambda>_ _. True) s"
  by (auto simp: wp_def split: prod.splits sum.splits)

lemma issue_wp:
  "wp (issue_package p k d) (\<lambda>(latest, _). row_inv k (issued latest)) (\<lambda>_ _. True) s"
proof -
  have package: "wp (assigned_package p d latest) (\<lambda>package. wp (ret (latest, package))
      (\<lambda>(latest, _). row_inv k (issued latest)) (\<lambda>_ _. True)) (\<lambda>_ _. True) t" if "row_inv k (issued latest) t" for latest t
    by (rule wp_mono [OF wp_keeps [OF issued.packages that]]) simp_all
  have fresh: "wp (recordW p k ph [(''dispatch_package'', PDict x)])
      (\<lambda>_. wp (progressW k) (\<lambda>latest. wp (assigned_package p d latest) (\<lambda>package. wp (ret (latest, package))
        (\<lambda>(latest, _). row_inv k (issued latest)) (\<lambda>_ _. True)) (\<lambda>_ _. True)) (\<lambda>_ _. True)) (\<lambda>_ _. True) t"
    if "ph = PStr f" for ph f x t
  proof (rule wp_mono [OF record_outcomes [where P = "\<lambda>_ _. True"
        and Q = "\<lambda>v c. \<exists>r. v = Some r \<and> pget (wk_progress r) ''dispatch_package'' = PDict x"]])
    fix t1 :: "'a worker" and u :: unit
    assume "row_inv k (\<lambda>v c. \<exists>r. v = Some r \<and> pget (wk_progress r) ''dispatch_package'' = PDict x) t1"
    then show "wp (progressW k) (\<lambda>latest. wp (assigned_package p d latest) (\<lambda>package. wp (ret (latest, package))
        (\<lambda>(latest, _). row_inv k (issued latest)) (\<lambda>_ _. True)) (\<lambda>_ _. True)) (\<lambda>_ _. True) t1"
      by (intro wp_mono [OF progress_wp] package) (auto simp: row_inv_def issued_def)
  qed (simp_all add: row_inv_def recorded_def set_progress_def pget_def map_of_pmerge)
  have given: "wp (progressW k) (\<lambda>progress.
      wp (if (case pget progress ''dispatch_package'' of PDict _ \<Rightarrow> True | _ \<Rightarrow> False) \<or> pget progress ''run_id'' \<noteq> PNone
          then ret progress else m) Q (\<lambda>_ _. True)) (\<lambda>_ _. True) s"
    if "\<And>latest t. row_inv k (issued latest) t \<Longrightarrow> Q latest t" and "\<And>t. wp m Q (\<lambda>_ _. True) t" for m Q
    by (rule wp_mono [OF progress_wp])
      (use that in \<open>auto simp: row_inv_def issued_def split: pyval.splits\<close>)
  show ?thesis
    unfolding issue_package_def Let_def wp_bind
    by (rule given, rule package, assumption, unfold wp_bind)
      (rule wp_mono [OF wp_true], rule wp_mono [OF wp_true], rule wp_mono [OF wp_true], rule fresh, simp_all)
qed

lemma reserve_wp:
  assumes "row_inv k (issued progress) s"
  shows "wp (reserve_assignment p d k progress package) (\<lambda>_. row_inv k (staged progress)) (\<lambda>_ _. True) s"
proof -
  have own: "wp (bindI (if List.member (pkeys progress) ''reserved'' then ret ()
        else recordclaimW p d k ''reserved'' [(''reserved'', PDict x)]) (\<lambda>_. requireI c e))
      (\<lambda>_. row_inv k (staged progress)) (\<lambda>_ _. True) t" if "row_inv k (issued progress) t" for x c e t
  proof (cases "List.member (pkeys progress) ''reserved''")
    case True
    with that show ?thesis by (auto simp: row_inv_def issued_def staged_def prepared_def)
  next
    case False
    have port: "row_inv k (staged progress) t1 \<Longrightarrow>
        wp (portW f) (\<lambda>_. wp (requireI c e) (\<lambda>_. row_inv k (staged progress)) (\<lambda>_ _. True)) (\<lambda>_ _. True) t1" for t1 f
      by (rule wp_mono [OF wp_keeps [OF staged.port]]) (assumption, auto)
    have rec: "wp (recordW p k (PStr ''reserved'') [(''reserved'', PDict x)]) (\<lambda>_. row_inv k (staged progress)) (\<lambda>_. row_inv k (issued progress)) t"
      by (rule record_outcomes [OF that])
        (use that in \<open>auto simp: row_inv_def issued_def staged_def prepared_def recorded_def set_progress_def pget_def map_of_pmerge pkeys_def pmerge_keys\<close>)
    have "wp (bindI (recordclaimW p d k ''reserved'' [(''reserved'', PDict x)]) (\<lambda>_. requireI c e))
        (\<lambda>_. row_inv k (staged progress)) (\<lambda>_ _. True) t"
      unfolding recordclaimW_def wp_bind by (rule wp_mono [OF rec], erule port, simp)
    with False show ?thesis by simp
  qed
  have reserved: "wp (if c then ret x else callW (CallReserve r) f) (\<lambda>_. row_inv k (issued progress)) (\<lambda>_. row_inv k (issued progress)) s"
    for c x r f
    using assms wp_keeps [OF issued.call [of "CallReserve r" k progress f] assms] by (auto simp: quiet_call_def)
  show ?thesis
    unfolding reserve_assignment_def Let_def wp_bind
    by (rule wp_mono [OF reserved]) (use own in \<open>auto\<close>)
qed

text \<open>The record before the call: prepared, pinned, and no dispatch more than discards.\<close>

definition armed :: "string \<Rightarrow> work_row option \<Rightarrow> worker_call list \<Rightarrow> bool" where
  "armed k v c \<longleftrightarrow> (\<exists>r. v = Some r \<and> prepared r \<and> pinned r \<and> run_dispatches k c \<le> discards k c)"

definition placed :: "string \<Rightarrow> work_row option \<Rightarrow> worker_call list \<Rightarrow> bool" where
  "placed k v c \<longleftrightarrow> (\<exists>r. v = Some r \<and> prepared r \<and> pinned r \<and> within k c)"

interpretation armed: worldly "row_inv k (armed k)"
  by (rule worldly_row) (use discards_grows le_trans in \<open>fastforce simp: armed_def\<close>)

lemma armed_once: "row_inv k (armed k) s \<Longrightarrow> Once k s" and placed_once: "row_inv k (placed k) s \<Longrightarrow> Once k s"
  by (auto simp: row_inv_def armed_def placed_def once_def within_def)

lemma arm:
  assumes "Soft k s" and "row_inv k (staged progress) s" and "pget progress ''run_id'' = PNone"
    and "\<not> py_truthy (pget progress ''dispatch_ambiguous'')"
  shows "wp (recordclaimW p d k ''dispatching'' []) (\<lambda>_. row_inv k (armed k)) (\<lambda>_. Once k) s"
proof -
  have "wp (recordW p k (PStr ''dispatching'') []) (\<lambda>_. row_inv k (armed k)) (\<lambda>_. Soft k) s"
  proof (rule record_outcomes [OF assms(1)])
    fix r t assume r: "wk_find k (ws_db s) = Some r" "running r"
    with assms show "armed k (Some (recorded (PStr ''dispatching'') [] t r)) (ws_calls s)"
      by (auto simp: row_inv_def soft_def staged_def armed_def known_def prepared_def recorded_def set_progress_def pinned_def
          pmerge_def dest: running_open)
  qed
  then show ?thesis
    unfolding recordclaimW_def wp_bind
    by (rule wp_mono) (auto intro: soft_once wp_mono [OF wp_keeps [OF armed.port]] armed_once)
qed

lemma call_placed: "row_inv k (armed k) s \<Longrightarrow>
    wp (callW (CallDispatch k d) f) (\<lambda>_. row_inv k (placed k)) (\<lambda>_. row_inv k (placed k)) s"
  by (auto simp: wp_def callW_def row_inv_def armed_def placed_def within_def split: prod.splits sum.splits)

lemma receipt:
  assumes "Once k s" and "run_id \<noteq> PNone"
  shows "wp (recordclaimW p d k ph [(''run_id'', run_id)]) (\<lambda>_. Soft k) (\<lambda>_. Once k) s"
  unfolding recordclaimW_def wp_bind
  by (rule wp_mono [OF marked [OF assms(1)]])
    (use assms(2) in \<open>auto intro: wp_mono [OF wp_keeps [OF soft.port]] soft_once\<close>)

lemma dispatch_wp:
  assumes "Soft k s" and "row_inv k (staged progress) s"
  shows "wp (dispatch_assignment p d k progress) (\<lambda>run_id t. Soft k t \<and> run_id \<noteq> PNone) (\<lambda>_. Once k) s"
proof -
  have receive: "wp (requireI (positive_id run_id) WorkerError)
      (\<lambda>_. wp (recordclaimW p d k ''dispatched'' [(''run_id'', run_id)])
        (\<lambda>_. wp (ret run_id) (\<lambda>run_id t. Soft k t \<and> run_id \<noteq> PNone) (\<lambda>_. Once k)) (\<lambda>_. Once k)) (\<lambda>_. Once k) t"
    if "row_inv k (placed k) t" for run_id t
  proof -
    have "run_id \<noteq> PNone" if "positive_id run_id" using that by (auto simp: positive_id_def)
    with receipt [OF placed_once [OF that], of run_id p d "''dispatched''"] placed_once [OF that] show ?thesis
      by (auto intro: wp_mono)
  qed
  show ?thesis
  proof (cases "pget progress ''run_id'' = PNone \<and> \<not> py_truthy (pget progress ''dispatch_ambiguous'')")
    case True
    with arm [OF assms] have "wp (bindI (recordclaimW p d k ''dispatching'' []) (\<lambda>_.
         bindI (callW (CallDispatch k x) (pw_dispatch p x)) (\<lambda>run_id.
         bindI (requireI (positive_id run_id) WorkerError) (\<lambda>_.
         bindI (recordclaimW p d k ''dispatched'' [(''run_id'', run_id)]) (\<lambda>_. ret run_id)))))
        (\<lambda>run_id t. Soft k t \<and> run_id \<noteq> PNone) (\<lambda>_. Once k) s" for x
      unfolding wp_bind
      by (intro wp_mono [OF arm [OF assms]] wp_mono [OF call_placed] receive) (auto intro: placed_once)
    with True soft_once [OF assms(1)] show ?thesis
      unfolding dispatch_assignment_def Let_def by simp
  qed (use assms soft_once [OF assms(1)] in \<open>auto simp: dispatch_assignment_def\<close>)
qed

lemma wp_both:
  "wp m Q (\<lambda>_ _. True) s \<Longrightarrow> wp m (\<lambda>_. I) (\<lambda>_. I) s \<Longrightarrow> wp m (\<lambda>x t. I t \<and> Q x t) (\<lambda>_. I) s"
  by (auto simp: wp_def split: prod.splits sum.splits)

lemma guarded:
  assumes "wp (assignment_body p d k progress package) (\<lambda>_. Once k) (\<lambda>_. Once k) s"
  shows "Once k (snd (guarded_body p d k progress package s))"
  unfolding guarded_body_def
  by (rule wp_sndD, subst wp_try, rule wp_mono [OF assms]) (auto intro: wp_keeps [OF once_fails])

lemma body_soft:
  assumes "Soft k s" and "row_inv k (issued progress) s"
  shows "Once k (snd (guarded_body p d k progress package s))"
proof -
  have behind: "wp (behind_dispatch p d k progress package run_id) (\<lambda>_. Once k) (\<lambda>_. Once k) t"
    if "Soft k t \<and> run_id \<noteq> PNone" for run_id t
    by (rule wp_mono [OF wp_keeps [OF soft.behind]]) (use that in \<open>auto intro: soft_once\<close>)
  have "wp (reserve_assignment p d k progress package) (\<lambda>_ t. Soft k t \<and> row_inv k (staged progress) t) (\<lambda>_. Soft k) s"
    by (intro wp_both reserve_wp wp_keeps [OF soft.reserves] assms)
  then have "wp (assignment_body p d k progress package) (\<lambda>_. Once k) (\<lambda>_. Once k) s"
    unfolding assignment_body_def wp_bind
    by (rule wp_mono) (auto intro: soft_once intro!: wp_mono [OF dispatch_wp] behind)
  then show ?thesis by (rule guarded)
qed

text \<open>A row that is only pinned by its phase: the dispatch refuses.\<close>

definition stuck :: "pydict \<Rightarrow> string \<Rightarrow> work_row option \<Rightarrow> worker_call list \<Rightarrow> bool" where
  "stuck progress k v c \<longleftrightarrow> (\<exists>r. v = Some r \<and> wk_progress r = progress \<and> prepared r \<and> within k c)"

interpretation stuck: worldly "row_inv k (stuck progress k)"
  by (rule worldly_row) (auto simp: stuck_def quiet_within)

lemma stuck_once: "row_inv k (stuck progress k) s \<Longrightarrow> py_eq (pget progress ''phase'') (PStr ''dispatching'') \<Longrightarrow> Once k s"
  by (auto simp: row_inv_def stuck_def once_def pinned_def)

lemma issue_stuck:
  assumes "row_inv k (stuck progress k) s"
  shows "wp (issue_package p k d) (\<lambda>(latest, _) t. latest = progress \<and> row_inv k (stuck progress k) t) (\<lambda>_. row_inv k (stuck progress k)) s"
proof -
  obtain x where "pget progress ''dispatch_package'' = PDict x"
    using assms by (auto simp: row_inv_def stuck_def prepared_def)
  with assms show ?thesis
    unfolding issue_package_def wp_bind
    by (intro wp_mono [OF progress_wp])
      (auto simp: row_inv_def stuck_def intro!: wp_mono [OF wp_keeps [OF stuck.packages [unfolded row_inv_def]]])
qed

lemma body_stuck:
  assumes "row_inv k (stuck progress k) s" and "py_eq (pget progress ''phase'') (PStr ''dispatching'')" and "pget progress ''run_id'' = PNone"
  shows "Once k (snd (guarded_body p d k progress package s))"
proof -
  have member: "List.member (pkeys progress) ''reserved''"
    using assms(1) by (auto simp: row_inv_def stuck_def prepared_def)
  have reserve: "keeps (row_inv k (stuck progress k)) (reserve_assignment p d k progress package)"
    unfolding reserve_assignment_def Let_def
    by (simp only: member if_True) (intro keeps_rules stuck.call, simp add: quiet_call_def)
  have "wp (assignment_body p d k progress package) (\<lambda>_. Once k) (\<lambda>_. Once k) s"
    unfolding assignment_body_def wp_bind
    by (rule wp_mono [OF wp_keeps [OF reserve assms(1)]]) (use assms(2,3) in \<open>auto simp: dispatch_assignment_def intro: stuck_once\<close>)
  then show ?thesis by (rule guarded)
qed

section \<open>The cycle\<close>

lemma advance_soft:
  assumes "Soft k s"
  shows "Once k (snd (advance_assignment p d k progress s))"
proof -
  have keep: "wp m (\<lambda>_. Once k) (\<lambda>_. Once k) t" if "keeps (Soft k) m" "Soft k t" for m :: "('a, pydict) wio" and t
    by (rule wp_mono [OF wp_keeps [OF that]]) (auto intro: soft_once)
  have reconcile: "keeps (Soft k) (bindI (progressW k) (\<lambda>latest. terminal_reconcile p k d latest why))" for d why
    by (intro keeps_rules)
  have issue: "wp (tryElseI (issue_package p k d)
      (\<lambda>e. if isa e ''JitPilotError'' then bindI (progressW k) (\<lambda>latest. terminal_reconcile p k d latest (type_name e)) else throw e)
      (\<lambda>(latest, package). guarded_body p d k latest package)) (\<lambda>_. Once k) (\<lambda>_. Once k) t" if "Soft k t" for d t
    unfolding wp_tryElse
  proof (rule wp_mono [OF wp_both [OF issue_wp wp_keeps [OF soft.issues that]]], goal_cases)
    case (1 x t1)
    then show ?case by (cases x) (auto intro: wp_snd body_soft)
  next
    case (2 e t1)
    then show ?case by (auto simp del: wp_bind intro: keep reconcile soft_once)
  qed
  have resume: "keeps (Soft k) (if c then portW (pw_resume p k d 7200) else bindI (portW (pw_claim p k d 7200)) (\<lambda>_. ret d))" for c
    by (intro keeps_rules)
  show ?thesis
    unfolding advance_assignment_def
    by (rule wp_sndD, subst wp_tryElse, rule wp_mono [OF wp_keeps [OF resume assms]])
      (auto simp del: wp_tryElse intro: issue keep soft.reconciles soft_once)
qed

lemma advance_stuck:
  assumes "row_inv k (stuck progress k) s" and "py_eq (pget progress ''phase'') (PStr ''dispatching'')" and "pget progress ''run_id'' = PNone"
  shows "Once k (snd (advance_assignment p d k progress s))"
proof -
  note once = stuck_once [OF _ assms(2)]
  have keep: "wp m (\<lambda>_. Once k) (\<lambda>_. Once k) t" if "keeps (Once k) m" "row_inv k (stuck progress k) t"
    for m :: "('a, pydict) wio" and t
    by (rule wp_keeps [OF that(1) once [OF that(2)]])
  have reconcile: "keeps (Once k) (bindI (progressW k) (\<lambda>latest. terminal_reconcile p k d latest why))" for d why
    by (intro keeps_bind once.progress once_reconciles)
  have issue: "wp (tryElseI (issue_package p k d)
      (\<lambda>e. if isa e ''JitPilotError'' then bindI (progressW k) (\<lambda>latest. terminal_reconcile p k d latest (type_name e)) else throw e)
      (\<lambda>(latest, package). guarded_body p d k latest package)) (\<lambda>_. Once k) (\<lambda>_. Once k) t" if "row_inv k (stuck progress k) t" for d t
    unfolding wp_tryElse
  proof (rule wp_mono [OF issue_stuck [OF that]], goal_cases)
    case (1 x t1)
    then show ?case by (cases x) (auto intro: wp_snd body_stuck assms)
  next
    case (2 e t1)
    then show ?case by (auto simp del: wp_bind intro: keep reconcile once)
  qed
  have resume: "keeps (row_inv k (stuck progress k)) (if c then portW (pw_resume p k d 7200) else bindI (portW (pw_claim p k d 7200)) (\<lambda>_. ret d))" for c
    by (intro keeps_rules)
  show ?thesis
    unfolding advance_assignment_def
    by (rule wp_sndD, subst wp_tryElse, rule wp_mono [OF wp_keeps [OF resume assms(1)]])
      (auto simp del: wp_tryElse intro: issue keep once_reconciles once)
qed

lemma wp_sndI: "I (snd (m s)) \<Longrightarrow> wp m (\<lambda>_. I) (\<lambda>_. I) s"
  by (auto simp: wp_def split: prod.splits sum.splits)

lemma advance_or_supersede:
  assumes "keeps I (supersession p k d)" and "I s" and "\<And>t. I t \<Longrightarrow> Once k t"
    and "\<And>t. I t \<Longrightarrow> Once k (snd (advance_assignment p d k progress t))"
  shows "Once k (snd (bindI (supersession p k d) (\<lambda>superseded. case superseded of
      Some why \<Rightarrow> complete_superseded p k d why PNone | None \<Rightarrow> advance_assignment p d k progress) s))"
proof (rule snd_bind)
  show "wp (supersession p k d) (\<lambda>_. I) (\<lambda>_. Once k) s"
    by (rule wp_mono [OF wp_keeps [OF assms(1,2)]]) (use assms(3) in auto)
  fix superseded t assume "I t"
  with assms(3,4) show "Once k (snd ((case superseded of
      Some why \<Rightarrow> complete_superseded p k d why PNone | None \<Rightarrow> advance_assignment p d k progress) t))"
    by (auto split: option.splits intro: keepsD [OF once_supersedes])
qed

lemma once_acquired:
  fixes p :: "'w worker_ports"
  shows "keeps (Once k) (run_acquired p d k)"
proof (rule keepsI)
  fix s :: "'w worker" assume I: "Once k s"
  show "Once k (snd (run_acquired p d k s))"
  proof (cases "wk_find k (ws_db s)")
    case None
    with I show ?thesis by (simp add: run_acquired_def progress_bind)
  next
    case (Some r)
    let ?at = "\<lambda>ph. py_eq (pget (wk_progress r) ''phase'') (PStr ph)"
    have keep: "Once k (snd (m s))" if "keeps (Soft k) m" "Soft k s" for m :: "('w, pydict) wio"
      using keepsD [OF that] by (rule soft_once)
    have cancelling: "keeps (Soft k) (bindI (indexW (PDict (wk_progress r)) ''run_id'') (\<lambda>run_id.
        bindI (ask_cancel p run_id) (\<lambda>(accepted, error). cancel_pending p k run_id accepted error)))"
      by (intro keeps_rules keeps_tuple)
    show ?thesis
    proof (cases "Soft k s")
      case True
      show ?thesis
        unfolding run_acquired_def Let_def progress_bind Some option.case
        using True I advance_or_supersede [OF soft.supersedes True soft_once advance_soft]
        by (auto simp del: simp: keepsD [OF once_reconciles]
            intro: keep cancelling soft.cancel_escalates soft.cancel_recovers soft.cancel_continues)
    next
      case False
      with I Some have r: "prepared r" "within k (ws_calls s)" "pinned r" "pget (wk_progress r) ''run_id'' = PNone"
        by (auto simp: row_inv_def once_def soft_def known_def)
      with Some have stuck: "row_inv k (stuck (wk_progress r) k) s"
        by (simp add: row_inv_def stuck_def)
      from r(3) consider "?at ''dispatching''" "pget (wk_progress r) ''phase'' = PStr ''dispatching''"
        | "pget (wk_progress r) ''phase'' = PStr ''cleanup-required''"
        by (auto simp: pinned_def)
      then show ?thesis
      proof cases
        case 1
        then show ?thesis
          using advance_or_supersede [OF stuck.supersedes stuck stuck_once [OF _ 1(1)] advance_stuck [OF _ 1(1) r(4)]]
          unfolding run_acquired_def Let_def progress_bind Some option.case by simp
      next
        case 2
        then show ?thesis
          using keepsD [OF once_reconciles I]
          unfolding run_acquired_def Let_def progress_bind Some option.case by simp
      qed
    qed
  qed
qed

lemma once_cycles: "keeps (Once k) (run_once p)"
proof (rule once.runs)
  fix d key c
  have "row_elsewhere k (once k) key" if "key \<noteq> k" using that by (rule elsewhere)
  then show "keeps (Once k) (run_acquired p d key)" and "keeps (Once k) (redeliver p key c)" and "contained (Once k) key"
    using once_acquired once.redelivers row_elsewhere.elsewhere_acquired pin.contained_axioms by blast+
qed

text \<open>C35. Whatever is answered and wherever the process stops, the worker dispatches a run for one
  request at most once, and at most once more for each discard report it starts for the request.\<close>

theorem dispatches_bounded_by_discards:
  assumes "serves s t" and "ws_calls s = []"
  shows "run_dispatches k (ws_calls t) \<le> 1 + discards k (ws_calls t)"
proof -
  have "Once k s"
    using assms(2) by (simp add: row_inv_def once_def soft_def)
  with assms(1) have "Once k t"
    by (rule serves_keeps) (auto intro: once_cycles once.release)
  then show ?thesis
    by (auto simp: row_inv_def once_def soft_def within_def)
qed

end
