(* ===== verification/Worker_Cancel.thy ===== *)
theory Worker_Cancel
  imports Worker_Dispatch
begin

text \<open>
  A cancellation that did not converge in time is escalated for good: the phases of the escalation
  lead only to the failed assignment. The last section has a source that refuses a completion.
\<close>

section \<open>The escalation is absorbing\<close>

definition escalated :: "pyval \<Rightarrow> bool" where
  "escalated ph = List.member [PStr ''cancel-timeout-recording'', PStr ''cancel-recovery-pending''] ph"

definition escalating :: "work_row \<Rightarrow> bool" where
  "escalating r = (List.member [''running'', ''retry''] (wk_state r) \<and> escalated (pget (wk_progress r) ''phase''))"

definition ended_failed :: "string \<Rightarrow> work_row option \<Rightarrow> worker_call list \<Rightarrow> bool" where
  "ended_failed k v c = (completions k c = [] \<and> (\<exists>r. v = Some r \<and> wk_state r = ''failed''))"

definition final :: "string \<Rightarrow> work_row option \<Rightarrow> worker_call list \<Rightarrow> bool" where
  "final k v c = (completions k c = [] \<and> (\<exists>r. v = Some r \<and> (wk_state r = ''failed'' \<or> escalating r)))"

interpretation ended_failed: row_steady k "ended_failed k"
  by unfold_locales (auto simp: ended_failed_def ended_def settled_def)

interpretation ended_failed: steady_dispatch "row_inv k (ended_failed k)" key for k key
  by unfold_locales
    (rule ended_failed.dispatching, auto simp: keeps_def callW_def split_beta row_inv_def ended_failed_def)

interpretation final: row_locked k "final k" escalated
proof
  show "final k (Some (recorded ph values t r)) c"
    if "final k (Some r) c" "running r" and ph: "escalated ph \<or> (\<exists>z. ph = or_value (pget (wk_progress r) ''phase'') z)"
    for r c ph "values" t
    using that(1,2) ph
    by (auto simp: final_def escalating_def recorded_def set_progress_def or_value_def escalated_def)
qed (auto simp: final_def escalating_def ended_def settled_def claim_running_def)

lemma final_elsewhere: "key \<noteq> k \<Longrightarrow> row_elsewhere k (final k) key"
  by unfold_locales (auto simp: final_def)

lemma final_recovers: "keeps (row_inv k (final k)) (continue_cancel_recovery p k d progress)"
  unfolding continue_cancel_recovery_def finish_cancel_recovery_def Let_def
  by (intro keeps_rules final.locked_records final.locked_closes final.abort) (simp_all add: escalated_def)

lemma final_escalates: "keeps (row_inv k (final k)) (cancel_not_converged p k d progress)"
  unfolding cancel_not_converged_def
  by (intro keeps_rules final.locked_records final_recovers) (simp_all add: escalated_def)

lemma final_redelivers:
  fixes p :: "'w worker_ports"
  shows "keeps (row_inv k (final k)) (redeliver p k c)"
proof (rule keepsI)
  fix s :: "'w worker" assume "row_inv k (final k) s"
  then show "row_inv k (final k) (snd (redeliver p k c s))"
    by (auto simp: redeliver_def bindI_def dbW_def wk_done_def readI_def row_inv_def final_def escalating_def throw_def)
qed

lemma final_acquired:
  fixes p :: "'w worker_ports"
  shows "keeps (row_inv k (final k)) (run_acquired p d k)"
proof (rule keepsI)
  fix s :: "'w worker" assume I: "row_inv k (final k) s"
  then obtain r where r: "wk_find k (ws_db s) = Some r" "wk_state r = ''failed'' \<or> escalating r"
    by (auto simp: row_inv_def final_def)
  show "row_inv k (final k) (snd (run_acquired p d k s))"
  proof (cases "wk_state r = ''failed''")
    case True
    with I r(1) have "row_inv k (ended_failed k) s" by (simp add: row_inv_def final_def ended_failed_def)
    with keepsD [OF ended_failed.acquired] have "row_inv k (ended_failed k) (snd (run_acquired p d k s))" by blast
    then show ?thesis by (auto simp: row_inv_def final_def ended_failed_def)
  next
    case False
    with r(2) consider "pget (wk_progress r) ''phase'' = PStr ''cancel-timeout-recording''"
      | "pget (wk_progress r) ''phase'' = PStr ''cancel-recovery-pending''"
      by (auto simp: escalating_def escalated_def)
    then show ?thesis
      by cases (use keepsD [OF final_escalates I] keepsD [OF final_recovers I] r(1) in
        \<open>simp_all add: run_acquired_def Let_def progress_bind\<close>)
  qed
qed

lemma final_cycles: "keeps (row_inv k (final k)) (run_once p)"
proof (rule final.runs)
  fix d key c
  have "row_elsewhere k (final k) key" if "key \<noteq> k" using that by (rule final_elsewhere)
  then show "keeps (row_inv k (final k)) (run_acquired p d key)" and "keeps (row_inv k (final k)) (redeliver p key c)"
    and "contained (row_inv k (final k)) key"
    using final_acquired final_redelivers row_elsewhere.elsewhere_acquired row_elsewhere.elsewhere_redelivers final.contained_axioms by blast+
qed

text \<open>C37. Once the timeout of a cancellation is recorded, no later cycle reports a result for the
  request: the assignment stays in the escalation until it has failed.\<close>

theorem escalated_timeout_is_absorbing:
  assumes "serves s t" and "ws_calls s = []" and "wk_find k (ws_db s) = Some r" and "escalating r"
  shows "\<not> (\<exists>x. CallComplete k x \<in> set (ws_calls t))
    \<and> (\<exists>r1. wk_find k (ws_db t) = Some r1 \<and> (wk_state r1 = ''failed'' \<or> escalating r1))"
proof -
  have "row_inv k (final k) s"
    using assms(2-4) by (simp add: row_inv_def final_def)
  with assms(1) have "row_inv k (final k) t"
    by (rule serves_keeps) (auto intro: final_cycles final.release)
  then show ?thesis
    by (auto simp: row_inv_def final_def simp flip: completions_set)
qed

section \<open>A refused completion\<close>

abbreviation LocalApprovalError :: wk_exc where
  "LocalApprovalError \<equiv> Exc ''LocalApprovalError'' [''RuntimeError'']"

text \<open>The source refuses the result of the request, as it does for an approval revoked meanwhile.\<close>

definition refuses :: "'w worker_ports \<Rightarrow> string \<Rightarrow> pydict \<Rightarrow> bool" where
  "refuses p key result = (\<forall>w. fst (pw_complete p key result w) = Inl LocalApprovalError)"

definition undelivered :: "work_row list \<Rightarrow> string \<Rightarrow> pydict \<Rightarrow> bool" where
  "undelivered rows key result =
     (\<exists>r d. first_recoverable rows = Some r \<and> wk_find key rows = Some r \<and> wk_state r = ''completing''
        \<and> wk_result r = Some result \<and> wk_request r = Some d \<and> json_safe (PDict d) \<and> pget d ''request_id'' = PStr key
        \<and> keys_exact d [''request_id'', ''pilot_package'', ''reservation''])"

lemma refused_cycle:
  assumes "refuses p key result" and "undelivered (ws_db s) key result"
  shows "fst (run_once p s) = Inl LocalApprovalError" and "ws_db (snd (run_once p s)) = ws_db s"
proof -
  obtain r d where r: "first_recoverable (ws_db s) = Some r" "wk_find key (ws_db s) = Some r" "wk_state r = ''completing''"
      "wk_result r = Some result" "wk_request r = Some d" "json_safe (PDict d)" "pget d ''request_id'' = PStr key"
      "keys_exact d [''request_id'', ''pilot_package'', ''reservation'']"
    using assms(2) unfolding undelivered_def by blast
  from r(7) have "d \<noteq> []" by (auto simp: pget_def)
  then obtain item rest where d: "d = item # rest" by (cases d) auto
  have chosen: "next_request p s = (Inr (Some d), s)"
    using r(1,5) d by (simp add: next_request_def bindI_def dbW_def wk_recoverable_def readI_def ret_def)
  have told: "redeliver p key True t = (Inl LocalApprovalError, snd (sourcecompleteW p key result t))"
    if "ws_db t = ws_db s" for t
  proof -
    have "dbW (wk_done key) t = (Inr (Some result), t)"
      using that r(2,3,4) by (simp add: dbW_def wk_done_def readI_def)
    moreover have "fst (sourcecompleteW p key result t) = Inl LocalApprovalError"
      using assms(1) by (simp add: sourcecompleteW_def callW_def refuses_def split_beta)
    ultimately show ?thesis
      by (simp add: redeliver_def bindI_def split_beta)
  qed
  have "\<exists>u. run_assignment p d s = (Inl LocalApprovalError, u) \<and> ws_db u = ws_db s"
  proof -
    obtain now w where "pw_time p (ws_world s) = (now, w)" by fastforce
    then obtain t where t: "tickW (pw_time p) s = (Inr now, t)" "ws_db t = ws_db s"
      by (simp add: tickW_def)
    have claimed: "dbW (wk_claim key d now (seconds 7200)) t = (Inr ''completing'', t)"
      using t(2) r(2,3,6) by (simp add: dbW_def wk_claim_def encode_def)
    have "ws_db (snd (sourcecompleteW p key result t)) = ws_db s"
      using t(2) by (simp add: sourcecompleteW_def callW_def split_beta)
    with t claimed told [OF t(2)] r(7,8) show ?thesis
      by (simp add: run_assignment_def bindI_def)
  qed
  then show "fst (run_once p s) = Inl LocalApprovalError" and "ws_db (snd (run_once p s)) = ws_db s"
    unfolding run_once_def
    by (auto simp: bindI_def chosen tryI_def contained_errors_def worker_errors_def isa_def throw_def)
qed

text \<open>C38. While the source refuses the completion of a finished request, every cycle of the service
  raises and leaves the table as it is: the request stays first, and no other is taken.\<close>

theorem refused_completion_blocks_the_worker:
  assumes "refuses p key result" and "undelivered (ws_db s) key result"
  shows "fst (run_once p (((\<lambda>t. snd (run_once p t)) ^^ n) s)) = Inl LocalApprovalError
    \<and> ws_db (((\<lambda>t. snd (run_once p t)) ^^ n) s) = ws_db s"
proof -
  have db: "ws_db (((\<lambda>t. snd (run_once p t)) ^^ n) s) = ws_db s"
    by (induction n) (simp_all add: refused_cycle [OF assms(1)] assms(2))
  with refused_cycle(1) [OF assms(1)] assms(2) show ?thesis by simp
qed

end
