(* ===== verification/Worker_Samples.thy ===== *)
theory Worker_Samples
  imports Worker_Cancel
begin

text \<open>
  A worker without Check Runs over a world that answers every call, and concrete runs of it.
\<close>

section \<open>Ports\<close>

definition sample_ports :: "wk_exc + unit \<Rightarrow> wk_exc + pyval \<Rightarrow> unit worker_ports" where
  "sample_ports told run =
     \<lparr>pw_poll = (\<lambda>w. (Inr None, w)), pw_claim = (\<lambda>k d n w. (Inr (), w)), pw_resume = (\<lambda>k d n w. (Inr d, w)),
      pw_retry = (\<lambda>k why w. (Inr (), w)), pw_complete = (\<lambda>k x w. (told, w)), pw_fail = (\<lambda>k why w. (Inr (), w)),
      pw_supersession = None, pw_clock = (\<lambda>w. (seconds 2, w)), pw_time = (\<lambda>w. (0, w)), pw_reserve = (\<lambda>d w. (Inr d, w)),
      pw_finalize = (\<lambda>d w. (Inr d, w)),
      pw_recover = (\<lambda>a w. (Inr (PDict [(''allocation_id'', PStr a), (''state'', PStr ''absent'')]), w)),
      pw_finish = (\<lambda>a c w. (Inr (), w)), pw_prove_clean = (\<lambda>a l w. (Inr (clean_proof a l), w)), pw_record_outcome = None,
      pw_dispatch = (\<lambda>d w. (run, w)), pw_observe = (\<lambda>r l w. (Inl WorkerAuthorityError, w)),
      pw_cancel = (\<lambda>r w. (Inr (PBool True), w)), pw_run = (\<lambda>r w. (Inr [], w)), pw_jobs = (\<lambda>r w. (Inr [], w)),
      pw_sign = (\<lambda>d w. (Inr d, w)), pw_sleep = (\<lambda>n w. w), pw_monotonic = (\<lambda>w. (0, w)), pw_checks = None,
      pw_repository = None, pw_claim_ttl = minutes 12, pw_cancel_timeout = minutes 3, pw_cancel_poll = seconds 15,
      pw_iso = read_iso, pw_hash = id, pw_fuel = 1\<rparr>"

definition request_one :: pydict where
  "request_one = [(''request_id'', PStr ''one''), (''pilot_package'', PDict []), (''reservation'', PDict [])]"

definition result_one :: pydict where
  "result_one = completed_result (PInt 7) (PInt 8) ''success''"

definition finished_worker :: "unit worker" where
  "finished_worker =
     \<lparr>ws_db = [\<lparr>wk_id = ''one'', wk_state = ''completing'', wk_result = Some result_one, wk_request = Some request_one,
        wk_progress = [], wk_lease = None\<rparr>], ws_world = (), ws_calls = [], ws_reason = None\<rparr>"

definition cancelled_worker :: "unit worker" where
  "cancelled_worker =
     \<lparr>ws_db = [\<lparr>wk_id = ''one'', wk_state = ''retry'', wk_result = None, wk_request = Some request_one,
        wk_progress = [(''phase'', PStr ''cancel-recovery-pending''), (''run_id'', PInt 7), (''cancel_recovery_complete'', PBool True)],
        wk_lease = None\<rparr>], ws_world = (), ws_calls = [], ws_reason = None\<rparr>"

text \<open>A request that was reserved and is dispatched next; its allocation is finalized already.\<close>

definition reserved_worker :: "unit worker" where
  "reserved_worker =
     \<lparr>ws_db = [\<lparr>wk_id = ''one'', wk_state = ''retry'', wk_result = None, wk_request = Some request_one,
        wk_progress = [(''phase'', PStr ''reserved''), (''dispatch_package'', PDict (pilot_sample (PStr ''o/r''))),
          (''reserved'', PDict (reserved_response (pilot_package_of (pilot_sample (PStr ''o/r''))) (PInt 1))), (''finalized'', PDict [])],
        wk_lease = None\<rparr>], ws_world = (), ws_calls = [], ws_reason = None\<rparr>"

text \<open>The process stops inside the dispatch and is restarted.\<close>

definition lost_dispatch :: "unit worker" where
  "lost_dispatch =
     (let p = sample_ports (Inr ()) (Inl Halt)
      in snd (run_once p (snd (dbW wk_recover_running (snd (run_once p reserved_worker))))))"

lemma cycle_delivers:
  "ws_calls (snd (run_once (sample_ports (Inr ()) (Inr (PInt 7))) finished_worker)) = [CallComplete ''one'' result_one]"
  by code_simp

lemma cycle_escalates:
  "ws_calls (snd (run_once (sample_ports (Inr ()) (Inr (PInt 7))) cancelled_worker)) = [CallFail ''one'' TIMEOUT_REASON]"
  by code_simp

theorem dispatches_bounded_by_discards_witness:
  "run_dispatches ''one'' (ws_calls lost_dispatch) \<le> 1 + discards ''one'' (ws_calls lost_dispatch)"
proof (rule dispatches_bounded_by_discards)
  show "serves reserved_worker lost_dispatch"
    unfolding lost_dispatch_def Let_def by (intro serves.intros)
  show "ws_calls reserved_worker = []" by (simp add: reserved_worker_def)
qed

theorem one_result_per_request_witness:
  "\<exists>x. CallComplete ''one'' x \<in> set (ws_calls (snd (run_once (sample_ports (Inr ()) (Inr (PInt 7))) finished_worker)))
     \<and> x = result_one"
proof -
  let ?t = "snd (run_once (sample_ports (Inr ()) (Inr (PInt 7))) finished_worker)"
  have "serves finished_worker ?t" by (intro serves.intros)
  moreover have "ws_calls finished_worker = []" by (simp add: finished_worker_def)
  moreover have told: "CallComplete ''one'' result_one \<in> set (ws_calls ?t)" by (simp add: cycle_delivers)
  ultimately show ?thesis using one_result_per_request [OF _ _ _ told] by blast
qed

theorem escalated_timeout_is_absorbing_witness:
  "\<not> (\<exists>x. CallComplete ''one'' x \<in> set (ws_calls (snd (run_once (sample_ports (Inr ()) (Inr (PInt 7))) cancelled_worker))))"
proof -
  let ?t = "snd (run_once (sample_ports (Inr ()) (Inr (PInt 7))) cancelled_worker)"
  have "serves cancelled_worker ?t" by (intro serves.intros)
  moreover have "ws_calls cancelled_worker = []" by (simp add: cancelled_worker_def)
  moreover have "wk_find ''one'' (ws_db cancelled_worker) = Some (hd (ws_db cancelled_worker))"
    by (simp add: cancelled_worker_def select_key_Cons)
  moreover have "escalating (hd (ws_db cancelled_worker))"
    by (simp add: cancelled_worker_def escalating_def escalated_def pget_def)
  ultimately show ?thesis using escalated_timeout_is_absorbing by blast
qed

theorem refused_completion_blocks_the_worker_witness:
  "let p = sample_ports (Inl LocalApprovalError) (Inr (PInt 7))
   in ws_db (((\<lambda>t. snd (run_once p t)) ^^ 5) finished_worker) = ws_db finished_worker"
proof -
  have "refuses (sample_ports (Inl LocalApprovalError) (Inr (PInt 7))) ''one'' result_one"
    by (simp add: refuses_def sample_ports_def)
  moreover have "undelivered (ws_db finished_worker) ''one'' result_one"
    by (simp add: undelivered_def finished_worker_def first_recoverable_def select_key_Cons request_one_def pget_def
        keys_exact_def keys_within_def keys_cover_def pkeys_def)
  ultimately show ?thesis
    using refused_completion_blocks_the_worker [of "sample_ports (Inl LocalApprovalError) (Inr (PInt 7))" "''one''" result_one finished_worker 5]
    by (simp add: Let_def)
qed

end
