(* ===== verification/Spec2Isabelle.thy ===== *)
theory Spec2Isabelle
  imports Worker_Authority Watchdog Gatestore_Ops Registry_Policy Allocation_Flow Check_Transport Autodispatch Approval_Safety Broker_Samples Worker_Samples
begin

text \<open>
  A verification development for the control plane of \<open>self-hosted-ci\<close>, the Python package
  \<open>github_automation\<close>. The program decides, for one exact head of a pull request, whether its CI
  runs on a local single-job runner or on GitHub-hosted runners, makes sure that only one of the
  two can win, and keeps durable evidence of who was allowed to do what. Everything here is
  translated from the source; the theorems are about those translations.

  \<^bold>\<open>The parts and how they interact.\<close> A GateStore (\<open>gatestore.py\<close>) holds, per repository and
  pull request, the generation of the head, and per generation one gate: its lease, its
  admissions, its nonces, its winner, its terminal conclusion and an outbox of Check Run writes. A
  coordinator (\<open>coordinator.py\<close>) drives the store for one gate: it dispatches the local run or
  falls back to hosted runners. A watchdog (\<open>watchdog.py\<close>, over the deadlines of \<open>timing.py\<close>)
  plans the same fallback from the outside. What the coordinator may use is decided by contracts:
  the repository registry (\<open>registry.py\<close>), the writer inventory (\<open>inventory.py\<close>), the execution
  policy (\<open>policy.py\<close>), the authority boundary (\<open>authority_boundary.py\<close>) and the GitHub contracts
  (\<open>github.py\<close>: App authority, dispatch responses, observed jobs, the protocol package, formal
  claims, hosted conclusions). Authority is carried by signed JSON: \<open>crypto.py\<close> canonicalises,
  signs and verifies it, follows the chain of key manifests and refuses a nonce twice. A runner
  allocation (\<open>runner_jit.py\<close>) is such a signed payload; a ledger takes each allocation through
  its life and to a proven cleanup, and a broker (\<open>runner_jit_broker.py\<close>) creates and removes the
  GARM scale set behind it. Which heads run at all is decided by explicit approvals
  (\<open>local_approval.py\<close>), which \<open>pr_autodispatch.py\<close> plans from the open pull requests. The pilot
  worker (\<open>outbound_worker.py\<close>) takes one approved request through reservation, dispatch,
  observation, the monitor of \<open>jit_pilot.py\<close> and the Check Runs of \<open>pilot_checks.py\<close>, and keeps
  each step durable so that a restarted process resumes it.

  \<^bold>\<open>Theories and the code they model.\<close>
  \<^item> \<open>Py_Prelude\<close>: the Python vocabulary the code uses (values, \<open>==\<close>, truth, dictionaries,
    exceptions as sums, the regular expressions as predicates, decimal text), SQL tables as lists
    of rows with an update by primary key (locale \<open>row_update\<close>), and two locales of call
    histories, \<open>call_machine\<close> and \<open>stable_machine\<close>.
  \<^item> \<open>Timing\<close> and \<open>Watchdog\<close>: \<open>timing.py\<close> and \<open>watchdog.py\<close>; \<open>classify_failure\<close>,
    \<open>reconcile\<close> with every early return, \<open>execute_decision\<close> over an abstract adapter.
  \<^item> \<open>Canonical_Json\<close>: \<open>json.dumps(sort_keys, separators)\<close>, with its injectivity.
  \<^item> \<open>Gatestore\<close>, \<open>Gatestore_Safety\<close>, \<open>Gatestore_Ops\<close>: \<open>gatestore.py\<close>. The record
    \<open>gate_store\<close> has one list of rows per table; each method is a function from the store to a
    result and the store after it, with the rollback of its transaction. The second theory proves
    the invariant of the tables and the facts that never become false again (a winner, a terminal
    conclusion, a spent nonce); the third states what each operation does.
  \<^item> \<open>Registry_Policy\<close>: \<open>registry.py\<close>, \<open>inventory.py\<close>, \<open>policy.py\<close>, \<open>authority_boundary.py\<close>.
  \<^item> \<open>Github_Contracts\<close>: \<open>github.py\<close>. Each contract is a sum-valued function, in the order of
    the checks of the source.
  \<^item> \<open>Coordinator\<close>: \<open>coordinator.py\<close>; the command surface, hosted fallback and outbound local
    dispatch over adapters whose answers may depend on every call made before.
  \<^item> \<open>Attestation\<close> and \<open>Attestation_Authority\<close>: \<open>crypto.py\<close>.
  \<^item> \<open>Allocation\<close>, \<open>Allocation_Ledger\<close>, \<open>Ledger_Safety\<close>: \<open>runner_jit.py\<close>; the payload and
    reservation contracts, every operation of the ledger, then the refinement of an abstract
    life cycle of allocations and the invariant behind it.
  \<^item> \<open>Allocation_Flow\<close>: the coordinator and the ledger composed; sign and verify as one trip.
  \<^item> \<open>Py_Time\<close>: the calendar behind \<open>isoformat\<close>; a stamp reads back as its instant, and the
    order of stamps as texts is the order of the instants.
  \<^item> \<open>Check_Delivery\<close> and \<open>Check_Transport\<close>: \<open>check_delivery.py\<close>, one PATCH with its read-back, and
    the Check Run transport of \<open>github_adapter.py\<close> under it, whose token is checked before every
    request; what a delivery leaves behind rests on the documented HTTP interface only.
  \<^item> \<open>Autodispatch\<close>: \<open>pr_autodispatch.py\<close>, the planner of approvals and revocations.
  \<^item> \<open>Jit_Pilot\<close>: \<open>jit_pilot.py\<close>, the pilot package, its revalidation and the run monitor.
  \<^item> \<open>Local_Approval\<close> and \<open>Approval_Safety\<close>: \<open>local_approval.py\<close>, its three tables; every
    transaction moves a row along one edge of a small machine.
  \<^item> \<open>Py_Effects\<close>: computations over a state that end in a value or an exception and keep the state
    in both cases, with weakest preconditions; the broker and the worker are written in it.
  \<^item> \<open>Runner_Broker\<close>, \<open>Broker_Safety\<close>, \<open>Broker_Samples\<close>: \<open>runner_jit_broker.py\<close> over the ledger,
    what it promises, and a concrete GARM for the witnesses.
  \<^item> \<open>Pilot_Checks\<close> and \<open>Checks_Safety\<close>: \<open>pilot_checks.py\<close>, the verdicts read from a job log, the
    Check Runs client and the publisher.
  \<^item> \<open>Worker_Errors\<close>, \<open>Worker_State\<close>, \<open>Pilot_Worker\<close>: \<open>outbound_worker.py\<close>, its exceptions, its
    durable table and the worker's cycle over ports.
  \<^item> \<open>Worker_Authority\<close>: \<open>worker_authority.py\<close>, the App client at fixed endpoints over an abstract
    transport; what it lists and which run it may cancel.
  \<^item> \<open>Worker_Steady\<close>, \<open>Worker_Rows\<close>: locales that carry an invariant of the worker's state, or of
    the row of one request, through every operation of the cycle.
  \<^item> \<open>Worker_Dispatch\<close>, \<open>Worker_Cancel\<close>, \<open>Worker_Safety\<close>, \<open>Worker_Samples\<close>: how often a run is
    dispatched, escalated cancellations, results across restarts, and the concrete runs.

  \<^bold>\<open>Conventions.\<close> A dictionary is an association list in insertion order, so that iteration order
  is the code's. A call that may raise returns \<open>Inl\<close> the exception; each exception class is a
  constructor of the error type of its module, and an exception the code does not mean to raise
  (\<open>TypeError\<close>, \<open>UnboundLocalError\<close>) is a constructor as well. Integers are unbounded, as in
  Python; a \<open>datetime\<close> is an instant in microseconds, aware or naive. A table keeps its rows in
  the order of their insertion; an SQL statement is a function on the list that keeps or violates
  the constraints the schema names. One \<open>BEGIN IMMEDIATE\<close> transaction is one step, since SQLite
  serialises writers; a fault hook inside it aborts the transaction.

  \<^bold>\<open>Parameters.\<close> Code that is not in the repository is an argument: \<open>datetime.fromisoformat\<close>,
  SHA-256, the signature primitives of \<open>cryptography\<close>, the GitHub API, the clock. Where a theorem
  needs a documented law of one of them (a digest does not collide, a verifier accepts what the
  matching signer made, a parsed stamp is its own text) the law is a hypothesis of that theorem, and
  its witness discharges it on a concrete function.

  \<^bold>\<open>Loops and fuel.\<close> Loops over data are structural recursion and need no bound. The loops that
  poll the outside (\<open>monitor_loop\<close>, \<open>wait_for_observation\<close>, \<open>wait_for_cleanup\<close>) end by a clock
  that the model does not own, so they carry fuel, and running out of it is a value of its own
  (\<open>None\<close>, \<open>BrWaiting\<close>, \<open>Waiting\<close>). For the waits of the broker \<open>Broker_Safety\<close> gives the fuel that
  is enough from the timeout and the pause when every pause advances the clock; the monitor may
  really spin for ever, which is a theorem of \<open>Jit_Pilot\<close>. The safety theorems hold for every
  fuel. All operations are total functions and their error branches are values.

  \<^bold>\<open>Not modelled.\<close> Sockets, subprocesses, files and their permissions, the command lines, the
  SQLite engine below its transactions, JSON text parsing, and the modules that are mainly such
  effects: the HTTP transports under the GitHub clients, the token minting and the dispatch client of
  \<open>github_adapter.py\<close>, the canary and bootstrap boundaries, host security, the agent
  operator, the images and the installation scripts. The host's service that joins the worker's
  ports to GitHub (\<open>outbound-coordinator-worker.py\<close>) is represented by those ports only. The
  manifest lists each part with its reason.
\<close>

end
